(* ===== verification/Rust_Prelude.thy ===== *)
theory Rust_Prelude
  imports
    Main
    "HOL-Library.Word"
    "HOL-Library.Char_ord"
    "HOL-Library.List_Lexorder"
    "HOL-Library.Product_Lexorder"
begin

text \<open>
  What the crates use of Rust and its standard library: fixed-width unsigned integers with
  their checked, saturating and rounding operations, \<open>Result\<close> with the \<open>?\<close> operator, \<open>for\<close>
  loops that return early, \<open>BTreeMap\<close> as a strictly sorted association list, \<open>str::trim\<close> on
  UTF-8 bytes; and a locale for transition systems with an invariant.
\<close>

named_theorems u64_simps \<open>integer operations read as natural numbers\<close>
named_theorems result_simps \<open>when a computation with early returns succeeds or fails\<close>
named_theorems map_simps \<open>ordered maps after an insertion\<close>

section \<open>Machine integers\<close>

type_synonym u8 = "8 word"
type_synonym u16 = "16 word"
type_synonym u32 = "32 word"
type_synonym u64 = "64 word"
type_synonym u128 = "128 word"

definition checked_add :: "'a::len word \<Rightarrow> 'a word \<Rightarrow> 'a word option" where
  "checked_add a b = (if unat a + unat b < 2 ^ LENGTH('a) then Some (a + b) else None)"

definition checked_sub :: "'a::len word \<Rightarrow> 'a word \<Rightarrow> 'a word option" where
  "checked_sub a b = (if b \<le> a then Some (a - b) else None)"

definition checked_mul :: "'a::len word \<Rightarrow> 'a word \<Rightarrow> 'a word option" where
  "checked_mul a b = (if unat a * unat b < 2 ^ LENGTH('a) then Some (a * b) else None)"

definition saturating_add :: "'a::len word \<Rightarrow> 'a word \<Rightarrow> 'a word" where
  "saturating_add a b = (if unat a + unat b < 2 ^ LENGTH('a) then a + b else - 1)"

definition saturating_sub :: "'a::len word \<Rightarrow> 'a word \<Rightarrow> 'a word" where
  "saturating_sub a b = (if b \<le> a then a - b else 0)"

definition saturating_mul :: "'a::len word \<Rightarrow> 'a word \<Rightarrow> 'a word" where
  "saturating_mul a b = (if unat a * unat b < 2 ^ LENGTH('a) then a * b else - 1)"

text \<open>\<open>div_ceil\<close> as the standard library computes it, quotient and remainder; the divisor of
  every call in the crates is positive.\<close>

definition div_ceil :: "'a::len word \<Rightarrow> 'a word \<Rightarrow> 'a word" where
  "div_ceil a b = (if a mod b > 0 then a div b + 1 else a div b)"

lemma unat_max_word: "unat (- 1 :: 'a::len word) = 2 ^ LENGTH('a) - 1"
  by (simp add: unsigned_minus_1_eq_mask mask_eq_exp_minus_1)

lemma unat_le_max: "unat (a :: 'a::len word) \<le> 2 ^ LENGTH('a) - 1"
  using unsigned_less [of a] by (metis less_imp_Suc_add add_leD1 diff_Suc_1 le_add1)

lemma u64_bound: "unat (w :: u64) < 2 ^ 64"
proof -
  have "unat w < 2 ^ LENGTH(64)" by (rule unsigned_less)
  then show ?thesis by simp
qed

lemma checked_add_eq_Some [u64_simps]:
  "checked_add a b = Some c \<longleftrightarrow> unat c = unat a + unat b"
proof
  assume "checked_add a b = Some c"
  then show "unat c = unat a + unat b"
    by (auto simp: checked_add_def unat_word_ariths split: if_splits)
next
  assume *: "unat c = unat a + unat b"
  moreover have "unat c < 2 ^ LENGTH('a)" by (rule unsigned_less)
  ultimately have "unat (a + b) = unat c" by (simp add: unat_word_ariths)
  then have "c = a + b" by (simp add: word_unat_eq_iff)
  with * \<open>unat c < 2 ^ LENGTH('a)\<close> show "checked_add a b = Some c"
    by (simp add: checked_add_def)
qed

lemma checked_add_eq_None [u64_simps]:
  "checked_add a (b :: 'a::len word) = None \<longleftrightarrow> 2 ^ LENGTH('a) \<le> unat a + unat b"
  by (simp add: checked_add_def linorder_not_less)

lemma checked_add_fits:
  "unat a + unat b < 2 ^ LENGTH('a) \<Longrightarrow> checked_add a (b :: 'a::len word) = Some (a + b)"
  by (simp add: checked_add_def)

lemma unat_add_fits:
  "unat a + unat b < 2 ^ LENGTH('a) \<Longrightarrow> unat (a + b :: 'a::len word) = unat a + unat b"
  by (simp add: unat_word_ariths)

lemma word_of_bounded:
  assumes "n \<le> unat (t :: 'a::len word)"
  shows "\<exists>y :: 'a word. unat y = n"
proof -
  have "n < 2 ^ LENGTH('a)" using assms unsigned_less by (rule le_less_trans)
  then show ?thesis by (intro exI [of _ "of_nat n"]) (simp add: unat_of_nat)
qed

text \<open>The same tests without natural-number powers, for evaluation.\<close>

lemma checked_add_code [code]: "checked_add a b = (let c = a + b in if a \<le> c then Some c else None)"
proof (cases "unat a + unat b < 2 ^ LENGTH('a)")
  case True
  then show ?thesis by (simp add: checked_add_def word_le_nat_alt unat_add_fits)
next
  case False
  have "unat a < 2 ^ LENGTH('a)" "unat b < 2 ^ LENGTH('a)" by (rule unsigned_less)+
  then have small: "unat a + unat b - 2 ^ LENGTH('a) < 2 ^ LENGTH('a)" by linarith
  have "unat (a + b) = (unat a + unat b) mod 2 ^ LENGTH('a)" by (simp add: unat_word_ariths)
  also have "\<dots> = unat a + unat b - 2 ^ LENGTH('a)"
    using False small by (simp add: le_mod_geq)
  finally have "\<not> unat a \<le> unat (a + b)"
    using False \<open>unat b < 2 ^ LENGTH('a)\<close> by linarith
  then have "\<not> a \<le> a + b" by (simp add: word_le_nat_alt)
  with False show ?thesis by (simp add: checked_add_def)
qed

lemma checked_mul_code [code]:
  "checked_mul a b = (let c = a * b in if uint c = uint a * uint b then Some c else None)"
proof -
  have u: "uint x = int (unat x)" for x :: "'a word" by simp
  have "uint (a * b) = uint a * uint b \<longleftrightarrow> int (unat (a * b)) = int (unat a * unat b)"
    by (subst (1 2 3) u) (rule arg_cong [where f = "(=) _"], simp)
  also have "\<dots> \<longleftrightarrow> unat (a * b) = unat a * unat b" by (rule of_nat_eq_iff)
  also have "\<dots> \<longleftrightarrow> unat a * unat b < 2 ^ LENGTH('a)"
  proof
    assume "unat (a * b) = unat a * unat b"
    moreover have "unat (a * b) < 2 ^ LENGTH('a)" by (rule unsigned_less)
    ultimately show "unat a * unat b < 2 ^ LENGTH('a)" by simp
  qed (simp add: unat_word_ariths)
  finally show ?thesis by (simp add: checked_mul_def Let_def)
qed

lemma saturating_code [code]:
  "saturating_add a b = (case checked_add a b of None \<Rightarrow> - 1 | Some c \<Rightarrow> c)"
  "saturating_mul a b = (case checked_mul a b of None \<Rightarrow> - 1 | Some c \<Rightarrow> c)"
  by (simp_all add: saturating_add_def saturating_mul_def checked_add_def checked_mul_def)

text \<open>Chains \<open>a.checked_add(b).and_then(|v| v.checked_add(c))\<close>.\<close>

lemma checked_sum_step:
  fixes a c z :: "'a::len word"
  assumes "\<And>y. m = Some y \<longleftrightarrow> unat (y :: 'a word) = k"
  shows "Option.bind m (\<lambda>v. checked_add v c) = Some z \<longleftrightarrow> unat z = k + unat c"
proof
  assume z: "unat z = k + unat c"
  have "c \<le> z" using z by (simp add: word_le_nat_alt)
  then have "unat (z - c) = k" using z by (simp add: unat_sub)
  then have "m = Some (z - c)" by (simp add: assms)
  moreover have "checked_add (z - c) c = Some z"
    using z \<open>unat (z - c) = k\<close> by (simp add: checked_add_eq_Some)
  ultimately show "Option.bind m (\<lambda>v. checked_add v c) = Some z" by simp
qed (auto simp: bind_eq_Some_conv assms checked_add_eq_Some)

lemma checked_sum3 [u64_simps]:
  "Option.bind (checked_add a b) (\<lambda>v. checked_add v c) = Some z \<longleftrightarrow>
     unat z = unat a + unat b + unat c"
  by (rule checked_sum_step) (rule checked_add_eq_Some)

lemma checked_sum4 [u64_simps]:
  "Option.bind (checked_add a b) (\<lambda>v. Option.bind (checked_add v c) (\<lambda>w. checked_add w d)) = Some z
     \<longleftrightarrow> unat z = unat a + unat b + unat c + unat d"
  unfolding Option.bind_assoc [symmetric] by (rule checked_sum_step) (rule checked_sum3)

lemma checked_sub_eq_Some [u64_simps]:
  "checked_sub a b = Some c \<longleftrightarrow> unat a = unat c + unat b"
proof
  assume "checked_sub a b = Some c"
  then show "unat a = unat c + unat b"
    by (auto simp: checked_sub_def unat_sub word_le_nat_alt split: if_splits)
next
  assume *: "unat a = unat c + unat b"
  then have "b \<le> a" by (simp add: word_le_nat_alt)
  then have "unat (a - b) = unat c" using * by (simp add: unat_sub)
  then show "checked_sub a b = Some c" using \<open>b \<le> a\<close>
    by (simp add: checked_sub_def word_unat_eq_iff)
qed

lemma checked_sub_eq_None [u64_simps]: "checked_sub a b = None \<longleftrightarrow> unat a < unat b"
  by (simp add: checked_sub_def word_le_nat_alt linorder_not_le)

lemma checked_mul_eq_Some [u64_simps]:
  "checked_mul a b = Some c \<longleftrightarrow> unat c = unat a * unat b"
proof
  assume "checked_mul a b = Some c"
  then show "unat c = unat a * unat b"
    by (auto simp: checked_mul_def unat_word_ariths split: if_splits)
next
  assume *: "unat c = unat a * unat b"
  moreover have "unat c < 2 ^ LENGTH('a)" by (rule unsigned_less)
  ultimately have "unat (a * b) = unat c" by (simp add: unat_word_ariths)
  then have "c = a * b" by (simp add: word_unat_eq_iff)
  with * \<open>unat c < 2 ^ LENGTH('a)\<close> show "checked_mul a b = Some c"
    by (simp add: checked_mul_def)
qed

lemma unat_saturating_sub [u64_simps]: "unat (saturating_sub a b) = unat a - unat b"
  by (auto simp: saturating_sub_def unat_sub word_le_nat_alt)

lemma unat_saturating_add [u64_simps]:
  "unat (saturating_add a b :: 'a::len word) = min (unat a + unat b) (2 ^ LENGTH('a) - 1)"
  by (auto simp: saturating_add_def unat_word_ariths unat_max_word min_def)

lemma unat_saturating_mul [u64_simps]:
  "unat (saturating_mul a b :: 'a::len word) = min (unat a * unat b) (2 ^ LENGTH('a) - 1)"
proof (cases "unat a * unat b < 2 ^ LENGTH('a)")
  case True
  then have "unat a * unat b \<le> 2 ^ LENGTH('a) - 1" by linarith
  with True show ?thesis by (simp add: saturating_mul_def unat_word_ariths)
next
  case False
  then have "2 ^ LENGTH('a) - 1 \<le> unat a * unat b" by linarith
  with False show ?thesis by (simp add: saturating_mul_def unat_max_word)
qed

lemma mult_add_div_nat: "(r :: nat) < b \<Longrightarrow> (q * b + r) div b = q"
  by simp

lemma unat_div_ceil:
  fixes a b :: "'a::len word"
  assumes "0 < b"
  shows "unat (div_ceil a b) = (unat a + unat b - 1) div unat b"
proof -
  let ?q = "unat a div unat b" and ?r = "unat a mod unat b"
  have b: "0 < unat b" using assms by (simp add: unat_gt_0 word_gt_0_no)
  have ab: "unat a = ?q * unat b + ?r" by simp
  have lt: "?r < unat b" using b by simp
  show ?thesis
  proof (cases "?r = 0")
    case True
    then have z: "a mod b = 0" by (simp add: word_unat_eq_iff unat_mod)
    have "(unat a + unat b - 1) div unat b = ?q"
    proof -
      have "unat a + unat b - 1 = ?q * unat b + (unat b - 1)" using ab True b by linarith
      moreover have "unat b - 1 < unat b" using b by linarith
      ultimately show ?thesis by (simp only: mult_add_div_nat)
    qed
    with z show ?thesis by (simp add: div_ceil_def unat_div)
  next
    case False
    then have nz: "a mod b > 0" by (simp add: word_less_nat_alt unat_mod)
    have up: "?q + 1 \<le> unat a"
    proof -
      have "?q * 1 \<le> ?q * unat b" using b by (intro mult_le_mono) auto
      then show ?thesis using ab False by linarith
    qed
    have "?q + 1 < 2 ^ LENGTH('a)" using up unsigned_less [of a] by (rule le_less_trans)
    then have "unat (a div b + 1) = ?q + 1"
      by (subst unat_add_fits) (simp_all add: unat_div)
    moreover have "(unat a + unat b - 1) div unat b = ?q + 1"
    proof -
      have "unat a + unat b - 1 = (?q + 1) * unat b + (?r - 1)" using ab False by simp
      moreover have "?r - 1 < unat b" using lt by linarith
      ultimately show ?thesis by (simp only: mult_add_div_nat)
    qed
    ultimately show ?thesis using nz by (simp add: div_ceil_def)
  qed
qed

section \<open>Big-endian bytes\<close>

definition to_be_bytes :: "u64 \<Rightarrow> u8 list" where
  "to_be_bytes w = map (\<lambda>i. ucast (drop_bit (8 * i) w)) [7, 6, 5, 4, 3, 2, 1, 0]"

definition from_be_bytes :: "u8 list \<Rightarrow> u64" where
  "from_be_bytes bytes = foldl (\<lambda>w b. push_bit 8 w + ucast b) 0 bytes"

lemma byte_of_word: "ucast (ucast (x :: u64) :: u8) = take_bit 8 x"
  by (rule bit_word_eqI) (auto simp: bit_simps)

lemma last_byte: "push_bit 8 (drop_bit 8 x) + ucast (ucast (x :: u64) :: u8) = x"
  unfolding byte_of_word by (rule bits_ident)

lemma next_byte:
  "push_bit 8 (drop_bit (8 * Suc i) w) + ucast (ucast (drop_bit (8 * i) (w :: u64)) :: u8) = drop_bit (8 * i) w"
  using last_byte [of "drop_bit (8 * i) w"] by (simp add: drop_bit_drop_bit add.commute)

lemma first_byte: "ucast (ucast (drop_bit 56 (w :: u64)) :: u8) = drop_bit 56 w"
  unfolding byte_of_word by (rule bit_word_eqI) (auto simp: bit_simps dest: bit_imp_le_length)

lemma be_bytes_inverse: "from_be_bytes (to_be_bytes w) = w"
  using next_byte [of 6 w] next_byte [of 5 w] next_byte [of 4 w] next_byte [of 3 w] next_byte [of 2 w]
    next_byte [of 1 w] next_byte [of 0 w]
  by (simp add: to_be_bytes_def from_be_bytes_def first_byte)

lemma length_be_bytes [simp]: "length (to_be_bytes w) = 8"
  by (simp add: to_be_bytes_def)

section \<open>Results and early returns\<close>

text \<open>\<open>Result<T, E>\<close> is \<open>'e + 'a\<close> with \<open>Inl\<close> for \<open>Err\<close>. A \<open>&mut self\<close> method returns its
  result together with the receiver as it is when the method returns, so an error that leaves
  after a field was written is visible in the model. \<open>attempt\<close> is the \<open>?\<close> operator on a pure
  result and \<open>attempt_mut\<close> the \<open>?\<close> operator on a call that may write the receiver.\<close>

definition ok_or :: "'a option \<Rightarrow> 'e \<Rightarrow> 'e + 'a" where
  "ok_or x e = (case x of None \<Rightarrow> Inl e | Some v \<Rightarrow> Inr v)"

definition and_then :: "'e + 'a \<Rightarrow> ('a \<Rightarrow> 'e + 'b) \<Rightarrow> 'e + 'b" where
  "and_then r k = (case r of Inl e \<Rightarrow> Inl e | Inr x \<Rightarrow> k x)"

definition map_err :: "('e \<Rightarrow> 'f) \<Rightarrow> 'e + 'a \<Rightarrow> 'f + 'a" where
  "map_err f r = (case r of Inl e \<Rightarrow> Inl (f e) | Inr x \<Rightarrow> Inr x)"

definition attempt :: "'e + 'a \<Rightarrow> 's \<Rightarrow> ('a \<Rightarrow> ('e + 'b) \<times> 's) \<Rightarrow> ('e + 'b) \<times> 's" where
  "attempt r s k = (case r of Inl e \<Rightarrow> (Inl e, s) | Inr x \<Rightarrow> k x)"

definition attempt_mut :: "('e + 'a) \<times> 's \<Rightarrow> ('a \<Rightarrow> 's \<Rightarrow> ('e + 'b) \<times> 's) \<Rightarrow> ('e + 'b) \<times> 's" where
  "attempt_mut p k = (case p of (Inl e, s) \<Rightarrow> (Inl e, s) | (Inr x, s) \<Rightarrow> k x s)"

text \<open>\<open>?\<close> on a method of a local value: an error leaves the receiver as it is.\<close>

definition attempt_local ::
    "('e + 'a) \<times> 'l \<Rightarrow> 's \<Rightarrow> ('a \<Rightarrow> 'l \<Rightarrow> ('e + 'b) \<times> 's) \<Rightarrow> ('e + 'b) \<times> 's" where
  "attempt_local p s k = (case p of (Inl e, l) \<Rightarrow> (Inl e, s) | (Inr x, l) \<Rightarrow> k x l)"

lemma ok_or_simps [simp]: "ok_or None e = Inl e" "ok_or (Some v) e = Inr v"
  by (simp_all add: ok_or_def)

lemma ok_or_eq [result_simps]:
  "ok_or x e = Inr v \<longleftrightarrow> x = Some v"
  "ok_or x e = Inl d \<longleftrightarrow> x = None \<and> d = e"
  by (auto simp: ok_or_def split: option.splits)

lemma and_then_simps [simp]: "and_then (Inl e) k = Inl e" "and_then (Inr x) k = k x"
  by (simp_all add: and_then_def)

lemma and_then_eq [result_simps]:
  "and_then r k = Inr y \<longleftrightarrow> (\<exists>x. r = Inr x \<and> k x = Inr y)"
  "and_then r k = Inl e \<longleftrightarrow> r = Inl e \<or> (\<exists>x. r = Inr x \<and> k x = Inl e)"
  by (auto simp: and_then_def split: sum.splits)

lemma map_err_eq [result_simps]:
  "map_err f r = Inr x \<longleftrightarrow> r = Inr x"
  "map_err f r = Inl d \<longleftrightarrow> (\<exists>e. r = Inl e \<and> d = f e)"
  by (auto simp: map_err_def split: sum.splits)

lemma map_err_simps [simp]: "map_err f (Inl e) = Inl (f e)" "map_err f (Inr x) = Inr x"
  by (simp_all add: map_err_def)

lemma on_error_eq:
  "apfst (map_err f) p = (Inr x, w) \<longleftrightarrow> p = (Inr x, w)"
  "apfst (map_err f) p = (Inl e, w) \<longleftrightarrow> (\<exists>d. p = (Inl d, w) \<and> e = f d)"
  by (cases p; cases "fst p"; auto simp: map_err_def)+

lemma attempt_simps [simp]: "attempt (Inl e) s k = (Inl e, s)" "attempt (Inr x) s k = k x"
  by (simp_all add: attempt_def)

lemma attempt_eq [result_simps]:
  "attempt r s k = (Inr y, t) \<longleftrightarrow> (\<exists>x. r = Inr x \<and> k x = (Inr y, t))"
  "attempt r s k = (Inl e, t) \<longleftrightarrow>
     r = Inl e \<and> t = s \<or> (\<exists>x. r = Inr x \<and> k x = (Inl e, t))"
  by (auto simp: attempt_def split: sum.splits)

lemma attempt_mut_simps [simp]:
  "attempt_mut (Inl e, s) k = (Inl e, s)" "attempt_mut (Inr x, s) k = k x s"
  by (simp_all add: attempt_mut_def)

lemma attempt_mut_eq [result_simps]:
  "attempt_mut p k = (Inr y, t) \<longleftrightarrow> (\<exists>x s. p = (Inr x, s) \<and> k x s = (Inr y, t))"
  "attempt_mut p k = (Inl e, t) \<longleftrightarrow>
     p = (Inl e, t) \<or> (\<exists>x s. p = (Inr x, s) \<and> k x s = (Inl e, t))"
  by (auto simp: attempt_mut_def split: sum.splits prod.splits)

lemma attempt_local_simps [simp]:
  "attempt_local (Inl e, l) s k = (Inl e, s)" "attempt_local (Inr x, l) s k = k x l"
  by (simp_all add: attempt_local_def)

lemma attempt_local_eq [result_simps]:
  "attempt_local p s k = (Inr y, t) \<longleftrightarrow> (\<exists>x l. p = (Inr x, l) \<and> k x l = (Inr y, t))"
  "attempt_local p s k = (Inl e, t) \<longleftrightarrow>
     (\<exists>l. p = (Inl e, l) \<and> t = s) \<or> (\<exists>x l. p = (Inr x, l) \<and> k x l = (Inl e, t))"
  by (auto simp: attempt_local_def split: sum.splits prod.splits)

lemma if_error_eq [result_simps]:
  "(if c then Inl e else r) = Inr y \<longleftrightarrow> \<not> c \<and> r = Inr y"
  "(if c then (Inl e, s) else p) = (Inr y, t) \<longleftrightarrow> \<not> c \<and> p = (Inr y, t)"
  by auto

section \<open>Outcomes of a computation\<close>

text \<open>
  \<open>outcome p E P\<close>: if the computation fails, the world it leaves satisfies \<open>E\<close>, otherwise its value and
  world satisfy \<open>P\<close>. The rules push it through the code, statement by statement.
\<close>

definition outcome :: "('e + 'a) \<times> 'w \<Rightarrow> ('w \<Rightarrow> bool) \<Rightarrow> ('a \<Rightarrow> 'w \<Rightarrow> bool) \<Rightarrow> bool" where
  "outcome p E P \<longleftrightarrow> (case fst p of Inl e \<Rightarrow> E (snd p) | Inr x \<Rightarrow> P x (snd p))"

named_theorems outcome_simps

lemma outcome_results [simp]: "outcome (Inl e, w) E P \<longleftrightarrow> E w" "outcome (Inr x, w) E P \<longleftrightarrow> P x w"
  by (simp_all add: outcome_def)

lemma outcome_attempt_mut [outcome_simps]:
  "outcome (attempt_mut p k) E P \<longleftrightarrow> outcome p E (\<lambda>x w. outcome (k x w) E P)"
  by (cases p; cases "fst p") auto

lemma outcome_attempt [outcome_simps]:
  "outcome (attempt r w k) E P \<longleftrightarrow> (case r of Inl e \<Rightarrow> E w | Inr x \<Rightarrow> outcome (k x) E P)"
  by (cases r) auto

lemma outcome_if [outcome_simps]:
  "outcome (if c then p else q) E P \<longleftrightarrow> (c \<longrightarrow> outcome p E P) \<and> (\<not> c \<longrightarrow> outcome q E P)"
  by simp

lemma outcome_mono:
  assumes "outcome p E P" "\<And>w. E w \<Longrightarrow> E' w" "\<And>x w. P x w \<Longrightarrow> P' x w"
  shows "outcome p E' P'"
  using assms by (auto simp: outcome_def split: sum.splits)

lemma outcomeD:
  assumes "outcome p E P"
  shows "p = (Inl e, w) \<Longrightarrow> E w" "p = (Inr x, w) \<Longrightarrow> P x w"
  using assms by auto

section \<open>Loops that return early\<close>

fun try_fold :: "('x \<Rightarrow> 's \<Rightarrow> 'e + 's) \<Rightarrow> 'x list \<Rightarrow> 's \<Rightarrow> 'e + 's" where
  "try_fold f [] s = Inr s"
| "try_fold f (x # xs) s = and_then (f x s) (try_fold f xs)"

lemma try_fold_append [simp]:
  "try_fold f (xs @ ys) s = and_then (try_fold f xs s) (try_fold f ys)"
  by (induction xs arbitrary: s) (auto simp: and_then_def split: sum.splits)

lemma try_fold_invariant:
  assumes "try_fold f xs s = Inr t" "P s"
    and "\<And>x u v. x \<in> set xs \<Longrightarrow> P u \<Longrightarrow> f x u = Inr v \<Longrightarrow> P v"
  shows "P t"
  using assms
proof (induction xs arbitrary: s)
  case (Cons x xs)
  then obtain u where u: "f x s = Inr u" "try_fold f xs u = Inr t"
    by (auto simp: result_simps)
  moreover have "P u" using Cons.prems(2,3) u(1) by auto
  ultimately show ?case using Cons.IH [of u] Cons.prems(3) by auto
qed auto

lemma try_fold_cong:
  assumes "\<And>x s. x \<in> set xs \<Longrightarrow> f x s = g x s"
  shows "try_fold f xs s = try_fold g xs s"
  using assms by (induction xs arbitrary: s) (auto simp: and_then_def split: sum.splits)

section \<open>Transition systems with an invariant\<close>

locale invariant_system =
  fixes init :: "'s \<Rightarrow> bool"
    and step :: "'s \<Rightarrow> 's \<Rightarrow> bool"
    and inv :: "'s \<Rightarrow> bool"
  assumes inv_init: "init s \<Longrightarrow> inv s"
    and inv_step: "inv s \<Longrightarrow> step s t \<Longrightarrow> inv t"
begin

lemma inv_run: "rtranclp step s t \<Longrightarrow> inv s \<Longrightarrow> inv t"
  by (induction rule: rtranclp_induct) (auto intro: inv_step)

lemma inv_reachable: "init s \<Longrightarrow> rtranclp step s t \<Longrightarrow> inv t"
  by (blast intro: inv_run inv_init)

end

end
