(* ===== verification/Rust_String.thy ===== *)
theory Rust_String
  imports Rust_Prelude
begin

text \<open>
  Rust strings as their UTF-8 bytes (\<open>string\<close> is a list of bytes in HOL), so that \<open>len()\<close>,
  equality and the order of \<open>BTreeMap<String, _>\<close> are bytewise as in Rust. \<open>str::trim\<close> removes
  the characters of Unicode property \<open>White_Space\<close>; their encodings are listed in
  \<open>white_space\<close>. UTF-8 is self-synchronising, so cutting encodings off the end of the byte
  string cuts whole characters off.
\<close>

definition white_space :: "string list" where
  "white_space =
     [[CHR 0x20], [CHR 0x09], [CHR 0x0A], [CHR 0x0B], [CHR 0x0C], [CHR 0x0D],
      [CHR 0xC2, CHR 0x85], [CHR 0xC2, CHR 0xA0], [CHR 0xE1, CHR 0x9A, CHR 0x80],
      [CHR 0xE2, CHR 0x80, CHR 0x80], [CHR 0xE2, CHR 0x80, CHR 0x81],
      [CHR 0xE2, CHR 0x80, CHR 0x82], [CHR 0xE2, CHR 0x80, CHR 0x83],
      [CHR 0xE2, CHR 0x80, CHR 0x84], [CHR 0xE2, CHR 0x80, CHR 0x85],
      [CHR 0xE2, CHR 0x80, CHR 0x86], [CHR 0xE2, CHR 0x80, CHR 0x87],
      [CHR 0xE2, CHR 0x80, CHR 0x88], [CHR 0xE2, CHR 0x80, CHR 0x89],
      [CHR 0xE2, CHR 0x80, CHR 0x8A], [CHR 0xE2, CHR 0x80, CHR 0xA8],
      [CHR 0xE2, CHR 0x80, CHR 0xA9], [CHR 0xE2, CHR 0x80, CHR 0xAF],
      [CHR 0xE2, CHR 0x81, CHR 0x9F], [CHR 0xE3, CHR 0x80, CHR 0x80]]"

fun has_prefix :: "string \<Rightarrow> string \<Rightarrow> bool" where
  "has_prefix [] s = True"
| "has_prefix (p # ps) [] = False"
| "has_prefix (p # ps) (c # cs) = (p = c \<and> has_prefix ps cs)"

fun cut_prefix :: "string list \<Rightarrow> string \<Rightarrow> string option" where
  "cut_prefix [] s = None"
| "cut_prefix (w # ws) s =
     (if w \<noteq> [] \<and> has_prefix w s then Some (drop (length w) s) else cut_prefix ws s)"

lemma has_prefix_iff: "has_prefix p s \<longleftrightarrow> (\<exists>t. s = p @ t)"
  by (induction p s rule: has_prefix.induct) auto

lemma cut_prefix_shorter: "cut_prefix ws s = Some t \<Longrightarrow> length t < length s"
  by (induction ws) (auto simp: has_prefix_iff split: if_splits)

lemma cut_prefix_None: "cut_prefix ws s = None \<longleftrightarrow> (\<forall>w \<in> set ws. w = [] \<or> \<not> has_prefix w s)"
  by (induction ws) auto

function trim_start_of :: "string list \<Rightarrow> string \<Rightarrow> string" where
  "trim_start_of ws s = (case cut_prefix ws s of None \<Rightarrow> s | Some t \<Rightarrow> trim_start_of ws t)"
  by pat_completeness auto
termination
  by (relation "measure (\<lambda>(ws, s). length s)") (auto dest: cut_prefix_shorter)

declare trim_start_of.simps [simp del]

definition trim_start :: "string \<Rightarrow> string" where
  "trim_start s = trim_start_of white_space s"

definition trim_end :: "string \<Rightarrow> string" where
  "trim_end s = rev (trim_start_of (map rev white_space) (rev s))"

definition trim :: "string \<Rightarrow> string" where
  "trim s = trim_end (trim_start s)"

text \<open>\<open>s.trim().is_empty()\<close>, the guard of every identifier the crates accept.\<close>

definition is_blank :: "string \<Rightarrow> bool" where
  "is_blank s \<longleftrightarrow> trim s = []"

lemma trim_start_of_suffix: "\<exists>u. s = u @ trim_start_of ws s"
proof (induction ws s rule: trim_start_of.induct)
  case (1 ws s)
  have cut: "\<exists>u. s = u @ t" if "cut_prefix ws s = Some t" for t
    using that by (induction ws) (auto simp: has_prefix_iff split: if_splits)
  show ?case
  proof (cases "cut_prefix ws s")
    case (Some t)
    with 1 obtain u where "t = u @ trim_start_of ws t" by blast
    moreover from cut [OF Some] obtain v where "s = v @ t" by blast
    ultimately have "s = (v @ u) @ trim_start_of ws t" by simp
    moreover have "trim_start_of ws s = trim_start_of ws t"
      using Some by (simp add: trim_start_of.simps [of ws s])
    ultimately show ?thesis by metis
  qed (simp add: trim_start_of.simps)
qed

lemma trim_start_of_stuck: "cut_prefix ws (trim_start_of ws s) = None"
proof (induction ws s rule: trim_start_of.induct)
  case (1 ws s)
  then show ?case
    by (cases "cut_prefix ws s") (simp_all add: trim_start_of.simps [of ws s])
qed

lemma trim_start_of_id: "cut_prefix ws s = None \<Longrightarrow> trim_start_of ws s = s"
  by (simp add: trim_start_of.simps)

lemma trim_end_prefix: "\<exists>u. s = trim_end s @ u"
proof -
  obtain u where "rev s = u @ trim_start_of (map rev white_space) (rev s)"
    using trim_start_of_suffix by blast
  then have "s = trim_end s @ rev u"
    by (metis rev_append rev_rev_ident trim_end_def)
  then show ?thesis by blast
qed

lemma trim_start_stuck: "cut_prefix white_space (trim_start s) = None"
  by (simp add: trim_start_def trim_start_of_stuck)

lemma cut_prefix_shrink:
  "cut_prefix ws (s @ t) = None \<Longrightarrow> cut_prefix ws s = None"
  by (auto simp: cut_prefix_None has_prefix_iff)

lemma trim_trim: "trim (trim s) = trim s"
proof -
  obtain u where "trim_start s = trim s @ u"
    using trim_end_prefix [of "trim_start s"] by (auto simp: trim_def)
  then have "cut_prefix white_space (trim s) = None"
    using trim_start_stuck [of s] by (metis cut_prefix_shrink)
  then have "trim_start (trim s) = trim s"
    by (simp add: trim_start_def trim_start_of_id)
  moreover have "trim_end (trim s) = trim s"
    by (simp add: trim_def trim_end_def trim_start_of_id trim_start_of_stuck)
  ultimately show ?thesis by (simp add: trim_def [of "trim s"])
qed

lemma trim_empty [simp]: "trim [] = []" "is_blank []"
proof -
  have "cut_prefix ws [] = None" for ws
    by (induction ws) (auto simp: neq_Nil_conv)
  then show "trim [] = []" by (simp add: trim_def trim_start_def trim_end_def trim_start_of_id)
  then show "is_blank []" by (simp add: is_blank_def)
qed

lemma not_blank_not_Nil: "\<not> is_blank s \<Longrightarrow> s \<noteq> []"
  by auto

section \<open>ASCII operations\<close>

definition to_ascii_lowercase_char :: "char \<Rightarrow> char" where
  "to_ascii_lowercase_char c =
     (let n = of_char c :: nat in if 65 \<le> n \<and> n \<le> 90 then char_of (n + 32) else c)"

definition to_ascii_lowercase :: "string \<Rightarrow> string" where
  "to_ascii_lowercase s = map to_ascii_lowercase_char s"

definition is_ascii_alphanumeric :: "char \<Rightarrow> bool" where
  "is_ascii_alphanumeric c \<longleftrightarrow>
     (let n = of_char c :: nat in 48 \<le> n \<and> n \<le> 57 \<or> 65 \<le> n \<and> n \<le> 90 \<or> 97 \<le> n \<and> n \<le> 122)"

definition is_ascii_hexdigit :: "char \<Rightarrow> bool" where
  "is_ascii_hexdigit c \<longleftrightarrow>
     (let n = of_char c :: nat in 48 \<le> n \<and> n \<le> 57 \<or> 65 \<le> n \<and> n \<le> 70 \<or> 97 \<le> n \<and> n \<le> 102)"

definition trim_end_matches :: "char \<Rightarrow> string \<Rightarrow> string" where
  "trim_end_matches c s = rev (dropWhile (\<lambda>d. d = c) (rev s))"

lemma trim_end_matches_idem: "trim_end_matches c (trim_end_matches c s) = trim_end_matches c s"
  by (simp add: trim_end_matches_def)

end
