(* ===== verification/Rust_BTreeMap.thy ===== *)
theory Rust_BTreeMap
  imports Rust_Prelude
begin

text \<open>
  \<open>std::collections::BTreeMap\<close> as the strictly sorted list of its entries, so that iteration
  order, \<open>values()\<close>, \<open>keys()\<close>, \<open>len()\<close> and equality are those of the source. \<open>BTreeSet<K>\<close> is a
  map to \<open>unit\<close>. The locale states what the crates rely on; the interpretation at the end
  shows that the list model provides it.
\<close>

type_synonym ('k, 'v) btree_map = "('k \<times> 'v) list"
type_synonym 'k btree_set = "('k, unit) btree_map"

abbreviation bm_get :: "('k, 'v) btree_map \<Rightarrow> 'k \<Rightarrow> 'v option" where
  "bm_get \<equiv> map_of"

fun bm_insert :: "'k::linorder \<Rightarrow> 'v \<Rightarrow> ('k, 'v) btree_map \<Rightarrow> ('k, 'v) btree_map" where
  "bm_insert k v [] = [(k, v)]"
| "bm_insert k v ((j, w) # m) =
     (if k < j then (k, v) # (j, w) # m
      else if k = j then (k, v) # m
      else (j, w) # bm_insert k v m)"

text \<open>Writing through \<open>get_mut\<close>: the entry at a present key is replaced in place.\<close>

fun bm_set :: "'k \<Rightarrow> 'v \<Rightarrow> ('k, 'v) btree_map \<Rightarrow> ('k, 'v) btree_map" where
  "bm_set k v [] = []"
| "bm_set k v ((j, w) # m) = (if k = j then (j, v) # m else (j, w) # bm_set k v m)"

text \<open>\<open>collect()\<close> into a map: later entries replace earlier ones.\<close>

definition bm_collect :: "('k::linorder \<times> 'v) list \<Rightarrow> ('k, 'v) btree_map" where
  "bm_collect entries = fold (\<lambda>(k, v) m. bm_insert k v m) entries []"

abbreviation bm_keys :: "('k, 'v) btree_map \<Rightarrow> 'k list" where
  "bm_keys m \<equiv> map fst m"

abbreviation bm_values :: "('k, 'v) btree_map \<Rightarrow> 'v list" where
  "bm_values m \<equiv> map snd m"

definition bm_wf :: "('k::linorder, 'v) btree_map \<Rightarrow> bool" where
  "bm_wf m \<longleftrightarrow> sorted_wrt (<) (bm_keys m)"

definition bm_all :: "('k \<Rightarrow> 'v \<Rightarrow> bool) \<Rightarrow> ('k, 'v) btree_map \<Rightarrow> bool" where
  "bm_all P m \<longleftrightarrow> list_all (\<lambda>(k, v). P k v) m"

definition value_sum :: "('v \<Rightarrow> nat) \<Rightarrow> ('k, 'v) btree_map \<Rightarrow> nat" where
  "value_sum f m = sum_list (map f (bm_values m))"

section \<open>The interface the crates rely on\<close>

locale ordered_map =
  fixes empty :: 'm
    and insert :: "'k::linorder \<Rightarrow> 'v \<Rightarrow> 'm \<Rightarrow> 'm"
    and get :: "'m \<Rightarrow> 'k \<Rightarrow> 'v option"
    and keys :: "'m \<Rightarrow> 'k list"
    and wf :: "'m \<Rightarrow> bool"
  assumes get_empty: "get empty k = None"
    and get_insert: "get (insert k v m) = (get m)(k \<mapsto> v)"
    and wf_empty: "wf empty"
    and wf_insert: "wf m \<Longrightarrow> wf (insert k v m)"
    and keys_get: "wf m \<Longrightarrow> set (keys m) = dom (get m)"
    and keys_sorted: "wf m \<Longrightarrow> sorted_wrt (<) (keys m)"
    and get_ext: "wf m \<Longrightarrow> wf n \<Longrightarrow> get m = get n \<Longrightarrow> m = n"
begin

lemma insert_same: "wf m \<Longrightarrow> get m k = Some v \<Longrightarrow> insert k v m = m"
  by (intro get_ext wf_insert) (auto simp: get_insert fun_eq_iff)

lemma insert_insert: "wf m \<Longrightarrow> insert k v (insert k w m) = insert k v m"
  by (intro get_ext wf_insert) (simp_all add: get_insert)

lemma insert_commute:
  "wf m \<Longrightarrow> j \<noteq> k \<Longrightarrow> insert j v (insert k w m) = insert k w (insert j v m)"
  by (intro get_ext wf_insert) (simp_all add: get_insert fun_upd_twist)

lemma get_insert_other: "j \<noteq> k \<Longrightarrow> get (insert k v m) j = get m j"
  by (simp add: get_insert)

lemma keys_insert: "wf m \<Longrightarrow> set (keys (insert k v m)) = Set.insert k (set (keys m))"
  by (simp add: keys_get wf_insert get_insert)

end

section \<open>The list model provides it\<close>

lemma map_of_bm_insert: "map_of (bm_insert k v m) = (map_of m)(k \<mapsto> v)"
  by (induction m) (auto simp: fun_eq_iff)

lemma fst_set_bm_insert: "fst ` set (bm_insert k v m) = insert k (fst ` set m)"
  by (induction k v m rule: bm_insert.induct) auto

lemma bm_wf_bm_insert: "bm_wf m \<Longrightarrow> bm_wf (bm_insert k v m)"
proof (induction k v m rule: bm_insert.induct)
  case (2 k v j w m)
  have "\<forall>x \<in> fst ` set (bm_insert k v m). j < x" if "\<not> k < j" "k \<noteq> j"
    using 2(2) that by (auto simp: bm_wf_def fst_set_bm_insert)
  with 2 show ?case by (auto simp: bm_wf_def)
qed (simp add: bm_wf_def)

lemma bm_wf_distinct: "bm_wf m \<Longrightarrow> distinct (bm_keys m)"
  by (simp add: bm_wf_def strict_sorted_iff)

lemma sorted_map_ext:
  assumes "bm_wf m" "bm_wf n" "map_of m = map_of n"
  shows "m = n"
proof (rule map_sorted_distinct_set_unique [where f = fst])
  show *: "set m = set n"
    using assms by (simp add: bm_wf_distinct map_of_inject_set [symmetric])
  show "inj_on fst (set m \<union> set n)"
    using bm_wf_distinct [OF assms(1)] by (simp add: * [symmetric] distinct_map)
qed (use assms in \<open>simp_all add: bm_wf_def strict_sorted_iff\<close>)

interpretation bm: ordered_map "[]" bm_insert bm_get bm_keys bm_wf
proof unfold_locales
  show "\<And>m :: ('a, 'b) btree_map. bm_wf m \<Longrightarrow> set (bm_keys m) = dom (bm_get m)"
    by (simp add: dom_map_of_conv_image_fst)
  show "\<And>m :: ('a, 'b) btree_map. bm_wf m \<Longrightarrow> sorted_wrt (<) (bm_keys m)"
    by (simp add: bm_wf_def)
  show "bm_wf ([] :: ('a, 'b) btree_map)"
    by (simp add: bm_wf_def)
qed (auto simp: map_of_bm_insert bm_wf_bm_insert sorted_map_ext)

lemmas [simp] = bm.get_insert bm.wf_empty
lemmas [intro, simp] = bm.wf_insert

section \<open>Writing in place\<close>

lemma bm_set_same: "bm_get m k = Some v \<Longrightarrow> bm_set k v m = m"
  by (induction m) (auto split: if_splits)

lemma keys_bm_set [simp]: "bm_keys (bm_set k v m) = bm_keys m"
  by (induction k v m rule: bm_set.induct) auto

lemma bm_wf_bm_set [simp]: "bm_wf (bm_set k v m) = bm_wf m"
  by (simp add: bm_wf_def)

lemma length_bm_set [simp]: "length (bm_set k v m) = length m"
  by (induction k v m rule: bm_set.induct) auto

lemma bm_set_Nil [simp]: "bm_set k v m = [] \<longleftrightarrow> m = []"
  by (cases "(k, v, m)" rule: bm_set.cases) auto

lemma bm_get_bm_set:
  "bm_get (bm_set k v m) j =
     (if j = k then (case bm_get m k of None \<Rightarrow> None | Some u \<Rightarrow> Some v) else bm_get m j)"
  by (induction k v m rule: bm_set.induct) (auto split: option.splits)

lemma bm_set_eq_insert:
  assumes "bm_wf m" "bm_get m k = Some u"
  shows "bm_set k v m = bm_insert k v m"
  using assms by (intro bm.get_ext) (auto simp: fun_eq_iff bm_get_bm_set)

lemma bm_get_bm_set_present:
  "bm_get m k = Some u \<Longrightarrow> bm_get (bm_set k v m) = (bm_get m)(k \<mapsto> v)"
  by (auto simp: fun_eq_iff bm_get_bm_set)

lemma get_some_key: "bm_get m k = Some v \<Longrightarrow> k \<in> set (bm_keys m)"
  by (auto dest: map_of_SomeD intro: rev_image_eqI)

lemma key_get_some: "k \<in> set (bm_keys m) \<Longrightarrow> \<exists>v. bm_get m k = Some v"
  by (metis list.set_map map_of_eq_None_iff option.exhaust)

section \<open>Quantifying and summing over the entries\<close>

lemma bm_all_simps [simp]:
  "bm_all P []" "bm_all P ((k, v) # m) \<longleftrightarrow> P k v \<and> bm_all P m"
  by (simp_all add: bm_all_def)

lemma bm_all_insert: "bm_all P m \<Longrightarrow> P k v \<Longrightarrow> bm_all P (bm_insert k v m)"
  by (induction k v m rule: bm_insert.induct) auto

lemma bm_all_get: "bm_all P m \<Longrightarrow> bm_get m k = Some v \<Longrightarrow> P k v"
  by (induction m) (auto split: if_splits)

lemma bm_all_iff_get: "bm_wf m \<Longrightarrow> bm_all P m \<longleftrightarrow> (\<forall>k v. bm_get m k = Some v \<longrightarrow> P k v)"
  by (auto simp: bm_all_def list_all_iff bm_wf_distinct map_of_eq_Some_iff)

lemma bm_all_mono: "bm_all P m \<Longrightarrow> (\<And>k v. bm_get m k = Some v \<Longrightarrow> P k v \<Longrightarrow> Q k v)
    \<Longrightarrow> bm_wf m \<Longrightarrow> bm_all Q m"
  by (simp add: bm_all_iff_get)

lemma bm_all_insertE:
  "bm_all P (bm_insert k v m) \<Longrightarrow> bm_get m k = None \<Longrightarrow> P k v \<and> bm_all P m"
  by (induction k v m rule: bm_insert.induct) (auto split: if_splits)

lemma value_sum_simps [simp]:
  "value_sum f [] = 0" "value_sum f ((k, v) # m) = f v + value_sum f m"
  by (simp_all add: value_sum_def)

lemma value_sum_fresh [map_simps]:
  "bm_get m k = None \<Longrightarrow> value_sum f (bm_insert k v m) = f v + value_sum f m"
  by (induction k v m rule: bm_insert.induct) (auto split: if_splits)

lemma value_sum_replace:
  "bm_wf m \<Longrightarrow> bm_get m k = Some u \<Longrightarrow> value_sum f (bm_insert k v m) + f u = value_sum f m + f v"
proof (induction k v m rule: bm_insert.induct)
  case (2 k v j w m)
  have "k \<notin> fst ` set m" if "k < j" using 2(2) that by (auto simp: bm_wf_def)
  moreover have "k \<in> fst ` set m" if "k \<noteq> j"
    using 2(3) that by (auto dest: map_of_SomeD intro: rev_image_eqI)
  ultimately have "\<not> k < j" by auto
  with 2 show ?case by (auto simp: bm_wf_def)
qed simp

lemma value_sum_set:
  "bm_get m k = Some u \<Longrightarrow> value_sum f (bm_set k v m) + f u = value_sum f m + f v"
  by (induction k v m rule: bm_set.induct) (auto split: if_splits)

lemma bm_all_set:
  assumes "bm_wf m" "bm_get m k = Some u" "bm_all P m" "Q k v"
    and "\<And>j w. j \<noteq> k \<Longrightarrow> bm_get m j = Some w \<Longrightarrow> P j w \<Longrightarrow> Q j w"
  shows "bm_all Q (bm_set k v m)"
  using assms by (auto simp: bm_all_iff_get bm_get_bm_set_present)

lemma value_sum_keep:
  "bm_wf m \<Longrightarrow> bm_get m k = Some u \<Longrightarrow> f v = f u \<Longrightarrow> value_sum f (bm_insert k v m) = value_sum f m"
  using value_sum_replace [of m k u f v] by simp

lemma value_sum_ge: "bm_get m k = Some v \<Longrightarrow> f v \<le> value_sum f m"
  by (induction m) (auto split: if_splits intro: le_SucI trans_le_add2)

lemma value_sum_cong:
  "(\<And>k v. (k, v) \<in> set m \<Longrightarrow> f v = g v) \<Longrightarrow> value_sum f m = value_sum g m"
  by (auto simp: value_sum_def intro!: arg_cong [where f = sum_list])

lemma value_sum_mono:
  "(\<And>k v. (k, v) \<in> set m \<Longrightarrow> f v \<le> g v) \<Longrightarrow> value_sum f m \<le> value_sum g m"
  by (auto simp: value_sum_def o_def intro!: sum_list_mono)

lemma value_sum_add: "value_sum (\<lambda>v. f v + g v) m = value_sum f m + value_sum g m"
  by (simp add: value_sum_def sum_list_addf o_def)

lemma set_bm_insert_fresh:
  "bm_get m k = None \<Longrightarrow> set (bm_insert k v m) = insert (k, v) (set m)"
  by (induction k v m rule: bm_insert.induct) (auto split: if_splits)

lemma map_le_fresh: "m k = None \<Longrightarrow> m \<subseteq>\<^sub>m m(k \<mapsto> v)"
  by (auto simp: map_le_def dom_def)

lemma length_fresh [map_simps]:
  "bm_get m k = None \<Longrightarrow> length (bm_insert k v m) = Suc (length m)"
  by (induction k v m rule: bm_insert.induct) (auto split: if_splits)

lemma length_replace [map_simps]:
  "bm_wf m \<Longrightarrow> bm_get m k = Some u \<Longrightarrow> length (bm_insert k v m) = length m"
  using value_sum_replace [of m k u "\<lambda>_. 1" v] by (simp add: value_sum_def sum_list_triv o_def)

lemma keys_replace:
  assumes "bm_wf m" "bm_get m k = Some u"
  shows "bm_keys (bm_insert k v m) = bm_keys m"
proof (rule sorted_distinct_set_unique)
  have "k \<in> fst ` set m" using assms(2) by (auto dest: map_of_SomeD intro: rev_image_eqI)
  then show "set (bm_keys (bm_insert k v m)) = set (bm_keys m)"
    by (auto simp: fst_set_bm_insert)
qed (use assms bm.wf_insert [of m k v] in \<open>simp_all add: bm_wf_def strict_sorted_iff\<close>)

lemma bm_insert_last: "\<forall>j \<in> fst ` set m. j < k \<Longrightarrow> bm_insert k v m = m @ [(k, v)]"
  by (induction k v m rule: bm_insert.induct) auto

lemma bm_collect_sorted: "bm_wf m \<Longrightarrow> bm_collect m = m"
proof (induction m rule: rev_induct)
  case (snoc x m)
  obtain k v where [simp]: "x = (k, v)" by (cases x)
  have "bm_wf m" "\<forall>j \<in> fst ` set m. j < k"
    using snoc.prems by (auto simp: bm_wf_def sorted_wrt_append)
  with snoc.IH show ?case by (simp add: bm_collect_def bm_insert_last)
qed (simp add: bm_collect_def)

lemma bm_wf_mapped: "bm_keys m' = bm_keys m \<Longrightarrow> bm_wf m' = bm_wf m"
  by (simp add: bm_wf_def)

lemma bm_insert_not_Nil [simp]: "bm_insert k v m \<noteq> []"
  by (induction k v m rule: bm_insert.induct) auto

section \<open>Removing an entry\<close>

definition bm_remove :: "'k \<Rightarrow> ('k, 'v) btree_map \<Rightarrow> ('k, 'v) btree_map" where
  "bm_remove k m = filter (\<lambda>entry. fst entry \<noteq> k) m"

lemma bm_get_bm_remove [simp]: "bm_get (bm_remove k m) = (bm_get m)(k := None)"
  by (induction m) (auto simp: bm_remove_def)

lemma bm_wf_bm_remove [simp]: "bm_wf m \<Longrightarrow> bm_wf (bm_remove k m)"
  by (simp add: bm_wf_def bm_remove_def sorted_wrt_map sorted_wrt_filter)

end
