(* ===== verification/Credit_Protocol.thy ===== *)
theory Credit_Protocol
  imports Rust_String Rust_BTreeMap
begin

text \<open>
  The data of \<open>crates/cashu-credit/src/protocol.rs\<close> and \<open>error.rs\<close>: value classes, receipts,
  policies, novations, deposits, settlements and the error type. Field names carry a prefix
  per record because record fields share one name space: \<open>sr_\<close> service receipt, \<open>ip_\<close> issuer
  policy, \<open>ap_\<close> account policy, \<open>nv_\<close> novation, \<open>bd_\<close> backing deposit, \<open>bs_\<close> backed settlement,
  \<open>cc_\<close> closed-loop consumption, \<open>xr_\<close> external request, \<open>xa_\<close> external authorization.
\<close>

datatype ValueClass = PeerCredit | ClosedLoopDeposit | ReserveBackedWithdrawable

datatype AcceptanceMode = Online | OfflineDeferred

record ServiceReceiptClaim =
  sr_receipt_id :: string
  sr_issuer :: string
  sr_counterparty :: string
  sr_service :: string
  sr_resource :: string
  sr_useful_service_units :: u64
  sr_amount_sat :: u64
  sr_value_class :: ValueClass
  sr_issued_at_unix :: u64
  sr_expires_at_unix :: u64

record IssuerPolicy =
  ip_issuer :: string
  ip_max_peer_credit_sat :: u64
  ip_max_offline_peer_credit_sat :: u64
  ip_max_closed_loop_sat :: u64
  ip_max_withdrawable_sat :: u64
  ip_expires_at_unix :: "u64 option"

record AccountPolicy =
  ap_counterparty :: string
  ap_max_total_peer_credit_sat :: u64
  ap_issuers :: "IssuerPolicy list"

datatype ReceiptApplication = Applied | AlreadyApplied

record CreditNovation =
  nv_novation_id :: string
  nv_counterparty :: string
  nv_from_issuer :: string
  nv_to_issuer :: string
  nv_amount_sat :: u64
  nv_expires_at_unix :: u64

record BackingDeposit =
  bd_deposit_id :: string
  bd_issuer :: string
  bd_amount_sat :: u64
  bd_value_class :: ValueClass

record BackedCreditSettlement =
  bs_settlement_id :: string
  bs_counterparty :: string
  bs_from_issuer :: string
  bs_backing_issuer :: string
  bs_amount_sat :: u64
  bs_value_class :: ValueClass
  bs_expires_at_unix :: u64

record ClosedLoopConsumption =
  cc_consumption_id :: string
  cc_issuer :: string
  cc_counterparty :: string
  cc_resource :: string
  cc_amount_sat :: u64

record ExternalSettlementRequest =
  xr_settlement_id :: string
  xr_issuer :: string
  xr_counterparty :: string
  xr_payout_destination :: string
  xr_amount_sat :: u64
  xr_max_fee_sat :: u64
  xr_expires_at_unix :: u64

record ExternalSettlementAuthorization =
  xa_settlement_id :: string
  xa_issuer :: string
  xa_counterparty :: string
  xa_payout_destination :: string
  xa_amount_sat :: u64
  xa_max_fee_sat :: u64
  xa_reserved_sat :: u64
  xa_authorized_at_unix :: u64
  xa_expires_at_unix :: u64

datatype (plugins only: code) CreditError =
    WrongIssuer
  | WrongCounterparty
  | UnauthenticatedIssuer
  | UnauthenticatedCounterparty
  | PolicyExpired
  | ReceiptExpired
  | ReceiptNotYetValid
  | MissingReceiptId
  | ReceiptConflict
  | MissingDepositId
  | DepositConflict
  | MissingBackedSettlementId
  | BackedSettlementExpired
  | BackedSettlementConflict
  | MissingClosedLoopConsumptionId
  | ClosedLoopConsumptionConflict
  | UnsupportedBackingClass
  | NoUsefulService
  | ZeroAmount
  | ArithmeticOverflow
  | RevisionOverflow
  | IssuerExposureExceeded
  | TotalExposureExceeded
  | OfflineExposureExceeded
  | BackingVerificationRequired
  | InsufficientClosedLoopBacking
  | InsufficientAvailableReserve
  | InsufficientRedeemableReserve
  | ClosedLoopExposureExceeded
  | WithdrawableExposureExceeded
  | InsufficientPeerCredit
  | NovationExpired
  | MissingNovationId
  | NovationConflict
  | SameIssuerNovation
  | SettlementExpired
  | MissingSettlementId
  | MissingPayoutDestination
  | SettlementConflict
  | SettlementCompletionConflict
  | SettlementFeeExceeded
  | SettlementCancelled
  | SettlementCompleted
  | UnknownSettlement
  | DuplicateIssuer
  | NoIssuers
  | InvalidPolicy
  | UnsupportedSnapshotVersion
  | InvalidSnapshot string
  | ConservationViolation

end
