(* ===== verification/Credit_Ledger.thy ===== *)
theory Credit_Ledger
  imports Credit_Protocol
begin

text \<open>
  The three ledgers of \<open>crates/cashu-credit/src/ledger.rs\<close>, one per value class, with every
  operation as the source writes it. The two backed ledgers share a contract, the locale
  \<open>backed_ledger\<close>: deposits enter as available backing, an allocation moves available backing
  to the holder's claim, and the conservation equation stays true.
\<close>

section \<open>Unbacked peer credit\<close>

record PeerCreditLedger =
  pc_outstanding_sat :: u64
  pc_offline_outstanding_sat :: u64

definition pc_default :: PeerCreditLedger where
  "pc_default = \<lparr>pc_outstanding_sat = 0, pc_offline_outstanding_sat = 0\<rparr>"

definition pc_credit ::
    "u64 \<Rightarrow> bool \<Rightarrow> PeerCreditLedger \<Rightarrow> (CreditError + unit) \<times> PeerCreditLedger" where
  "pc_credit amount offline self =
     attempt (ok_or (checked_add (pc_outstanding_sat self) amount) ArithmeticOverflow) self
       (\<lambda>outstanding.
     attempt (if offline
              then ok_or (checked_add (pc_offline_outstanding_sat self) amount) ArithmeticOverflow
              else Inr (pc_offline_outstanding_sat self)) self
       (\<lambda>offline_outstanding.
     (Inr (), self\<lparr>pc_outstanding_sat := outstanding,
                   pc_offline_outstanding_sat := offline_outstanding\<rparr>)))"

definition pc_debit :: "u64 \<Rightarrow> PeerCreditLedger \<Rightarrow> (CreditError + unit) \<times> PeerCreditLedger" where
  "pc_debit amount self =
     (if amount > pc_outstanding_sat self then (Inl InsufficientPeerCredit, self)
      else let outstanding = pc_outstanding_sat self - amount in
           (Inr (), self\<lparr>pc_outstanding_sat := outstanding,
                         pc_offline_outstanding_sat :=
                           min (pc_offline_outstanding_sat self) outstanding\<rparr>))"

section \<open>Closed-loop deposits\<close>

record ClosedLoopLedger =
  cl_total_deposited_sat :: u64
  cl_available_backing_sat :: u64
  cl_claimable_sat :: u64
  cl_consumed_sat :: u64

definition cl_default :: ClosedLoopLedger where
  "cl_default = \<lparr>cl_total_deposited_sat = 0, cl_available_backing_sat = 0,
                 cl_claimable_sat = 0, cl_consumed_sat = 0\<rparr>"

definition cl_conserved_sat :: "ClosedLoopLedger \<Rightarrow> CreditError + u64" where
  "cl_conserved_sat self =
     and_then (ok_or (Option.bind (checked_add (cl_available_backing_sat self) (cl_claimable_sat self))
                 (\<lambda>value. checked_add value (cl_consumed_sat self))) ArithmeticOverflow)
       (\<lambda>accounted.
     if accounted \<noteq> cl_total_deposited_sat self then Inl ConservationViolation
     else Inr accounted)"

definition cl_deposit :: "u64 \<Rightarrow> ClosedLoopLedger \<Rightarrow> (CreditError + unit) \<times> ClosedLoopLedger" where
  "cl_deposit amount self =
     attempt (ok_or (checked_add (cl_total_deposited_sat self) amount) ArithmeticOverflow) self
       (\<lambda>total.
     attempt (ok_or (checked_add (cl_available_backing_sat self) amount) ArithmeticOverflow) self
       (\<lambda>available.
     (Inr (), self\<lparr>cl_total_deposited_sat := total, cl_available_backing_sat := available\<rparr>)))"

definition cl_allocate :: "u64 \<Rightarrow> ClosedLoopLedger \<Rightarrow> (CreditError + unit) \<times> ClosedLoopLedger" where
  "cl_allocate amount self =
     (if amount > cl_available_backing_sat self then (Inl InsufficientClosedLoopBacking, self)
      else attempt (ok_or (checked_add (cl_claimable_sat self) amount) ArithmeticOverflow) self
        (\<lambda>claimable.
      (Inr (), self\<lparr>cl_available_backing_sat := cl_available_backing_sat self - amount,
                    cl_claimable_sat := claimable\<rparr>)))"

definition cl_consume :: "u64 \<Rightarrow> ClosedLoopLedger \<Rightarrow> (CreditError + unit) \<times> ClosedLoopLedger" where
  "cl_consume amount self =
     (if amount > cl_claimable_sat self then (Inl InsufficientClosedLoopBacking, self)
      else attempt (ok_or (checked_add (cl_consumed_sat self) amount) ArithmeticOverflow) self
        (\<lambda>consumed.
      (Inr (), self\<lparr>cl_claimable_sat := cl_claimable_sat self - amount,
                    cl_consumed_sat := consumed\<rparr>)))"

section \<open>Withdrawable reserve\<close>

record WithdrawableReserveLedger =
  wr_total_deposited_sat :: u64
  wr_available_sat :: u64
  wr_redeemable_sat :: u64
  wr_pending_external_sat :: u64
  wr_settled_external_sat :: u64

definition wr_default :: WithdrawableReserveLedger where
  "wr_default = \<lparr>wr_total_deposited_sat = 0, wr_available_sat = 0, wr_redeemable_sat = 0,
                 wr_pending_external_sat = 0, wr_settled_external_sat = 0\<rparr>"

definition wr_conserved_sat :: "WithdrawableReserveLedger \<Rightarrow> CreditError + u64" where
  "wr_conserved_sat self =
     and_then (ok_or
       (Option.bind (Option.bind (checked_add (wr_available_sat self) (wr_redeemable_sat self))
          (\<lambda>value. checked_add value (wr_pending_external_sat self)))
          (\<lambda>value. checked_add value (wr_settled_external_sat self))) ArithmeticOverflow)
       (\<lambda>accounted.
     if accounted \<noteq> wr_total_deposited_sat self then Inl ConservationViolation
     else Inr accounted)"

definition wr_deposit ::
    "u64 \<Rightarrow> WithdrawableReserveLedger \<Rightarrow> (CreditError + unit) \<times> WithdrawableReserveLedger" where
  "wr_deposit amount self =
     attempt (ok_or (checked_add (wr_total_deposited_sat self) amount) ArithmeticOverflow) self
       (\<lambda>total.
     attempt (ok_or (checked_add (wr_available_sat self) amount) ArithmeticOverflow) self
       (\<lambda>available.
     (Inr (), self\<lparr>wr_total_deposited_sat := total, wr_available_sat := available\<rparr>)))"

definition wr_allocate ::
    "u64 \<Rightarrow> WithdrawableReserveLedger \<Rightarrow> (CreditError + unit) \<times> WithdrawableReserveLedger" where
  "wr_allocate amount self =
     (if amount > wr_available_sat self then (Inl InsufficientAvailableReserve, self)
      else attempt (ok_or (checked_add (wr_redeemable_sat self) amount) ArithmeticOverflow) self
        (\<lambda>redeemable.
      (Inr (), self\<lparr>wr_available_sat := wr_available_sat self - amount,
                    wr_redeemable_sat := redeemable\<rparr>)))"

definition wr_authorize ::
    "u64 \<Rightarrow> WithdrawableReserveLedger \<Rightarrow> (CreditError + unit) \<times> WithdrawableReserveLedger" where
  "wr_authorize amount self =
     (if amount > wr_redeemable_sat self then (Inl InsufficientRedeemableReserve, self)
      else attempt (ok_or (checked_add (wr_pending_external_sat self) amount) ArithmeticOverflow) self
        (\<lambda>pending.
      (Inr (), self\<lparr>wr_redeemable_sat := wr_redeemable_sat self - amount,
                    wr_pending_external_sat := pending\<rparr>)))"

definition wr_complete ::
    "u64 \<Rightarrow> WithdrawableReserveLedger \<Rightarrow> (CreditError + unit) \<times> WithdrawableReserveLedger" where
  "wr_complete amount self =
     (if amount > wr_pending_external_sat self then (Inl ConservationViolation, self)
      else attempt (ok_or (checked_add (wr_settled_external_sat self) amount) ArithmeticOverflow) self
        (\<lambda>settled.
      (Inr (), self\<lparr>wr_pending_external_sat := wr_pending_external_sat self - amount,
                    wr_settled_external_sat := settled\<rparr>)))"

definition wr_cancel ::
    "u64 \<Rightarrow> WithdrawableReserveLedger \<Rightarrow> (CreditError + unit) \<times> WithdrawableReserveLedger" where
  "wr_cancel amount self =
     (if amount > wr_pending_external_sat self then (Inl ConservationViolation, self)
      else attempt (ok_or (checked_add (wr_redeemable_sat self) amount) ArithmeticOverflow) self
        (\<lambda>redeemable.
      (Inr (), self\<lparr>wr_pending_external_sat := wr_pending_external_sat self - amount,
                    wr_redeemable_sat := redeemable\<rparr>)))"

section \<open>When an operation succeeds, over the natural numbers\<close>

named_theorems ledger_simps \<open>success of the ledger operations as equations between numbers\<close>

lemma pc_credit_Inr [ledger_simps]:
  "pc_credit n off l = (Inr x, l') \<longleftrightarrow>
     unat (pc_outstanding_sat l') = unat (pc_outstanding_sat l) + unat n \<and>
     unat (pc_offline_outstanding_sat l') =
       unat (pc_offline_outstanding_sat l) + (if off then unat n else 0)"
  by (cases l; cases l'; cases off)
    (auto simp: pc_credit_def result_simps u64_simps word_unat_eq_iff)

lemma pc_debit_Inr [ledger_simps]:
  "pc_debit n l = (Inr x, l') \<longleftrightarrow>
     unat (pc_outstanding_sat l) = unat (pc_outstanding_sat l') + unat n \<and>
     unat (pc_offline_outstanding_sat l') =
       min (unat (pc_offline_outstanding_sat l)) (unat (pc_outstanding_sat l'))"
  by (cases l; cases l')
    (auto simp: pc_debit_def Let_def word_less_nat_alt word_le_nat_alt min_def word_unat_eq_iff
      unat_sub split: if_splits)

lemma cl_deposit_Inr [ledger_simps]:
  "cl_deposit n l = (Inr x, l') \<longleftrightarrow>
     unat (cl_total_deposited_sat l') = unat (cl_total_deposited_sat l) + unat n \<and>
     unat (cl_available_backing_sat l') = unat (cl_available_backing_sat l) + unat n \<and>
     cl_claimable_sat l' = cl_claimable_sat l \<and> cl_consumed_sat l' = cl_consumed_sat l"
  by (cases l; cases l') (auto simp: cl_deposit_def result_simps u64_simps)

lemma cl_allocate_Inr [ledger_simps]:
  "cl_allocate n l = (Inr x, l') \<longleftrightarrow>
     cl_total_deposited_sat l' = cl_total_deposited_sat l \<and>
     unat (cl_available_backing_sat l) = unat (cl_available_backing_sat l') + unat n \<and>
     unat (cl_claimable_sat l') = unat (cl_claimable_sat l) + unat n \<and>
     cl_consumed_sat l' = cl_consumed_sat l"
  by (cases l; cases l')
    (auto simp: cl_allocate_def result_simps u64_simps word_less_nat_alt word_unat_eq_iff
      word_le_nat_alt unat_sub split: if_splits)

lemma cl_consume_Inr [ledger_simps]:
  "cl_consume n l = (Inr x, l') \<longleftrightarrow>
     cl_total_deposited_sat l' = cl_total_deposited_sat l \<and>
     cl_available_backing_sat l' = cl_available_backing_sat l \<and>
     unat (cl_claimable_sat l) = unat (cl_claimable_sat l') + unat n \<and>
     unat (cl_consumed_sat l') = unat (cl_consumed_sat l) + unat n"
  by (cases l; cases l')
    (auto simp: cl_consume_def result_simps u64_simps word_less_nat_alt word_unat_eq_iff
      word_le_nat_alt unat_sub split: if_splits)

lemma wr_deposit_Inr [ledger_simps]:
  "wr_deposit n l = (Inr x, l') \<longleftrightarrow>
     unat (wr_total_deposited_sat l') = unat (wr_total_deposited_sat l) + unat n \<and>
     unat (wr_available_sat l') = unat (wr_available_sat l) + unat n \<and>
     wr_redeemable_sat l' = wr_redeemable_sat l \<and>
     wr_pending_external_sat l' = wr_pending_external_sat l \<and>
     wr_settled_external_sat l' = wr_settled_external_sat l"
  by (cases l; cases l') (auto simp: wr_deposit_def result_simps u64_simps)

lemma wr_allocate_Inr [ledger_simps]:
  "wr_allocate n l = (Inr x, l') \<longleftrightarrow>
     wr_total_deposited_sat l' = wr_total_deposited_sat l \<and>
     unat (wr_available_sat l) = unat (wr_available_sat l') + unat n \<and>
     unat (wr_redeemable_sat l') = unat (wr_redeemable_sat l) + unat n \<and>
     wr_pending_external_sat l' = wr_pending_external_sat l \<and>
     wr_settled_external_sat l' = wr_settled_external_sat l"
  by (cases l; cases l')
    (auto simp: wr_allocate_def result_simps u64_simps word_less_nat_alt word_unat_eq_iff
      word_le_nat_alt unat_sub split: if_splits)

lemma wr_authorize_Inr [ledger_simps]:
  "wr_authorize n l = (Inr x, l') \<longleftrightarrow>
     wr_total_deposited_sat l' = wr_total_deposited_sat l \<and>
     wr_available_sat l' = wr_available_sat l \<and>
     unat (wr_redeemable_sat l) = unat (wr_redeemable_sat l') + unat n \<and>
     unat (wr_pending_external_sat l') = unat (wr_pending_external_sat l) + unat n \<and>
     wr_settled_external_sat l' = wr_settled_external_sat l"
  by (cases l; cases l')
    (auto simp: wr_authorize_def result_simps u64_simps word_less_nat_alt word_unat_eq_iff
      word_le_nat_alt unat_sub split: if_splits)

lemma wr_complete_Inr [ledger_simps]:
  "wr_complete n l = (Inr x, l') \<longleftrightarrow>
     wr_total_deposited_sat l' = wr_total_deposited_sat l \<and>
     wr_available_sat l' = wr_available_sat l \<and>
     wr_redeemable_sat l' = wr_redeemable_sat l \<and>
     unat (wr_pending_external_sat l) = unat (wr_pending_external_sat l') + unat n \<and>
     unat (wr_settled_external_sat l') = unat (wr_settled_external_sat l) + unat n"
  by (cases l; cases l')
    (auto simp: wr_complete_def result_simps u64_simps word_less_nat_alt word_unat_eq_iff
      word_le_nat_alt unat_sub split: if_splits)

lemma wr_cancel_Inr [ledger_simps]:
  "wr_cancel n l = (Inr x, l') \<longleftrightarrow>
     wr_total_deposited_sat l' = wr_total_deposited_sat l \<and>
     wr_available_sat l' = wr_available_sat l \<and>
     unat (wr_redeemable_sat l') = unat (wr_redeemable_sat l) + unat n \<and>
     unat (wr_pending_external_sat l) = unat (wr_pending_external_sat l') + unat n \<and>
     wr_settled_external_sat l' = wr_settled_external_sat l"
  by (cases l; cases l')
    (auto simp: wr_cancel_def result_simps u64_simps word_less_nat_alt word_unat_eq_iff
      word_le_nat_alt unat_sub split: if_splits)

text \<open>A rejected operation returns the ledger it was given.\<close>

lemma ledger_error_keeps:
  "pc_credit n off p = (Inl e, p') \<Longrightarrow> p' = p"
  "pc_debit n p = (Inl e, p') \<Longrightarrow> p' = p"
  "cl_deposit n c = (Inl e, c') \<Longrightarrow> c' = c"
  "cl_allocate n c = (Inl e, c') \<Longrightarrow> c' = c"
  "cl_consume n c = (Inl e, c') \<Longrightarrow> c' = c"
  "wr_deposit n w = (Inl e, w') \<Longrightarrow> w' = w"
  "wr_allocate n w = (Inl e, w') \<Longrightarrow> w' = w"
  "wr_authorize n w = (Inl e, w') \<Longrightarrow> w' = w"
  "wr_complete n w = (Inl e, w') \<Longrightarrow> w' = w"
  "wr_cancel n w = (Inl e, w') \<Longrightarrow> w' = w"
  by (auto simp: pc_credit_def pc_debit_def cl_deposit_def cl_allocate_def cl_consume_def
      wr_deposit_def wr_allocate_def wr_authorize_def wr_complete_def wr_cancel_def Let_def
      result_simps split: if_splits)

section \<open>The contract of a backed ledger\<close>

locale backed_ledger =
  fixes deposit allocate :: "u64 \<Rightarrow> 'l \<Rightarrow> (CreditError + unit) \<times> 'l"
    and total available claimed :: "'l \<Rightarrow> nat"
  assumes deposit_ok: "deposit n l = (Inr x, l') \<Longrightarrow>
      total l' = total l + unat n \<and> available l' = available l + unat n \<and> claimed l' = claimed l"
    and allocate_ok: "allocate n l = (Inr x, l') \<Longrightarrow>
      total l' = total l \<and> available l = available l' + unat n \<and> claimed l' = claimed l + unat n"
    and deposit_error: "deposit n l = (Inl e, l') \<Longrightarrow> l' = l"
    and allocate_error: "allocate n l = (Inl e, l') \<Longrightarrow> l' = l"
begin

definition conserved :: "'l \<Rightarrow> bool" where
  "conserved l \<longleftrightarrow> available l + claimed l = total l"

lemma deposit_conserved: "conserved l \<Longrightarrow> deposit n l = (r, l') \<Longrightarrow> conserved l'"
  using deposit_ok deposit_error by (cases r) (fastforce simp: conserved_def)+

lemma allocate_conserved: "conserved l \<Longrightarrow> allocate n l = (r, l') \<Longrightarrow> conserved l'"
  using allocate_ok allocate_error by (cases r) (fastforce simp: conserved_def)+

lemma allocate_within_backing:
  "conserved l \<Longrightarrow> allocate n l = (Inr x, l') \<Longrightarrow> claimed l' \<le> total l \<and> unat n \<le> available l"
  using allocate_ok [of n l x l'] by (auto simp: conserved_def)

end

abbreviation cl_claimed :: "ClosedLoopLedger \<Rightarrow> nat" where
  "cl_claimed l \<equiv> unat (cl_claimable_sat l) + unat (cl_consumed_sat l)"

abbreviation wr_claimed :: "WithdrawableReserveLedger \<Rightarrow> nat" where
  "wr_claimed l \<equiv> unat (wr_redeemable_sat l) + unat (wr_pending_external_sat l)
                  + unat (wr_settled_external_sat l)"

interpretation cl: backed_ledger cl_deposit cl_allocate
  "\<lambda>l. unat (cl_total_deposited_sat l)" "\<lambda>l. unat (cl_available_backing_sat l)" cl_claimed
  by unfold_locales (auto simp: ledger_simps dest: ledger_error_keeps)

interpretation wr: backed_ledger wr_deposit wr_allocate
  "\<lambda>l. unat (wr_total_deposited_sat l)" "\<lambda>l. unat (wr_available_sat l)" wr_claimed
  by unfold_locales (auto simp: ledger_simps dest: ledger_error_keeps)

text \<open>The contract's conservation equation is exactly what \<open>conserved_sat\<close> checks.\<close>

lemma cl_conserved_sat_iff:
  "cl_conserved_sat l = Inr (cl_total_deposited_sat l) \<longleftrightarrow> cl.conserved l"
  by (auto simp: cl_conserved_sat_def cl.conserved_def result_simps u64_simps)

lemma wr_conserved_sat_iff:
  "wr_conserved_sat l = Inr (wr_total_deposited_sat l) \<longleftrightarrow> wr.conserved l"
  by (auto simp: wr_conserved_sat_def wr.conserved_def result_simps u64_simps)

lemma cl_consume_conserved:
  "cl.conserved l \<Longrightarrow> cl_consume n l = (Inr x, l') \<Longrightarrow> cl.conserved l'"
  by (auto simp: cl.conserved_def ledger_simps)

lemma wr_payout_conserved:
  "wr.conserved l \<Longrightarrow> wr_authorize n l = (Inr x, l') \<Longrightarrow> wr.conserved l'"
  "wr.conserved l \<Longrightarrow> wr_complete n l = (Inr x, l') \<Longrightarrow> wr.conserved l'"
  "wr.conserved l \<Longrightarrow> wr_cancel n l = (Inr x, l') \<Longrightarrow> wr.conserved l'"
  by (auto simp: wr.conserved_def ledger_simps)

end
