(* ===== verification/Credit_Account.thy ===== *)
theory Credit_Account
  imports Credit_Ledger
begin

text \<open>
  \<open>crates/cashu-credit/src/account.rs\<close>: the state of a credit account and every operation on
  it, in the order of the source, with the receiver threaded through as a value. Field
  prefixes: \<open>is_\<close> \<open>IssuerState\<close>, \<open>st_\<close> \<open>SettlementRecord\<close>, \<open>ca_\<close> \<open>CreditAccount\<close>.
\<close>

section \<open>State\<close>

datatype PeerCreditEvent =
    ReceiptEvent u64 string AcceptanceMode
  | NovationEvent u64 string
  | BackedSettlementEvent u64 string

fun event_revision :: "PeerCreditEvent \<Rightarrow> u64" where
  "event_revision (ReceiptEvent revision receipt_id mode) = revision"
| "event_revision (NovationEvent revision novation_id) = revision"
| "event_revision (BackedSettlementEvent revision settlement_id) = revision"

record IssuerState =
  is_policy :: IssuerPolicy
  is_peer_credit :: PeerCreditLedger
  is_closed_loop :: ClosedLoopLedger
  is_withdrawable :: WithdrawableReserveLedger

definition issuer_state_new :: "IssuerPolicy \<Rightarrow> IssuerState" where
  "issuer_state_new policy =
     \<lparr>is_policy = policy, is_peer_credit = pc_default, is_closed_loop = cl_default,
      is_withdrawable = wr_default\<rparr>"

definition ensure_active :: "IssuerState \<Rightarrow> u64 \<Rightarrow> CreditError + unit" where
  "ensure_active self now_unix =
     (case ip_expires_at_unix (is_policy self) of
        Some expires \<Rightarrow> if expires \<le> now_unix then Inl PolicyExpired else Inr ()
      | None \<Rightarrow> Inr ())"

datatype SettlementState = Pending | Completed u64 | Cancelled

record SettlementRecord =
  st_request :: ExternalSettlementRequest
  st_authorization :: ExternalSettlementAuthorization
  st_state :: SettlementState

record CreditAccount =
  ca_revision :: u64
  ca_counterparty :: string
  ca_max_total_peer_credit_sat :: u64
  ca_total_peer_credit_sat :: u64
  ca_issuers :: "(string, IssuerState) btree_map"
  ca_applied_receipts :: "(string, ServiceReceiptClaim) btree_map"
  ca_peer_credit_events :: "PeerCreditEvent list"
  ca_novations :: "(string, CreditNovation) btree_map"
  ca_backing_deposits :: "(string \<times> string, BackingDeposit) btree_map"
  ca_backed_settlements :: "(string, BackedCreditSettlement) btree_map"
  ca_closed_loop_consumptions :: "(string, ClosedLoopConsumption) btree_map"
  ca_settlements :: "(string, SettlementRecord) btree_map"

definition add_issuer ::
    "IssuerPolicy \<Rightarrow> (string, IssuerState) btree_map \<Rightarrow> CreditError + (string, IssuerState) btree_map" where
  "add_issuer issuer issuers =
     (if is_blank (ip_issuer issuer)
         \<or> ip_max_offline_peer_credit_sat issuer > ip_max_peer_credit_sat issuer
      then Inl InvalidPolicy
      else case bm_get issuers (ip_issuer issuer) of
        Some previous \<Rightarrow> Inl DuplicateIssuer
      | None \<Rightarrow> Inr (bm_insert (ip_issuer issuer) (issuer_state_new issuer) issuers))"

definition account_new :: "AccountPolicy \<Rightarrow> CreditError + CreditAccount" where
  "account_new policy =
     (if is_blank (ap_counterparty policy) then Inl InvalidPolicy
      else if ap_issuers policy = [] then Inl NoIssuers
      else and_then (try_fold add_issuer (ap_issuers policy) [])
        (\<lambda>issuers. Inr
          \<lparr>ca_revision = 0,
           ca_counterparty = ap_counterparty policy,
           ca_max_total_peer_credit_sat = ap_max_total_peer_credit_sat policy,
           ca_total_peer_credit_sat = 0,
           ca_issuers = issuers,
           ca_applied_receipts = [],
           ca_peer_credit_events = [],
           ca_novations = [],
           ca_backing_deposits = [],
           ca_backed_settlements = [],
           ca_closed_loop_consumptions = [],
           ca_settlements = []\<rparr>))"

section \<open>Access to the issuers\<close>

definition issuer :: "CreditAccount \<Rightarrow> string \<Rightarrow> CreditError + IssuerState" where
  "issuer self i = ok_or (bm_get (ca_issuers self) i) WrongIssuer"

definition peer_credit :: "CreditAccount \<Rightarrow> string \<Rightarrow> CreditError + PeerCreditLedger" where
  "peer_credit self i = and_then (issuer self i) (\<lambda>state. Inr (is_peer_credit state))"

definition closed_loop :: "CreditAccount \<Rightarrow> string \<Rightarrow> CreditError + ClosedLoopLedger" where
  "closed_loop self i = and_then (issuer self i) (\<lambda>state. Inr (is_closed_loop state))"

definition sat_reserve :: "CreditAccount \<Rightarrow> string \<Rightarrow> CreditError + WithdrawableReserveLedger" where
  "sat_reserve self i = and_then (issuer self i) (\<lambda>state. Inr (is_withdrawable state))"

definition applied_receipt_count :: "CreditAccount \<Rightarrow> nat" where
  "applied_receipt_count self = length (ca_applied_receipts self)"

definition backing_deposits :: "CreditAccount \<Rightarrow> BackingDeposit list" where
  "backing_deposits self = bm_values (ca_backing_deposits self)"

text \<open>\<open>issuer_mut\<close> returns a reference; \<open>body\<close> is what the caller does through it.\<close>

definition issuer_mut ::
    "string \<Rightarrow> (IssuerState \<Rightarrow> (CreditError + 'a) \<times> IssuerState)
       \<Rightarrow> CreditAccount \<Rightarrow> (CreditError + 'a) \<times> CreditAccount" where
  "issuer_mut i body self =
     (case bm_get (ca_issuers self) i of
        None \<Rightarrow> (Inl WrongIssuer, self)
      | Some state \<Rightarrow> (case body state of (result, state') \<Rightarrow>
          (result, self\<lparr>ca_issuers := bm_set i state' (ca_issuers self)\<rparr>)))"

definition set_peer_credit ::
    "PeerCreditLedger \<Rightarrow> IssuerState \<Rightarrow> (CreditError + unit) \<times> IssuerState" where
  "set_peer_credit ledger state = (Inr (), state\<lparr>is_peer_credit := ledger\<rparr>)"

definition set_closed_loop ::
    "ClosedLoopLedger \<Rightarrow> IssuerState \<Rightarrow> (CreditError + unit) \<times> IssuerState" where
  "set_closed_loop ledger state = (Inr (), state\<lparr>is_closed_loop := ledger\<rparr>)"

definition set_withdrawable ::
    "WithdrawableReserveLedger \<Rightarrow> IssuerState \<Rightarrow> (CreditError + unit) \<times> IssuerState" where
  "set_withdrawable ledger state = (Inr (), state\<lparr>is_withdrawable := ledger\<rparr>)"

definition on_closed_loop ::
    "(ClosedLoopLedger \<Rightarrow> (CreditError + unit) \<times> ClosedLoopLedger)
       \<Rightarrow> IssuerState \<Rightarrow> (CreditError + unit) \<times> IssuerState" where
  "on_closed_loop f state =
     (case f (is_closed_loop state) of (result, l) \<Rightarrow> (result, state\<lparr>is_closed_loop := l\<rparr>))"

definition on_withdrawable ::
    "(WithdrawableReserveLedger \<Rightarrow> (CreditError + unit) \<times> WithdrawableReserveLedger)
       \<Rightarrow> IssuerState \<Rightarrow> (CreditError + unit) \<times> IssuerState" where
  "on_withdrawable f state =
     (case f (is_withdrawable state) of (result, l) \<Rightarrow> (result, state\<lparr>is_withdrawable := l\<rparr>))"

definition next_revision :: "CreditAccount \<Rightarrow> CreditError + u64" where
  "next_revision self = ok_or (checked_add (ca_revision self) 1) RevisionOverflow"

section \<open>Validation\<close>

definition validate_receipt_identity ::
    "CreditAccount \<Rightarrow> ServiceReceiptClaim \<Rightarrow> string \<Rightarrow> CreditError + unit" where
  "validate_receipt_identity self claim authenticated_issuer =
     (if sr_counterparty claim \<noteq> ca_counterparty self then Inl WrongCounterparty
      else if sr_issuer claim \<noteq> authenticated_issuer then Inl UnauthenticatedIssuer
      else and_then (issuer self (sr_issuer claim)) (\<lambda>_.
           if is_blank (sr_receipt_id claim) then Inl MissingReceiptId else Inr ()))"

definition validate_receipt ::
    "CreditAccount \<Rightarrow> ServiceReceiptClaim \<Rightarrow> string \<Rightarrow> u64 \<Rightarrow> CreditError + unit" where
  "validate_receipt self claim authenticated_issuer now_unix =
     and_then (validate_receipt_identity self claim authenticated_issuer) (\<lambda>_.
     and_then (issuer self (sr_issuer claim)) (\<lambda>state.
     and_then (ensure_active state now_unix) (\<lambda>_.
     if sr_expires_at_unix claim \<le> now_unix then Inl ReceiptExpired
     else if sr_issued_at_unix claim > now_unix then Inl ReceiptNotYetValid
     else if is_blank (sr_service claim) \<or> is_blank (sr_resource claim)
             \<or> sr_useful_service_units claim = 0 then Inl NoUsefulService
     else if sr_amount_sat claim = 0 then Inl ZeroAmount
     else Inr ())))"

definition require_online :: "AcceptanceMode \<Rightarrow> CreditError + unit" where
  "require_online mode =
     (if mode = OfflineDeferred then Inl BackingVerificationRequired else Inr ())"

definition validate_novation_identity ::
    "CreditAccount \<Rightarrow> CreditNovation \<Rightarrow> string \<Rightarrow> CreditError + unit" where
  "validate_novation_identity self novation authenticated_to_issuer =
     (if nv_counterparty novation \<noteq> ca_counterparty self then Inl WrongCounterparty
      else if nv_to_issuer novation \<noteq> authenticated_to_issuer then Inl UnauthenticatedIssuer
      else if nv_from_issuer novation = nv_to_issuer novation then Inl SameIssuerNovation
      else if is_blank (nv_novation_id novation) then Inl MissingNovationId
      else and_then (issuer self (nv_from_issuer novation)) (\<lambda>_.
           and_then (issuer self (nv_to_issuer novation)) (\<lambda>_. Inr ())))"

definition validate_novation ::
    "CreditAccount \<Rightarrow> CreditNovation \<Rightarrow> string \<Rightarrow> u64 \<Rightarrow> CreditError + unit" where
  "validate_novation self novation authenticated_to_issuer now_unix =
     and_then (validate_novation_identity self novation authenticated_to_issuer) (\<lambda>_.
     if nv_expires_at_unix novation \<le> now_unix then Inl NovationExpired
     else if nv_amount_sat novation = 0 then Inl ZeroAmount
     else and_then (issuer self (nv_from_issuer novation)) (\<lambda>source.
          and_then (ensure_active source now_unix) (\<lambda>_.
          and_then (issuer self (nv_to_issuer novation)) (\<lambda>target.
          ensure_active target now_unix))))"

definition validate_backing_deposit ::
    "CreditAccount \<Rightarrow> BackingDeposit \<Rightarrow> string \<Rightarrow> CreditError + unit" where
  "validate_backing_deposit self deposit authenticated_issuer =
     (if bd_issuer deposit \<noteq> authenticated_issuer then Inl UnauthenticatedIssuer
      else and_then (issuer self (bd_issuer deposit)) (\<lambda>_.
           if is_blank (bd_deposit_id deposit) then Inl MissingDepositId
           else if bd_amount_sat deposit = 0 then Inl ZeroAmount
           else if bd_value_class deposit = PeerCredit then Inl UnsupportedBackingClass
           else Inr ()))"

definition validate_backed_settlement_identity ::
    "CreditAccount \<Rightarrow> BackedCreditSettlement \<Rightarrow> string \<Rightarrow> CreditError + unit" where
  "validate_backed_settlement_identity self settlement authenticated_backing_issuer =
     (if bs_counterparty settlement \<noteq> ca_counterparty self then Inl WrongCounterparty
      else if bs_backing_issuer settlement \<noteq> authenticated_backing_issuer
           then Inl UnauthenticatedIssuer
      else and_then (issuer self (bs_from_issuer settlement)) (\<lambda>_.
           and_then (issuer self (bs_backing_issuer settlement)) (\<lambda>_.
           if is_blank (bs_settlement_id settlement) then Inl MissingBackedSettlementId
           else Inr ())))"

definition validate_backed_settlement ::
    "CreditAccount \<Rightarrow> BackedCreditSettlement \<Rightarrow> string \<Rightarrow> u64 \<Rightarrow> CreditError + unit" where
  "validate_backed_settlement self settlement authenticated_backing_issuer now_unix =
     and_then (validate_backed_settlement_identity self settlement authenticated_backing_issuer) (\<lambda>_.
     and_then (issuer self (bs_from_issuer settlement)) (\<lambda>source.
     and_then (ensure_active source now_unix) (\<lambda>_.
     and_then (issuer self (bs_backing_issuer settlement)) (\<lambda>backing.
     and_then (ensure_active backing now_unix) (\<lambda>_.
     if bs_expires_at_unix settlement \<le> now_unix then Inl BackedSettlementExpired
     else if bs_amount_sat settlement = 0 then Inl ZeroAmount
     else if bs_value_class settlement = PeerCredit then Inl UnsupportedBackingClass
     else Inr ())))))"

definition validate_closed_loop_consumption ::
    "CreditAccount \<Rightarrow> ClosedLoopConsumption \<Rightarrow> string \<Rightarrow> CreditError + unit" where
  "validate_closed_loop_consumption self consumption authenticated_counterparty =
     (if cc_counterparty consumption \<noteq> ca_counterparty self then Inl WrongCounterparty
      else if cc_counterparty consumption \<noteq> authenticated_counterparty
           then Inl UnauthenticatedCounterparty
      else and_then (issuer self (cc_issuer consumption)) (\<lambda>_.
           if is_blank (cc_consumption_id consumption) then Inl MissingClosedLoopConsumptionId
           else if is_blank (cc_resource consumption) then Inl NoUsefulService
           else if cc_amount_sat consumption = 0 then Inl ZeroAmount
           else Inr ()))"

definition validate_settlement_identity ::
    "CreditAccount \<Rightarrow> ExternalSettlementRequest \<Rightarrow> string \<Rightarrow> CreditError + unit" where
  "validate_settlement_identity self request authenticated_counterparty =
     (if xr_counterparty request \<noteq> ca_counterparty self then Inl WrongCounterparty
      else if xr_counterparty request \<noteq> authenticated_counterparty
           then Inl UnauthenticatedCounterparty
      else and_then (issuer self (xr_issuer request)) (\<lambda>_.
           if is_blank (xr_settlement_id request) then Inl MissingSettlementId else Inr ()))"

definition validate_settlement ::
    "CreditAccount \<Rightarrow> ExternalSettlementRequest \<Rightarrow> string \<Rightarrow> u64 \<Rightarrow> CreditError + unit" where
  "validate_settlement self request authenticated_counterparty now_unix =
     and_then (validate_settlement_identity self request authenticated_counterparty) (\<lambda>_.
     and_then (issuer self (xr_issuer request)) (\<lambda>state.
     and_then (ensure_active state now_unix) (\<lambda>_.
     if xr_expires_at_unix request \<le> now_unix then Inl SettlementExpired
     else if xr_amount_sat request = 0 then Inl ZeroAmount
     else if is_blank (xr_payout_destination request) then Inl MissingPayoutDestination
     else Inr ())))"

section \<open>Applying a receipt's value\<close>

definition apply_peer_credit ::
    "ServiceReceiptClaim \<Rightarrow> AcceptanceMode \<Rightarrow> CreditAccount \<Rightarrow> (CreditError + unit) \<times> CreditAccount" where
  "apply_peer_credit claim mode self =
     attempt (issuer self (sr_issuer claim)) self (\<lambda>state.
     attempt_local (pc_credit (sr_amount_sat claim) (mode = OfflineDeferred) (is_peer_credit state))
       self (\<lambda>_ ledger.
     attempt (issuer self (sr_issuer claim)) self (\<lambda>holder.
     if pc_outstanding_sat ledger > ip_max_peer_credit_sat (is_policy holder)
     then (Inl IssuerExposureExceeded, self)
     else if pc_offline_outstanding_sat ledger > ip_max_offline_peer_credit_sat (is_policy holder)
     then (Inl OfflineExposureExceeded, self)
     else
       attempt (ok_or (checked_add (ca_total_peer_credit_sat self) (sr_amount_sat claim))
                  ArithmeticOverflow) self (\<lambda>total.
       if total > ca_max_total_peer_credit_sat self then (Inl TotalExposureExceeded, self)
       else
         attempt_mut (issuer_mut (sr_issuer claim) (set_peer_credit ledger) self) (\<lambda>_ self.
         (Inr (), self\<lparr>ca_total_peer_credit_sat := total\<rparr>))))))"

definition apply_closed_loop ::
    "ServiceReceiptClaim \<Rightarrow> CreditAccount \<Rightarrow> (CreditError + unit) \<times> CreditAccount" where
  "apply_closed_loop claim self =
     attempt (issuer self (sr_issuer claim)) self (\<lambda>state.
     attempt (ok_or (checked_add (cl_claimable_sat (is_closed_loop state)) (sr_amount_sat claim))
                ArithmeticOverflow) self (\<lambda>resulting.
     attempt (issuer self (sr_issuer claim)) self (\<lambda>holder.
     if resulting > ip_max_closed_loop_sat (is_policy holder)
     then (Inl ClosedLoopExposureExceeded, self)
     else
       attempt_local (cl_allocate (sr_amount_sat claim) (is_closed_loop state)) self (\<lambda>_ ledger.
       issuer_mut (sr_issuer claim) (set_closed_loop ledger) self))))"

definition ensure_withdrawable_capacity ::
    "CreditAccount \<Rightarrow> string \<Rightarrow> WithdrawableReserveLedger \<Rightarrow> u64 \<Rightarrow> CreditError + unit" where
  "ensure_withdrawable_capacity self i ledger additional_sat =
     and_then (ok_or (Option.bind (checked_add (wr_redeemable_sat ledger) (wr_pending_external_sat ledger))
                 (\<lambda>value. checked_add value additional_sat)) ArithmeticOverflow) (\<lambda>exposure.
     and_then (issuer self i) (\<lambda>state.
     if exposure > ip_max_withdrawable_sat (is_policy state) then Inl WithdrawableExposureExceeded
     else Inr ()))"

definition apply_withdrawable ::
    "ServiceReceiptClaim \<Rightarrow> CreditAccount \<Rightarrow> (CreditError + unit) \<times> CreditAccount" where
  "apply_withdrawable claim self =
     attempt (issuer self (sr_issuer claim)) self (\<lambda>state.
     attempt (ensure_withdrawable_capacity self (sr_issuer claim) (is_withdrawable state)
                (sr_amount_sat claim)) self (\<lambda>_.
     attempt_local (wr_allocate (sr_amount_sat claim) (is_withdrawable state)) self (\<lambda>_ ledger.
     issuer_mut (sr_issuer claim) (set_withdrawable ledger) self)))"

section \<open>Operations\<close>

definition record_backing_deposit ::
    "BackingDeposit \<Rightarrow> string \<Rightarrow> CreditAccount \<Rightarrow> (CreditError + ReceiptApplication) \<times> CreditAccount" where
  "record_backing_deposit deposit authenticated_issuer self =
     attempt (validate_backing_deposit self deposit authenticated_issuer) self (\<lambda>_.
     let operation_key = (bd_issuer deposit, bd_deposit_id deposit) in
     case bm_get (ca_backing_deposits self) operation_key of
       Some existing \<Rightarrow>
         (if existing = deposit then Inr AlreadyApplied else Inl DepositConflict, self)
     | None \<Rightarrow>
         attempt (next_revision self) self (\<lambda>revision.
         attempt_mut
           (case bd_value_class deposit of
              ClosedLoopDeposit \<Rightarrow>
                issuer_mut (bd_issuer deposit) (on_closed_loop (cl_deposit (bd_amount_sat deposit))) self
            | ReserveBackedWithdrawable \<Rightarrow>
                issuer_mut (bd_issuer deposit) (on_withdrawable (wr_deposit (bd_amount_sat deposit))) self
            | PeerCredit \<Rightarrow> (Inl UnsupportedBackingClass, self)) (\<lambda>_ self.
         (Inr Applied,
          self\<lparr>ca_backing_deposits := bm_insert operation_key deposit (ca_backing_deposits self),
               ca_revision := revision\<rparr>))))"

definition apply_receipt ::
    "ServiceReceiptClaim \<Rightarrow> string \<Rightarrow> AcceptanceMode \<Rightarrow> u64 \<Rightarrow> CreditAccount
       \<Rightarrow> (CreditError + ReceiptApplication) \<times> CreditAccount" where
  "apply_receipt claim authenticated_issuer mode now_unix self =
     attempt (validate_receipt_identity self claim authenticated_issuer) self (\<lambda>_.
     case bm_get (ca_applied_receipts self) (sr_receipt_id claim) of
       Some existing \<Rightarrow>
         (if existing = claim then Inr AlreadyApplied else Inl ReceiptConflict, self)
     | None \<Rightarrow>
         attempt (validate_receipt self claim authenticated_issuer now_unix) self (\<lambda>_.
         attempt (next_revision self) self (\<lambda>revision.
         attempt_mut
           (case sr_value_class claim of
              PeerCredit \<Rightarrow> apply_peer_credit claim mode self
            | ClosedLoopDeposit \<Rightarrow>
                attempt (require_online mode) self (\<lambda>_. apply_closed_loop claim self)
            | ReserveBackedWithdrawable \<Rightarrow>
                attempt (require_online mode) self (\<lambda>_. apply_withdrawable claim self)) (\<lambda>_ self.
         let self = (if sr_value_class claim = PeerCredit
                     then self\<lparr>ca_peer_credit_events := ca_peer_credit_events self
                                 @ [ReceiptEvent revision (sr_receipt_id claim) mode]\<rparr>
                     else self) in
         (Inr Applied,
          self\<lparr>ca_applied_receipts := bm_insert (sr_receipt_id claim) claim (ca_applied_receipts self),
               ca_revision := revision\<rparr>)))))"

definition novate_peer_credit ::
    "CreditNovation \<Rightarrow> string \<Rightarrow> u64 \<Rightarrow> CreditAccount \<Rightarrow> (CreditError + unit) \<times> CreditAccount" where
  "novate_peer_credit novation authenticated_to_issuer now_unix self =
     attempt (validate_novation_identity self novation authenticated_to_issuer) self (\<lambda>_.
     case bm_get (ca_novations self) (nv_novation_id novation) of
       Some existing \<Rightarrow> (if existing = novation then Inr () else Inl NovationConflict, self)
     | None \<Rightarrow>
         attempt (validate_novation self novation authenticated_to_issuer now_unix) self (\<lambda>_.
         attempt (next_revision self) self (\<lambda>revision.
         attempt (issuer self (nv_from_issuer novation)) self (\<lambda>from_state.
         attempt (issuer self (nv_to_issuer novation)) self (\<lambda>to_state.
         attempt_local (pc_debit (nv_amount_sat novation) (is_peer_credit from_state)) self (\<lambda>_ source.
         attempt_local (pc_credit (nv_amount_sat novation) False (is_peer_credit to_state)) self
           (\<lambda>_ target.
         attempt (issuer self (nv_to_issuer novation)) self (\<lambda>holder.
         if pc_outstanding_sat target > ip_max_peer_credit_sat (is_policy holder)
         then (Inl IssuerExposureExceeded, self)
         else
           attempt_mut (issuer_mut (nv_from_issuer novation) (set_peer_credit source) self) (\<lambda>_ self.
           attempt_mut (issuer_mut (nv_to_issuer novation) (set_peer_credit target) self) (\<lambda>_ self.
           (Inr (),
            self\<lparr>ca_peer_credit_events := ca_peer_credit_events self
                   @ [NovationEvent revision (nv_novation_id novation)],
                 ca_novations := bm_insert (nv_novation_id novation) novation (ca_novations self),
                 ca_revision := revision\<rparr>)))))))))))"

text \<open>The \<open>match\<close> of the next operation: the backing issuer's ledger takes the value over.\<close>

definition allocate_settlement_backing ::
    "BackedCreditSettlement \<Rightarrow> CreditAccount \<Rightarrow> (CreditError + unit) \<times> CreditAccount" where
  "allocate_settlement_backing settlement self =
     (case bs_value_class settlement of
        ClosedLoopDeposit \<Rightarrow>
          attempt (issuer self (bs_backing_issuer settlement)) self (\<lambda>state.
          attempt (ok_or (checked_add (cl_claimable_sat (is_closed_loop state))
                     (bs_amount_sat settlement)) ArithmeticOverflow) self (\<lambda>exposure.
          attempt (issuer self (bs_backing_issuer settlement)) self (\<lambda>holder.
          if exposure > ip_max_closed_loop_sat (is_policy holder)
          then (Inl ClosedLoopExposureExceeded, self)
          else
            attempt_local (cl_allocate (bs_amount_sat settlement) (is_closed_loop state)) self
              (\<lambda>_ backing.
            issuer_mut (bs_backing_issuer settlement) (set_closed_loop backing) self))))
      | ReserveBackedWithdrawable \<Rightarrow>
          attempt (issuer self (bs_backing_issuer settlement)) self (\<lambda>state.
          attempt (ensure_withdrawable_capacity self (bs_backing_issuer settlement)
                     (is_withdrawable state) (bs_amount_sat settlement)) self (\<lambda>_.
          attempt_local (wr_allocate (bs_amount_sat settlement) (is_withdrawable state)) self
            (\<lambda>_ backing.
          issuer_mut (bs_backing_issuer settlement) (set_withdrawable backing) self)))
      | PeerCredit \<Rightarrow> (Inl UnsupportedBackingClass, self))"

definition settle_peer_credit_with_backing ::
    "BackedCreditSettlement \<Rightarrow> string \<Rightarrow> u64 \<Rightarrow> CreditAccount
       \<Rightarrow> (CreditError + ReceiptApplication) \<times> CreditAccount" where
  "settle_peer_credit_with_backing settlement authenticated_backing_issuer now_unix self =
     attempt (validate_backed_settlement_identity self settlement authenticated_backing_issuer) self
       (\<lambda>_.
     case bm_get (ca_backed_settlements self) (bs_settlement_id settlement) of
       Some existing \<Rightarrow>
         (if existing = settlement then Inr AlreadyApplied else Inl BackedSettlementConflict, self)
     | None \<Rightarrow>
         attempt (validate_backed_settlement self settlement authenticated_backing_issuer now_unix)
           self (\<lambda>_.
         attempt (next_revision self) self (\<lambda>revision.
         attempt (issuer self (bs_from_issuer settlement)) self (\<lambda>from_state.
         attempt_local (pc_debit (bs_amount_sat settlement) (is_peer_credit from_state)) self
           (\<lambda>_ source.
         attempt (ok_or (checked_sub (ca_total_peer_credit_sat self) (bs_amount_sat settlement))
                    ConservationViolation) self (\<lambda>remaining_peer_credit.
         attempt_mut (allocate_settlement_backing settlement self) (\<lambda>_ self.
         attempt_mut (issuer_mut (bs_from_issuer settlement) (set_peer_credit source) self) (\<lambda>_ self.
         (Inr Applied,
          self\<lparr>ca_total_peer_credit_sat := remaining_peer_credit,
               ca_peer_credit_events := ca_peer_credit_events self
                 @ [BackedSettlementEvent revision (bs_settlement_id settlement)],
               ca_backed_settlements :=
                 bm_insert (bs_settlement_id settlement) settlement (ca_backed_settlements self),
               ca_revision := revision\<rparr>)))))))))"

definition consume_closed_loop ::
    "ClosedLoopConsumption \<Rightarrow> string \<Rightarrow> CreditAccount
       \<Rightarrow> (CreditError + ReceiptApplication) \<times> CreditAccount" where
  "consume_closed_loop consumption authenticated_counterparty self =
     attempt (validate_closed_loop_consumption self consumption authenticated_counterparty) self (\<lambda>_.
     case bm_get (ca_closed_loop_consumptions self) (cc_consumption_id consumption) of
       Some existing \<Rightarrow>
         (if existing = consumption then Inr AlreadyApplied else Inl ClosedLoopConsumptionConflict,
          self)
     | None \<Rightarrow>
         attempt (next_revision self) self (\<lambda>revision.
         attempt_mut (issuer_mut (cc_issuer consumption)
             (on_closed_loop (cl_consume (cc_amount_sat consumption))) self) (\<lambda>_ self.
         (Inr Applied,
          self\<lparr>ca_closed_loop_consumptions :=
                 bm_insert (cc_consumption_id consumption) consumption
                   (ca_closed_loop_consumptions self),
               ca_revision := revision\<rparr>))))"

definition authorization_of ::
    "ExternalSettlementRequest \<Rightarrow> u64 \<Rightarrow> u64 \<Rightarrow> ExternalSettlementAuthorization" where
  "authorization_of request reserved_sat now_unix =
     \<lparr>xa_settlement_id = xr_settlement_id request,
      xa_issuer = xr_issuer request,
      xa_counterparty = xr_counterparty request,
      xa_payout_destination = xr_payout_destination request,
      xa_amount_sat = xr_amount_sat request,
      xa_max_fee_sat = xr_max_fee_sat request,
      xa_reserved_sat = reserved_sat,
      xa_authorized_at_unix = now_unix,
      xa_expires_at_unix = xr_expires_at_unix request\<rparr>"

definition authorize_external_settlement ::
    "ExternalSettlementRequest \<Rightarrow> string \<Rightarrow> u64 \<Rightarrow> CreditAccount
       \<Rightarrow> (CreditError + ExternalSettlementAuthorization) \<times> CreditAccount" where
  "authorize_external_settlement request authenticated_counterparty now_unix self =
     attempt (validate_settlement_identity self request authenticated_counterparty) self (\<lambda>_.
     case bm_get (ca_settlements self) (xr_settlement_id request) of
       Some existing \<Rightarrow>
         (if st_request existing \<noteq> request then (Inl SettlementConflict, self)
          else case st_state existing of
            Pending \<Rightarrow> (Inr (st_authorization existing), self)
          | Completed fee_sat \<Rightarrow> (Inl SettlementCompleted, self)
          | Cancelled \<Rightarrow> (Inl SettlementCancelled, self))
     | None \<Rightarrow>
         attempt (validate_settlement self request authenticated_counterparty now_unix) self (\<lambda>_.
         attempt (next_revision self) self (\<lambda>revision.
         attempt (ok_or (checked_add (xr_amount_sat request) (xr_max_fee_sat request))
                    ArithmeticOverflow) self (\<lambda>reserved_sat.
         attempt_mut (issuer_mut (xr_issuer request)
             (on_withdrawable (wr_authorize reserved_sat)) self) (\<lambda>_ self.
         let authorization = authorization_of request reserved_sat now_unix in
         (Inr authorization,
          self\<lparr>ca_settlements :=
                 bm_insert (xr_settlement_id request)
                   \<lparr>st_request = request, st_authorization = authorization, st_state = Pending\<rparr>
                   (ca_settlements self),
               ca_revision := revision\<rparr>))))))"

definition pending_external_settlement_authorizations ::
    "CreditAccount \<Rightarrow> ExternalSettlementAuthorization list" where
  "pending_external_settlement_authorizations self =
     map st_authorization (filter (\<lambda>record. st_state record = Pending)
       (bm_values (ca_settlements self)))"

text \<open>\<open>get_mut(id).expect(..).state = ..\<close>; the record was read before, so it is present.\<close>

definition set_settlement_state ::
    "string \<Rightarrow> SettlementState \<Rightarrow> CreditAccount \<Rightarrow> CreditAccount" where
  "set_settlement_state settlement_id state self =
     (case bm_get (ca_settlements self) settlement_id of
        None \<Rightarrow> self
      | Some record \<Rightarrow>
          self\<lparr>ca_settlements :=
            bm_set settlement_id (record\<lparr>st_state := state\<rparr>) (ca_settlements self)\<rparr>)"

definition complete_external_settlement ::
    "string \<Rightarrow> u64 \<Rightarrow> CreditAccount \<Rightarrow> (CreditError + unit) \<times> CreditAccount" where
  "complete_external_settlement settlement_id actual_fee_sat self =
     attempt (ok_or (bm_get (ca_settlements self) settlement_id) UnknownSettlement) self (\<lambda>record.
     case st_state record of
       Completed fee_sat \<Rightarrow>
         (if fee_sat = actual_fee_sat then Inr () else Inl SettlementCompletionConflict, self)
     | Cancelled \<Rightarrow> (Inl SettlementCancelled, self)
     | Pending \<Rightarrow>
         let request = st_request record in
         if actual_fee_sat > xr_max_fee_sat request then (Inl SettlementFeeExceeded, self)
         else
           attempt (next_revision self) self (\<lambda>revision.
           attempt (ok_or (checked_add (xr_amount_sat request) actual_fee_sat) ArithmeticOverflow)
             self (\<lambda>spent_sat.
           let unused_fee_sat = xr_max_fee_sat request - actual_fee_sat in
           attempt (issuer self (xr_issuer request)) self (\<lambda>state.
           attempt_local (wr_complete spent_sat (is_withdrawable state)) self (\<lambda>_ ledger.
           attempt_local (if unused_fee_sat > 0 then wr_cancel unused_fee_sat ledger
                          else (Inr (), ledger)) self (\<lambda>_ ledger.
           attempt_mut (issuer_mut (xr_issuer request) (set_withdrawable ledger) self) (\<lambda>_ self.
           (Inr (),
            (set_settlement_state settlement_id (Completed actual_fee_sat) self)
              \<lparr>ca_revision := revision\<rparr>))))))))"

definition cancel_external_settlement ::
    "string \<Rightarrow> CreditAccount \<Rightarrow> (CreditError + unit) \<times> CreditAccount" where
  "cancel_external_settlement settlement_id self =
     attempt (ok_or (bm_get (ca_settlements self) settlement_id) UnknownSettlement) self (\<lambda>record.
     case st_state record of
       Cancelled \<Rightarrow> (Inr (), self)
     | Completed fee_sat \<Rightarrow> (Inl SettlementCompleted, self)
     | Pending \<Rightarrow>
         attempt (next_revision self) self (\<lambda>revision.
         attempt_mut (issuer_mut (xr_issuer (st_request record))
             (on_withdrawable (wr_cancel (xa_reserved_sat (st_authorization record)))) self) (\<lambda>_ self.
         (Inr (),
          (set_settlement_state settlement_id Cancelled self)\<lparr>ca_revision := revision\<rparr>))))"

end
