(* ===== verification/Credit_Account_Effects.thy ===== *)
theory Credit_Account_Effects
  imports Credit_Account
begin

text \<open>
  What an account operation does, read off its definition once: a rejected call returns the
  account unchanged, and an accepted call is either a replay of a recorded operation or a
  single application whose whole effect on the state is given. Later theories use only these
  lemmas.
\<close>

section \<open>Access to one issuer\<close>

lemma issuer_Inr [result_simps]: "issuer a i = Inr st \<longleftrightarrow> bm_get (ca_issuers a) i = Some st"
  by (simp add: issuer_def result_simps)

definition revision_fits :: "CreditAccount \<Rightarrow> bool" where
  "revision_fits a \<longleftrightarrow> unat (ca_revision a) + 1 < 2 ^ 64"

lemma next_revision_Inr [result_simps]:
  "next_revision a = Inr rv \<longleftrightarrow> rv = ca_revision a + 1 \<and> revision_fits a"
  by (auto simp: next_revision_def result_simps checked_add_def revision_fits_def)

lemma revision_step: "revision_fits a \<Longrightarrow> unat (ca_revision a + 1) = unat (ca_revision a) + 1"
  unfolding revision_fits_def by (subst unat_add_fits) simp_all

lemma issuer_mut_Inr [result_simps]:
  "issuer_mut i body a = (Inr x, a') \<longleftrightarrow>
     (\<exists>st st'. bm_get (ca_issuers a) i = Some st \<and> body st = (Inr x, st') \<and>
        a' = a\<lparr>ca_issuers := bm_set i st' (ca_issuers a)\<rparr>)"
  by (auto simp: issuer_mut_def split: option.splits prod.splits)

lemma issuer_mut_error:
  assumes "issuer_mut i body a = (Inl e, a')" "\<And>st e st'. body st = (Inl e, st') \<Longrightarrow> st' = st"
  shows "a' = a"
proof (cases "bm_get (ca_issuers a) i")
  case (Some st)
  then obtain st' where b: "body st = (Inl e, st')"
    and a': "a' = a\<lparr>ca_issuers := bm_set i st' (ca_issuers a)\<rparr>"
    using assms(1) by (auto simp: issuer_mut_def split: prod.splits)
  have "st' = st" using b by (rule assms(2))
  with a' Some show ?thesis by (simp add: bm_set_same)
qed (use assms in \<open>simp add: issuer_mut_def\<close>)

lemma ledger_body_Inr [result_simps]:
  "set_peer_credit p st = (Inr (), st') \<longleftrightarrow> st' = st\<lparr>is_peer_credit := p\<rparr>"
  "set_closed_loop c st = (Inr (), st') \<longleftrightarrow> st' = st\<lparr>is_closed_loop := c\<rparr>"
  "set_withdrawable w st = (Inr (), st') \<longleftrightarrow> st' = st\<lparr>is_withdrawable := w\<rparr>"
  "on_closed_loop f st = (Inr (), st') \<longleftrightarrow>
     (\<exists>l. f (is_closed_loop st) = (Inr (), l) \<and> st' = st\<lparr>is_closed_loop := l\<rparr>)"
  "on_withdrawable g st = (Inr (), st') \<longleftrightarrow>
     (\<exists>l. g (is_withdrawable st) = (Inr (), l) \<and> st' = st\<lparr>is_withdrawable := l\<rparr>)"
  by (auto simp: set_peer_credit_def set_closed_loop_def set_withdrawable_def on_closed_loop_def
      on_withdrawable_def split: prod.splits)

lemma ledger_body_error:
  "set_peer_credit p st = (Inl e, st') \<Longrightarrow> st' = st"
  "set_closed_loop c st = (Inl e, st') \<Longrightarrow> st' = st"
  "set_withdrawable w st = (Inl e, st') \<Longrightarrow> st' = st"
  "on_closed_loop (cl_deposit n) st = (Inl e, st') \<Longrightarrow> st' = st"
  "on_closed_loop (cl_consume n) st = (Inl e, st') \<Longrightarrow> st' = st"
  "on_withdrawable (wr_deposit n) st = (Inl e, st') \<Longrightarrow> st' = st"
  "on_withdrawable (wr_authorize n) st = (Inl e, st') \<Longrightarrow> st' = st"
  "on_withdrawable (wr_cancel n) st = (Inl e, st') \<Longrightarrow> st' = st"
  by (auto simp: set_peer_credit_def set_closed_loop_def set_withdrawable_def on_closed_loop_def
      on_withdrawable_def split: prod.splits dest!: ledger_error_keeps)

lemma issuer_mut_keeps:
  "issuer_mut i (set_peer_credit p) a = (Inl e, a') \<Longrightarrow> a' = a"
  "issuer_mut i (set_closed_loop c) a = (Inl e, a') \<Longrightarrow> a' = a"
  "issuer_mut i (set_withdrawable w) a = (Inl e, a') \<Longrightarrow> a' = a"
  "issuer_mut i (on_closed_loop (cl_deposit n)) a = (Inl e, a') \<Longrightarrow> a' = a"
  "issuer_mut i (on_closed_loop (cl_consume n)) a = (Inl e, a') \<Longrightarrow> a' = a"
  "issuer_mut i (on_withdrawable (wr_deposit n)) a = (Inl e, a') \<Longrightarrow> a' = a"
  "issuer_mut i (on_withdrawable (wr_authorize n)) a = (Inl e, a') \<Longrightarrow> a' = a"
  "issuer_mut i (on_withdrawable (wr_cancel n)) a = (Inl e, a') \<Longrightarrow> a' = a"
  by (erule issuer_mut_error, erule ledger_body_error)+

lemma set_peer_credit_present:
  "bm_get (ca_issuers a) i = Some st \<Longrightarrow>
     issuer_mut i (set_peer_credit p) a =
       (Inr (), a\<lparr>ca_issuers := bm_set i (st\<lparr>is_peer_credit := p\<rparr>) (ca_issuers a)\<rparr>)"
  by (simp add: result_simps)

section \<open>A rejected call changes nothing\<close>

lemma apply_peer_credit_error: "apply_peer_credit c m a = (Inl e, a') \<Longrightarrow> a' = a"
  by (auto simp: apply_peer_credit_def result_simps split: if_splits dest: issuer_mut_keeps)

lemma apply_closed_loop_error: "apply_closed_loop c a = (Inl e, a') \<Longrightarrow> a' = a"
  by (auto simp: apply_closed_loop_def result_simps split: if_splits dest: issuer_mut_keeps)

lemma apply_withdrawable_error: "apply_withdrawable c a = (Inl e, a') \<Longrightarrow> a' = a"
  by (auto simp: apply_withdrawable_def result_simps split: if_splits dest: issuer_mut_keeps)

lemma allocate_settlement_backing_error:
  "allocate_settlement_backing s a = (Inl e, a') \<Longrightarrow> a' = a"
  by (auto simp: allocate_settlement_backing_def result_simps
      split: if_splits ValueClass.splits dest: issuer_mut_keeps)

lemma record_backing_deposit_error: "record_backing_deposit d auth a = (Inl e, a') \<Longrightarrow> a' = a"
  by (auto simp: record_backing_deposit_def Let_def result_simps
      split: if_splits option.splits ValueClass.splits dest: issuer_mut_keeps)

lemma apply_receipt_error: "apply_receipt c auth m now a = (Inl e, a') \<Longrightarrow> a' = a"
  by (auto simp: apply_receipt_def Let_def result_simps
      split: if_splits option.splits ValueClass.splits
      dest: apply_peer_credit_error apply_closed_loop_error apply_withdrawable_error)

lemma consume_closed_loop_error: "consume_closed_loop c auth a = (Inl e, a') \<Longrightarrow> a' = a"
  by (auto simp: consume_closed_loop_def Let_def result_simps
      split: if_splits option.splits dest: issuer_mut_keeps)

lemma authorize_external_settlement_error:
  "authorize_external_settlement r auth now a = (Inl e, a') \<Longrightarrow> a' = a"
  by (auto simp: authorize_external_settlement_def Let_def result_simps
      split: if_splits option.splits SettlementState.splits dest: issuer_mut_keeps)

lemma complete_external_settlement_error:
  assumes "complete_external_settlement i fee a = (Inl e, a')"
  shows "a' = a"
proof (cases "bm_get (ca_settlements a) i")
  case (Some r)
  with assms show ?thesis
    by (cases "st_state r")
      (auto simp: complete_external_settlement_def Let_def result_simps
        split: if_splits dest: issuer_mut_keeps)
qed (use assms in \<open>simp add: complete_external_settlement_def\<close>)

lemma cancel_external_settlement_error:
  assumes "cancel_external_settlement i a = (Inl e, a')"
  shows "a' = a"
proof (cases "bm_get (ca_settlements a) i")
  case (Some r)
  with assms show ?thesis
    by (cases "st_state r")
      (auto simp: cancel_external_settlement_def Let_def result_simps dest: issuer_mut_keeps)
qed (use assms in \<open>simp add: cancel_external_settlement_def\<close>)

text \<open>The two operations that write two issuers: the second write cannot miss, because the
  issuer was read before and writing an entry keeps the keys.\<close>

lemma second_write_present:
  "bm_get (ca_issuers a) j = Some st \<Longrightarrow>
     issuer_mut i body a = (Inr x, a1) \<Longrightarrow> \<exists>st'. bm_get (ca_issuers a1) j = Some st'"
  by (auto simp: result_simps bm_get_bm_set split: option.splits)

lemma second_write_ok:
  assumes "bm_get (ca_issuers a) j = Some st" "issuer_mut i body a = (Inr x, a1)"
    "issuer_mut j (set_peer_credit p) a1 = (Inl e, a')"
  shows False
proof -
  obtain st' where "bm_get (ca_issuers a1) j = Some st'"
    using second_write_present [OF assms(1,2)] by blast
  then show False using assms(3) by (simp add: set_peer_credit_present)
qed

lemma novate_peer_credit_error: "novate_peer_credit n auth now a = (Inl e, a') \<Longrightarrow> a' = a"
  by (auto simp: novate_peer_credit_def result_simps simp del: issuer_mut_Inr
      split: if_splits option.splits dest: issuer_mut_keeps second_write_ok)

section \<open>Effect of an application on one issuer\<close>

text \<open>Backing of a class moves to the holder's claim, within the issuer's cap for the class.\<close>

definition allocated :: "ValueClass \<Rightarrow> u64 \<Rightarrow> IssuerState \<Rightarrow> IssuerState \<Rightarrow> bool" where
  "allocated v n st st' \<longleftrightarrow>
     v = ClosedLoopDeposit
       \<and> unat (cl_claimable_sat (is_closed_loop st)) + unat n \<le> unat (ip_max_closed_loop_sat (is_policy st))
       \<and> (\<exists>l. cl_allocate n (is_closed_loop st) = (Inr (), l) \<and> st' = st\<lparr>is_closed_loop := l\<rparr>)
     \<or> v = ReserveBackedWithdrawable
       \<and> unat (wr_redeemable_sat (is_withdrawable st)) + unat (wr_pending_external_sat (is_withdrawable st))
           + unat n \<le> unat (ip_max_withdrawable_sat (is_policy st))
       \<and> (\<exists>l. wr_allocate n (is_withdrawable st) = (Inr (), l) \<and> st' = st\<lparr>is_withdrawable := l\<rparr>)"

definition deposited :: "ValueClass \<Rightarrow> u64 \<Rightarrow> IssuerState \<Rightarrow> IssuerState \<Rightarrow> bool" where
  "deposited v n st st' \<longleftrightarrow>
     v = ClosedLoopDeposit
       \<and> (\<exists>l. cl_deposit n (is_closed_loop st) = (Inr (), l) \<and> st' = st\<lparr>is_closed_loop := l\<rparr>)
     \<or> v = ReserveBackedWithdrawable
       \<and> (\<exists>l. wr_deposit n (is_withdrawable st) = (Inr (), l) \<and> st' = st\<lparr>is_withdrawable := l\<rparr>)"

lemma deposited_intros:
  "cl_deposit n (is_closed_loop st) = (Inr (), c) \<Longrightarrow>
     deposited ClosedLoopDeposit n st (st\<lparr>is_closed_loop := c\<rparr>)"
  "wr_deposit n (is_withdrawable st) = (Inr (), w) \<Longrightarrow>
     deposited ReserveBackedWithdrawable n st (st\<lparr>is_withdrawable := w\<rparr>)"
  by (auto simp: deposited_def)

lemma deposited_cases [consumes 1, case_names closed_loop withdrawable]:
  assumes "deposited v n st st'"
  obtains c where "v = ClosedLoopDeposit" "cl_deposit n (is_closed_loop st) = (Inr (), c)"
      "st' = st\<lparr>is_closed_loop := c\<rparr>"
  | w where "v = ReserveBackedWithdrawable" "wr_deposit n (is_withdrawable st) = (Inr (), w)"
      "st' = st\<lparr>is_withdrawable := w\<rparr>"
  using assms by (auto simp: deposited_def)

lemma allocated_cases [consumes 1, case_names closed_loop withdrawable]:
  assumes "allocated v n st st'"
  obtains c where "v = ClosedLoopDeposit" "cl_allocate n (is_closed_loop st) = (Inr (), c)"
      "unat (cl_claimable_sat (is_closed_loop st)) + unat n
         \<le> unat (ip_max_closed_loop_sat (is_policy st))"
      "st' = st\<lparr>is_closed_loop := c\<rparr>"
  | w where "v = ReserveBackedWithdrawable" "wr_allocate n (is_withdrawable st) = (Inr (), w)"
      "unat (wr_redeemable_sat (is_withdrawable st)) + unat (wr_pending_external_sat (is_withdrawable st))
         + unat n \<le> unat (ip_max_withdrawable_sat (is_policy st))"
      "st' = st\<lparr>is_withdrawable := w\<rparr>"
  using assms by (auto simp: allocated_def)

lemma deposited_keeps:
  "deposited v n st st' \<Longrightarrow>
     is_policy st' = is_policy st \<and> is_peer_credit st' = is_peer_credit st \<and> v \<noteq> PeerCredit"
  by (auto simp: deposited_def)

lemma allocated_keeps:
  "allocated v n st st' \<Longrightarrow>
     is_policy st' = is_policy st \<and> is_peer_credit st' = is_peer_credit st \<and> v \<noteq> PeerCredit"
  by (auto simp: allocated_def)

lemma ensure_withdrawable_capacity_Inr [result_simps]:
  "ensure_withdrawable_capacity a i l n = Inr x \<longleftrightarrow>
     (\<exists>st. bm_get (ca_issuers a) i = Some st \<and>
        unat (wr_redeemable_sat l) + unat (wr_pending_external_sat l) + unat n
          \<le> unat (ip_max_withdrawable_sat (is_policy st)))"
proof -
  have "(\<exists>z :: u64. unat z = k \<and> unat z \<le> unat t) \<longleftrightarrow> k \<le> unat t" for k and t :: u64
    using word_of_bounded [of k t] by auto
  then show ?thesis
    by (auto simp: ensure_withdrawable_capacity_def result_simps u64_simps word_less_nat_alt
        linorder_not_less)
qed

lemma apply_backed_Inr:
  "apply_closed_loop c a = (Inr (), a') \<Longrightarrow>
     \<exists>st st'. bm_get (ca_issuers a) (sr_issuer c) = Some st \<and>
       allocated ClosedLoopDeposit (sr_amount_sat c) st st' \<and>
       a' = a\<lparr>ca_issuers := bm_set (sr_issuer c) st' (ca_issuers a)\<rparr>"
  "apply_withdrawable c a = (Inr (), a') \<Longrightarrow>
     \<exists>st st'. bm_get (ca_issuers a) (sr_issuer c) = Some st \<and>
       allocated ReserveBackedWithdrawable (sr_amount_sat c) st st' \<and>
       a' = a\<lparr>ca_issuers := bm_set (sr_issuer c) st' (ca_issuers a)\<rparr>"
  by (auto simp: apply_closed_loop_def apply_withdrawable_def allocated_def result_simps u64_simps
      word_less_nat_alt linorder_not_less split: if_splits)

lemma allocate_settlement_backing_Inr:
  "allocate_settlement_backing s a = (Inr (), a') \<Longrightarrow>
     \<exists>st st'. bm_get (ca_issuers a) (bs_backing_issuer s) = Some st \<and>
       allocated (bs_value_class s) (bs_amount_sat s) st st' \<and>
       a' = a\<lparr>ca_issuers := bm_set (bs_backing_issuer s) st' (ca_issuers a)\<rparr>"
  by (auto simp: allocate_settlement_backing_def allocated_def result_simps u64_simps
      word_less_nat_alt linorder_not_less split: if_splits ValueClass.splits)

lemma apply_peer_credit_Inr:
  "apply_peer_credit c m a = (Inr (), a') \<Longrightarrow>
     \<exists>st l t. bm_get (ca_issuers a) (sr_issuer c) = Some st \<and>
       pc_credit (sr_amount_sat c) (m = OfflineDeferred) (is_peer_credit st) = (Inr (), l) \<and>
       pc_outstanding_sat l \<le> ip_max_peer_credit_sat (is_policy st) \<and>
       pc_offline_outstanding_sat l \<le> ip_max_offline_peer_credit_sat (is_policy st) \<and>
       unat t = unat (ca_total_peer_credit_sat a) + unat (sr_amount_sat c) \<and>
       t \<le> ca_max_total_peer_credit_sat a \<and>
       a' = a\<lparr>ca_issuers := bm_set (sr_issuer c) (st\<lparr>is_peer_credit := l\<rparr>) (ca_issuers a),
              ca_total_peer_credit_sat := t\<rparr>"
  by (auto simp: apply_peer_credit_def result_simps u64_simps linorder_not_less split: if_splits)

lemma allocate_second_write_ok:
  assumes "bm_get (ca_issuers a) j = Some st" "allocate_settlement_backing s a = (Inr x, a1)"
    "issuer_mut j (set_peer_credit p) a1 = (Inl e, a')"
  shows False
proof -
  obtain st' where "bm_get (ca_issuers a1) j = Some st'"
    using assms(1,2) allocate_settlement_backing_Inr [of s a a1]
    by (cases "j = bs_backing_issuer s") (auto simp: bm_get_bm_set)
  then show False using assms(3) by (simp add: set_peer_credit_present)
qed

lemma settle_peer_credit_with_backing_error:
  assumes "settle_peer_credit_with_backing s auth now a = (Inl e, a')"
  shows "a' = a"
  using assms
  by (auto simp: settle_peer_credit_with_backing_def result_simps simp del: issuer_mut_Inr
      split: if_splits option.splits dest: allocate_settlement_backing_error allocate_second_write_ok)

section \<open>An accepted call is a replay or one application\<close>

lemma ensure_active_cases [result_simps]:
  "ensure_active st now = Inr x \<longleftrightarrow>
     (\<forall>expires. ip_expires_at_unix (is_policy st) = Some expires \<longrightarrow> now < expires)"
  by (auto simp: ensure_active_def split: option.splits)

lemma record_backing_deposit_effect:
  assumes "record_backing_deposit d auth a = (Inr r, a')"
  shows "r = AlreadyApplied \<and> a' = a
      \<and> bm_get (ca_backing_deposits a) (bd_issuer d, bd_deposit_id d) = Some d
    \<or> r = Applied \<and> revision_fits a
      \<and> bm_get (ca_backing_deposits a) (bd_issuer d, bd_deposit_id d) = None
      \<and> auth = bd_issuer d \<and> \<not> is_blank (bd_deposit_id d) \<and> bd_amount_sat d \<noteq> 0
      \<and> (\<exists>st st'. bm_get (ca_issuers a) (bd_issuer d) = Some st
           \<and> deposited (bd_value_class d) (bd_amount_sat d) st st'
           \<and> a' = a\<lparr>ca_issuers := bm_set (bd_issuer d) st' (ca_issuers a),
                    ca_backing_deposits :=
                      bm_insert (bd_issuer d, bd_deposit_id d) d (ca_backing_deposits a),
                    ca_revision := ca_revision a + 1\<rparr>)"
proof (cases "bm_get (ca_backing_deposits a) (bd_issuer d, bd_deposit_id d)")
  case None
  with assms show ?thesis
    by (cases "bd_value_class d")
      (auto simp: record_backing_deposit_def validate_backing_deposit_def result_simps
        split: if_splits intro!: exI deposited_intros)
qed (use assms in \<open>auto simp: record_backing_deposit_def result_simps split: if_splits\<close>)

lemma apply_receipt_effect:
  assumes "apply_receipt c auth m now a = (Inr r, a')"
  shows "r = AlreadyApplied \<and> a' = a
      \<and> bm_get (ca_applied_receipts a) (sr_receipt_id c) = Some c
    \<or> r = Applied \<and> revision_fits a
      \<and> bm_get (ca_applied_receipts a) (sr_receipt_id c) = None
      \<and> validate_receipt a c auth now = Inr ()
      \<and> (sr_value_class c = PeerCredit
         \<and> (\<exists>st l t. bm_get (ca_issuers a) (sr_issuer c) = Some st
           \<and> pc_credit (sr_amount_sat c) (m = OfflineDeferred) (is_peer_credit st) = (Inr (), l)
           \<and> pc_outstanding_sat l \<le> ip_max_peer_credit_sat (is_policy st)
           \<and> pc_offline_outstanding_sat l \<le> ip_max_offline_peer_credit_sat (is_policy st)
           \<and> unat t = unat (ca_total_peer_credit_sat a) + unat (sr_amount_sat c)
           \<and> t \<le> ca_max_total_peer_credit_sat a
           \<and> a' = a\<lparr>ca_issuers := bm_set (sr_issuer c) (st\<lparr>is_peer_credit := l\<rparr>) (ca_issuers a),
                    ca_total_peer_credit_sat := t,
                    ca_peer_credit_events := ca_peer_credit_events a
                      @ [ReceiptEvent (ca_revision a + 1) (sr_receipt_id c) m],
                    ca_applied_receipts := bm_insert (sr_receipt_id c) c (ca_applied_receipts a),
                    ca_revision := ca_revision a + 1\<rparr>)
       \<or> sr_value_class c \<noteq> PeerCredit \<and> m = Online
         \<and> (\<exists>st st'. bm_get (ca_issuers a) (sr_issuer c) = Some st
           \<and> allocated (sr_value_class c) (sr_amount_sat c) st st'
           \<and> a' = a\<lparr>ca_issuers := bm_set (sr_issuer c) st' (ca_issuers a),
                    ca_applied_receipts := bm_insert (sr_receipt_id c) c (ca_applied_receipts a),
                    ca_revision := ca_revision a + 1\<rparr>))"
proof (cases "bm_get (ca_applied_receipts a) (sr_receipt_id c)")
  case None
  with assms show ?thesis
    by (cases "sr_value_class c"; cases m)
      (auto simp: apply_receipt_def require_online_def result_simps
        dest!: apply_peer_credit_Inr apply_backed_Inr)
qed (use assms in \<open>auto simp: apply_receipt_def result_simps split: if_splits\<close>)

lemma novate_peer_credit_effect:
  assumes "novate_peer_credit n auth now a = (Inr r, a')"
  shows "a' = a \<and> bm_get (ca_novations a) (nv_novation_id n) = Some n
    \<or> revision_fits a
      \<and> bm_get (ca_novations a) (nv_novation_id n) = None
      \<and> validate_novation a n auth now = Inr ()
      \<and> (\<exists>from_st to_st source target.
           bm_get (ca_issuers a) (nv_from_issuer n) = Some from_st
           \<and> bm_get (ca_issuers a) (nv_to_issuer n) = Some to_st
           \<and> pc_debit (nv_amount_sat n) (is_peer_credit from_st) = (Inr (), source)
           \<and> pc_credit (nv_amount_sat n) False (is_peer_credit to_st) = (Inr (), target)
           \<and> pc_outstanding_sat target \<le> ip_max_peer_credit_sat (is_policy to_st)
           \<and> a' = a\<lparr>ca_issuers :=
                      bm_set (nv_to_issuer n) (to_st\<lparr>is_peer_credit := target\<rparr>)
                        (bm_set (nv_from_issuer n) (from_st\<lparr>is_peer_credit := source\<rparr>) (ca_issuers a)),
                    ca_peer_credit_events := ca_peer_credit_events a
                      @ [NovationEvent (ca_revision a + 1) (nv_novation_id n)],
                    ca_novations := bm_insert (nv_novation_id n) n (ca_novations a),
                    ca_revision := ca_revision a + 1\<rparr>)"
proof (cases "bm_get (ca_novations a) (nv_novation_id n)")
  case None
  with assms have "nv_from_issuer n \<noteq> nv_to_issuer n"
    by (auto simp: novate_peer_credit_def validate_novation_identity_def result_simps split: if_splits)
  with None assms show ?thesis
    by (auto simp: novate_peer_credit_def result_simps bm_get_bm_set linorder_not_less
        split: if_splits)
qed (use assms in \<open>auto simp: novate_peer_credit_def result_simps split: if_splits\<close>)

lemma settle_peer_credit_with_backing_effect:
  assumes "settle_peer_credit_with_backing s auth now a = (Inr r, a')"
  shows "r = AlreadyApplied \<and> a' = a
      \<and> bm_get (ca_backed_settlements a) (bs_settlement_id s) = Some s
    \<or> r = Applied \<and> revision_fits a
      \<and> bm_get (ca_backed_settlements a) (bs_settlement_id s) = None
      \<and> validate_backed_settlement a s auth now = Inr ()
      \<and> (\<exists>from_st st st' mid source t.
           bm_get (ca_issuers a) (bs_from_issuer s) = Some from_st
           \<and> pc_debit (bs_amount_sat s) (is_peer_credit from_st) = (Inr (), source)
           \<and> unat (ca_total_peer_credit_sat a) = unat t + unat (bs_amount_sat s)
           \<and> bm_get (ca_issuers a) (bs_backing_issuer s) = Some st
           \<and> allocated (bs_value_class s) (bs_amount_sat s) st st'
           \<and> bm_get (bm_set (bs_backing_issuer s) st' (ca_issuers a)) (bs_from_issuer s) = Some mid
           \<and> a' = a\<lparr>ca_issuers :=
                      bm_set (bs_from_issuer s) (mid\<lparr>is_peer_credit := source\<rparr>)
                        (bm_set (bs_backing_issuer s) st' (ca_issuers a)),
                    ca_total_peer_credit_sat := t,
                    ca_peer_credit_events := ca_peer_credit_events a
                      @ [BackedSettlementEvent (ca_revision a + 1) (bs_settlement_id s)],
                    ca_backed_settlements := bm_insert (bs_settlement_id s) s (ca_backed_settlements a),
                    ca_revision := ca_revision a + 1\<rparr>)"
proof (cases "bm_get (ca_backed_settlements a) (bs_settlement_id s)")
  case None
  with assms obtain from_st source t a1 mid where
    facts: "r = Applied" "revision_fits a" "validate_backed_settlement a s auth now = Inr ()"
      "bm_get (ca_issuers a) (bs_from_issuer s) = Some from_st"
      "pc_debit (bs_amount_sat s) (is_peer_credit from_st) = (Inr (), source)"
      "unat (ca_total_peer_credit_sat a) = unat t + unat (bs_amount_sat s)"
    and a1: "allocate_settlement_backing s a = (Inr (), a1)"
      "bm_get (ca_issuers a1) (bs_from_issuer s) = Some mid"
    and a': "a' = a1\<lparr>ca_issuers := bm_set (bs_from_issuer s) (mid\<lparr>is_peer_credit := source\<rparr>) (ca_issuers a1),
        ca_total_peer_credit_sat := t,
        ca_peer_credit_events := ca_peer_credit_events a1
          @ [BackedSettlementEvent (ca_revision a + 1) (bs_settlement_id s)],
        ca_backed_settlements := bm_insert (bs_settlement_id s) s (ca_backed_settlements a1),
        ca_revision := ca_revision a + 1\<rparr>"
    by (auto simp: settle_peer_credit_with_backing_def result_simps u64_simps)
  obtain st st' where "bm_get (ca_issuers a) (bs_backing_issuer s) = Some st"
    "allocated (bs_value_class s) (bs_amount_sat s) st st'"
    "a1 = a\<lparr>ca_issuers := bm_set (bs_backing_issuer s) st' (ca_issuers a)\<rparr>"
    using allocate_settlement_backing_Inr [OF a1(1)] by blast
  then show ?thesis
    unfolding a' using None facts a1(2)
    by (intro disjI2 conjI exI [of _ from_st] exI [of _ st] exI [of _ st'] exI [of _ mid]
        exI [of _ source] exI [of _ t]) simp_all
qed (use assms in \<open>auto simp: settle_peer_credit_with_backing_def result_simps split: if_splits\<close>)

lemma consume_closed_loop_effect:
  assumes "consume_closed_loop c auth a = (Inr r, a')"
  shows "r = AlreadyApplied \<and> a' = a
      \<and> bm_get (ca_closed_loop_consumptions a) (cc_consumption_id c) = Some c
    \<or> r = Applied \<and> revision_fits a
      \<and> bm_get (ca_closed_loop_consumptions a) (cc_consumption_id c) = None
      \<and> validate_closed_loop_consumption a c auth = Inr ()
      \<and> (\<exists>st l. bm_get (ca_issuers a) (cc_issuer c) = Some st
           \<and> cl_consume (cc_amount_sat c) (is_closed_loop st) = (Inr (), l)
           \<and> a' = a\<lparr>ca_issuers := bm_set (cc_issuer c) (st\<lparr>is_closed_loop := l\<rparr>) (ca_issuers a),
                    ca_closed_loop_consumptions :=
                      bm_insert (cc_consumption_id c) c (ca_closed_loop_consumptions a),
                    ca_revision := ca_revision a + 1\<rparr>)"
  using assms
  by (cases "bm_get (ca_closed_loop_consumptions a) (cc_consumption_id c)")
    (auto simp: consume_closed_loop_def result_simps split: if_splits)

lemma authorize_external_settlement_effect:
  assumes "authorize_external_settlement q auth now a = (Inr z, a')"
  shows "a' = a
      \<and> (\<exists>r. bm_get (ca_settlements a) (xr_settlement_id q) = Some r \<and> st_request r = q
           \<and> st_state r = Pending \<and> z = st_authorization r)
    \<or> revision_fits a
      \<and> bm_get (ca_settlements a) (xr_settlement_id q) = None
      \<and> validate_settlement a q auth now = Inr ()
      \<and> (\<exists>n st l. unat n = unat (xr_amount_sat q) + unat (xr_max_fee_sat q)
           \<and> z = authorization_of q n now
           \<and> bm_get (ca_issuers a) (xr_issuer q) = Some st
           \<and> wr_authorize n (is_withdrawable st) = (Inr (), l)
           \<and> a' = a\<lparr>ca_issuers := bm_set (xr_issuer q) (st\<lparr>is_withdrawable := l\<rparr>) (ca_issuers a),
                    ca_settlements :=
                      bm_insert (xr_settlement_id q)
                        \<lparr>st_request = q, st_authorization = authorization_of q n now,
                         st_state = Pending\<rparr> (ca_settlements a),
                    ca_revision := ca_revision a + 1\<rparr>)"
proof (cases "bm_get (ca_settlements a) (xr_settlement_id q)")
  case None
  with assms show ?thesis
    by (auto simp: authorize_external_settlement_def Let_def result_simps u64_simps)
next
  case (Some r)
  with assms show ?thesis
    by (cases "st_state r")
      (auto simp: authorize_external_settlement_def result_simps split: if_splits)
qed

text \<open>The ledger effect of a completion: the spent part settles, the unused fee returns.\<close>

definition completed :: "u64 \<Rightarrow> u64 \<Rightarrow> u64 \<Rightarrow> WithdrawableReserveLedger \<Rightarrow> WithdrawableReserveLedger \<Rightarrow> bool" where
  "completed amount max_fee fee l l' \<longleftrightarrow>
     wr_total_deposited_sat l' = wr_total_deposited_sat l \<and>
     wr_available_sat l' = wr_available_sat l \<and>
     unat (wr_redeemable_sat l') + unat fee = unat (wr_redeemable_sat l) + unat max_fee \<and>
     unat (wr_pending_external_sat l) =
       unat (wr_pending_external_sat l') + unat amount + unat max_fee \<and>
     unat (wr_settled_external_sat l') = unat (wr_settled_external_sat l) + unat amount + unat fee"

lemma completedI:
  assumes "wr_complete spent l = (Inr (), l1)" "fee \<le> max_fee"
    and "(if max_fee - fee > 0 then wr_cancel (max_fee - fee) l1 else (Inr (), l1)) = (Inr (), l2)"
    and "unat spent = unat amount + unat fee"
  shows "completed amount max_fee fee l l2"
proof -
  have le: "unat fee \<le> unat max_fee" using assms(2) by (simp add: word_le_nat_alt)
  have sub: "unat (max_fee - fee) = unat max_fee - unat fee" using assms(2) by (simp add: unat_sub word_le_nat_alt)
  show ?thesis
  proof (cases "max_fee - fee > 0")
    case True
    with assms le show ?thesis by (auto simp: completed_def ledger_simps sub)
  next
    case False
    then have "unat (max_fee - fee) = 0" by (simp add: word_gt_0)
    with False assms le sub show ?thesis by (auto simp: completed_def ledger_simps)
  qed
qed

lemma complete_external_settlement_effect:
  assumes "complete_external_settlement i fee a = (Inr x, a')"
  shows "\<exists>r. bm_get (ca_settlements a) i = Some r \<and>
     (a' = a \<and> st_state r = Completed fee
      \<or> st_state r = Pending \<and> revision_fits a \<and> fee \<le> xr_max_fee_sat (st_request r)
        \<and> (\<exists>st l. bm_get (ca_issuers a) (xr_issuer (st_request r)) = Some st
             \<and> completed (xr_amount_sat (st_request r)) (xr_max_fee_sat (st_request r)) fee
                 (is_withdrawable st) l
             \<and> a' = a\<lparr>ca_issuers := bm_set (xr_issuer (st_request r)) (st\<lparr>is_withdrawable := l\<rparr>) (ca_issuers a),
                      ca_settlements := bm_set i (r\<lparr>st_state := Completed fee\<rparr>) (ca_settlements a),
                      ca_revision := ca_revision a + 1\<rparr>))"
proof -
  obtain r where r: "bm_get (ca_settlements a) i = Some r"
    using assms by (auto simp: complete_external_settlement_def result_simps)
  show ?thesis
  proof (cases "st_state r")
    case Pending
    let ?q = "st_request r"
    obtain spent st l1 l where "revision_fits a" and le: "fee \<le> xr_max_fee_sat ?q"
      and st: "bm_get (ca_issuers a) (xr_issuer ?q) = Some st"
      and steps: "wr_complete spent (is_withdrawable st) = (Inr (), l1)"
        "(if xr_max_fee_sat ?q - fee > 0 then wr_cancel (xr_max_fee_sat ?q - fee) l1 else (Inr (), l1))
           = (Inr (), l)"
        "unat spent = unat (xr_amount_sat ?q) + unat fee"
      and "a' = a\<lparr>ca_issuers := bm_set (xr_issuer ?q) (st\<lparr>is_withdrawable := l\<rparr>) (ca_issuers a),
          ca_settlements := bm_set i (r\<lparr>st_state := Completed fee\<rparr>) (ca_settlements a),
          ca_revision := ca_revision a + 1\<rparr>"
      using Pending r assms
      by (auto simp: complete_external_settlement_def Let_def result_simps u64_simps
          set_settlement_state_def linorder_not_less)
    with Pending r completedI [OF steps(1) le steps(2,3)] show ?thesis by blast
  qed (use r assms in \<open>auto simp: complete_external_settlement_def result_simps split: if_splits\<close>)
qed

lemma cancel_external_settlement_effect:
  assumes "cancel_external_settlement i a = (Inr x, a')"
  shows "\<exists>r. bm_get (ca_settlements a) i = Some r \<and>
     (a' = a \<and> st_state r = Cancelled
      \<or> st_state r = Pending \<and> revision_fits a
        \<and> (\<exists>st l. bm_get (ca_issuers a) (xr_issuer (st_request r)) = Some st
             \<and> wr_cancel (xa_reserved_sat (st_authorization r)) (is_withdrawable st) = (Inr (), l)
             \<and> a' = a\<lparr>ca_issuers := bm_set (xr_issuer (st_request r)) (st\<lparr>is_withdrawable := l\<rparr>) (ca_issuers a),
                      ca_settlements := bm_set i (r\<lparr>st_state := Cancelled\<rparr>) (ca_settlements a),
                      ca_revision := ca_revision a + 1\<rparr>))"
proof -
  obtain r where r: "bm_get (ca_settlements a) i = Some r"
    using assms by (auto simp: cancel_external_settlement_def result_simps)
  show ?thesis
  proof (cases "st_state r")
    case Pending
    with r assms show ?thesis
      by (auto simp: cancel_external_settlement_def result_simps set_settlement_state_def)
  qed (use r assms in \<open>auto simp: cancel_external_settlement_def result_simps\<close>)
qed

end
