(* ===== verification/Credit_Snapshot.thy ===== *)
theory Credit_Snapshot
  imports Credit_Account
begin

text \<open>
  \<open>crates/cashu-credit/src/snapshot.rs\<close>: the persisted form of an account, its complete
  validation (record checks, per-issuer totals recomputed in checked arithmetic, replay of the
  peer-credit events, revision count) and the conversions in both directions. A \<open>for\<close> loop with
  early returns is a \<open>try_fold\<close> over the loop body; \<open>&mut\<close> totals are the folded state. The
  JSON reader and writer are parameters.
\<close>

section \<open>The persisted form\<close>

record PeerCreditSnapshotV1 =
  pcs_outstanding_sat :: u64
  pcs_offline_outstanding_sat :: u64

record ClosedLoopSnapshotV1 =
  cls_total_deposited_sat :: u64
  cls_available_backing_sat :: u64
  cls_claimable_sat :: u64
  cls_consumed_sat :: u64

record WithdrawableSnapshotV1 =
  wds_total_deposited_sat :: u64
  wds_available_sat :: u64
  wds_redeemable_sat :: u64
  wds_pending_external_sat :: u64
  wds_settled_external_sat :: u64

record IssuerSnapshotV1 =
  iss_policy :: IssuerPolicy
  iss_peer_credit :: PeerCreditSnapshotV1
  iss_closed_loop :: ClosedLoopSnapshotV1
  iss_withdrawable :: WithdrawableSnapshotV1

datatype SettlementStateSnapshotV1 = PendingV1 | CompletedV1 u64 | CancelledV1

record SettlementRecordSnapshotV1 =
  sts_request :: ExternalSettlementRequest
  sts_authorization :: ExternalSettlementAuthorization
  sts_state :: SettlementStateSnapshotV1

record CreditAccountSnapshotV1 =
  sn_version :: u32
  sn_revision :: u64
  sn_counterparty :: string
  sn_max_total_peer_credit_sat :: u64
  sn_total_peer_credit_sat :: u64
  sn_issuers :: "(string, IssuerSnapshotV1) btree_map"
  sn_applied_receipts :: "(string, ServiceReceiptClaim) btree_map"
  sn_peer_credit_events :: "PeerCreditEvent list"
  sn_novations :: "(string, CreditNovation) btree_map"
  sn_backing_deposits :: "BackingDeposit list"
  sn_backed_settlements :: "(string, BackedCreditSettlement) btree_map"
  sn_closed_loop_consumptions :: "(string, ClosedLoopConsumption) btree_map"
  sn_settlements :: "(string, SettlementRecordSnapshotV1) btree_map"

definition SNAPSHOT_VERSION :: u32 where
  "SNAPSHOT_VERSION = 1"

datatype 'j SnapshotError = Json 'j | Credit CreditError

record ExpectedIssuerState =
  ex_peer_credits_sat :: u64
  ex_peer_debits_sat :: u64
  ex_closed_deposits_sat :: u64
  ex_withdrawable_deposits_sat :: u64
  ex_closed_allocations_sat :: u64
  ex_withdrawable_allocations_sat :: u64
  ex_closed_consumptions_sat :: u64
  ex_pending_external_sat :: u64
  ex_settled_external_sat :: u64

definition expected_default :: ExpectedIssuerState where
  "expected_default =
     \<lparr>ex_peer_credits_sat = 0, ex_peer_debits_sat = 0, ex_closed_deposits_sat = 0,
      ex_withdrawable_deposits_sat = 0, ex_closed_allocations_sat = 0,
      ex_withdrawable_allocations_sat = 0, ex_closed_consumptions_sat = 0,
      ex_pending_external_sat = 0, ex_settled_external_sat = 0\<rparr>"

type_synonym expected_map = "(string, ExpectedIssuerState) btree_map"

section \<open>Helpers of the validation\<close>

definition invalid :: "string \<Rightarrow> CreditError + 'a" where
  "invalid reason = Inl (InvalidSnapshot reason)"

definition add :: "u64 \<Rightarrow> u64 \<Rightarrow> string \<Rightarrow> CreditError + u64" where
  "add target amount reason = ok_or (checked_add target amount) (InvalidSnapshot reason)"

definition count :: "nat \<Rightarrow> CreditError + u64" where
  "count value = (if value < 2 ^ 64 then Inr (of_nat value)
                  else invalid ''operation count overflow'')"

lemma count_code [code]:
  "count value = (if int value < 18446744073709551616 then Inr (of_nat value)
                  else invalid ''operation count overflow'')"
  by (simp add: count_def)

definition checked_count_add :: "u64 \<Rightarrow> nat \<Rightarrow> CreditError + u64" where
  "checked_count_add so_far value =
     and_then (count value) (\<lambda>n.
     ok_or (checked_add so_far n) (InvalidSnapshot ''operation count overflow''))"

text \<open>\<open>expected_state\<close> and \<open>event_ledger\<close> return references; \<open>body\<close> is what is done through
  them.\<close>

definition expected_state ::
    "string \<Rightarrow> (ExpectedIssuerState \<Rightarrow> CreditError + ExpectedIssuerState)
       \<Rightarrow> expected_map \<Rightarrow> CreditError + expected_map" where
  "expected_state i body expected =
     (case bm_get expected i of
        None \<Rightarrow> invalid ''operation references unknown issuer''
      | Some totals \<Rightarrow> and_then (body totals) (\<lambda>totals'. Inr (bm_set i totals' expected)))"

definition event_ledger ::
    "string \<Rightarrow> (PeerCreditLedger \<Rightarrow> (CreditError + unit) \<times> PeerCreditLedger) \<Rightarrow> string
       \<Rightarrow> (string, PeerCreditLedger) btree_map \<Rightarrow> CreditError + (string, PeerCreditLedger) btree_map" where
  "event_ledger i body reason ledgers =
     (case bm_get ledgers i of
        None \<Rightarrow> invalid ''peer-credit event references unknown issuer''
      | Some ledger \<Rightarrow>
          (case body ledger of
             (Inl e, ledger') \<Rightarrow> invalid reason
           | (Inr x, ledger') \<Rightarrow> Inr (bm_set i ledger' ledgers)))"

definition validate_issuer :: "string \<Rightarrow> IssuerSnapshotV1 \<Rightarrow> CreditError + unit" where
  "validate_issuer i snap =
     (let policy = iss_policy snap; peer = iss_peer_credit snap;
          closed = iss_closed_loop snap; wd = iss_withdrawable snap in
      if is_blank i
         \<or> ip_issuer policy \<noteq> i
         \<or> ip_max_offline_peer_credit_sat policy > ip_max_peer_credit_sat policy
         \<or> pcs_offline_outstanding_sat peer > pcs_outstanding_sat peer
         \<or> pcs_outstanding_sat peer > ip_max_peer_credit_sat policy
         \<or> pcs_offline_outstanding_sat peer > ip_max_offline_peer_credit_sat policy
         \<or> cls_claimable_sat closed > ip_max_closed_loop_sat policy
      then invalid ''issuer policy or peer-credit caps''
      else
        and_then (ok_or (checked_add (wds_redeemable_sat wd) (wds_pending_external_sat wd))
                    (InvalidSnapshot ''withdrawable exposure overflow'')) (\<lambda>withdrawable_exposure.
        if withdrawable_exposure > ip_max_withdrawable_sat policy
        then invalid ''withdrawable exposure cap''
        else
          and_then (ok_or (Option.bind
               (checked_add (cls_available_backing_sat closed) (cls_claimable_sat closed))
               (\<lambda>value. checked_add value (cls_consumed_sat closed)))
             (InvalidSnapshot ''closed-loop conservation overflow'')) (\<lambda>closed_conserved.
          if closed_conserved \<noteq> cls_total_deposited_sat closed
          then invalid ''closed-loop conservation''
          else
            and_then (ok_or (Option.bind (Option.bind
                 (checked_add (wds_available_sat wd) (wds_redeemable_sat wd))
                 (\<lambda>value. checked_add value (wds_pending_external_sat wd)))
                 (\<lambda>value. checked_add value (wds_settled_external_sat wd)))
               (InvalidSnapshot ''withdrawable conservation overflow'')) (\<lambda>withdrawable_conserved.
            if withdrawable_conserved \<noteq> wds_total_deposited_sat wd
            then invalid ''withdrawable conservation''
            else Inr ()))))"

section \<open>Validation of the records\<close>

definition check_receipt ::
    "string \<Rightarrow> string \<times> ServiceReceiptClaim \<Rightarrow> expected_map \<Rightarrow> CreditError + expected_map" where
  "check_receipt counterparty entry expected =
     (case entry of (key, receipt) \<Rightarrow>
        if key \<noteq> sr_receipt_id receipt
           \<or> is_blank key
           \<or> sr_counterparty receipt \<noteq> counterparty
           \<or> is_blank (sr_service receipt)
           \<or> is_blank (sr_resource receipt)
           \<or> sr_useful_service_units receipt = 0
           \<or> sr_amount_sat receipt = 0
           \<or> sr_issued_at_unix receipt \<ge> sr_expires_at_unix receipt
        then invalid ''receipt record''
        else expected_state (sr_issuer receipt) (\<lambda>totals.
          case sr_value_class receipt of
            PeerCredit \<Rightarrow>
              and_then (add (ex_peer_credits_sat totals) (sr_amount_sat receipt) ''peer receipt total'')
                (\<lambda>v. Inr (totals\<lparr>ex_peer_credits_sat := v\<rparr>))
          | ClosedLoopDeposit \<Rightarrow>
              and_then (add (ex_closed_allocations_sat totals) (sr_amount_sat receipt)
                          ''closed-loop receipt total'')
                (\<lambda>v. Inr (totals\<lparr>ex_closed_allocations_sat := v\<rparr>))
          | ReserveBackedWithdrawable \<Rightarrow>
              and_then (add (ex_withdrawable_allocations_sat totals) (sr_amount_sat receipt)
                          ''withdrawable receipt total'')
                (\<lambda>v. Inr (totals\<lparr>ex_withdrawable_allocations_sat := v\<rparr>))) expected)"

definition validate_receipts ::
    "CreditAccountSnapshotV1 \<Rightarrow> expected_map \<Rightarrow> CreditError + expected_map" where
  "validate_receipts self expected =
     try_fold (check_receipt (sn_counterparty self)) (sn_applied_receipts self) expected"

definition check_novation ::
    "string \<Rightarrow> string \<times> CreditNovation \<Rightarrow> expected_map \<Rightarrow> CreditError + expected_map" where
  "check_novation counterparty entry expected =
     (case entry of (key, novation) \<Rightarrow>
        if key \<noteq> nv_novation_id novation
           \<or> is_blank key
           \<or> nv_counterparty novation \<noteq> counterparty
           \<or> nv_from_issuer novation = nv_to_issuer novation
           \<or> nv_amount_sat novation = 0
        then invalid ''novation record''
        else
          and_then (expected_state (nv_from_issuer novation) (\<lambda>totals.
            and_then (add (ex_peer_debits_sat totals) (nv_amount_sat novation) ''novation debit total'')
              (\<lambda>v. Inr (totals\<lparr>ex_peer_debits_sat := v\<rparr>))) expected) (\<lambda>expected.
          expected_state (nv_to_issuer novation) (\<lambda>totals.
            and_then (add (ex_peer_credits_sat totals) (nv_amount_sat novation) ''novation credit total'')
              (\<lambda>v. Inr (totals\<lparr>ex_peer_credits_sat := v\<rparr>))) expected))"

definition validate_novations ::
    "CreditAccountSnapshotV1 \<Rightarrow> expected_map \<Rightarrow> CreditError + expected_map" where
  "validate_novations self expected =
     try_fold (check_novation (sn_counterparty self)) (sn_novations self) expected"

definition check_deposit ::
    "BackingDeposit \<Rightarrow> (string \<times> string) option \<times> expected_map
       \<Rightarrow> CreditError + (string \<times> string) option \<times> expected_map" where
  "check_deposit deposit loop_state =
     (case loop_state of (previous_key, expected) \<Rightarrow>
        let key = (bd_issuer deposit, bd_deposit_id deposit) in
        if (case previous_key of None \<Rightarrow> False | Some previous \<Rightarrow> previous \<ge> key)
           \<or> is_blank (bd_deposit_id deposit)
           \<or> bd_amount_sat deposit = 0
        then invalid ''backing deposit record''
        else
          and_then (expected_state (bd_issuer deposit) (\<lambda>totals.
            case bd_value_class deposit of
              PeerCredit \<Rightarrow> invalid ''peer-credit backing deposit''
            | ClosedLoopDeposit \<Rightarrow>
                and_then (add (ex_closed_deposits_sat totals) (bd_amount_sat deposit)
                            ''closed-loop deposit total'')
                  (\<lambda>v. Inr (totals\<lparr>ex_closed_deposits_sat := v\<rparr>))
            | ReserveBackedWithdrawable \<Rightarrow>
                and_then (add (ex_withdrawable_deposits_sat totals) (bd_amount_sat deposit)
                            ''withdrawable deposit total'')
                  (\<lambda>v. Inr (totals\<lparr>ex_withdrawable_deposits_sat := v\<rparr>))) expected)
            (\<lambda>expected. Inr (Some key, expected)))"

definition validate_deposits ::
    "CreditAccountSnapshotV1 \<Rightarrow> expected_map \<Rightarrow> CreditError + expected_map" where
  "validate_deposits self expected =
     and_then (try_fold check_deposit (sn_backing_deposits self) (None, expected))
       (\<lambda>(previous_key, expected). Inr expected)"

definition check_backed_settlement ::
    "string \<Rightarrow> string \<times> BackedCreditSettlement \<Rightarrow> expected_map \<Rightarrow> CreditError + expected_map" where
  "check_backed_settlement counterparty entry expected =
     (case entry of (key, settlement) \<Rightarrow>
        if key \<noteq> bs_settlement_id settlement
           \<or> is_blank key
           \<or> bs_counterparty settlement \<noteq> counterparty
           \<or> bs_amount_sat settlement = 0
        then invalid ''backed settlement record''
        else
          and_then (expected_state (bs_from_issuer settlement) (\<lambda>totals.
            and_then (add (ex_peer_debits_sat totals) (bs_amount_sat settlement)
                        ''backed settlement debit total'')
              (\<lambda>v. Inr (totals\<lparr>ex_peer_debits_sat := v\<rparr>))) expected) (\<lambda>expected.
          expected_state (bs_backing_issuer settlement) (\<lambda>backing.
            case bs_value_class settlement of
              PeerCredit \<Rightarrow> invalid ''peer-credit backed settlement''
            | ClosedLoopDeposit \<Rightarrow>
                and_then (add (ex_closed_allocations_sat backing) (bs_amount_sat settlement)
                            ''backed closed-loop allocation total'')
                  (\<lambda>v. Inr (backing\<lparr>ex_closed_allocations_sat := v\<rparr>))
            | ReserveBackedWithdrawable \<Rightarrow>
                and_then (add (ex_withdrawable_allocations_sat backing) (bs_amount_sat settlement)
                            ''backed withdrawable allocation total'')
                  (\<lambda>v. Inr (backing\<lparr>ex_withdrawable_allocations_sat := v\<rparr>))) expected))"

definition validate_backed_settlements ::
    "CreditAccountSnapshotV1 \<Rightarrow> expected_map \<Rightarrow> CreditError + expected_map" where
  "validate_backed_settlements self expected =
     try_fold (check_backed_settlement (sn_counterparty self)) (sn_backed_settlements self) expected"

definition check_consumption ::
    "string \<Rightarrow> string \<times> ClosedLoopConsumption \<Rightarrow> expected_map \<Rightarrow> CreditError + expected_map" where
  "check_consumption counterparty entry expected =
     (case entry of (key, consumption) \<Rightarrow>
        if key \<noteq> cc_consumption_id consumption
           \<or> is_blank key
           \<or> cc_counterparty consumption \<noteq> counterparty
           \<or> is_blank (cc_resource consumption)
           \<or> cc_amount_sat consumption = 0
        then invalid ''closed-loop consumption record''
        else expected_state (cc_issuer consumption) (\<lambda>totals.
          and_then (add (ex_closed_consumptions_sat totals) (cc_amount_sat consumption)
                      ''closed-loop consumption total'')
            (\<lambda>v. Inr (totals\<lparr>ex_closed_consumptions_sat := v\<rparr>))) expected)"

definition validate_consumptions ::
    "CreditAccountSnapshotV1 \<Rightarrow> expected_map \<Rightarrow> CreditError + expected_map" where
  "validate_consumptions self expected =
     try_fold (check_consumption (sn_counterparty self)) (sn_closed_loop_consumptions self) expected"

definition check_external_settlement ::
    "string \<Rightarrow> string \<times> SettlementRecordSnapshotV1 \<Rightarrow> expected_map \<Rightarrow> CreditError + expected_map" where
  "check_external_settlement counterparty entry expected =
     (case entry of (key, record) \<Rightarrow>
        let request = sts_request record; authorization = sts_authorization record in
        and_then (ok_or (checked_add (xr_amount_sat request) (xr_max_fee_sat request))
                    (InvalidSnapshot ''external reservation overflow'')) (\<lambda>reserved_sat.
        let expected_authorization =
              authorization_of request reserved_sat (xa_authorized_at_unix authorization) in
        if key \<noteq> xr_settlement_id request
           \<or> is_blank key
           \<or> xr_counterparty request \<noteq> counterparty
           \<or> is_blank (xr_payout_destination request)
           \<or> xr_amount_sat request = 0
           \<or> authorization \<noteq> expected_authorization
           \<or> xa_authorized_at_unix authorization \<ge> xa_expires_at_unix authorization
        then invalid ''external settlement record''
        else expected_state (xr_issuer request) (\<lambda>totals.
          case sts_state record of
            PendingV1 \<Rightarrow>
              and_then (add (ex_pending_external_sat totals) reserved_sat ''pending settlement total'')
                (\<lambda>v. Inr (totals\<lparr>ex_pending_external_sat := v\<rparr>))
          | CompletedV1 fee_sat \<Rightarrow>
              if fee_sat > xr_max_fee_sat request then invalid ''completed settlement fee''
              else
                and_then (ok_or (checked_add (xr_amount_sat request) fee_sat)
                            (InvalidSnapshot ''completed settlement overflow'')) (\<lambda>spent_sat.
                and_then (add (ex_settled_external_sat totals) spent_sat
                            ''completed settlement total'')
                  (\<lambda>v. Inr (totals\<lparr>ex_settled_external_sat := v\<rparr>)))
          | CancelledV1 \<Rightarrow> Inr totals) expected))"

definition validate_external_settlements ::
    "CreditAccountSnapshotV1 \<Rightarrow> expected_map \<Rightarrow> CreditError + expected_map" where
  "validate_external_settlements self expected =
     try_fold (check_external_settlement (sn_counterparty self)) (sn_settlements self) expected"

section \<open>Replay of the peer-credit events\<close>

record replay_state =
  rp_ledgers :: "(string, PeerCreditLedger) btree_map"
  rp_seen_receipts :: "string btree_set"
  rp_seen_novations :: "string btree_set"
  rp_seen_settlements :: "string btree_set"
  rp_previous_revision :: u64

definition replay_init :: "CreditAccountSnapshotV1 \<Rightarrow> replay_state" where
  "replay_init self =
     \<lparr>rp_ledgers = bm_collect (map (\<lambda>i. (i, pc_default)) (bm_keys (sn_issuers self))),
      rp_seen_receipts = [], rp_seen_novations = [], rp_seen_settlements = [],
      rp_previous_revision = 0\<rparr>"

definition replay_event ::
    "CreditAccountSnapshotV1 \<Rightarrow> PeerCreditEvent \<Rightarrow> replay_state \<Rightarrow> CreditError + replay_state" where
  "replay_event self event rp =
     (let revision = event_revision event in
      if revision = 0 \<or> revision \<le> rp_previous_revision rp \<or> revision > sn_revision self
      then invalid ''peer-credit event revision''
      else
        let rp = rp\<lparr>rp_previous_revision := revision\<rparr> in
        case event of
          ReceiptEvent _ receipt_id mode \<Rightarrow>
            if bm_get (rp_seen_receipts rp) receipt_id \<noteq> None
            then invalid ''duplicate peer-credit receipt event''
            else
              let rp = rp\<lparr>rp_seen_receipts := bm_insert receipt_id () (rp_seen_receipts rp)\<rparr> in
              and_then (ok_or (bm_get (sn_applied_receipts self) receipt_id)
                          (InvalidSnapshot ''peer-credit receipt event is missing'')) (\<lambda>receipt.
              if sr_value_class receipt \<noteq> PeerCredit
              then invalid ''peer-credit receipt event has wrong value class''
              else
                and_then (event_ledger (sr_issuer receipt)
                    (pc_credit (sr_amount_sat receipt) (mode = OfflineDeferred))
                    ''peer-credit receipt event cannot apply'' (rp_ledgers rp)) (\<lambda>ledgers.
                Inr (rp\<lparr>rp_ledgers := ledgers\<rparr>)))
        | NovationEvent _ novation_id \<Rightarrow>
            if bm_get (rp_seen_novations rp) novation_id \<noteq> None
            then invalid ''duplicate peer-credit novation event''
            else
              let rp = rp\<lparr>rp_seen_novations := bm_insert novation_id () (rp_seen_novations rp)\<rparr> in
              and_then (ok_or (bm_get (sn_novations self) novation_id)
                          (InvalidSnapshot ''peer-credit novation event is missing'')) (\<lambda>novation.
              and_then (event_ledger (nv_from_issuer novation) (pc_debit (nv_amount_sat novation))
                  ''peer-credit novation event cannot debit'' (rp_ledgers rp)) (\<lambda>ledgers.
              and_then (event_ledger (nv_to_issuer novation) (pc_credit (nv_amount_sat novation) False)
                  ''peer-credit novation event cannot credit'' ledgers) (\<lambda>ledgers.
              Inr (rp\<lparr>rp_ledgers := ledgers\<rparr>))))
        | BackedSettlementEvent _ settlement_id \<Rightarrow>
            if bm_get (rp_seen_settlements rp) settlement_id \<noteq> None
            then invalid ''duplicate backed-settlement event''
            else
              let rp = rp\<lparr>rp_seen_settlements :=
                            bm_insert settlement_id () (rp_seen_settlements rp)\<rparr> in
              and_then (ok_or (bm_get (sn_backed_settlements self) settlement_id)
                  (InvalidSnapshot ''peer-credit backed-settlement event is missing'')) (\<lambda>settlement.
              and_then (event_ledger (bs_from_issuer settlement) (pc_debit (bs_amount_sat settlement))
                  ''peer-credit backed-settlement event cannot debit'' (rp_ledgers rp)) (\<lambda>ledgers.
              Inr (rp\<lparr>rp_ledgers := ledgers\<rparr>))))"

text \<open>The last loop indexes \<open>issuers\<close> with the keys it was built from, so the index is
  always present.\<close>

definition replayed_ledger_differs ::
    "CreditAccountSnapshotV1 \<Rightarrow> string \<times> PeerCreditLedger \<Rightarrow> bool" where
  "replayed_ledger_differs self entry \<longleftrightarrow>
     (case entry of (i, ledger) \<Rightarrow>
        case bm_get (sn_issuers self) i of
          None \<Rightarrow> True
        | Some snap \<Rightarrow>
            pc_outstanding_sat ledger \<noteq> pcs_outstanding_sat (iss_peer_credit snap)
            \<or> pc_offline_outstanding_sat ledger
                \<noteq> pcs_offline_outstanding_sat (iss_peer_credit snap))"

definition validate_peer_credit_events :: "CreditAccountSnapshotV1 \<Rightarrow> CreditError + unit" where
  "validate_peer_credit_events self =
     and_then (try_fold (replay_event self) (sn_peer_credit_events self) (replay_init self)) (\<lambda>rp.
     if length (rp_seen_receipts rp)
          \<noteq> length (filter (\<lambda>receipt. sr_value_class receipt = PeerCredit)
                     (bm_values (sn_applied_receipts self)))
        \<or> length (rp_seen_novations rp) \<noteq> length (sn_novations self)
        \<or> length (rp_seen_settlements rp) \<noteq> length (sn_backed_settlements self)
     then invalid ''peer-credit event coverage''
     else if list_ex (replayed_ledger_differs self) (rp_ledgers rp)
     then invalid ''peer-credit event replay''
     else Inr ())"

section \<open>Totals and revision\<close>

definition check_totals ::
    "expected_map \<Rightarrow> string \<times> IssuerSnapshotV1 \<Rightarrow> u64 \<Rightarrow> CreditError + u64" where
  "check_totals expected entry total_peer_credit_sat =
     (case entry of (i, snap) \<Rightarrow>
        let peer = iss_peer_credit snap; closed = iss_closed_loop snap; wd = iss_withdrawable snap in
        and_then (ok_or (bm_get expected i) (InvalidSnapshot ''missing expected issuer state''))
          (\<lambda>totals.
        if ex_closed_deposits_sat totals \<noteq> cls_total_deposited_sat closed
           \<or> ex_withdrawable_deposits_sat totals \<noteq> wds_total_deposited_sat wd
        then invalid ''backing deposit totals''
        else
          and_then (ok_or (checked_sub (ex_peer_credits_sat totals) (ex_peer_debits_sat totals))
                      (InvalidSnapshot ''peer-credit operation totals'')) (\<lambda>expected_peer.
          if expected_peer \<noteq> pcs_outstanding_sat peer then invalid ''peer-credit ledger total''
          else
            and_then (ok_or (checked_add (cls_claimable_sat closed) (cls_consumed_sat closed))
                        (InvalidSnapshot ''closed-loop allocation overflow'')) (\<lambda>closed_allocated.
            if ex_closed_allocations_sat totals \<noteq> closed_allocated
               \<or> ex_closed_consumptions_sat totals \<noteq> cls_consumed_sat closed
            then invalid ''closed-loop allocation totals''
            else
              and_then (ok_or (Option.bind
                    (checked_add (wds_redeemable_sat wd) (wds_pending_external_sat wd))
                    (\<lambda>value. checked_add value (wds_settled_external_sat wd)))
                  (InvalidSnapshot ''withdrawable allocation overflow'')) (\<lambda>withdrawable_allocated.
              if ex_withdrawable_allocations_sat totals \<noteq> withdrawable_allocated
                 \<or> ex_pending_external_sat totals \<noteq> wds_pending_external_sat wd
                 \<or> ex_settled_external_sat totals \<noteq> wds_settled_external_sat wd
              then invalid ''withdrawable allocation or settlement totals''
              else add total_peer_credit_sat (pcs_outstanding_sat peer) ''total peer credit'')))))"

definition validate_totals ::
    "CreditAccountSnapshotV1 \<Rightarrow> expected_map \<Rightarrow> CreditError + unit" where
  "validate_totals self expected =
     and_then (try_fold (check_totals expected) (sn_issuers self) 0) (\<lambda>total_peer_credit_sat.
     if total_peer_credit_sat \<noteq> sn_total_peer_credit_sat self
        \<or> total_peer_credit_sat > sn_max_total_peer_credit_sat self
     then invalid ''aggregate peer-credit total''
     else Inr ())"

definition count_closed_settlement ::
    "SettlementRecordSnapshotV1 \<Rightarrow> u64 \<Rightarrow> CreditError + u64" where
  "count_closed_settlement record expected_revision =
     (if sts_state record \<noteq> PendingV1
      then ok_or (checked_add expected_revision 1)
             (InvalidSnapshot ''revision operation count overflow'')
      else Inr expected_revision)"

definition validate_revision :: "CreditAccountSnapshotV1 \<Rightarrow> CreditError + unit" where
  "validate_revision self =
     and_then (count (length (sn_applied_receipts self))) (\<lambda>n.
     and_then (checked_count_add n (length (sn_novations self))) (\<lambda>n.
     and_then (checked_count_add n (length (sn_backing_deposits self))) (\<lambda>n.
     and_then (checked_count_add n (length (sn_backed_settlements self))) (\<lambda>n.
     and_then (checked_count_add n (length (sn_closed_loop_consumptions self))) (\<lambda>n.
     and_then (checked_count_add n (length (sn_settlements self))) (\<lambda>n.
     and_then (try_fold count_closed_settlement (bm_values (sn_settlements self)) n) (\<lambda>n.
     if sn_revision self \<noteq> n then invalid ''revision does not match applied operations''
     else Inr ())))))))"

definition check_issuer_entry ::
    "string \<times> IssuerSnapshotV1 \<Rightarrow> expected_map \<Rightarrow> CreditError + expected_map" where
  "check_issuer_entry entry expected =
     (case entry of (issuer_id, snap) \<Rightarrow>
        and_then (validate_issuer issuer_id snap) (\<lambda>_.
        Inr (bm_insert issuer_id expected_default expected)))"

definition validate :: "CreditAccountSnapshotV1 \<Rightarrow> CreditError + unit" where
  "validate self =
     (if sn_version self \<noteq> SNAPSHOT_VERSION then Inl UnsupportedSnapshotVersion
      else if is_blank (sn_counterparty self) \<or> sn_issuers self = []
      then invalid ''account identity or issuer set''
      else
        and_then (try_fold check_issuer_entry (sn_issuers self) []) (\<lambda>expected.
        and_then (validate_receipts self expected) (\<lambda>expected.
        and_then (validate_novations self expected) (\<lambda>expected.
        and_then (validate_deposits self expected) (\<lambda>expected.
        and_then (validate_backed_settlements self expected) (\<lambda>expected.
        and_then (validate_peer_credit_events self) (\<lambda>_.
        and_then (validate_consumptions self expected) (\<lambda>expected.
        and_then (validate_external_settlements self expected) (\<lambda>expected.
        and_then (validate_totals self expected) (\<lambda>_.
        validate_revision self))))))))))"

section \<open>Conversions\<close>

definition issuer_to_snapshot :: "IssuerState \<Rightarrow> IssuerSnapshotV1" where
  "issuer_to_snapshot st =
     \<lparr>iss_policy = is_policy st,
      iss_peer_credit =
        \<lparr>pcs_outstanding_sat = pc_outstanding_sat (is_peer_credit st),
         pcs_offline_outstanding_sat = pc_offline_outstanding_sat (is_peer_credit st)\<rparr>,
      iss_closed_loop =
        \<lparr>cls_total_deposited_sat = cl_total_deposited_sat (is_closed_loop st),
         cls_available_backing_sat = cl_available_backing_sat (is_closed_loop st),
         cls_claimable_sat = cl_claimable_sat (is_closed_loop st),
         cls_consumed_sat = cl_consumed_sat (is_closed_loop st)\<rparr>,
      iss_withdrawable =
        \<lparr>wds_total_deposited_sat = wr_total_deposited_sat (is_withdrawable st),
         wds_available_sat = wr_available_sat (is_withdrawable st),
         wds_redeemable_sat = wr_redeemable_sat (is_withdrawable st),
         wds_pending_external_sat = wr_pending_external_sat (is_withdrawable st),
         wds_settled_external_sat = wr_settled_external_sat (is_withdrawable st)\<rparr>\<rparr>"

definition issuer_from_snapshot :: "IssuerSnapshotV1 \<Rightarrow> IssuerState" where
  "issuer_from_snapshot snap =
     \<lparr>is_policy = iss_policy snap,
      is_peer_credit =
        \<lparr>pc_outstanding_sat = pcs_outstanding_sat (iss_peer_credit snap),
         pc_offline_outstanding_sat = pcs_offline_outstanding_sat (iss_peer_credit snap)\<rparr>,
      is_closed_loop =
        \<lparr>cl_total_deposited_sat = cls_total_deposited_sat (iss_closed_loop snap),
         cl_available_backing_sat = cls_available_backing_sat (iss_closed_loop snap),
         cl_claimable_sat = cls_claimable_sat (iss_closed_loop snap),
         cl_consumed_sat = cls_consumed_sat (iss_closed_loop snap)\<rparr>,
      is_withdrawable =
        \<lparr>wr_total_deposited_sat = wds_total_deposited_sat (iss_withdrawable snap),
         wr_available_sat = wds_available_sat (iss_withdrawable snap),
         wr_redeemable_sat = wds_redeemable_sat (iss_withdrawable snap),
         wr_pending_external_sat = wds_pending_external_sat (iss_withdrawable snap),
         wr_settled_external_sat = wds_settled_external_sat (iss_withdrawable snap)\<rparr>\<rparr>"

fun state_to_snapshot :: "SettlementState \<Rightarrow> SettlementStateSnapshotV1" where
  "state_to_snapshot Pending = PendingV1"
| "state_to_snapshot (Completed fee_sat) = CompletedV1 fee_sat"
| "state_to_snapshot Cancelled = CancelledV1"

fun state_from_snapshot :: "SettlementStateSnapshotV1 \<Rightarrow> SettlementState" where
  "state_from_snapshot PendingV1 = Pending"
| "state_from_snapshot (CompletedV1 fee_sat) = Completed fee_sat"
| "state_from_snapshot CancelledV1 = Cancelled"

definition settlement_to_snapshot :: "SettlementRecord \<Rightarrow> SettlementRecordSnapshotV1" where
  "settlement_to_snapshot record =
     \<lparr>sts_request = st_request record, sts_authorization = st_authorization record,
      sts_state = state_to_snapshot (st_state record)\<rparr>"

definition settlement_from_snapshot :: "SettlementRecordSnapshotV1 \<Rightarrow> SettlementRecord" where
  "settlement_from_snapshot record =
     \<lparr>st_request = sts_request record, st_authorization = sts_authorization record,
      st_state = state_from_snapshot (sts_state record)\<rparr>"

definition snapshot :: "CreditAccount \<Rightarrow> CreditAccountSnapshotV1" where
  "snapshot self =
     \<lparr>sn_version = SNAPSHOT_VERSION,
      sn_revision = ca_revision self,
      sn_counterparty = ca_counterparty self,
      sn_max_total_peer_credit_sat = ca_max_total_peer_credit_sat self,
      sn_total_peer_credit_sat = ca_total_peer_credit_sat self,
      sn_issuers = bm_collect (map (\<lambda>(i, st). (i, issuer_to_snapshot st)) (ca_issuers self)),
      sn_applied_receipts = ca_applied_receipts self,
      sn_peer_credit_events = ca_peer_credit_events self,
      sn_novations = ca_novations self,
      sn_backing_deposits = bm_values (ca_backing_deposits self),
      sn_backed_settlements = ca_backed_settlements self,
      sn_closed_loop_consumptions = ca_closed_loop_consumptions self,
      sn_settlements =
        bm_collect (map (\<lambda>(i, record). (i, settlement_to_snapshot record)) (ca_settlements self))\<rparr>"

definition from_snapshot :: "CreditAccountSnapshotV1 \<Rightarrow> CreditError + CreditAccount" where
  "from_snapshot snap =
     and_then (validate snap) (\<lambda>_. Inr
       \<lparr>ca_revision = sn_revision snap,
        ca_counterparty = sn_counterparty snap,
        ca_max_total_peer_credit_sat = sn_max_total_peer_credit_sat snap,
        ca_total_peer_credit_sat = sn_total_peer_credit_sat snap,
        ca_issuers = bm_collect (map (\<lambda>(i, st). (i, issuer_from_snapshot st)) (sn_issuers snap)),
        ca_applied_receipts = sn_applied_receipts snap,
        ca_peer_credit_events = sn_peer_credit_events snap,
        ca_novations = sn_novations snap,
        ca_backing_deposits =
          bm_collect (map (\<lambda>deposit. ((bd_issuer deposit, bd_deposit_id deposit), deposit))
                        (sn_backing_deposits snap)),
        ca_backed_settlements = sn_backed_settlements snap,
        ca_closed_loop_consumptions = sn_closed_loop_consumptions snap,
        ca_settlements =
          bm_collect (map (\<lambda>(i, record). (i, settlement_from_snapshot record))
                        (sn_settlements snap))\<rparr>)"

text \<open>\<open>serde_json\<close> is a parameter: \<open>to_string\<close> and \<open>from_str\<close>.\<close>

definition encode_json ::
    "(CreditAccountSnapshotV1 \<Rightarrow> 'j + string) \<Rightarrow> CreditAccountSnapshotV1 \<Rightarrow> 'j SnapshotError + string" where
  "encode_json to_string self = map_err Json (to_string self)"

definition decode_json ::
    "(string \<Rightarrow> 'j + CreditAccountSnapshotV1) \<Rightarrow> string \<Rightarrow> 'j SnapshotError + CreditAccountSnapshotV1" where
  "decode_json from_str encoded =
     and_then (map_err Json (from_str encoded)) (\<lambda>snap.
     and_then (map_err Credit (validate snap)) (\<lambda>_. Inr snap))"

end
