(* ===== verification/Credit_Account_Inv.thy ===== *)
theory Credit_Account_Inv
  imports Credit_Account_Effects Credit_Snapshot
begin

text \<open>
  The invariant of a credit account, over the natural numbers: every ledger amount is the sum
  of the recorded operations of its kind, caps and conservation hold, the aggregate is the sum
  over the issuers, the peer-credit events replay to the ledgers, and the revision counts the
  applied operations. It holds for a new account and every operation keeps it.
\<close>

section \<open>What one record adds to the books of an issuer\<close>

definition receipt_amount :: "ValueClass \<Rightarrow> string \<Rightarrow> ServiceReceiptClaim \<Rightarrow> nat" where
  "receipt_amount v i r = (if sr_issuer r = i \<and> sr_value_class r = v then unat (sr_amount_sat r) else 0)"

definition novation_in :: "string \<Rightarrow> CreditNovation \<Rightarrow> nat" where
  "novation_in i n = (if nv_to_issuer n = i then unat (nv_amount_sat n) else 0)"

definition novation_out :: "string \<Rightarrow> CreditNovation \<Rightarrow> nat" where
  "novation_out i n = (if nv_from_issuer n = i then unat (nv_amount_sat n) else 0)"

definition deposit_amount :: "ValueClass \<Rightarrow> string \<Rightarrow> BackingDeposit \<Rightarrow> nat" where
  "deposit_amount v i d = (if bd_issuer d = i \<and> bd_value_class d = v then unat (bd_amount_sat d) else 0)"

definition backed_in :: "ValueClass \<Rightarrow> string \<Rightarrow> BackedCreditSettlement \<Rightarrow> nat" where
  "backed_in v i s =
     (if bs_backing_issuer s = i \<and> bs_value_class s = v then unat (bs_amount_sat s) else 0)"

definition backed_out :: "string \<Rightarrow> BackedCreditSettlement \<Rightarrow> nat" where
  "backed_out i s = (if bs_from_issuer s = i then unat (bs_amount_sat s) else 0)"

definition consumed_amount :: "string \<Rightarrow> ClosedLoopConsumption \<Rightarrow> nat" where
  "consumed_amount i c = (if cc_issuer c = i then unat (cc_amount_sat c) else 0)"

definition pending_amount :: "string \<Rightarrow> SettlementRecord \<Rightarrow> nat" where
  "pending_amount i r =
     (if xr_issuer (st_request r) = i \<and> st_state r = Pending
      then unat (xa_reserved_sat (st_authorization r)) else 0)"

definition settled_amount :: "string \<Rightarrow> SettlementRecord \<Rightarrow> nat" where
  "settled_amount i r =
     (if xr_issuer (st_request r) = i then
        (case st_state r of
           Completed fee \<Rightarrow> unat (xr_amount_sat (st_request r)) + unat fee
         | _ \<Rightarrow> 0)
      else 0)"

lemmas record_amounts = receipt_amount_def novation_in_def novation_out_def deposit_amount_def
  backed_in_def backed_out_def consumed_amount_def pending_amount_def settled_amount_def

section \<open>The books of an issuer\<close>

definition peer_credits :: "CreditAccount \<Rightarrow> string \<Rightarrow> nat" where
  "peer_credits a i = value_sum (receipt_amount PeerCredit i) (ca_applied_receipts a)
                      + value_sum (novation_in i) (ca_novations a)"

definition peer_debits :: "CreditAccount \<Rightarrow> string \<Rightarrow> nat" where
  "peer_debits a i = value_sum (novation_out i) (ca_novations a)
                     + value_sum (backed_out i) (ca_backed_settlements a)"

definition deposits :: "ValueClass \<Rightarrow> CreditAccount \<Rightarrow> string \<Rightarrow> nat" where
  "deposits v a i = value_sum (deposit_amount v i) (ca_backing_deposits a)"

definition allocations :: "ValueClass \<Rightarrow> CreditAccount \<Rightarrow> string \<Rightarrow> nat" where
  "allocations v a i = value_sum (receipt_amount v i) (ca_applied_receipts a)
                       + value_sum (backed_in v i) (ca_backed_settlements a)"

definition consumptions :: "CreditAccount \<Rightarrow> string \<Rightarrow> nat" where
  "consumptions a i = value_sum (consumed_amount i) (ca_closed_loop_consumptions a)"

definition pending_external :: "CreditAccount \<Rightarrow> string \<Rightarrow> nat" where
  "pending_external a i = value_sum (pending_amount i) (ca_settlements a)"

definition settled_external :: "CreditAccount \<Rightarrow> string \<Rightarrow> nat" where
  "settled_external a i = value_sum (settled_amount i) (ca_settlements a)"

lemmas books_defs = peer_credits_def peer_debits_def deposits_def allocations_def
  consumptions_def pending_external_def settled_external_def

definition issuer_caps :: "string \<Rightarrow> IssuerState \<Rightarrow> bool" where
  "issuer_caps i st \<longleftrightarrow>
     \<not> is_blank i \<and> ip_issuer (is_policy st) = i
     \<and> ip_max_offline_peer_credit_sat (is_policy st) \<le> ip_max_peer_credit_sat (is_policy st)
     \<and> unat (pc_offline_outstanding_sat (is_peer_credit st)) \<le> unat (pc_outstanding_sat (is_peer_credit st))
     \<and> unat (pc_outstanding_sat (is_peer_credit st)) \<le> unat (ip_max_peer_credit_sat (is_policy st))
     \<and> unat (pc_offline_outstanding_sat (is_peer_credit st))
         \<le> unat (ip_max_offline_peer_credit_sat (is_policy st))
     \<and> unat (cl_claimable_sat (is_closed_loop st)) \<le> unat (ip_max_closed_loop_sat (is_policy st))
     \<and> unat (wr_redeemable_sat (is_withdrawable st)) + unat (wr_pending_external_sat (is_withdrawable st))
         \<le> unat (ip_max_withdrawable_sat (is_policy st))
     \<and> cl.conserved (is_closed_loop st)
     \<and> wr.conserved (is_withdrawable st)"

definition issuer_books :: "CreditAccount \<Rightarrow> string \<Rightarrow> IssuerState \<Rightarrow> bool" where
  "issuer_books a i st \<longleftrightarrow>
     peer_credits a i = unat (pc_outstanding_sat (is_peer_credit st)) + peer_debits a i
     \<and> deposits ClosedLoopDeposit a i = unat (cl_total_deposited_sat (is_closed_loop st))
     \<and> deposits ReserveBackedWithdrawable a i = unat (wr_total_deposited_sat (is_withdrawable st))
     \<and> allocations ClosedLoopDeposit a i = cl_claimed (is_closed_loop st)
     \<and> allocations ReserveBackedWithdrawable a i = wr_claimed (is_withdrawable st)
     \<and> consumptions a i = unat (cl_consumed_sat (is_closed_loop st))
     \<and> pending_external a i = unat (wr_pending_external_sat (is_withdrawable st))
     \<and> settled_external a i = unat (wr_settled_external_sat (is_withdrawable st))"

definition issuers_ok :: "CreditAccount \<Rightarrow> bool" where
  "issuers_ok a \<longleftrightarrow> bm_all (\<lambda>i st. issuer_caps i st \<and> issuer_books a i st) (ca_issuers a)"

section \<open>Well-formed records\<close>

definition receipt_ok :: "string \<Rightarrow> string list \<Rightarrow> string \<Rightarrow> ServiceReceiptClaim \<Rightarrow> bool" where
  "receipt_ok cp ids k r \<longleftrightarrow>
     k = sr_receipt_id r \<and> \<not> is_blank k \<and> sr_counterparty r = cp
     \<and> \<not> is_blank (sr_service r) \<and> \<not> is_blank (sr_resource r)
     \<and> sr_useful_service_units r \<noteq> 0 \<and> sr_amount_sat r \<noteq> 0
     \<and> sr_issued_at_unix r < sr_expires_at_unix r \<and> sr_issuer r \<in> set ids"

definition novation_ok :: "string \<Rightarrow> string list \<Rightarrow> string \<Rightarrow> CreditNovation \<Rightarrow> bool" where
  "novation_ok cp ids k n \<longleftrightarrow>
     k = nv_novation_id n \<and> \<not> is_blank k \<and> nv_counterparty n = cp
     \<and> nv_from_issuer n \<noteq> nv_to_issuer n \<and> nv_amount_sat n \<noteq> 0
     \<and> nv_from_issuer n \<in> set ids \<and> nv_to_issuer n \<in> set ids"

definition deposit_ok :: "string list \<Rightarrow> string \<times> string \<Rightarrow> BackingDeposit \<Rightarrow> bool" where
  "deposit_ok ids k d \<longleftrightarrow>
     k = (bd_issuer d, bd_deposit_id d) \<and> \<not> is_blank (bd_deposit_id d) \<and> bd_amount_sat d \<noteq> 0
     \<and> bd_value_class d \<noteq> PeerCredit \<and> bd_issuer d \<in> set ids"

definition backed_ok :: "string \<Rightarrow> string list \<Rightarrow> string \<Rightarrow> BackedCreditSettlement \<Rightarrow> bool" where
  "backed_ok cp ids k s \<longleftrightarrow>
     k = bs_settlement_id s \<and> \<not> is_blank k \<and> bs_counterparty s = cp \<and> bs_amount_sat s \<noteq> 0
     \<and> bs_value_class s \<noteq> PeerCredit
     \<and> bs_from_issuer s \<in> set ids \<and> bs_backing_issuer s \<in> set ids"

definition consumption_ok :: "string \<Rightarrow> string list \<Rightarrow> string \<Rightarrow> ClosedLoopConsumption \<Rightarrow> bool" where
  "consumption_ok cp ids k c \<longleftrightarrow>
     k = cc_consumption_id c \<and> \<not> is_blank k \<and> cc_counterparty c = cp
     \<and> \<not> is_blank (cc_resource c) \<and> cc_amount_sat c \<noteq> 0 \<and> cc_issuer c \<in> set ids"

definition settlement_ok :: "string \<Rightarrow> string list \<Rightarrow> string \<Rightarrow> SettlementRecord \<Rightarrow> bool" where
  "settlement_ok cp ids k r \<longleftrightarrow>
     (let q = st_request r; z = st_authorization r in
      k = xr_settlement_id q \<and> \<not> is_blank k \<and> xr_counterparty q = cp
      \<and> \<not> is_blank (xr_payout_destination q) \<and> xr_amount_sat q \<noteq> 0 \<and> xr_issuer q \<in> set ids
      \<and> unat (xa_reserved_sat z) = unat (xr_amount_sat q) + unat (xr_max_fee_sat q)
      \<and> z = authorization_of q (xa_reserved_sat z) (xa_authorized_at_unix z)
      \<and> xa_authorized_at_unix z < xa_expires_at_unix z
      \<and> (case st_state r of Completed fee \<Rightarrow> fee \<le> xr_max_fee_sat q | _ \<Rightarrow> True))"

definition records_ok :: "CreditAccount \<Rightarrow> bool" where
  "records_ok a \<longleftrightarrow>
     bm_all (receipt_ok (ca_counterparty a) (bm_keys (ca_issuers a))) (ca_applied_receipts a)
     \<and> bm_all (novation_ok (ca_counterparty a) (bm_keys (ca_issuers a))) (ca_novations a)
     \<and> bm_all (deposit_ok (bm_keys (ca_issuers a))) (ca_backing_deposits a)
     \<and> bm_all (backed_ok (ca_counterparty a) (bm_keys (ca_issuers a))) (ca_backed_settlements a)
     \<and> bm_all (consumption_ok (ca_counterparty a) (bm_keys (ca_issuers a)))
         (ca_closed_loop_consumptions a)
     \<and> bm_all (settlement_ok (ca_counterparty a) (bm_keys (ca_issuers a))) (ca_settlements a)"

lemmas record_ok_defs = receipt_ok_def novation_ok_def deposit_ok_def backed_ok_def
  consumption_ok_def settlement_ok_def

section \<open>Shape, aggregate, revision and events\<close>

definition shape_ok :: "CreditAccount \<Rightarrow> bool" where
  "shape_ok a \<longleftrightarrow>
     \<not> is_blank (ca_counterparty a) \<and> ca_issuers a \<noteq> [] \<and> bm_wf (ca_issuers a)
     \<and> bm_wf (ca_applied_receipts a) \<and> bm_wf (ca_novations a) \<and> bm_wf (ca_backing_deposits a)
     \<and> bm_wf (ca_backed_settlements a) \<and> bm_wf (ca_closed_loop_consumptions a)
     \<and> bm_wf (ca_settlements a)"

abbreviation outstanding :: "IssuerState \<Rightarrow> nat" where
  "outstanding st \<equiv> unat (pc_outstanding_sat (is_peer_credit st))"

definition total_ok :: "CreditAccount \<Rightarrow> bool" where
  "total_ok a \<longleftrightarrow>
     unat (ca_total_peer_credit_sat a) = value_sum outstanding (ca_issuers a)
     \<and> ca_total_peer_credit_sat a \<le> ca_max_total_peer_credit_sat a"

definition operation_count :: "CreditAccount \<Rightarrow> nat" where
  "operation_count a =
     length (ca_applied_receipts a) + length (ca_novations a) + length (ca_backing_deposits a)
     + length (ca_backed_settlements a) + length (ca_closed_loop_consumptions a)
     + length (ca_settlements a)
     + value_sum (\<lambda>r. if st_state r = Pending then 0 else 1) (ca_settlements a)"

definition revision_ok :: "CreditAccount \<Rightarrow> bool" where
  "revision_ok a \<longleftrightarrow> unat (ca_revision a) = operation_count a"

definition peer_ledgers :: "CreditAccount \<Rightarrow> (string, PeerCreditLedger) btree_map" where
  "peer_ledgers a = map (\<lambda>(i, st). (i, is_peer_credit st)) (ca_issuers a)"

definition peer_receipt :: "string \<times> ServiceReceiptClaim \<Rightarrow> bool" where
  "peer_receipt entry \<longleftrightarrow> sr_value_class (snd entry) = PeerCredit"

text \<open>The replay has seen exactly the recorded peer-credit operations.\<close>

definition replay_done :: "CreditAccount \<Rightarrow> replay_state \<Rightarrow> bool" where
  "replay_done a rp \<longleftrightarrow>
     rp_ledgers rp = peer_ledgers a
     \<and> bm_wf (rp_seen_receipts rp) \<and> bm_wf (rp_seen_novations rp) \<and> bm_wf (rp_seen_settlements rp)
     \<and> set (bm_keys (rp_seen_receipts rp)) = fst ` {e \<in> set (ca_applied_receipts a). peer_receipt e}
     \<and> set (bm_keys (rp_seen_novations rp)) = set (bm_keys (ca_novations a))
     \<and> set (bm_keys (rp_seen_settlements rp)) = set (bm_keys (ca_backed_settlements a))
     \<and> rp_previous_revision rp \<le> ca_revision a"

definition events_ok :: "CreditAccount \<Rightarrow> bool" where
  "events_ok a \<longleftrightarrow>
     (case try_fold (replay_event (snapshot a)) (ca_peer_credit_events a) (replay_init (snapshot a)) of
        Inl e \<Rightarrow> False
      | Inr rp \<Rightarrow> replay_done a rp)"

definition account_ok :: "CreditAccount \<Rightarrow> bool" where
  "account_ok a \<longleftrightarrow>
     shape_ok a \<and> records_ok a \<and> issuers_ok a \<and> total_ok a \<and> revision_ok a \<and> events_ok a"

end
