(* ===== verification/Credit_Account_Events.thy ===== *)
theory Credit_Account_Events
  imports Credit_Account_Inv
begin

text \<open>
  The peer-credit events of an account replay to its ledgers: the replay only depends on the
  recorded operations it looks up, so recording more operations keeps it, and the event an
  operation appends replays to the ledger change the operation made.
\<close>

section \<open>The replay looks records up\<close>

definition replay_le :: "CreditAccountSnapshotV1 \<Rightarrow> CreditAccountSnapshotV1 \<Rightarrow> bool" where
  "replay_le s t \<longleftrightarrow>
     sn_revision s \<le> sn_revision t
     \<and> bm_get (sn_applied_receipts s) \<subseteq>\<^sub>m bm_get (sn_applied_receipts t)
     \<and> bm_get (sn_novations s) \<subseteq>\<^sub>m bm_get (sn_novations t)
     \<and> bm_get (sn_backed_settlements s) \<subseteq>\<^sub>m bm_get (sn_backed_settlements t)"

lemma map_le_Some: "m \<subseteq>\<^sub>m n \<Longrightarrow> m k = Some v \<Longrightarrow> n k = Some v"
  by (metis domI map_le_def)

lemma replay_event_mono:
  assumes "replay_le s t" "replay_event s e rp = Inr rp'"
  shows "replay_event t e rp = Inr rp'"
proof (cases e)
  case (ReceiptEvent rv i m)
  then obtain r where "bm_get (sn_applied_receipts s) i = Some r"
    using assms(2) by (cases "bm_get (sn_applied_receipts s) i")
      (auto simp: replay_event_def Let_def invalid_def split: if_splits)
  moreover from this have "bm_get (sn_applied_receipts t) i = Some r"
    using assms(1) by (auto simp: replay_le_def intro: map_le_Some)
  ultimately show ?thesis
    using assms ReceiptEvent by (auto simp: replay_event_def replay_le_def Let_def invalid_def split: if_splits)
next
  case (NovationEvent rv i)
  then obtain r where "bm_get (sn_novations s) i = Some r"
    using assms(2) by (cases "bm_get (sn_novations s) i")
      (auto simp: replay_event_def Let_def invalid_def split: if_splits)
  moreover from this have "bm_get (sn_novations t) i = Some r"
    using assms(1) by (auto simp: replay_le_def intro: map_le_Some)
  ultimately show ?thesis
    using assms NovationEvent by (auto simp: replay_event_def replay_le_def Let_def invalid_def split: if_splits)
next
  case (BackedSettlementEvent rv i)
  then obtain r where "bm_get (sn_backed_settlements s) i = Some r"
    using assms(2) by (cases "bm_get (sn_backed_settlements s) i")
      (auto simp: replay_event_def Let_def invalid_def split: if_splits)
  moreover from this have "bm_get (sn_backed_settlements t) i = Some r"
    using assms(1) by (auto simp: replay_le_def intro: map_le_Some)
  ultimately show ?thesis
    using assms BackedSettlementEvent by (auto simp: replay_event_def replay_le_def Let_def invalid_def split: if_splits)
qed

lemma try_fold_mono:
  assumes "\<And>x s t. f x s = Inr t \<Longrightarrow> g x s = Inr t" "try_fold f xs s = Inr t"
  shows "try_fold g xs s = Inr t"
  using assms(2) by (induction xs arbitrary: s) (auto simp: result_simps dest: assms(1))

section \<open>The snapshot of an account\<close>

lemma snapshot_maps [simp]:
  "sn_revision (snapshot a) = ca_revision a"
  "sn_applied_receipts (snapshot a) = ca_applied_receipts a"
  "sn_novations (snapshot a) = ca_novations a"
  "sn_backed_settlements (snapshot a) = ca_backed_settlements a"
  "sn_peer_credit_events (snapshot a) = ca_peer_credit_events a"
  by (simp_all add: snapshot_def)

lemma fst_mapped [simp]: "fst (case e of (i, v) \<Rightarrow> (i, f v)) = fst e"
  by (cases e) simp

lemma keys_mapped: "bm_keys (map (\<lambda>(i, v). (i, f v)) m) = bm_keys m"
  by simp

lemma bm_collect_mapped:
  "bm_wf m \<Longrightarrow> bm_collect (map (\<lambda>(i, v). (i, f v)) m) = map (\<lambda>(i, v). (i, f v)) m"
  by (rule bm_collect_sorted) (simp add: bm_wf_def comp_def)

lemma snapshot_issuer_keys:
  "bm_wf (ca_issuers a) \<Longrightarrow> bm_keys (sn_issuers (snapshot a)) = bm_keys (ca_issuers a)"
  by (simp add: snapshot_def bm_collect_mapped)

lemma replay_init_same:
  "bm_wf (ca_issuers a) \<Longrightarrow> bm_keys (ca_issuers a') = bm_keys (ca_issuers a) \<Longrightarrow>
     replay_init (snapshot a') = replay_init (snapshot a)"
  using bm_wf_mapped [of "ca_issuers a'" "ca_issuers a"]
  by (simp add: replay_init_def snapshot_issuer_keys)

lemma bm_get_mapped: "bm_get (map (\<lambda>(i, v). (i, f v)) m) k = map_option f (bm_get m k)"
  by (induction m) auto

lemma bm_set_mapped:
  "map (\<lambda>(i, v). (i, f v)) (bm_set k u m) = bm_set k (f u) (map (\<lambda>(i, v). (i, f v)) m)"
  by (induction k u m rule: bm_set.induct) auto

lemma peer_ledgers_get:
  "bm_get (ca_issuers a) i = Some st \<Longrightarrow> bm_get (peer_ledgers a) i = Some (is_peer_credit st)"
  by (simp add: peer_ledgers_def bm_get_mapped)

lemma peer_ledgers_set:
  "ca_issuers a' = bm_set i st (ca_issuers a) \<Longrightarrow>
     peer_ledgers a' = bm_set i (is_peer_credit st) (peer_ledgers a)"
  by (simp add: peer_ledgers_def bm_set_mapped)

lemma peer_ledgers_keep:
  "ca_issuers a' = bm_set i st' (ca_issuers a) \<Longrightarrow> bm_get (ca_issuers a) i = Some st \<Longrightarrow>
     is_peer_credit st' = is_peer_credit st \<Longrightarrow> peer_ledgers a' = peer_ledgers a"
  by (simp add: peer_ledgers_set bm_set_same peer_ledgers_get)

section \<open>Keeping the replay\<close>

lemma events_ok_iff:
  "events_ok a \<longleftrightarrow> (\<exists>rp. try_fold (replay_event (snapshot a)) (ca_peer_credit_events a)
      (replay_init (snapshot a)) = Inr rp \<and> replay_done a rp)"
  by (auto simp: events_ok_def split: sum.splits)

lemma events_quiet:
  assumes "events_ok a" "bm_wf (ca_issuers a)" "bm_keys (ca_issuers a') = bm_keys (ca_issuers a)"
    and "replay_le (snapshot a) (snapshot a')"
    and "ca_peer_credit_events a' = ca_peer_credit_events a"
    and "\<And>rp. replay_done a rp \<Longrightarrow> replay_done a' rp"
  shows "events_ok a'"
  using assms try_fold_mono [of "replay_event (snapshot a)" "replay_event (snapshot a')"]
  by (metis events_ok_iff replay_event_mono replay_init_same)

lemma events_push:
  assumes "events_ok a" "bm_wf (ca_issuers a)" "bm_keys (ca_issuers a') = bm_keys (ca_issuers a)"
    and "replay_le (snapshot a) (snapshot a')"
    and "ca_peer_credit_events a' = ca_peer_credit_events a @ [e]"
    and "\<And>rp. replay_done a rp \<Longrightarrow> \<exists>rp'. replay_event (snapshot a') e rp = Inr rp' \<and> replay_done a' rp'"
  shows "events_ok a'"
proof -
  obtain rp where rp: "replay_done a rp"
    "try_fold (replay_event (snapshot a)) (ca_peer_credit_events a) (replay_init (snapshot a)) = Inr rp"
    using assms(1) events_ok_iff by blast
  then have "try_fold (replay_event (snapshot a')) (ca_peer_credit_events a) (replay_init (snapshot a')) = Inr rp"
    using try_fold_mono [OF replay_event_mono [OF assms(4)] rp(2)]
    by (simp add: replay_init_same [OF assms(2,3)])
  moreover obtain rp' where "replay_event (snapshot a') e rp = Inr rp'" "replay_done a' rp'"
    using assms(6) rp(1) by blast
  ultimately show ?thesis by (simp add: events_ok_iff assms(5))
qed

section \<open>The operations\<close>

lemma revision_grows: "revision_fits a \<Longrightarrow> ca_revision a < ca_revision a + 1"
  by (simp add: word_less_nat_alt revision_step)

lemma revision_positive: "revision_fits a \<Longrightarrow> ca_revision a + 1 \<noteq> 0"
  using revision_step [of a] by (metis add_is_0 unsigned_0 zero_neq_one)

lemma replay_done_quiet:
  assumes "replay_done a rp" "peer_ledgers a' = peer_ledgers a" "ca_revision a \<le> ca_revision a'"
    and "{e \<in> set (ca_applied_receipts a'). peer_receipt e} = {e \<in> set (ca_applied_receipts a). peer_receipt e}"
    and "ca_novations a' = ca_novations a" "ca_backed_settlements a' = ca_backed_settlements a"
  shows "replay_done a' rp"
  using assms by (auto simp: replay_done_def)

text \<open>An operation that writes one issuer, keeps its peer-credit ledger and records nothing
  the replay looks up.\<close>

lemma events_other:
  assumes "events_ok a" "bm_wf (ca_issuers a)" "revision_fits a"
    and "bm_get (ca_issuers a) i = Some st" "is_peer_credit st' = is_peer_credit st"
    and "ca_issuers a' = bm_set i st' (ca_issuers a)" "ca_revision a' = ca_revision a + 1"
    and "ca_applied_receipts a' = ca_applied_receipts a" "ca_novations a' = ca_novations a"
      "ca_backed_settlements a' = ca_backed_settlements a"
      "ca_peer_credit_events a' = ca_peer_credit_events a"
  shows "events_ok a'"
proof (rule events_quiet [OF assms(1,2) _ _ assms(11)])
  show "bm_keys (ca_issuers a') = bm_keys (ca_issuers a)" by (simp only: assms(6) keys_bm_set)
  show "replay_le (snapshot a) (snapshot a')"
    using revision_grows [OF assms(3)] assms(7-10) by (simp add: replay_le_def order_less_imp_le)
  show "\<And>rp. replay_done a rp \<Longrightarrow> replay_done a' rp"
    by (erule replay_done_quiet)
      (use assms revision_grows [OF assms(3)] in
        \<open>simp_all add: peer_ledgers_keep order_less_imp_le\<close>)
qed

lemma events_backed_receipt:
  assumes "events_ok a" "bm_wf (ca_issuers a)" "revision_fits a"
    and "bm_get (ca_issuers a) i = Some st" "is_peer_credit st' = is_peer_credit st"
    and "bm_get (ca_applied_receipts a) k = None" "sr_value_class c \<noteq> PeerCredit"
    and a': "a' = a\<lparr>ca_issuers := bm_set i st' (ca_issuers a),
        ca_applied_receipts := bm_insert k c (ca_applied_receipts a),
        ca_revision := ca_revision a + 1\<rparr>"
  shows "events_ok a'"
proof (rule events_quiet [OF assms(1,2)])
  show "bm_keys (ca_issuers a') = bm_keys (ca_issuers a)" by (simp add: a')
  show "ca_peer_credit_events a' = ca_peer_credit_events a" by (simp add: a')
  show "replay_le (snapshot a) (snapshot a')"
    using revision_grows [OF assms(3)] assms(6)
    by (simp add: a' replay_le_def order_less_imp_le map_le_fresh)
  have "peer_ledgers a' = peer_ledgers a"
    by (rule peer_ledgers_keep [OF _ assms(4,5)]) (simp add: a')
  then show "replay_done a' rp" if "replay_done a rp" for rp
    by (intro replay_done_quiet [OF that])
      (use revision_grows [OF assms(3)] assms(6,7) in
        \<open>auto simp: a' order_less_imp_le set_bm_insert_fresh peer_receipt_def\<close>)
qed

lemma seen_fresh:
  "set (bm_keys seen) = set (bm_keys m) \<Longrightarrow> bm_get m k = None \<Longrightarrow> bm_get seen k = None"
  by (simp add: map_of_eq_None_iff)

lemma event_ledger_peer:
  assumes "bm_get (ca_issuers a) i = Some st" "body (is_peer_credit st) = (Inr x, l)"
  shows "event_ledger i body reason (peer_ledgers a) = Inr (bm_set i l (peer_ledgers a))"
  using assms by (simp add: event_ledger_def peer_ledgers_get)

lemma events_peer_receipt:
  assumes "events_ok a" "bm_wf (ca_issuers a)" "revision_fits a"
    and "bm_get (ca_issuers a) (sr_issuer c) = Some st"
    and "pc_credit (sr_amount_sat c) (m = OfflineDeferred) (is_peer_credit st) = (Inr (), l)"
    and "bm_get (ca_applied_receipts a) (sr_receipt_id c) = None" "sr_value_class c = PeerCredit"
    and a': "a' = a\<lparr>ca_issuers := bm_set (sr_issuer c) (st\<lparr>is_peer_credit := l\<rparr>) (ca_issuers a),
        ca_total_peer_credit_sat := t,
        ca_peer_credit_events := ca_peer_credit_events a
          @ [ReceiptEvent (ca_revision a + 1) (sr_receipt_id c) m],
        ca_applied_receipts := bm_insert (sr_receipt_id c) c (ca_applied_receipts a),
        ca_revision := ca_revision a + 1\<rparr>"
  shows "events_ok a'"
proof (rule events_push [OF assms(1,2)])
  note grows = revision_grows [OF assms(3)]
  show "bm_keys (ca_issuers a') = bm_keys (ca_issuers a)" by (simp add: a')
  show "ca_peer_credit_events a' = ca_peer_credit_events a
      @ [ReceiptEvent (ca_revision a + 1) (sr_receipt_id c) m]" by (simp add: a')
  show "replay_le (snapshot a) (snapshot a')"
    using grows assms(6) by (simp add: a' replay_le_def order_less_imp_le map_le_fresh)
  fix rp
  assume rp: "replay_done a rp"
  then have prev: "rp_previous_revision rp < ca_revision a + 1"
    using grows by (auto simp: replay_done_def)
  have look: "ca_revision a' = ca_revision a + 1" "bm_get (ca_applied_receipts a') (sr_receipt_id c) = Some c"
    by (simp_all add: a')
  have fresh: "bm_get (rp_seen_receipts rp) (sr_receipt_id c) = None"
    using rp assms(6) by (auto simp: replay_done_def map_of_eq_None_iff)
  have led: "peer_ledgers a' = bm_set (sr_issuer c) l (peer_ledgers a)"
    by (subst peer_ledgers_set [where a = a]) (auto simp: a')
  have "event_ledger (sr_issuer c) (pc_credit (sr_amount_sat c) (m = OfflineDeferred)) reason
      (rp_ledgers rp) = Inr (peer_ledgers a')" for reason
    using rp event_ledger_peer [where body = "pc_credit (sr_amount_sat c) (m = OfflineDeferred)", OF assms(4,5)] led by (simp add: replay_done_def)
  then have "replay_event (snapshot a') (ReceiptEvent (ca_revision a + 1) (sr_receipt_id c) m) rp =
      Inr (rp\<lparr>rp_previous_revision := ca_revision a + 1,
              rp_seen_receipts := bm_insert (sr_receipt_id c) () (rp_seen_receipts rp),
              rp_ledgers := peer_ledgers a'\<rparr>)"
    using prev fresh assms(7) revision_positive [OF assms(3)]
    by (simp add: replay_event_def Let_def linorder_not_le [symmetric] look)
  moreover have "replay_done a' (rp\<lparr>rp_previous_revision := ca_revision a + 1,
              rp_seen_receipts := bm_insert (sr_receipt_id c) () (rp_seen_receipts rp),
              rp_ledgers := peer_ledgers a'\<rparr>)"
  proof -
    have "{e \<in> set (ca_applied_receipts a'). peer_receipt e}
        = insert (sr_receipt_id c, c) {e \<in> set (ca_applied_receipts a). peer_receipt e}"
      using assms(6,7) by (auto simp: a' set_bm_insert_fresh peer_receipt_def)
    then show ?thesis
      using rp unfolding replay_done_def by (simp add: fst_set_bm_insert) (simp add: a')
  qed
  ultimately show "\<exists>rp'. replay_event (snapshot a')
      (ReceiptEvent (ca_revision a + 1) (sr_receipt_id c) m) rp = Inr rp' \<and> replay_done a' rp'"
    by blast
qed

lemma events_novation:
  assumes "events_ok a" "bm_wf (ca_issuers a)" "revision_fits a"
    and "nv_from_issuer n \<noteq> nv_to_issuer n"
    and "bm_get (ca_issuers a) (nv_from_issuer n) = Some fs"
    and "bm_get (ca_issuers a) (nv_to_issuer n) = Some ts"
    and "pc_debit (nv_amount_sat n) (is_peer_credit fs) = (Inr (), source)"
    and "pc_credit (nv_amount_sat n) False (is_peer_credit ts) = (Inr (), target)"
    and "bm_get (ca_novations a) (nv_novation_id n) = None"
    and a': "a' = a\<lparr>ca_issuers := bm_set (nv_to_issuer n) (ts\<lparr>is_peer_credit := target\<rparr>)
          (bm_set (nv_from_issuer n) (fs\<lparr>is_peer_credit := source\<rparr>) (ca_issuers a)),
        ca_peer_credit_events := ca_peer_credit_events a
          @ [NovationEvent (ca_revision a + 1) (nv_novation_id n)],
        ca_novations := bm_insert (nv_novation_id n) n (ca_novations a),
        ca_revision := ca_revision a + 1\<rparr>"
  shows "events_ok a'"
proof (rule events_push [OF assms(1,2)])
  note grows = revision_grows [OF assms(3)]
  show "bm_keys (ca_issuers a') = bm_keys (ca_issuers a)" by (simp add: a')
  show "ca_peer_credit_events a' = ca_peer_credit_events a
      @ [NovationEvent (ca_revision a + 1) (nv_novation_id n)]" by (simp add: a')
  show "replay_le (snapshot a) (snapshot a')"
    using grows assms(9) by (simp add: a' replay_le_def order_less_imp_le map_le_fresh)
  fix rp
  assume rp: "replay_done a rp"
  then have prev: "rp_previous_revision rp < ca_revision a + 1"
    using grows by (auto simp: replay_done_def)
  have look: "ca_revision a' = ca_revision a + 1" "bm_get (ca_novations a') (nv_novation_id n) = Some n"
    by (simp_all add: a')
  have fresh: "bm_get (rp_seen_novations rp) (nv_novation_id n) = None"
    using rp assms(9) by (auto simp: replay_done_def intro: seen_fresh)
  let ?mid = "a\<lparr>ca_issuers := bm_set (nv_from_issuer n) (fs\<lparr>is_peer_credit := source\<rparr>) (ca_issuers a)\<rparr>"
  have led: "peer_ledgers ?mid = bm_set (nv_from_issuer n) source (peer_ledgers a)"
    "peer_ledgers a' = bm_set (nv_to_issuer n) target (peer_ledgers ?mid)"
    by (simp_all add: peer_ledgers_def bm_set_mapped a')
  have to: "bm_get (ca_issuers ?mid) (nv_to_issuer n) = Some ts"
    using assms(4,6) by (simp add: bm_get_bm_set)
  have "event_ledger (nv_from_issuer n) (pc_debit (nv_amount_sat n)) reason (rp_ledgers rp)
      = Inr (peer_ledgers ?mid)" for reason
    using rp event_ledger_peer [where body = "pc_debit (nv_amount_sat n)", OF assms(5,7)] led(1) by (simp add: replay_done_def)
  moreover have "event_ledger (nv_to_issuer n) (pc_credit (nv_amount_sat n) False) reason
      (peer_ledgers ?mid) = Inr (peer_ledgers a')" for reason
    using event_ledger_peer [where body = "pc_credit (nv_amount_sat n) False", OF to assms(8)] led(2) by simp
  ultimately have "replay_event (snapshot a') (NovationEvent (ca_revision a + 1) (nv_novation_id n)) rp =
      Inr (rp\<lparr>rp_previous_revision := ca_revision a + 1,
              rp_seen_novations := bm_insert (nv_novation_id n) () (rp_seen_novations rp),
              rp_ledgers := peer_ledgers a'\<rparr>)"
    using prev fresh revision_positive [OF assms(3)]
    by (simp add: replay_event_def Let_def linorder_not_le [symmetric] look)
  moreover have "replay_done a' (rp\<lparr>rp_previous_revision := ca_revision a + 1,
              rp_seen_novations := bm_insert (nv_novation_id n) () (rp_seen_novations rp),
              rp_ledgers := peer_ledgers a'\<rparr>)"
    using rp by (simp add: a' replay_done_def fst_set_bm_insert)
  ultimately show "\<exists>rp'. replay_event (snapshot a')
      (NovationEvent (ca_revision a + 1) (nv_novation_id n)) rp = Inr rp' \<and> replay_done a' rp'"
    by blast
qed

lemma events_backed_settlement:
  assumes "events_ok a" "bm_wf (ca_issuers a)" "revision_fits a"
    and "bm_get (ca_issuers a) (bs_backing_issuer s) = Some st"
    and "bm_get (ca_issuers a) (bs_from_issuer s) = Some fs"
    and "pc_debit (bs_amount_sat s) (is_peer_credit fs) = (Inr (), source)"
    and "is_peer_credit st' = is_peer_credit st"
    and "bm_get (ca_backed_settlements a) (bs_settlement_id s) = None"
    and a': "a' = a\<lparr>ca_issuers := bm_set (bs_from_issuer s) (mid\<lparr>is_peer_credit := source\<rparr>)
          (bm_set (bs_backing_issuer s) st' (ca_issuers a)),
        ca_total_peer_credit_sat := t,
        ca_peer_credit_events := ca_peer_credit_events a
          @ [BackedSettlementEvent (ca_revision a + 1) (bs_settlement_id s)],
        ca_backed_settlements := bm_insert (bs_settlement_id s) s (ca_backed_settlements a),
        ca_revision := ca_revision a + 1\<rparr>"
  shows "events_ok a'"
proof (rule events_push [OF assms(1,2)])
  note grows = revision_grows [OF assms(3)]
  show "bm_keys (ca_issuers a') = bm_keys (ca_issuers a)" by (simp add: a')
  show "ca_peer_credit_events a' = ca_peer_credit_events a
      @ [BackedSettlementEvent (ca_revision a + 1) (bs_settlement_id s)]" by (simp add: a')
  show "replay_le (snapshot a) (snapshot a')"
    using grows assms(8) by (simp add: a' replay_le_def order_less_imp_le map_le_fresh)
  fix rp
  assume rp: "replay_done a rp"
  then have prev: "rp_previous_revision rp < ca_revision a + 1"
    using grows by (auto simp: replay_done_def)
  have look: "ca_revision a' = ca_revision a + 1" "bm_get (ca_backed_settlements a') (bs_settlement_id s) = Some s"
    by (simp_all add: a')
  have fresh: "bm_get (rp_seen_settlements rp) (bs_settlement_id s) = None"
    using rp assms(8) by (auto simp: replay_done_def intro: seen_fresh)
  have "peer_ledgers (a\<lparr>ca_issuers := bm_set (bs_backing_issuer s) st' (ca_issuers a)\<rparr>) = peer_ledgers a"
    by (rule peer_ledgers_keep [OF _ assms(4,7)]) simp
  then have led: "peer_ledgers a' = bm_set (bs_from_issuer s) source (peer_ledgers a)"
    by (simp add: a' peer_ledgers_def bm_set_mapped)
  have "event_ledger (bs_from_issuer s) (pc_debit (bs_amount_sat s)) reason (rp_ledgers rp)
      = Inr (peer_ledgers a')" for reason
    using rp event_ledger_peer [where body = "pc_debit (bs_amount_sat s)", OF assms(5,6)] led by (simp add: replay_done_def)
  then have "replay_event (snapshot a') (BackedSettlementEvent (ca_revision a + 1) (bs_settlement_id s)) rp =
      Inr (rp\<lparr>rp_previous_revision := ca_revision a + 1,
              rp_seen_settlements := bm_insert (bs_settlement_id s) () (rp_seen_settlements rp),
              rp_ledgers := peer_ledgers a'\<rparr>)"
    using prev fresh revision_positive [OF assms(3)]
    by (simp add: replay_event_def Let_def linorder_not_le [symmetric] look)
  moreover have "replay_done a' (rp\<lparr>rp_previous_revision := ca_revision a + 1,
              rp_seen_settlements := bm_insert (bs_settlement_id s) () (rp_seen_settlements rp),
              rp_ledgers := peer_ledgers a'\<rparr>)"
    using rp by (simp add: a' replay_done_def fst_set_bm_insert)
  ultimately show "\<exists>rp'. replay_event (snapshot a')
      (BackedSettlementEvent (ca_revision a + 1) (bs_settlement_id s)) rp = Inr rp' \<and> replay_done a' rp'"
    by blast
qed

end
