(* ===== verification/Credit_Snapshot_Sums.thy ===== *)
theory Credit_Snapshot_Sums
  imports Credit_Account_Events
begin

text \<open>
  The validation of a snapshot recomputes nine totals per issuer in checked arithmetic, one
  loop per kind of record. A loop body that checks a record and adds its amounts is the locale
  \<open>summing_loop\<close>; inside it the whole loop is shown to accept exactly when every record is
  well-formed and every total fits, and to compute the totals. The loops of the validation are
  its instances.
\<close>

section \<open>The nine totals\<close>

datatype book = PeerCredits | PeerDebits | ClosedDeposits | WithdrawableDeposits
  | ClosedAllocations | WithdrawableAllocations | ClosedConsumptions | PendingExternal
  | SettledExternal

fun ex_get :: "book \<Rightarrow> ExpectedIssuerState \<Rightarrow> u64" where
  "ex_get PeerCredits s = ex_peer_credits_sat s"
| "ex_get PeerDebits s = ex_peer_debits_sat s"
| "ex_get ClosedDeposits s = ex_closed_deposits_sat s"
| "ex_get WithdrawableDeposits s = ex_withdrawable_deposits_sat s"
| "ex_get ClosedAllocations s = ex_closed_allocations_sat s"
| "ex_get WithdrawableAllocations s = ex_withdrawable_allocations_sat s"
| "ex_get ClosedConsumptions s = ex_closed_consumptions_sat s"
| "ex_get PendingExternal s = ex_pending_external_sat s"
| "ex_get SettledExternal s = ex_settled_external_sat s"

definition ex_of :: "(book \<Rightarrow> u64) \<Rightarrow> ExpectedIssuerState" where
  "ex_of g = \<lparr>ex_peer_credits_sat = g PeerCredits, ex_peer_debits_sat = g PeerDebits,
     ex_closed_deposits_sat = g ClosedDeposits, ex_withdrawable_deposits_sat = g WithdrawableDeposits,
     ex_closed_allocations_sat = g ClosedAllocations,
     ex_withdrawable_allocations_sat = g WithdrawableAllocations,
     ex_closed_consumptions_sat = g ClosedConsumptions, ex_pending_external_sat = g PendingExternal,
     ex_settled_external_sat = g SettledExternal\<rparr>"

lemma ex_get_ex_of [simp]: "ex_get f (ex_of g) = g f"
  by (cases f) (simp_all add: ex_of_def)

lemma ex_eqI: "(\<And>f. ex_get f s = ex_get f t) \<Longrightarrow> s = t"
proof -
  assume *: "\<And>f. ex_get f s = ex_get f t"
  show "s = t"
    using *[of PeerCredits] *[of PeerDebits] *[of ClosedDeposits] *[of WithdrawableDeposits]
      *[of ClosedAllocations] *[of WithdrawableAllocations] *[of ClosedConsumptions]
      *[of PendingExternal] *[of SettledExternal]
    by simp
qed

definition plus_books :: "(book \<Rightarrow> nat) \<Rightarrow> ExpectedIssuerState \<Rightarrow> ExpectedIssuerState \<Rightarrow> bool" where
  "plus_books d s t \<longleftrightarrow> (\<forall>f. unat (ex_get f t) = unat (ex_get f s) + d f)"

lemma plus_books_fun: "plus_books d s t \<Longrightarrow> plus_books d s u \<Longrightarrow> t = u"
  by (rule ex_eqI) (simp add: plus_books_def word_unat_eq_iff)

lemma plus_books_compose:
  "plus_books (\<lambda>f. d f + e f) s t \<longleftrightarrow> (\<exists>u. plus_books d s u \<and> plus_books e u t)"
proof
  assume *: "plus_books (\<lambda>f. d f + e f) s t"
  have "\<exists>y :: u64. unat y = unat (ex_get f s) + d f" for f
    using * by (intro word_of_bounded [of _ "ex_get f t"]) (simp add: plus_books_def)
  then obtain g :: "book \<Rightarrow> u64" where "\<And>f. unat (g f) = unat (ex_get f s) + d f" by metis
  then have "plus_books d s (ex_of g)" "plus_books e (ex_of g) t"
    using * by (simp_all add: plus_books_def)
  then show "\<exists>u. plus_books d s u \<and> plus_books e u t" by blast
qed (auto simp: plus_books_def)

section \<open>Totals of all issuers\<close>

definition adds :: "(string \<Rightarrow> book \<Rightarrow> nat) \<Rightarrow> expected_map \<Rightarrow> expected_map \<Rightarrow> bool" where
  "adds d E F \<longleftrightarrow> list_all2 (\<lambda>(i, s) (j, t). i = j \<and> plus_books (d i) s t) E F"

lemma adds_keys: "adds d E F \<Longrightarrow> bm_keys F = bm_keys E"
  unfolding adds_def by (induction rule: list_all2_induct) auto

lemma adds_fun:
  assumes "adds d E F" "adds d E G"
  shows "F = G"
  using assms unfolding adds_def
proof (induction E F arbitrary: G rule: list_all2_induct)
  case (Cons x xs y ys)
  obtain z zs where G: "G = z # zs" using Cons.prems by (cases G) auto
  obtain i s where x: "x = (i, s)" by (cases x)
  obtain j t where y: "y = (j, t)" by (cases y)
  obtain k u where z: "z = (k, u)" by (cases z)
  have "j = i" "k = i" and st: "plus_books (d i) s t" "plus_books (d i) s u"
    using Cons.hyps Cons.prems by (auto simp: G x y z)
  moreover have "ys = zs" using Cons.IH [of zs] Cons.prems by (simp add: G)
  ultimately show ?case using plus_books_fun [OF st] by (simp add: G y z)
qed simp

lemma adds_zero: "adds (\<lambda>i f. 0) E E"
  by (auto simp: adds_def plus_books_def intro!: list.rel_refl)

lemma adds_compose: "adds (\<lambda>i f. d i f + e i f) E F \<longleftrightarrow> (\<exists>G. adds d E G \<and> adds e G F)"
proof
  assume "adds (\<lambda>i f. d i f + e i f) E F"
  then show "\<exists>G. adds d E G \<and> adds e G F"
    unfolding adds_def
  proof (induction rule: list_all2_induct)
    case (Cons x xs y ys)
    obtain i s where x: "x = (i, s)" by (cases x)
    obtain j t where y: "y = (j, t)" by (cases y)
    have xy: "j = i" "plus_books (\<lambda>f. d i f + e i f) s t" using Cons.hyps by (auto simp: x y)
    then obtain u where "plus_books (d i) s u" "plus_books (e i) u t"
      unfolding plus_books_compose by blast
    moreover obtain G where "list_all2 (\<lambda>(i, s) (j, t). i = j \<and> plus_books (d i) s t) xs G"
      "list_all2 (\<lambda>(i, s) (j, t). i = j \<and> plus_books (e i) s t) G ys"
      using Cons.IH by blast
    ultimately show ?case using xy(1) x y by (intro exI [of _ "(i, u) # G"]) simp
  qed simp
next
  assume "\<exists>G. adds d E G \<and> adds e G F"
  then obtain G where "adds d E G" "adds e G F" by blast
  then show "adds (\<lambda>i f. d i f + e i f) E F"
    unfolding adds_def
  proof (induction E G arbitrary: F rule: list_all2_induct)
    case (Cons x xs y ys)
    obtain z zs where F: "F = z # zs" using Cons.prems by (cases F) auto
    obtain i s where x: "x = (i, s)" by (cases x)
    obtain j t where y: "y = (j, t)" by (cases y)
    obtain k u where z: "z = (k, u)" by (cases z)
    have "j = i" "k = i" "plus_books (d i) s t" "plus_books (e i) t u"
      using Cons.hyps Cons.prems by (auto simp: F x y z)
    then have "plus_books (\<lambda>f. d i f + e i f) s u" unfolding plus_books_compose by blast
    then show ?case using Cons.IH [of zs] Cons.prems \<open>j = i\<close> \<open>k = i\<close> by (simp add: F x y z)
  qed simp
qed

lemma adds_cong: "(\<And>i f. i \<in> set (bm_keys E) \<Longrightarrow> d i f = e i f) \<Longrightarrow> adds d E F = adds e E F"
  unfolding adds_def by (rule list.rel_cong) (force simp: plus_books_def)+

lemma adds_get:
  assumes "adds d E F" "bm_get E i = Some s"
  shows "\<exists>t. bm_get F i = Some t \<and> plus_books (d i) s t"
  using assms unfolding adds_def
  by (induction E F rule: list_all2_induct) (auto split: if_splits)

section \<open>Adding to one issuer\<close>

definition single :: "string \<Rightarrow> book \<Rightarrow> nat \<Rightarrow> string \<Rightarrow> book \<Rightarrow> nat" where
  "single i f n j g = (if i = j \<and> f = g then n else 0)"

definition adds_to :: "book \<Rightarrow> nat \<Rightarrow> (ExpectedIssuerState \<Rightarrow> CreditError + ExpectedIssuerState) \<Rightarrow> bool" where
  "adds_to f n body \<longleftrightarrow> (\<forall>s t. body s = Inr t \<longleftrightarrow> plus_books (\<lambda>g. if f = g then n else 0) s t)"

lemma adds_set:
  assumes "bm_wf E" "bm_get E i = Some s" "plus_books (d i) s t" "\<And>j f. j \<noteq> i \<Longrightarrow> d j f = 0"
  shows "adds d E (bm_set i t E)"
  using assms(1,2)
proof (induction E)
  case (Cons e E)
  obtain j u where e: "e = (j, u)" by (cases e)
  have zero: "list_all2 (\<lambda>(i, s) (j, t). i = j \<and> plus_books (d i) s t) E E"
    if "i \<notin> fst ` set E"
  proof (rule list.rel_refl_strong)
    fix z
    assume "z \<in> set E"
    obtain k w where z: "z = (k, w)" by (cases z)
    then have "k \<in> fst ` set E" using \<open>z \<in> set E\<close> by (metis fst_conv imageI)
    then have "k \<noteq> i" using that by blast
    then show "(case z of (i, s) \<Rightarrow> \<lambda>(j, t). i = j \<and> plus_books (d i) s t) z"
      using assms(4) by (simp add: z plus_books_def)
  qed
  show ?case
  proof (cases "i = j")
    case True
    then have "i \<notin> fst ` set E" using Cons.prems by (auto simp: bm_wf_def e)
    then show ?thesis using True Cons.prems assms(3) zero by (simp add: adds_def e)
  next
    case False
    then have "plus_books (d j) u u" using assms(4) by (simp add: plus_books_def)
    moreover have "adds d E (bm_set i t E)" using Cons False by (auto simp: bm_wf_def e)
    ultimately show ?thesis using False by (simp add: adds_def e)
  qed
qed simp

lemma expected_state_adds:
  assumes "bm_wf E" "adds_to f n body"
  shows "expected_state i body E = Inr F \<longleftrightarrow> i \<in> set (bm_keys E) \<and> adds (single i f n) E F"
proof (cases "bm_get E i")
  case None
  then have "i \<notin> set (bm_keys E)" using key_get_some [of i E] by auto
  with None show ?thesis by (simp add: expected_state_def invalid_def)
next
  case (Some s)
  have key: "i \<in> set (bm_keys E)" using Some by (rule get_some_key)
  have books: "plus_books (single i f n i) = plus_books (\<lambda>g. if f = g then n else 0)"
    by (simp add: single_def fun_eq_iff plus_books_def)
  show ?thesis
  proof
    assume "expected_state i body E = Inr F"
    then obtain t where "body s = Inr t" "F = bm_set i t E"
      using Some by (auto simp: expected_state_def result_simps)
    then show "i \<in> set (bm_keys E) \<and> adds (single i f n) E F"
      using assms Some key books by (auto simp: adds_to_def single_def intro!: adds_set)
  next
    assume "i \<in> set (bm_keys E) \<and> adds (single i f n) E F"
    then have F: "adds (single i f n) E F" by blast
    then obtain t where "plus_books (single i f n i) s t" using adds_get Some by blast
    then have "body s = Inr t" using assms(2) books by (simp add: adds_to_def)
    moreover have "adds (single i f n) E (bm_set i t E)"
      using assms(1) Some \<open>plus_books (single i f n i) s t\<close>
      by (intro adds_set) (simp_all add: single_def)
    ultimately show "expected_state i body E = Inr F"
      using F adds_fun Some by (simp add: expected_state_def)
  qed
qed

lemma all_books: "(\<forall>f. P f) \<longleftrightarrow> P PeerCredits \<and> P PeerDebits \<and> P ClosedDeposits
    \<and> P WithdrawableDeposits \<and> P ClosedAllocations \<and> P WithdrawableAllocations
    \<and> P ClosedConsumptions \<and> P PendingExternal \<and> P SettledExternal"
  by (metis book.exhaust)

lemma bumps:
  "adds_to PeerCredits (unat n) (\<lambda>s. and_then (add (ex_peer_credits_sat s) n w)
     (\<lambda>v. Inr (s\<lparr>ex_peer_credits_sat := v\<rparr>)))"
  "adds_to PeerDebits (unat n) (\<lambda>s. and_then (add (ex_peer_debits_sat s) n w)
     (\<lambda>v. Inr (s\<lparr>ex_peer_debits_sat := v\<rparr>)))"
  "adds_to ClosedDeposits (unat n) (\<lambda>s. and_then (add (ex_closed_deposits_sat s) n w)
     (\<lambda>v. Inr (s\<lparr>ex_closed_deposits_sat := v\<rparr>)))"
  "adds_to WithdrawableDeposits (unat n) (\<lambda>s. and_then (add (ex_withdrawable_deposits_sat s) n w)
     (\<lambda>v. Inr (s\<lparr>ex_withdrawable_deposits_sat := v\<rparr>)))"
  "adds_to ClosedAllocations (unat n) (\<lambda>s. and_then (add (ex_closed_allocations_sat s) n w)
     (\<lambda>v. Inr (s\<lparr>ex_closed_allocations_sat := v\<rparr>)))"
  "adds_to WithdrawableAllocations (unat n) (\<lambda>s. and_then (add (ex_withdrawable_allocations_sat s) n w)
     (\<lambda>v. Inr (s\<lparr>ex_withdrawable_allocations_sat := v\<rparr>)))"
  "adds_to ClosedConsumptions (unat n) (\<lambda>s. and_then (add (ex_closed_consumptions_sat s) n w)
     (\<lambda>v. Inr (s\<lparr>ex_closed_consumptions_sat := v\<rparr>)))"
  "adds_to PendingExternal (unat n) (\<lambda>s. and_then (add (ex_pending_external_sat s) n w)
     (\<lambda>v. Inr (s\<lparr>ex_pending_external_sat := v\<rparr>)))"
  "adds_to SettledExternal (unat n) (\<lambda>s. and_then (add (ex_settled_external_sat s) n w)
     (\<lambda>v. Inr (s\<lparr>ex_settled_external_sat := v\<rparr>)))"
  unfolding adds_to_def plus_books_def all_books
  by (auto simp: add_def result_simps u64_simps word_unat_eq_iff)

lemmas bump_steps = bumps [THEN expected_state_adds [rotated]]

section \<open>Loops that check and add\<close>

locale summing_loop =
  fixes ids :: "string list"
    and check :: "'x \<Rightarrow> expected_map \<Rightarrow> CreditError + expected_map"
    and ok :: "'x \<Rightarrow> bool"
    and delta :: "'x \<Rightarrow> string \<Rightarrow> book \<Rightarrow> nat"
  assumes check_iff: "bm_wf E \<Longrightarrow> bm_keys E = ids \<Longrightarrow>
      check x E = Inr F \<longleftrightarrow> ok x \<and> adds (delta x) E F"
begin

lemma loop_iff:
  "bm_wf E \<Longrightarrow> bm_keys E = ids \<Longrightarrow> try_fold check xs E = Inr F \<longleftrightarrow>
     list_all ok xs \<and> adds (\<lambda>i f. \<Sum>x\<leftarrow>xs. delta x i f) E F"
proof (induction xs arbitrary: E)
  case Nil
  then show ?case using adds_zero [of E] adds_fun [of "\<lambda>i f. 0" E F E] by auto
next
  case (Cons x xs)
  have "bm_wf G \<and> bm_keys G = ids" if "adds d E G" for d G
    using adds_keys [OF that] Cons.prems by (simp add: bm_wf_def)
  then show ?case
    using Cons check_iff [of E x] by (auto simp: result_simps adds_compose)
qed

end

definition receipt_book :: "ValueClass \<Rightarrow> book" where
  "receipt_book v = (case v of PeerCredit \<Rightarrow> PeerCredits | ClosedLoopDeposit \<Rightarrow> ClosedAllocations
     | ReserveBackedWithdrawable \<Rightarrow> WithdrawableAllocations)"

definition deposit_book :: "ValueClass \<Rightarrow> book" where
  "deposit_book v = (case v of ClosedLoopDeposit \<Rightarrow> ClosedDeposits | _ \<Rightarrow> WithdrawableDeposits)"

definition receipt_delta :: "ServiceReceiptClaim \<Rightarrow> string \<Rightarrow> book \<Rightarrow> nat" where
  "receipt_delta r = single (sr_issuer r) (receipt_book (sr_value_class r)) (unat (sr_amount_sat r))"

definition novation_delta :: "CreditNovation \<Rightarrow> string \<Rightarrow> book \<Rightarrow> nat" where
  "novation_delta n = (\<lambda>i f. single (nv_from_issuer n) PeerDebits (unat (nv_amount_sat n)) i f
     + single (nv_to_issuer n) PeerCredits (unat (nv_amount_sat n)) i f)"

definition deposit_delta :: "BackingDeposit \<Rightarrow> string \<Rightarrow> book \<Rightarrow> nat" where
  "deposit_delta d = single (bd_issuer d) (deposit_book (bd_value_class d)) (unat (bd_amount_sat d))"

definition backed_delta :: "BackedCreditSettlement \<Rightarrow> string \<Rightarrow> book \<Rightarrow> nat" where
  "backed_delta s = (\<lambda>i f. single (bs_from_issuer s) PeerDebits (unat (bs_amount_sat s)) i f
     + single (bs_backing_issuer s) (receipt_book (bs_value_class s)) (unat (bs_amount_sat s)) i f)"

definition consumption_delta :: "ClosedLoopConsumption \<Rightarrow> string \<Rightarrow> book \<Rightarrow> nat" where
  "consumption_delta c = single (cc_issuer c) ClosedConsumptions (unat (cc_amount_sat c))"

definition settlement_delta :: "SettlementRecord \<Rightarrow> string \<Rightarrow> book \<Rightarrow> nat" where
  "settlement_delta r = (case st_state r of
      Pending \<Rightarrow> single (xr_issuer (st_request r)) PendingExternal (unat (xa_reserved_sat (st_authorization r)))
    | Completed fee \<Rightarrow> single (xr_issuer (st_request r)) SettledExternal
        (unat (xr_amount_sat (st_request r)) + unat fee)
    | Cancelled \<Rightarrow> single (xr_issuer (st_request r)) PendingExternal 0)"

lemma receipt_step:
  "bm_wf E \<Longrightarrow> check_receipt cp (k, r) E = Inr F \<longleftrightarrow>
     receipt_ok cp (bm_keys E) k r \<and> adds (receipt_delta r) E F"
  by (cases "sr_value_class r")
    (auto simp: check_receipt_def receipt_ok_def receipt_delta_def receipt_book_def invalid_def
      bump_steps linorder_not_le)

lemma consumption_step:
  "bm_wf E \<Longrightarrow> check_consumption cp (k, c) E = Inr F \<longleftrightarrow>
     consumption_ok cp (bm_keys E) k c \<and> adds (consumption_delta c) E F"
  by (auto simp: check_consumption_def consumption_ok_def consumption_delta_def invalid_def
      bump_steps)

lemma two_adds:
  assumes "bm_wf E" "adds_to f n body" "adds_to g m body'"
  shows "and_then (expected_state i body E) (expected_state j body') = Inr F \<longleftrightarrow>
     i \<in> set (bm_keys E) \<and> j \<in> set (bm_keys E) \<and> adds (\<lambda>k h. single i f n k h + single j g m k h) E F"
proof -
  have "expected_state j body' G = Inr F \<longleftrightarrow> j \<in> set (bm_keys E) \<and> adds (single j g m) G F"
    if "adds (single i f n) E G" for G
    using adds_keys [OF that] assms(1)
    by (subst expected_state_adds [OF _ assms(3)]) (simp_all add: bm_wf_def)
  then show ?thesis
    by (auto simp: result_simps expected_state_adds [OF assms(1,2)] adds_compose)
qed

lemmas two_bumps = two_adds [OF _ bumps(2) bumps(1)] two_adds [OF _ bumps(2) bumps(5)]
  two_adds [OF _ bumps(2) bumps(6)]

lemma novation_step:
  "bm_wf E \<Longrightarrow> check_novation cp (k, n) E = Inr F \<longleftrightarrow>
     novation_ok cp (bm_keys E) k n \<and> adds (novation_delta n) E F"
  unfolding check_novation_def novation_ok_def novation_delta_def
  by (auto simp: invalid_def two_bumps)

lemma backed_step:
  "bm_wf E \<Longrightarrow> check_backed_settlement cp (k, s) E = Inr F \<longleftrightarrow>
     backed_ok cp (bm_keys E) k s \<and> adds (backed_delta s) E F"
proof (cases "bs_value_class s")
  case PeerCredit
  assume "bm_wf E"
  have "expected_state i (\<lambda>s. invalid w) G \<noteq> Inr F" for i w G
    by (auto simp: expected_state_def invalid_def split: option.splits)
  with PeerCredit show ?thesis
    by (auto simp: check_backed_settlement_def backed_ok_def result_simps invalid_def)
qed (auto simp: check_backed_settlement_def backed_ok_def backed_delta_def receipt_book_def invalid_def
      two_bumps)

lemma deposit_step:
  "bm_wf E \<Longrightarrow> check_deposit d (prev, E) = Inr (prev', F) \<longleftrightarrow>
     (\<forall>p. prev = Some p \<longrightarrow> p < (bd_issuer d, bd_deposit_id d))
     \<and> deposit_ok (bm_keys E) (bd_issuer d, bd_deposit_id d) d
     \<and> prev' = Some (bd_issuer d, bd_deposit_id d) \<and> adds (deposit_delta d) E F"
proof (cases "bd_value_class d")
  case PeerCredit
  have "expected_state i (\<lambda>s. invalid w) G \<noteq> Inr F" for i w G
    by (auto simp: expected_state_def invalid_def split: option.splits)
  with PeerCredit show ?thesis
    by (auto simp: check_deposit_def deposit_ok_def result_simps invalid_def Let_def)
qed (auto simp: check_deposit_def deposit_ok_def deposit_delta_def deposit_book_def invalid_def Let_def
      result_simps bump_steps linorder_not_le split: option.splits)

lemma reserved_iff:
  "(\<exists>n. unat n = unat (xr_amount_sat q) + unat (xr_max_fee_sat q) \<and>
      z = authorization_of q n (xa_authorized_at_unix z) \<and> P n)
   \<longleftrightarrow> unat (xa_reserved_sat z) = unat (xr_amount_sat q) + unat (xr_max_fee_sat q)
      \<and> z = authorization_of q (xa_reserved_sat z) (xa_authorized_at_unix z) \<and> P (xa_reserved_sat z)"
proof -
  have "xa_reserved_sat (authorization_of q n t) = n" for n t by (simp add: authorization_of_def)
  then show ?thesis by metis
qed

lemma settle_bump:
  assumes "unat spent = unat n + unat fee"
  shows "and_then (ok_or (checked_add n fee) e) (\<lambda>spent. k spent) = k spent"
  using assms by (simp add: checked_add_eq_Some [THEN iffD2])

lemma closed_state:
  "state_to_snapshot st = PendingV1 \<longleftrightarrow> st = Pending"
  by (cases st) simp_all

lemma cancelled_step:
  "bm_wf E \<Longrightarrow> expected_state i Inr E = Inr F \<longleftrightarrow> i \<in> set (bm_keys E) \<and> adds (single i PendingExternal 0) E F"
proof (rule expected_state_adds)
  have "t = s" if "\<forall>f. unat (ex_get f t) = unat (ex_get f s)" for s t :: ExpectedIssuerState
    by (rule ex_eqI) (use that in \<open>simp add: word_unat_eq_iff\<close>)
  then show "adds_to PendingExternal 0 Inr"
    by (auto simp: adds_to_def plus_books_def)
qed

definition external_body ::
    "ExternalSettlementRequest \<Rightarrow> SettlementStateSnapshotV1 \<Rightarrow> u64 \<Rightarrow> ExpectedIssuerState
       \<Rightarrow> CreditError + ExpectedIssuerState" where
  "external_body q state reserved_sat totals = (case state of
            PendingV1 \<Rightarrow>
              and_then (add (ex_pending_external_sat totals) reserved_sat ''pending settlement total'')
                (\<lambda>v. Inr (totals\<lparr>ex_pending_external_sat := v\<rparr>))
          | CompletedV1 fee_sat \<Rightarrow>
              if fee_sat > xr_max_fee_sat q then invalid ''completed settlement fee''
              else
                and_then (ok_or (checked_add (xr_amount_sat q) fee_sat)
                            (InvalidSnapshot ''completed settlement overflow'')) (\<lambda>spent_sat.
                and_then (add (ex_settled_external_sat totals) spent_sat
                            ''completed settlement total'')
                  (\<lambda>v. Inr (totals\<lparr>ex_settled_external_sat := v\<rparr>)))
          | CancelledV1 \<Rightarrow> Inr totals)"

lemma external_body_step:
  assumes "bm_wf E" "unat n = unat (xr_amount_sat q) + unat (xr_max_fee_sat q)"
    and "st_request r = q" "xa_reserved_sat (st_authorization r) = n"
  shows "expected_state (xr_issuer q) (external_body q (state_to_snapshot (st_state r)) n) E = Inr F \<longleftrightarrow>
      (case st_state r of Completed fee \<Rightarrow> fee \<le> xr_max_fee_sat q | _ \<Rightarrow> True)
      \<and> xr_issuer q \<in> set (bm_keys E) \<and> adds (settlement_delta r) E F"
proof (cases "st_state r")
  case Pending
  have "external_body q PendingV1 n = (\<lambda>totals.
      and_then (add (ex_pending_external_sat totals) n ''pending settlement total'')
        (\<lambda>v. Inr (totals\<lparr>ex_pending_external_sat := v\<rparr>)))"
    by (simp add: external_body_def fun_eq_iff)
  with Pending assms show ?thesis by (simp add: bump_steps settlement_delta_def)
next
  case (Completed fee)
  show ?thesis
  proof (cases "fee \<le> xr_max_fee_sat q")
    case True
    then obtain spent :: u64 where spent: "unat spent = unat (xr_amount_sat q) + unat fee"
      using assms(2) word_of_bounded [of "unat (xr_amount_sat q) + unat fee" n]
      by (auto simp: word_le_nat_alt)
    then have "external_body q (CompletedV1 fee) n = (\<lambda>totals.
        and_then (add (ex_settled_external_sat totals) spent ''completed settlement total'')
          (\<lambda>v. Inr (totals\<lparr>ex_settled_external_sat := v\<rparr>)))"
      using True by (simp add: external_body_def fun_eq_iff settle_bump linorder_not_less [symmetric])
    with True Completed assms spent show ?thesis by (simp add: bump_steps settlement_delta_def)
  next
    case False
    then have "external_body q (CompletedV1 fee) n = (\<lambda>totals. invalid ''completed settlement fee'')"
      by (simp add: external_body_def fun_eq_iff linorder_not_le)
    then show ?thesis
      using Completed False by (auto simp: expected_state_def invalid_def split: option.splits)
  qed
next
  case Cancelled
  have "external_body q CancelledV1 n = Inr" by (simp add: external_body_def fun_eq_iff)
  with Cancelled assms show ?thesis by (simp add: cancelled_step settlement_delta_def)
qed

lemma external_step:
  assumes "bm_wf E"
  shows "check_external_settlement cp (k, settlement_to_snapshot r) E = Inr F \<longleftrightarrow>
     settlement_ok cp (bm_keys E) k r \<and> adds (settlement_delta r) E F"
proof -
  let ?q = "st_request r" and ?z = "st_authorization r"
  have sel: "sts_request (settlement_to_snapshot r) = ?q" "sts_authorization (settlement_to_snapshot r) = ?z"
      "sts_state (settlement_to_snapshot r) = state_to_snapshot (st_state r)"
    by (simp_all add: settlement_to_snapshot_def)
  have unfold: "check_external_settlement cp (k, settlement_to_snapshot r) E = Inr F \<longleftrightarrow>
      (\<exists>n. unat n = unat (xr_amount_sat ?q) + unat (xr_max_fee_sat ?q)
        \<and> ?z = authorization_of ?q n (xa_authorized_at_unix ?z)
        \<and> k = xr_settlement_id ?q \<and> \<not> is_blank k \<and> xr_counterparty ?q = cp
        \<and> \<not> is_blank (xr_payout_destination ?q) \<and> xr_amount_sat ?q \<noteq> 0
        \<and> xa_authorized_at_unix ?z < xa_expires_at_unix ?z
        \<and> expected_state (xr_issuer ?q) (external_body ?q (state_to_snapshot (st_state r)) n) E = Inr F)"
    unfolding check_external_settlement_def prod.case Let_def sel external_body_def [abs_def]
      and_then_eq ok_or_eq checked_add_eq_Some
    by (intro iff_exI) (auto simp: invalid_def linorder_not_le)
  show ?thesis
    unfolding unfold reserved_iff using external_body_step [OF assms _ refl refl]
    by (auto simp: settlement_ok_def Let_def)
qed

section \<open>The loops of the validation\<close>

interpretation receipts: summing_loop ids "check_receipt cp"
    "\<lambda>(k, r). receipt_ok cp ids k r" "\<lambda>(k, r). receipt_delta r" for ids cp
  by unfold_locales (auto simp: receipt_step)

interpretation novations: summing_loop ids "check_novation cp"
    "\<lambda>(k, n). novation_ok cp ids k n" "\<lambda>(k, n). novation_delta n" for ids cp
  by unfold_locales (auto simp: novation_step)

interpretation backed: summing_loop ids "check_backed_settlement cp"
    "\<lambda>(k, s). backed_ok cp ids k s" "\<lambda>(k, s). backed_delta s" for ids cp
  by unfold_locales (auto simp: backed_step)

interpretation consumptions: summing_loop ids "check_consumption cp"
    "\<lambda>(k, c). consumption_ok cp ids k c" "\<lambda>(k, c). consumption_delta c" for ids cp
  by unfold_locales (auto simp: consumption_step)

interpretation externals: summing_loop ids
    "\<lambda>(k, r). check_external_settlement cp (k, settlement_to_snapshot r)"
    "\<lambda>(k, r). settlement_ok cp ids k r" "\<lambda>(k, r). settlement_delta r" for ids cp
  by unfold_locales (auto simp: external_step)

lemma sum_values: "(\<Sum>(k, v)\<leftarrow>m. d v) = value_sum d m"
  by (induction m) (auto simp: value_sum_def)

lemma try_fold_map: "try_fold f (map g xs) s = try_fold (\<lambda>x. f (g x)) xs s"
  by (induction xs arbitrary: s) (simp_all add: and_then_def split: sum.splits)

definition deposit_key :: "BackingDeposit \<Rightarrow> string \<times> string" where
  "deposit_key d = (bd_issuer d, bd_deposit_id d)"

text \<open>The deposit loop also checks that the keys are strictly increasing.\<close>

lemma deposit_loop:
  "bm_wf E \<Longrightarrow> try_fold check_deposit ds (prev, E) = Inr (final, F) \<longleftrightarrow>
     (\<forall>p. prev = Some p \<longrightarrow> (\<forall>d \<in> set ds. p < deposit_key d))
     \<and> sorted_wrt (<) (map deposit_key ds)
     \<and> list_all (\<lambda>d. deposit_ok (bm_keys E) (deposit_key d) d) ds
     \<and> adds (\<lambda>i f. \<Sum>d\<leftarrow>ds. deposit_delta d i f) E F
     \<and> final = (if ds = [] then prev else Some (deposit_key (last ds)))"
proof (induction ds arbitrary: prev E)
  case Nil
  then show ?case using adds_zero [of E] adds_fun [of "\<lambda>i f. 0" E F E] by auto
next
  case (Cons d ds)
  let ?k = "deposit_key d"
  have step: "check_deposit d (prev, E) = Inr (prev', G) \<longleftrightarrow>
      (\<forall>p. prev = Some p \<longrightarrow> p < ?k) \<and> deposit_ok (bm_keys E) ?k d \<and> prev' = Some ?k
      \<and> adds (deposit_delta d) E G" for prev' G
    using deposit_step [OF Cons.prems] by (simp add: deposit_key_def)
  have G: "bm_wf G \<and> bm_keys G = bm_keys E" if "adds (deposit_delta d) E G" for G
    using adds_keys [OF that] Cons.prems by (simp add: bm_wf_def)
  have IH: "adds (deposit_delta d) E G \<and> try_fold check_deposit ds (Some ?k, G) = Inr (final, F) \<longleftrightarrow>
      ((\<forall>e \<in> set ds. ?k < deposit_key e) \<and> sorted_wrt (<) (map deposit_key ds)
        \<and> list_all (\<lambda>d. deposit_ok (bm_keys E) (deposit_key d) d) ds
        \<and> final = (if ds = [] then Some ?k else Some (deposit_key (last ds))))
      \<and> adds (deposit_delta d) E G \<and> adds (\<lambda>i f. \<Sum>d\<leftarrow>ds. deposit_delta d i f) G F" for G
    using Cons.IH [of G "Some ?k"] G [of G] by (cases "adds (deposit_delta d) E G") auto
  have "try_fold check_deposit (d # ds) (prev, E) = Inr (final, F) \<longleftrightarrow>
      (\<forall>p. prev = Some p \<longrightarrow> p < ?k) \<and> deposit_ok (bm_keys E) ?k d
      \<and> (\<exists>G. adds (deposit_delta d) E G \<and> try_fold check_deposit ds (Some ?k, G) = Inr (final, F))"
    by (auto simp: result_simps step)
  also have "\<dots> \<longleftrightarrow> (\<forall>p. prev = Some p \<longrightarrow> p < ?k) \<and> deposit_ok (bm_keys E) ?k d
      \<and> ((\<forall>e \<in> set ds. ?k < deposit_key e) \<and> sorted_wrt (<) (map deposit_key ds)
        \<and> list_all (\<lambda>d. deposit_ok (bm_keys E) (deposit_key d) d) ds
        \<and> final = (if ds = [] then Some ?k else Some (deposit_key (last ds))))
      \<and> (\<exists>G. adds (deposit_delta d) E G \<and> adds (\<lambda>i f. \<Sum>d\<leftarrow>ds. deposit_delta d i f) G F)"
    unfolding IH ex_simps ..
  finally show ?case
    unfolding adds_compose [symmetric] by (auto intro: order.strict_trans)
qed

end
