(* ===== verification/Credit_Account_Keep.thy ===== *)
theory Credit_Account_Keep
  imports Credit_Account_Inv
begin

text \<open>
  Every account operation keeps \<open>account_ok\<close>: the sums over the books first, then the replay
  of the events, then one lemma per operation, and the transition system of the account with
  its invariant.
\<close>

section \<open>Reading the invariant\<close>

lemma issuers_ok_get:
  "bm_wf (ca_issuers a) \<Longrightarrow> issuers_ok a \<longleftrightarrow>
     (\<forall>i st. bm_get (ca_issuers a) i = Some st \<longrightarrow> issuer_caps i st \<and> issuer_books a i st)"
  by (simp add: issuers_ok_def bm_all_iff_get)

lemma account_okD:
  assumes "account_ok a"
  shows "shape_ok a" "records_ok a" "issuers_ok a" "total_ok a" "revision_ok a" "events_ok a"
    "bm_wf (ca_issuers a)"
  using assms by (auto simp: account_ok_def shape_ok_def)

lemma account_ok_issuer:
  assumes "account_ok a" "bm_get (ca_issuers a) i = Some st"
  shows "issuer_caps i st" "issuer_books a i st"
  using assms account_okD issuers_ok_get by blast+

lemma issuers_ok_one:
  assumes "bm_wf (ca_issuers a)" "issuers_ok a" "bm_get (ca_issuers a) i = Some st"
    and "ca_issuers a' = bm_set i st' (ca_issuers a)"
    and "issuer_caps i st \<Longrightarrow> issuer_books a i st \<Longrightarrow> issuer_caps i st' \<and> issuer_books a' i st'"
    and "\<And>j s. j \<noteq> i \<Longrightarrow> issuer_books a j s \<Longrightarrow> issuer_books a' j s"
  shows "issuers_ok a'"
proof -
  have "issuer_caps i st" "issuer_books a i st"
    using assms(1,2,3) by (auto simp: issuers_ok_get)
  then have "issuer_caps i st' \<and> issuer_books a' i st'" by (rule assms(5))
  then show ?thesis
    using assms by (auto simp: issuers_ok_get bm_get_bm_set_present)
qed

lemma total_one:
  assumes "bm_get (ca_issuers a) i = Some st" "total_ok a"
    and "ca_issuers a' = bm_set i st' (ca_issuers a)"
    and "unat (ca_total_peer_credit_sat a') + outstanding st
           = unat (ca_total_peer_credit_sat a) + outstanding st'"
    and "ca_total_peer_credit_sat a' \<le> ca_max_total_peer_credit_sat a'"
  shows "total_ok a'"
  using assms value_sum_set [OF assms(1), of outstanding st'] by (simp add: total_ok_def)

lemmas caps_books = issuer_caps_def issuer_books_def cl.conserved_def wr.conserved_def
lemmas step_sums = books_defs value_sum_fresh record_amounts

section \<open>Books, records, aggregate and revision\<close>

definition core_ok :: "CreditAccount \<Rightarrow> bool" where
  "core_ok a \<longleftrightarrow> shape_ok a \<and> records_ok a \<and> issuers_ok a \<and> total_ok a \<and> revision_ok a"

lemma deposit_core:
  assumes "core_ok a" "record_backing_deposit d auth a = (Inr Applied, a')"
  shows "core_ok a'"
proof -
  obtain st st' where eff: "revision_fits a"
      "bm_get (ca_backing_deposits a) (bd_issuer d, bd_deposit_id d) = None"
      "\<not> is_blank (bd_deposit_id d)" "bd_amount_sat d \<noteq> 0"
      "bm_get (ca_issuers a) (bd_issuer d) = Some st"
      "deposited (bd_value_class d) (bd_amount_sat d) st st'"
    and a': "a' = a\<lparr>ca_issuers := bm_set (bd_issuer d) st' (ca_issuers a),
        ca_backing_deposits := bm_insert (bd_issuer d, bd_deposit_id d) d (ca_backing_deposits a),
        ca_revision := ca_revision a + 1\<rparr>"
    using record_backing_deposit_effect [OF assms(2)] by auto
  have wf: "bm_wf (ca_issuers a)" and ok: "shape_ok a" "records_ok a" "issuers_ok a" "total_ok a"
      "revision_ok a"
    using assms(1) by (auto simp: core_ok_def shape_ok_def)
  have "issuers_ok a'"
  proof (rule issuers_ok_one [OF wf ok(3) eff(5)])
    show "ca_issuers a' = bm_set (bd_issuer d) st' (ca_issuers a)" by (simp add: a')
    assume "issuer_caps (bd_issuer d) st" "issuer_books a (bd_issuer d) st"
    then show "issuer_caps (bd_issuer d) st' \<and> issuer_books a' (bd_issuer d) st'"
      using eff(2) unfolding a'
      by (cases rule: deposited_cases [OF eff(6)]; simp add: caps_books step_sums ledger_simps)
  next
    fix j s
    assume "j \<noteq> bd_issuer d" "issuer_books a j s"
    then show "issuer_books a' j s"
      using eff(2) unfolding a' by (simp add: issuer_books_def step_sums)
  qed
  moreover have "total_ok a'"
    by (rule total_one [OF eff(5) ok(4), of _ st'])
      (use deposited_keeps [OF eff(6)] ok(4) in \<open>simp_all add: a' total_ok_def\<close>)
  moreover have "shape_ok a'" using ok(1) by (auto simp: a' shape_ok_def)
  moreover have "records_ok a'"
    using ok(2) eff(3,4) get_some_key [OF eff(5)] deposited_keeps [OF eff(6)]
    by (simp add: a' records_ok_def deposit_ok_def bm_all_insert)
  moreover have "revision_ok a'"
    using ok(5) eff(1,2) by (simp add: a' revision_ok_def operation_count_def revision_step length_fresh)
  ultimately show ?thesis by (simp add: core_ok_def)
qed

lemma allocated_caps: "allocated v n st st' \<Longrightarrow> issuer_caps i st \<Longrightarrow> issuer_caps i st'"
  by (cases rule: allocated_cases, assumption; simp add: caps_books ledger_simps)

lemma allocated_amounts:
  assumes "allocated v n st st'"
  shows "unat (cl_claimable_sat (is_closed_loop st')) =
      unat (cl_claimable_sat (is_closed_loop st)) + (if v = ClosedLoopDeposit then unat n else 0)"
    "unat (wr_redeemable_sat (is_withdrawable st')) =
      unat (wr_redeemable_sat (is_withdrawable st)) + (if v = ReserveBackedWithdrawable then unat n else 0)"
    "cl_total_deposited_sat (is_closed_loop st') = cl_total_deposited_sat (is_closed_loop st)"
    "cl_consumed_sat (is_closed_loop st') = cl_consumed_sat (is_closed_loop st)"
    "wr_total_deposited_sat (is_withdrawable st') = wr_total_deposited_sat (is_withdrawable st)"
    "wr_pending_external_sat (is_withdrawable st') = wr_pending_external_sat (is_withdrawable st)"
    "wr_settled_external_sat (is_withdrawable st') = wr_settled_external_sat (is_withdrawable st)"
  using assms by (cases rule: allocated_cases; simp add: ledger_simps)+

lemma validate_receipt_Inr:
  "validate_receipt a c auth now = Inr () \<Longrightarrow> bm_get (ca_issuers a) (sr_issuer c) = Some st \<Longrightarrow>
     receipt_ok (ca_counterparty a) (bm_keys (ca_issuers a)) (sr_receipt_id c) c"
  by (auto simp: validate_receipt_def validate_receipt_identity_def receipt_ok_def result_simps
      split: if_splits dest: get_some_key)

definition receipt_change ::
    "ServiceReceiptClaim \<Rightarrow> AcceptanceMode \<Rightarrow> CreditAccount \<Rightarrow> IssuerState \<Rightarrow> IssuerState \<Rightarrow> u64 \<Rightarrow> bool" where
  "receipt_change c m a st st' t \<longleftrightarrow>
     sr_value_class c = PeerCredit
       \<and> (\<exists>l. pc_credit (sr_amount_sat c) (m = OfflineDeferred) (is_peer_credit st) = (Inr (), l)
          \<and> pc_outstanding_sat l \<le> ip_max_peer_credit_sat (is_policy st)
          \<and> pc_offline_outstanding_sat l \<le> ip_max_offline_peer_credit_sat (is_policy st)
          \<and> st' = st\<lparr>is_peer_credit := l\<rparr>)
       \<and> unat t = unat (ca_total_peer_credit_sat a) + unat (sr_amount_sat c)
       \<and> t \<le> ca_max_total_peer_credit_sat a
     \<or> t = ca_total_peer_credit_sat a \<and> allocated (sr_value_class c) (sr_amount_sat c) st st'"

lemma receipt_change_cases [consumes 1, case_names peer backed]:
  assumes "receipt_change c m a st st' t"
  obtains l where "sr_value_class c = PeerCredit"
      "pc_credit (sr_amount_sat c) (m = OfflineDeferred) (is_peer_credit st) = (Inr (), l)"
      "pc_outstanding_sat l \<le> ip_max_peer_credit_sat (is_policy st)"
      "pc_offline_outstanding_sat l \<le> ip_max_offline_peer_credit_sat (is_policy st)"
      "st' = st\<lparr>is_peer_credit := l\<rparr>"
      "unat t = unat (ca_total_peer_credit_sat a) + unat (sr_amount_sat c)"
      "t \<le> ca_max_total_peer_credit_sat a"
  | "t = ca_total_peer_credit_sat a" "allocated (sr_value_class c) (sr_amount_sat c) st st'"
  using assms by (auto simp: receipt_change_def)

lemma receipt_change_peer:
  assumes "sr_value_class c = PeerCredit"
    "pc_credit (sr_amount_sat c) (m = OfflineDeferred) (is_peer_credit st) = (Inr (), l)"
    "pc_outstanding_sat l \<le> ip_max_peer_credit_sat (is_policy st)"
    "pc_offline_outstanding_sat l \<le> ip_max_offline_peer_credit_sat (is_policy st)"
    "unat t = unat (ca_total_peer_credit_sat a) + unat (sr_amount_sat c)"
    "t \<le> ca_max_total_peer_credit_sat a"
  shows "receipt_change c m a st (st\<lparr>is_peer_credit := l\<rparr>) t"
  using assms unfolding receipt_change_def by blast

lemma receipt_change_backed:
  "allocated (sr_value_class c) (sr_amount_sat c) st st' \<Longrightarrow>
     receipt_change c m a st st' (ca_total_peer_credit_sat a)"
  by (simp add: receipt_change_def)

lemma unchanged_fields:
  "a\<lparr>ca_issuers := x, ca_total_peer_credit_sat := ca_total_peer_credit_sat a,
     ca_peer_credit_events := ca_peer_credit_events a, ca_applied_receipts := y, ca_revision := z\<rparr>
   = a\<lparr>ca_issuers := x, ca_applied_receipts := y, ca_revision := z\<rparr>"
  by (cases a) simp

lemma apply_receipt_applied:
  assumes "apply_receipt c auth m now a = (Inr Applied, a')"
  obtains st st' t evs where "revision_fits a" "validate_receipt a c auth now = Inr ()"
    "bm_get (ca_applied_receipts a) (sr_receipt_id c) = None"
    "bm_get (ca_issuers a) (sr_issuer c) = Some st" "receipt_change c m a st st' t"
    "a' = a\<lparr>ca_issuers := bm_set (sr_issuer c) st' (ca_issuers a),
        ca_total_peer_credit_sat := t, ca_peer_credit_events := evs,
        ca_applied_receipts := bm_insert (sr_receipt_id c) c (ca_applied_receipts a),
        ca_revision := ca_revision a + 1\<rparr>"
  using apply_receipt_effect [OF assms]
proof (elim disjE conjE exE, goal_cases)
  case (2 st l t)
  show ?case
    by (rule that [OF 2(3,5,4,7) receipt_change_peer [OF 2(6,8-12)] 2(13)])
next
  case (3 st st')
  show ?case
    by (rule that [OF 3(3,5,4,8) receipt_change_backed [OF 3(9)] trans [OF 3(10) unchanged_fields [symmetric]]])
qed simp

lemma receipt_core:
  assumes "core_ok a" "apply_receipt c auth m now a = (Inr Applied, a')"
  shows "core_ok a'"
  using assms(2)
proof (rule apply_receipt_applied)
  fix st st' t evs
  assume eff: "revision_fits a" "validate_receipt a c auth now = Inr ()"
      "bm_get (ca_applied_receipts a) (sr_receipt_id c) = None"
      "bm_get (ca_issuers a) (sr_issuer c) = Some st"
    and change: "receipt_change c m a st st' t"
    and a': "a' = a\<lparr>ca_issuers := bm_set (sr_issuer c) st' (ca_issuers a),
        ca_total_peer_credit_sat := t, ca_peer_credit_events := evs,
        ca_applied_receipts := bm_insert (sr_receipt_id c) c (ca_applied_receipts a),
        ca_revision := ca_revision a + 1\<rparr>"
  have wf: "bm_wf (ca_issuers a)" and ok: "shape_ok a" "records_ok a" "issuers_ok a" "total_ok a"
      "revision_ok a"
    using assms(1) by (auto simp: core_ok_def shape_ok_def)
  have "issuers_ok a'"
  proof (rule issuers_ok_one [OF wf ok(3) eff(4)])
    show "ca_issuers a' = bm_set (sr_issuer c) st' (ca_issuers a)" by (simp add: a')
    assume caps: "issuer_caps (sr_issuer c) st" and books: "issuer_books a (sr_issuer c) st"
    show "issuer_caps (sr_issuer c) st' \<and> issuer_books a' (sr_issuer c) st'"
      using change
    proof (cases rule: receipt_change_cases)
      case (peer l)
      with caps books eff(3) show ?thesis
        unfolding a' by (cases m; simp add: caps_books step_sums ledger_simps word_le_nat_alt)
    next
      case backed
      with caps books eff(3) show ?thesis
        unfolding a' issuer_books_def
        by (simp add: allocated_caps allocated_amounts allocated_keeps [OF backed(2)] step_sums)
    qed
  next
    fix j s
    assume "j \<noteq> sr_issuer c" "issuer_books a j s"
    then show "issuer_books a' j s"
      using eff(3) unfolding a' by (simp add: issuer_books_def step_sums)
  qed
  moreover have "total_ok a'"
    by (rule total_one [OF eff(4) ok(4), of _ st'])
      (use ok(4) in \<open>cases rule: receipt_change_cases [OF change];
        simp add: a' total_ok_def ledger_simps allocated_keeps\<close>)+
  moreover have "shape_ok a'" using ok(1) by (auto simp: a' shape_ok_def)
  moreover have "records_ok a'"
    using ok(2) validate_receipt_Inr [OF eff(2,4)] by (auto simp: a' records_ok_def intro!: bm_all_insert)
  moreover have "revision_ok a'"
    using ok(5) eff(1,3) by (simp add: a' revision_ok_def operation_count_def revision_step length_fresh)
  ultimately show ?thesis by (simp add: core_ok_def)
qed

lemma consume_core:
  assumes "core_ok a" "consume_closed_loop c auth a = (Inr Applied, a')"
  shows "core_ok a'"
proof -
  obtain st l where eff: "revision_fits a"
      "bm_get (ca_closed_loop_consumptions a) (cc_consumption_id c) = None"
      "validate_closed_loop_consumption a c auth = Inr ()"
      "bm_get (ca_issuers a) (cc_issuer c) = Some st"
      "cl_consume (cc_amount_sat c) (is_closed_loop st) = (Inr (), l)"
    and a': "a' = a\<lparr>ca_issuers := bm_set (cc_issuer c) (st\<lparr>is_closed_loop := l\<rparr>) (ca_issuers a),
        ca_closed_loop_consumptions :=
          bm_insert (cc_consumption_id c) c (ca_closed_loop_consumptions a),
        ca_revision := ca_revision a + 1\<rparr>"
    using consume_closed_loop_effect [OF assms(2)] by auto
  have wf: "bm_wf (ca_issuers a)" and ok: "shape_ok a" "records_ok a" "issuers_ok a" "total_ok a"
      "revision_ok a"
    using assms(1) by (auto simp: core_ok_def shape_ok_def)
  have "issuers_ok a'"
  proof (rule issuers_ok_one [OF wf ok(3) eff(4)])
    show "ca_issuers a' = bm_set (cc_issuer c) (st\<lparr>is_closed_loop := l\<rparr>) (ca_issuers a)"
      by (simp add: a')
    assume "issuer_caps (cc_issuer c) st" "issuer_books a (cc_issuer c) st"
    then show "issuer_caps (cc_issuer c) (st\<lparr>is_closed_loop := l\<rparr>)
        \<and> issuer_books a' (cc_issuer c) (st\<lparr>is_closed_loop := l\<rparr>)"
      using eff(2,5) unfolding a' by (auto simp: caps_books step_sums ledger_simps)
  next
    fix j s
    assume "j \<noteq> cc_issuer c" "issuer_books a j s"
    then show "issuer_books a' j s"
      using eff(2) unfolding a' by (simp add: issuer_books_def step_sums)
  qed
  moreover have "total_ok a'"
    by (rule total_one [OF eff(4) ok(4), of _ "st\<lparr>is_closed_loop := l\<rparr>"]) (use ok(4) in \<open>auto simp: a' total_ok_def\<close>)
  moreover have "shape_ok a'" using ok(1) by (auto simp: a' shape_ok_def)
  moreover have "records_ok a'"
    using ok(2) eff(3) by (auto simp: a' records_ok_def consumption_ok_def
        validate_closed_loop_consumption_def result_simps
        intro!: bm_all_insert split: if_splits dest: get_some_key)
  moreover have "revision_ok a'"
    using ok(5) eff(1,2) by (simp add: a' revision_ok_def operation_count_def revision_step length_fresh)
  ultimately show ?thesis by (simp add: core_ok_def)
qed

lemma issuers_ok_two:
  assumes "bm_wf (ca_issuers a)" "issuers_ok a"
    and "bm_get (ca_issuers a) i = Some s" "bm_get (ca_issuers a) j = Some u"
    and "ca_issuers a' = bm_set j u' (bm_set i s' (ca_issuers a))"
    and "i \<noteq> j \<Longrightarrow> issuer_caps i s \<Longrightarrow> issuer_books a i s \<Longrightarrow> issuer_caps i s' \<and> issuer_books a' i s'"
    and "issuer_caps j u \<Longrightarrow> issuer_books a j u \<Longrightarrow> issuer_caps j u' \<and> issuer_books a' j u'"
    and "\<And>k w. k \<noteq> i \<Longrightarrow> k \<noteq> j \<Longrightarrow> issuer_books a k w \<Longrightarrow> issuer_books a' k w"
  shows "issuers_ok a'"
proof -
  have "issuer_caps i s" "issuer_books a i s" "issuer_caps j u" "issuer_books a j u"
    using assms(1-4) by (auto simp: issuers_ok_get)
  moreover obtain w where "bm_get (bm_set i s' (ca_issuers a)) j = Some w"
    using assms(4) by (cases "j = i") (auto simp: bm_get_bm_set)
  ultimately have "bm_get (ca_issuers a') = (bm_get (ca_issuers a))(i \<mapsto> s', j \<mapsto> u')"
    using assms(3,5) by (simp add: bm_get_bm_set_present)
  then show ?thesis
    using assms \<open>issuer_caps i s\<close> \<open>issuer_books a i s\<close> \<open>issuer_caps j u\<close> \<open>issuer_books a j u\<close>
    by (simp add: issuers_ok_get)
qed

lemma validate_novation_Inr:
  "validate_novation a n auth now = Inr () \<Longrightarrow>
     novation_ok (ca_counterparty a) (bm_keys (ca_issuers a)) (nv_novation_id n) n"
  by (auto simp: validate_novation_def validate_novation_identity_def novation_ok_def result_simps
      split: if_splits dest: get_some_key)

lemma novate_core:
  assumes "core_ok a" "novate_peer_credit n auth now a = (Inr x, a')" "a' \<noteq> a"
  shows "core_ok a'"
proof -
  obtain fs ts source target where eff: "revision_fits a"
      "bm_get (ca_novations a) (nv_novation_id n) = None" "validate_novation a n auth now = Inr ()"
      "bm_get (ca_issuers a) (nv_from_issuer n) = Some fs"
      "bm_get (ca_issuers a) (nv_to_issuer n) = Some ts"
      "pc_debit (nv_amount_sat n) (is_peer_credit fs) = (Inr (), source)"
      "pc_credit (nv_amount_sat n) False (is_peer_credit ts) = (Inr (), target)"
      "pc_outstanding_sat target \<le> ip_max_peer_credit_sat (is_policy ts)"
    and a': "a' = a\<lparr>ca_issuers := bm_set (nv_to_issuer n) (ts\<lparr>is_peer_credit := target\<rparr>)
          (bm_set (nv_from_issuer n) (fs\<lparr>is_peer_credit := source\<rparr>) (ca_issuers a)),
        ca_peer_credit_events := ca_peer_credit_events a
          @ [NovationEvent (ca_revision a + 1) (nv_novation_id n)],
        ca_novations := bm_insert (nv_novation_id n) n (ca_novations a),
        ca_revision := ca_revision a + 1\<rparr>"
    using novate_peer_credit_effect [OF assms(2)] assms(3) by blast
  have rec: "novation_ok (ca_counterparty a) (bm_keys (ca_issuers a)) (nv_novation_id n) n"
    using eff(3) by (rule validate_novation_Inr)
  then have ne: "nv_from_issuer n \<noteq> nv_to_issuer n" by (simp add: novation_ok_def)
  have wf: "bm_wf (ca_issuers a)" and ok: "shape_ok a" "records_ok a" "issuers_ok a" "total_ok a"
      "revision_ok a"
    using assms(1) by (auto simp: core_ok_def shape_ok_def)
  have "issuers_ok a'"
  proof (rule issuers_ok_two [OF wf ok(3) eff(4,5)])
    show "ca_issuers a' = bm_set (nv_to_issuer n) (ts\<lparr>is_peer_credit := target\<rparr>)
          (bm_set (nv_from_issuer n) (fs\<lparr>is_peer_credit := source\<rparr>) (ca_issuers a))"
      by (simp add: a')
  next
    assume "issuer_caps (nv_from_issuer n) fs" "issuer_books a (nv_from_issuer n) fs"
    then show "issuer_caps (nv_from_issuer n) (fs\<lparr>is_peer_credit := source\<rparr>)
        \<and> issuer_books a' (nv_from_issuer n) (fs\<lparr>is_peer_credit := source\<rparr>)"
      using eff(2,6) ne unfolding a' by (simp add: caps_books step_sums ledger_simps min.coboundedI1)
  next
    assume "issuer_caps (nv_to_issuer n) ts" "issuer_books a (nv_to_issuer n) ts"
    then show "issuer_caps (nv_to_issuer n) (ts\<lparr>is_peer_credit := target\<rparr>)
        \<and> issuer_books a' (nv_to_issuer n) (ts\<lparr>is_peer_credit := target\<rparr>)"
      using eff(2,7,8) ne unfolding a'
      by (simp add: caps_books step_sums ledger_simps word_le_nat_alt)
  next
    fix k s
    assume "k \<noteq> nv_from_issuer n" "k \<noteq> nv_to_issuer n" "issuer_books a k s"
    then show "issuer_books a' k s"
      using eff(2) unfolding a' by (simp add: issuer_books_def step_sums)
  qed
  moreover have "total_ok a'"
  proof -
    let ?m = "bm_set (nv_from_issuer n) (fs\<lparr>is_peer_credit := source\<rparr>) (ca_issuers a)"
    have "bm_get ?m (nv_to_issuer n) = Some ts" using ne eff(5) by (simp add: bm_get_bm_set)
    then show ?thesis
      using ok(4) eff(6,7) value_sum_set [OF eff(4), of outstanding "fs\<lparr>is_peer_credit := source\<rparr>"]
        value_sum_set [of ?m "nv_to_issuer n" ts outstanding "ts\<lparr>is_peer_credit := target\<rparr>"]
      by (simp add: a' total_ok_def ledger_simps)
  qed
  moreover have "shape_ok a'" using ok(1) by (simp add: a' shape_ok_def)
  moreover have "records_ok a'" using ok(2) rec by (simp add: a' records_ok_def bm_all_insert)
  moreover have "revision_ok a'"
    using ok(5) eff(1,2) by (simp add: a' revision_ok_def operation_count_def revision_step length_fresh)
  ultimately show ?thesis by (simp add: core_ok_def)
qed

lemma validate_backed_settlement_Inr:
  "validate_backed_settlement a s auth now = Inr () \<Longrightarrow>
     backed_ok (ca_counterparty a) (bm_keys (ca_issuers a)) (bs_settlement_id s) s"
  by (auto simp: validate_backed_settlement_def validate_backed_settlement_identity_def backed_ok_def
      result_simps split: if_splits dest: get_some_key)

lemma settle_core:
  assumes "core_ok a" "settle_peer_credit_with_backing s auth now a = (Inr Applied, a')"
  shows "core_ok a'"
proof -
  obtain fs st st' mid source t where eff: "revision_fits a"
      "bm_get (ca_backed_settlements a) (bs_settlement_id s) = None"
      "validate_backed_settlement a s auth now = Inr ()"
      "bm_get (ca_issuers a) (bs_backing_issuer s) = Some st"
      "bm_get (ca_issuers a) (bs_from_issuer s) = Some fs"
      "pc_debit (bs_amount_sat s) (is_peer_credit fs) = (Inr (), source)"
      "unat (ca_total_peer_credit_sat a) = unat t + unat (bs_amount_sat s)"
      "allocated (bs_value_class s) (bs_amount_sat s) st st'"
      "bm_get (bm_set (bs_backing_issuer s) st' (ca_issuers a)) (bs_from_issuer s) = Some mid"
    and a': "a' = a\<lparr>ca_issuers := bm_set (bs_from_issuer s) (mid\<lparr>is_peer_credit := source\<rparr>)
          (bm_set (bs_backing_issuer s) st' (ca_issuers a)),
        ca_total_peer_credit_sat := t,
        ca_peer_credit_events := ca_peer_credit_events a
          @ [BackedSettlementEvent (ca_revision a + 1) (bs_settlement_id s)],
        ca_backed_settlements := bm_insert (bs_settlement_id s) s (ca_backed_settlements a),
        ca_revision := ca_revision a + 1\<rparr>"
    using settle_peer_credit_with_backing_effect [OF assms(2)] by blast
  have mid: "mid = (if bs_from_issuer s = bs_backing_issuer s then st' else fs)"
    using eff(4,5,9) by (auto simp: bm_get_bm_set split: if_splits)
  have keeps: "is_policy st' = is_policy st" "is_peer_credit st' = is_peer_credit st"
    "bs_value_class s \<noteq> PeerCredit"
    using allocated_keeps [OF eff(8)] by auto
  have same: "st = fs" if "bs_from_issuer s = bs_backing_issuer s" using eff(4,5) that by simp
  have wf: "bm_wf (ca_issuers a)" and ok: "shape_ok a" "records_ok a" "issuers_ok a" "total_ok a"
      "revision_ok a"
    using assms(1) by (auto simp: core_ok_def shape_ok_def)
  have "issuers_ok a'"
  proof (rule issuers_ok_two [OF wf ok(3) eff(4,5)])
    show "ca_issuers a' = bm_set (bs_from_issuer s) (mid\<lparr>is_peer_credit := source\<rparr>)
          (bm_set (bs_backing_issuer s) st' (ca_issuers a))"
      by (simp add: a')
  next
    assume "bs_backing_issuer s \<noteq> bs_from_issuer s"
      "issuer_caps (bs_backing_issuer s) st" "issuer_books a (bs_backing_issuer s) st"
    then show "issuer_caps (bs_backing_issuer s) st' \<and> issuer_books a' (bs_backing_issuer s) st'"
      using eff(2) keeps unfolding a' issuer_books_def
      by (simp add: allocated_caps [OF eff(8)] allocated_amounts [OF eff(8)] step_sums)
  next
    assume caps: "issuer_caps (bs_from_issuer s) fs" and books: "issuer_books a (bs_from_issuer s) fs"
    show "issuer_caps (bs_from_issuer s) (mid\<lparr>is_peer_credit := source\<rparr>)
        \<and> issuer_books a' (bs_from_issuer s) (mid\<lparr>is_peer_credit := source\<rparr>)"
    proof (cases "bs_from_issuer s = bs_backing_issuer s")
      case True
      then have "st = fs" by (rule same)
      then have "issuer_caps (bs_from_issuer s) st'" using allocated_caps [OF eff(8)] caps by simp
      then have "issuer_caps (bs_from_issuer s) (st'\<lparr>is_peer_credit := source\<rparr>)"
        using eff(6) keeps \<open>st = fs\<close> by (simp add: issuer_caps_def ledger_simps min.coboundedI1)
      moreover have "issuer_books a' (bs_from_issuer s) (st'\<lparr>is_peer_credit := source\<rparr>)"
        using books eff(2,6) True keeps \<open>st = fs\<close> unfolding a' issuer_books_def
        by (simp add: allocated_amounts [OF eff(8)] step_sums ledger_simps)
      ultimately show ?thesis using mid True by simp
    next
      case False
      with caps books eff(2,6) mid show ?thesis
        unfolding a' by (simp add: caps_books step_sums ledger_simps min.coboundedI1)
    qed
  next
    fix k w
    assume "k \<noteq> bs_backing_issuer s" "k \<noteq> bs_from_issuer s" "issuer_books a k w"
    then show "issuer_books a' k w"
      using eff(2) unfolding a' by (simp add: issuer_books_def step_sums)
  qed
  moreover have "total_ok a'"
  proof -
    let ?m = "bm_set (bs_backing_issuer s) st' (ca_issuers a)"
    have "outstanding mid = outstanding fs" using mid same keeps by auto
    moreover have "t \<le> ca_total_peer_credit_sat a" using eff(7) by (simp add: word_le_nat_alt)
    ultimately show ?thesis
      using ok(4) eff(6,7) keeps value_sum_set [OF eff(4), of outstanding st']
        value_sum_set [OF eff(9), of outstanding "mid\<lparr>is_peer_credit := source\<rparr>"]
      by (auto simp: a' total_ok_def ledger_simps)
  qed
  moreover have "shape_ok a'" using ok(1) by (simp add: a' shape_ok_def)
  moreover have "records_ok a'"
    using ok(2) validate_backed_settlement_Inr [OF eff(3)] by (simp add: a' records_ok_def bm_all_insert)
  moreover have "revision_ok a'"
    using ok(5) eff(1,2) by (simp add: a' revision_ok_def operation_count_def revision_step length_fresh)
  ultimately show ?thesis by (simp add: core_ok_def)
qed

lemma validate_settlement_Inr:
  "validate_settlement a q auth now = Inr () \<Longrightarrow>
     unat n = unat (xr_amount_sat q) + unat (xr_max_fee_sat q) \<Longrightarrow>
     settlement_ok (ca_counterparty a) (bm_keys (ca_issuers a)) (xr_settlement_id q)
       \<lparr>st_request = q, st_authorization = authorization_of q n now, st_state = Pending\<rparr>"
  by (auto simp: validate_settlement_def validate_settlement_identity_def settlement_ok_def
      authorization_of_def result_simps split: if_splits dest: get_some_key)

lemma authorize_core:
  assumes "core_ok a" "authorize_external_settlement q auth now a = (Inr z, a')" "a' \<noteq> a"
  shows "core_ok a'"
proof -
  obtain n st l where eff: "revision_fits a"
      "bm_get (ca_settlements a) (xr_settlement_id q) = None"
      "validate_settlement a q auth now = Inr ()"
      "unat n = unat (xr_amount_sat q) + unat (xr_max_fee_sat q)"
      "bm_get (ca_issuers a) (xr_issuer q) = Some st"
      "wr_authorize n (is_withdrawable st) = (Inr (), l)"
    and a': "a' = a\<lparr>ca_issuers := bm_set (xr_issuer q) (st\<lparr>is_withdrawable := l\<rparr>) (ca_issuers a),
        ca_settlements := bm_insert (xr_settlement_id q)
          \<lparr>st_request = q, st_authorization = authorization_of q n now, st_state = Pending\<rparr>
          (ca_settlements a),
        ca_revision := ca_revision a + 1\<rparr>"
    using authorize_external_settlement_effect [OF assms(2)] assms(3) by blast
  have wf: "bm_wf (ca_issuers a)" and ok: "shape_ok a" "records_ok a" "issuers_ok a" "total_ok a"
      "revision_ok a"
    using assms(1) by (auto simp: core_ok_def shape_ok_def)
  have "issuers_ok a'"
  proof (rule issuers_ok_one [OF wf ok(3) eff(5)])
    show "ca_issuers a' = bm_set (xr_issuer q) (st\<lparr>is_withdrawable := l\<rparr>) (ca_issuers a)"
      by (simp add: a')
    assume "issuer_caps (xr_issuer q) st" "issuer_books a (xr_issuer q) st"
    then show "issuer_caps (xr_issuer q) (st\<lparr>is_withdrawable := l\<rparr>)
        \<and> issuer_books a' (xr_issuer q) (st\<lparr>is_withdrawable := l\<rparr>)"
      using eff(2,6) unfolding a'
      by (simp add: caps_books step_sums ledger_simps authorization_of_def)
  next
    fix j s
    assume "j \<noteq> xr_issuer q" "issuer_books a j s"
    then show "issuer_books a' j s"
      using eff(2) unfolding a' by (simp add: issuer_books_def step_sums)
  qed
  moreover have "total_ok a'"
    by (rule total_one [OF eff(5) ok(4), of _ "st\<lparr>is_withdrawable := l\<rparr>"])
      (use ok(4) in \<open>simp_all add: a' total_ok_def\<close>)
  moreover have "shape_ok a'" using ok(1) by (simp add: a' shape_ok_def)
  moreover have "records_ok a'"
    using ok(2) validate_settlement_Inr [OF eff(3,4)] by (simp add: a' records_ok_def bm_all_insert)
  moreover have "revision_ok a'"
    using ok(5) eff(1,2)
    by (simp add: a' revision_ok_def operation_count_def revision_step length_fresh value_sum_fresh)
  ultimately show ?thesis by (simp add: core_ok_def)
qed

text \<open>Closing a pending settlement, by completion or by cancellation, shares everything but
  the ledger arithmetic.\<close>

lemma close_settlement_core:
  assumes "core_ok a" "revision_fits a" "bm_get (ca_settlements a) i = Some r" "st_state r = Pending"
    and "bm_get (ca_issuers a) (xr_issuer (st_request r)) = Some st"
    and a': "a' = a\<lparr>ca_issuers := bm_set (xr_issuer (st_request r)) (st\<lparr>is_withdrawable := l\<rparr>) (ca_issuers a),
        ca_settlements := bm_set i (r\<lparr>st_state := state\<rparr>) (ca_settlements a),
        ca_revision := ca_revision a + 1\<rparr>"
    and closed: "state = Cancelled \<and>
          wr_cancel (xa_reserved_sat (st_authorization r)) (is_withdrawable st) = (Inr (), l)
        \<or> (\<exists>fee. state = Completed fee \<and> fee \<le> xr_max_fee_sat (st_request r) \<and>
          completed (xr_amount_sat (st_request r)) (xr_max_fee_sat (st_request r)) fee
            (is_withdrawable st) l)"
  shows "core_ok a'"
proof -
  let ?q = "st_request r" and ?r' = "r\<lparr>st_state := state\<rparr>"
  have wf: "bm_wf (ca_issuers a)" and ok: "shape_ok a" "records_ok a" "issuers_ok a" "total_ok a"
      "revision_ok a"
    using assms(1) by (auto simp: core_ok_def shape_ok_def)
  have rec: "settlement_ok (ca_counterparty a) (bm_keys (ca_issuers a)) i r"
    using ok(2) assms(3) by (auto simp: records_ok_def dest: bm_all_get)
  then have res: "unat (xa_reserved_sat (st_authorization r))
      = unat (xr_amount_sat ?q) + unat (xr_max_fee_sat ?q)"
    by (simp add: settlement_ok_def Let_def)
  note sum = value_sum_set [OF assms(3), of _ ?r']
  have "issuers_ok a'"
  proof (rule issuers_ok_one [OF wf ok(3) assms(5)])
    show "ca_issuers a' = bm_set (xr_issuer ?q) (st\<lparr>is_withdrawable := l\<rparr>) (ca_issuers a)"
      by (simp add: a')
    assume "issuer_caps (xr_issuer ?q) st" "issuer_books a (xr_issuer ?q) st"
    then show "issuer_caps (xr_issuer ?q) (st\<lparr>is_withdrawable := l\<rparr>)
        \<and> issuer_books a' (xr_issuer ?q) (st\<lparr>is_withdrawable := l\<rparr>)"
      using closed res assms(4) sum [of "pending_amount (xr_issuer ?q)"]
        sum [of "settled_amount (xr_issuer ?q)"]
      unfolding a' completed_def
      by (elim disjE exE conjE; simp add: caps_books books_defs ledger_simps pending_amount_def
          settled_amount_def word_le_nat_alt)
  next
    fix j s
    assume "j \<noteq> xr_issuer ?q" "issuer_books a j s"
    then show "issuer_books a' j s"
      using sum [of "pending_amount j"] sum [of "settled_amount j"] unfolding a'
      by (simp add: issuer_books_def books_defs pending_amount_def settled_amount_def)
  qed
  moreover have "total_ok a'"
    by (rule total_one [OF assms(5) ok(4), of _ "st\<lparr>is_withdrawable := l\<rparr>"])
      (use ok(4) in \<open>simp_all add: a' total_ok_def\<close>)
  moreover have "shape_ok a'" using ok(1) by (simp add: a' shape_ok_def)
  moreover have "records_ok a'"
  proof -
    have "settlement_ok (ca_counterparty a) (bm_keys (ca_issuers a)) i ?r'"
      using rec closed by (auto simp: settlement_ok_def Let_def)
    then show ?thesis
      using ok(1,2) assms(3) by (auto simp: a' records_ok_def shape_ok_def intro!: bm_all_set)
  qed
  moreover have "revision_ok a'"
    using ok(5) assms(2,4) closed sum [of "\<lambda>r. if st_state r = Pending then 0 else 1"]
    by (auto simp: a' revision_ok_def operation_count_def revision_step)
  ultimately show ?thesis by (simp add: core_ok_def)
qed

lemma complete_core:
  assumes "core_ok a" "complete_external_settlement i fee a = (Inr x, a')" "a' \<noteq> a"
  shows "core_ok a'"
proof -
  obtain r where r: "bm_get (ca_settlements a) i = Some r"
    using complete_external_settlement_effect [OF assms(2)] by blast
  with complete_external_settlement_effect [OF assms(2)] assms(3)
  obtain st l where "st_state r = Pending" "revision_fits a" "fee \<le> xr_max_fee_sat (st_request r)"
      "bm_get (ca_issuers a) (xr_issuer (st_request r)) = Some st"
      "completed (xr_amount_sat (st_request r)) (xr_max_fee_sat (st_request r)) fee (is_withdrawable st) l"
    and a': "a' = a\<lparr>ca_issuers := bm_set (xr_issuer (st_request r)) (st\<lparr>is_withdrawable := l\<rparr>) (ca_issuers a),
        ca_settlements := bm_set i (r\<lparr>st_state := Completed fee\<rparr>) (ca_settlements a),
        ca_revision := ca_revision a + 1\<rparr>"
    by (metis option.inject)
  then show ?thesis
    by (intro close_settlement_core [OF assms(1) _ r _ _ a']) blast+
qed

lemma cancel_core:
  assumes "core_ok a" "cancel_external_settlement i a = (Inr x, a')" "a' \<noteq> a"
  shows "core_ok a'"
proof -
  obtain r where r: "bm_get (ca_settlements a) i = Some r"
    using cancel_external_settlement_effect [OF assms(2)] by blast
  with cancel_external_settlement_effect [OF assms(2)] assms(3)
  obtain st l where "st_state r = Pending" "revision_fits a"
      "bm_get (ca_issuers a) (xr_issuer (st_request r)) = Some st"
      "wr_cancel (xa_reserved_sat (st_authorization r)) (is_withdrawable st) = (Inr (), l)"
    and a': "a' = a\<lparr>ca_issuers := bm_set (xr_issuer (st_request r)) (st\<lparr>is_withdrawable := l\<rparr>) (ca_issuers a),
        ca_settlements := bm_set i (r\<lparr>st_state := Cancelled\<rparr>) (ca_settlements a),
        ca_revision := ca_revision a + 1\<rparr>"
    by (metis option.inject)
  then show ?thesis
    by (intro close_settlement_core [OF assms(1) _ r _ _ a']) blast+
qed

end
