(* ===== verification/Credit_Account_Ok.thy ===== *)
theory Credit_Account_Ok
  imports Credit_Account_Keep Credit_Account_Events
begin

text \<open>
  The invariant \<open>account_ok\<close> holds for a new account and every operation keeps it, whatever it
  returns. Each proof combines the sums over the books with the replay of the events.
\<close>

lemma account_ok_core: "account_ok a \<longleftrightarrow> core_ok a \<and> events_ok a"
  by (auto simp: account_ok_def core_ok_def)

lemma core_wf: "core_ok a \<Longrightarrow> bm_wf (ca_issuers a)"
  by (simp add: core_ok_def shape_ok_def)

section \<open>A new account\<close>

lemma add_issuer_Inr:
  "add_issuer p m = Inr m' \<longleftrightarrow>
     \<not> is_blank (ip_issuer p) \<and> ip_max_offline_peer_credit_sat p \<le> ip_max_peer_credit_sat p
     \<and> bm_get m (ip_issuer p) = None \<and> m' = bm_insert (ip_issuer p) (issuer_state_new p) m"
  by (auto simp: add_issuer_def linorder_not_less split: option.splits if_splits)

definition fresh_issuer :: "string \<Rightarrow> IssuerState \<Rightarrow> bool" where
  "fresh_issuer i st \<longleftrightarrow> issuer_caps i st \<and> st = issuer_state_new (is_policy st)"

lemma fresh_issuer_new:
  "\<not> is_blank (ip_issuer p) \<Longrightarrow> ip_max_offline_peer_credit_sat p \<le> ip_max_peer_credit_sat p \<Longrightarrow>
     fresh_issuer (ip_issuer p) (issuer_state_new p)"
  by (simp add: fresh_issuer_def issuer_caps_def issuer_state_new_def pc_default_def cl_default_def
      wr_default_def cl.conserved_def wr.conserved_def)

lemma add_issuers_fresh:
  assumes "try_fold add_issuer ps [] = Inr m" "ps \<noteq> []"
  shows "bm_wf m \<and> bm_all fresh_issuer m \<and> m \<noteq> []"
proof -
  have "bm_wf m \<and> bm_all fresh_issuer m"
    by (rule try_fold_invariant [OF assms(1)])
      (auto simp: add_issuer_Inr intro!: bm_all_insert fresh_issuer_new)
  moreover obtain p qs where "ps = qs @ [p]" using assms(2) by (cases ps rule: rev_cases) auto
  then have "m \<noteq> []" using assms(1) by (auto simp: result_simps add_issuer_Inr)
  ultimately show ?thesis by simp
qed

lemma account_new_Inr:
  assumes "account_new p = Inr a"
  shows "account_ok a"
proof -
  obtain m where p: "\<not> is_blank (ap_counterparty p)" "ap_issuers p \<noteq> []"
      "try_fold add_issuer (ap_issuers p) [] = Inr m"
    and a: "a = \<lparr>ca_revision = 0, ca_counterparty = ap_counterparty p,
        ca_max_total_peer_credit_sat = ap_max_total_peer_credit_sat p, ca_total_peer_credit_sat = 0,
        ca_issuers = m, ca_applied_receipts = [], ca_peer_credit_events = [], ca_novations = [],
        ca_backing_deposits = [], ca_backed_settlements = [], ca_closed_loop_consumptions = [],
        ca_settlements = []\<rparr>"
    using assms by (auto simp: account_new_def result_simps)
  have m: "bm_wf m" "bm_all fresh_issuer m" "m \<noteq> []" using add_issuers_fresh [OF p(3,2)] by auto
  have led: "is_peer_credit st = pc_default" if "(i, st) \<in> set m" for i st
  proof -
    have "st = issuer_state_new (is_policy st)"
      using m(2) that by (auto simp: bm_all_def list_all_iff fresh_issuer_def)
    then show ?thesis by (metis IssuerState.select_convs(2) issuer_state_new_def)
  qed
  have "issuers_ok a"
    unfolding issuers_ok_def
  proof (rule bm_all_mono [of fresh_issuer])
    fix i st
    assume fresh: "fresh_issuer i st"
    then have "st = issuer_state_new (is_policy st)" by (simp add: fresh_issuer_def)
    then obtain q where "st = issuer_state_new q" by blast
    then have "issuer_books a i st"
      by (simp add: a issuer_books_def books_defs issuer_state_new_def pc_default_def cl_default_def
          wr_default_def)
    with fresh show "issuer_caps i st \<and> issuer_books a i st" by (simp add: fresh_issuer_def)
  qed (use m in \<open>auto simp: a\<close>)
  moreover have "total_ok a"
  proof -
    have "value_sum outstanding m = value_sum (\<lambda>st. 0) m"
      by (rule value_sum_cong) (simp add: led pc_default_def)
    then show ?thesis by (simp add: total_ok_def a value_sum_def sum_list_triv)
  qed
  moreover have "events_ok a"
  proof -
    have "bm_collect (map (\<lambda>i. (i, pc_default)) (bm_keys m)) = map (\<lambda>i. (i, pc_default)) (bm_keys m)"
      by (rule bm_collect_sorted) (use m(1) in \<open>simp add: bm_wf_def comp_def\<close>)
    also have "\<dots> = peer_ledgers a"
      using led by (auto simp: a peer_ledgers_def)
    finally show ?thesis
      using m(1) snapshot_issuer_keys [of a]
      by (simp add: events_ok_def replay_init_def replay_done_def a bm_wf_def)
  qed
  ultimately show ?thesis
    using p(1) m by (simp add: account_ok_def a shape_ok_def records_ok_def revision_ok_def
        operation_count_def bm_wf_def)
qed

section \<open>Operations\<close>

lemma deposit_ok_step:
  assumes "account_ok a" "record_backing_deposit d auth a = (r, a')"
  shows "account_ok a'"
proof (cases r)
  case (Inr ap)
  from record_backing_deposit_effect [OF assms(2) [unfolded Inr]] show ?thesis
  proof (elim disjE conjE exE, goal_cases)
    case (2 st st')
    then have "core_ok a'" using assms deposit_core [of a d auth a'] Inr by (simp add: account_ok_core)
    moreover have "events_ok a'"
      by (rule events_other [where a = a and i = "bd_issuer d" and st = st and st' = st'])
        (use 2 assms(1) deposited_keeps in \<open>auto simp: account_ok_core core_wf\<close>)
    ultimately show ?thesis by (simp add: account_ok_core)
  qed (use assms in simp)
qed (use assms in \<open>auto dest: record_backing_deposit_error\<close>)

lemma receipt_ok_step:
  assumes "account_ok a" "apply_receipt c auth m now a = (r, a')"
  shows "account_ok a'"
proof (cases r)
  case (Inr ap)
  have wf: "bm_wf (ca_issuers a)" and ev: "events_ok a"
    using assms(1) by (auto simp: account_ok_core core_wf)
  from apply_receipt_effect [OF assms(2) [unfolded Inr]] show ?thesis
  proof (elim disjE conjE exE, goal_cases)
    case (2 st l t)
    then have "core_ok a'" using assms receipt_core [of a c auth m now a'] Inr by (simp add: account_ok_core)
    moreover have "events_ok a'" by (rule events_peer_receipt [OF ev wf 2(2,6,7,3,5,12)])
    ultimately show ?thesis by (simp add: account_ok_core)
  next
    case (3 st st')
    then have "core_ok a'" using assms receipt_core [of a c auth m now a'] Inr by (simp add: account_ok_core)
    moreover have keep: "is_peer_credit st' = is_peer_credit st" using 3(8) allocated_keeps by blast
    have "events_ok a'" by (rule events_backed_receipt [OF ev wf 3(2,7) keep 3(3,5,9)])
    ultimately show ?thesis by (simp add: account_ok_core)
  qed (use assms in simp)
qed (use assms in \<open>auto dest: apply_receipt_error\<close>)

lemma novate_ok_step:
  assumes "account_ok a" "novate_peer_credit n auth now a = (r, a')"
  shows "account_ok a'"
proof (cases "a' = a")
  case False
  then obtain x where Inr: "r = Inr x" using assms(2) novate_peer_credit_error by (cases r) auto
  have wf: "bm_wf (ca_issuers a)" and ev: "events_ok a"
    using assms(1) by (auto simp: account_ok_core core_wf)
  from novate_peer_credit_effect [OF assms(2) [unfolded Inr]] show ?thesis
  proof (elim disjE conjE exE, goal_cases)
    case (2 fs ts source target)
    have ne: "nv_from_issuer n \<noteq> nv_to_issuer n"
      using validate_novation_Inr [OF 2(3)] by (simp add: novation_ok_def)
    have "core_ok a'"
      using assms novate_core [of a n auth now x a'] Inr False by (simp add: account_ok_core)
    moreover have "events_ok a'" by (rule events_novation [OF ev wf 2(1) ne 2(4-7,2,9)])
    ultimately show ?thesis by (simp add: account_ok_core)
  qed (use False in simp)
qed (use assms in simp)

lemma settle_ok_step:
  assumes "account_ok a" "settle_peer_credit_with_backing s auth now a = (r, a')"
  shows "account_ok a'"
proof (cases r)
  case (Inr ap)
  have wf: "bm_wf (ca_issuers a)" and ev: "events_ok a"
    using assms(1) by (auto simp: account_ok_core core_wf)
  from settle_peer_credit_with_backing_effect [OF assms(2) [unfolded Inr]] show ?thesis
  proof (elim disjE conjE exE, goal_cases)
    case (2 fs st st' mid source t)
    then have "core_ok a'" using assms settle_core [of a s auth now a'] Inr by (simp add: account_ok_core)
    moreover have keep: "is_peer_credit st' = is_peer_credit st" using 2(9) allocated_keeps by blast
    have "events_ok a'" by (rule events_backed_settlement [OF ev wf 2(2,8,5,6) keep 2(3,11)])
    ultimately show ?thesis by (simp add: account_ok_core)
  qed (use assms in simp)
qed (use assms in \<open>auto dest: settle_peer_credit_with_backing_error\<close>)

lemma consume_ok_step:
  assumes "account_ok a" "consume_closed_loop c auth a = (r, a')"
  shows "account_ok a'"
proof (cases r)
  case (Inr ap)
  from consume_closed_loop_effect [OF assms(2) [unfolded Inr]] show ?thesis
  proof (elim disjE conjE exE, goal_cases)
    case (2 st l)
    then have "core_ok a'" using assms consume_core [of a c auth a'] Inr by (simp add: account_ok_core)
    moreover have "events_ok a'"
      by (rule events_other [where a = a and i = "cc_issuer c" and st = st
            and st' = "st\<lparr>is_closed_loop := l\<rparr>"])
        (use 2 assms(1) in \<open>simp_all add: account_ok_core core_wf\<close>)
    ultimately show ?thesis by (simp add: account_ok_core)
  qed (use assms in simp)
qed (use assms in \<open>auto dest: consume_closed_loop_error\<close>)

lemma authorize_ok_step:
  assumes "account_ok a" "authorize_external_settlement q auth now a = (r, a')"
  shows "account_ok a'"
proof (cases "a' = a")
  case False
  then obtain z where Inr: "r = Inr z"
    using assms(2) authorize_external_settlement_error by (cases r) auto
  from authorize_external_settlement_effect [OF assms(2) [unfolded Inr]] show ?thesis
  proof (elim disjE conjE exE, goal_cases)
    case (2 n st l)
    have "core_ok a'"
      using assms authorize_core [of a q auth now z a'] Inr False by (simp add: account_ok_core)
    moreover have "events_ok a'"
      by (rule events_other [where a = a and i = "xr_issuer q" and st = st
            and st' = "st\<lparr>is_withdrawable := l\<rparr>"])
        (use 2 assms(1) in \<open>simp_all add: account_ok_core core_wf\<close>)
    ultimately show ?thesis by (simp add: account_ok_core)
  qed (use False in simp)
qed (use assms in simp)

lemma complete_ok_step:
  assumes "account_ok a" "complete_external_settlement i fee a = (r, a')"
  shows "account_ok a'"
proof (cases "a' = a")
  case False
  then obtain x where Inr: "r = Inr x"
    using assms(2) complete_external_settlement_error by (cases r) auto
  from complete_external_settlement_effect [OF assms(2) [unfolded Inr]] show ?thesis
  proof (elim disjE conjE exE, goal_cases)
    case (2 s st l)
    have "core_ok a'"
      using assms complete_core [of a i fee x a'] Inr False by (simp add: account_ok_core)
    moreover have "events_ok a'"
      by (rule events_other [where a = a and i = "xr_issuer (st_request s)" and st = st
            and st' = "st\<lparr>is_withdrawable := l\<rparr>"])
        (use 2 assms(1) in \<open>simp_all add: account_ok_core core_wf\<close>)
    ultimately show ?thesis by (simp add: account_ok_core)
  qed (use False in simp)
qed (use assms in simp)

lemma cancel_ok_step:
  assumes "account_ok a" "cancel_external_settlement i a = (r, a')"
  shows "account_ok a'"
proof (cases "a' = a")
  case False
  then obtain x where Inr: "r = Inr x"
    using assms(2) cancel_external_settlement_error by (cases r) auto
  from cancel_external_settlement_effect [OF assms(2) [unfolded Inr]] show ?thesis
  proof (elim disjE conjE exE, goal_cases)
    case (2 s st l)
    have "core_ok a'"
      using assms cancel_core [of a i x a'] Inr False by (simp add: account_ok_core)
    moreover have "events_ok a'"
      by (rule events_other [where a = a and i = "xr_issuer (st_request s)" and st = st
            and st' = "st\<lparr>is_withdrawable := l\<rparr>"])
        (use 2 assms(1) in \<open>simp_all add: account_ok_core core_wf\<close>)
    ultimately show ?thesis by (simp add: account_ok_core)
  qed (use False in simp)
qed (use assms in simp)

lemmas account_ok_steps = deposit_ok_step receipt_ok_step novate_ok_step settle_ok_step
  consume_ok_step authorize_ok_step complete_ok_step cancel_ok_step

end
