(* ===== verification/Credit_Snapshot_Valid.thy ===== *)
theory Credit_Snapshot_Valid
  imports Credit_Snapshot_Sums Credit_Account_Ok
begin

text \<open>
  The executable validation of a snapshot against the invariant of the account: the snapshot of
  an account is accepted exactly when the account satisfies \<open>account_ok\<close> and the gross peer
  credit of each issuer, which the ledgers do not bound, fits in a \<open>u64\<close>. Restoring what was
  saved gives the account back, and whatever is restored satisfies the invariant.
\<close>

section \<open>The parts of the validation\<close>

definition maps_ok :: "CreditAccount \<Rightarrow> bool" where
  "maps_ok a \<longleftrightarrow>
     bm_wf (ca_issuers a) \<and> bm_wf (ca_applied_receipts a) \<and> bm_wf (ca_novations a)
     \<and> bm_wf (ca_backing_deposits a) \<and> bm_wf (ca_backed_settlements a)
     \<and> bm_wf (ca_closed_loop_consumptions a) \<and> bm_wf (ca_settlements a)
     \<and> bm_all (\<lambda>k d. k = deposit_key d) (ca_backing_deposits a)"

lemma capped_sum:
  "(\<exists>z :: u64. unat z = k \<and> \<not> t < z \<and> P) \<longleftrightarrow> k \<le> unat t \<and> P"
  using word_of_bounded [of k t] by (auto simp: linorder_not_less word_le_nat_alt)

lemma exact_sum: "(\<exists>z :: u64. unat z = k \<and> z = t \<and> P) \<longleftrightarrow> unat t = k \<and> P"
  by auto

lemma validate_issuer_iff: "validate_issuer i (issuer_to_snapshot st) = Inr () \<longleftrightarrow> issuer_caps i st"
proof -
  let ?p = "is_policy st" and ?l = "is_peer_credit st" and ?c = "is_closed_loop st"
    and ?w = "is_withdrawable st"
  have "validate_issuer i (issuer_to_snapshot st) = Inr () \<longleftrightarrow>
      \<not> (is_blank i \<or> ip_issuer ?p \<noteq> i
         \<or> ip_max_offline_peer_credit_sat ?p > ip_max_peer_credit_sat ?p
         \<or> pc_offline_outstanding_sat ?l > pc_outstanding_sat ?l
         \<or> pc_outstanding_sat ?l > ip_max_peer_credit_sat ?p
         \<or> pc_offline_outstanding_sat ?l > ip_max_offline_peer_credit_sat ?p
         \<or> cl_claimable_sat ?c > ip_max_closed_loop_sat ?p)
      \<and> unat (wr_redeemable_sat ?w) + unat (wr_pending_external_sat ?w) \<le> unat (ip_max_withdrawable_sat ?p)
      \<and> unat (cl_total_deposited_sat ?c) =
          unat (cl_available_backing_sat ?c) + unat (cl_claimable_sat ?c) + unat (cl_consumed_sat ?c)
      \<and> unat (wr_total_deposited_sat ?w) = unat (wr_available_sat ?w) + unat (wr_redeemable_sat ?w)
          + unat (wr_pending_external_sat ?w) + unat (wr_settled_external_sat ?w)"
    unfolding validate_issuer_def issuer_to_snapshot_def IssuerSnapshotV1.select_convs
      PeerCreditSnapshotV1.select_convs ClosedLoopSnapshotV1.select_convs
      WithdrawableSnapshotV1.select_convs Let_def invalid_def if_error_eq and_then_eq ok_or_eq
      Option.bind_assoc checked_sum4 checked_sum3 checked_add_eq_Some not_not capped_sum exact_sum
    by simp
  then show ?thesis
    unfolding issuer_caps_def cl.conserved_def wr.conserved_def word_less_nat_alt word_le_nat_alt
    by linarith
qed

definition zero_books :: "CreditAccount \<Rightarrow> expected_map" where
  "zero_books a = map (\<lambda>(i, st). (i, expected_default)) (ca_issuers a)"

lemma issuer_loop:
  assumes "bm_wf m" "\<forall>j \<in> fst ` set E. \<forall>i \<in> fst ` set m. j < i"
  shows "try_fold check_issuer_entry (map (\<lambda>(i, st). (i, issuer_to_snapshot st)) m) E = Inr F \<longleftrightarrow>
    bm_all issuer_caps m \<and> F = E @ map (\<lambda>(i, st). (i, expected_default)) m"
  using assms
proof (induction m arbitrary: E)
  case (Cons e m)
  obtain i st where e: "e = (i, st)" by (cases e)
  have "bm_insert i expected_default E = E @ [(i, expected_default)]"
    using Cons.prems by (intro bm_insert_last) (simp add: e)
  moreover have "\<forall>j \<in> fst ` set (E @ [(i, expected_default)]). \<forall>k \<in> fst ` set m. j < k"
    using Cons.prems by (auto simp: e bm_wf_def)
  moreover have "bm_wf m" using Cons.prems(1) by (simp add: bm_wf_def)
  ultimately show ?case
    using Cons.IH [of "E @ [(i, expected_default)]"]
    by (auto simp: e check_issuer_entry_def result_simps validate_issuer_iff)
qed auto

text \<open>The totals the loops compute, as the books of the account.\<close>

definition book_total :: "CreditAccount \<Rightarrow> string \<Rightarrow> book \<Rightarrow> nat" where
  "book_total a i f = (case f of
      PeerCredits \<Rightarrow> peer_credits a i
    | PeerDebits \<Rightarrow> peer_debits a i
    | ClosedDeposits \<Rightarrow> deposits ClosedLoopDeposit a i
    | WithdrawableDeposits \<Rightarrow> deposits ReserveBackedWithdrawable a i
    | ClosedAllocations \<Rightarrow> allocations ClosedLoopDeposit a i
    | WithdrawableAllocations \<Rightarrow> allocations ReserveBackedWithdrawable a i
    | ClosedConsumptions \<Rightarrow> consumptions a i
    | PendingExternal \<Rightarrow> pending_external a i
    | SettledExternal \<Rightarrow> settled_external a i)"

lemma receipt_delta_book:
  "receipt_delta r i f = (case f of PeerCredits \<Rightarrow> receipt_amount PeerCredit i r
     | ClosedAllocations \<Rightarrow> receipt_amount ClosedLoopDeposit i r
     | WithdrawableAllocations \<Rightarrow> receipt_amount ReserveBackedWithdrawable i r | _ \<Rightarrow> 0)"
  by (cases f; cases "sr_value_class r")
    (simp_all add: receipt_delta_def single_def receipt_book_def receipt_amount_def)

lemma novation_delta_book:
  "novation_delta n i f = (case f of PeerCredits \<Rightarrow> novation_in i n | PeerDebits \<Rightarrow> novation_out i n | _ \<Rightarrow> 0)"
  by (cases f) (simp_all add: novation_delta_def single_def novation_in_def novation_out_def)

lemma deposit_delta_book:
  "bd_value_class d \<noteq> PeerCredit \<Longrightarrow>
   deposit_delta d i f = (case f of ClosedDeposits \<Rightarrow> deposit_amount ClosedLoopDeposit i d
     | WithdrawableDeposits \<Rightarrow> deposit_amount ReserveBackedWithdrawable i d | _ \<Rightarrow> 0)"
  by (cases f; cases "bd_value_class d")
    (simp_all add: deposit_delta_def single_def deposit_book_def deposit_amount_def)

lemma backed_delta_book:
  "bs_value_class s \<noteq> PeerCredit \<Longrightarrow>
   backed_delta s i f = (case f of PeerDebits \<Rightarrow> backed_out i s
     | ClosedAllocations \<Rightarrow> backed_in ClosedLoopDeposit i s
     | WithdrawableAllocations \<Rightarrow> backed_in ReserveBackedWithdrawable i s | _ \<Rightarrow> 0)"
  by (cases f; cases "bs_value_class s")
    (simp_all add: backed_delta_def single_def receipt_book_def backed_in_def backed_out_def)

lemma consumption_delta_book:
  "consumption_delta c i f = (case f of ClosedConsumptions \<Rightarrow> consumed_amount i c | _ \<Rightarrow> 0)"
  by (cases f) (simp_all add: consumption_delta_def single_def consumed_amount_def)

lemma settlement_delta_book:
  "settlement_delta r i f = (case f of PendingExternal \<Rightarrow> pending_amount i r
     | SettledExternal \<Rightarrow> settled_amount i r | _ \<Rightarrow> 0)"
  by (cases f; cases "st_state r")
    (simp_all add: settlement_delta_def single_def pending_amount_def settled_amount_def)

lemma value_sum_zero [simp]: "value_sum (\<lambda>v. 0) m = 0"
  by (induction m) auto

lemma book_total_deltas:
  assumes "records_ok a"
  shows "book_total a i f =
    value_sum (\<lambda>r. receipt_delta r i f) (ca_applied_receipts a)
    + value_sum (\<lambda>n. novation_delta n i f) (ca_novations a)
    + value_sum (\<lambda>d. deposit_delta d i f) (ca_backing_deposits a)
    + value_sum (\<lambda>s. backed_delta s i f) (ca_backed_settlements a)
    + value_sum (\<lambda>c. consumption_delta c i f) (ca_closed_loop_consumptions a)
    + value_sum (\<lambda>r. settlement_delta r i f) (ca_settlements a)"
proof -
  have "value_sum (\<lambda>d. deposit_delta d i f) (ca_backing_deposits a) =
      value_sum (\<lambda>d. case f of ClosedDeposits \<Rightarrow> deposit_amount ClosedLoopDeposit i d
        | WithdrawableDeposits \<Rightarrow> deposit_amount ReserveBackedWithdrawable i d | _ \<Rightarrow> 0)
        (ca_backing_deposits a)"
    using assms by (intro value_sum_cong deposit_delta_book)
      (auto simp: records_ok_def bm_all_def list_all_iff deposit_ok_def)
  moreover have "value_sum (\<lambda>s. backed_delta s i f) (ca_backed_settlements a) =
      value_sum (\<lambda>s. case f of PeerDebits \<Rightarrow> backed_out i s
        | ClosedAllocations \<Rightarrow> backed_in ClosedLoopDeposit i s
        | WithdrawableAllocations \<Rightarrow> backed_in ReserveBackedWithdrawable i s | _ \<Rightarrow> 0)
        (ca_backed_settlements a)"
    using assms by (intro value_sum_cong backed_delta_book)
      (auto simp: records_ok_def bm_all_def list_all_iff backed_ok_def)
  ultimately show ?thesis
    by (cases f) (simp_all add: book_total_def books_defs receipt_delta_book novation_delta_book
        consumption_delta_book settlement_delta_book)
qed

section \<open>Totals\<close>

lemma collapse_sum:
  "(\<exists>k :: u64. unat k = m \<and> (\<exists>l :: u64. unat l = unat k + n \<and> P l)) \<longleftrightarrow>
     (\<exists>l :: u64. unat l = m + n \<and> P l)"
proof
  assume "\<exists>l :: u64. unat l = m + n \<and> P l"
  then obtain l :: u64 where l: "unat l = m + n" "P l" by blast
  obtain k :: u64 where "unat k = m" using l(1) word_of_bounded [of m l] by auto
  with l show "\<exists>k :: u64. unat k = m \<and> (\<exists>l :: u64. unat l = unat k + n \<and> P l)" by auto
qed auto

lemma mid_sum: "(\<exists>x :: u64. unat x = m \<and> unat (k :: u64) = unat x + n) \<longleftrightarrow> unat k = m + n"
  using collapse_sum [of m n "\<lambda>l. l = k"] by auto

definition books_match :: "CreditAccount \<Rightarrow> string \<Rightarrow> IssuerState \<Rightarrow> ExpectedIssuerState \<Rightarrow> bool" where
  "books_match a i st t \<longleftrightarrow>
     unat (ex_closed_deposits_sat t) = unat (cl_total_deposited_sat (is_closed_loop st))
     \<and> unat (ex_withdrawable_deposits_sat t) = unat (wr_total_deposited_sat (is_withdrawable st))
     \<and> unat (ex_peer_credits_sat t) = outstanding st + unat (ex_peer_debits_sat t)
     \<and> unat (ex_closed_allocations_sat t) = cl_claimed (is_closed_loop st)
     \<and> unat (ex_closed_consumptions_sat t) = unat (cl_consumed_sat (is_closed_loop st))
     \<and> unat (ex_withdrawable_allocations_sat t) = wr_claimed (is_withdrawable st)
     \<and> unat (ex_pending_external_sat t) = unat (wr_pending_external_sat (is_withdrawable st))
     \<and> unat (ex_settled_external_sat t) = unat (wr_settled_external_sat (is_withdrawable st))"

lemma check_totals_step:
  assumes "bm_get E i = Some t"
  shows "check_totals E (i, issuer_to_snapshot st) n = Inr m \<longleftrightarrow>
    books_match a i st t \<and> unat m = unat n + outstanding st"
proof -
  let ?c = "is_closed_loop st" and ?w = "is_withdrawable st"
  have "check_totals E (i, issuer_to_snapshot st) n = Inr m \<longleftrightarrow>
      ex_closed_deposits_sat t = cl_total_deposited_sat ?c
      \<and> ex_withdrawable_deposits_sat t = wr_total_deposited_sat ?w
      \<and> unat (ex_peer_credits_sat t) = outstanding st + unat (ex_peer_debits_sat t)
      \<and> unat (ex_closed_allocations_sat t) = unat (cl_claimable_sat ?c) + unat (cl_consumed_sat ?c)
      \<and> ex_closed_consumptions_sat t = cl_consumed_sat ?c
      \<and> unat (ex_withdrawable_allocations_sat t) = unat (wr_redeemable_sat ?w)
          + unat (wr_pending_external_sat ?w) + unat (wr_settled_external_sat ?w)
      \<and> ex_pending_external_sat t = wr_pending_external_sat ?w
      \<and> ex_settled_external_sat t = wr_settled_external_sat ?w
      \<and> unat m = unat n + outstanding st"
    unfolding check_totals_def issuer_to_snapshot_def IssuerSnapshotV1.select_convs
      PeerCreditSnapshotV1.select_convs ClosedLoopSnapshotV1.select_convs
      WithdrawableSnapshotV1.select_convs Let_def prod.case invalid_def add_def if_error_eq and_then_eq
      ok_or_eq checked_sum3 checked_sub_eq_Some checked_add_eq_Some assms
    by auto
  then show ?thesis by (simp add: books_match_def word_unat_eq_iff)
qed

lemma totals_loop:
  assumes "\<And>i st. (i, st) \<in> set m \<Longrightarrow> \<exists>t. bm_get E i = Some t"
  shows "try_fold (check_totals E) (map (\<lambda>(i, st). (i, issuer_to_snapshot st)) m) n = Inr k \<longleftrightarrow>
    (\<forall>(i, st) \<in> set m. \<forall>t. bm_get E i = Some t \<longrightarrow> books_match a i st t)
    \<and> unat k = unat n + value_sum outstanding m"
  using assms
proof (induction m arbitrary: n)
  case Nil
  then show ?case by (auto simp: word_unat_eq_iff)
next
  case (Cons e m)
  obtain i st where e: "e = (i, st)" by (cases e)
  obtain t where t: "bm_get E i = Some t" using Cons.prems [of i st] e by auto
  have IH: "try_fold (check_totals E) (map (\<lambda>(i, st). (i, issuer_to_snapshot st)) m) l = Inr k \<longleftrightarrow>
    (\<forall>(i, st) \<in> set m. \<forall>t. bm_get E i = Some t \<longrightarrow> books_match a i st t)
    \<and> unat k = unat l + value_sum outstanding m" for l
    by (rule Cons.IH) (use Cons.prems in auto)
  have "try_fold (check_totals E) (map (\<lambda>(i, st). (i, issuer_to_snapshot st)) (e # m)) n = Inr k \<longleftrightarrow>
    books_match a i st t \<and> (\<forall>(i, st) \<in> set m. \<forall>t. bm_get E i = Some t \<longrightarrow> books_match a i st t)
    \<and> (\<exists>l :: u64. unat l = unat n + outstanding st \<and> unat k = unat l + value_sum outstanding m)"
    unfolding e list.map prod.case try_fold.simps and_then_eq check_totals_step [OF t, of _ _ _ a] IH
    by blast
  then show ?case unfolding mid_sum by (auto simp: e t add.assoc)
qed

section \<open>Revision\<close>

lemma count_Inr: "count n = Inr m \<longleftrightarrow> unat m = n"
proof -
  have "unat m < 2 ^ LENGTH(64)" by (rule unsigned_less)
  then show ?thesis by (auto simp: count_def invalid_def unat_of_nat)
qed

lemma checked_count_add_Inr: "checked_count_add m n = Inr k \<longleftrightarrow> unat k = unat m + n"
proof -
  have "\<exists>z :: u64. unat z = n" if "unat k = unat m + n"
    using that by (intro word_of_bounded [of _ k]) simp
  then show ?thesis
    by (auto simp: checked_count_add_def result_simps count_Inr u64_simps)
qed

lemma closed_loop_count:
  "try_fold count_closed_settlement (bm_values (map (\<lambda>(i, r). (i, settlement_to_snapshot r)) m)) n = Inr k
   \<longleftrightarrow> unat k = unat n + value_sum (\<lambda>r. if st_state r = Pending then 0 else 1) m"
proof (induction m arbitrary: n)
  case (Cons e m)
  obtain i r where e: "e = (i, r)" by (cases e)
  have step: "count_closed_settlement (settlement_to_snapshot r) n = Inr z \<longleftrightarrow>
      unat z = unat n + (if st_state r = Pending then 0 else 1)" for z
    by (auto simp: count_closed_settlement_def settlement_to_snapshot_def closed_state result_simps
        u64_simps word_unat_eq_iff)
  show ?case
    unfolding list.map e prod.case snd_conv try_fold.simps and_then_eq step Cons.IH mid_sum
    by (simp add: add.assoc)
qed (auto simp: word_unat_eq_iff)

lemma validate_revision_iff:
  assumes "maps_ok a"
  shows "validate_revision (snapshot a) = Inr () \<longleftrightarrow> revision_ok a"
proof -
  have fields: "sn_settlements (snapshot a) = map (\<lambda>(i, r). (i, settlement_to_snapshot r)) (ca_settlements a)"
    "sn_backing_deposits (snapshot a) = bm_values (ca_backing_deposits a)"
    "sn_closed_loop_consumptions (snapshot a) = ca_closed_loop_consumptions a"
    using assms by (simp_all add: snapshot_def maps_ok_def bm_collect_mapped)
  have "validate_revision (snapshot a) = Inr () \<longleftrightarrow>
      (\<exists>n :: u64. unat n = operation_count a \<and> n = ca_revision a)"
    unfolding validate_revision_def and_then_eq count_Inr checked_count_add_Inr fields
      closed_loop_count snapshot_maps length_map operation_count_def invalid_def if_error_eq not_not
    by (simp only: collapse_sum add.assoc) auto
  then show ?thesis by (auto simp: revision_ok_def)
qed

section \<open>Events\<close>

lemma snapshot_issuers:
  "maps_ok a \<Longrightarrow> sn_issuers (snapshot a) = map (\<lambda>(i, st). (i, issuer_to_snapshot st)) (ca_issuers a)"
  by (simp add: snapshot_def maps_ok_def bm_collect_mapped)

text \<open>What the replay loop keeps true.\<close>

definition replaying :: "CreditAccount \<Rightarrow> replay_state \<Rightarrow> bool" where
  "replaying a rp \<longleftrightarrow>
     bm_keys (rp_ledgers rp) = bm_keys (ca_issuers a)
     \<and> bm_wf (rp_seen_receipts rp) \<and> bm_wf (rp_seen_novations rp) \<and> bm_wf (rp_seen_settlements rp)
     \<and> set (bm_keys (rp_seen_receipts rp)) \<subseteq> fst ` {e \<in> set (ca_applied_receipts a). peer_receipt e}
     \<and> set (bm_keys (rp_seen_novations rp)) \<subseteq> set (bm_keys (ca_novations a))
     \<and> set (bm_keys (rp_seen_settlements rp)) \<subseteq> set (bm_keys (ca_backed_settlements a))
     \<and> rp_previous_revision rp \<le> ca_revision a"

lemma event_ledger_keys: "event_ledger i body w m = Inr m' \<Longrightarrow> bm_keys m' = bm_keys m"
  by (auto simp: event_ledger_def invalid_def split: option.splits prod.splits sum.splits)

lemma peer_receipt_key:
  "bm_get m k = Some r \<Longrightarrow> sr_value_class r = PeerCredit \<Longrightarrow> k \<in> fst ` {e \<in> set m. peer_receipt e}"
  by (force simp: peer_receipt_def dest: map_of_SomeD)

lemma replaying_step:
  assumes "replaying a rp" "replay_event (snapshot a) e rp = Inr rp'"
  shows "replaying a rp'"
proof (cases e)
  case (ReceiptEvent rv i m)
  then obtain r ls where "bm_get (ca_applied_receipts a) i = Some r" "sr_value_class r = PeerCredit"
      "bm_keys ls = bm_keys (rp_ledgers rp)" "rv \<le> ca_revision a"
    and rp': "rp' = rp\<lparr>rp_previous_revision := rv,
        rp_seen_receipts := bm_insert i () (rp_seen_receipts rp), rp_ledgers := ls\<rparr>"
    using assms(2) by (auto simp: replay_event_def Let_def invalid_def result_simps linorder_not_less
        dest: event_ledger_keys split: if_splits)
  then show ?thesis
    using assms(1) peer_receipt_key [of "ca_applied_receipts a" i r]
    unfolding replaying_def rp' by (simp add: fst_set_bm_insert)
next
  case (NovationEvent rv i)
  then obtain r ls where "bm_get (ca_novations a) i = Some r"
      "bm_keys ls = bm_keys (rp_ledgers rp)" "rv \<le> ca_revision a"
    and rp': "rp' = rp\<lparr>rp_previous_revision := rv,
        rp_seen_novations := bm_insert i () (rp_seen_novations rp), rp_ledgers := ls\<rparr>"
    using assms(2) by (auto simp: replay_event_def Let_def invalid_def result_simps linorder_not_less
        dest!: event_ledger_keys split: if_splits)
  then show ?thesis
    using assms(1) get_some_key [of "ca_novations a" i r]
    unfolding replaying_def rp' by (simp add: fst_set_bm_insert)
next
  case (BackedSettlementEvent rv i)
  then obtain r ls where "bm_get (ca_backed_settlements a) i = Some r"
      "bm_keys ls = bm_keys (rp_ledgers rp)" "rv \<le> ca_revision a"
    and rp': "rp' = rp\<lparr>rp_previous_revision := rv,
        rp_seen_settlements := bm_insert i () (rp_seen_settlements rp), rp_ledgers := ls\<rparr>"
    using assms(2) by (auto simp: replay_event_def Let_def invalid_def result_simps linorder_not_less
        dest!: event_ledger_keys split: if_splits)
  then show ?thesis
    using assms(1) get_some_key [of "ca_backed_settlements a" i r]
    unfolding replaying_def rp' by (simp add: fst_set_bm_insert)
qed

lemma length_card: "bm_wf m \<Longrightarrow> length m = card (set (bm_keys m))"
  using distinct_card [OF bm_wf_distinct, of m] by simp

lemma same_length_iff:
  assumes "bm_wf m" "finite A" "set (bm_keys m) \<subseteq> A"
  shows "length m = card A \<longleftrightarrow> set (bm_keys m) = A"
  using assms card_subset_eq [OF assms(2,3)] by (auto simp: length_card)

lemma peer_receipt_count:
  assumes "bm_wf m"
  shows "length (filter (\<lambda>r. sr_value_class r = PeerCredit) (bm_values m))
    = card (fst ` {e \<in> set m. peer_receipt e})"
proof -
  have "distinct (map fst (filter peer_receipt m))"
    using bm_wf_distinct [OF assms] by (simp add: distinct_map_filter)
  then have "length (filter peer_receipt m) = card (set (map fst (filter peer_receipt m)))"
    using distinct_card by fastforce
  then show ?thesis by (simp add: filter_map comp_def peer_receipt_def [abs_def])
qed

lemma ledgers_match:
  assumes "bm_wf (ca_issuers a)" "bm_keys ls = bm_keys (ca_issuers a)"
    and issuers: "sn_issuers s = map (\<lambda>(i, st). (i, issuer_to_snapshot st)) (ca_issuers a)"
  shows "\<not> list_ex (replayed_ledger_differs s) ls \<longleftrightarrow> ls = peer_ledgers a"
proof -
  have wf: "bm_wf ls" "bm_wf (peer_ledgers a)"
    using assms(1,2) bm_wf_mapped [OF assms(2)] by (simp_all add: peer_ledgers_def bm_wf_def comp_def)
  have same: "replayed_ledger_differs s (i, l) \<longleftrightarrow> bm_get (peer_ledgers a) i \<noteq> Some l"
    if "(i, l) \<in> set ls" for i l
  proof -
    have "i \<in> set (bm_keys (ca_issuers a))" unfolding assms(2) [symmetric] using that by force
    then obtain st where st: "bm_get (ca_issuers a) i = Some st" using key_get_some by metis
    have "replayed_ledger_differs s (i, l) \<longleftrightarrow>
        pc_outstanding_sat l \<noteq> pc_outstanding_sat (is_peer_credit st)
        \<or> pc_offline_outstanding_sat l \<noteq> pc_offline_outstanding_sat (is_peer_credit st)"
      by (simp add: replayed_ledger_differs_def issuers bm_get_mapped st issuer_to_snapshot_def)
    also have "\<dots> \<longleftrightarrow> is_peer_credit st \<noteq> l"
      by (cases l; cases "is_peer_credit st") auto
    finally show ?thesis using st by (simp add: peer_ledgers_get)
  qed
  have "\<not> list_ex (replayed_ledger_differs s) ls \<longleftrightarrow> (\<forall>(i, l) \<in> set ls. bm_get (peer_ledgers a) i = Some l)"
    unfolding list_ex_iff using same by fast
  also have "\<dots> \<longleftrightarrow> ls = peer_ledgers a"
  proof
    assume all: "\<forall>(i, l) \<in> set ls. bm_get (peer_ledgers a) i = Some l"
    have "bm_get ls i = bm_get (peer_ledgers a) i" for i
    proof (cases "bm_get ls i")
      case None
      then have "i \<notin> set (bm_keys ls)" using key_get_some by fastforce
      then have "i \<notin> set (bm_keys (peer_ledgers a))"
        by (simp add: assms(2) peer_ledgers_def image_image case_prod_beta)
      then have "bm_get (peer_ledgers a) i = None" using get_some_key by (metis not_None_eq)
      with None show ?thesis by simp
    next
      case (Some l)
      then show ?thesis using all map_of_SomeD [OF Some] by auto
    qed
    then show "ls = peer_ledgers a" using wf by (intro bm.get_ext) auto
  next
    assume "ls = peer_ledgers a"
    then show "\<forall>(i, l) \<in> set ls. bm_get (peer_ledgers a) i = Some l"
      using bm_wf_distinct [OF wf(2)] by auto
  qed
  finally show ?thesis .
qed

lemma replaying_done_iff:
  assumes "maps_ok a" "replaying a rp"
  shows "replay_done a rp \<longleftrightarrow>
    \<not> (length (rp_seen_receipts rp)
          \<noteq> length (filter (\<lambda>r. sr_value_class r = PeerCredit) (bm_values (ca_applied_receipts a)))
        \<or> length (rp_seen_novations rp) \<noteq> length (ca_novations a)
        \<or> length (rp_seen_settlements rp) \<noteq> length (ca_backed_settlements a))
    \<and> \<not> list_ex (replayed_ledger_differs (snapshot a)) (rp_ledgers rp)"
proof -
  have wf: "bm_wf (ca_issuers a)" "bm_wf (ca_applied_receipts a)" "bm_wf (ca_novations a)"
      "bm_wf (ca_backed_settlements a)"
    using assms(1) by (auto simp: maps_ok_def)
  have led: "\<not> list_ex (replayed_ledger_differs (snapshot a)) (rp_ledgers rp) \<longleftrightarrow>
      rp_ledgers rp = peer_ledgers a"
    using assms by (intro ledgers_match wf(1)) (simp_all add: replaying_def snapshot_issuers)
  have "length (rp_seen_receipts rp)
          = length (filter (\<lambda>r. sr_value_class r = PeerCredit) (bm_values (ca_applied_receipts a)))
      \<longleftrightarrow> set (bm_keys (rp_seen_receipts rp)) = fst ` {e \<in> set (ca_applied_receipts a). peer_receipt e}"
    unfolding peer_receipt_count [OF wf(2)]
    by (rule same_length_iff) (use assms(2) in \<open>simp_all add: replaying_def\<close>)
  moreover have "length (rp_seen_novations rp) = length (ca_novations a)
      \<longleftrightarrow> set (bm_keys (rp_seen_novations rp)) = set (bm_keys (ca_novations a))"
    unfolding length_card [OF wf(3)]
    by (rule same_length_iff) (use assms(2) in \<open>simp_all add: replaying_def\<close>)
  moreover have "length (rp_seen_settlements rp) = length (ca_backed_settlements a)
      \<longleftrightarrow> set (bm_keys (rp_seen_settlements rp)) = set (bm_keys (ca_backed_settlements a))"
    unfolding length_card [OF wf(4)]
    by (rule same_length_iff) (use assms(2) in \<open>simp_all add: replaying_def\<close>)
  ultimately show ?thesis
    unfolding replay_done_def led using assms(2) unfolding replaying_def by argo
qed

lemma validate_events_iff:
  assumes "maps_ok a"
  shows "validate_peer_credit_events (snapshot a) = Inr () \<longleftrightarrow> events_ok a"
proof -
  have "replaying a (replay_init (snapshot a))"
  proof -
    have wf: "bm_wf (ca_issuers a)" using assms by (simp add: maps_ok_def)
    have "bm_collect (map (\<lambda>i. (i, pc_default)) (bm_keys (ca_issuers a)))
        = map (\<lambda>i. (i, pc_default)) (bm_keys (ca_issuers a))"
      by (rule bm_collect_sorted) (use wf in \<open>simp add: bm_wf_def comp_def\<close>)
    then show ?thesis
      by (simp add: replaying_def replay_init_def snapshot_issuer_keys [OF wf] comp_def)
  qed
  then have run: "replaying a rp"
    if "try_fold (replay_event (snapshot a)) (ca_peer_credit_events a) (replay_init (snapshot a)) = Inr rp"
    for rp
    by (rule try_fold_invariant [OF that]) (rule replaying_step)
  show ?thesis
    unfolding validate_peer_credit_events_def events_ok_iff and_then_eq snapshot_maps invalid_def
      if_error_eq
    using replaying_done_iff [OF assms run] by blast
qed

section \<open>The loops over the records of an account\<close>

lemma list_all_entries: "list_all (\<lambda>(k, v). P k v) m = bm_all P m"
  by (simp add: bm_all_def)

lemma sum_entries: "(\<Sum>x\<leftarrow>m. (case x of (k, v) \<Rightarrow> d v) i f) = value_sum (\<lambda>v. d v i f) m"
  by (induction m) auto

lemma record_loops:
  assumes "maps_ok a" "bm_wf E" "bm_keys E = bm_keys (ca_issuers a)"
  shows "validate_receipts (snapshot a) E = Inr F \<longleftrightarrow>
      bm_all (receipt_ok (ca_counterparty a) (bm_keys (ca_issuers a))) (ca_applied_receipts a)
      \<and> adds (\<lambda>i f. value_sum (\<lambda>r. receipt_delta r i f) (ca_applied_receipts a)) E F"
    "validate_novations (snapshot a) E = Inr F \<longleftrightarrow>
      bm_all (novation_ok (ca_counterparty a) (bm_keys (ca_issuers a))) (ca_novations a)
      \<and> adds (\<lambda>i f. value_sum (\<lambda>n. novation_delta n i f) (ca_novations a)) E F"
    "validate_backed_settlements (snapshot a) E = Inr F \<longleftrightarrow>
      bm_all (backed_ok (ca_counterparty a) (bm_keys (ca_issuers a))) (ca_backed_settlements a)
      \<and> adds (\<lambda>i f. value_sum (\<lambda>s. backed_delta s i f) (ca_backed_settlements a)) E F"
    "validate_consumptions (snapshot a) E = Inr F \<longleftrightarrow>
      bm_all (consumption_ok (ca_counterparty a) (bm_keys (ca_issuers a))) (ca_closed_loop_consumptions a)
      \<and> adds (\<lambda>i f. value_sum (\<lambda>c. consumption_delta c i f) (ca_closed_loop_consumptions a)) E F"
    "validate_external_settlements (snapshot a) E = Inr F \<longleftrightarrow>
      bm_all (settlement_ok (ca_counterparty a) (bm_keys (ca_issuers a))) (ca_settlements a)
      \<and> adds (\<lambda>i f. value_sum (\<lambda>r. settlement_delta r i f) (ca_settlements a)) E F"
proof -
  have fields: "sn_settlements (snapshot a) = map (\<lambda>(i, r). (i, settlement_to_snapshot r)) (ca_settlements a)"
    "sn_closed_loop_consumptions (snapshot a) = ca_closed_loop_consumptions a"
    "sn_counterparty (snapshot a) = ca_counterparty a"
    using assms(1) by (simp_all add: snapshot_def maps_ok_def bm_collect_mapped)
  note loops = receipts.loop_iff novations.loop_iff backed.loop_iff consumptions.loop_iff
    externals.loop_iff
  have ext: "(\<lambda>x. check_external_settlement cp (case x of (i, r) \<Rightarrow> (i, settlement_to_snapshot r)))
      = (\<lambda>(k, r). check_external_settlement cp (k, settlement_to_snapshot r))" for cp
    by (simp add: fun_eq_iff)
  show "validate_receipts (snapshot a) E = Inr F \<longleftrightarrow>
      bm_all (receipt_ok (ca_counterparty a) (bm_keys (ca_issuers a))) (ca_applied_receipts a)
      \<and> adds (\<lambda>i f. value_sum (\<lambda>r. receipt_delta r i f) (ca_applied_receipts a)) E F"
    unfolding validate_receipts_def fields snapshot_maps
    by (simp only: loops [OF assms(2,3)] list_all_entries sum_entries)
  show "validate_novations (snapshot a) E = Inr F \<longleftrightarrow>
      bm_all (novation_ok (ca_counterparty a) (bm_keys (ca_issuers a))) (ca_novations a)
      \<and> adds (\<lambda>i f. value_sum (\<lambda>n. novation_delta n i f) (ca_novations a)) E F"
    unfolding validate_novations_def fields snapshot_maps
    by (simp only: loops [OF assms(2,3)] list_all_entries sum_entries)
  show "validate_backed_settlements (snapshot a) E = Inr F \<longleftrightarrow>
      bm_all (backed_ok (ca_counterparty a) (bm_keys (ca_issuers a))) (ca_backed_settlements a)
      \<and> adds (\<lambda>i f. value_sum (\<lambda>s. backed_delta s i f) (ca_backed_settlements a)) E F"
    unfolding validate_backed_settlements_def fields snapshot_maps
    by (simp only: loops [OF assms(2,3)] list_all_entries sum_entries)
  show "validate_consumptions (snapshot a) E = Inr F \<longleftrightarrow>
      bm_all (consumption_ok (ca_counterparty a) (bm_keys (ca_issuers a))) (ca_closed_loop_consumptions a)
      \<and> adds (\<lambda>i f. value_sum (\<lambda>c. consumption_delta c i f) (ca_closed_loop_consumptions a)) E F"
    unfolding validate_consumptions_def fields snapshot_maps
    by (simp only: loops [OF assms(2,3)] list_all_entries sum_entries)
  show "validate_external_settlements (snapshot a) E = Inr F \<longleftrightarrow>
      bm_all (settlement_ok (ca_counterparty a) (bm_keys (ca_issuers a))) (ca_settlements a)
      \<and> adds (\<lambda>i f. value_sum (\<lambda>r. settlement_delta r i f) (ca_settlements a)) E F"
    unfolding validate_external_settlements_def fields snapshot_maps try_fold_map ext
    by (simp only: loops [OF assms(2,3)] list_all_entries sum_entries)
qed

lemma deposit_values:
  assumes "maps_ok a" "bm_wf E" "bm_keys E = bm_keys (ca_issuers a)"
  shows "validate_deposits (snapshot a) E = Inr F \<longleftrightarrow>
      bm_all (deposit_ok (bm_keys (ca_issuers a))) (ca_backing_deposits a)
      \<and> adds (\<lambda>i f. value_sum (\<lambda>d. deposit_delta d i f) (ca_backing_deposits a)) E F"
proof -
  have keys: "map deposit_key (bm_values (ca_backing_deposits a)) = bm_keys (ca_backing_deposits a)"
    using assms(1) by (auto simp: maps_ok_def bm_all_def list_all_iff)
  have "list_all (\<lambda>d. deposit_ok (bm_keys E) (deposit_key d) d) (bm_values (ca_backing_deposits a))
      \<longleftrightarrow> bm_all (deposit_ok (bm_keys (ca_issuers a))) (ca_backing_deposits a)"
    using assms(1,3) by (fastforce simp: maps_ok_def bm_all_def list_all_iff)
  moreover have "(\<Sum>d\<leftarrow>bm_values (ca_backing_deposits a). deposit_delta d i f)
      = value_sum (\<lambda>d. deposit_delta d i f) (ca_backing_deposits a)" for i f
    by (simp add: value_sum_def)
  moreover have "sorted_wrt (<) (bm_keys (ca_backing_deposits a))"
    using assms(1) by (simp add: maps_ok_def bm_wf_def)
  moreover have "sn_backing_deposits (snapshot a) = bm_values (ca_backing_deposits a)"
    by (simp add: snapshot_def)
  ultimately show ?thesis
    unfolding validate_deposits_def and_then_eq
    by (auto simp: deposit_loop [OF assms(2)] keys [unfolded map_map])
qed

section \<open>The snapshot of an account is accepted exactly when the account is in order\<close>

lemma adds_exists:
  assumes "\<And>i s f. (i, s) \<in> set E \<Longrightarrow> unat (ex_get f s) + d i f < 2 ^ 64"
  shows "\<exists>F. adds d E F"
proof
  let ?g = "\<lambda>i s. ex_of (\<lambda>f. of_nat (unat (ex_get f s) + d i f))"
  have "plus_books (d i) s (?g i s)" if "(i, s) \<in> set E" for i s
    using assms [OF that] by (simp add: plus_books_def unat_of_nat del: of_nat_add)
  then show "adds d E (map (\<lambda>(i, s). (i, ?g i s)) E)"
    unfolding adds_def list.rel_map by (intro list.rel_refl_strong) auto
qed

lemma zero_books_keys: "bm_keys (zero_books a) = bm_keys (ca_issuers a)"
  by (simp add: zero_books_def)

lemma zero_books_zero: "(i, s) \<in> set (zero_books a) \<Longrightarrow> ex_get f s = 0"
  by (cases f) (auto simp: zero_books_def expected_default_def)

definition gross_credit_fits :: "CreditAccount \<Rightarrow> bool" where
  "gross_credit_fits a \<longleftrightarrow> list_all (\<lambda>i. peer_credits a i < 2 ^ 64) (bm_keys (ca_issuers a))"

lemma books_fit:
  assumes "account_ok a" "gross_credit_fits a" "i \<in> set (bm_keys (ca_issuers a))"
  shows "book_total a i f < 2 ^ 64"
proof -
  obtain st where st: "bm_get (ca_issuers a) i = Some st" using assms(3) key_get_some by metis
  have peer: "peer_credits a i < 2 ^ 64"
    using assms(2,3) by (auto simp: gross_credit_fits_def list_all_iff)
  note caps = account_ok_issuer(1) [OF assms(1) st] and books = account_ok_issuer(2) [OF assms(1) st]
  have "cl_claimed (is_closed_loop st) \<le> unat (cl_total_deposited_sat (is_closed_loop st))"
    "wr_claimed (is_withdrawable st) \<le> unat (wr_total_deposited_sat (is_withdrawable st))"
    using caps by (auto simp: issuer_caps_def cl.conserved_def wr.conserved_def)
  then have "cl_claimed (is_closed_loop st) < 2 ^ 64" "wr_claimed (is_withdrawable st) < 2 ^ 64"
    using u64_bound le_less_trans by blast+
  then show ?thesis
    using books peer u64_bound by (cases f) (simp_all add: book_total_def issuer_books_def)
qed

lemma issuer_entries:
  assumes "maps_ok a"
  shows "try_fold check_issuer_entry (sn_issuers (snapshot a)) [] = Inr E \<longleftrightarrow>
    bm_all issuer_caps (ca_issuers a) \<and> E = zero_books a"
  using assms issuer_loop [of "ca_issuers a" "[]" E]
  by (simp add: snapshot_issuers maps_ok_def zero_books_def)

lemma record_chain:
  assumes "maps_ok a"
  shows "(\<exists>E1. validate_receipts (snapshot a) (zero_books a) = Inr E1 \<and>
     (\<exists>E2. validate_novations (snapshot a) E1 = Inr E2 \<and>
     (\<exists>E3. validate_deposits (snapshot a) E2 = Inr E3 \<and>
     (\<exists>E4. validate_backed_settlements (snapshot a) E3 = Inr E4 \<and>
     (\<exists>E5. validate_consumptions (snapshot a) E4 = Inr E5 \<and>
      validate_external_settlements (snapshot a) E5 = Inr E)))))
    \<longleftrightarrow> records_ok a \<and> adds (book_total a) (zero_books a) E"
  (is "?chain \<longleftrightarrow> _")
proof -
  let ?ids = "bm_keys (ca_issuers a)"
  let ?d1 = "\<lambda>i f. value_sum (\<lambda>r. receipt_delta r i f) (ca_applied_receipts a)"
    and ?d2 = "\<lambda>i f. value_sum (\<lambda>n. novation_delta n i f) (ca_novations a)"
    and ?d3 = "\<lambda>i f. value_sum (\<lambda>d. deposit_delta d i f) (ca_backing_deposits a)"
    and ?d4 = "\<lambda>i f. value_sum (\<lambda>s. backed_delta s i f) (ca_backed_settlements a)"
    and ?d5 = "\<lambda>i f. value_sum (\<lambda>c. consumption_delta c i f) (ca_closed_loop_consumptions a)"
    and ?d6 = "\<lambda>i f. value_sum (\<lambda>r. settlement_delta r i f) (ca_settlements a)"
  define good where "good E \<longleftrightarrow> bm_wf E \<and> bm_keys E = ?ids" for E :: expected_map
  have good0: "good (zero_books a)"
    using assms zero_books_keys [of a] by (simp add: good_def maps_ok_def bm_wf_def)
  have good: "good F" if "good E" "adds d E F" for E F d
    using that adds_keys [OF that(2)] by (auto simp: good_def bm_wf_def)
  have loops: "validate_receipts (snapshot a) E = Inr F \<longleftrightarrow>
        bm_all (receipt_ok (ca_counterparty a) ?ids) (ca_applied_receipts a) \<and> adds ?d1 E F"
      "validate_novations (snapshot a) E = Inr F \<longleftrightarrow>
        bm_all (novation_ok (ca_counterparty a) ?ids) (ca_novations a) \<and> adds ?d2 E F"
      "validate_deposits (snapshot a) E = Inr F \<longleftrightarrow>
        bm_all (deposit_ok ?ids) (ca_backing_deposits a) \<and> adds ?d3 E F"
      "validate_backed_settlements (snapshot a) E = Inr F \<longleftrightarrow>
        bm_all (backed_ok (ca_counterparty a) ?ids) (ca_backed_settlements a) \<and> adds ?d4 E F"
      "validate_consumptions (snapshot a) E = Inr F \<longleftrightarrow>
        bm_all (consumption_ok (ca_counterparty a) ?ids) (ca_closed_loop_consumptions a) \<and> adds ?d5 E F"
      "validate_external_settlements (snapshot a) E = Inr F \<longleftrightarrow>
        bm_all (settlement_ok (ca_counterparty a) ?ids) (ca_settlements a) \<and> adds ?d6 E F"
    if "good E" for E F
    using that record_loops [OF assms, of E F] deposit_values [OF assms, of E F]
    unfolding good_def by blast+
  have step: "(\<exists>F. v E = Inr F \<and> Q F) \<longleftrightarrow> (p \<and> q) \<and> adds (\<lambda>i f. d i f + e i f) E G"
    if "good E" "\<And>E F. good E \<Longrightarrow> v E = Inr F \<longleftrightarrow> p \<and> adds d E F"
      "\<And>F. good F \<Longrightarrow> Q F \<longleftrightarrow> q \<and> adds e F G"
    for v :: "expected_map \<Rightarrow> CreditError + expected_map" and Q p q d e E G
    unfolding adds_compose using that good [OF that(1)] by blast
  note s5 = step [OF _ loops(5) loops(6)]
  note s4 = step [OF _ loops(4) s5]
  note s3 = step [OF _ loops(3) s4]
  note s2 = step [OF _ loops(2) s3]
  note s1 = step [OF good0 loops(1) s2]
  have "?chain \<longleftrightarrow> records_ok a \<and> adds (\<lambda>i f. ?d1 i f + (?d2 i f + (?d3 i f + (?d4 i f
      + (?d5 i f + ?d6 i f))))) (zero_books a) E"
    unfolding records_ok_def by (rule s1)
  also have "\<dots> \<longleftrightarrow> records_ok a \<and> adds (book_total a) (zero_books a) E"
  proof -
    have "adds (book_total a) (zero_books a) E
        = adds (\<lambda>i f. ?d1 i f + (?d2 i f + (?d3 i f + (?d4 i f + (?d5 i f + ?d6 i f))))) (zero_books a) E"
      if "records_ok a"
      by (rule adds_cong) (simp add: book_total_deltas [OF that])
    then show ?thesis by blast
  qed
  finally show ?thesis .
qed

lemma totals_iff:
  assumes "maps_ok a" "adds (book_total a) (zero_books a) E"
  shows "validate_totals (snapshot a) E = Inr () \<longleftrightarrow>
    bm_all (issuer_books a) (ca_issuers a) \<and> total_ok a"
proof -
  have wf: "bm_wf (ca_issuers a)" using assms(1) by (simp add: maps_ok_def)
  have get: "\<exists>t. bm_get E i = Some t \<and> (\<forall>f. unat (ex_get f t) = book_total a i f)"
    if "(i, st) \<in> set (ca_issuers a)" for i st
  proof -
    have "bm_get (ca_issuers a) i = Some st" using that bm_wf_distinct [OF wf] by simp
    then have "bm_get (zero_books a) i = Some expected_default"
      by (simp add: zero_books_def bm_get_mapped)
    moreover have "ex_get f expected_default = 0" for f by (cases f) (simp_all add: expected_default_def)
    ultimately show ?thesis using adds_get [OF assms(2)] by (fastforce simp: plus_books_def)
  qed
  have match: "(\<forall>t. bm_get E i = Some t \<longrightarrow> books_match a i st t) \<longleftrightarrow> issuer_books a i st"
    if "(i, st) \<in> set (ca_issuers a)" for i st
  proof -
    obtain t where t: "bm_get E i = Some t" "\<And>f. unat (ex_get f t) = book_total a i f"
      using get [of i st] \<open>(i, st) \<in> set (ca_issuers a)\<close> by blast
    show ?thesis
      using t(1) t(2) [of PeerCredits] t(2) [of PeerDebits] t(2) [of ClosedDeposits]
        t(2) [of WithdrawableDeposits] t(2) [of ClosedAllocations] t(2) [of WithdrawableAllocations]
        t(2) [of ClosedConsumptions] t(2) [of PendingExternal] t(2) [of SettledExternal]
      by (auto simp: books_match_def issuer_books_def book_total_def)
  qed
  have all: "(\<forall>(i, st) \<in> set (ca_issuers a). \<forall>t. bm_get E i = Some t \<longrightarrow> books_match a i st t)
      \<longleftrightarrow> bm_all (issuer_books a) (ca_issuers a)"
    unfolding bm_all_def list_all_iff using match by fast
  have loop: "try_fold (check_totals E) (sn_issuers (snapshot a)) 0 = Inr k \<longleftrightarrow>
      bm_all (issuer_books a) (ca_issuers a) \<and> unat k = value_sum outstanding (ca_issuers a)" for k
    unfolding snapshot_issuers [OF assms(1)] all [symmetric]
    by (subst totals_loop [where a = a]) (use get in blast, simp)
  have "validate_totals (snapshot a) E = Inr () \<longleftrightarrow> bm_all (issuer_books a) (ca_issuers a) \<and>
      (\<exists>k. unat k = value_sum outstanding (ca_issuers a) \<and> k = ca_total_peer_credit_sat a
        \<and> k \<le> ca_max_total_peer_credit_sat a)"
    unfolding validate_totals_def and_then_eq loop
    by (auto simp: invalid_def snapshot_def linorder_not_less)
  then show ?thesis by (auto simp: total_ok_def)
qed

lemma gross_credit_of_totals:
  assumes "adds (book_total a) (zero_books a) E"
  shows "gross_credit_fits a"
  unfolding gross_credit_fits_def list_all_iff
proof
  fix i
  assume "i \<in> set (bm_keys (ca_issuers a))"
  then obtain s where s: "bm_get (zero_books a) i = Some s"
    using key_get_some [of i "zero_books a"] by (auto simp: zero_books_keys)
  then obtain t where "plus_books (book_total a i) s t" using adds_get [OF assms] by blast
  then have "unat (ex_get PeerCredits t) = unat (ex_get PeerCredits s) + book_total a i PeerCredits"
    unfolding plus_books_def by blast
  then have "unat (ex_get PeerCredits t) = peer_credits a i"
    using zero_books_zero [OF map_of_SomeD [OF s], of PeerCredits] by (simp add: book_total_def)
  then show "peer_credits a i < 2 ^ 64" using u64_bound [of "ex_get PeerCredits t"] by simp
qed

lemma unit_result: "(\<exists>x :: unit. r = Inr x \<and> q) \<longleftrightarrow> r = Inr () \<and> q"
  by simp

lemma validate_iff:
  assumes "maps_ok a"
  shows "validate (snapshot a) = Inr () \<longleftrightarrow> account_ok a \<and> gross_credit_fits a"
proof -
  let ?s = "snapshot a"
  have fields: "sn_version ?s = SNAPSHOT_VERSION" "sn_counterparty ?s = ca_counterparty a"
    "sn_issuers ?s = [] \<longleftrightarrow> ca_issuers a = []"
    using snapshot_issuers [OF assms] by (simp_all add: snapshot_def)
  have "validate ?s = Inr () \<longleftrightarrow>
      \<not> (is_blank (ca_counterparty a) \<or> ca_issuers a = []) \<and> bm_all issuer_caps (ca_issuers a)
      \<and> events_ok a \<and> revision_ok a
      \<and> (\<exists>E. (records_ok a \<and> adds (book_total a) (zero_books a) E) \<and> validate_totals ?s E = Inr ())"
    unfolding validate_def fields record_chain [OF assms, symmetric] and_then_eq issuer_entries [OF assms]
      validate_revision_iff [OF assms] invalid_def if_error_eq unit_result
      validate_events_iff [OF assms]
    by auto
  also have "\<dots> \<longleftrightarrow> \<not> (is_blank (ca_counterparty a) \<or> ca_issuers a = []) \<and> events_ok a \<and> revision_ok a
      \<and> records_ok a \<and> total_ok a \<and> issuers_ok a \<and> (\<exists>E. adds (book_total a) (zero_books a) E)"
  proof -
    have "bm_all issuer_caps (ca_issuers a) \<and> bm_all (issuer_books a) (ca_issuers a) \<longleftrightarrow> issuers_ok a"
      by (auto simp: issuers_ok_def bm_all_def list_all_iff)
    then show ?thesis using totals_iff [OF assms] by blast
  qed
  also have "\<dots> \<longleftrightarrow> account_ok a \<and> (\<exists>E. adds (book_total a) (zero_books a) E)"
    using assms by (auto simp: account_ok_def shape_ok_def maps_ok_def)
  also have "\<dots> \<longleftrightarrow> account_ok a \<and> gross_credit_fits a"
  proof -
    have "\<exists>E. adds (book_total a) (zero_books a) E" if "account_ok a" "gross_credit_fits a"
    proof (rule adds_exists)
      fix i s f
      assume s: "(i, s) \<in> set (zero_books a)"
      then have "i \<in> set (bm_keys (zero_books a))" by force
      then show "unat (ex_get f s) + book_total a i f < 2 ^ 64"
        using books_fit [OF that] zero_books_zero [OF s] by (simp only: zero_books_keys) simp
    qed
    then show ?thesis using gross_credit_of_totals by blast
  qed
  finally show ?thesis .
qed

section \<open>Saving and restoring\<close>

text \<open>A snapshot value is built from \<open>BTreeMap\<close>s, also when it is read from JSON.\<close>

definition snapshot_wf :: "CreditAccountSnapshotV1 \<Rightarrow> bool" where
  "snapshot_wf s \<longleftrightarrow>
     bm_wf (sn_issuers s) \<and> bm_wf (sn_applied_receipts s) \<and> bm_wf (sn_novations s)
     \<and> bm_wf (sn_backed_settlements s) \<and> bm_wf (sn_closed_loop_consumptions s)
     \<and> bm_wf (sn_settlements s)"

lemma issuer_snapshot_inverse [simp]:
  "issuer_from_snapshot (issuer_to_snapshot st) = st"
  "issuer_to_snapshot (issuer_from_snapshot snap) = snap"
  by (simp_all add: issuer_from_snapshot_def issuer_to_snapshot_def)

lemma state_snapshot_inverse [simp]:
  "state_from_snapshot (state_to_snapshot st) = st" "state_to_snapshot (state_from_snapshot sn) = sn"
  by (cases st; simp) (cases sn; simp)

lemma settlement_snapshot_inverse [simp]:
  "settlement_from_snapshot (settlement_to_snapshot r) = r"
  "settlement_to_snapshot (settlement_from_snapshot rs) = rs"
  by (simp_all add: settlement_from_snapshot_def settlement_to_snapshot_def)

lemma mapped_inverse:
  "(\<And>v. g (f v) = v) \<Longrightarrow> map (\<lambda>(i, v). (i, g v)) (map (\<lambda>(i, v). (i, f v)) m) = m"
  by (induction m) auto

lemma check_deposit_key:
  "check_deposit d (prev, E) = Inr (p, F) \<Longrightarrow>
     p = Some (deposit_key d) \<and> (\<forall>q. prev = Some q \<longrightarrow> q < deposit_key d)"
  by (auto simp: check_deposit_def Let_def deposit_key_def invalid_def and_then_eq linorder_not_le
      split: if_splits)

lemma deposits_sorted:
  "try_fold check_deposit ds (prev, E) = Inr r \<Longrightarrow>
     sorted_wrt (<) (map deposit_key ds) \<and> (\<forall>p. prev = Some p \<longrightarrow> (\<forall>d \<in> set ds. p < deposit_key d))"
proof (induction ds arbitrary: prev E)
  case (Cons d ds)
  then obtain p F where step: "check_deposit d (prev, E) = Inr (p, F)"
      and "try_fold check_deposit ds (p, F) = Inr r"
    by (auto simp only: try_fold.simps and_then_eq split_paired_Ex)
  then have rest: "try_fold check_deposit ds (Some (deposit_key d), F) = Inr r"
    using check_deposit_key by blast
  have "\<forall>p. prev = Some p \<longrightarrow> p < deposit_key d" using check_deposit_key [OF step] by blast
  with Cons.IH [OF rest] show ?case by (auto intro: order.strict_trans)
qed simp

lemma validate_deposits_sorted:
  assumes "validate s = Inr ()"
  shows "sorted_wrt (<) (map deposit_key (sn_backing_deposits s))" "sn_version s = SNAPSHOT_VERSION"
proof -
  obtain E F where "validate_deposits s E = Inr F" and v: "sn_version s = SNAPSHOT_VERSION"
    using assms unfolding validate_def invalid_def and_then_eq if_error_eq by blast
  then show "sorted_wrt (<) (map deposit_key (sn_backing_deposits s))"
    by (auto simp: validate_deposits_def and_then_eq dest: deposits_sorted)
  show "sn_version s = SNAPSHOT_VERSION" by (rule v)
qed

lemma deposit_entries:
  assumes "sorted_wrt (<) (map deposit_key ds)"
  shows "bm_collect (map (\<lambda>d. ((bd_issuer d, bd_deposit_id d), d)) ds)
    = map (\<lambda>d. (deposit_key d, d)) ds"
proof -
  have "bm_wf (map (\<lambda>d. (deposit_key d, d)) ds)" using assms by (simp add: bm_wf_def comp_def)
  then show ?thesis by (simp add: bm_collect_sorted deposit_key_def [symmetric])
qed

lemma restored:
  assumes "snapshot_wf s" "from_snapshot s = Inr a"
  shows "maps_ok a" "snapshot a = s"
proof -
  have v: "validate s = Inr ()" using assms(2) by (simp add: from_snapshot_def and_then_eq)
  note srt = validate_deposits_sorted [OF v]
  have wf: "bm_wf (map (\<lambda>(i, v). (i, f v)) m)" if "bm_wf m"
    for f :: "'a \<Rightarrow> 'b" and m :: "(string, 'a) btree_map"
    using that by (simp add: bm_wf_def comp_def)
  have issuers: "ca_issuers a = map (\<lambda>(i, x). (i, issuer_from_snapshot x)) (sn_issuers s)"
      "ca_settlements a = map (\<lambda>(i, r). (i, settlement_from_snapshot r)) (sn_settlements s)"
      "ca_backing_deposits a = map (\<lambda>d. (deposit_key d, d)) (sn_backing_deposits s)"
    using assms srt(1)
    by (auto simp: from_snapshot_def and_then_eq snapshot_wf_def bm_collect_mapped deposit_entries)
  have rest: "ca_revision a = sn_revision s" "ca_counterparty a = sn_counterparty s"
      "ca_max_total_peer_credit_sat a = sn_max_total_peer_credit_sat s"
      "ca_total_peer_credit_sat a = sn_total_peer_credit_sat s"
      "ca_applied_receipts a = sn_applied_receipts s"
      "ca_peer_credit_events a = sn_peer_credit_events s" "ca_novations a = sn_novations s"
      "ca_backed_settlements a = sn_backed_settlements s"
      "ca_closed_loop_consumptions a = sn_closed_loop_consumptions s"
    using assms(2) by (auto simp: from_snapshot_def and_then_eq)
  have "bm_wf (ca_issuers a)" "bm_wf (ca_settlements a)" "bm_wf (ca_backing_deposits a)"
    using assms(1) srt(1) by (simp_all add: issuers snapshot_wf_def bm_wf_def comp_def)
  moreover have "bm_all (\<lambda>k d. k = deposit_key d) (ca_backing_deposits a)"
    by (auto simp: issuers bm_all_def list_all_iff)
  ultimately show maps: "maps_ok a" using assms(1) rest by (simp add: maps_ok_def snapshot_wf_def)
  have converted: "map (\<lambda>(i, st). (i, issuer_to_snapshot st)) (ca_issuers a) = sn_issuers s"
      "map (\<lambda>(i, r). (i, settlement_to_snapshot r)) (ca_settlements a) = sn_settlements s"
      "bm_values (ca_backing_deposits a) = sn_backing_deposits s"
    unfolding issuers by (rule mapped_inverse, simp)+ (simp add: comp_def)
  show "snapshot a = s"
    using srt(2) assms(1)
    by (simp add: snapshot_def rest converted snapshot_wf_def bm_collect_sorted)
qed

lemma account_ok_maps: "account_ok a \<Longrightarrow> maps_ok a"
  unfolding account_ok_def shape_ok_def records_ok_def maps_ok_def bm_all_def list_all_iff
  by (fastforce simp: deposit_ok_def deposit_key_def)

lemma from_snapshot_sound:
  assumes "snapshot_wf s" "from_snapshot s = Inr a"
  shows "account_ok a"
proof -
  have "validate (snapshot a) = Inr ()"
    using assms(2) restored(2) [OF assms] by (simp add: from_snapshot_def and_then_eq)
  then show ?thesis using validate_iff [OF restored(1) [OF assms]] by blast
qed

lemma from_snapshot_complete:
  assumes "account_ok a"
  shows "from_snapshot (snapshot a) = Inr a \<longleftrightarrow> gross_credit_fits a"
proof -
  have maps: "maps_ok a" using assms by (rule account_ok_maps)
  then have keys: "map deposit_key (bm_values (ca_backing_deposits a)) = bm_keys (ca_backing_deposits a)"
    by (auto simp: maps_ok_def bm_all_def list_all_iff)
  then have srt: "sorted_wrt (<) (map deposit_key (bm_values (ca_backing_deposits a)))"
    using maps by (simp only: keys) (simp add: maps_ok_def bm_wf_def)
  have dep: "map (\<lambda>d. (deposit_key d, d)) (bm_values (ca_backing_deposits a)) = ca_backing_deposits a"
    using maps by (auto simp: maps_ok_def bm_all_def list_all_iff intro!: map_idI)
  have "from_snapshot (snapshot a) = Inr a" if "validate (snapshot a) = Inr ()"
  proof -
    have "ca_backing_deposits a
        = bm_collect (map (\<lambda>d. ((bd_issuer d, bd_deposit_id d), d)) (bm_values (ca_backing_deposits a)))"
      by (simp only: deposit_entries [OF srt] dep)
    moreover have "bm_collect (map (\<lambda>(i, st). (i, issuer_from_snapshot st)) (sn_issuers (snapshot a)))
        = ca_issuers a"
      unfolding snapshot_issuers [OF maps]
      by (subst mapped_inverse) (use maps in \<open>simp_all add: maps_ok_def bm_collect_sorted\<close>)
    moreover have "bm_collect (map (\<lambda>(i, r). (i, settlement_from_snapshot r)) (sn_settlements (snapshot a)))
        = ca_settlements a"
    proof -
      have "sn_settlements (snapshot a) = map (\<lambda>(i, r). (i, settlement_to_snapshot r)) (ca_settlements a)"
        using maps by (simp add: snapshot_def maps_ok_def bm_collect_mapped)
      then show ?thesis
        by (simp only:) (subst mapped_inverse, use maps in \<open>simp_all add: maps_ok_def bm_collect_sorted\<close>)
    qed
    ultimately show ?thesis
      using that by (simp add: from_snapshot_def) (simp add: snapshot_def)
  qed
  moreover have "validate (snapshot a) = Inr ()" if "from_snapshot (snapshot a) = Inr a"
    using that by (simp add: from_snapshot_def and_then_eq)
  ultimately show ?thesis using validate_iff [OF maps] assms by blast
qed

end
