(* ===== verification/Credit_Account_Run.thy ===== *)
theory Credit_Account_Run
  imports Credit_Snapshot_Valid
begin

text \<open>
  The account as a transition system: it starts as a new or a restored account, and a step is
  one call of an operation, accepted or rejected. The invariant is the locale
  \<open>invariant_system\<close>; what no step ever takes back is the order \<open>grows\<close>; the operations that
  report \<open>Applied\<close> or \<open>AlreadyApplied\<close> are instances of the locale \<open>recorded_once\<close>.
\<close>

section \<open>Steps\<close>

definition account_init :: "CreditAccount \<Rightarrow> bool" where
  "account_init a \<longleftrightarrow> (\<exists>p. account_new p = Inr a) \<or> (\<exists>s. snapshot_wf s \<and> from_snapshot s = Inr a)"

inductive account_step :: "CreditAccount \<Rightarrow> CreditAccount \<Rightarrow> bool" where
  deposit: "record_backing_deposit d auth a = (r1, a') \<Longrightarrow> account_step a a'"
| receipt: "apply_receipt c auth m now a = (r2, a') \<Longrightarrow> account_step a a'"
| novate: "novate_peer_credit n auth now a = (r3, a') \<Longrightarrow> account_step a a'"
| settle: "settle_peer_credit_with_backing s auth now a = (r4, a') \<Longrightarrow> account_step a a'"
| consume: "consume_closed_loop u auth a = (r5, a') \<Longrightarrow> account_step a a'"
| authorize: "authorize_external_settlement q auth now a = (r6, a') \<Longrightarrow> account_step a a'"
| complete: "complete_external_settlement i fee a = (r7, a') \<Longrightarrow> account_step a a'"
| cancel: "cancel_external_settlement i a = (r8, a') \<Longrightarrow> account_step a a'"

inductive_cases account_stepE: "account_step a a'"

definition account_reachable :: "CreditAccount \<Rightarrow> bool" where
  "account_reachable a \<longleftrightarrow> (\<exists>a0. account_init a0 \<and> account_step\<^sup>*\<^sup>* a0 a)"

interpretation account: invariant_system account_init account_step account_ok
proof
  show "account_ok a" if "account_init a" for a
    using that account_new_Inr from_snapshot_sound by (auto simp: account_init_def)
  show "account_ok a'" if "account_ok a" "account_step a a'" for a a'
    using that(2,1) by (cases rule: account_step.cases) (blast intro: account_ok_steps)+
qed

lemma reachable_account_ok: "account_reachable a \<Longrightarrow> account_ok a"
  unfolding account_reachable_def using account.inv_reachable by blast

section \<open>Nothing recorded is lost\<close>

definition settlement_le :: "SettlementRecord \<Rightarrow> SettlementRecord \<Rightarrow> bool" where
  "settlement_le r r' \<longleftrightarrow>
     st_request r' = st_request r \<and> st_authorization r' = st_authorization r
     \<and> (st_state r = Pending \<or> st_state r' = st_state r)"

definition settlements_le ::
    "(string, SettlementRecord) btree_map \<Rightarrow> (string, SettlementRecord) btree_map \<Rightarrow> bool" where
  "settlements_le m m' \<longleftrightarrow> (\<forall>i r. bm_get m i = Some r \<longrightarrow>
     (\<exists>r'. bm_get m' i = Some r' \<and> settlement_le r r'))"

definition grows :: "CreditAccount \<Rightarrow> CreditAccount \<Rightarrow> bool" where
  "grows a a' \<longleftrightarrow>
     ca_counterparty a' = ca_counterparty a
     \<and> ca_max_total_peer_credit_sat a' = ca_max_total_peer_credit_sat a
     \<and> map (\<lambda>(i, st). (i, is_policy st)) (ca_issuers a') = map (\<lambda>(i, st). (i, is_policy st)) (ca_issuers a)
     \<and> ca_revision a \<le> ca_revision a'
     \<and> bm_get (ca_applied_receipts a) \<subseteq>\<^sub>m bm_get (ca_applied_receipts a')
     \<and> bm_get (ca_novations a) \<subseteq>\<^sub>m bm_get (ca_novations a')
     \<and> bm_get (ca_backing_deposits a) \<subseteq>\<^sub>m bm_get (ca_backing_deposits a')
     \<and> bm_get (ca_backed_settlements a) \<subseteq>\<^sub>m bm_get (ca_backed_settlements a')
     \<and> bm_get (ca_closed_loop_consumptions a) \<subseteq>\<^sub>m bm_get (ca_closed_loop_consumptions a')
     \<and> settlements_le (ca_settlements a) (ca_settlements a')"

lemma settlement_le_refl: "settlement_le r r"
  by (simp add: settlement_le_def)

lemma settlement_le_trans: "settlement_le r s \<Longrightarrow> settlement_le s t \<Longrightarrow> settlement_le r t"
  unfolding settlement_le_def by metis

lemma settlements_le_refl: "settlements_le m m"
  by (simp add: settlements_le_def settlement_le_refl)

lemma settlements_le_trans:
  assumes "settlements_le l m" "settlements_le m n"
  shows "settlements_le l n"
  unfolding settlements_le_def
proof (intro allI impI)
  fix i r
  assume "bm_get l i = Some r"
  then obtain s where s: "bm_get m i = Some s" "settlement_le r s"
    using assms(1) unfolding settlements_le_def by blast
  then obtain t where "bm_get n i = Some t" "settlement_le s t"
    using assms(2) unfolding settlements_le_def by blast
  then show "\<exists>t. bm_get n i = Some t \<and> settlement_le r t" using s(2) settlement_le_trans by blast
qed

lemma settlements_le_fresh: "bm_get m i = None \<Longrightarrow> settlements_le m (bm_insert i r m)"
  by (auto simp: settlements_le_def settlement_le_refl)

lemma settlements_le_close:
  "bm_get m i = Some r \<Longrightarrow> st_state r = Pending \<Longrightarrow> settlements_le m (bm_set i (r\<lparr>st_state := x\<rparr>) m)"
  unfolding settlements_le_def bm_get_bm_set_present by (simp add: settlement_le_def)

lemma grows_refl: "grows a a"
  by (simp add: grows_def settlements_le_refl)

lemma grows_trans: "grows a b \<Longrightarrow> grows b c \<Longrightarrow> grows a c"
  unfolding grows_def by (elim conjE, intro conjI)
    (simp_all, auto intro: map_le_trans settlements_le_trans)

lemma grows_policies:
  "bm_get m i = Some st \<Longrightarrow> is_policy st' = is_policy st \<Longrightarrow>
     map (\<lambda>(i, st). (i, is_policy st)) (bm_set i st' m) = map (\<lambda>(i, st). (i, is_policy st)) m"
  by (simp add: bm_set_mapped bm_set_same bm_get_mapped)

lemmas grows_simps = grows_def grows_policies map_le_fresh settlements_le_refl settlements_le_fresh
  settlements_le_close order_less_imp_le revision_grows

lemma deposit_grows:
  assumes "record_backing_deposit d auth a = (r, a')"
  shows "grows a a'"
proof (cases r)
  case (Inr x)
  from record_backing_deposit_effect [OF assms [unfolded Inr]] show ?thesis
  proof (elim disjE conjE exE, goal_cases)
    case (2 st st')
    then show ?thesis by (simp add: grows_simps deposited_keeps)
  qed (simp_all add: grows_refl)
qed (use assms record_backing_deposit_error grows_refl in blast)

lemma receipt_grows:
  assumes "apply_receipt c auth m now a = (r, a')"
  shows "grows a a'"
proof (cases r)
  case (Inr x)
  from apply_receipt_effect [OF assms [unfolded Inr]] show ?thesis
  proof (elim disjE conjE exE, goal_cases)
    case (2 st l t)
    then show ?thesis by (simp add: grows_simps)
  next
    case (3 st st')
    then show ?thesis by (simp add: grows_simps allocated_keeps)
  qed (simp_all add: grows_refl)
qed (use assms apply_receipt_error grows_refl in blast)

lemma consume_grows:
  assumes "consume_closed_loop c auth a = (r, a')"
  shows "grows a a'"
proof (cases r)
  case (Inr x)
  from consume_closed_loop_effect [OF assms [unfolded Inr]] show ?thesis
  proof (elim disjE conjE exE, goal_cases)
    case (2 st l)
    then show ?thesis by (simp add: grows_simps)
  qed (simp_all add: grows_refl)
qed (use assms consume_closed_loop_error grows_refl in blast)

lemma authorize_grows:
  assumes "authorize_external_settlement q auth now a = (r, a')"
  shows "grows a a'"
proof (cases r)
  case (Inr x)
  from authorize_external_settlement_effect [OF assms [unfolded Inr]] show ?thesis
  proof (elim disjE conjE exE, goal_cases)
    case (2 n st l)
    then show ?thesis by (simp add: grows_simps)
  qed (simp_all add: grows_refl)
qed (use assms authorize_external_settlement_error grows_refl in blast)

lemma complete_grows:
  assumes "complete_external_settlement i fee a = (r, a')"
  shows "grows a a'"
proof (cases r)
  case (Inr x)
  from complete_external_settlement_effect [OF assms [unfolded Inr]] show ?thesis
  proof (elim disjE conjE exE, goal_cases)
    case (2 s st l)
    then show ?thesis by (simp add: grows_simps)
  qed (simp_all add: grows_refl)
qed (use assms complete_external_settlement_error grows_refl in blast)

lemma cancel_grows:
  assumes "cancel_external_settlement i a = (r, a')"
  shows "grows a a'"
proof (cases r)
  case (Inr x)
  from cancel_external_settlement_effect [OF assms [unfolded Inr]] show ?thesis
  proof (elim disjE conjE exE, goal_cases)
    case (2 s st l)
    then show ?thesis by (simp add: grows_simps)
  qed (simp_all add: grows_refl)
qed (use assms cancel_external_settlement_error grows_refl in blast)

lemma novate_grows:
  assumes "novate_peer_credit n auth now a = (r, a')"
  shows "grows a a'"
proof (cases r)
  case (Inr x)
  from novate_peer_credit_effect [OF assms [unfolded Inr]] show ?thesis
  proof (elim disjE conjE exE, goal_cases)
    case (2 fs ts source target)
    have "nv_from_issuer n \<noteq> nv_to_issuer n"
      using validate_novation_Inr [OF 2(3)] by (simp add: novation_ok_def)
    then have "bm_get (bm_set (nv_from_issuer n) (fs\<lparr>is_peer_credit := source\<rparr>) (ca_issuers a))
        (nv_to_issuer n) = Some ts"
      using 2(5) by (simp add: bm_get_bm_set)
    then show ?thesis using 2 by (simp add: grows_simps)
  qed (simp_all add: grows_refl)
qed (use assms novate_peer_credit_error grows_refl in blast)

lemma settle_grows:
  assumes "settle_peer_credit_with_backing s auth now a = (r, a')"
  shows "grows a a'"
proof (cases r)
  case (Inr x)
  from settle_peer_credit_with_backing_effect [OF assms [unfolded Inr]] show ?thesis
  proof (elim disjE conjE exE, goal_cases)
    case (2 fs st st' mid source t)
    then show ?thesis using allocated_keeps [OF 2(9)] by (simp add: grows_simps)
  qed (simp_all add: grows_refl)
qed (use assms settle_peer_credit_with_backing_error grows_refl in blast)

lemma step_grows: "account_step a a' \<Longrightarrow> grows a a'"
  by (erule account_stepE)
    (blast intro: deposit_grows receipt_grows consume_grows authorize_grows complete_grows cancel_grows
      novate_grows settle_grows)+

lemma run_grows: "account_step\<^sup>*\<^sup>* a a' \<Longrightarrow> grows a a'"
  by (induction rule: rtranclp_induct) (auto intro: grows_refl grows_trans step_grows)

section \<open>Operations that are applied once\<close>

text \<open>\<open>op q f r\<close> is a call with the identity \<open>q\<close> the caller authenticated, the arguments \<open>f\<close> that may
  differ between retries (mode and time) and the record \<open>r\<close>.\<close>

locale recorded_once =
  fixes op :: "'q \<Rightarrow> 'f \<Rightarrow> 'r \<Rightarrow> 's \<Rightarrow> ('e + ReceiptApplication) \<times> 's"
    and entitled :: "'q \<Rightarrow> 'r \<Rightarrow> 's \<Rightarrow> bool"
    and recorded :: "'r \<Rightarrow> 's \<Rightarrow> bool"
    and later :: "'s \<Rightarrow> 's \<Rightarrow> bool"
  assumes applied: "op q f r s = (Inr Applied, t) \<Longrightarrow> recorded r t \<and> entitled q r t"
    and replayed: "entitled q r s \<Longrightarrow> recorded r s \<Longrightarrow> op q g r s = (Inr AlreadyApplied, s)"
    and kept: "later s t \<Longrightarrow> recorded r s \<Longrightarrow> entitled q r s \<Longrightarrow> recorded r t \<and> entitled q r t"
begin

lemma replay_after: "op q f r s = (Inr Applied, t) \<Longrightarrow> later t u \<Longrightarrow> op q g r u = (Inr AlreadyApplied, u)"
  using applied kept replayed by blast

lemma retries_change_nothing:
  "op q f r s = (Inr Applied, t) \<Longrightarrow> later t u \<Longrightarrow> foldl (\<lambda>v g. snd (op q g r v)) u gs = u"
  by (induction gs) (simp_all add: replay_after)

end

lemma grows_issuer:
  assumes "grows a b" "bm_get (ca_issuers a) i = Some st"
  shows "\<exists>st'. bm_get (ca_issuers b) i = Some st'"
proof -
  have "bm_get (map (\<lambda>(i, st). (i, is_policy st)) (ca_issuers b)) i = Some (is_policy st)"
    using assms by (simp add: grows_def bm_get_mapped)
  then show ?thesis by (auto simp: bm_get_mapped)
qed

lemma grows_identity:
  assumes "grows a b"
  shows "validate_backing_deposit a d q = Inr () \<Longrightarrow> validate_backing_deposit b d q = Inr ()"
    "validate_receipt_identity a r q = Inr () \<Longrightarrow> validate_receipt_identity b r q = Inr ()"
    "validate_backed_settlement_identity a s q = Inr () \<Longrightarrow> validate_backed_settlement_identity b s q = Inr ()"
    "validate_closed_loop_consumption a c q = Inr () \<Longrightarrow> validate_closed_loop_consumption b c q = Inr ()"
  using assms grows_issuer [OF assms]
  by (auto simp: validate_backing_deposit_def validate_receipt_identity_def
      validate_backed_settlement_identity_def validate_closed_loop_consumption_def grows_def
      result_simps split: if_splits)

lemma grows_record:
  assumes "grows a b"
  shows "bm_get (ca_backing_deposits a) k = Some d \<Longrightarrow> bm_get (ca_backing_deposits b) k = Some d"
    "bm_get (ca_applied_receipts a) i = Some r \<Longrightarrow> bm_get (ca_applied_receipts b) i = Some r"
    "bm_get (ca_backed_settlements a) i = Some s \<Longrightarrow> bm_get (ca_backed_settlements b) i = Some s"
    "bm_get (ca_closed_loop_consumptions a) i = Some c \<Longrightarrow> bm_get (ca_closed_loop_consumptions b) i = Some c"
    "bm_get (ca_novations a) i = Some n \<Longrightarrow> bm_get (ca_novations b) i = Some n"
  using assms unfolding grows_def by (blast intro: map_le_Some)+

interpretation deposits_once: recorded_once "\<lambda>q (f :: unit) d. record_backing_deposit d q"
  "\<lambda>q d a. validate_backing_deposit a d q = Inr ()"
  "\<lambda>d a. bm_get (ca_backing_deposits a) (bd_issuer d, bd_deposit_id d) = Some d" grows
proof
  fix q d a a'
  assume run: "record_backing_deposit d q a = (Inr Applied, a')"
  then have "validate_backing_deposit a d q = Inr ()"
    by (auto simp: record_backing_deposit_def result_simps)
  then show "bm_get (ca_backing_deposits a') (bd_issuer d, bd_deposit_id d) = Some d
      \<and> validate_backing_deposit a' d q = Inr ()"
    using record_backing_deposit_effect [OF run] grows_identity(1) [OF deposit_grows [OF run]] by auto
qed (auto simp: record_backing_deposit_def Let_def dest: grows_identity grows_record)

interpretation receipts_once: recorded_once "\<lambda>q (m, now) c. apply_receipt c q m now"
  "\<lambda>q c a. validate_receipt_identity a c q = Inr ()"
  "\<lambda>c a. bm_get (ca_applied_receipts a) (sr_receipt_id c) = Some c" grows
proof
  fix q f c a a'
  assume "(case f of (m, now) \<Rightarrow> \<lambda>c. apply_receipt c q m now) c a = (Inr Applied, a')"
  then obtain m now where run: "apply_receipt c q m now a = (Inr Applied, a')"
    by (auto split: prod.splits)
  then have "validate_receipt_identity a c q = Inr ()"
    by (auto simp: apply_receipt_def result_simps)
  then show "bm_get (ca_applied_receipts a') (sr_receipt_id c) = Some c
      \<and> validate_receipt_identity a' c q = Inr ()"
    using apply_receipt_effect [OF run] grows_identity(2) [OF receipt_grows [OF run]] by auto
qed (auto simp: apply_receipt_def split: prod.splits dest: grows_identity grows_record)

interpretation backed_once: recorded_once "\<lambda>q now s. settle_peer_credit_with_backing s q now"
  "\<lambda>q s a. validate_backed_settlement_identity a s q = Inr ()"
  "\<lambda>s a. bm_get (ca_backed_settlements a) (bs_settlement_id s) = Some s" grows
proof
  fix q now s a a'
  assume run: "settle_peer_credit_with_backing s q now a = (Inr Applied, a')"
  then have "validate_backed_settlement_identity a s q = Inr ()"
    by (auto simp: settle_peer_credit_with_backing_def result_simps)
  then show "bm_get (ca_backed_settlements a') (bs_settlement_id s) = Some s
      \<and> validate_backed_settlement_identity a' s q = Inr ()"
    using settle_peer_credit_with_backing_effect [OF run] grows_identity(3) [OF settle_grows [OF run]]
    by auto
qed (auto simp: settle_peer_credit_with_backing_def dest: grows_identity grows_record)

interpretation consumptions_once: recorded_once "\<lambda>q (f :: unit) c. consume_closed_loop c q"
  "\<lambda>q c a. validate_closed_loop_consumption a c q = Inr ()"
  "\<lambda>c a. bm_get (ca_closed_loop_consumptions a) (cc_consumption_id c) = Some c" grows
proof
  fix q c a a'
  assume run: "consume_closed_loop c q a = (Inr Applied, a')"
  then have "validate_closed_loop_consumption a c q = Inr ()"
    by (auto simp: consume_closed_loop_def result_simps)
  then show "bm_get (ca_closed_loop_consumptions a') (cc_consumption_id c) = Some c
      \<and> validate_closed_loop_consumption a' c q = Inr ()"
    using consume_closed_loop_effect [OF run] grows_identity(4) [OF consume_grows [OF run]] by auto
qed (auto simp: consume_closed_loop_def dest: grows_identity grows_record)

end
