(* ===== verification/Credit_Example.thy ===== *)
theory Credit_Example
  imports Credit_Account_Run
begin

text \<open>
  A concrete history of one account with two issuers, evaluated step by step in the logic. The
  properties of the next theory are applied to it.
\<close>

definition ex_issuer :: "string \<Rightarrow> IssuerPolicy" where
  "ex_issuer i = \<lparr>ip_issuer = i, ip_max_peer_credit_sat = 500, ip_max_offline_peer_credit_sat = 100,
     ip_max_closed_loop_sat = 400, ip_max_withdrawable_sat = 600, ip_expires_at_unix = None\<rparr>"

definition ex_policy :: AccountPolicy where
  "ex_policy = \<lparr>ap_counterparty = ''alice'', ap_max_total_peer_credit_sat = 800,
     ap_issuers = [ex_issuer ''m1'', ex_issuer ''m2'']\<rparr>"

definition ex_receipt :: ServiceReceiptClaim where
  "ex_receipt = \<lparr>sr_receipt_id = ''r1'', sr_issuer = ''m1'', sr_counterparty = ''alice'',
     sr_service = ''relay'', sr_resource = ''bytes'', sr_useful_service_units = 7, sr_amount_sat = 90,
     sr_value_class = PeerCredit, sr_issued_at_unix = 10, sr_expires_at_unix = 20\<rparr>"

definition ex_deposit :: BackingDeposit where
  "ex_deposit = \<lparr>bd_deposit_id = ''d1'', bd_issuer = ''m2'', bd_amount_sat = 200,
     bd_value_class = ReserveBackedWithdrawable\<rparr>"

definition ex_closed_deposit :: BackingDeposit where
  "ex_closed_deposit = \<lparr>bd_deposit_id = ''d2'', bd_issuer = ''m1'', bd_amount_sat = 50,
     bd_value_class = ClosedLoopDeposit\<rparr>"

definition ex_novation :: CreditNovation where
  "ex_novation = \<lparr>nv_novation_id = ''n1'', nv_counterparty = ''alice'', nv_from_issuer = ''m1'',
     nv_to_issuer = ''m2'', nv_amount_sat = 30, nv_expires_at_unix = 20\<rparr>"

definition ex_settlement :: BackedCreditSettlement where
  "ex_settlement = \<lparr>bs_settlement_id = ''s1'', bs_counterparty = ''alice'', bs_from_issuer = ''m1'',
     bs_backing_issuer = ''m2'', bs_amount_sat = 60, bs_value_class = ReserveBackedWithdrawable,
     bs_expires_at_unix = 20\<rparr>"

definition ex_closed_receipt :: ServiceReceiptClaim where
  "ex_closed_receipt = ex_receipt\<lparr>sr_receipt_id := ''r2'', sr_amount_sat := 40,
     sr_value_class := ClosedLoopDeposit\<rparr>"

definition ex_consumption :: ClosedLoopConsumption where
  "ex_consumption = \<lparr>cc_consumption_id = ''c1'', cc_issuer = ''m1'', cc_counterparty = ''alice'',
     cc_resource = ''storage'', cc_amount_sat = 15\<rparr>"

definition ex_request :: ExternalSettlementRequest where
  "ex_request = \<lparr>xr_settlement_id = ''x1'', xr_issuer = ''m2'', xr_counterparty = ''alice'',
     xr_payout_destination = ''lnbc1'', xr_amount_sat = 40, xr_max_fee_sat = 5, xr_expires_at_unix = 20\<rparr>"

definition ex_new :: CreditAccount where
  "ex_new = projr (account_new ex_policy)"

definition ex_credited :: CreditAccount where
  "ex_credited = snd (apply_receipt ex_receipt ''m1'' OfflineDeferred 12 ex_new)"

definition ex_backed :: CreditAccount where
  "ex_backed = snd (record_backing_deposit ex_deposit ''m2'' ex_credited)"

definition ex_novated :: CreditAccount where
  "ex_novated = snd (novate_peer_credit ex_novation ''m2'' 12 ex_backed)"

definition ex_settled :: CreditAccount where
  "ex_settled = snd (settle_peer_credit_with_backing ex_settlement ''m2'' 12 ex_novated)"

definition ex_claimable :: CreditAccount where
  "ex_claimable = snd (apply_receipt ex_closed_receipt ''m1'' Online 12
     (snd (record_backing_deposit ex_closed_deposit ''m1'' ex_settled)))"

definition ex_consumed :: CreditAccount where
  "ex_consumed = snd (consume_closed_loop ex_consumption ''alice'' ex_claimable)"

definition ex_pending :: CreditAccount where
  "ex_pending = snd (authorize_external_settlement ex_request ''alice'' 12 ex_consumed)"

definition ex_done :: CreditAccount where
  "ex_done = snd (complete_external_settlement ''x1'' 2 ex_pending)"

lemma ex_results:
  "fst (apply_receipt ex_receipt ''m1'' OfflineDeferred 12 ex_new) = Inr Applied"
  "fst (record_backing_deposit ex_deposit ''m2'' ex_credited) = Inr Applied"
  "fst (novate_peer_credit ex_novation ''m2'' 12 ex_backed) = Inr ()"
  "fst (settle_peer_credit_with_backing ex_settlement ''m2'' 12 ex_novated) = Inr Applied"
  "fst (consume_closed_loop ex_consumption ''alice'' ex_claimable) = Inr Applied"
  "fst (complete_external_settlement ''x1'' 2 ex_pending) = Inr ()"
  by code_simp+

lemma ex_new_ok: "account_new ex_policy = Inr ex_new"
  by code_simp

lemma ex_restored: "from_snapshot (snapshot ex_done) = Inr ex_done"
  by code_simp

end
