(* ===== verification/Credit_Properties.thy ===== *)
theory Credit_Properties
  imports Credit_Example
begin

text \<open>
  What the credit account guarantees, for every account that can be reached by creating or
  restoring one and calling its operations in any order: exposure limits, backing of payouts,
  atomicity of rejected calls, application at most once, and the exact effect of the operations
  that move value. Each statement with hypotheses is applied to the history of
  \<open>Credit_Example\<close>.
\<close>

section \<open>The example is reachable\<close>

lemma pair_result: "fst p = r \<Longrightarrow> p = (r, snd p)"
  by (cases p) simp

lemma ex_steps:
  "account_step ex_new ex_credited" "account_step ex_credited ex_backed"
  "account_step ex_backed ex_novated" "account_step ex_novated ex_settled"
  "account_step\<^sup>*\<^sup>* ex_settled ex_claimable" "account_step ex_claimable ex_consumed"
  "account_step ex_consumed ex_pending" "account_step ex_pending ex_done"
proof -
  show "account_step ex_new ex_credited"
    unfolding ex_credited_def by (rule account_step.receipt) (rule prod.collapse [symmetric])
  show "account_step ex_credited ex_backed"
    unfolding ex_backed_def by (rule account_step.deposit) (rule prod.collapse [symmetric])
  show "account_step ex_backed ex_novated"
    unfolding ex_novated_def by (rule account_step.novate) (rule prod.collapse [symmetric])
  show "account_step ex_novated ex_settled"
    unfolding ex_settled_def by (rule account_step.settle) (rule prod.collapse [symmetric])
  have "account_step ex_settled (snd (record_backing_deposit ex_closed_deposit ''m1'' ex_settled))"
    by (rule account_step.deposit) (rule prod.collapse [symmetric])
  moreover have "account_step (snd (record_backing_deposit ex_closed_deposit ''m1'' ex_settled)) ex_claimable"
    unfolding ex_claimable_def by (rule account_step.receipt) (rule prod.collapse [symmetric])
  ultimately show "account_step\<^sup>*\<^sup>* ex_settled ex_claimable" by (simp add: converse_rtranclp_into_rtranclp)
  show "account_step ex_claimable ex_consumed"
    unfolding ex_consumed_def by (rule account_step.consume) (rule prod.collapse [symmetric])
  show "account_step ex_consumed ex_pending"
    unfolding ex_pending_def by (rule account_step.authorize) (rule prod.collapse [symmetric])
  show "account_step ex_pending ex_done"
    unfolding ex_done_def by (rule account_step.complete) (rule prod.collapse [symmetric])
qed

lemma ex_runs:
  "account_step\<^sup>*\<^sup>* ex_credited ex_pending" "account_step\<^sup>*\<^sup>* ex_new ex_credited"
  "account_step\<^sup>*\<^sup>* ex_backed ex_done" "account_step\<^sup>*\<^sup>* ex_pending ex_done"
  using ex_steps by (meson converse_rtranclp_into_rtranclp rtranclp.rtrancl_into_rtrancl
      rtranclp.rtrancl_refl rtranclp_trans)+

lemma ex_reachable: "account_reachable ex_pending" "account_reachable ex_done" "account_reachable ex_new"
proof -
  have init: "account_init ex_new" using ex_new_ok by (auto simp: account_init_def)
  show "account_reachable ex_pending"
    unfolding account_reachable_def using init ex_runs(1,2) rtranclp_trans by metis
  show "account_reachable ex_done"
    unfolding account_reachable_def using init ex_runs(1,2,4) rtranclp_trans by metis
  show "account_reachable ex_new" unfolding account_reachable_def using init by blast
qed

section \<open>Invariant and limits\<close>

text \<open>C1. Whatever sequence of calls is made on a new or restored account, every ledger amount is
  the sum of the recorded operations of its kind, the caps and the conservation equations hold,
  the aggregate is the sum over the issuers, the events replay to the ledgers and the revision
  counts the applied operations.\<close>

theorem reachable_accounts_ok:
  assumes "account_reachable a"
  shows "account_ok a"
  using assms by (rule reachable_account_ok)

theorem reachable_accounts_ok_witness: "account_reachable ex_done \<and> account_ok ex_done"
  using ex_reachable(2) reachable_accounts_ok [OF ex_reachable(2)] by blast

text \<open>C2. Unbacked exposure stays within the account's aggregate limit, within the cap of every
  issuer, and the part accepted offline within the offline cap; the aggregate is the sum over the
  issuers.\<close>

theorem exposure_within_limits:
  assumes "account_reachable a" "bm_get (ca_issuers a) i = Some st"
  shows "ca_total_peer_credit_sat a \<le> ca_max_total_peer_credit_sat a
    \<and> unat (ca_total_peer_credit_sat a) = (\<Sum>(j, s)\<leftarrow>ca_issuers a. unat (pc_outstanding_sat (is_peer_credit s)))
    \<and> pc_outstanding_sat (is_peer_credit st) \<le> ip_max_peer_credit_sat (is_policy st)
    \<and> pc_offline_outstanding_sat (is_peer_credit st) \<le> ip_max_offline_peer_credit_sat (is_policy st)
    \<and> pc_offline_outstanding_sat (is_peer_credit st) \<le> pc_outstanding_sat (is_peer_credit st)"
proof -
  have ok: "account_ok a" using assms(1) by (rule reachable_account_ok)
  then have "total_ok a" by (rule account_okD)
  moreover have "issuer_caps i st" using ok assms(2) by (rule account_ok_issuer)
  moreover have "value_sum outstanding (ca_issuers a)
      = (\<Sum>(j, s)\<leftarrow>ca_issuers a. unat (pc_outstanding_sat (is_peer_credit s)))"
    by (simp add: sum_values)
  ultimately show ?thesis by (simp add: total_ok_def issuer_caps_def word_le_nat_alt)
qed

theorem exposure_within_limits_witness:
  "bm_get (ca_issuers ex_done) ''m2'' \<noteq> None
   \<and> ca_total_peer_credit_sat ex_done \<le> ca_max_total_peer_credit_sat ex_done"
proof -
  have "bm_get (ca_issuers ex_done) ''m2'' \<noteq> None" by code_simp
  then obtain st where "bm_get (ca_issuers ex_done) ''m2'' = Some st" by blast
  then show ?thesis using exposure_within_limits [OF ex_reachable(2)] by blast
qed

text \<open>C3. Value only leaves through backing: what an issuer has paid out or reserved for payouts
  never exceeds its verified withdrawable deposits, and what was consumed in its closed loop never
  exceeds its closed-loop deposits. The deposits of both classes are fully accounted for: each deposited
  satoshi is available as backing, owed to the counterparty, reserved for a payout, or paid out or
  consumed.\<close>

theorem payouts_covered_by_deposits:
  assumes "account_reachable a" "bm_get (ca_issuers a) i = Some st"
  shows "settled_external a i + pending_external a i \<le> deposits ReserveBackedWithdrawable a i
    \<and> consumptions a i \<le> deposits ClosedLoopDeposit a i
    \<and> deposits ReserveBackedWithdrawable a i =
        unat (wr_available_sat (is_withdrawable st)) + unat (wr_redeemable_sat (is_withdrawable st))
        + pending_external a i + settled_external a i
    \<and> deposits ClosedLoopDeposit a i =
        unat (cl_available_backing_sat (is_closed_loop st)) + unat (cl_claimable_sat (is_closed_loop st))
        + consumptions a i"
proof -
  have ok: "account_ok a" using assms(1) by (rule reachable_account_ok)
  then show ?thesis
    using account_ok_issuer [OF ok assms(2)]
    by (simp add: issuer_caps_def issuer_books_def cl.conserved_def wr.conserved_def)
qed

theorem payouts_covered_by_deposits_witness:
  "settled_external ex_done ''m2'' + pending_external ex_done ''m2''
     \<le> deposits ReserveBackedWithdrawable ex_done ''m2''"
proof -
  have "bm_get (ca_issuers ex_done) ''m2'' \<noteq> None" by code_simp
  then obtain st where "bm_get (ca_issuers ex_done) ''m2'' = Some st" by blast
  then show ?thesis using payouts_covered_by_deposits [OF ex_reachable(2)] by blast
qed

section \<open>Atomicity\<close>

text \<open>C4. A call that returns an error leaves the account exactly as it was, for every operation,
  whichever check fails and even when the error comes after an issuer's ledger was written.\<close>

theorem rejected_calls_change_nothing:
  "(fst (record_backing_deposit d q a) = Inl e \<longrightarrow> snd (record_backing_deposit d q a) = a)
   \<and> (fst (apply_receipt c q m now a) = Inl e \<longrightarrow> snd (apply_receipt c q m now a) = a)
   \<and> (fst (novate_peer_credit n q now a) = Inl e \<longrightarrow> snd (novate_peer_credit n q now a) = a)
   \<and> (fst (settle_peer_credit_with_backing s q now a) = Inl e \<longrightarrow>
        snd (settle_peer_credit_with_backing s q now a) = a)
   \<and> (fst (consume_closed_loop u q a) = Inl e \<longrightarrow> snd (consume_closed_loop u q a) = a)
   \<and> (fst (authorize_external_settlement x q now a) = Inl e \<longrightarrow>
        snd (authorize_external_settlement x q now a) = a)
   \<and> (fst (complete_external_settlement i fee a) = Inl e \<longrightarrow>
        snd (complete_external_settlement i fee a) = a)
   \<and> (fst (cancel_external_settlement i a) = Inl e \<longrightarrow> snd (cancel_external_settlement i a) = a)"
  by (intro conjI impI)
    (metis pair_result record_backing_deposit_error apply_receipt_error novate_peer_credit_error
      settle_peer_credit_with_backing_error consume_closed_loop_error
      authorize_external_settlement_error complete_external_settlement_error
      cancel_external_settlement_error)+

theorem rejected_calls_change_nothing_witness:
  "fst (complete_external_settlement ''x1'' 9 ex_pending) = Inl SettlementFeeExceeded
   \<and> snd (complete_external_settlement ''x1'' 9 ex_pending) = ex_pending"
proof -
  have "fst (complete_external_settlement ''x1'' 9 ex_pending) = Inl SettlementFeeExceeded"
    by code_simp
  then show ?thesis
    using rejected_calls_change_nothing
      [of undefined undefined ex_pending SettlementFeeExceeded undefined undefined undefined undefined
        undefined undefined undefined "''x1''" 9] by blast
qed

section \<open>Applied at most once\<close>

lemma receipt_conflict:
  assumes "bm_get (ca_applied_receipts a) (sr_receipt_id c') = Some c" "c' \<noteq> c"
  shows "\<exists>e. apply_receipt c' q m now a = (Inl e, a)"
  using assms
  by (cases "validate_receipt_identity a c' q") (auto simp: apply_receipt_def)

text \<open>C5. A receipt is credited once: after it was applied, and after any further calls on the
  account, presenting it again with any mode and at any time reports \<open>AlreadyApplied\<close> and changes
  nothing, and a different receipt under the same identifier is rejected and changes nothing.\<close>

theorem receipt_applied_once:
  assumes "apply_receipt c q m now a = (Inr Applied, t)" "account_step\<^sup>*\<^sup>* t u"
  shows "apply_receipt c q m' now' u = (Inr AlreadyApplied, u)
    \<and> (sr_receipt_id c' = sr_receipt_id c \<longrightarrow> c' \<noteq> c \<longrightarrow>
        (\<exists>e. apply_receipt c' q' m' now' u = (Inl e, u)))"
proof
  note later = run_grows [OF assms(2)]
  have run: "(case (m, now) of (m, now) \<Rightarrow> \<lambda>c. apply_receipt c q m now) c a = (Inr Applied, t)"
    using assms(1) by simp
  show "apply_receipt c q m' now' u = (Inr AlreadyApplied, u)"
    using receipts_once.replay_after [OF run later, of "(m', now')"] by simp
  have "bm_get (ca_applied_receipts u) (sr_receipt_id c) = Some c"
    using receipts_once.applied [OF run] grows_record(2) [OF later] by blast
  then show "sr_receipt_id c' = sr_receipt_id c \<longrightarrow> c' \<noteq> c \<longrightarrow>
        (\<exists>e. apply_receipt c' q' m' now' u = (Inl e, u))"
    using receipt_conflict by simp
qed

theorem receipt_applied_once_witness:
  "apply_receipt ex_receipt ''m1'' Online 15 ex_pending = (Inr AlreadyApplied, ex_pending)
   \<and> (\<exists>e. apply_receipt (ex_receipt\<lparr>sr_amount_sat := 1\<rparr>) ''m1'' Online 15 ex_pending = (Inl e, ex_pending))"
proof -
  have "apply_receipt ex_receipt ''m1'' OfflineDeferred 12 ex_new = (Inr Applied, ex_credited)"
    unfolding ex_credited_def by (rule pair_result [OF ex_results(1)])
  from receipt_applied_once [OF this ex_runs(1), of Online 15 "ex_receipt\<lparr>sr_amount_sat := 1\<rparr>" "''m1''"]
  show ?thesis by (simp add: ex_receipt_def)
qed

text \<open>Verified backing is credited once: recording the same deposit again, after any further
  calls, reports \<open>AlreadyApplied\<close> and changes nothing, so one proof, quote or payment never backs an
  account twice.\<close>

theorem deposit_recorded_once:
  assumes "record_backing_deposit d q a = (Inr Applied, t)" "account_step\<^sup>*\<^sup>* t u"
  shows "record_backing_deposit d q u = (Inr AlreadyApplied, u)"
  using deposits_once.replay_after [OF assms(1) run_grows [OF assms(2)]] .

theorem deposit_recorded_once_witness:
  "record_backing_deposit ex_deposit ''m2'' ex_done = (Inr AlreadyApplied, ex_done)"
proof -
  have "record_backing_deposit ex_deposit ''m2'' ex_credited = (Inr Applied, ex_backed)"
    unfolding ex_backed_def by (rule pair_result [OF ex_results(2)])
  then show ?thesis using deposit_recorded_once ex_runs(3) by blast
qed

text \<open>A backed settlement and a closed-loop consumption are each applied once: any number of
  retries after the first application, at any later time, leave the account as it is.\<close>

theorem settlement_and_consumption_once:
  assumes "settle_peer_credit_with_backing s q now a = (Inr Applied, t)" "account_step\<^sup>*\<^sup>* t u"
    and "consume_closed_loop c q' b = (Inr Applied, v)" "account_step\<^sup>*\<^sup>* v w"
  shows "settle_peer_credit_with_backing s q now' u = (Inr AlreadyApplied, u)
    \<and> foldl (\<lambda>x now. snd (settle_peer_credit_with_backing s q now x)) u nows = u
    \<and> consume_closed_loop c q' w = (Inr AlreadyApplied, w)"
  using backed_once.replay_after [OF assms(1) run_grows [OF assms(2)]]
    backed_once.retries_change_nothing [OF assms(1) run_grows [OF assms(2)]]
    consumptions_once.replay_after [OF assms(3) run_grows [OF assms(4)]] by blast

theorem settlement_and_consumption_once_witness:
  "settle_peer_credit_with_backing ex_settlement ''m2'' 99 ex_settled = (Inr AlreadyApplied, ex_settled)
   \<and> consume_closed_loop ex_consumption ''alice'' ex_done = (Inr AlreadyApplied, ex_done)"
proof -
  have s: "settle_peer_credit_with_backing ex_settlement ''m2'' 12 ex_novated = (Inr Applied, ex_settled)"
    unfolding ex_settled_def by (rule pair_result [OF ex_results(4)])
  have c: "consume_closed_loop ex_consumption ''alice'' ex_claimable = (Inr Applied, ex_consumed)"
    unfolding ex_consumed_def by (rule pair_result [OF ex_results(5)])
  have "account_step\<^sup>*\<^sup>* ex_consumed ex_done" using ex_steps(7,8) by simp
  then show ?thesis using settlement_and_consumption_once [OF s rtranclp.rtrancl_refl c] by blast
qed

section \<open>Operations that move value\<close>

text \<open>C6. A novation moves unbacked exposure between two issuers: the amount leaves one ledger and
  enters the other as accepted online, both issuers keep their policies and their other ledgers, every
  other issuer and the aggregate stay the same, and the target's new exposure is within its cap.\<close>

theorem novation_moves_credit:
  assumes "novate_peer_credit n q now a = (Inr (), a')"
    "bm_get (ca_novations a) (nv_novation_id n) = None"
  shows "ca_total_peer_credit_sat a' = ca_total_peer_credit_sat a
    \<and> (\<exists>src dst src' dst'. peer_credit a (nv_from_issuer n) = Inr src
        \<and> peer_credit a (nv_to_issuer n) = Inr dst
        \<and> peer_credit a' (nv_from_issuer n) = Inr src' \<and> peer_credit a' (nv_to_issuer n) = Inr dst'
        \<and> unat (pc_outstanding_sat src) = unat (pc_outstanding_sat src') + unat (nv_amount_sat n)
        \<and> unat (pc_outstanding_sat dst') = unat (pc_outstanding_sat dst) + unat (nv_amount_sat n)
        \<and> pc_offline_outstanding_sat dst' = pc_offline_outstanding_sat dst)
    \<and> (\<exists>ts ts'. bm_get (ca_issuers a) (nv_to_issuer n) = Some ts
        \<and> bm_get (ca_issuers a') (nv_to_issuer n) = Some ts'
        \<and> ts' = ts\<lparr>is_peer_credit := is_peer_credit ts'\<rparr>
        \<and> pc_outstanding_sat (is_peer_credit ts') \<le> ip_max_peer_credit_sat (is_policy ts))
    \<and> (\<exists>fs fs'. bm_get (ca_issuers a) (nv_from_issuer n) = Some fs
        \<and> bm_get (ca_issuers a') (nv_from_issuer n) = Some fs'
        \<and> fs' = fs\<lparr>is_peer_credit := is_peer_credit fs'\<rparr>)
    \<and> (\<forall>i. i \<noteq> nv_from_issuer n \<longrightarrow> i \<noteq> nv_to_issuer n \<longrightarrow>
          bm_get (ca_issuers a') i = bm_get (ca_issuers a) i)"
proof -
  from novate_peer_credit_effect [OF assms(1)] show ?thesis
  proof (elim disjE conjE exE, goal_cases)
    case (2 fs ts source target)
    have ne: "nv_from_issuer n \<noteq> nv_to_issuer n"
      using validate_novation_Inr [OF 2(3)] by (simp add: novation_ok_def)
    have get: "bm_get (ca_issuers a') = (bm_get (ca_issuers a))(nv_from_issuer n \<mapsto> fs\<lparr>is_peer_credit := source\<rparr>,
        nv_to_issuer n \<mapsto> ts\<lparr>is_peer_credit := target\<rparr>)"
      using 2(4,5,9) ne by (simp add: fun_eq_iff bm_get_bm_set)
    have sum_kept: "ca_total_peer_credit_sat a' = ca_total_peer_credit_sat a" using 2(9) by simp
    show ?thesis
      using 2(4-8) ne sum_kept
      by (auto simp: peer_credit_def issuer_def get pc_debit_Inr pc_credit_Inr word_unat_eq_iff)
  qed (use assms(2) in simp)
qed

theorem novation_moves_credit_witness:
  "ca_total_peer_credit_sat ex_novated = ca_total_peer_credit_sat ex_backed"
proof -
  have "novate_peer_credit ex_novation ''m2'' 12 ex_backed = (Inr (), ex_novated)"
    unfolding ex_novated_def by (rule pair_result [OF ex_results(3)])
  moreover have "bm_get (ca_novations ex_backed) (nv_novation_id ex_novation) = None" by code_simp
  ultimately show ?thesis using novation_moves_credit by blast
qed

end
