(* ===== verification/Credit_Lifecycle.thy ===== *)
theory Credit_Lifecycle
  imports Credit_Properties
begin

text \<open>
  The life of an external settlement: an authorization reserves amount and maximum fee, it can
  always be completed or cancelled, it is closed once, and the pending authorizations are exactly
  what the ledgers hold as pending. Then the revision, offline receipts and the creation of an
  account.
\<close>

lemma bm_set_set: "bm_set k v (bm_set k w m) = bm_set k v m"
  by (induction k w m rule: bm_set.induct) auto

lemma not_isl_obtain: "isl r = False \<Longrightarrow> \<exists>z. r = Inr z"
  by (cases r) auto

section \<open>A pending settlement is covered\<close>

lemma settlement_record:
  assumes "account_ok a" "bm_get (ca_settlements a) i = Some r"
  shows "settlement_ok (ca_counterparty a) (bm_keys (ca_issuers a)) i r"
  using assms bm_all_get by (fastforce simp: account_ok_def records_ok_def)

lemma pending_covered:
  assumes "account_ok a" "bm_get (ca_settlements a) i = Some r" "st_state r = Pending"
  obtains st where "bm_get (ca_issuers a) (xr_issuer (st_request r)) = Some st"
    "unat (xa_reserved_sat (st_authorization r)) =
       unat (xr_amount_sat (st_request r)) + unat (xr_max_fee_sat (st_request r))"
    "unat (xa_reserved_sat (st_authorization r)) \<le> unat (wr_pending_external_sat (is_withdrawable st))"
    "wr.conserved (is_withdrawable st)"
proof -
  have ok: "settlement_ok (ca_counterparty a) (bm_keys (ca_issuers a)) i r"
    using assms(1,2) by (rule settlement_record)
  then have "xr_issuer (st_request r) \<in> set (bm_keys (ca_issuers a))"
    unfolding settlement_ok_def Let_def by blast
  from key_get_some [OF this]
  obtain st where st: "bm_get (ca_issuers a) (xr_issuer (st_request r)) = Some st" ..
  have "pending_amount (xr_issuer (st_request r)) r \<le> pending_external a (xr_issuer (st_request r))"
    unfolding pending_external_def using assms(2) by (rule value_sum_ge)
  then have "unat (xa_reserved_sat (st_authorization r)) \<le> unat (wr_pending_external_sat (is_withdrawable st))"
    using account_ok_issuer(2) [OF assms(1) st] assms(3)
    by (simp add: pending_amount_def issuer_books_def)
  moreover have "unat (xa_reserved_sat (st_authorization r)) =
      unat (xr_amount_sat (st_request r)) + unat (xr_max_fee_sat (st_request r))"
    using ok unfolding settlement_ok_def Let_def by blast
  moreover have "wr.conserved (is_withdrawable st)"
    using account_ok_issuer(1) [OF assms(1) st] by (simp add: issuer_caps_def)
  ultimately show ?thesis using that st by blast
qed

section \<open>Closing a settlement\<close>

lemma conserved_sum:
  assumes "wr.conserved l"
  shows "unat (wr_redeemable_sat l) + unat (wr_pending_external_sat l)
    + unat (wr_settled_external_sat l) < 2 ^ 64"
  using assms u64_bound [of "wr_total_deposited_sat l"] by (simp add: wr.conserved_def)

lemma wr_complete_succeeds:
  assumes "wr.conserved l" "unat n \<le> unat (wr_pending_external_sat l)"
  shows "\<exists>l'. wr_complete n l = (Inr (), l')"
proof -
  have "unat (wr_settled_external_sat l) + unat n < 2 ^ 64" using conserved_sum [OF assms(1)] assms(2) by simp
  then show ?thesis using assms(2) by (simp add: wr_complete_def checked_add_def word_less_nat_alt)
qed

lemma wr_cancel_succeeds:
  assumes "wr.conserved l" "unat n \<le> unat (wr_pending_external_sat l)"
  shows "\<exists>l'. wr_cancel n l = (Inr (), l')"
proof -
  have "unat (wr_redeemable_sat l) + unat n < 2 ^ 64" using conserved_sum [OF assms(1)] assms(2) by simp
  then show ?thesis using assms(2) by (simp add: wr_cancel_def checked_add_def word_less_nat_alt)
qed

lemma complete_succeeds:
  assumes "account_ok a" "bm_get (ca_settlements a) i = Some r" "st_state r = Pending"
    and "revision_fits a" "fee \<le> xr_max_fee_sat (st_request r)"
  shows "\<exists>a'. complete_external_settlement i fee a = (Inr (), a')"
proof -
  let ?q = "st_request r"
  let ?unused = "xr_max_fee_sat ?q - fee"
  obtain st where st: "bm_get (ca_issuers a) (xr_issuer ?q) = Some st"
    and reserved: "unat (xa_reserved_sat (st_authorization r)) = unat (xr_amount_sat ?q) + unat (xr_max_fee_sat ?q)"
    and covered: "unat (xa_reserved_sat (st_authorization r)) \<le> unat (wr_pending_external_sat (is_withdrawable st))"
    and cons: "wr.conserved (is_withdrawable st)"
    using pending_covered [OF assms(1-3)] by blast
  have le: "unat fee \<le> unat (xr_max_fee_sat ?q)" using assms(5) by (simp add: word_le_nat_alt)
  then obtain spent where spent: "unat (spent :: u64) = unat (xr_amount_sat ?q) + unat fee"
    using word_of_bounded [of "unat (xr_amount_sat ?q) + unat fee" "xa_reserved_sat (st_authorization r)"]
      reserved by auto
  obtain l1 where l1: "wr_complete spent (is_withdrawable st) = (Inr (), l1)"
    using wr_complete_succeeds [OF cons] covered reserved spent le by fastforce
  have "unat ?unused = unat (xr_max_fee_sat ?q) - unat fee"
    using assms(5) by (simp add: unat_sub word_le_nat_alt)
  then have "\<exists>l2. wr_cancel ?unused l1 = (Inr (), l2)"
    using wr_cancel_succeeds [OF wr_payout_conserved(2) [OF cons l1]] l1 covered reserved spent le
    by (simp add: wr_complete_Inr)
  then obtain l2 where l2: "(if ?unused > 0 then wr_cancel ?unused l1 else (Inr (), l1)) = (Inr (), l2)"
    by (metis (full_types))
  have "checked_add (xr_amount_sat ?q) fee = Some spent"
    using spent by (simp add: u64_simps)
  then show ?thesis
    using assms(2-5) st l1 l2
    by (auto simp: complete_external_settlement_def Let_def result_simps linorder_not_less)
qed

lemma cancel_succeeds:
  assumes "account_ok a" "bm_get (ca_settlements a) i = Some r" "st_state r = Pending" "revision_fits a"
  shows "\<exists>a'. cancel_external_settlement i a = (Inr (), a')"
proof -
  obtain st where st: "bm_get (ca_issuers a) (xr_issuer (st_request r)) = Some st"
    and covered: "unat (xa_reserved_sat (st_authorization r)) \<le> unat (wr_pending_external_sat (is_withdrawable st))"
    and cons: "wr.conserved (is_withdrawable st)"
    using pending_covered [OF assms(1-3)] by blast
  then obtain l where "wr_cancel (xa_reserved_sat (st_authorization r)) (is_withdrawable st) = (Inr (), l)"
    using wr_cancel_succeeds by blast
  then show ?thesis using assms st by (auto simp: cancel_external_settlement_def result_simps)
qed

text \<open>C7. A pending payout can always be closed: on a valid account whose revision is not exhausted,
  completing it with any fee up to the authorized maximum succeeds, moves amount and fee from
  pending to settled and returns the unused fee to the holder; cancelling it succeeds and returns the
  whole reservation.\<close>

theorem pending_settlement_closes:
  assumes "account_ok a" "bm_get (ca_settlements a) i = Some r" "st_state r = Pending"
    and "unat (ca_revision a) + 1 < 2 ^ 64" "fee \<le> xr_max_fee_sat (st_request r)"
  shows "(\<exists>a' st l. complete_external_settlement i fee a = (Inr (), a')
      \<and> sat_reserve a (xr_issuer (st_request r)) = Inr st
      \<and> sat_reserve a' (xr_issuer (st_request r)) = Inr l
      \<and> unat (wr_pending_external_sat st) = unat (wr_pending_external_sat l)
          + unat (xr_amount_sat (st_request r)) + unat (xr_max_fee_sat (st_request r))
      \<and> unat (wr_settled_external_sat l) = unat (wr_settled_external_sat st)
          + unat (xr_amount_sat (st_request r)) + unat fee
      \<and> unat (wr_redeemable_sat l) = unat (wr_redeemable_sat st)
          + (unat (xr_max_fee_sat (st_request r)) - unat fee)
      \<and> bm_get (ca_settlements a') i = Some (r\<lparr>st_state := Completed fee\<rparr>))
    \<and> (\<exists>a' st l. cancel_external_settlement i a = (Inr (), a')
      \<and> sat_reserve a (xr_issuer (st_request r)) = Inr st
      \<and> sat_reserve a' (xr_issuer (st_request r)) = Inr l
      \<and> unat (wr_pending_external_sat st) = unat (wr_pending_external_sat l)
          + unat (xa_reserved_sat (st_authorization r))
      \<and> unat (wr_redeemable_sat l) = unat (wr_redeemable_sat st)
          + unat (xa_reserved_sat (st_authorization r))
      \<and> bm_get (ca_settlements a') i = Some (r\<lparr>st_state := Cancelled\<rparr>))"
    (is "?complete \<and> ?cancel")
proof
  let ?q = "st_request r"
  have rv: "revision_fits a" using assms(4) by (simp add: revision_fits_def)
  obtain a' where c: "complete_external_settlement i fee a = (Inr (), a')"
    using complete_succeeds [OF assms(1-3) rv assms(5)] by blast
  from complete_external_settlement_effect [OF c] assms(2,3) obtain st l where
    st: "bm_get (ca_issuers a) (xr_issuer ?q) = Some st"
    and l: "completed (xr_amount_sat ?q) (xr_max_fee_sat ?q) fee (is_withdrawable st) l"
    and a': "a' = a\<lparr>ca_issuers := bm_set (xr_issuer ?q) (st\<lparr>is_withdrawable := l\<rparr>) (ca_issuers a),
       ca_settlements := bm_set i (r\<lparr>st_state := Completed fee\<rparr>) (ca_settlements a),
       ca_revision := ca_revision a + 1\<rparr>"
    by auto
  have "sat_reserve a' (xr_issuer ?q) = Inr l" "sat_reserve a (xr_issuer ?q) = Inr (is_withdrawable st)"
    "bm_get (ca_settlements a') i = Some (r\<lparr>st_state := Completed fee\<rparr>)"
    unfolding a' using st assms(2) by (simp_all add: sat_reserve_def issuer_def bm_get_bm_set)
  then show ?complete using c l assms(5)
    by (intro exI [of _ a'] exI [of _ l] exI [of _ "is_withdrawable st"])
      (auto simp: completed_def word_le_nat_alt)
  obtain b where d: "cancel_external_settlement i a = (Inr (), b)"
    using cancel_succeeds [OF assms(1-3) rv] by blast
  from cancel_external_settlement_effect [OF d] assms(2,3) obtain st' k where
    st': "bm_get (ca_issuers a) (xr_issuer ?q) = Some st'"
    and k: "wr_cancel (xa_reserved_sat (st_authorization r)) (is_withdrawable st') = (Inr (), k)"
    and b: "b = a\<lparr>ca_issuers := bm_set (xr_issuer ?q) (st'\<lparr>is_withdrawable := k\<rparr>) (ca_issuers a),
       ca_settlements := bm_set i (r\<lparr>st_state := Cancelled\<rparr>) (ca_settlements a),
       ca_revision := ca_revision a + 1\<rparr>"
    by auto
  have "sat_reserve b (xr_issuer ?q) = Inr k" "sat_reserve a (xr_issuer ?q) = Inr (is_withdrawable st')"
    "bm_get (ca_settlements b) i = Some (r\<lparr>st_state := Cancelled\<rparr>)"
    unfolding b using st' assms(2) by (simp_all add: sat_reserve_def issuer_def bm_get_bm_set)
  then show ?cancel using d k
    by (intro exI [of _ b] exI [of _ k] exI [of _ "is_withdrawable st'"]) (auto simp: wr_cancel_Inr)
qed

theorem pending_settlement_closes_witness:
  "\<exists>a'. complete_external_settlement ''x1'' 2 ex_pending = (Inr (), a')
     \<and> (\<exists>l. sat_reserve a' ''m2'' = Inr l \<and> unat (wr_settled_external_sat l) = 42)"
proof -
  have ok: "account_ok ex_pending" using ex_reachable(1) by (rule reachable_account_ok)
  define r where "r = the (bm_get (ca_settlements ex_pending) ''x1'')"
  have r: "bm_get (ca_settlements ex_pending) ''x1'' = Some r"
    "st_state r = Pending" "xr_issuer (st_request r) = ''m2''" "xr_amount_sat (st_request r) = 40"
    "2 \<le> xr_max_fee_sat (st_request r)" "ca_revision ex_pending = 8"
    unfolding r_def by code_simp+
  then have "unat (ca_revision ex_pending) + 1 < 2 ^ 64" by simp
  from pending_settlement_closes [OF ok r(1,2) this r(5)]
  obtain a' st l where "complete_external_settlement ''x1'' 2 ex_pending = (Inr (), a')"
    "sat_reserve ex_pending ''m2'' = Inr st" "sat_reserve a' ''m2'' = Inr l"
    "unat (wr_settled_external_sat l) = unat (wr_settled_external_sat st) + 40 + 2"
    unfolding r(3,4) by auto
  moreover have "sat_reserve ex_pending ''m2'' = Inr x \<Longrightarrow> wr_settled_external_sat x = 0" for x
  proof -
    have "map_sum id wr_settled_external_sat (sat_reserve ex_pending ''m2'') = Inr 0" by code_simp
    then show "sat_reserve ex_pending ''m2'' = Inr x \<Longrightarrow> wr_settled_external_sat x = 0" by simp
  qed
  ultimately show ?thesis by auto
qed

text \<open>C8. Authorizing a payout and cancelling it leaves every ledger of the account as it was: the
  reservation comes back to the holder in full. Only the record, now cancelled, and the revision, two
  calls further, differ: every other settlement, receipt, deposit, novation and event is as before.\<close>

theorem authorize_then_cancel_restores:
  assumes "bm_get (ca_settlements a) (xr_settlement_id q) = None"
    and "authorize_external_settlement q auth now a = (Inr z, b)"
    and "cancel_external_settlement (xr_settlement_id q) b = (Inr (), c)"
  shows "ca_issuers c = ca_issuers a \<and> ca_total_peer_credit_sat c = ca_total_peer_credit_sat a
    \<and> c = a\<lparr>ca_settlements := ca_settlements c, ca_revision := ca_revision a + 2\<rparr>
    \<and> (\<forall>k. k \<noteq> xr_settlement_id q \<longrightarrow> bm_get (ca_settlements c) k = bm_get (ca_settlements a) k)
    \<and> unat (xa_reserved_sat z) = unat (xr_amount_sat q) + unat (xr_max_fee_sat q)
    \<and> (\<exists>r. bm_get (ca_settlements c) (xr_settlement_id q) = Some r
          \<and> st_request r = q \<and> st_authorization r = z \<and> st_state r = Cancelled)"
proof -
  from authorize_external_settlement_effect [OF assms(2)] assms(1) obtain n st l where
    n: "unat n = unat (xr_amount_sat q) + unat (xr_max_fee_sat q)" and z: "z = authorization_of q n now"
    and st: "bm_get (ca_issuers a) (xr_issuer q) = Some st"
    and l: "wr_authorize n (is_withdrawable st) = (Inr (), l)"
    and b: "b = a\<lparr>ca_issuers := bm_set (xr_issuer q) (st\<lparr>is_withdrawable := l\<rparr>) (ca_issuers a),
       ca_settlements := bm_insert (xr_settlement_id q) \<lparr>st_request = q, st_authorization = z, st_state = Pending\<rparr>
         (ca_settlements a), ca_revision := ca_revision a + 1\<rparr>"
    by auto
  let ?r = "\<lparr>st_request = q, st_authorization = z, st_state = Pending\<rparr>"
  have rec: "bm_get (ca_settlements b) (xr_settlement_id q) = Some ?r"
    and here: "bm_get (ca_issuers b) (xr_issuer q) = Some (st\<lparr>is_withdrawable := l\<rparr>)"
    unfolding b using st by (simp_all add: bm_get_bm_set)
  from cancel_external_settlement_effect [OF assms(3)] rec here obtain k where
    k: "wr_cancel n l = (Inr (), k)"
    and c: "c = b\<lparr>ca_issuers := bm_set (xr_issuer q) (st\<lparr>is_withdrawable := k\<rparr>) (ca_issuers b),
       ca_settlements := bm_set (xr_settlement_id q) (?r\<lparr>st_state := Cancelled\<rparr>) (ca_settlements b),
       ca_revision := ca_revision b + 1\<rparr>"
    by (auto simp: z authorization_of_def)
  have "k = is_withdrawable st"
    using l k by (cases k; cases "is_withdrawable st") (auto simp: wr_authorize_Inr wr_cancel_Inr word_unat_eq_iff)
  then have "ca_issuers c = ca_issuers a"
    unfolding c b using st by (simp add: bm_set_set bm_set_same)
  moreover have "bm_get (ca_settlements c) (xr_settlement_id q) = Some (?r\<lparr>st_state := Cancelled\<rparr>)"
    unfolding c using rec by (simp add: bm_get_bm_set)
  moreover have "ca_total_peer_credit_sat c = ca_total_peer_credit_sat a" unfolding c b by simp
  moreover have "c = a\<lparr>ca_settlements := ca_settlements c, ca_revision := ca_revision a + 2\<rparr>"
    using \<open>ca_issuers c = ca_issuers a\<close> unfolding c b by simp
  moreover have "bm_get (ca_settlements c) k = bm_get (ca_settlements a) k" if "k \<noteq> xr_settlement_id q" for k
    using that rec unfolding c b by (simp add: bm_get_bm_set)
  ultimately show ?thesis using n by (simp add: z authorization_of_def)
qed

theorem authorize_then_cancel_restores_witness:
  "ca_issuers (snd (cancel_external_settlement ''x1'' ex_pending)) = ca_issuers ex_consumed"
proof -
  have fresh: "bm_get (ca_settlements ex_consumed) (xr_settlement_id ex_request) = None" by code_simp
  have "isl (fst (authorize_external_settlement ex_request ''alice'' 12 ex_consumed)) = False" by code_simp
  then obtain z where "fst (authorize_external_settlement ex_request ''alice'' 12 ex_consumed) = Inr z"
    using not_isl_obtain by blast
  from pair_result [OF this]
  have auth: "authorize_external_settlement ex_request ''alice'' 12 ex_consumed = (Inr z, ex_pending)"
    unfolding ex_pending_def .
  have "fst (cancel_external_settlement (xr_settlement_id ex_request) ex_pending) = Inr ()" by code_simp
  from authorize_then_cancel_restores [OF fresh auth pair_result [OF this]]
  show ?thesis by (simp add: ex_request_def)
qed

section \<open>Closed settlements stay closed\<close>

lemma run_settlement:
  assumes "account_step\<^sup>*\<^sup>* a b" "bm_get (ca_settlements a) i = Some r"
  obtains r' where "bm_get (ca_settlements b) i = Some r'" "settlement_le r r'"
  using run_grows [OF assms(1)] assms(2) unfolding grows_def settlements_le_def by blast

text \<open>C9. A payout is closed once and for good: after any further calls a completed settlement is
  still completed with the same fee, so completing it again with that fee is a no-op and with any
  other fee, or cancelling it, is refused; a cancelled one can never be completed.\<close>

theorem closed_settlement_is_final:
  assumes "account_step\<^sup>*\<^sup>* a b" "bm_get (ca_settlements a) i = Some r"
  shows "(st_state r = Completed fee \<longrightarrow>
        complete_external_settlement i fee b = (Inr (), b)
        \<and> (\<forall>fee'. fee' \<noteq> fee \<longrightarrow> complete_external_settlement i fee' b = (Inl SettlementCompletionConflict, b))
        \<and> cancel_external_settlement i b = (Inl SettlementCompleted, b))
    \<and> (st_state r = Cancelled \<longrightarrow>
        cancel_external_settlement i b = (Inr (), b)
        \<and> (\<forall>fee'. complete_external_settlement i fee' b = (Inl SettlementCancelled, b)))"
proof -
  obtain r' where r': "bm_get (ca_settlements b) i = Some r'" "settlement_le r r'"
    using assms by (rule run_settlement)
  then show ?thesis
    by (auto simp: settlement_le_def complete_external_settlement_def cancel_external_settlement_def)
qed

theorem closed_settlement_is_final_witness:
  "complete_external_settlement ''x1'' 5 ex_done = (Inl SettlementCompletionConflict, ex_done)
   \<and> cancel_external_settlement ''x1'' ex_done = (Inl SettlementCompleted, ex_done)"
proof -
  define r where "r = the (bm_get (ca_settlements ex_done) ''x1'')"
  have "bm_get (ca_settlements ex_done) ''x1'' = Some r" "st_state r = Completed 2"
    unfolding r_def by code_simp+
  then show ?thesis using closed_settlement_is_final [OF rtranclp.rtrancl_refl, of ex_done "''x1''" r 2] by simp
qed

section \<open>Recovery sees every pending payout\<close>

lemma pending_list_sum:
  "sum_list (map (\<lambda>z. unat (xa_reserved_sat z)) (filter (\<lambda>z. xa_issuer z = i)
      (map st_authorization (filter (\<lambda>r. st_state r = Pending) (bm_values m))))) = value_sum (pending_amount i) m"
  if "list_all (\<lambda>(k, r). xa_issuer (st_authorization r) = xr_issuer (st_request r)) m"
  using that by (induction m) (auto simp: pending_amount_def)

lemma pending_list_ids:
  "list_all (\<lambda>(k, r). xa_settlement_id (st_authorization r) = k) m \<Longrightarrow>
     map xa_settlement_id (map st_authorization (filter (\<lambda>r. st_state r = Pending) (bm_values m)))
       = map fst (filter (\<lambda>(k, r). st_state r = Pending) m)"
  by (induction m) auto

lemma sorted_pending: "bm_wf m \<Longrightarrow> sorted_wrt (<) (map fst (filter P m))"
  by (simp add: bm_wf_def sorted_wrt_map sorted_wrt_filter)

lemma pending_authorization_iff:
  assumes "bm_wf (ca_settlements a)"
  shows "z \<in> set (pending_external_settlement_authorizations a) \<longleftrightarrow>
    (\<exists>i r. bm_get (ca_settlements a) i = Some r \<and> st_state r = Pending \<and> st_authorization r = z)"
proof -
  have "r \<in> snd ` set (ca_settlements a) \<longleftrightarrow> (\<exists>i. bm_get (ca_settlements a) i = Some r)" for r
    using bm_wf_distinct [OF assms] by (force simp: map_of_eq_Some_iff)
  then show ?thesis by (auto simp: pending_external_settlement_authorizations_def)
qed

text \<open>The authorizations a restarted worker enumerates are exactly the pending payouts, in the
  order of their identifiers and each once, and per issuer their reservations add up to what the
  ledger holds as pending: no reserved value is forgotten and none is paid that is not reserved.\<close>

theorem pending_authorizations_match_ledger:
  assumes "account_reachable a" "bm_get (ca_issuers a) i = Some st"
  shows "sum_list (map (\<lambda>z. unat (xa_reserved_sat z))
        (filter (\<lambda>z. xa_issuer z = i) (pending_external_settlement_authorizations a)))
      = unat (wr_pending_external_sat (is_withdrawable st))
    \<and> sorted_wrt (<) (map xa_settlement_id (pending_external_settlement_authorizations a))
    \<and> (\<forall>z. z \<in> set (pending_external_settlement_authorizations a) \<longleftrightarrow>
        (\<exists>r. bm_get (ca_settlements a) (xa_settlement_id z) = Some r
           \<and> st_state r = Pending \<and> st_authorization r = z))"
proof -
  have ok: "account_ok a" using assms(1) by (rule reachable_account_ok)
  have wf: "bm_wf (ca_settlements a)" using account_okD(1) [OF ok] by (simp add: shape_ok_def)
  have id: "xa_issuer (st_authorization r) = xr_issuer (st_request r)"
      "xa_settlement_id (st_authorization r) = k" if "(k, r) \<in> set (ca_settlements a)" for k r
  proof -
    have "bm_get (ca_settlements a) k = Some r"
      using that bm_wf_distinct [OF wf] by (simp add: map_of_eq_Some_iff)
    from settlement_record [OF ok this]
    have k: "k = xr_settlement_id (st_request r)"
      and z: "st_authorization r = authorization_of (st_request r) (xa_reserved_sat (st_authorization r))
         (xa_authorized_at_unix (st_authorization r))"
      unfolding settlement_ok_def Let_def by blast+
    show "xa_issuer (st_authorization r) = xr_issuer (st_request r)"
      "xa_settlement_id (st_authorization r) = k"
      unfolding k by (subst z, simp add: authorization_of_def)+
  qed
  have "map xa_settlement_id (pending_external_settlement_authorizations a)
      = map fst (filter (\<lambda>(k, r). st_state r = Pending) (ca_settlements a))"
    unfolding pending_external_settlement_authorizations_def
    by (rule pending_list_ids) (use id(2) in \<open>simp add: list_all_iff split_beta\<close>)
  then have "sorted_wrt (<) (map xa_settlement_id (pending_external_settlement_authorizations a))"
    using sorted_pending [OF wf] by (simp only:)
  moreover have "sum_list (map (\<lambda>z. unat (xa_reserved_sat z))
        (filter (\<lambda>z. xa_issuer z = i) (pending_external_settlement_authorizations a)))
      = unat (wr_pending_external_sat (is_withdrawable st))"
    unfolding pending_external_settlement_authorizations_def
    using pending_list_sum [of "ca_settlements a" i, unfolded list_all_iff] id(1) account_ok_issuer(2) [OF ok assms(2)]
    by (auto simp: issuer_books_def pending_external_def)
  moreover have "z \<in> set (pending_external_settlement_authorizations a) \<longleftrightarrow>
      (\<exists>r. bm_get (ca_settlements a) (xa_settlement_id z) = Some r
         \<and> st_state r = Pending \<and> st_authorization r = z)" for z
    unfolding pending_authorization_iff [OF wf] using id(2) [OF map_of_SomeD] by blast
  ultimately show ?thesis by blast
qed

theorem pending_authorizations_match_ledger_witness:
  "sum_list (map (\<lambda>z. unat (xa_reserved_sat z))
     (filter (\<lambda>z. xa_issuer z = ''m2'') (pending_external_settlement_authorizations ex_pending))) = 45"
proof -
  define st where "st = the (bm_get (ca_issuers ex_pending) ''m2'')"
  have "bm_get (ca_issuers ex_pending) ''m2'' = Some st" "wr_pending_external_sat (is_withdrawable st) = 45"
    unfolding st_def by code_simp+
  then show ?thesis using pending_authorizations_match_ledger [OF ex_reachable(1)] by simp
qed

end
