(* ===== verification/Credit_Operations.thy ===== *)
theory Credit_Operations
  imports Credit_Lifecycle
begin

text \<open>
  The revision as a version number of the account, the exact effect of a backed settlement and of a
  receipt, and which policies open an account.
\<close>

section \<open>The revision\<close>

definition advances :: "CreditAccount \<Rightarrow> CreditAccount \<Rightarrow> bool" where
  "advances a a' \<longleftrightarrow> a' = a \<or> unat (ca_revision a') = unat (ca_revision a) + 1"

lemma advances_refl: "advances a a"
  by (simp add: advances_def)

lemma advances_record: "revision_fits a \<Longrightarrow> ca_revision a' = ca_revision a + 1 \<Longrightarrow> advances a a'"
  by (simp add: advances_def revision_step)

lemma step_advances:
  assumes "account_step a a'"
  shows "advances a a'"
  using assms
proof cases
  case (deposit d auth r1)
  then show ?thesis
    by (cases r1) (auto simp: advances_refl intro: advances_record
        dest!: record_backing_deposit_error record_backing_deposit_effect)
next
  case (receipt c auth m now r2)
  then show ?thesis
    by (cases r2) (auto simp: advances_refl intro: advances_record
        dest!: apply_receipt_error apply_receipt_effect)
next
  case (novate n auth now r3)
  then show ?thesis
    by (cases r3) (auto simp: advances_refl intro: advances_record
        dest!: novate_peer_credit_error novate_peer_credit_effect)
next
  case (settle s auth now r4)
  then show ?thesis
    by (cases r4) (auto simp: advances_refl intro: advances_record
        dest!: settle_peer_credit_with_backing_error settle_peer_credit_with_backing_effect)
next
  case (consume u auth r5)
  then show ?thesis
    by (cases r5) (auto simp: advances_refl intro: advances_record
        dest!: consume_closed_loop_error consume_closed_loop_effect)
next
  case (authorize q auth now r6)
  then show ?thesis
    by (cases r6) (auto simp: advances_refl intro: advances_record
        dest!: authorize_external_settlement_error authorize_external_settlement_effect)
next
  case (complete i fee r7)
  then show ?thesis
    by (cases r7) (auto simp: advances_refl intro: advances_record
        dest!: complete_external_settlement_error complete_external_settlement_effect)
next
  case (cancel i r8)
  then show ?thesis
    by (cases r8) (auto simp: advances_refl intro: advances_record
        dest!: cancel_external_settlement_error cancel_external_settlement_effect)
qed

lemma run_revision:
  assumes "account_step\<^sup>*\<^sup>* a b"
  shows "b = a \<or> unat (ca_revision a) < unat (ca_revision b)"
  using assms
proof (induction rule: rtranclp_induct)
  case (step b c)
  then show ?case using step_advances [of b c] by (auto simp: advances_def)
qed simp

text \<open>C10. The revision identifies the state: a call either leaves the account exactly as it is or
  advances the revision by one without wrapping, so two accounts of one history with the same
  revision are equal, and the revision is the number of operations and closures recorded.\<close>

theorem revision_identifies_state:
  assumes "account_reachable a" "account_step\<^sup>*\<^sup>* a b"
  shows "(ca_revision b = ca_revision a \<longleftrightarrow> b = a)
    \<and> (\<forall>c. account_step b c \<longrightarrow> c = b \<or> unat (ca_revision c) = unat (ca_revision b) + 1)
    \<and> unat (ca_revision a) = operation_count a"
proof -
  have "unat (ca_revision a) = operation_count a"
    using account_okD(5) [OF reachable_account_ok [OF assms(1)]] by (simp add: revision_ok_def)
  moreover have "ca_revision b = ca_revision a \<longleftrightarrow> b = a" using run_revision [OF assms(2)] by auto
  moreover have "\<forall>c. account_step b c \<longrightarrow> c = b \<or> unat (ca_revision c) = unat (ca_revision b) + 1"
    using step_advances by (auto simp: advances_def)
  ultimately show ?thesis by blast
qed

theorem revision_identifies_state_witness:
  "unat (ca_revision ex_pending) = operation_count ex_pending \<and> ca_revision ex_done \<noteq> ca_revision ex_pending"
proof -
  have "ca_revision ex_done \<noteq> ca_revision ex_pending" by code_simp
  then show ?thesis using revision_identifies_state [OF ex_reachable(1) ex_runs(4)] by blast
qed

section \<open>Backed settlements\<close>

lemma settle_issuers:
  assumes "settle_peer_credit_with_backing s auth now a = (Inr Applied, a')"
  obtains fs st st' source where
    "bm_get (ca_issuers a) (bs_from_issuer s) = Some fs"
    "bm_get (ca_issuers a) (bs_backing_issuer s) = Some st"
    "pc_debit (bs_amount_sat s) (is_peer_credit fs) = (Inr (), source)"
    "allocated (bs_value_class s) (bs_amount_sat s) st st'"
    "unat (ca_total_peer_credit_sat a) = unat (ca_total_peer_credit_sat a') + unat (bs_amount_sat s)"
    "map_option is_peer_credit (bm_get (ca_issuers a') (bs_from_issuer s)) = Some source"
    "map_option (\<lambda>x. (is_closed_loop x, is_withdrawable x)) (bm_get (ca_issuers a') (bs_backing_issuer s))
       = Some (is_closed_loop st', is_withdrawable st')"
    "\<And>i. i \<noteq> bs_from_issuer s \<Longrightarrow> i \<noteq> bs_backing_issuer s \<Longrightarrow> bm_get (ca_issuers a') i = bm_get (ca_issuers a) i"
proof -
  from settle_peer_credit_with_backing_effect [OF assms] show ?thesis
  proof (elim disjE conjE exE, goal_cases)
    case (2 fs st st' mid source t)
    have issuers: "ca_issuers a' = bm_set (bs_from_issuer s) (mid\<lparr>is_peer_credit := source\<rparr>)
        (bm_set (bs_backing_issuer s) st' (ca_issuers a))" and t: "ca_total_peer_credit_sat a' = t"
      unfolding 2(11) by simp_all
    have mid: "is_closed_loop mid = is_closed_loop st' \<and> is_withdrawable mid = is_withdrawable st'"
      if "bs_from_issuer s = bs_backing_issuer s"
      using 2(8,10) that by (simp add: bm_get_bm_set)
    show ?thesis
      by (rule that [OF 2(5,8,6,9)])
        (use 2(5,7,8,10) mid in \<open>auto simp: issuers t bm_get_bm_set\<close>)
  qed simp
qed

text \<open>C11. Settling peer credit with backing turns unbacked exposure into a funded claim of the same
  amount: the payer's outstanding credit and the aggregate fall by it, the backing issuer's ledger of
  the chosen class moves it from its free deposits to the holder's claim within the class cap, and no
  other issuer changes.\<close>

theorem backed_settlement_exact:
  assumes "settle_peer_credit_with_backing s auth now a = (Inr Applied, a')"
  shows "unat (ca_total_peer_credit_sat a) = unat (ca_total_peer_credit_sat a') + unat (bs_amount_sat s)
    \<and> (\<exists>src src'. peer_credit a (bs_from_issuer s) = Inr src \<and> peer_credit a' (bs_from_issuer s) = Inr src'
        \<and> unat (pc_outstanding_sat src) = unat (pc_outstanding_sat src') + unat (bs_amount_sat s))
    \<and> (bs_value_class s = ClosedLoopDeposit \<and>
        (\<exists>l l' p. closed_loop a (bs_backing_issuer s) = Inr l \<and> closed_loop a' (bs_backing_issuer s) = Inr l'
          \<and> map_sum id is_policy (issuer a (bs_backing_issuer s)) = Inr p
          \<and> unat (cl_available_backing_sat l) = unat (cl_available_backing_sat l') + unat (bs_amount_sat s)
          \<and> unat (cl_claimable_sat l') = unat (cl_claimable_sat l) + unat (bs_amount_sat s)
          \<and> cl_claimable_sat l' \<le> ip_max_closed_loop_sat p)
      \<or> bs_value_class s = ReserveBackedWithdrawable \<and>
        (\<exists>l l' p. sat_reserve a (bs_backing_issuer s) = Inr l \<and> sat_reserve a' (bs_backing_issuer s) = Inr l'
          \<and> map_sum id is_policy (issuer a (bs_backing_issuer s)) = Inr p
          \<and> unat (wr_available_sat l) = unat (wr_available_sat l') + unat (bs_amount_sat s)
          \<and> unat (wr_redeemable_sat l') = unat (wr_redeemable_sat l) + unat (bs_amount_sat s)
          \<and> unat (wr_redeemable_sat l') + unat (wr_pending_external_sat l') \<le> unat (ip_max_withdrawable_sat p)))
    \<and> (\<forall>i. i \<noteq> bs_from_issuer s \<longrightarrow> i \<noteq> bs_backing_issuer s \<longrightarrow>
        bm_get (ca_issuers a') i = bm_get (ca_issuers a) i)"
  using assms
proof (rule settle_issuers, goal_cases)
  case (1 fs st st' source)
  obtain fx bx where
    fx: "bm_get (ca_issuers a') (bs_from_issuer s) = Some fx" "is_peer_credit fx = source"
    and bx: "bm_get (ca_issuers a') (bs_backing_issuer s) = Some bx"
      "is_closed_loop bx = is_closed_loop st'" "is_withdrawable bx = is_withdrawable st'"
    using 1(6,7) by auto
  have peer: "\<exists>src src'. peer_credit a (bs_from_issuer s) = Inr src \<and> peer_credit a' (bs_from_issuer s) = Inr src'
        \<and> unat (pc_outstanding_sat src) = unat (pc_outstanding_sat src') + unat (bs_amount_sat s)"
    using 1(1,3) fx by (simp add: peer_credit_def issuer_def pc_debit_Inr)
  from 1(4) show ?case
  proof (cases rule: allocated_cases)
    case (closed_loop c)
    then show ?thesis
      using peer 1(2,5,8) bx
      by (auto simp: closed_loop_def issuer_def cl_allocate_Inr word_le_nat_alt)
  next
    case (withdrawable w)
    then show ?thesis
      using peer 1(2,5,8) bx
      by (auto simp: sat_reserve_def issuer_def wr_allocate_Inr word_le_nat_alt)
  qed
qed

theorem backed_settlement_exact_witness:
  "unat (ca_total_peer_credit_sat ex_novated) = unat (ca_total_peer_credit_sat ex_settled) + 60"
proof -
  have "settle_peer_credit_with_backing ex_settlement ''m2'' 12 ex_novated = (Inr Applied, ex_settled)"
    unfolding ex_settled_def by (rule pair_result [OF ex_results(4)])
  from backed_settlement_exact [OF this] show ?thesis by (simp add: ex_settlement_def)
qed

section \<open>Receipts\<close>

text \<open>Only unbacked peer credit is accepted without live verification, and only up to the
  issuer's offline cap: an applied offline receipt is peer credit and raises the offline exposure of
  its issuer by its amount, within the cap.\<close>

theorem offline_receipts_are_peer_credit:
  assumes "apply_receipt c auth OfflineDeferred now a = (Inr Applied, a')"
  shows "sr_value_class c = PeerCredit
    \<and> (\<exists>l l' p. peer_credit a (sr_issuer c) = Inr l \<and> peer_credit a' (sr_issuer c) = Inr l'
        \<and> map_sum id is_policy (issuer a (sr_issuer c)) = Inr p
        \<and> unat (pc_offline_outstanding_sat l') = unat (pc_offline_outstanding_sat l) + unat (sr_amount_sat c)
        \<and> unat (pc_outstanding_sat l') = unat (pc_outstanding_sat l) + unat (sr_amount_sat c)
        \<and> pc_offline_outstanding_sat l' \<le> ip_max_offline_peer_credit_sat p)
    \<and> unat (ca_total_peer_credit_sat a') = unat (ca_total_peer_credit_sat a) + unat (sr_amount_sat c)"
proof -
  from apply_receipt_effect [OF assms] show ?thesis
  proof (elim disjE conjE exE, goal_cases)
    case (2 st l t)
    have "bm_get (ca_issuers a') (sr_issuer c) = Some (st\<lparr>is_peer_credit := l\<rparr>)"
      "ca_total_peer_credit_sat a' = t"
      unfolding 2(12) using 2(6) by (simp_all add: bm_get_bm_set)
    then show ?thesis using 2(5-10) by (auto simp: peer_credit_def issuer_def pc_credit_Inr)
  qed simp_all
qed

theorem offline_receipts_are_peer_credit_witness:
  "sr_value_class ex_receipt = PeerCredit \<and> unat (ca_total_peer_credit_sat ex_credited) = 90"
proof -
  have "apply_receipt ex_receipt ''m1'' OfflineDeferred 12 ex_new = (Inr Applied, ex_credited)"
    unfolding ex_credited_def by (rule pair_result [OF ex_results(1)])
  moreover have "ca_total_peer_credit_sat ex_new = 0" by code_simp
  ultimately show ?thesis
    using offline_receipts_are_peer_credit [of ex_receipt "''m1''" 12 ex_new ex_credited]
    by (simp add: ex_receipt_def)
qed

section \<open>Opening an account\<close>

lemma add_issuers_iff:
  "(\<exists>m'. try_fold add_issuer ps m = Inr m') \<longleftrightarrow>
     list_all (\<lambda>p. \<not> is_blank (ip_issuer p) \<and> ip_max_offline_peer_credit_sat p \<le> ip_max_peer_credit_sat p) ps
     \<and> distinct (map ip_issuer ps) \<and> list_all (\<lambda>p. bm_get m (ip_issuer p) = None) ps"
proof (induction ps arbitrary: m)
  case (Cons p ps)
  let ?m = "bm_insert (ip_issuer p) (issuer_state_new p) m"
  have fresh: "list_all (\<lambda>q. bm_get ?m (ip_issuer q) = None) ps \<longleftrightarrow>
      ip_issuer p \<notin> set (map ip_issuer ps) \<and> list_all (\<lambda>q. bm_get m (ip_issuer q) = None) ps"
    by (auto simp: list_all_iff image_iff)
  have "(\<exists>m'. try_fold add_issuer (p # ps) m = Inr m') \<longleftrightarrow>
      (\<exists>m1. add_issuer p m = Inr m1 \<and> (\<exists>m'. try_fold add_issuer ps m1 = Inr m'))"
    by (auto simp: and_then_eq)
  also have "\<dots> \<longleftrightarrow> \<not> is_blank (ip_issuer p) \<and> ip_max_offline_peer_credit_sat p \<le> ip_max_peer_credit_sat p
      \<and> bm_get m (ip_issuer p) = None \<and> (\<exists>m'. try_fold add_issuer ps ?m = Inr m')"
    unfolding add_issuer_Inr by blast
  finally show ?case unfolding Cons fresh by auto
qed simp

text \<open>An account opens exactly for policies with a named counterparty and at least one issuer,
  distinct named issuers, and offline caps within the issuers' caps; a repeated issuer or a blank name
  never replaces an entry silently.\<close>

theorem account_opens_iff:
  "(\<exists>a. account_new p = Inr a) \<longleftrightarrow>
     \<not> is_blank (ap_counterparty p) \<and> ap_issuers p \<noteq> [] \<and> distinct (map ip_issuer (ap_issuers p))
     \<and> list_all (\<lambda>q. \<not> is_blank (ip_issuer q)
          \<and> ip_max_offline_peer_credit_sat q \<le> ip_max_peer_credit_sat q) (ap_issuers p)"
proof -
  have "(\<exists>a. account_new p = Inr a) \<longleftrightarrow> \<not> is_blank (ap_counterparty p) \<and> ap_issuers p \<noteq> []
      \<and> (\<exists>m. try_fold add_issuer (ap_issuers p) [] = Inr m)"
    by (auto simp: account_new_def result_simps)
  then show ?thesis unfolding add_issuers_iff by (auto simp: list_all_iff)
qed

end
