(* ===== verification/Credit_Recovery.thy ===== *)
theory Credit_Recovery
  imports Credit_Operations
begin

text \<open>
  Saving and restoring an account: a snapshot that passes validation restores to a valid account
  that saves back to the same snapshot; an account restores from its own snapshot exactly when
  the gross peer credit of every issuer fits the 64-bit sums of the validator; and a reachable
  account for which it does not.
\<close>

section \<open>Restoring\<close>

text \<open>C12. Restoration never admits a forged state: whatever snapshot is presented, if it is accepted
  then the restored account satisfies the whole account invariant and saves back to exactly the
  snapshot that was presented.\<close>

theorem restored_account_is_valid:
  assumes "snapshot_wf s" "from_snapshot s = Inr a"
  shows "account_ok a \<and> snapshot a = s"
  using from_snapshot_sound [OF assms] restored(2) [OF assms] by blast

lemma ex_snapshot_wf: "snapshot_wf (snapshot ex_done)"
  unfolding snapshot_wf_def bm_wf_def by (intro conjI; code_simp)

theorem restored_account_is_valid_witness: "account_ok ex_done \<and> from_snapshot (snapshot ex_done) = Inr ex_done"
  using restored_account_is_valid [OF ex_snapshot_wf ex_restored] ex_restored by blast

text \<open>C13. Round trip: a reachable account is restored unchanged from its snapshot exactly when, for
  every issuer, the sum of all peer credit it was ever granted fits 64 bits.\<close>

theorem snapshot_round_trip:
  assumes "account_reachable a"
  shows "from_snapshot (snapshot a) = Inr a \<longleftrightarrow>
    list_all (\<lambda>i. peer_credits a i < 2 ^ 64) (bm_keys (ca_issuers a))"
  using from_snapshot_complete [OF reachable_account_ok [OF assms]] by (simp add: gross_credit_fits_def)

theorem snapshot_round_trip_witness:
  "list_all (\<lambda>i. peer_credits ex_done i < 2 ^ 64) (bm_keys (ca_issuers ex_done))"
  using snapshot_round_trip [OF ex_reachable(2)] ex_restored by blast

text \<open>JSON round trip: when the serializer and the parser invert each other on the snapshot of a
  reachable account, decoding the encoded snapshot yields it back and restores the account, provided
  its gross credits fit; a text that decodes always restores.\<close>

theorem json_round_trip:
  assumes "account_reachable a" "to_string (snapshot a) = Inr j" "from_str j = Inr (snapshot a)"
    and "list_all (\<lambda>i. peer_credits a i < 2 ^ 64) (bm_keys (ca_issuers a))"
  shows "encode_json to_string (snapshot a) = Inr j
    \<and> decode_json from_str j = Inr (snapshot a) \<and> from_snapshot (snapshot a) = Inr a"
proof -
  have r: "from_snapshot (snapshot a) = Inr a"
    using from_snapshot_complete [OF reachable_account_ok [OF assms(1)]] assms(4)
    by (simp add: gross_credit_fits_def)
  then have "validate (snapshot a) = Inr ()" by (auto simp: from_snapshot_def and_then_eq)
  with r assms(2,3) show ?thesis by (simp add: encode_json_def decode_json_def)
qed

definition ex_from_str :: "string \<Rightarrow> string + CreditAccountSnapshotV1" where
  "ex_from_str j = (if j = ''{1}'' then Inr (snapshot ex_done) else Inl ''not an account'')"

theorem json_round_trip_witness: "decode_json ex_from_str ''{1}'' = Inr (snapshot ex_done)"
proof -
  have fits: "list_all (\<lambda>i. peer_credits ex_done i < 2 ^ 64) (bm_keys (ca_issuers ex_done))"
    using from_snapshot_complete [OF reachable_account_ok [OF ex_reachable(2)]] ex_restored
    by (simp add: gross_credit_fits_def)
  show ?thesis
    using json_round_trip [where to_string = "\<lambda>_. Inr ''{1}'' :: string + string" and j = "''{1}''"
        and from_str = ex_from_str, OF ex_reachable(2) _ _ fits]
    by (simp add: ex_from_str_def)
qed

section \<open>A reachable account that cannot be restored\<close>

definition big_issuer :: "string \<Rightarrow> IssuerPolicy" where
  "big_issuer i = (ex_issuer i)\<lparr>ip_max_peer_credit_sat := 0xFFFFFFFFFFFFFFFF\<rparr>"

definition big_policy :: AccountPolicy where
  "big_policy = \<lparr>ap_counterparty = ''alice'', ap_max_total_peer_credit_sat = 0xFFFFFFFFFFFFFFFF,
     ap_issuers = [big_issuer ''m1'', big_issuer ''m2'']\<rparr>"

definition big_receipt :: ServiceReceiptClaim where
  "big_receipt = ex_receipt\<lparr>sr_amount_sat := 0x8000000000000000\<rparr>"

definition big_novation :: "string \<Rightarrow> string \<Rightarrow> string \<Rightarrow> CreditNovation" where
  "big_novation n i j = \<lparr>nv_novation_id = n, nv_counterparty = ''alice'', nv_from_issuer = i,
     nv_to_issuer = j, nv_amount_sat = 0x8000000000000000, nv_expires_at_unix = 20\<rparr>"

definition big_new :: CreditAccount where
  "big_new = projr (account_new big_policy)"

definition big_credited :: CreditAccount where
  "big_credited = snd (apply_receipt big_receipt ''m1'' Online 12 big_new)"

definition big_moved :: CreditAccount where
  "big_moved = snd (novate_peer_credit (big_novation ''n1'' ''m1'' ''m2'') ''m2'' 12 big_credited)"

definition big_returned :: CreditAccount where
  "big_returned = snd (novate_peer_credit (big_novation ''n2'' ''m2'' ''m1'') ''m1'' 12 big_moved)"

lemma big_reachable: "account_reachable big_returned"
proof -
  have "account_new big_policy = Inr big_new" by code_simp
  then have "account_init big_new" by (auto simp: account_init_def)
  moreover have "account_step big_new big_credited"
    unfolding big_credited_def by (rule account_step.receipt) (rule prod.collapse [symmetric])
  moreover have "account_step big_credited big_moved"
    unfolding big_moved_def by (rule account_step.novate) (rule prod.collapse [symmetric])
  moreover have "account_step big_moved big_returned"
    unfolding big_returned_def by (rule account_step.novate) (rule prod.collapse [symmetric])
  ultimately show ?thesis
    unfolding account_reachable_def
    by (meson rtranclp.rtrancl_into_rtrancl rtranclp.rtrancl_refl)
qed

text \<open>The validator is stricter than the account: crediting half the 64-bit range to one issuer,
  novating it to another and back gives a valid account within all its limits, whose own snapshot the
  validator rejects, because it adds up gross credits before it subtracts the debits.\<close>

theorem valid_account_not_restorable:
  "account_ok big_returned \<and> ca_total_peer_credit_sat big_returned = 0x8000000000000000
   \<and> fst (novate_peer_credit (big_novation ''n2'' ''m2'' ''m1'') ''m1'' 12 big_moved) = Inr ()
   \<and> from_snapshot (snapshot big_returned) = Inl (InvalidSnapshot ''novation credit total'')"
proof (intro conjI)
  show "account_ok big_returned" using big_reachable by (rule reachable_account_ok)
qed (code_simp+)

end
