(* ===== verification/Credit_Store.thy ===== *)
theory Credit_Store
  imports Credit_Recovery
begin

text \<open>
  The SQLite store of credit accounts (\<open>credit_store.rs\<close>): one table of snapshots by account, one of
  backing claims by issuer and deposit. A statement of the source is a definition on the two tables;
  SQLite itself appears through \<open>db_fails\<close>, which may make any statement fail, and a transaction that is
  dropped before its commit leaves the tables as they were. \<open>serde_json\<close> is a parameter as in
  \<open>Credit_Snapshot\<close>. Errors of the two libraries are their messages.
\<close>

section \<open>Tables and statements\<close>

record stored_account =
  sa_revision :: "u8 list"
  sa_snapshot_json :: string

record store_tables =
  db_snapshots :: "(string, stored_account) btree_map"
  db_claims :: "(string \<times> string, string) btree_map"

definition create_schema :: store_tables where
  "create_schema = \<lparr>db_snapshots = [], db_claims = []\<rparr>"

datatype sql_statement =
    BeginImmediate | InsertSnapshot | UpdateSnapshot | SelectSnapshot | SelectRevision
  | InsertClaim string string | SelectClaim string string | Commit

record sqlite =
  db_fails :: "sql_statement \<Rightarrow> string option"
  db_no_rows :: string

datatype CreditStoreError =
    InvalidAccountId
  | AlreadyExists
  | NotFound
  | NonMonotonicRevision u64 u64
  | CasConflict u64 u64
  | CorruptStoredRevision
  | SnapshotRevisionMismatch u64 u64
  | BackingClaimConflict string string string
  | Database string
  | Snapshot "string SnapshotError"
  | StoreCredit CreditError

definition statement :: "sqlite \<Rightarrow> sql_statement \<Rightarrow> 'a \<Rightarrow> CreditStoreError + 'a" where
  "statement db s x = (case db_fails db s of Some e \<Rightarrow> Inl (Database e) | None \<Rightarrow> Inr x)"

text \<open>\<open>INSERT OR IGNORE\<close> and \<open>UPDATE .. WHERE\<close> report the number of rows they changed.\<close>

definition insert_snapshot ::
    "sqlite \<Rightarrow> string \<Rightarrow> stored_account \<Rightarrow> store_tables \<Rightarrow> CreditStoreError + nat \<times> store_tables" where
  "insert_snapshot db account_id row tx =
     statement db InsertSnapshot
       (case bm_get (db_snapshots tx) account_id of
          Some previous \<Rightarrow> (0, tx)
        | None \<Rightarrow> (1, tx\<lparr>db_snapshots := bm_insert account_id row (db_snapshots tx)\<rparr>))"

definition update_snapshot ::
    "sqlite \<Rightarrow> string \<Rightarrow> u8 list \<Rightarrow> stored_account \<Rightarrow> store_tables
       \<Rightarrow> CreditStoreError + nat \<times> store_tables" where
  "update_snapshot db account_id expected row tx =
     statement db UpdateSnapshot
       (case bm_get (db_snapshots tx) account_id of
          None \<Rightarrow> (0, tx)
        | Some stored \<Rightarrow>
            if sa_revision stored = expected
            then (1, tx\<lparr>db_snapshots := bm_set account_id row (db_snapshots tx)\<rparr>)
            else (0, tx))"

definition insert_claim ::
    "sqlite \<Rightarrow> BackingDeposit \<Rightarrow> string \<Rightarrow> store_tables \<Rightarrow> CreditStoreError + nat \<times> store_tables" where
  "insert_claim db deposit account_id tx =
     statement db (InsertClaim (bd_issuer deposit) (bd_deposit_id deposit))
       (case bm_get (db_claims tx) (bd_issuer deposit, bd_deposit_id deposit) of
          Some previous \<Rightarrow> (0, tx)
        | None \<Rightarrow> (1, tx\<lparr>db_claims :=
            bm_insert (bd_issuer deposit, bd_deposit_id deposit) account_id (db_claims tx)\<rparr>))"

definition select_claim :: "sqlite \<Rightarrow> BackingDeposit \<Rightarrow> store_tables \<Rightarrow> CreditStoreError + string" where
  "select_claim db deposit tx =
     and_then (statement db (SelectClaim (bd_issuer deposit) (bd_deposit_id deposit))
       (bm_get (db_claims tx) (bd_issuer deposit, bd_deposit_id deposit)))
       (\<lambda>row. case row of None \<Rightarrow> Inl (Database (db_no_rows db)) | Some account_id \<Rightarrow> Inr account_id)"

section \<open>Revisions as blobs\<close>

definition revision_bytes :: "u64 \<Rightarrow> u8 list" where
  "revision_bytes revision = to_be_bytes revision"

definition decode_revision :: "u8 list \<Rightarrow> CreditStoreError + u64" where
  "decode_revision encoded =
     (if length encoded = 8 then Inr (from_be_bytes encoded) else Inl CorruptStoredRevision)"

definition validate_account_id :: "string \<Rightarrow> CreditStoreError + unit" where
  "validate_account_id account_id = (if is_blank account_id then Inl InvalidAccountId else Inr ())"

definition load_revision :: "sqlite \<Rightarrow> string \<Rightarrow> store_tables \<Rightarrow> CreditStoreError + u64 option" where
  "load_revision db account_id tx =
     and_then (statement db SelectRevision (bm_get (db_snapshots tx) account_id)) (\<lambda>row.
     case row of
       None \<Rightarrow> Inr None
     | Some stored \<Rightarrow> and_then (decode_revision (sa_revision stored)) (\<lambda>r. Inr (Some r)))"

section \<open>Operations\<close>

definition bind_backing_deposit ::
    "sqlite \<Rightarrow> string \<Rightarrow> BackingDeposit \<Rightarrow> store_tables \<Rightarrow> CreditStoreError + store_tables" where
  "bind_backing_deposit db account_id deposit tx =
     and_then (insert_claim db deposit account_id tx) (\<lambda>(inserted, tx).
     if inserted = 1 then Inr tx
     else and_then (select_claim db deposit tx) (\<lambda>claimed_account_id.
       if claimed_account_id \<noteq> account_id
       then Inl (BackingClaimConflict (bd_issuer deposit) (bd_deposit_id deposit) claimed_account_id)
       else Inr tx))"

definition bind_backing_deposits ::
    "sqlite \<Rightarrow> string \<Rightarrow> CreditAccount \<Rightarrow> store_tables \<Rightarrow> CreditStoreError + store_tables" where
  "bind_backing_deposits db account_id account tx =
     try_fold (bind_backing_deposit db account_id) (backing_deposits account) tx"

text \<open>Leaving a method without a commit drops the transaction, which rolls it back.\<close>

definition rolled_back :: "store_tables \<Rightarrow> 'e + store_tables \<Rightarrow> ('e + unit) \<times> store_tables" where
  "rolled_back tables r = (case r of Inl e \<Rightarrow> (Inl e, tables) | Inr tx \<Rightarrow> (Inr (), tx))"

definition store_create ::
    "sqlite \<Rightarrow> (CreditAccountSnapshotV1 \<Rightarrow> string + string) \<Rightarrow> string \<Rightarrow> CreditAccount \<Rightarrow> store_tables
       \<Rightarrow> (CreditStoreError + unit) \<times> store_tables" where
  "store_create db to_string account_id account tables =
     rolled_back tables
       (and_then (validate_account_id account_id) (\<lambda>_.
        and_then (map_err Snapshot (encode_json to_string (snapshot account))) (\<lambda>encoded.
        and_then (statement db BeginImmediate tables) (\<lambda>tx.
        and_then (insert_snapshot db account_id
            \<lparr>sa_revision = revision_bytes (sn_revision (snapshot account)),
             sa_snapshot_json = encoded\<rparr> tx) (\<lambda>(inserted, tx).
        if inserted = 0 then Inl AlreadyExists
        else and_then (bind_backing_deposits db account_id account tx) (statement db Commit))))))"

definition store_load ::
    "sqlite \<Rightarrow> (string \<Rightarrow> string + CreditAccountSnapshotV1) \<Rightarrow> string \<Rightarrow> store_tables
       \<Rightarrow> CreditStoreError + CreditAccount option" where
  "store_load db from_str account_id tables =
     and_then (validate_account_id account_id) (\<lambda>_.
     and_then (statement db SelectSnapshot (bm_get (db_snapshots tables) account_id)) (\<lambda>row.
     case row of
       None \<Rightarrow> Inr None
     | Some stored \<Rightarrow>
         and_then (decode_revision (sa_revision stored)) (\<lambda>stored_revision.
         and_then (map_err Snapshot (decode_json from_str (sa_snapshot_json stored))) (\<lambda>snap.
         if sn_revision snap \<noteq> stored_revision
         then Inl (SnapshotRevisionMismatch stored_revision (sn_revision snap))
         else and_then (map_err StoreCredit (from_snapshot snap)) (\<lambda>account. Inr (Some account))))))"

definition store_save ::
    "sqlite \<Rightarrow> (CreditAccountSnapshotV1 \<Rightarrow> string + string) \<Rightarrow> string \<Rightarrow> u64 \<Rightarrow> CreditAccount \<Rightarrow> store_tables
       \<Rightarrow> (CreditStoreError + unit) \<times> store_tables" where
  "store_save db to_string account_id expected_revision account tables =
     rolled_back tables
       (and_then (validate_account_id account_id) (\<lambda>_.
        if ca_revision account \<le> expected_revision
        then Inl (NonMonotonicRevision expected_revision (ca_revision account))
        else
          and_then (map_err Snapshot (encode_json to_string (snapshot account))) (\<lambda>encoded.
          and_then (statement db BeginImmediate tables) (\<lambda>tx.
          and_then (update_snapshot db account_id (revision_bytes expected_revision)
              \<lparr>sa_revision = revision_bytes (sn_revision (snapshot account)),
               sa_snapshot_json = encoded\<rparr> tx) (\<lambda>(updated, tx).
          if updated = 0 then
            and_then (load_revision db account_id tx) (\<lambda>actual.
            case actual of
              Some actual_revision \<Rightarrow> Inl (CasConflict expected_revision actual_revision)
            | None \<Rightarrow> Inl NotFound)
          else and_then (bind_backing_deposits db account_id account tx) (statement db Commit))))))"

end
