(* ===== verification/Credit_Store_Properties.thy ===== *)
theory Credit_Store_Properties
  imports Credit_Store
begin

text \<open>
  What the account store promises: a failed call leaves the tables as they were whichever statement
  fails, saving is a compare-and-swap on the revision, what was saved is what is loaded, and a
  backing deposit belongs to one account for ever.
\<close>

section \<open>Revisions\<close>

lemma decode_revision_bytes [simp]: "decode_revision (revision_bytes r) = Inr r"
  using be_bytes_inverse [of r]
  by (simp add: decode_revision_def revision_bytes_def)

lemma revision_bytes_inject [simp]: "revision_bytes r = revision_bytes s \<longleftrightarrow> r = s"
  unfolding revision_bytes_def by (metis be_bytes_inverse)

section \<open>Effect of the statements\<close>

lemma unit_eq: "x = ()" for x
  by simp

lemma statement_eq [result_simps]:
  "statement db s x = Inr y \<longleftrightarrow> db_fails db s = None \<and> y = x"
  by (auto simp: statement_def split: option.splits)

abbreviation claim_of :: "store_tables \<Rightarrow> BackingDeposit \<Rightarrow> string option" where
  "claim_of t d \<equiv> bm_get (db_claims t) (bd_issuer d, bd_deposit_id d)"

lemma bind_one_Inr:
  assumes "bind_backing_deposit db i d t = Inr t'"
  shows "db_snapshots t' = db_snapshots t" "bm_get (db_claims t) \<subseteq>\<^sub>m bm_get (db_claims t')"
    "claim_of t' d = Some i" "claim_of t d = None \<or> claim_of t d = Some i"
  using assms
  by (auto simp: bind_backing_deposit_def insert_claim_def select_claim_def result_simps map_le_fresh
      split: option.splits if_splits)

lemma bind_all_Inr:
  assumes "try_fold (bind_backing_deposit db i) ds t = Inr t'"
  shows "db_snapshots t' = db_snapshots t \<and> bm_get (db_claims t) \<subseteq>\<^sub>m bm_get (db_claims t')
    \<and> list_all (\<lambda>d. claim_of t' d = Some i) ds"
  using assms
proof (induction ds arbitrary: t)
  case (Cons d ds)
  then obtain u where u: "bind_backing_deposit db i d t = Inr u" "try_fold (bind_backing_deposit db i) ds u = Inr t'"
    by (auto simp: and_then_eq)
  note one = bind_one_Inr [OF u(1)] and rest = Cons.IH [OF u(2)]
  have "claim_of t' d = Some i" using one(3) rest by (auto simp: map_le_def dom_def)
  then show ?case using one rest by (auto intro: map_le_trans)
qed simp

definition row_of :: "string \<Rightarrow> CreditAccount \<Rightarrow> stored_account" where
  "row_of encoded a = \<lparr>sa_revision = revision_bytes (ca_revision a), sa_snapshot_json = encoded\<rparr>"

lemma snapshot_revision [simp]: "sn_revision (snapshot a) = ca_revision a"
  by (simp add: snapshot_def)

lemma rolled_back_eq [result_simps]:
  "rolled_back t r = (Inr x, t') \<longleftrightarrow> r = Inr t'"
  "rolled_back t r = (Inl e, t') \<longleftrightarrow> r = Inl e \<and> t' = t"
  by (auto simp: rolled_back_def split: sum.splits)

lemma create_Inr:
  assumes "store_create db to_string i a t = (Inr (), t')"
  obtains encoded where "to_string (snapshot a) = Inr encoded" "\<not> is_blank i"
    "bm_get (db_snapshots t) i = None"
    "db_snapshots t' = bm_insert i (row_of encoded a) (db_snapshots t)"
    "bm_get (db_claims t) \<subseteq>\<^sub>m bm_get (db_claims t')"
    "list_all (\<lambda>d. claim_of t' d = Some i) (backing_deposits a)"
proof -
  from assms obtain encoded where e: "to_string (snapshot a) = Inr encoded" "\<not> is_blank i"
    "bm_get (db_snapshots t) i = None"
    and b: "bind_backing_deposits db i a (t\<lparr>db_snapshots := bm_insert i (row_of encoded a) (db_snapshots t)\<rparr>) = Inr t'"
    by (auto simp: store_create_def encode_json_def validate_account_id_def insert_snapshot_def row_of_def
        result_simps split: option.splits if_splits)
  from bind_all_Inr [OF b [unfolded bind_backing_deposits_def]] show ?thesis
    by (intro that [OF e]) simp_all
qed

lemma save_Inr:
  assumes "store_save db to_string i e a t = (Inr (), t')"
  obtains encoded stored where "to_string (snapshot a) = Inr encoded" "\<not> is_blank i"
    "e < ca_revision a" "bm_get (db_snapshots t) i = Some stored" "sa_revision stored = revision_bytes e"
    "db_snapshots t' = bm_set i (row_of encoded a) (db_snapshots t)"
    "bm_get (db_claims t) \<subseteq>\<^sub>m bm_get (db_claims t')"
    "list_all (\<lambda>d. claim_of t' d = Some i) (backing_deposits a)"
proof -
  from assms obtain encoded stored where s: "to_string (snapshot a) = Inr encoded" "\<not> is_blank i"
    "e < ca_revision a" "bm_get (db_snapshots t) i = Some stored" "sa_revision stored = revision_bytes e"
    and b: "bind_backing_deposits db i a (t\<lparr>db_snapshots := bm_set i (row_of encoded a) (db_snapshots t)\<rparr>) = Inr t'"
    by (auto simp: store_save_def encode_json_def validate_account_id_def update_snapshot_def row_of_def
        result_simps linorder_not_le split: option.splits if_splits)
  from bind_all_Inr [OF b [unfolded bind_backing_deposits_def]] show ?thesis
    by (intro that [OF s]) simp_all
qed

lemma create_error: "store_create db to_string i a t = (Inl x, t') \<Longrightarrow> t' = t"
  by (simp add: store_create_def result_simps)

lemma save_error: "store_save db to_string i e a t = (Inl x, t') \<Longrightarrow> t' = t"
  by (simp add: store_save_def result_simps)

text \<open>An accepted call writes the row of its own account only.\<close>

lemma create_frame:
  assumes "store_create db to_string i a t = (Inr (), t')" "k \<noteq> i"
  shows "bm_get (db_snapshots t') k = bm_get (db_snapshots t) k"
  using assms(1) by (rule create_Inr) (use assms(2) in simp)

lemma save_frame:
  assumes "store_save db to_string i e a t = (Inr (), t')" "k \<noteq> i"
  shows "bm_get (db_snapshots t') k = bm_get (db_snapshots t) k"
  using assms(1) by (rule save_Inr) (use assms(2) in \<open>simp add: bm_get_bm_set\<close>)

section \<open>The store as a transition system\<close>

text \<open>A step is one call, with any pattern of failing statements.\<close>

inductive store_step ::
    "(CreditAccountSnapshotV1 \<Rightarrow> string + string) \<Rightarrow> store_tables \<Rightarrow> store_tables \<Rightarrow> bool"
  for to_string where
  create: "account_reachable a \<Longrightarrow> store_create db to_string i a t = (r1, t') \<Longrightarrow> store_step to_string t t'"
| save: "account_reachable a \<Longrightarrow> store_save db to_string i e a t = (r2, t') \<Longrightarrow> store_step to_string t t'"

text \<open>Every row holds the encoding of a valid account, and its deposits are claimed for it.\<close>

definition row_ok ::
    "(CreditAccountSnapshotV1 \<Rightarrow> string + string) \<Rightarrow> store_tables \<Rightarrow> string \<Rightarrow> stored_account \<Rightarrow> bool" where
  "row_ok to_string t i row \<longleftrightarrow>
     (\<exists>a encoded. account_reachable a \<and> to_string (snapshot a) = Inr encoded \<and> row = row_of encoded a
        \<and> list_all (\<lambda>d. claim_of t d = Some i) (backing_deposits a))"

definition store_ok :: "(CreditAccountSnapshotV1 \<Rightarrow> string + string) \<Rightarrow> store_tables \<Rightarrow> bool" where
  "store_ok to_string t \<longleftrightarrow>
     (\<forall>i row. bm_get (db_snapshots t) i = Some row \<longrightarrow> row_ok to_string t i row)"

lemma row_ok_mono:
  "row_ok to_string t i row \<Longrightarrow> bm_get (db_claims t) \<subseteq>\<^sub>m bm_get (db_claims t') \<Longrightarrow> row_ok to_string t' i row"
  unfolding row_ok_def list_all_iff by (blast intro: map_le_Some)

lemma store_ok_write:
  assumes "store_ok to_string t" "bm_get (db_claims t) \<subseteq>\<^sub>m bm_get (db_claims t')"
    and "account_reachable a" "to_string (snapshot a) = Inr encoded"
    and "list_all (\<lambda>d. claim_of t' d = Some i) (backing_deposits a)"
    and "\<And>j. bm_get (db_snapshots t') j = (if j = i then Some (row_of encoded a) else bm_get (db_snapshots t) j)"
  shows "store_ok to_string t'"
proof -
  have "row_ok to_string t' i (row_of encoded a)" unfolding row_ok_def using assms(3-5) by blast
  then show ?thesis
    using assms(1) row_ok_mono [OF _ assms(2)] unfolding store_ok_def assms(6) by (auto split: if_splits)
qed

lemma store_step_ok:
  assumes "store_step to_string t t'" "store_ok to_string t"
  shows "store_ok to_string t'"
  using assms(1)
proof cases
  case (create a db i r1)
  show ?thesis
  proof (cases r1)
    case (Inr x)
    from create(2) [unfolded Inr unit_eq [of x]] show ?thesis
      by (rule create_Inr) (rule store_ok_write [OF assms(2) _ create(1)], auto)
  qed (use create(2) create_error assms(2) in blast)
next
  case (save a db i e r2)
  show ?thesis
  proof (cases r2)
    case (Inr x)
    from save(2) [unfolded Inr unit_eq [of x]] show ?thesis
      by (rule save_Inr) (rule store_ok_write [OF assms(2) _ save(1)], auto simp: bm_get_bm_set_present)
  qed (use save(2) save_error assms(2) in blast)
qed

interpretation credit_store: invariant_system "\<lambda>t. t = create_schema" "store_step to_string"
  "store_ok to_string" for to_string
proof
  show "store_ok to_string t" if "t = create_schema" for t
    using that by (simp add: create_schema_def store_ok_def)
qed (rule store_step_ok)

definition store_reachable :: "(CreditAccountSnapshotV1 \<Rightarrow> string + string) \<Rightarrow> store_tables \<Rightarrow> bool" where
  "store_reachable to_string t \<longleftrightarrow> (store_step to_string)\<^sup>*\<^sup>* create_schema t"

lemma reachable_store_ok: "store_reachable to_string t \<Longrightarrow> store_ok to_string t"
  unfolding store_reachable_def by (rule credit_store.inv_reachable [OF refl])

section \<open>What is saved is what is loaded\<close>

text \<open>The documented behaviour of the serializer: parsing what it wrote gives the value back.\<close>

definition codec ::
    "(CreditAccountSnapshotV1 \<Rightarrow> string + string) \<Rightarrow> (string \<Rightarrow> string + CreditAccountSnapshotV1) \<Rightarrow> bool" where
  "codec to_string from_str \<longleftrightarrow> (\<forall>s encoded. to_string s = Inr encoded \<longrightarrow> from_str encoded = Inr s)"

lemma decode_encoded:
  assumes "codec to_string from_str" "to_string s = Inr encoded"
  shows "decode_json from_str encoded = and_then (map_err Credit (validate s)) (\<lambda>_. Inr s)"
  using assms by (simp add: codec_def decode_json_def)

lemma load_row:
  assumes "codec to_string from_str" "to_string (snapshot a) = Inr encoded"
    and "bm_get (db_snapshots t) i = Some (row_of encoded a)"
    and "store_load db from_str i t = Inr (Some b)"
  shows "from_snapshot (snapshot a) = Inr b"
  using assms(3,4) decode_encoded [OF assms(1,2)]
  by (auto simp: store_load_def row_of_def result_simps)

lemma bm_wf_collect: "bm_wf (bm_collect xs)"
proof -
  have "bm_wf (fold (\<lambda>(k, v) m. bm_insert k v m) xs m)" if "bm_wf m" for m
    using that by (induction xs arbitrary: m) auto
  then show ?thesis by (simp add: bm_collect_def)
qed

lemma account_snapshot_wf: "account_ok a \<Longrightarrow> snapshot_wf (snapshot a)"
  using account_ok_maps [of a]
  by (simp add: snapshot_wf_def maps_ok_def snapshot_def bm_wf_collect)

lemma loaded_deposits:
  assumes "account_ok a" "from_snapshot (snapshot a) = Inr b"
  shows "backing_deposits b = backing_deposits a"
proof -
  have "snapshot b = snapshot a" using restored(2) [OF account_snapshot_wf [OF assms(1)] assms(2)] .
  then have "sn_backing_deposits (snapshot b) = sn_backing_deposits (snapshot a)" by simp
  then show ?thesis by (simp add: snapshot_def backing_deposits_def)
qed

lemma load_other:
  "bm_get (db_snapshots t') j = bm_get (db_snapshots t) j \<Longrightarrow> store_load db from_str j t' = store_load db from_str j t"
  by (simp add: store_load_def)

lemma load_written:
  assumes "codec to_string from_str" "to_string (snapshot a) = Inr encoded" "\<not> is_blank i"
    and "bm_get (db_snapshots t) i = Some (row_of encoded a)" "db_fails db SelectSnapshot = None"
    and "from_snapshot (snapshot a) = Inr a"
  shows "store_load db from_str i t = Inr (Some a)"
proof -
  have "validate (snapshot a) = Inr ()" using assms(6) by (auto simp: from_snapshot_def and_then_eq)
  then show ?thesis
    using assms(3-6) decode_encoded [OF assms(1,2)]
    by (simp add: store_load_def validate_account_id_def statement_def row_of_def)
qed

lemma written_by:
  assumes "store_create db to_string i a t = (Inr (), t') \<or> store_save db to_string i e a t = (Inr (), t')"
  obtains encoded where "to_string (snapshot a) = Inr encoded" "\<not> is_blank i"
    "\<And>j. bm_get (db_snapshots t') j = (if j = i then Some (row_of encoded a) else bm_get (db_snapshots t) j)"
proof -
  from assms show ?thesis
  proof
    assume "store_create db to_string i a t = (Inr (), t')"
    then show ?thesis by (rule create_Inr) (rule that, auto)
  next
    assume "store_save db to_string i e a t = (Inr (), t')"
    then show ?thesis by (rule save_Inr) (rule that, auto simp: bm_get_bm_set_present)
  qed
qed

text \<open>C16. What the store accepts it returns: after an account was created or saved, loading it gives
  exactly that account, provided its gross credits fit the snapshot format, and loading any other
  account gives what it gave before.\<close>

theorem stored_account_is_loaded:
  assumes "codec to_string from_str" "account_reachable a"
    and "store_create db to_string i a t = (Inr (), t') \<or> store_save db to_string i e a t = (Inr (), t')"
    and "list_all (\<lambda>k. peer_credits a k < 2 ^ 64) (bm_keys (ca_issuers a))"
    and "db_fails db' SelectSnapshot = None"
  shows "store_load db' from_str i t' = Inr (Some a)
    \<and> (\<forall>j. j \<noteq> i \<longrightarrow> store_load db' from_str j t' = store_load db' from_str j t)"
  using assms(3)
proof (rule written_by, goal_cases)
  case (1 encoded)
  have "from_snapshot (snapshot a) = Inr a"
    using from_snapshot_complete [OF reachable_account_ok [OF assms(2)]] assms(4)
    by (simp add: gross_credit_fits_def)
  then have "store_load db' from_str i t' = Inr (Some a)"
    using load_written [OF assms(1) 1(1,2) _ assms(5)] 1(3) by simp
  moreover have "store_load db' from_str j t' = store_load db' from_str j t" if "j \<noteq> i" for j
    by (rule load_other) (simp add: 1(3) that)
  ultimately show ?case by blast
qed

definition ex_to_string :: "CreditAccountSnapshotV1 \<Rightarrow> string + string" where
  "ex_to_string s = (if s = snapshot ex_done then Inr ''{2}'' else if s = snapshot ex_pending then Inr ''{1}''
     else Inl ''unsupported'')"

definition ex_parse :: "string \<Rightarrow> string + CreditAccountSnapshotV1" where
  "ex_parse j = (if j = ''{2}'' then Inr (snapshot ex_done) else if j = ''{1}'' then Inr (snapshot ex_pending)
     else Inl ''not an account'')"

definition ex_db :: sqlite where
  "ex_db = \<lparr>db_fails = (\<lambda>_. None), db_no_rows = ''no rows''\<rparr>"

definition ex_created :: store_tables where
  "ex_created = snd (store_create ex_db ex_to_string ''acc'' ex_pending create_schema)"

definition ex_saved :: store_tables where
  "ex_saved = snd (store_save ex_db ex_to_string ''acc'' 8 ex_done ex_created)"

lemma ex_codec: "codec ex_to_string ex_parse"
  by (simp add: codec_def ex_to_string_def ex_parse_def)

lemma ex_store_results:
  "store_create ex_db ex_to_string ''acc'' ex_pending create_schema = (Inr (), ex_created)"
  "store_save ex_db ex_to_string ''acc'' 8 ex_done ex_created = (Inr (), ex_saved)"
proof -
  have "fst (store_create ex_db ex_to_string ''acc'' ex_pending create_schema) = Inr ()" by code_simp
  from pair_result [OF this]
  show "store_create ex_db ex_to_string ''acc'' ex_pending create_schema = (Inr (), ex_created)"
    unfolding ex_created_def .
  have "fst (store_save ex_db ex_to_string ''acc'' 8 ex_done ex_created) = Inr ()" by code_simp
  from pair_result [OF this]
  show "store_save ex_db ex_to_string ''acc'' 8 ex_done ex_created = (Inr (), ex_saved)"
    unfolding ex_saved_def .
qed

lemma ex_store_reachable: "store_reachable ex_to_string ex_saved"
proof -
  have "store_step ex_to_string create_schema ex_created"
    using ex_reachable(1) ex_store_results(1) by (rule store_step.create)
  moreover have "store_step ex_to_string ex_created ex_saved"
    using ex_reachable(2) ex_store_results(2) by (rule store_step.save)
  ultimately show ?thesis unfolding store_reachable_def by simp
qed

lemma ex_fits: "list_all (\<lambda>k. peer_credits ex_done k < 2 ^ 64) (bm_keys (ca_issuers ex_done))"
  using from_snapshot_complete [OF reachable_account_ok [OF ex_reachable(2)]] ex_restored
  by (simp add: gross_credit_fits_def)

theorem stored_account_is_loaded_witness: "store_load ex_db ex_parse ''acc'' ex_saved = Inr (Some ex_done)"
proof -
  have "db_fails ex_db SelectSnapshot = None" by (simp add: ex_db_def)
  then show ?thesis
    using stored_account_is_loaded [OF ex_codec ex_reachable(2) _ ex_fits] ex_store_results(2) by blast
qed

section \<open>Compare and swap\<close>

lemma bind_one_succeeds:
  assumes "db_fails db = (\<lambda>_. None)" "claim_of t d = None \<or> claim_of t d = Some i"
  shows "\<exists>t'. bind_backing_deposit db i d t = Inr t'
    \<and> (\<forall>k. bm_get (db_claims t') k = (if k = (bd_issuer d, bd_deposit_id d) then Some i else bm_get (db_claims t) k))"
  using assms
  by (auto simp: bind_backing_deposit_def insert_claim_def select_claim_def statement_def)

lemma bind_all_iff:
  assumes "db_fails db = (\<lambda>_. None)"
  shows "(\<exists>t'. try_fold (bind_backing_deposit db i) ds t = Inr t') \<longleftrightarrow>
    list_all (\<lambda>d. claim_of t d = None \<or> claim_of t d = Some i) ds"
proof (induction ds arbitrary: t)
  case (Cons d ds)
  show ?case
  proof
    assume "\<exists>t'. try_fold (bind_backing_deposit db i) (d # ds) t = Inr t'"
    then obtain u where u: "bind_backing_deposit db i d t = Inr u"
      and rest: "\<exists>t'. try_fold (bind_backing_deposit db i) ds u = Inr t'"
      by (auto simp: and_then_eq)
    have "claim_of t x = None \<or> claim_of t x = Some i" if "claim_of u x = None \<or> claim_of u x = Some i" for x
      using that bind_one_Inr(2) [OF u] by (cases "claim_of t x") (auto dest: map_le_Some)
    then show "list_all (\<lambda>d. claim_of t d = None \<or> claim_of t d = Some i) (d # ds)"
      using Cons rest bind_one_Inr(4) [OF u] unfolding list_all_iff by simp
  next
    assume free: "list_all (\<lambda>d. claim_of t d = None \<or> claim_of t d = Some i) (d # ds)"
    then obtain u where u: "bind_backing_deposit db i d t = Inr u"
      and claims: "\<And>k. bm_get (db_claims u) k = (if k = (bd_issuer d, bd_deposit_id d) then Some i else bm_get (db_claims t) k)"
      using bind_one_succeeds [OF assms, of t d i] by auto
    have "list_all (\<lambda>d. claim_of u d = None \<or> claim_of u d = Some i) ds"
      using free unfolding claims list_all_iff by auto
    then show "\<exists>t'. try_fold (bind_backing_deposit db i) (d # ds) t = Inr t'"
      using Cons u by (simp add: and_then_eq)
  qed
qed simp

text \<open>C17. With a working database, saving succeeds exactly when the account identifier is not blank,
  the account has advanced past the expected revision, it can be encoded, the stored row has exactly
  the expected revision and no deposit of the account is claimed by another account.\<close>

theorem save_succeeds_iff:
  assumes "db_fails db = (\<lambda>_. None)"
  shows "(\<exists>t'. store_save db to_string i e a t = (Inr (), t')) \<longleftrightarrow>
    \<not> is_blank i \<and> e < ca_revision a \<and> (\<exists>encoded. to_string (snapshot a) = Inr encoded)
    \<and> (\<exists>row. bm_get (db_snapshots t) i = Some row \<and> sa_revision row = revision_bytes e)
    \<and> list_all (\<lambda>d. claim_of t d = None \<or> claim_of t d = Some i) (backing_deposits a)"
proof -
  let ?t = "\<lambda>encoded. t\<lparr>db_snapshots := bm_set i (row_of encoded a) (db_snapshots t)\<rparr>"
  have "(\<exists>t'. store_save db to_string i e a t = (Inr (), t')) \<longleftrightarrow>
      \<not> is_blank i \<and> e < ca_revision a \<and> (\<exists>encoded. to_string (snapshot a) = Inr encoded
        \<and> (\<exists>row. bm_get (db_snapshots t) i = Some row \<and> sa_revision row = revision_bytes e)
        \<and> (\<exists>t'. try_fold (bind_backing_deposit db i) (backing_deposits a) (?t encoded) = Inr t'))"
    using assms
    by (cases "bm_get (db_snapshots t) i")
      (auto simp: store_save_def encode_json_def validate_account_id_def update_snapshot_def row_of_def
        bind_backing_deposits_def result_simps linorder_not_le split: option.splits if_splits)
  then show ?thesis unfolding bind_all_iff [OF assms] by auto
qed

theorem save_succeeds_iff_witness: "\<nexists>t'. store_save ex_db ex_to_string ''acc'' 8 ex_done ex_saved = (Inr (), t')"
proof -
  have "bm_get (db_snapshots ex_saved) ''acc'' \<noteq> None" "map_option sa_revision (bm_get (db_snapshots ex_saved) ''acc'') \<noteq> Some (revision_bytes 8)"
    by code_simp+
  then show ?thesis using save_succeeds_iff [of ex_db ex_to_string "''acc''" 8 ex_done ex_saved]
    by (auto simp: ex_db_def)
qed

definition revision_above :: "string \<Rightarrow> u64 \<Rightarrow> store_tables \<Rightarrow> bool" where
  "revision_above i e t \<longleftrightarrow>
     (\<exists>row r. bm_get (db_snapshots t) i = Some row \<and> sa_revision row = revision_bytes r \<and> e < r)"

lemma step_revision_above:
  assumes "store_step to_string t t'" "revision_above i e t"
  shows "revision_above i e t'"
  using assms(1)
proof cases
  case (create a db j r1)
  show ?thesis
  proof (cases r1)
    case (Inr x)
    from create(2) [unfolded Inr unit_eq [of x]] show ?thesis
      by (rule create_Inr) (use assms(2) in \<open>auto simp: revision_above_def\<close>)
  qed (use create(2) create_error assms(2) in blast)
next
  case (save a db j f r2)
  show ?thesis
  proof (cases r2)
    case (Inr x)
    from save(2) [unfolded Inr unit_eq [of x]] show ?thesis
      by (rule save_Inr)
        (use assms(2) in \<open>auto simp: revision_above_def row_of_def bm_get_bm_set_present intro: order_less_trans\<close>)
  qed (use save(2) save_error assms(2) in blast)
qed

lemma run_revision_above:
  "(store_step to_string)\<^sup>*\<^sup>* t t' \<Longrightarrow> revision_above i e t \<Longrightarrow> revision_above i e t'"
  by (induction rule: rtranclp_induct) (auto intro: step_revision_above)

text \<open>C18. No update is lost: after a save that expected revision \<open>e\<close>, whatever other calls follow and
  whichever statements fail, no later save of that account that expects \<open>e\<close> or an earlier revision
  succeeds. A rejected call, of a create or a save, for whatever reason and at whatever statement, leaves
  the tables as they were, and an accepted one changes no snapshot but that of its account.\<close>

theorem no_lost_update:
  assumes "store_save db to_string i e a t = (Inr (), t')" "(store_step to_string)\<^sup>*\<^sup>* t' u" "e' \<le> e"
  shows "(\<exists>x. store_save db' to_string i e' b u = (Inl x, u))
    \<and> (\<forall>f j c v x v'. store_create f to_string j c v = (Inl x, v') \<longrightarrow> v' = v)
    \<and> (\<forall>f j r c v x v'. store_save f to_string j r c v = (Inl x, v') \<longrightarrow> v' = v)
    \<and> (\<forall>f j c v v' k. store_create f to_string j c v = (Inr (), v') \<longrightarrow> k \<noteq> j
          \<longrightarrow> bm_get (db_snapshots v') k = bm_get (db_snapshots v) k)
    \<and> (\<forall>f j r c v v' k. store_save f to_string j r c v = (Inr (), v') \<longrightarrow> k \<noteq> j
          \<longrightarrow> bm_get (db_snapshots v') k = bm_get (db_snapshots v) k)"
proof -
  from assms(1) have "revision_above i e t'"
    by (rule save_Inr) (auto simp: revision_above_def row_of_def bm_get_bm_set_present)
  from run_revision_above [OF assms(2) this] obtain row r
    where row: "bm_get (db_snapshots u) i = Some row" "sa_revision row = revision_bytes r" "e < r"
    by (auto simp: revision_above_def)
  have "False" if "store_save db' to_string i e' b u = (Inr (), v)" for v
    using that
  proof (rule save_Inr, goal_cases)
    case (1 encoded stored)
    then have "e' = r" using row(1,2) by simp
    then show False using row(3) assms(3) by simp
  qed
  then have "\<exists>x. store_save db' to_string i e' b u = (Inl x, u)"
    by (cases "store_save db' to_string i e' b u") (metis (full_types) old.sum.exhaust save_error old.unit.exhaust)
  then show ?thesis by (intro conjI allI impI) (assumption | erule create_error save_error | rule create_frame save_frame; assumption)+
qed

theorem no_lost_update_witness: "\<exists>x. store_save ex_db ex_to_string ''acc'' 8 ex_done ex_saved = (Inl x, ex_saved)"
  using no_lost_update [OF ex_store_results(2) rtranclp.rtrancl_refl order_refl] by (rule conjunct1)

section \<open>Backing is bound to one account\<close>

text \<open>C19. A backing operation funds one account: in every store reached by creating and saving
  accounts, two loaded accounts that contain the same deposit of the same issuer are the same
  account.\<close>

theorem backing_bound_to_one_account:
  assumes "codec to_string from_str" "store_reachable to_string t"
    and "store_load db from_str i t = Inr (Some a)" "store_load db' from_str j t = Inr (Some b)"
    and "d \<in> set (backing_deposits a)" "d' \<in> set (backing_deposits b)"
    and "bd_issuer d' = bd_issuer d" "bd_deposit_id d' = bd_deposit_id d"
  shows "i = j \<and> a = b"
proof -
  have claimed: "claim_of t x = Some k"
    if loaded: "store_load f from_str k t = Inr (Some c)" and x: "x \<in> set (backing_deposits c)" for f k c x
  proof -
    obtain row where row: "bm_get (db_snapshots t) k = Some row"
      using loaded by (auto simp: store_load_def result_simps split: option.splits)
    then obtain y encoded where y: "account_reachable y" "to_string (snapshot y) = Inr encoded"
        "row = row_of encoded y" "list_all (\<lambda>d. claim_of t d = Some k) (backing_deposits y)"
      using reachable_store_ok [OF assms(2)] unfolding store_ok_def row_ok_def by blast
    have "from_snapshot (snapshot y) = Inr c"
      using load_row [OF assms(1) y(2) _ loaded] row y(3) by simp
    from loaded_deposits [OF reachable_account_ok [OF y(1)] this] show ?thesis
      using x y(4) by (simp add: list_all_iff)
  qed
  have "i = j" using claimed [OF assms(3,5)] claimed [OF assms(4,6)] assms(7,8) by simp
  moreover have "a = b" using assms(3,4) \<open>i = j\<close> by (auto simp: store_load_def result_simps split: option.splits)
  ultimately show ?thesis by blast
qed

theorem backing_bound_to_one_account_witness:
  "store_load ex_db ex_parse ''acc'' ex_saved = Inr (Some ex_done)
   \<and> store_load ex_db ex_parse ''other'' ex_saved \<noteq> Inr (Some ex_done)"
proof -
  have loaded: "store_load ex_db ex_parse ''acc'' ex_saved = Inr (Some ex_done)" by code_simp
  have d: "ex_deposit \<in> set (backing_deposits ex_done)" by code_simp
  show ?thesis
    using loaded backing_bound_to_one_account [OF ex_codec ex_store_reachable loaded _ d d refl refl, of ex_db "''other''"]
    by auto
qed

end
