(* ===== verification/Streaming_Route.thy ===== *)
theory Streaming_Route
  imports Rust_String Rust_BTreeMap
begin

text \<open>
  Metered routes paid through a Spilman channel (\<open>spilman.rs\<close>): units and rounding, the payment a
  buyer signs, the checks a seller makes, prepaid token leases and the gating of a route. The signer
  and the receiver bridge are code of another crate and are parameters. \<open>serde_json::Value\<close> is the
  type parameter \<open>'v\<close>. A message built with \<open>format!\<close> is a constructor with the values it prints.
\<close>

section \<open>Policies and decisions\<close>

datatype StreamingRouteMeter = Milliseconds | Bytes | Packets

record StreamingRoutePolicy =
  rp_meter :: StreamingRouteMeter
  rp_price_msat :: u64
  rp_per_units :: u64
  rp_max_channel_capacity_sat :: u64
  rp_channel_expiry_secs :: u64
  rp_free_probe_units :: u64
  rp_grace_units :: u64

datatype StreamingRouteAccessState = FreeProbe | Paid | Grace | Suspended

record StreamingRouteDecision =
  rd_state :: StreamingRouteAccessState
  rd_allow_routing :: bool
  rd_delivered_units :: u64
  rd_paid_msat :: u64
  rd_amount_due_msat :: u64
  rd_enforced_amount_due_msat :: u64
  rd_unpaid_msat :: u64
  rd_free_probe_remaining_units :: u64
  rd_grace_remaining_units :: u64

text \<open>\<open>as u128\<close> widens, \<open>as u64\<close> keeps the low 64 bits.\<close>

definition amount_due_msat :: "StreamingRoutePolicy \<Rightarrow> u64 \<Rightarrow> u64" where
  "amount_due_msat self delivered_units =
     (let billable = saturating_sub delivered_units (rp_free_probe_units self) in
      if billable = 0 \<or> rp_price_msat self = 0 then 0
      else
        let per_units = ucast (max (rp_per_units self) 1) :: u128;
            total = ucast billable * ucast (rp_price_msat self) :: u128
        in ucast (div_ceil total per_units))"

definition routing_decision :: "StreamingRoutePolicy \<Rightarrow> u64 \<Rightarrow> u64 \<Rightarrow> StreamingRouteDecision" where
  "routing_decision self delivered_units paid_msat =
     (let amount_due = amount_due_msat self delivered_units;
          free_probe_remaining_units = saturating_sub (rp_free_probe_units self) delivered_units;
          grace_limit_units = saturating_add (rp_free_probe_units self) (rp_grace_units self);
          grace_remaining_units = saturating_sub grace_limit_units delivered_units;
          enforced_units = saturating_sub delivered_units (rp_grace_units self);
          enforced_amount_due = amount_due_msat self enforced_units;
          allow_routing = (delivered_units \<le> grace_limit_units \<or> enforced_amount_due \<le> paid_msat);
          unpaid = saturating_sub amount_due paid_msat;
          state = (if delivered_units \<le> rp_free_probe_units self then FreeProbe
                   else if amount_due \<le> paid_msat then Paid
                   else if allow_routing then Grace
                   else Suspended)
      in \<lparr>rd_state = state, rd_allow_routing = allow_routing, rd_delivered_units = delivered_units,
          rd_paid_msat = paid_msat, rd_amount_due_msat = amount_due,
          rd_enforced_amount_due_msat = enforced_amount_due, rd_unpaid_msat = unpaid,
          rd_free_probe_remaining_units = free_probe_remaining_units,
          rd_grace_remaining_units = grace_remaining_units\<rparr>)"

definition is_balance_sufficient :: "StreamingRoutePolicy \<Rightarrow> u64 \<Rightarrow> u64 \<Rightarrow> bool" where
  "is_balance_sufficient self delivered_units paid_msat =
     rd_allow_routing (routing_decision self delivered_units paid_msat)"

section \<open>Channel units\<close>

datatype StreamingRouteCashuUnit = Sat | Msat

datatype RouteError =
    MissingChannelId
  | UnsupportedUnit string
  | SignedChannelMismatch string string
  | SignedBalanceMismatch u64 u64
  | MissingFunding
  | AmountRegressed string u64 u64
  | ExceedsCapacity string u64 u64
  | PaymentChannelMismatch string string
  | EmptySignature
  | ClaimMismatch u64 u64 StreamingRouteCashuUnit u64
  | ReceiverChannelMismatch string string
  | ReceiverBalanceMismatch u64 u64
  | MissingLeaseId
  | MissingMintUrl
  | MissingToken
  | LeaseCreditExceedsToken u64 u64
  | External string

definition parse_unit :: "string \<Rightarrow> RouteError + StreamingRouteCashuUnit" where
  "parse_unit unit =
     (let s = to_ascii_lowercase (trim unit) in
      if s = '''' \<or> s = ''sat'' \<or> s = ''sats'' then Inr Sat
      else if s = ''msat'' \<or> s = ''msats'' then Inr Msat
      else Inl (UnsupportedUnit s))"

fun unit_as_str :: "StreamingRouteCashuUnit \<Rightarrow> string" where
  "unit_as_str Sat = ''sat''"
| "unit_as_str Msat = ''msat''"

fun balance_to_msat :: "StreamingRouteCashuUnit \<Rightarrow> u64 \<Rightarrow> u64" where
  "balance_to_msat Sat balance = saturating_mul balance 1000"
| "balance_to_msat Msat balance = balance"

fun balance_from_msat :: "StreamingRouteCashuUnit \<Rightarrow> u64 \<Rightarrow> u64" where
  "balance_from_msat Sat paid_msat = div_ceil paid_msat 1000"
| "balance_from_msat Msat paid_msat = paid_msat"

fun capacity_from_sat :: "StreamingRouteCashuUnit \<Rightarrow> u64 \<Rightarrow> u64" where
  "capacity_from_sat Sat capacity_sat = capacity_sat"
| "capacity_from_sat Msat capacity_sat = saturating_mul capacity_sat 1000"

fun capacity_to_sat :: "StreamingRouteCashuUnit \<Rightarrow> u64 \<Rightarrow> u64" where
  "capacity_to_sat Sat capacity = capacity"
| "capacity_to_sat Msat capacity = div_ceil capacity 1000"

definition streaming_route_cashu_balance_msat :: "string \<Rightarrow> u64 \<Rightarrow> RouteError + u64" where
  "streaming_route_cashu_balance_msat unit balance =
     and_then (parse_unit unit) (\<lambda>u. Inr (balance_to_msat u balance))"

definition streaming_route_cashu_balance_for_msat :: "string \<Rightarrow> u64 \<Rightarrow> RouteError + u64" where
  "streaming_route_cashu_balance_for_msat unit paid_msat =
     and_then (parse_unit unit) (\<lambda>u. Inr (balance_from_msat u paid_msat))"

definition streaming_route_cashu_capacity_for_sat :: "string \<Rightarrow> u64 \<Rightarrow> RouteError + u64" where
  "streaming_route_cashu_capacity_for_sat unit capacity_sat =
     and_then (parse_unit unit) (\<lambda>u. Inr (capacity_from_sat u capacity_sat))"

definition streaming_route_cashu_capacity_sat :: "string \<Rightarrow> u64 \<Rightarrow> RouteError + u64" where
  "streaming_route_cashu_capacity_sat unit capacity =
     and_then (parse_unit unit) (\<lambda>u. Inr (capacity_to_sat u capacity))"

definition streaming_route_cashu_capacity_msat :: "string \<Rightarrow> u64 \<Rightarrow> RouteError + u64" where
  "streaming_route_cashu_capacity_msat unit capacity =
     and_then (parse_unit unit) (\<lambda>u. Inr (balance_to_msat u capacity))"

section \<open>Payments\<close>

record 'v CashuSpilmanPayment =
  sp_channel_id :: string
  sp_balance :: u64
  sp_signature :: string
  sp_params :: "'v option"
  sp_funding_proofs :: "'v option"

definition has_funding :: "'v CashuSpilmanPayment \<Rightarrow> bool" where
  "has_funding self \<longleftrightarrow> sp_params self \<noteq> None \<and> sp_funding_proofs self \<noteq> None"

datatype StreamingRouteCashuPaymentKind = ChannelOpen | BalanceUpdate | CooperativeClose

fun include_funding :: "StreamingRouteCashuPaymentKind \<Rightarrow> bool" where
  "include_funding ChannelOpen = True"
| "include_funding BalanceUpdate = False"
| "include_funding CooperativeClose = False"

record StreamingRouteCashuPaymentRequest =
  pr_kind :: StreamingRouteCashuPaymentKind
  pr_channel_id :: string
  pr_unit :: string
  pr_paid_msat :: u64
  pr_previous_paid_msat :: u64
  pr_capacity_sat :: u64

record 'v StreamingRouteCashuPaymentResult =
  ps_payment :: "'v CashuSpilmanPayment"
  ps_unit :: string
  ps_balance :: u64
  ps_paid_msat :: u64
  ps_include_funding :: bool

record StreamingRouteCashuPaymentProgressValidation =
  pv_paid_msat :: u64
  pv_previous_paid_msat :: u64
  pv_capacity_msat :: u64

record StreamingRouteCashuPaymentClaimValidation =
  cv_channel_id :: string
  cv_unit :: string
  cv_balance :: u64
  cv_paid_msat :: u64
  cv_capacity_msat :: u64
  cv_has_funding :: bool

record CashuSpilmanPaymentReceiverValidation =
  rv_channel_id :: string
  rv_balance :: u64
  rv_amount_due :: u64
  rv_capacity :: u64

record StreamingRouteCashuPaymentReceiverValidation =
  sv_claim :: StreamingRouteCashuPaymentClaimValidation
  sv_receiver :: CashuSpilmanPaymentReceiverValidation

text \<open>The traits: a signer, whose close request defaults to a payment without funding, and a receiver,
  which validates a payment or processes it on its own state \<open>'s\<close>.\<close>

record 'v CashuSpilmanPaymentSigner =
  sign_cashu_spilman_payment :: "string \<Rightarrow> u64 \<Rightarrow> bool \<Rightarrow> string + 'v CashuSpilmanPayment"
  sign_cashu_spilman_close :: "string \<Rightarrow> u64 \<Rightarrow> string + 'v CashuSpilmanPayment"

definition default_signer ::
    "(string \<Rightarrow> u64 \<Rightarrow> bool \<Rightarrow> string + 'v CashuSpilmanPayment) \<Rightarrow> 'v CashuSpilmanPaymentSigner" where
  "default_signer sign =
     \<lparr>sign_cashu_spilman_payment = sign,
      sign_cashu_spilman_close = (\<lambda>channel_id final_balance. sign channel_id final_balance False)\<rparr>"

record ('v, 'c, 's) CashuSpilmanPaymentReceiver =
  validate_cashu_spilman_payment ::
    "'v CashuSpilmanPayment \<Rightarrow> 'c \<Rightarrow> 's \<Rightarrow> string + CashuSpilmanPaymentReceiverValidation"
  process_cashu_spilman_payment ::
    "'v CashuSpilmanPayment \<Rightarrow> 'c \<Rightarrow> 's \<Rightarrow> (string + CashuSpilmanPaymentReceiverValidation) \<times> 's"

definition validate_streaming_route_cashu_payment_progress ::
    "string \<Rightarrow> u64 \<Rightarrow> u64 \<Rightarrow> u64 \<Rightarrow> RouteError + StreamingRouteCashuPaymentProgressValidation" where
  "validate_streaming_route_cashu_payment_progress label paid_msat previous_paid_msat capacity_sat =
     (let label = (if is_blank label then ''paid route payment'' else trim label) in
      if paid_msat < previous_paid_msat then Inl (AmountRegressed label paid_msat previous_paid_msat)
      else
        let capacity_msat = saturating_mul capacity_sat 1000 in
        if capacity_msat > 0 \<and> paid_msat > capacity_msat
        then Inl (ExceedsCapacity label paid_msat capacity_msat)
        else Inr \<lparr>pv_paid_msat = paid_msat, pv_previous_paid_msat = previous_paid_msat,
                  pv_capacity_msat = capacity_msat\<rparr>)"

definition create_streaming_route_cashu_payment ::
    "'v CashuSpilmanPaymentSigner \<Rightarrow> StreamingRouteCashuPaymentRequest
       \<Rightarrow> RouteError + 'v StreamingRouteCashuPaymentResult" where
  "create_streaming_route_cashu_payment signer request =
     (let channel_id = trim (pr_channel_id request) in
      if channel_id = [] then Inl MissingChannelId
      else and_then (parse_unit (pr_unit request)) (\<lambda>unit.
        and_then (validate_streaming_route_cashu_payment_progress ''paid route payment''
            (pr_paid_msat request) (pr_previous_paid_msat request) (pr_capacity_sat request)) (\<lambda>_.
        let balance = balance_from_msat unit (pr_paid_msat request);
            include_funding = include_funding (pr_kind request)
        in and_then (map_err External
             (if pr_kind request = CooperativeClose
              then sign_cashu_spilman_close signer channel_id balance
              else sign_cashu_spilman_payment signer channel_id balance include_funding)) (\<lambda>payment.
           if trim (sp_channel_id payment) \<noteq> channel_id
           then Inl (SignedChannelMismatch (sp_channel_id payment) channel_id)
           else if sp_balance payment \<noteq> balance
           then Inl (SignedBalanceMismatch (sp_balance payment) balance)
           else if include_funding \<and> \<not> has_funding payment then Inl MissingFunding
           else Inr \<lparr>ps_payment = payment, ps_unit = unit_as_str unit, ps_balance = balance,
                     ps_paid_msat = balance_to_msat unit balance,
                     ps_include_funding = include_funding\<rparr>))))"

definition validate_streaming_route_cashu_payment_claim ::
    "'v CashuSpilmanPayment \<Rightarrow> string \<Rightarrow> string \<Rightarrow> u64 \<Rightarrow> u64 \<Rightarrow> bool
       \<Rightarrow> RouteError + StreamingRouteCashuPaymentClaimValidation" where
  "validate_streaming_route_cashu_payment_claim payment expected_channel_id unit claimed_paid_msat
       capacity_sat require_funding =
     (let expected_channel_id = trim expected_channel_id in
      if expected_channel_id = [] then Inl MissingChannelId
      else
        let channel_id = trim (sp_channel_id payment) in
        if channel_id \<noteq> expected_channel_id
        then Inl (PaymentChannelMismatch channel_id expected_channel_id)
        else if is_blank (sp_signature payment) then Inl EmptySignature
        else if require_funding \<and> \<not> has_funding payment then Inl MissingFunding
        else and_then (parse_unit unit) (\<lambda>unit.
          let paid_msat = balance_to_msat unit (sp_balance payment) in
          if paid_msat \<noteq> claimed_paid_msat
          then Inl (ClaimMismatch claimed_paid_msat (sp_balance payment) unit paid_msat)
          else
            let capacity_msat = saturating_mul capacity_sat 1000 in
            if capacity_msat > 0 \<and> paid_msat > capacity_msat
            then Inl (ExceedsCapacity ''paid route payment'' paid_msat capacity_msat)
            else Inr \<lparr>cv_channel_id = channel_id, cv_unit = unit_as_str unit,
                      cv_balance = sp_balance payment, cv_paid_msat = paid_msat,
                      cv_capacity_msat = capacity_msat, cv_has_funding = has_funding payment\<rparr>))"

definition streaming_route_receiver_validation_from_parts ::
    "StreamingRouteCashuPaymentClaimValidation \<Rightarrow> CashuSpilmanPaymentReceiverValidation
       \<Rightarrow> RouteError + StreamingRouteCashuPaymentReceiverValidation" where
  "streaming_route_receiver_validation_from_parts claim receiver =
     (if trim (rv_channel_id receiver) \<noteq> cv_channel_id claim
      then Inl (ReceiverChannelMismatch (rv_channel_id receiver) (cv_channel_id claim))
      else if rv_balance receiver \<noteq> cv_balance claim
      then Inl (ReceiverBalanceMismatch (rv_balance receiver) (cv_balance claim))
      else Inr \<lparr>sv_claim = claim, sv_receiver = receiver\<rparr>)"

definition validate_streaming_route_cashu_payment_with_receiver ::
    "('v, 'c, 's) CashuSpilmanPaymentReceiver \<Rightarrow> 'v CashuSpilmanPayment \<Rightarrow> string \<Rightarrow> string \<Rightarrow> u64
       \<Rightarrow> u64 \<Rightarrow> bool \<Rightarrow> 'c \<Rightarrow> 's \<Rightarrow> RouteError + StreamingRouteCashuPaymentReceiverValidation" where
  "validate_streaming_route_cashu_payment_with_receiver receiver payment expected_channel_id unit
       claimed_paid_msat capacity_sat require_funding context s =
     and_then (validate_streaming_route_cashu_payment_claim payment expected_channel_id unit
         claimed_paid_msat capacity_sat require_funding) (\<lambda>claim.
     and_then (map_err External (validate_cashu_spilman_payment receiver payment context s))
       (streaming_route_receiver_validation_from_parts claim))"

definition process_streaming_route_cashu_payment_with_receiver ::
    "('v, 'c, 's) CashuSpilmanPaymentReceiver \<Rightarrow> 'v CashuSpilmanPayment \<Rightarrow> string \<Rightarrow> string \<Rightarrow> u64
       \<Rightarrow> u64 \<Rightarrow> bool \<Rightarrow> 'c \<Rightarrow> 's
       \<Rightarrow> (RouteError + StreamingRouteCashuPaymentReceiverValidation) \<times> 's" where
  "process_streaming_route_cashu_payment_with_receiver receiver payment expected_channel_id unit
       claimed_paid_msat capacity_sat require_funding context s =
     attempt (validate_streaming_route_cashu_payment_claim payment expected_channel_id unit
         claimed_paid_msat capacity_sat require_funding) s (\<lambda>claim.
     attempt_mut (apfst (map_err External) (process_cashu_spilman_payment receiver payment context s))
       (\<lambda>validated s. (streaming_route_receiver_validation_from_parts claim validated, s)))"

section \<open>Prepaid leases\<close>

record StreamingRouteCashuTokenLeaseRequest =
  lr_channel_id :: string
  lr_mint_url :: string
  lr_unit :: string
  lr_amount :: u64
  lr_paid_msat :: "u64 option"
  lr_expires_unix :: u64
  lr_token :: string

record StreamingRouteCashuTokenLease =
  tl_channel_id :: string
  tl_mint_url :: string
  tl_unit :: string
  tl_amount :: u64
  tl_paid_msat :: u64
  tl_expires_unix :: u64
  tl_token :: string

definition create_streaming_route_cashu_token_lease ::
    "StreamingRouteCashuTokenLeaseRequest \<Rightarrow> RouteError + StreamingRouteCashuTokenLease" where
  "create_streaming_route_cashu_token_lease request =
     (let channel_id = trim (lr_channel_id request); mint_url = trim (lr_mint_url request);
          token = trim (lr_token request)
      in if channel_id = [] then Inl MissingLeaseId
      else if mint_url = [] then Inl MissingMintUrl
      else if token = [] then Inl MissingToken
      else and_then (parse_unit (lr_unit request)) (\<lambda>unit.
        let max_paid_msat = balance_to_msat unit (lr_amount request);
            paid_msat = (case lr_paid_msat request of None \<Rightarrow> max_paid_msat | Some p \<Rightarrow> p)
        in if paid_msat > max_paid_msat then Inl (LeaseCreditExceedsToken paid_msat max_paid_msat)
           else Inr \<lparr>tl_channel_id = channel_id, tl_mint_url = mint_url, tl_unit = unit_as_str unit,
                     tl_amount = lr_amount request, tl_paid_msat = paid_msat,
                     tl_expires_unix = lr_expires_unix request, tl_token = token\<rparr>))"

section \<open>Messages\<close>

definition STREAMING_ROUTE_PAYMENT_PROTOCOL_VERSION :: u16 where
  "STREAMING_ROUTE_PAYMENT_PROTOCOL_VERSION = 1"

record 'v StreamingRouteChannelOpen =
  co_mint_url :: string
  co_unit :: string
  co_capacity :: u64
  co_expires_unix :: u64
  co_receiver_pubkey_hex :: string
  co_paid_msat :: u64
  co_payment :: "'v CashuSpilmanPayment"

record 'v StreamingRouteBalanceUpdate =
  bu_delivered_units :: u64
  bu_amount_due_msat :: u64
  bu_paid_msat :: u64
  bu_payment :: "'v CashuSpilmanPayment"

record 'v StreamingRouteCooperativeClose =
  cc_final_paid_msat :: u64
  cc_payment :: "'v CashuSpilmanPayment"

record 'v StreamingRouteCooperativeCloseAck =
  ack_channel_id :: string
  ack_accepted_balance :: u64
  ack_accepted_paid_msat :: u64
  ack_closed_at_unix :: u64
  ack_receipt :: "'v option"

datatype 'v StreamingRoutePaymentPayload =
    OpenPayload "'v StreamingRouteChannelOpen"
  | UpdatePayload "'v StreamingRouteBalanceUpdate"
  | ClosePayload "'v StreamingRouteCooperativeClose"
  | CloseAckPayload "'v StreamingRouteCooperativeCloseAck"
  | TokenLeasePayload StreamingRouteCashuTokenLease

fun payload_channel_id :: "'v StreamingRoutePaymentPayload \<Rightarrow> string" where
  "payload_channel_id (OpenPayload open) = sp_channel_id (co_payment open)"
| "payload_channel_id (UpdatePayload update) = sp_channel_id (bu_payment update)"
| "payload_channel_id (ClosePayload close) = sp_channel_id (cc_payment close)"
| "payload_channel_id (CloseAckPayload ack) = ack_channel_id ack"
| "payload_channel_id (TokenLeasePayload lease) = tl_channel_id lease"

record 'v StreamingRoutePaymentEnvelope =
  pe_version :: u16
  pe_service_id :: string
  pe_lease_id :: string
  pe_buyer :: string
  pe_seller :: string
  pe_sent_at_unix :: u64
  pe_payload :: "'v StreamingRoutePaymentPayload"

definition envelope_new ::
    "string \<Rightarrow> string \<Rightarrow> string \<Rightarrow> string \<Rightarrow> u64 \<Rightarrow> 'v StreamingRoutePaymentPayload
       \<Rightarrow> 'v StreamingRoutePaymentEnvelope" where
  "envelope_new service_id lease_id buyer seller sent_at_unix payload =
     \<lparr>pe_version = STREAMING_ROUTE_PAYMENT_PROTOCOL_VERSION, pe_service_id = service_id,
      pe_lease_id = lease_id, pe_buyer = buyer, pe_seller = seller,
      pe_sent_at_unix = sent_at_unix, pe_payload = payload\<rparr>"

definition envelope_channel_id :: "'v StreamingRoutePaymentEnvelope \<Rightarrow> string" where
  "envelope_channel_id self = payload_channel_id (pe_payload self)"

end
