(* ===== verification/Streaming_Properties.thy ===== *)
theory Streaming_Properties
  imports Streaming_Route
begin

text \<open>
  What the metered-route code guarantees: the amount due is the exact ceiling of the price as long as
  it fits 64 bits, routing leaves the seller at most the grace window unpaid, rounding between sats
  and millisats never underpays, and the payment a buyer creates passes the seller's checks.
\<close>

section \<open>The amount due\<close>

text \<open>The reference: the price of \<open>n\<close> units, rounded up, over the natural numbers.\<close>

definition units_price :: "StreamingRoutePolicy \<Rightarrow> nat \<Rightarrow> nat" where
  "units_price p n =
     (let k = max (unat (rp_per_units p)) 1 in (n * unat (rp_price_msat p) + k - 1) div k)"

definition route_due :: "StreamingRoutePolicy \<Rightarrow> nat \<Rightarrow> nat" where
  "route_due p delivered = units_price p (delivered - unat (rp_free_probe_units p))"

lemma unat_max_one: "unat (max (w :: u64) 1) = max (unat w) 1"
  by (simp add: max_def word_le_nat_alt)

lemma unat_widen: "unat (ucast (a :: u64) :: u128) = unat a"
proof -
  have "unat a < 2 ^ LENGTH(128)" using u64_bound [of a] by simp
  then show ?thesis by (simp add: unsigned_ucast_eq take_bit_nat_eq_self)
qed

lemma widened_product:
  "unat (ucast a * ucast b :: u128) = unat (a :: u64) * unat (b :: u64)"
proof -
  have "unat a * unat b < 2 ^ 64 * 2 ^ 64" by (intro mult_strict_mono u64_bound) simp_all
  also have "\<dots> = 2 ^ LENGTH(128)" by simp
  finally show ?thesis by (simp add: unat_word_ariths unat_widen)
qed

lemma amount_due_mod: "unat (amount_due_msat p d) = route_due p (unat d) mod 2 ^ 64"
proof -
  let ?b = "saturating_sub d (rp_free_probe_units p)"
  let ?k = "max (rp_per_units p) 1"
  have b: "unat ?b = unat d - unat (rp_free_probe_units p)" by (rule unat_saturating_sub)
  have k: "unat (ucast ?k :: u128) = max (unat (rp_per_units p)) 1"
    by (simp only: unat_widen unat_max_one)
  then have pos: "0 < (ucast ?k :: u128)" by (simp add: word_less_nat_alt)
  show ?thesis
  proof (cases "?b = 0 \<or> rp_price_msat p = 0")
    case True
    then have "(unat d - unat (rp_free_probe_units p)) * unat (rp_price_msat p) = 0"
      using b by auto
    then have "route_due p (unat d) = 0" by (simp only: route_due_def units_price_def Let_def) simp
    moreover have "amount_due_msat p d = 0" using True by (auto simp: amount_due_msat_def Let_def)
    ultimately show ?thesis by simp
  next
    case False
    then have "amount_due_msat p d = ucast (div_ceil (ucast ?b * ucast (rp_price_msat p)) (ucast ?k :: u128))"
      by (simp add: amount_due_msat_def Let_def)
    then have "unat (amount_due_msat p d)
        = unat (div_ceil (ucast ?b * ucast (rp_price_msat p)) (ucast ?k :: u128)) mod 2 ^ 64"
      by (simp add: unsigned_ucast_eq take_bit_eq_mod)
    also have "\<dots> = route_due p (unat d) mod 2 ^ 64"
      unfolding unat_div_ceil [OF pos] widened_product k b by (simp add: route_due_def units_price_def Let_def)
    finally show ?thesis .
  qed
qed

lemma units_price_mono: "m \<le> n \<Longrightarrow> units_price p m \<le> units_price p n"
  unfolding units_price_def Let_def by (intro div_le_mono diff_le_mono add_mono mult_le_mono) simp_all

lemma route_due_mono: "m \<le> n \<Longrightarrow> route_due p m \<le> route_due p n"
  unfolding route_due_def by (rule units_price_mono) simp

lemma ceil_div_add:
  fixes k :: nat
  assumes "0 < k"
  shows "(m + n + k - 1) div k \<le> (m + k - 1) div k + (n + k - 1) div k"
proof -
  let ?a = "(m + k - 1) div k" and ?b = "(n + k - 1) div k"
  have ceil: "x \<le> (x + k - 1) div k * k" for x
  proof -
    have "x + k - 1 = (x + k - 1) div k * k + (x + k - 1) mod k" by simp
    moreover have "(x + k - 1) mod k \<le> k - 1" using assms by (metis One_nat_def Suc_pred less_Suc_eq_le mod_less_divisor)
    ultimately show ?thesis using assms by linarith
  qed
  have "m + n \<le> (?a + ?b) * k" using ceil [of m] ceil [of n] by (simp add: add_mult_distrib)
  then have "m + n + k - 1 < (?a + ?b + 1) * k" using assms by simp
  then have "(m + n + k - 1) div k < ?a + ?b + 1" using assms by (simp add: div_less_iff_less_mult)
  then show ?thesis by simp
qed

lemma units_price_add: "units_price p (m + n) \<le> units_price p m + units_price p n"
  unfolding units_price_def Let_def add_mult_distrib by (rule ceil_div_add) simp

lemma amount_due_exact:
  "route_due p (unat d) < 2 ^ 64 \<Longrightarrow> unat (amount_due_msat p d) = route_due p (unat d)"
  by (simp add: amount_due_mod)

text \<open>C14. The amount due is the price of the billable units divided by the price unit and rounded up,
  computed without overflow in 128 bits and then cut to 64 bits: exact whenever the true amount fits,
  and never decreasing in the units delivered while it does.\<close>

theorem amount_due_is_ceiling:
  "unat (amount_due_msat p d) = route_due p (unat d) mod 2 ^ 64
   \<and> (d' \<le> d \<longrightarrow> route_due p (unat d) < 2 ^ 64 \<longrightarrow> amount_due_msat p d' \<le> amount_due_msat p d)"
proof -
  have "amount_due_msat p d' \<le> amount_due_msat p d" if "d' \<le> d" "route_due p (unat d) < 2 ^ 64"
  proof -
    have le: "route_due p (unat d') \<le> route_due p (unat d)"
      using that(1) by (intro route_due_mono) (simp add: word_le_nat_alt)
    then have "route_due p (unat d') < 2 ^ 64" using that(2) by (rule le_less_trans)
    with le that(2) show ?thesis by (simp add: word_le_nat_alt amount_due_exact)
  qed
  then show ?thesis using amount_due_mod by blast
qed

definition ex_route :: StreamingRoutePolicy where
  "ex_route = \<lparr>rp_meter = Bytes, rp_price_msat = 7, rp_per_units = 3, rp_max_channel_capacity_sat = 100,
     rp_channel_expiry_secs = 60, rp_free_probe_units = 10, rp_grace_units = 6\<rparr>"

theorem amount_due_is_ceiling_witness:
  "amount_due_msat ex_route 20 = 24 \<and> amount_due_msat ex_route 15 \<le> amount_due_msat ex_route 20"
proof -
  have "route_due ex_route (unat (20 :: u64)) < 2 ^ 64"
    by (simp add: route_due_def units_price_def ex_route_def)
  moreover have "amount_due_msat ex_route 20 = 24" by code_simp
  ultimately show ?thesis using amount_due_is_ceiling [of ex_route 20 15] by simp
qed

section \<open>Gating a route\<close>

lemma grace_exposure:
  assumes "unat d \<le> unat (saturating_add (rp_free_probe_units p) (rp_grace_units p))
    \<or> route_due p (unat d - unat (rp_grace_units p)) \<le> paid"
  shows "route_due p (unat d) \<le> paid + units_price p (unat (rp_grace_units p))"
  using assms
proof
  assume "unat d \<le> unat (saturating_add (rp_free_probe_units p) (rp_grace_units p))"
  then have "unat d - unat (rp_free_probe_units p) \<le> unat (rp_grace_units p)"
    by (simp only: unat_saturating_add min.bounded_iff) linarith
  from units_price_mono [OF this] show ?thesis by (simp add: route_due_def trans_le_add2)
next
  assume paid: "route_due p (unat d - unat (rp_grace_units p)) \<le> paid"
  let ?n = "unat d - unat (rp_grace_units p) - unat (rp_free_probe_units p)"
  have "unat d - unat (rp_free_probe_units p) \<le> ?n + unat (rp_grace_units p)" by simp
  from units_price_mono [OF this] have "route_due p (unat d) \<le> units_price p (?n + unat (rp_grace_units p))"
    by (simp only: route_due_def)
  also have "\<dots> \<le> units_price p ?n + units_price p (unat (rp_grace_units p))" by (rule units_price_add)
  finally show ?thesis using paid by (simp add: route_due_def)
qed

lemma decision_simps:
  assumes "route_due p (unat d) < 2 ^ 64"
  shows "rd_allow_routing (routing_decision p d paid) \<longleftrightarrow>
      unat d \<le> unat (saturating_add (rp_free_probe_units p) (rp_grace_units p))
      \<or> route_due p (unat d - unat (rp_grace_units p)) \<le> unat paid"
    and "rd_state (routing_decision p d paid) =
      (if unat d \<le> unat (rp_free_probe_units p) then FreeProbe
       else if route_due p (unat d) \<le> unat paid then Paid
       else if rd_allow_routing (routing_decision p d paid) then Grace else Suspended)"
    and "unat (rd_unpaid_msat (routing_decision p d paid)) = route_due p (unat d) - unat paid"
proof -
  let ?e = "saturating_sub d (rp_grace_units p)"
  have le: "route_due p (unat d - unat (rp_grace_units p)) \<le> route_due p (unat d)"
    by (rule route_due_mono) simp
  then have "route_due p (unat ?e) < 2 ^ 64"
    using le_less_trans [OF le assms] by (simp only: unat_saturating_sub)
  then have enforced: "unat (amount_due_msat p ?e) = route_due p (unat d - unat (rp_grace_units p))"
    by (simp only: amount_due_exact unat_saturating_sub)
  note due = amount_due_exact [OF assms]
  show "rd_allow_routing (routing_decision p d paid) \<longleftrightarrow>
      unat d \<le> unat (saturating_add (rp_free_probe_units p) (rp_grace_units p))
      \<or> route_due p (unat d - unat (rp_grace_units p)) \<le> unat paid"
    by (simp only: routing_decision_def Let_def StreamingRouteDecision.select_convs word_le_nat_alt enforced)
  show "rd_state (routing_decision p d paid) =
      (if unat d \<le> unat (rp_free_probe_units p) then FreeProbe
       else if route_due p (unat d) \<le> unat paid then Paid
       else if rd_allow_routing (routing_decision p d paid) then Grace else Suspended)"
    by (simp only: routing_decision_def Let_def StreamingRouteDecision.select_convs word_le_nat_alt due)
  show "unat (rd_unpaid_msat (routing_decision p d paid)) = route_due p (unat d) - unat paid"
    by (simp only: routing_decision_def Let_def StreamingRouteDecision.select_convs unat_saturating_sub due)
qed

text \<open>C15. While the amount due fits 64 bits, a route is stopped exactly when its state is
  \<open>Suspended\<close>, a fully paid or free route is never stopped, and a route that keeps running leaves the
  seller unpaid for at most the price of the grace window.\<close>

theorem routing_exposure_bounded:
  assumes "route_due p (unat d) < 2 ^ 64"
  shows "(rd_allow_routing (routing_decision p d paid) \<longleftrightarrow>
        rd_state (routing_decision p d paid) \<noteq> Suspended)
    \<and> (route_due p (unat d) \<le> unat paid \<longrightarrow> is_balance_sufficient p d paid)
    \<and> (is_balance_sufficient p d paid \<longrightarrow>
        unat (rd_unpaid_msat (routing_decision p d paid)) \<le> units_price p (unat (rp_grace_units p)))"
proof -
  note simps = decision_simps [OF assms, of paid]
  have "route_due p (unat d - unat (rp_grace_units p)) \<le> route_due p (unat d)"
    by (rule route_due_mono) simp
  then have paid: "route_due p (unat d) \<le> unat paid \<Longrightarrow> rd_allow_routing (routing_decision p d paid)"
    unfolding simps(1) by simp
  moreover have free: "unat d \<le> unat (rp_free_probe_units p) \<Longrightarrow> rd_allow_routing (routing_decision p d paid)"
    unfolding simps(1) using u64_bound [of "rp_free_probe_units p"]
    by (simp add: unat_saturating_add)
  moreover have "rd_allow_routing (routing_decision p d paid) \<Longrightarrow>
      unat (rd_unpaid_msat (routing_decision p d paid)) \<le> units_price p (unat (rp_grace_units p))"
    unfolding simps(1,3) using grace_exposure [of d p "unat paid"] by simp
  ultimately show ?thesis unfolding is_balance_sufficient_def simps(2) by auto
qed

theorem routing_exposure_bounded_witness:
  "rd_state (routing_decision ex_route 20 10) = Grace
   \<and> unat (rd_unpaid_msat (routing_decision ex_route 20 10)) \<le> 14"
proof -
  have "route_due ex_route (unat (20 :: u64)) < 2 ^ 64"
    by (simp add: route_due_def units_price_def ex_route_def)
  note bound = routing_exposure_bounded [OF this, of 10]
  have "rd_state (routing_decision ex_route 20 10) = Grace"
    "is_balance_sufficient ex_route 20 10" by code_simp+
  moreover have "units_price ex_route (unat (rp_grace_units ex_route)) = 14"
    by (simp add: units_price_def ex_route_def)
  ultimately show ?thesis using bound by simp
qed

definition dear_route :: StreamingRoutePolicy where
  "dear_route = ex_route\<lparr>rp_price_msat := 0x100000000, rp_per_units := 1, rp_free_probe_units := 0,
     rp_grace_units := 1\<rparr>"

text \<open>Where the amount due exceeds 64 bits it is cut off: 4294967296 units at 4294967296 millisats each are
  reported as fully paid with nothing due and nothing paid, although the 64-bit range plus one is owed, and at
  the same time routing is refused because the amount before the grace window is not cut.\<close>

theorem amount_due_truncates:
  "route_due dear_route (unat (0x100000000 :: u64)) = 2 ^ 64
   \<and> amount_due_msat dear_route 0x100000000 = 0
   \<and> rd_state (routing_decision dear_route 0x100000000 0) = Paid
   \<and> rd_unpaid_msat (routing_decision dear_route 0x100000000 0) = 0
   \<and> rd_allow_routing (routing_decision dear_route 0x100000000 0) = False"
proof (intro conjI)
  show "route_due dear_route (unat (0x100000000 :: u64)) = 2 ^ 64"
    by (simp add: route_due_def units_price_def dear_route_def ex_route_def)
qed (code_simp+)

section \<open>Units\<close>

lemma thousand_pos: "0 < (1000 :: u64)" "unat (1000 :: u64) = 1000"
  by (simp_all add: word_less_nat_alt)

lemma unat_ceil_sat: "unat (div_ceil m 1000 :: u64) = (unat m + 999) div 1000"
  using unat_div_ceil [OF thousand_pos(1), of m] by (simp add: thousand_pos(2))

lemma unat_sat_to_msat: "unat (saturating_mul b 1000 :: u64) = min (unat b * 1000) (2 ^ 64 - 1)"
  by (simp add: unat_saturating_mul thousand_pos(2))

lemma ceil_thousand:
  fixes n :: nat
  shows "n \<le> (n + 999) div 1000 * 1000" "(n + 999) div 1000 * 1000 < n + 1000"
proof -
  have "n + 999 = (n + 999) div 1000 * 1000 + (n + 999) mod 1000" by simp
  moreover have "(n + 999) mod 1000 < 1000" by simp
  ultimately show "n \<le> (n + 999) div 1000 * 1000" "(n + 999) div 1000 * 1000 < n + 1000" by linarith+
qed

lemma ceil_of_product: "(n * 1000 + 999) div 1000 = (n :: nat)"
  by simp

lemma units_bounds:
  "unat m \<le> unat (balance_to_msat u (balance_from_msat u m))"
  "unat (balance_to_msat u (balance_from_msat u m)) < unat m + 1000"
proof -
  note ceil_thousand [of "unat m"]
  moreover have "unat m \<le> 2 ^ 64 - 1" using u64_bound [of m] by simp
  ultimately have "unat m \<le> unat (balance_to_msat Sat (balance_from_msat Sat m))
      \<and> unat (balance_to_msat Sat (balance_from_msat Sat m)) < unat m + 1000"
    unfolding balance_to_msat.simps balance_from_msat.simps unat_sat_to_msat unat_ceil_sat by simp
  then show "unat m \<le> unat (balance_to_msat u (balance_from_msat u m))"
    "unat (balance_to_msat u (balance_from_msat u m)) < unat m + 1000"
    by (cases u; simp)+
qed

text \<open>Rounding never underpays: a millisat amount converted to a channel balance and back is at
  least the amount and less than one sat above it, and a balance or a capacity whose millisat value
  fits 64 bits survives the conversion unchanged.\<close>

theorem units_round_up:
  "m \<le> balance_to_msat u (balance_from_msat u m)
   \<and> unat (balance_to_msat u (balance_from_msat u m)) < unat m + 1000
   \<and> (unat b * 1000 < 2 ^ 64 \<longrightarrow>
        balance_from_msat u (balance_to_msat u b) = b \<and> capacity_to_sat u (capacity_from_sat u b) = b)"
proof -
  have fits: "min (unat b * 1000) (2 ^ 64 - 1) = unat b * 1000" if "unat b * 1000 < 2 ^ 64"
    using that by simp
  have "div_ceil (saturating_mul b 1000) 1000 = b" if "unat b * 1000 < 2 ^ 64"
    unfolding word_unat_eq_iff unat_ceil_sat unat_sat_to_msat fits [OF that] by (rule ceil_of_product)
  then show ?thesis using units_bounds [where m = m and u = u] by (cases u) (simp_all add: word_le_nat_alt)
qed

theorem units_round_up_witness:
  "balance_from_msat Sat 1500 = 2 \<and> balance_from_msat Sat (balance_to_msat Sat 7) = 7
   \<and> capacity_to_sat Msat (capacity_from_sat Msat 7) = 7"
proof -
  have "balance_from_msat Sat 1500 = 2" by code_simp
  then show ?thesis using units_round_up [of 0 Sat 7] units_round_up [of 0 Msat 7] by simp
qed

section \<open>Payments\<close>

lemma parse_unit_as_str [simp]: "parse_unit (unit_as_str u) = Inr u"
proof (cases u)
  case Sat
  have "parse_unit ''sat'' = Inr Sat" by code_simp
  with Sat show ?thesis by simp
next
  case Msat
  have "parse_unit ''msat'' = Inr Msat" by code_simp
  with Msat show ?thesis by simp
qed

lemma rounded_within_capacity:
  assumes "m \<le> saturating_mul c 1000"
  shows "balance_to_msat u (balance_from_msat u m) \<le> saturating_mul c 1000"
proof (cases u)
  case Sat
  show ?thesis
  proof (cases "unat c * 1000 \<le> 2 ^ 64 - 1")
    case True
    then have "unat m \<le> unat c * 1000"
      using assms unfolding word_le_nat_alt unat_sat_to_msat by simp
    then have "(unat m + 999) div 1000 \<le> (unat c * 1000 + 999) div 1000" by (intro div_le_mono) simp
    then have "(unat m + 999) div 1000 * 1000 \<le> unat c * 1000" by (simp only: ceil_of_product mult_le_mono1)
    then show ?thesis
      unfolding Sat balance_to_msat.simps balance_from_msat.simps word_le_nat_alt unat_sat_to_msat unat_ceil_sat
      by simp
  next
    case False
    then show ?thesis
      unfolding Sat balance_to_msat.simps balance_from_msat.simps word_le_nat_alt unat_sat_to_msat by simp
  qed
qed (use assms in simp)

lemma progress_Inr:
  "validate_streaming_route_cashu_payment_progress l p q c = Inr v \<longleftrightarrow>
     q \<le> p \<and> (saturating_mul c 1000 > 0 \<longrightarrow> p \<le> saturating_mul c 1000)
     \<and> v = \<lparr>pv_paid_msat = p, pv_previous_paid_msat = q, pv_capacity_msat = saturating_mul c 1000\<rparr>"
  by (auto simp: validate_streaming_route_cashu_payment_progress_def Let_def linorder_not_less)

lemma create_payment_Inr:
  assumes "create_streaming_route_cashu_payment signer q = Inr r"
  obtains u where "trim (pr_channel_id q) \<noteq> []" "parse_unit (pr_unit q) = Inr u"
    "pr_previous_paid_msat q \<le> pr_paid_msat q"
    "saturating_mul (pr_capacity_sat q) 1000 > 0 \<Longrightarrow> pr_paid_msat q \<le> saturating_mul (pr_capacity_sat q) 1000"
    "ps_unit r = unit_as_str u" "ps_balance r = balance_from_msat u (pr_paid_msat q)"
    "ps_paid_msat r = balance_to_msat u (balance_from_msat u (pr_paid_msat q))"
    "ps_include_funding r = include_funding (pr_kind q)"
    "trim (sp_channel_id (ps_payment r)) = trim (pr_channel_id q)"
    "sp_balance (ps_payment r) = balance_from_msat u (pr_paid_msat q)"
    "include_funding (pr_kind q) \<Longrightarrow> has_funding (ps_payment r)"
  using assms
  unfolding create_streaming_route_cashu_payment_def Let_def
  by (auto simp: and_then_eq if_error_eq progress_Inr)

text \<open>What the buyer creates, the seller accepts: a created payment with a signature passes the
  seller's claim check for the same channel, unit and capacity with the amount the result reports,
  and that amount covers the requested one, by less than one sat, without exceeding the capacity or
  falling below the previous amount.\<close>

theorem created_payment_accepted:
  assumes "create_streaming_route_cashu_payment signer q = Inr r"
    and "\<not> is_blank (sp_signature (ps_payment r))"
  shows "pr_paid_msat q \<le> ps_paid_msat r \<and> unat (ps_paid_msat r) < unat (pr_paid_msat q) + 1000
    \<and> pr_previous_paid_msat q \<le> ps_paid_msat r
    \<and> validate_streaming_route_cashu_payment_claim (ps_payment r) (pr_channel_id q) (ps_unit r)
        (ps_paid_msat r) (pr_capacity_sat q) (ps_include_funding r)
      = Inr \<lparr>cv_channel_id = trim (pr_channel_id q), cv_unit = ps_unit r, cv_balance = ps_balance r,
             cv_paid_msat = ps_paid_msat r, cv_capacity_msat = saturating_mul (pr_capacity_sat q) 1000,
             cv_has_funding = has_funding (ps_payment r)\<rparr>"
  using assms(1)
proof (rule create_payment_Inr, goal_cases)
  case (1 u)
  have cover: "pr_paid_msat q \<le> ps_paid_msat r" "unat (ps_paid_msat r) < unat (pr_paid_msat q) + 1000"
    unfolding 1(7) by (simp_all add: word_le_nat_alt units_bounds)
  have cap: "ps_paid_msat r \<le> saturating_mul (pr_capacity_sat q) 1000"
    if "saturating_mul (pr_capacity_sat q) 1000 > 0"
    unfolding 1(7) using 1(4) [OF that] by (rule rounded_within_capacity)
  have "validate_streaming_route_cashu_payment_claim (ps_payment r) (pr_channel_id q) (ps_unit r)
        (ps_paid_msat r) (pr_capacity_sat q) (ps_include_funding r)
      = Inr \<lparr>cv_channel_id = trim (pr_channel_id q), cv_unit = ps_unit r, cv_balance = ps_balance r,
             cv_paid_msat = ps_paid_msat r, cv_capacity_msat = saturating_mul (pr_capacity_sat q) 1000,
             cv_has_funding = has_funding (ps_payment r)\<rparr>"
    using 1 assms(2) cap
    by (simp add: validate_streaming_route_cashu_payment_claim_def Let_def linorder_not_less [symmetric])
  then show ?case using cover order_trans [OF 1(3) cover(1)] by blast
qed

definition ex_sign :: "string \<Rightarrow> u64 \<Rightarrow> bool \<Rightarrow> string + string CashuSpilmanPayment" where
  "ex_sign channel balance funding = Inr \<lparr>sp_channel_id = channel, sp_balance = balance,
     sp_signature = ''sig'', sp_params = (if funding then Some ''params'' else None),
     sp_funding_proofs = (if funding then Some ''proofs'' else None)\<rparr>"

definition ex_payment_request :: StreamingRouteCashuPaymentRequest where
  "ex_payment_request = \<lparr>pr_kind = ChannelOpen, pr_channel_id = '' ch '', pr_unit = ''SAT'',
     pr_paid_msat = 2500, pr_previous_paid_msat = 1000, pr_capacity_sat = 3\<rparr>"

definition ex_payment :: "string StreamingRouteCashuPaymentResult" where
  "ex_payment = projr (create_streaming_route_cashu_payment (default_signer ex_sign) ex_payment_request)"

theorem created_payment_accepted_witness:
  "ps_paid_msat ex_payment = 3000
   \<and> isl (validate_streaming_route_cashu_payment_claim (ps_payment ex_payment) '' ch '' ''sat'' 3000 3 True) = False"
proof -
  have made: "create_streaming_route_cashu_payment (default_signer ex_sign) ex_payment_request = Inr ex_payment"
    by code_simp
  have "\<not> is_blank (sp_signature (ps_payment ex_payment))"
    "ps_paid_msat ex_payment = 3000" "ps_unit ex_payment = ''sat''" "ps_include_funding ex_payment"
    by code_simp+
  then show ?thesis
    using created_payment_accepted [OF made]
    by (simp add: ex_payment_request_def)
qed

section \<open>Progress of a channel\<close>

text \<open>The seller's side of a channel: every update is checked against the last accepted amount.\<close>

definition accept_update :: "string \<Rightarrow> u64 \<Rightarrow> u64 \<Rightarrow> u64 \<Rightarrow> RouteError + u64" where
  "accept_update label capacity_sat paid previous =
     and_then (validate_streaming_route_cashu_payment_progress label paid previous capacity_sat)
       (\<lambda>v. Inr (pv_paid_msat v))"

text \<open>Accepted updates only move forward: when a series of updates is accepted, the amounts never
  decrease, none exceeds a stated capacity, and the last one is what has been paid; so a stale or
  replayed smaller amount is never accepted.\<close>

theorem accepted_updates_increase:
  assumes "try_fold (accept_update label capacity_sat) amounts start = Inr paid"
  shows "sorted (start # amounts) \<and> paid = last (start # amounts)
    \<and> (saturating_mul capacity_sat 1000 > 0 \<longrightarrow>
        list_all (\<lambda>m. m \<le> saturating_mul capacity_sat 1000) amounts)"
  using assms
proof (induction amounts arbitrary: start)
  case (Cons m ms)
  then have "start \<le> m" "saturating_mul capacity_sat 1000 > 0 \<longrightarrow> m \<le> saturating_mul capacity_sat 1000"
    and rest: "try_fold (accept_update label capacity_sat) ms m = Inr paid"
    unfolding try_fold.simps and_then_eq accept_update_def progress_Inr
    by (force simp: accept_update_def [abs_def])+
  with Cons.IH [OF rest] show ?case by (auto intro: order_trans)
qed simp

theorem accepted_updates_increase_witness:
  "sorted [0, 1500, 1500, 2900 :: u64] \<and> isl (try_fold (accept_update ''x'' 3) [1500, 1400] 0)"
proof -
  have "try_fold (accept_update ''x'' 3) [1500, 1500, 2900] 0 = Inr 2900" by code_simp
  moreover have "isl (try_fold (accept_update ''x'' 3) [1500, 1400] 0)" by code_simp
  ultimately show ?thesis using accepted_updates_increase by blast
qed

end
