(* ===== verification/Virtual_Clock.thy ===== *)
theory Virtual_Clock
  imports Rust_BTreeMap
begin

text \<open>
  The explicitly advanced clock of the simulation (\<open>simulation/clock.rs\<close>). \<open>fetch_update\<close> and
  \<open>compare_exchange\<close> are atomic steps on the one cell; the values other threads store between the load
  and the exchange of \<open>set\<close> are the list \<open>interference\<close>, one entry per failed exchange.
\<close>

datatype ClockError = Overflow | WentBackwards u64 u64

definition clock_new :: "u64 \<Rightarrow> u64" where
  "clock_new now = now"

definition clock_advance :: "u64 \<Rightarrow> u64 \<Rightarrow> (ClockError + u64) \<times> u64" where
  "clock_advance seconds now =
     (case checked_add now seconds of
        None \<Rightarrow> (Inl Overflow, now)
      | Some later \<Rightarrow> (Inr (now + seconds), later))"

text \<open>\<open>previous\<close> is what the load of this round sees; the exchange fails when the cell holds another value.\<close>

fun clock_set_loop :: "u64 \<Rightarrow> u64 list \<Rightarrow> u64 \<Rightarrow> (ClockError + u64) \<times> u64" where
  "clock_set_loop now [] previous =
     (if now < previous then (Inl (WentBackwards previous now), previous) else (Inr now, now))"
| "clock_set_loop now (other # interference) previous =
     (if now < previous then (Inl (WentBackwards previous now), other)
      else if other = previous then (Inr now, now)
      else clock_set_loop now interference other)"

definition clock_set :: "u64 \<Rightarrow> u64 list \<Rightarrow> u64 \<Rightarrow> (ClockError + u64) \<times> u64" where
  "clock_set now interference cell = clock_set_loop now interference cell"

lemma clock_advance_monotone: "clock_advance s now = (r, later) \<Longrightarrow> now \<le> later"
  by (auto simp: clock_advance_def u64_simps word_le_nat_alt split: option.splits)

lemma clock_set_loop_monotone:
  "clock_set_loop now others previous = (r, later) \<Longrightarrow> sorted (previous # others) \<Longrightarrow> previous \<le> later"
  by (induction now others previous rule: clock_set_loop.induct)
    (auto simp: linorder_not_less split: if_splits intro: order_trans)

text \<open>The clock never runs backwards: advancing and setting it, also when other threads move it
  forward in between, leave it at or after its value, a successful call leaves it exactly at the time
  it reports, advancing is refused only when it would exceed 64 bits, and setting only to an earlier
  time than one that was observed.\<close>

theorem clock_never_runs_back:
  assumes "sorted (cell # interference)"
  shows "cell \<le> snd (clock_advance seconds cell) \<and> cell \<le> snd (clock_set now interference cell)
    \<and> (fst (clock_advance seconds cell) = Inl Overflow \<longleftrightarrow> 2 ^ 64 \<le> unat cell + unat seconds)
    \<and> (fst (clock_set now interference cell) = Inr t \<longrightarrow> snd (clock_set now interference cell) = t \<and> t = now)
    \<and> (fst (clock_set now interference cell) = Inl (WentBackwards p q) \<longrightarrow>
        q = now \<and> now < p \<and> p \<in> set (cell # interference))"
proof -
  have ok: "snd (clock_set_loop now others c) = t \<and> t = now" if "fst (clock_set_loop now others c) = Inr t" for others c
    using that by (induction now others c rule: clock_set_loop.induct) (auto split: if_splits)
  have bad: "q = now \<and> now < p \<and> p \<in> set (c # others)"
    if "fst (clock_set_loop now others c) = Inl (WentBackwards p q)" for others c
    using that by (induction now others c rule: clock_set_loop.induct) (auto split: if_splits)
  have "fst (clock_advance seconds cell) = Inl Overflow \<longleftrightarrow> 2 ^ 64 \<le> unat cell + unat seconds"
    by (auto simp: clock_advance_def checked_add_def)
  then show ?thesis
    using assms ok [of interference cell] bad [of interference cell]
      clock_advance_monotone [of seconds cell "fst (clock_advance seconds cell)" "snd (clock_advance seconds cell)"]
      clock_set_loop_monotone [of now interference cell "fst (clock_set now interference cell)" "snd (clock_set now interference cell)"]
    by (auto simp: clock_set_def)
qed

theorem clock_never_runs_back_witness:
  "snd (clock_set 9 [3, 5] 2) = 9 \<and> (2 :: u64) \<le> snd (clock_set 4 [3, 5] 2)"
proof -
  have "fst (clock_set 9 [3, 5] 2) = Inr 9" by code_simp
  moreover have "sorted [2, 3, 5 :: u64]" by code_simp
  ultimately show ?thesis
    using clock_never_runs_back [of 2 "[3, 5]" 0 9 9 0 0] clock_never_runs_back [of 2 "[3, 5]" 0 4 0 0 0] by blast
qed

end
