(* ===== verification/Cdk_Wallet.thy ===== *)
theory Cdk_Wallet
  imports Rust_Prelude
begin

text \<open>
  What this workspace sees of the CDK wallet, which is code of another crate: the values it returns,
  with the fields that are read, and a wallet handle as a record of operations. An operation takes the
  world (the local database, the mints and the Lightning network, of any type) and returns its result
  and the world it leaves, also when it fails. A crash during an operation is an error of it: nothing
  after it runs, and the world is what had been reached. Both handles of a transfer act on one world.
\<close>

section \<open>Values\<close>

datatype currency_unit = UnitSat | OtherUnit string

definition unit_to_string :: "currency_unit \<Rightarrow> string" where
  "unit_to_string unit = (case unit of UnitSat \<Rightarrow> ''sat'' | OtherUnit name \<Rightarrow> name)"

datatype payment_method = Bolt11Method | OtherMethod string

datatype MeltQuoteState = MeltUnpaid | MeltPaid | MeltPending | MeltUnknown | MeltFailed

datatype MintQuoteState = MintUnpaid | MintPaid | MintIssued

record MintQuote =
  mq_id :: string
  mq_mint_url :: string
  mq_payment_method :: payment_method
  mq_unit :: currency_unit
  mq_amount :: "u64 option"
  mq_request :: string
  mq_state :: MintQuoteState
  mq_amount_issued :: u64
  mq_expiry :: u64

record MeltQuote =
  lq_id :: string
  lq_amount :: u64
  lq_request :: string
  lq_fee_reserve :: u64
  lq_state :: MeltQuoteState

record FinalizedMelt =
  fm_quote_id :: string
  fm_state :: MeltQuoteState
  fm_fee_paid :: u64
  fm_amount :: u64
  fm_payment_proof :: "string option"

record PreparedMelt =
  pm_operation_id :: string
  pm_total_fee_with_swap :: u64

record WalletTransaction =
  wt_quote_id :: "string option"
  wt_fee :: u64

text \<open>\<open>usize\<close> has 64 bits.\<close>

record RecoveryReport =
  rr_recovered :: u64
  rr_compensated :: u64
  rr_skipped :: u64
  rr_failed :: u64

record cdk_proof =
  pr_amount :: u64
  pr_keyset_id :: string
  pr_secret :: string

record ProofInfo =
  pi_proof :: cdk_proof
  pi_y :: string
  pi_mint_url :: string
  pi_unit :: currency_unit

record PreparedSend =
  ps_operation_id :: string
  ps_send_fee :: u64
  ps_proofs :: "cdk_proof list"

section \<open>The wallet handle\<close>

type_synonym ('w, 'a) io = "'w \<Rightarrow> (string + 'a) \<times> 'w"

record 'w cdk_wallet =
  cw_mint_url :: string
  cw_finalize_pending_melts :: "('w, FinalizedMelt list) io"
  cw_recover_incomplete_sagas :: "('w, RecoveryReport) io"
  cw_total_balance :: "('w, u64) io"
  cw_mint_quote :: "payment_method \<Rightarrow> u64 \<Rightarrow> ('w, MintQuote) io"
  cw_check_mint_quote_status :: "string \<Rightarrow> ('w, MintQuote) io"
  cw_mint :: "string \<Rightarrow> ('w, unit) io"
  cw_get_mint_quote :: "string \<Rightarrow> ('w, MintQuote option) io"
  cw_melt_quote :: "payment_method \<Rightarrow> string \<Rightarrow> ('w, MeltQuote) io"
  cw_get_melt_quote :: "string \<Rightarrow> ('w, MeltQuote option) io"
  cw_list_outgoing :: "('w, WalletTransaction list) io"
  cw_prepare_melt :: "string \<Rightarrow> ('w, PreparedMelt) io"
  cw_cancel_melt :: "PreparedMelt \<Rightarrow> ('w, unit) io"
  cw_confirm_melt :: "PreparedMelt \<Rightarrow> ('w, FinalizedMelt) io"
  cw_kv_read :: "string \<Rightarrow> string \<Rightarrow> string \<Rightarrow> ('w, u8 list option) io"
  cw_kv_write :: "string \<Rightarrow> string \<Rightarrow> string \<Rightarrow> u8 list \<Rightarrow> ('w, unit) io"
  cw_add_mint :: "string \<Rightarrow> ('w, unit) io"
  cw_unit :: currency_unit
  cw_mint_unissued_quotes :: "('w, u64) io"
  cw_receive :: "string \<Rightarrow> ('w, u64) io"
  cw_get_proofs_by_ys :: "string list \<Rightarrow> ('w, ProofInfo list) io"
  cw_update_proofs :: "ProofInfo list \<Rightarrow> ('w, unit) io"
  cw_revoke_send :: "string \<Rightarrow> ('w, u64) io"
  cw_fetch_active_keyset :: "('w, string) io"
  cw_get_unspent_proofs :: "('w, cdk_proof list) io"
  cw_swap :: "cdk_proof list \<Rightarrow> ('w, unit) io"
  cw_prepare_send :: "u64 \<Rightarrow> ('w, PreparedSend) io"
  cw_cancel_send :: "PreparedSend \<Rightarrow> ('w, unit) io"
  cw_confirm_send :: "PreparedSend \<Rightarrow> ('w, string) io"
  cw_get_mint_quotes :: "('w, MintQuote list) io"
  cw_get_saga :: "string \<Rightarrow> ('w, unit option) io"

record 'w wallet_repository =
  repo_has_wallet :: "string \<Rightarrow> currency_unit \<Rightarrow> 'w \<Rightarrow> bool \<times> 'w"
  repo_get_wallet :: "string \<Rightarrow> currency_unit \<Rightarrow> ('w, 'w cdk_wallet) io"
  repo_create_wallet :: "string \<Rightarrow> currency_unit \<Rightarrow> ('w, 'w cdk_wallet) io"
  repo_get_wallets :: "'w \<Rightarrow> 'w cdk_wallet list \<times> 'w"
  repo_total_balance :: "('w, (currency_unit \<times> u64) list) io"
  repo_get_balances :: "('w, ((string \<times> currency_unit) \<times> u64) list) io"

section \<open>Errors\<close>

text \<open>
  \<open>anyhow\<close> errors: \<open>.context(m)\<close> on the error of a called library (\<open>Cdk\<close>) and on a missing value
  (\<open>Missing\<close>) or on an error of this crate (\<open>Within\<close>), \<open>bail!\<close> with a fixed text (\<open>Bail\<close>), and one constructor with the values for each formatted
  message of the wallet.
\<close>

datatype TransferError =
    Cdk string string | Missing string | Bail string | Within string TransferError
  | UnsupportedScheme string
  | BoundToOtherRequest string | NothingToResume string | InvoiceAmount u64 u64
  | FeeReserveAbove u64 u64 | RecoveredIn MeltQuoteState | PaymentNotStarted string
  | PreflightFeeAbove u64 u64 | FinishedIn MeltQuoteState | NotRecoverable MeltQuoteState
  | DestinationIn MintQuoteState | ChargedAbove u64 u64
  | LightningIn MeltQuoteState | UnsupportedTokenUnit currency_unit | UnsupportedProofUnit string
  | KeysetChanged string string | MixedKeysets string

definition with_context :: "string \<Rightarrow> (string + 'a) \<times> 'w \<Rightarrow> (TransferError + 'a) \<times> 'w" where
  "with_context message p = (map_err (Cdk message) (fst p), snd p)"

lemma with_context_simps [simp]:
  "with_context m (Inl e, w) = (Inl (Cdk m e), w)" "with_context m (Inr x, w) = (Inr x, w)"
  by (simp_all add: with_context_def)

lemma with_context_eq [result_simps]:
  "with_context m p = (Inr x, w) \<longleftrightarrow> p = (Inr x, w)"
  "with_context m p = (Inl e, w) \<longleftrightarrow> (\<exists>d. p = (Inl d, w) \<and> e = Cdk m d)"
  by (cases p; auto simp: with_context_def result_simps)+

lemma outcome_with_context [outcome_simps]: "outcome (with_context m p) E P \<longleftrightarrow> outcome p E P"
  by (cases p; cases "fst p") auto

end
