(* ===== verification/Payment_Network.thy ===== *)
theory Payment_Network
  imports Virtual_Clock Rust_String Cdk_Wallet
begin

text \<open>
  The isolated payment network of the simulation (\<open>simulation/network.rs\<close>): registered mints with a
  mode, an online flag and a reserve, invoices by payment hash, external funding and the fee sink.
  BOLT11 invoices, SHA-256, key parsing and hex are code of other crates and are the record
  \<open>payment_lib\<close>. The mutex serialises the calls, so a call is a function on the state; what is sent on a
  mint's broadcast channel is appended to its list. A hash map is a sorted map, since no result
  depends on its iteration order: \<open>accounting\<close> sorts. The clock value is an argument.
\<close>

section \<open>Values of the payment interface\<close>

datatype PaymentIdentifier = PaymentHash "u8 list" | OtherIdentifier string

datatype PaymentError =
    AmountMismatch | InvoiceAlreadyPaid | UnsupportedCurrencyUnit | UnsupportedPaymentOption
  | UnknownPaymentState | Custom string | InvoiceError string

record MakePaymentResponse =
  mp_payment_lookup_id :: PaymentIdentifier
  mp_payment_proof :: "string option"
  mp_status :: MeltQuoteState
  mp_total_spent :: u64

record WaitPaymentResponse =
  wp_payment_identifier :: PaymentIdentifier
  wp_payment_amount :: u64
  wp_payment_id :: string

record PaymentQuoteResponse =
  pq_request_lookup_id :: PaymentIdentifier
  pq_amount :: u64
  pq_fee :: u64
  pq_state :: MeltQuoteState

record CreateIncomingPaymentResponse =
  ci_request_lookup_id :: PaymentIdentifier
  ci_request :: string
  ci_expiry :: u64

datatype 'i OutgoingPaymentOptions =
    Bolt11Outgoing 'i "u64 option" "(u64 \<times> currency_unit) option"
  | OtherOutgoing

datatype IncomingPaymentOptions =
    Bolt11Incoming u64 currency_unit "string option" "u64 option"
  | OtherIncoming

record ('i, 'k) payment_lib =
  bolt11_parse :: "string \<Rightarrow> string + 'i"
  bolt11_hash :: "'i \<Rightarrow> u8 list"
  bolt11_amount_msat :: "'i \<Rightarrow> u64 option"
  bolt11_build :: "string \<Rightarrow> u8 list \<Rightarrow> u8 list \<Rightarrow> u64 \<Rightarrow> u64 \<Rightarrow> u64 \<Rightarrow> 'k \<Rightarrow> string + 'i"
  bolt11_to_string :: "'i \<Rightarrow> string"
  sha256 :: "u8 list \<Rightarrow> u8 list"
  secret_key_from_slice :: "u8 list \<Rightarrow> 'k option"
  hex_encode :: "u8 list \<Rightarrow> string"

section \<open>State\<close>

datatype IssuerMode = ClosedLoop | Withdrawable

datatype InvoiceStatus = InvoiceUnpaid | InvoicePaid

record InvoiceRecord =
  ir_recipient_mint :: string
  ir_amount_sat :: u64
  ir_expires_at :: u64
  ir_preimage :: "u8 list"
  ir_paid_by :: "string option"
  ir_fee_sat :: u64

record InvoiceSnapshot =
  iv_recipient_mint :: string
  iv_amount_sat :: u64
  iv_expires_at :: u64
  iv_status :: InvoiceStatus
  iv_paid_by :: "string option"

record MintReserveSnapshot =
  ms_mint_id :: string
  ms_mode :: IssuerMode
  ms_reserve_sat :: u64

record SettlementAccountingSnapshot =
  as_mints :: "MintReserveSnapshot list"
  as_total_reserve_sat :: u64
  as_fee_sink_sat :: u64
  as_total_accounted_sat :: u64
  as_external_funding_sat :: u64

record NetworkState =
  nw_next_invoice :: u64
  nw_invoices :: "(u8 list, InvoiceRecord) btree_map"
  nw_modes :: "(string, IssuerMode) btree_map"
  nw_online :: "(string, bool) btree_map"
  nw_reserves :: "(string, u64) btree_map"
  nw_external_funding_sat :: u64
  nw_fee_sink_sat :: u64
  nw_events :: "(string, WaitPaymentResponse list) btree_map"

record ('i, 'k) NetworkInner =
  ni_seed :: u64
  ni_fee_sat :: u64
  ni_lib :: "('i, 'k) payment_lib"

definition network_new :: NetworkState where
  "network_new = \<lparr>nw_next_invoice = 0, nw_invoices = [], nw_modes = [], nw_online = [], nw_reserves = [],
     nw_external_funding_sat = 0, nw_fee_sink_sat = 0, nw_events = []\<rparr>"

definition is_conserved :: "SettlementAccountingSnapshot \<Rightarrow> bool" where
  "is_conserved self \<longleftrightarrow> as_total_accounted_sat self = as_external_funding_sat self"

definition mint_reserve :: "SettlementAccountingSnapshot \<Rightarrow> string \<Rightarrow> u64 option" where
  "mint_reserve self mint_id = map_option ms_reserve_sat (find (\<lambda>mint. ms_mint_id mint = mint_id) (as_mints self))"

section \<open>Helpers\<close>

definition custom_error :: "string \<Rightarrow> PaymentError" where
  "custom_error message = Custom message"

definition ensure_withdrawable :: "IssuerMode \<Rightarrow> PaymentError + unit" where
  "ensure_withdrawable mode =
     (if mode = ClosedLoop then Inl (custom_error ''closed-loop mint does not allow withdrawals'') else Inr ())"

definition ensure_sat :: "currency_unit \<Rightarrow> PaymentError + unit" where
  "ensure_sat unit = (if unit \<noteq> UnitSat then Inl UnsupportedCurrencyUnit else Inr ())"

definition outgoing_invoice ::
    "('i, 'k) payment_lib \<Rightarrow> 'i OutgoingPaymentOptions \<Rightarrow> PaymentError + 'i \<times> u64 \<times> u64 option" where
  "outgoing_invoice lib options =
     (case options of
        OtherOutgoing \<Rightarrow> Inl UnsupportedPaymentOption
      | Bolt11Outgoing bolt11 melt_msat max_fee_amount \<Rightarrow>
          and_then (ok_or (bolt11_amount_msat lib bolt11) AmountMismatch) (\<lambda>invoice_msat.
          let requested_msat = (case melt_msat of None \<Rightarrow> invoice_msat | Some m \<Rightarrow> m) in
          if requested_msat \<noteq> invoice_msat \<or> requested_msat mod 1000 \<noteq> 0 then Inl AmountMismatch
          else
            and_then (case max_fee_amount of
                        None \<Rightarrow> Inr None
                      | Some (amount, unit) \<Rightarrow> and_then (ensure_sat unit) (\<lambda>_. Inr (Some amount)))
              (\<lambda>max_fee_sat. Inr (bolt11, requested_msat div 1000, max_fee_sat))))"

definition ensure_invoice_payable ::
    "('i, 'k) payment_lib \<Rightarrow> InvoiceRecord \<Rightarrow> 'i \<Rightarrow> u64 \<Rightarrow> PaymentError + unit" where
  "ensure_invoice_payable lib record invoice now =
     (if ir_paid_by record \<noteq> None then Inl InvoiceAlreadyPaid
      else if now \<ge> ir_expires_at record then Inl (custom_error ''invoice expired'')
      else and_then (ok_or (bolt11_amount_msat lib invoice) AmountMismatch) (\<lambda>invoice_amount.
        if invoice_amount \<noteq> saturating_mul (ir_amount_sat record) 1000 then Inl AmountMismatch else Inr ()))"

definition ensure_amount :: "InvoiceRecord \<Rightarrow> u64 \<Rightarrow> PaymentError + unit" where
  "ensure_amount record amount_sat = (if amount_sat \<noteq> ir_amount_sat record then Inl AmountMismatch else Inr ())"

definition incoming_response ::
    "('i, 'k) payment_lib \<Rightarrow> u8 list \<Rightarrow> InvoiceRecord \<Rightarrow> WaitPaymentResponse" where
  "incoming_response lib payment_hash record =
     \<lparr>wp_payment_identifier = PaymentHash payment_hash, wp_payment_amount = ir_amount_sat record,
      wp_payment_id = hex_encode lib payment_hash\<rparr>"

definition parse_invoice :: "('i, 'k) payment_lib \<Rightarrow> string \<Rightarrow> PaymentError + 'i" where
  "parse_invoice lib payment_request = map_err InvoiceError (bolt11_parse lib payment_request)"

fun identifier_hash :: "PaymentIdentifier \<Rightarrow> u8 list option" where
  "identifier_hash (PaymentHash hash) = Some hash"
| "identifier_hash (OtherIdentifier s) = None"

definition as_bytes :: "string \<Rightarrow> u8 list" where
  "as_bytes s = map (\<lambda>c. of_nat (of_char c)) s"

definition derive32 :: "('i, 'k) payment_lib \<Rightarrow> u64 \<Rightarrow> string \<Rightarrow> u64 \<Rightarrow> string \<Rightarrow> u8 list" where
  "derive32 lib seed domain serial mint_id =
     sha256 lib (to_be_bytes seed @ to_be_bytes (of_nat (length domain)) @ as_bytes domain
       @ to_be_bytes serial @ as_bytes mint_id)"

definition derive_seed :: "('i, 'k) NetworkInner \<Rightarrow> string \<Rightarrow> u8 list" where
  "derive_seed inner mint_id =
     derive32 (ni_lib inner) (ni_seed inner) ''mint-seed-0'' 0 mint_id
     @ derive32 (ni_lib inner) (ni_seed inner) ''mint-seed-1'' 0 mint_id"

text \<open>\<open>for counter in 0..u64::MAX\<close>.\<close>

function signing_key_from :: "('i, 'k) payment_lib \<Rightarrow> u64 \<Rightarrow> string \<Rightarrow> u64 \<Rightarrow> PaymentError + 'k" where
  "signing_key_from lib seed mint_id counter =
     (if counter = - 1 then Inl (custom_error ''could not derive invoice signing key'')
      else case secret_key_from_slice lib (derive32 lib seed ''invoice-signing-key'' counter mint_id) of
        Some key \<Rightarrow> Inr key
      | None \<Rightarrow> signing_key_from lib seed mint_id (counter + 1))"
  by pat_completeness auto
termination
proof (relation "measure (\<lambda>(lib, seed, mint_id, counter). 2 ^ 64 - unat counter)", goal_cases)
  case (2 lib seed mint_id counter)
  have "unat (counter + 1) = unat counter + 1"
  proof -
    have "unat counter \<noteq> 2 ^ 64 - 1"
      using 2(1) unat_max_word [where 'a = 64] by (simp add: word_unat_eq_iff)
    then have "unat counter + 1 < 2 ^ LENGTH(64)" using u64_bound [of counter] by simp
    then show ?thesis by (subst unat_add_fits) simp_all
  qed
  then show ?case using u64_bound [of counter] by simp
qed simp

definition signing_key :: "('i, 'k) payment_lib \<Rightarrow> u64 \<Rightarrow> string \<Rightarrow> PaymentError + 'k" where
  "signing_key lib seed mint_id = signing_key_from lib seed mint_id 0"

definition DEFAULT_INVOICE_LIFETIME_SECS :: u64 where
  "DEFAULT_INVOICE_LIFETIME_SECS = 3600"

section \<open>Operations of the network\<close>

definition payment_backend :: "string \<Rightarrow> IssuerMode \<Rightarrow> NetworkState \<Rightarrow> (PaymentError + string \<times> IssuerMode) \<times> NetworkState" where
  "payment_backend mint_id mode state =
     (if mint_id = [] then (Inl (custom_error ''mint id cannot be empty''), state)
      else case bm_get (nw_modes state) mint_id of
        Some existing \<Rightarrow>
          (if existing \<noteq> mode
           then (Inl (custom_error ''mint id already has a different issuer mode''), state)
           else (Inr (mint_id, mode), state))
      | None \<Rightarrow>
          (Inr (mint_id, mode),
           state\<lparr>nw_modes := bm_insert mint_id mode (nw_modes state),
                 nw_online := bm_insert mint_id True (nw_online state),
                 nw_reserves := bm_insert mint_id 0 (nw_reserves state),
                 nw_events := bm_insert mint_id [] (nw_events state)\<rparr>))"

definition set_online :: "string \<Rightarrow> bool \<Rightarrow> NetworkState \<Rightarrow> (PaymentError + unit) \<times> NetworkState" where
  "set_online mint_id online state =
     (case bm_get (nw_online state) mint_id of
        None \<Rightarrow> (Inl (custom_error ''unknown mint''), state)
      | Some entry \<Rightarrow> (Inr (), state\<lparr>nw_online := bm_set mint_id online (nw_online state)\<rparr>))"

definition is_online :: "NetworkState \<Rightarrow> string \<Rightarrow> bool" where
  "is_online state mint_id = (case bm_get (nw_online state) mint_id of None \<Rightarrow> False | Some online \<Rightarrow> online)"

text \<open>\<open>events.get(&recipient).cloned()\<close> and, after the lock is released, \<open>send\<close>.\<close>

definition send_event :: "string \<Rightarrow> WaitPaymentResponse \<Rightarrow> NetworkState \<Rightarrow> NetworkState" where
  "send_event mint_id event state =
     (case bm_get (nw_events state) mint_id of
        None \<Rightarrow> state
      | Some sent \<Rightarrow> state\<lparr>nw_events := bm_set mint_id (sent @ [event]) (nw_events state)\<rparr>)"

definition settle_external ::
    "('i, 'k) NetworkInner \<Rightarrow> u64 \<Rightarrow> string \<Rightarrow> NetworkState \<Rightarrow> (PaymentError + string) \<times> NetworkState" where
  "settle_external inner now payment_request state =
     attempt (parse_invoice (ni_lib inner) payment_request) state (\<lambda>invoice.
     let payment_hash = bolt11_hash (ni_lib inner) invoice in
     attempt (ok_or (bm_get (nw_invoices state) payment_hash)
                (custom_error ''invoice is not registered on this network'')) state (\<lambda>record.
     attempt (ensure_invoice_payable (ni_lib inner) record invoice now) state (\<lambda>_.
     let recipient = ir_recipient_mint record; amount_sat = ir_amount_sat record in
     if \<not> is_online state recipient then (Inl (custom_error ''destination mint is offline''), state)
     else
       attempt (ok_or (bm_get (nw_reserves state) recipient)
                  (custom_error ''destination mint has no reserve account'')) state (\<lambda>reserve.
       attempt (ok_or (checked_add reserve amount_sat) (custom_error ''destination reserve overflow''))
         state (\<lambda>funded_reserve.
       attempt (ok_or (checked_add (nw_external_funding_sat state) amount_sat)
                  (custom_error ''external funding total overflow'')) state (\<lambda>external_funding_sat.
       let paid = record\<lparr>ir_paid_by := Some ''external'', ir_fee_sat := 0\<rparr> in
       (Inr (hex_encode (ni_lib inner) (ir_preimage record)),
        send_event recipient (incoming_response (ni_lib inner) payment_hash paid)
          (state\<lparr>nw_invoices := bm_set payment_hash paid (nw_invoices state),
                 nw_reserves := bm_insert recipient funded_reserve (nw_reserves state),
                 nw_external_funding_sat := external_funding_sat\<rparr>))))))))"

definition reserve_snapshot ::
    "NetworkState \<Rightarrow> string \<times> IssuerMode \<Rightarrow> PaymentError + MintReserveSnapshot" where
  "reserve_snapshot state entry =
     and_then (ok_or (bm_get (nw_reserves state) (fst entry)) (custom_error ''mint has no reserve account''))
       (\<lambda>reserve. Inr \<lparr>ms_mint_id = fst entry, ms_mode = snd entry, ms_reserve_sat = reserve\<rparr>)"

text \<open>\<open>collect::<Result<Vec<_>, _>>()\<close>.\<close>

fun collect_results :: "('x \<Rightarrow> 'e + 'y) \<Rightarrow> 'x list \<Rightarrow> 'e + 'y list" where
  "collect_results f [] = Inr []"
| "collect_results f (x # xs) = and_then (f x) (\<lambda>y. and_then (collect_results f xs) (\<lambda>ys. Inr (y # ys)))"

definition accounting :: "NetworkState \<Rightarrow> PaymentError + SettlementAccountingSnapshot" where
  "accounting state =
     (if length (nw_reserves state) \<noteq> length (nw_modes state)
      then Inl (custom_error ''mint reserve accounts are inconsistent'')
      else
        and_then (collect_results (reserve_snapshot state) (nw_modes state)) (\<lambda>unsorted.
        let mints = sort_key ms_mint_id unsorted in
        and_then (try_fold (\<lambda>mint sum. ok_or (checked_add sum (ms_reserve_sat mint))
                     (custom_error ''total reserve overflow'')) mints 0) (\<lambda>total_reserve_sat.
        and_then (ok_or (checked_add total_reserve_sat (nw_fee_sink_sat state))
                    (custom_error ''accounted value overflow'')) (\<lambda>total_accounted_sat.
        Inr \<lparr>as_mints = mints, as_total_reserve_sat = total_reserve_sat,
             as_fee_sink_sat = nw_fee_sink_sat state, as_total_accounted_sat = total_accounted_sat,
             as_external_funding_sat = nw_external_funding_sat state\<rparr>))))"

definition invoice_snapshot ::
    "('i, 'k) NetworkInner \<Rightarrow> string \<Rightarrow> NetworkState \<Rightarrow> PaymentError + InvoiceSnapshot" where
  "invoice_snapshot inner payment_request state =
     and_then (parse_invoice (ni_lib inner) payment_request) (\<lambda>invoice.
     and_then (ok_or (bm_get (nw_invoices state) (bolt11_hash (ni_lib inner) invoice))
                 (custom_error ''invoice is not registered on this network'')) (\<lambda>record.
     Inr \<lparr>iv_recipient_mint = ir_recipient_mint record, iv_amount_sat = ir_amount_sat record,
          iv_expires_at = ir_expires_at record,
          iv_status = (if ir_paid_by record \<noteq> None then InvoicePaid else InvoiceUnpaid),
          iv_paid_by = ir_paid_by record\<rparr>))"

text \<open>The serial is taken before the invoice is built, so a call that fails later has used it up.\<close>

definition create_invoice ::
    "('i, 'k) NetworkInner \<Rightarrow> u64 \<Rightarrow> string \<Rightarrow> u64 \<Rightarrow> string \<Rightarrow> u64 option \<Rightarrow> NetworkState
       \<Rightarrow> (PaymentError + CreateIncomingPaymentResponse) \<times> NetworkState" where
  "create_invoice inner now mint_id amount_sat description requested_expiry state =
     (if amount_sat = 0 then (Inl AmountMismatch, state)
      else
        let expires_at = (case requested_expiry of
                            None \<Rightarrow> saturating_add now DEFAULT_INVOICE_LIFETIME_SECS
                          | Some expiry \<Rightarrow> expiry)
        in if expires_at \<le> now then (Inl (custom_error ''invoice expiry is not in the future''), state)
        else if bm_get (nw_modes state) mint_id = None then (Inl (custom_error ''unknown mint''), state)
        else
          let serial = nw_next_invoice state in
          attempt (ok_or (checked_add serial 1) (custom_error ''invoice sequence overflow'')) state
            (\<lambda>next.
          let state = state\<lparr>nw_next_invoice := next\<rparr>;
              preimage = derive32 (ni_lib inner) (ni_seed inner) ''preimage'' serial mint_id;
              payment_hash = sha256 (ni_lib inner) preimage;
              payment_secret = derive32 (ni_lib inner) (ni_seed inner) ''payment-secret'' serial mint_id
          in attempt (signing_key (ni_lib inner) (ni_seed inner) mint_id) state (\<lambda>key.
             attempt (ok_or (checked_mul amount_sat 1000) AmountMismatch) state (\<lambda>amount_msat.
             attempt (map_err custom_error (bolt11_build (ni_lib inner) description payment_hash
                 payment_secret amount_msat now (expires_at - now) key)) state (\<lambda>invoice.
             (Inr \<lparr>ci_request_lookup_id = PaymentHash payment_hash,
                   ci_request = bolt11_to_string (ni_lib inner) invoice, ci_expiry = expires_at\<rparr>,
              state\<lparr>nw_invoices := bm_insert payment_hash
                \<lparr>ir_recipient_mint = mint_id, ir_amount_sat = amount_sat, ir_expires_at = expires_at,
                 ir_preimage = preimage, ir_paid_by = None, ir_fee_sat = 0\<rparr> (nw_invoices state)\<rparr>))))))"

definition quote_payment ::
    "('i, 'k) NetworkInner \<Rightarrow> u64 \<Rightarrow> IssuerMode \<Rightarrow> currency_unit \<Rightarrow> 'i OutgoingPaymentOptions \<Rightarrow> NetworkState
       \<Rightarrow> PaymentError + PaymentQuoteResponse" where
  "quote_payment inner now mode unit options state =
     and_then (ensure_withdrawable mode) (\<lambda>_.
     and_then (ensure_sat unit) (\<lambda>_.
     and_then (outgoing_invoice (ni_lib inner) options) (\<lambda>(invoice, amount_sat, _).
     and_then (ok_or (bm_get (nw_invoices state) (bolt11_hash (ni_lib inner) invoice))
                 (custom_error ''invoice is not registered on this network'')) (\<lambda>record.
     and_then (ensure_invoice_payable (ni_lib inner) record invoice now) (\<lambda>_.
     and_then (ensure_amount record amount_sat) (\<lambda>_.
     Inr \<lparr>pq_request_lookup_id = PaymentHash (bolt11_hash (ni_lib inner) invoice), pq_amount = amount_sat,
          pq_fee = ni_fee_sat inner, pq_state = MeltUnpaid\<rparr>))))))"

definition pay ::
    "('i, 'k) NetworkInner \<Rightarrow> u64 \<Rightarrow> string \<Rightarrow> IssuerMode \<Rightarrow> currency_unit \<Rightarrow> 'i OutgoingPaymentOptions
       \<Rightarrow> NetworkState \<Rightarrow> (PaymentError + MakePaymentResponse) \<times> NetworkState" where
  "pay inner now payer mode unit options state =
     attempt (ensure_withdrawable mode) state (\<lambda>_.
     attempt (ensure_sat unit) state (\<lambda>_.
     attempt (outgoing_invoice (ni_lib inner) options) state (\<lambda>(invoice, amount_sat, max_fee_sat).
     if (case max_fee_sat of None \<Rightarrow> False | Some maximum \<Rightarrow> ni_fee_sat inner > maximum)
     then (Inl (custom_error ''payment fee exceeds maximum''), state)
     else
       attempt (ok_or (checked_add amount_sat (ni_fee_sat inner)) AmountMismatch) state (\<lambda>total_spent_sat.
       let payment_hash = bolt11_hash (ni_lib inner) invoice in
       if \<not> is_online state payer then (Inl (custom_error ''source mint is offline''), state)
       else
         attempt (ok_or (bm_get (nw_invoices state) payment_hash)
                    (custom_error ''invoice is not registered on this network'')) state (\<lambda>record.
         attempt (ensure_invoice_payable (ni_lib inner) record invoice now) state (\<lambda>_.
         attempt (ensure_amount record amount_sat) state (\<lambda>_.
         let recipient = ir_recipient_mint record in
         if \<not> is_online state recipient then (Inl (custom_error ''destination mint is offline''), state)
         else
           attempt (ok_or (bm_get (nw_reserves state) payer)
                      (custom_error ''source mint has no reserve account'')) state (\<lambda>payer_reserve.
           attempt (ok_or (checked_sub payer_reserve total_spent_sat)
                      (custom_error ''source mint has insufficient liquidity'')) state (\<lambda>payer_after_debit.
           attempt (ok_or (bm_get (nw_reserves state) recipient)
                      (custom_error ''destination mint has no reserve account'')) state (\<lambda>recipient_reserve.
           attempt (if payer = recipient
                    then ok_or (checked_add payer_after_debit amount_sat) (custom_error ''mint reserve overflow'')
                    else ok_or (checked_add recipient_reserve amount_sat)
                           (custom_error ''destination reserve overflow'')) state (\<lambda>recipient_after_credit.
           attempt (ok_or (checked_add (nw_fee_sink_sat state) (ni_fee_sat inner))
                      (custom_error ''fee sink overflow'')) state (\<lambda>fee_sink_sat.
           let paid = record\<lparr>ir_paid_by := Some payer, ir_fee_sat := ni_fee_sat inner\<rparr> in
           (Inr \<lparr>mp_payment_lookup_id = PaymentHash payment_hash,
                 mp_payment_proof = Some (hex_encode (ni_lib inner) (ir_preimage record)),
                 mp_status = MeltPaid, mp_total_spent = total_spent_sat\<rparr>,
            send_event recipient (incoming_response (ni_lib inner) payment_hash paid)
              (state\<lparr>nw_invoices := bm_set payment_hash paid (nw_invoices state),
                     nw_reserves :=
                       (if payer = recipient then bm_insert payer recipient_after_credit (nw_reserves state)
                        else bm_insert recipient recipient_after_credit
                               (bm_insert payer payer_after_debit (nw_reserves state))),
                     nw_fee_sink_sat := fee_sink_sat\<rparr>))))))))))))))"

definition incoming_status ::
    "('i, 'k) NetworkInner \<Rightarrow> string \<Rightarrow> PaymentIdentifier \<Rightarrow> NetworkState \<Rightarrow> WaitPaymentResponse list" where
  "incoming_status inner mint_id identifier state =
     (case identifier_hash identifier of
        None \<Rightarrow> []
      | Some payment_hash \<Rightarrow>
          (case bm_get (nw_invoices state) payment_hash of
             None \<Rightarrow> []
           | Some record \<Rightarrow>
               if ir_recipient_mint record \<noteq> mint_id \<or> ir_paid_by record = None then []
               else [incoming_response (ni_lib inner) payment_hash record]))"

definition outgoing_status ::
    "('i, 'k) NetworkInner \<Rightarrow> string \<Rightarrow> PaymentIdentifier \<Rightarrow> NetworkState \<Rightarrow> PaymentError + MakePaymentResponse" where
  "outgoing_status inner payer identifier state =
     and_then (ok_or (identifier_hash identifier) UnknownPaymentState) (\<lambda>payment_hash.
     and_then (ok_or (bm_get (nw_invoices state) payment_hash) UnknownPaymentState) (\<lambda>record.
     let paid = (ir_paid_by record = Some payer) in
     Inr \<lparr>mp_payment_lookup_id = identifier,
          mp_payment_proof = (if paid then Some (hex_encode (ni_lib inner) (ir_preimage record)) else None),
          mp_status = (if paid then MeltPaid else MeltUnpaid),
          mp_total_spent = (if paid then saturating_add (ir_amount_sat record) (ir_fee_sat record) else 0)\<rparr>))"

section \<open>The backend of one mint\<close>

record SimMintPayment =
  sm_mint_id :: string
  sm_mode :: IssuerMode

definition create_incoming_payment_request ::
    "('i, 'k) NetworkInner \<Rightarrow> SimMintPayment \<Rightarrow> u64 \<Rightarrow> IncomingPaymentOptions \<Rightarrow> NetworkState
       \<Rightarrow> (PaymentError + CreateIncomingPaymentResponse) \<times> NetworkState" where
  "create_incoming_payment_request inner self now options state =
     (case options of
        OtherIncoming \<Rightarrow> (Inl UnsupportedPaymentOption, state)
      | Bolt11Incoming amount unit description expiry \<Rightarrow>
          attempt (ensure_sat unit) state (\<lambda>_.
          create_invoice inner now (sm_mint_id self) amount
            (case description of None \<Rightarrow> [] | Some d \<Rightarrow> d) expiry state))"

definition get_payment_quote ::
    "('i, 'k) NetworkInner \<Rightarrow> SimMintPayment \<Rightarrow> u64 \<Rightarrow> currency_unit \<Rightarrow> 'i OutgoingPaymentOptions \<Rightarrow> NetworkState
       \<Rightarrow> PaymentError + PaymentQuoteResponse" where
  "get_payment_quote inner self now unit options state = quote_payment inner now (sm_mode self) unit options state"

definition make_payment ::
    "('i, 'k) NetworkInner \<Rightarrow> SimMintPayment \<Rightarrow> u64 \<Rightarrow> currency_unit \<Rightarrow> 'i OutgoingPaymentOptions \<Rightarrow> NetworkState
       \<Rightarrow> (PaymentError + MakePaymentResponse) \<times> NetworkState" where
  "make_payment inner self now unit options state =
     pay inner now (sm_mint_id self) (sm_mode self) unit options state"

definition check_incoming_payment_status ::
    "('i, 'k) NetworkInner \<Rightarrow> SimMintPayment \<Rightarrow> PaymentIdentifier \<Rightarrow> NetworkState \<Rightarrow> WaitPaymentResponse list" where
  "check_incoming_payment_status inner self identifier state = incoming_status inner (sm_mint_id self) identifier state"

definition check_outgoing_payment ::
    "('i, 'k) NetworkInner \<Rightarrow> SimMintPayment \<Rightarrow> PaymentIdentifier \<Rightarrow> NetworkState \<Rightarrow> PaymentError + MakePaymentResponse" where
  "check_outgoing_payment inner self identifier state = outgoing_status inner (sm_mint_id self) identifier state"

end
