(* ===== verification/Network_Properties.thy ===== *)
theory Network_Properties
  imports Payment_Network "HOL-Library.Multiset"
begin

text \<open>
  What the payment network guarantees: value enters only through external funding and is conserved by
  every call, an invoice is paid at most once, a payment moves exactly its amount and fee, and the
  status queries report what happened.
\<close>

section \<open>Effects\<close>

lemma send_event_same [simp]:
  "nw_next_invoice (send_event i e s) = nw_next_invoice s" "nw_invoices (send_event i e s) = nw_invoices s"
  "nw_modes (send_event i e s) = nw_modes s" "nw_online (send_event i e s) = nw_online s"
  "nw_reserves (send_event i e s) = nw_reserves s" "nw_fee_sink_sat (send_event i e s) = nw_fee_sink_sat s"
  "nw_external_funding_sat (send_event i e s) = nw_external_funding_sat s"
  "bm_keys (nw_events (send_event i e s)) = bm_keys (nw_events s)"
  by (auto simp: send_event_def split: option.splits)

lemma payable_Inr:
  "ensure_invoice_payable lib r bolt now = Inr x \<longleftrightarrow>
     ir_paid_by r = None \<and> now < ir_expires_at r
     \<and> bolt11_amount_msat lib bolt = Some (saturating_mul (ir_amount_sat r) 1000)"
  by (auto simp: ensure_invoice_payable_def result_simps linorder_not_le)

lemma ensure_Inr [result_simps]:
  "ensure_withdrawable m = Inr x \<longleftrightarrow> m = Withdrawable" "ensure_sat u = Inr x \<longleftrightarrow> u = UnitSat"
  "ensure_amount r n = Inr x \<longleftrightarrow> n = ir_amount_sat r"
  by (cases m; simp add: ensure_withdrawable_def) (simp_all add: ensure_sat_def ensure_amount_def)

text \<open>An invoice record that was unpaid and is now paid by \<open>payer\<close>.\<close>

definition marked_paid :: "u8 list \<Rightarrow> string \<Rightarrow> u64 \<Rightarrow> InvoiceRecord \<Rightarrow> NetworkState \<Rightarrow> NetworkState \<Rightarrow> bool" where
  "marked_paid h payer fee r s s' \<longleftrightarrow>
     bm_get (nw_invoices s) h = Some r \<and> ir_paid_by r = None
     \<and> nw_invoices s' = bm_set h (r\<lparr>ir_paid_by := Some payer, ir_fee_sat := fee\<rparr>) (nw_invoices s)
     \<and> nw_next_invoice s' = nw_next_invoice s \<and> nw_modes s' = nw_modes s \<and> nw_online s' = nw_online s
     \<and> bm_keys (nw_events s') = bm_keys (nw_events s)"

lemma settle_external_Inr:
  assumes "settle_external inner now req s = (Inr proof, s')"
  obtains bolt r reserve funded where "bolt11_parse (ni_lib inner) req = Inr bolt"
    "marked_paid (bolt11_hash (ni_lib inner) bolt) ''external'' 0 r s s'" "now < ir_expires_at r"
    "is_online s (ir_recipient_mint r)"
    "bm_get (nw_reserves s) (ir_recipient_mint r) = Some reserve"
    "unat funded = unat reserve + unat (ir_amount_sat r)"
    "unat (nw_external_funding_sat s') = unat (nw_external_funding_sat s) + unat (ir_amount_sat r)"
    "nw_reserves s' = bm_insert (ir_recipient_mint r) funded (nw_reserves s)"
    "nw_fee_sink_sat s' = nw_fee_sink_sat s"
  using assms
  by (auto simp: settle_external_def parse_invoice_def Let_def result_simps payable_Inr marked_paid_def
      checked_add_eq_Some)

lemma outgoing_invoice_Inr:
  assumes "outgoing_invoice lib options = Inr (bolt, amount, max_fee)"
  shows "\<exists>melt fee. options = Bolt11Outgoing bolt melt fee"
    "\<exists>msat. bolt11_amount_msat lib bolt = Some msat \<and> amount = msat div 1000 \<and> 1000 dvd msat"
  using assms by (auto simp: outgoing_invoice_def Let_def result_simps split: OutgoingPaymentOptions.splits)

lemma pay_Inr:
  assumes "pay inner now payer mode unit options s = (Inr resp, s')"
  obtains bolt amount max_fee total r before after credited where
    "outgoing_invoice (ni_lib inner) options = Inr (bolt, amount, max_fee)"
    "mode = Withdrawable" "unit = UnitSat" "case max_fee of None \<Rightarrow> True | Some m \<Rightarrow> ni_fee_sat inner \<le> m"
    "unat total = unat amount + unat (ni_fee_sat inner)"
    "marked_paid (bolt11_hash (ni_lib inner) bolt) payer (ni_fee_sat inner) r s s'" "now < ir_expires_at r"
    "amount = ir_amount_sat r" "is_online s payer" "is_online s (ir_recipient_mint r)"
    "bm_get (nw_reserves s) payer = Some before" "unat before = unat after + unat total"
    "unat (nw_fee_sink_sat s') = unat (nw_fee_sink_sat s) + unat (ni_fee_sat inner)"
    "nw_external_funding_sat s' = nw_external_funding_sat s"
    "if payer = ir_recipient_mint r
     then unat credited = unat after + unat amount \<and> nw_reserves s' = bm_insert payer credited (nw_reserves s)
     else (\<exists>reserve. bm_get (nw_reserves s) (ir_recipient_mint r) = Some reserve
             \<and> unat credited = unat reserve + unat amount)
          \<and> nw_reserves s' = bm_insert (ir_recipient_mint r) credited (bm_insert payer after (nw_reserves s))"
    "resp = \<lparr>mp_payment_lookup_id = PaymentHash (bolt11_hash (ni_lib inner) bolt),
             mp_payment_proof = Some (hex_encode (ni_lib inner) (ir_preimage r)),
             mp_status = MeltPaid, mp_total_spent = total\<rparr>"
proof -
  from assms obtain bolt amount max_fee where
    out: "outgoing_invoice (ni_lib inner) options = Inr (bolt, amount, max_fee)"
    by (auto simp: pay_def result_simps)
  show ?thesis
  proof (cases "payer = ir_recipient_mint (the (bm_get (nw_invoices s) (bolt11_hash (ni_lib inner) bolt)))")
    case True
    with assms out show ?thesis
      by (auto intro!: that [OF out]
          simp: pay_def Let_def result_simps payable_Inr marked_paid_def u64_simps linorder_not_less
          split: option.splits)
  next
    case False
    with assms out show ?thesis
      by (auto intro!: that [OF out]
          simp: pay_def Let_def result_simps payable_Inr marked_paid_def u64_simps linorder_not_less
          split: option.splits)
  qed
qed

lemma pay_error: "pay inner now payer mode unit options s = (Inl e, s') \<Longrightarrow> s' = s"
  by (auto simp: pay_def Let_def result_simps split: if_splits)

lemma settle_external_error: "settle_external inner now req s = (Inl e, s') \<Longrightarrow> s' = s"
  by (auto simp: settle_external_def Let_def result_simps split: if_splits)

text \<open>A new invoice, or a serial that was used up by a failed call.\<close>

lemma create_invoice_cases:
  assumes "create_invoice inner now i amount desc expiry s = (res, s')"
  shows "s' = s
    \<or> unat (nw_next_invoice s') = unat (nw_next_invoice s) + 1
      \<and> bm_get (nw_modes s) i \<noteq> None \<and> amount \<noteq> 0
      \<and> (s' = s\<lparr>nw_next_invoice := nw_next_invoice s'\<rparr>
         \<or> (\<exists>at. now < at \<and> unat amount * 1000 < 2 ^ 64 \<and>
             s' = s\<lparr>nw_next_invoice := nw_next_invoice s',
                   nw_invoices := bm_insert
                     (sha256 (ni_lib inner) (derive32 (ni_lib inner) (ni_seed inner) ''preimage'' (nw_next_invoice s) i))
                     \<lparr>ir_recipient_mint = i, ir_amount_sat = amount, ir_expires_at = at,
                      ir_preimage = derive32 (ni_lib inner) (ni_seed inner) ''preimage'' (nw_next_invoice s) i,
                      ir_paid_by = None, ir_fee_sat = 0\<rparr> (nw_invoices s)\<rparr>))"
proof -
  let ?at = "case expiry of None \<Rightarrow> saturating_add now DEFAULT_INVOICE_LIFETIME_SECS | Some x \<Rightarrow> x"
  show ?thesis
  proof (cases "amount = 0 \<or> ?at \<le> now \<or> bm_get (nw_modes s) i = None \<or> checked_add (nw_next_invoice s) 1 = None")
    case True
    then show ?thesis using assms by (auto simp: create_invoice_def Let_def split: if_splits)
  next
    case False
    then obtain k where k: "checked_add (nw_next_invoice s) 1 = Some k" by blast
    then have next_k: "unat k = unat (nw_next_invoice s) + 1" by (simp add: checked_add_eq_Some)
    show ?thesis
    proof (cases res)
      case (Inl e)
      then show ?thesis using assms False k next_k
        by (auto simp: create_invoice_def Let_def result_simps split: if_splits)
    next
      case (Inr resp)
      then have fits: "checked_mul amount 1000 \<noteq> None"
        using assms by (auto simp: create_invoice_def Let_def result_simps split: if_splits)
      then have "unat amount * 1000 < 2 ^ 64" by (auto simp: checked_mul_def split: if_splits)
      then show ?thesis using assms False k next_k Inr
        by (auto simp: create_invoice_def Let_def result_simps linorder_not_le split: if_splits)
    qed
  qed
qed

section \<open>Conservation\<close>

definition invoice_ok ::
    "('i, 'k) NetworkInner \<Rightarrow> NetworkState \<Rightarrow> u8 list \<Rightarrow> InvoiceRecord \<Rightarrow> bool" where
  "invoice_ok inner s h r \<longleftrightarrow>
     ir_recipient_mint r \<in> set (bm_keys (nw_modes s))
     \<and> (\<exists>serial. serial < nw_next_invoice s
          \<and> h = sha256 (ni_lib inner)
              (derive32 (ni_lib inner) (ni_seed inner) ''preimage'' serial (ir_recipient_mint r)))"

definition network_ok :: "('i, 'k) NetworkInner \<Rightarrow> NetworkState \<Rightarrow> bool" where
  "network_ok inner s \<longleftrightarrow>
     bm_wf (nw_modes s) \<and> bm_wf (nw_invoices s)
     \<and> bm_keys (nw_online s) = bm_keys (nw_modes s) \<and> bm_keys (nw_reserves s) = bm_keys (nw_modes s)
     \<and> bm_keys (nw_events s) = bm_keys (nw_modes s)
     \<and> value_sum unat (nw_reserves s) + unat (nw_fee_sink_sat s) = unat (nw_external_funding_sat s)
     \<and> bm_all (invoice_ok inner s) (nw_invoices s)"

inductive network_step :: "('i, 'k) NetworkInner \<Rightarrow> NetworkState \<Rightarrow> NetworkState \<Rightarrow> bool"
  for inner where
  backend: "payment_backend i m s = (r1, s') \<Longrightarrow> network_step inner s s'"
| online: "set_online i b s = (r2, s') \<Longrightarrow> network_step inner s s'"
| funding: "settle_external inner now req s = (r3, s') \<Longrightarrow> network_step inner s s'"
| invoice: "create_invoice inner now i amount desc expiry s = (r4, s') \<Longrightarrow> network_step inner s s'"
| payment: "pay inner now i m unit options s = (r5, s') \<Longrightarrow> network_step inner s s'"

lemma keys_wf: "bm_keys m = bm_keys n \<Longrightarrow> bm_wf m = bm_wf n"
  by (simp add: bm_wf_def)

lemma fresh_keys:
  assumes "bm_keys m = bm_keys (n :: ('k::linorder, 'b) btree_map)"
  shows "bm_keys (bm_insert k v m) = bm_keys (bm_insert k w n)"
  using assms
proof (induction m arbitrary: n)
  case Nil
  then show ?case by simp
next
  case (Cons x m)
  obtain j u where x: "x = (j, u)" by (cases x)
  from Cons.prems obtain w' n' where n: "n = (j, w') # n'" "bm_keys m = bm_keys n'"
    unfolding x by (cases n) auto
  show ?case unfolding x n(1) using Cons.IH [OF n(2)] n(2) by simp
qed

lemma marked_paid_invoices:
  assumes "marked_paid h p fee r s s'" "bm_wf (nw_invoices s)" "bm_all (invoice_ok inner s) (nw_invoices s)"
  shows "bm_all (invoice_ok inner s') (nw_invoices s')" "bm_wf (nw_invoices s')"
    "ir_recipient_mint r \<in> set (bm_keys (nw_modes s))"
proof -
  have inv: "nw_invoices s' = bm_set h (r\<lparr>ir_paid_by := Some p, ir_fee_sat := fee\<rparr>) (nw_invoices s)"
    and get: "bm_get (nw_invoices s) h = Some r"
    and same: "invoice_ok inner s' = invoice_ok inner s"
    using assms(1) by (auto simp: marked_paid_def invoice_ok_def fun_eq_iff)
  have "invoice_ok inner s h r" using assms(3) get by (rule bm_all_get)
  then show "ir_recipient_mint r \<in> set (bm_keys (nw_modes s))"
    "bm_all (invoice_ok inner s') (nw_invoices s')" "bm_wf (nw_invoices s')"
    unfolding inv same
    using assms(2) bm_all_set [OF assms(2) get assms(3), of "invoice_ok inner s"]
    by (simp_all add: invoice_ok_def)
qed

lemma settle_external_ok:
  assumes "network_ok inner s" "settle_external inner now req s = (Inr p, s')"
  shows "network_ok inner s'"
  using assms(2)
proof (rule settle_external_Inr, goal_cases)
  case (1 bolt r reserve funded)
  have ok: "bm_wf (nw_modes s)" "bm_wf (nw_invoices s)" "bm_keys (nw_reserves s) = bm_keys (nw_modes s)"
    "bm_all (invoice_ok inner s) (nw_invoices s)"
    "value_sum unat (nw_reserves s) + unat (nw_fee_sink_sat s) = unat (nw_external_funding_sat s)"
    using assms(1) by (simp_all add: network_ok_def)
  note mp = marked_paid_invoices [OF 1(2) ok(2,4)]
  have wf: "bm_wf (nw_reserves s)" using ok(1) keys_wf [OF ok(3)] by simp
  have "value_sum unat (nw_reserves s') + unat reserve = value_sum unat (nw_reserves s) + unat funded"
    unfolding 1(8) using wf 1(5) by (rule value_sum_replace)
  then show ?case
    using assms(1) mp 1(2,6,7,9) ok(3) keys_replace [OF wf 1(5), of funded]
    by (simp add: network_ok_def marked_paid_def 1(8))
qed

lemma pay_ok:
  assumes "network_ok inner s" "pay inner now payer mode unit options s = (Inr resp, s')"
  shows "network_ok inner s'"
  using assms(2)
proof (rule pay_Inr, goal_cases)
  case (1 bolt amount max_fee total r before after credited)
  have ok: "bm_wf (nw_modes s)" "bm_wf (nw_invoices s)" "bm_keys (nw_reserves s) = bm_keys (nw_modes s)"
    "bm_all (invoice_ok inner s) (nw_invoices s)"
    "value_sum unat (nw_reserves s) + unat (nw_fee_sink_sat s) = unat (nw_external_funding_sat s)"
    using assms(1) by (simp_all add: network_ok_def)
  note mp = marked_paid_invoices [OF 1(6) ok(2,4)]
  have wf: "bm_wf (nw_reserves s)" using ok(1) keys_wf [OF ok(3)] by simp
  have sum_keys: "bm_keys (nw_reserves s') = bm_keys (nw_reserves s)
      \<and> value_sum unat (nw_reserves s') + unat (ni_fee_sat inner) = value_sum unat (nw_reserves s)"
  proof (cases "payer = ir_recipient_mint r")
    case True
    then have res: "nw_reserves s' = bm_insert payer credited (nw_reserves s)" "unat credited = unat after + unat amount"
      using 1(15) by auto
    show ?thesis
      unfolding res(1) using value_sum_replace [OF wf 1(11), of unat credited] keys_replace [OF wf 1(11)] res(2) 1(5,12)
      by simp
  next
    case False
    then obtain reserve where rv: "bm_get (nw_reserves s) (ir_recipient_mint r) = Some reserve"
        "unat credited = unat reserve + unat amount"
      and res: "nw_reserves s' = bm_insert (ir_recipient_mint r) credited (bm_insert payer after (nw_reserves s))"
      using 1(15) by auto
    have wf1: "bm_wf (bm_insert payer after (nw_reserves s))" using wf by simp
    have get1: "bm_get (bm_insert payer after (nw_reserves s)) (ir_recipient_mint r) = Some reserve"
      using rv(1) False by simp
    show ?thesis
      unfolding res using value_sum_replace [OF wf 1(11), of unat after] value_sum_replace [OF wf1 get1, of unat credited]
        keys_replace [OF wf 1(11)] keys_replace [OF wf1 get1] rv(2) 1(5,12)
      by simp
  qed
  then show ?case
    using assms(1) mp 1(6,13,14) ok(3) by (simp add: network_ok_def marked_paid_def)
qed

lemma backend_ok:
  assumes "network_ok inner s" "payment_backend i m s = (res, s')"
  shows "network_ok inner s'"
proof (cases "i = [] \<or> bm_get (nw_modes s) i \<noteq> None")
  case True
  then have "s' = s" using assms(2) by (auto simp: payment_backend_def split: if_splits)
  with assms(1) show ?thesis by simp
next
  case False
  then have s': "s' = s\<lparr>nw_modes := bm_insert i m (nw_modes s), nw_online := bm_insert i True (nw_online s),
      nw_reserves := bm_insert i 0 (nw_reserves s), nw_events := bm_insert i [] (nw_events s)\<rparr>"
    using assms(2) by (auto simp: payment_backend_def)
  have ok: "bm_wf (nw_modes s)" "bm_wf (nw_invoices s)" "bm_keys (nw_online s) = bm_keys (nw_modes s)"
    "bm_keys (nw_reserves s) = bm_keys (nw_modes s)" "bm_keys (nw_events s) = bm_keys (nw_modes s)"
    "bm_all (invoice_ok inner s) (nw_invoices s)"
    "value_sum unat (nw_reserves s) + unat (nw_fee_sink_sat s) = unat (nw_external_funding_sat s)"
    using assms(1) by (simp_all add: network_ok_def)
  have "i \<notin> set (bm_keys (nw_modes s))" using False by (auto simp: map_of_eq_None_iff)
  then have "bm_get (nw_reserves s) i = None" using ok(4) by (metis list.set_map map_of_eq_None_iff)
  then have "value_sum unat (nw_reserves s') = value_sum unat (nw_reserves s)"
    unfolding s' by (simp add: value_sum_fresh)
  moreover have "bm_all (invoice_ok inner s') (nw_invoices s')"
    using ok(6) unfolding s' bm_all_def list_all_iff by (auto simp: invoice_ok_def fst_set_bm_insert)
  ultimately show ?thesis
    using ok fresh_keys [OF ok(3)] fresh_keys [OF ok(4)] fresh_keys [OF ok(5)]
    by (simp add: network_ok_def s' bm_wf_bm_insert)
qed

lemma invoice_ok_later:
  assumes "invoice_ok inner s k r" "nw_modes s' = nw_modes s" "unat (nw_next_invoice s') = unat (nw_next_invoice s) + 1"
  shows "invoice_ok inner s' k r"
proof -
  have "serial < nw_next_invoice s'" if "serial < nw_next_invoice s" for serial
    using that assms(3) by (simp add: word_less_nat_alt)
  with assms(1,2) show ?thesis unfolding invoice_ok_def by metis
qed

lemma create_invoice_ok:
  assumes "network_ok inner s" "create_invoice inner now i amount desc expiry s = (res, s')"
  shows "network_ok inner s'"
proof -
  have ok: "bm_wf (nw_invoices s)" "bm_all (invoice_ok inner s) (nw_invoices s)"
    using assms(1) by (simp_all add: network_ok_def)
  from create_invoice_cases [OF assms(2)] show ?thesis
  proof (elim disjE conjE exE, goal_cases)
    case 1
    with assms(1) show ?thesis by simp
  next
    case 2
    have same: "nw_modes s' = nw_modes s" "nw_invoices s' = nw_invoices s"
      "nw_online s' = nw_online s" "nw_reserves s' = nw_reserves s" "nw_events s' = nw_events s"
      "nw_fee_sink_sat s' = nw_fee_sink_sat s" "nw_external_funding_sat s' = nw_external_funding_sat s"
      by (subst 2(4), simp)+
    have "bm_all (invoice_ok inner s') (nw_invoices s)"
      by (rule bm_all_mono [OF ok(2) _ ok(1)]) (rule invoice_ok_later [OF _ same(1) 2(1)])
    then show ?thesis using assms(1) by (simp add: network_ok_def same)
  next
    case (3 at)
    let ?new = "\<lparr>ir_recipient_mint = i, ir_amount_sat = amount, ir_expires_at = at,
        ir_preimage = derive32 (ni_lib inner) (ni_seed inner) ''preimage'' (nw_next_invoice s) i,
        ir_paid_by = None, ir_fee_sat = 0\<rparr>"
    let ?h = "sha256 (ni_lib inner) (derive32 (ni_lib inner) (ni_seed inner) ''preimage'' (nw_next_invoice s) i)"
    have modes: "nw_modes s' = nw_modes s" and inv: "nw_invoices s' = bm_insert ?h ?new (nw_invoices s)"
      by (subst 3(6), simp)+
    have "invoice_ok inner s' k r" if "invoice_ok inner s k r" for k r
      using that modes 3(1) by (rule invoice_ok_later)
    moreover have "invoice_ok inner s' ?h ?new"
      using 3(1,2) by (auto simp: invoice_ok_def modes word_less_nat_alt dest: get_some_key)
    ultimately have "bm_all (invoice_ok inner s') (nw_invoices s')"
      unfolding inv using ok(2) by (intro bm_all_insert) (auto simp: bm_all_def list_all_iff)
    moreover have "bm_wf (nw_invoices s')" unfolding inv using ok(1) by simp
    moreover have "nw_online s' = nw_online s" "nw_reserves s' = nw_reserves s" "nw_events s' = nw_events s"
      "nw_fee_sink_sat s' = nw_fee_sink_sat s" "nw_external_funding_sat s' = nw_external_funding_sat s"
      by (subst 3(6), simp)+
    ultimately show ?thesis using assms(1) by (simp add: network_ok_def modes)
  qed
qed

lemma set_online_ok:
  assumes "network_ok inner s" "set_online i b s = (res, s')"
  shows "network_ok inner s'"
  using assms by (auto simp: set_online_def network_ok_def invoice_ok_def [abs_def] split: option.splits)

interpretation network: invariant_system "\<lambda>s. s = network_new" "network_step inner" "network_ok inner" for inner
proof
  show "network_ok inner s" if "s = network_new" for s
    using that by (simp add: network_ok_def network_new_def bm_wf_def)
  show "network_ok inner s'" if "network_ok inner s" "network_step inner s s'" for s s'
    using that(2)
  proof cases
    case (funding now req r3)
    then show ?thesis using that(1) settle_external_ok settle_external_error by (cases r3) blast+
  next
    case (payment now i m unit options r5)
    then show ?thesis using that(1) pay_ok pay_error by (cases r5) blast+
  next
    case (invoice now i amount desc expiry r4)
    then show ?thesis by (rule create_invoice_ok [OF that(1)])
  qed (rule backend_ok [OF that(1)] set_online_ok [OF that(1)], assumption)+
qed

definition network_reachable :: "('i, 'k) NetworkInner \<Rightarrow> NetworkState \<Rightarrow> bool" where
  "network_reachable inner s \<longleftrightarrow> (network_step inner)\<^sup>*\<^sup>* network_new s"

lemma reachable_network_ok: "network_reachable inner s \<Longrightarrow> network_ok inner s"
  unfolding network_reachable_def by (rule network.inv_reachable [OF refl])

lemma checked_total:
  assumes "unat a + sum_list (map (\<lambda>x. unat (f x)) xs) < 2 ^ 64"
  shows "\<exists>b. try_fold (\<lambda>x t. ok_or (checked_add t (f x :: u64)) e) xs a = Inr b
    \<and> unat b = unat a + sum_list (map (\<lambda>x. unat (f x)) xs)"
  using assms
proof (induction xs arbitrary: a)
  case (Cons x xs)
  have fits: "unat a + unat (f x) < 2 ^ LENGTH(64)" using Cons.prems by simp
  then have "checked_add a (f x) = Some (a + f x)" "unat (a + f x) = unat a + unat (f x)"
    by (rule checked_add_fits, rule unat_add_fits)
  with Cons.IH [of "a + f x"] Cons.prems show ?case by (simp add: add.assoc)
qed simp

lemma collect_results_ok:
  "list_all (\<lambda>x. f x = Inr (g x)) xs \<Longrightarrow> collect_results f xs = Inr (map g xs)"
  by (induction xs) simp_all

lemma map_of_values:
  assumes "distinct (map fst rs)"
  shows "map (\<lambda>k. the (map_of rs k)) (map fst rs) = map snd rs"
  using assms by (auto simp: map_of_eq_Some_iff intro!: map_cong)

lemma find_SomeD: "find P xs = Some x \<Longrightarrow> x \<in> set xs \<and> P x"
  by (induction xs) (auto split: if_splits)

lemma sum_sort: "sum_list (map f (sort_key g xs)) = (sum_list (map f xs) :: nat)"
proof -
  have "mset (map f (sort_key g xs)) = mset (map f xs)" by simp
  then show ?thesis by (simp only: sum_mset_sum_list [symmetric])
qed

lemma accounting_ok:
  assumes "network_ok inner s"
  shows "\<exists>acc. accounting s = Inr acc \<and> is_conserved acc
    \<and> unat (as_total_reserve_sat acc) = value_sum unat (nw_reserves s)
    \<and> mint_reserve acc i = bm_get (nw_reserves s) i"
proof -
  have ok: "bm_wf (nw_modes s)" "bm_keys (nw_reserves s) = bm_keys (nw_modes s)"
    "value_sum unat (nw_reserves s) + unat (nw_fee_sink_sat s) = unat (nw_external_funding_sat s)"
    using assms by (simp_all add: network_ok_def)
  have dist: "distinct (map fst (nw_reserves s))" using bm_wf_distinct [OF ok(1)] ok(2) by simp
  let ?g = "\<lambda>e. \<lparr>ms_mint_id = fst e, ms_mode = snd e, ms_reserve_sat = the (bm_get (nw_reserves s) (fst e))\<rparr>"
  let ?mints = "sort_key ms_mint_id (map ?g (nw_modes s))"
  have get: "bm_get (nw_reserves s) k = Some (the (bm_get (nw_reserves s) k))" if "k \<in> set (bm_keys (nw_modes s))" for k
    using that ok(2) key_get_some [of k "nw_reserves s"] by auto
  then have "list_all (\<lambda>e. reserve_snapshot s e = Inr (?g e)) (nw_modes s)"
    by (auto simp: reserve_snapshot_def list_all_iff and_then_eq ok_or_eq)
  then have collected: "collect_results (reserve_snapshot s) (nw_modes s) = Inr (map ?g (nw_modes s))"
    by (rule collect_results_ok)
  have "map (\<lambda>m. ms_reserve_sat m) (map ?g (nw_modes s)) = bm_values (nw_reserves s)"
    using map_of_values [OF dist] by (simp add: comp_def ok(2))
  then have "sum_list (map (\<lambda>m. unat (ms_reserve_sat m)) (map ?g (nw_modes s))) = value_sum unat (nw_reserves s)"
    unfolding value_sum_def by (metis (no_types, lifting) list.map_comp comp_apply map_eq_conv)
  then have sum: "sum_list (map (\<lambda>m. unat (ms_reserve_sat m)) ?mints) = value_sum unat (nw_reserves s)"
    by (simp only: sum_sort)
  then have "unat (0 :: u64) + sum_list (map (\<lambda>m. unat (ms_reserve_sat m)) ?mints) < 2 ^ 64"
    using ok(3) u64_bound [of "nw_external_funding_sat s"] by simp
  from checked_total [OF this, of "custom_error ''total reserve overflow''"] obtain total where total:
    "try_fold (\<lambda>m t. ok_or (checked_add t (ms_reserve_sat m)) (custom_error ''total reserve overflow'')) ?mints 0 = Inr total"
    "unat total = value_sum unat (nw_reserves s)"
    using sum by auto
  have accounted: "checked_add total (nw_fee_sink_sat s) = Some (nw_external_funding_sat s)"
    using total(2) ok(3) by (simp add: checked_add_eq_Some)
  have len: "length (nw_reserves s) = length (nw_modes s)" using ok(2) by (metis length_map)
  let ?acc = "\<lparr>as_mints = ?mints, as_total_reserve_sat = total, as_fee_sink_sat = nw_fee_sink_sat s,
      as_total_accounted_sat = nw_external_funding_sat s, as_external_funding_sat = nw_external_funding_sat s\<rparr>"
  have "accounting s = Inr ?acc"
    by (simp add: accounting_def len collected total(1) accounted Let_def)
  moreover have "mint_reserve ?acc i = bm_get (nw_reserves s) i"
  proof (cases "find (\<lambda>m. ms_mint_id m = i) ?mints")
    case None
    then have "i \<notin> set (bm_keys (nw_modes s))" by (auto simp: find_None_iff)
    then have "bm_get (nw_reserves s) i = None" using ok(2) by (metis list.set_map map_of_eq_None_iff)
    with None show ?thesis by (simp add: mint_reserve_def)
  next
    case (Some m)
    from find_SomeD [OF this]
    have "ms_reserve_sat m = the (bm_get (nw_reserves s) i)" "i \<in> set (bm_keys (nw_modes s))" by force+
    then show ?thesis using Some get [of i] by (simp add: mint_reserve_def)
  qed
  ultimately show ?thesis using total(2) by (intro exI [of _ ?acc]) (simp add: is_conserved_def)
qed

text \<open>C20. Value is conserved: after any sequence of calls, accepted or rejected, the accounting
  succeeds, the reserves of all mints plus the fees paid equal what was funded from outside, and it
  reports the reserve of every mint.\<close>

theorem network_conserves_value:
  assumes "network_reachable inner s"
  shows "\<exists>acc. accounting s = Inr acc \<and> is_conserved acc
    \<and> unat (as_total_reserve_sat acc) = value_sum unat (nw_reserves s)
    \<and> mint_reserve acc i = bm_get (nw_reserves s) i"
  using reachable_network_ok [OF assms] by (rule accounting_ok)

section \<open>An invoice is paid at most once\<close>

text \<open>Distinct serials and mints have distinct payment hashes, as a collision-free hash gives.\<close>

definition hashes_distinct :: "('i, 'k) NetworkInner \<Rightarrow> bool" where
  "hashes_distinct inner \<longleftrightarrow> (\<forall>serial mint serial' mint'.
     sha256 (ni_lib inner) (derive32 (ni_lib inner) (ni_seed inner) ''preimage'' serial mint)
       = sha256 (ni_lib inner) (derive32 (ni_lib inner) (ni_seed inner) ''preimage'' serial' mint')
     \<longrightarrow> serial = serial')"

definition paid_invoice :: "u8 list \<Rightarrow> InvoiceRecord \<Rightarrow> NetworkState \<Rightarrow> bool" where
  "paid_invoice h r s \<longleftrightarrow> bm_get (nw_invoices s) h = Some r \<and> ir_paid_by r \<noteq> None"

lemma marked_paid_keeps: "marked_paid h' p fee r' s s' \<Longrightarrow> paid_invoice h r s \<Longrightarrow> paid_invoice h r s'"
  by (auto simp: marked_paid_def paid_invoice_def bm_get_bm_set)

lemma marked_paid_paid:
  "marked_paid h p fee r s s' \<Longrightarrow> paid_invoice h (r\<lparr>ir_paid_by := Some p, ir_fee_sat := fee\<rparr>) s'"
  by (auto simp: marked_paid_def paid_invoice_def bm_get_bm_set)

lemma step_keeps_paid:
  assumes "hashes_distinct inner" "network_ok inner s" "network_step inner s s'" "paid_invoice h r s"
  shows "paid_invoice h r s'"
  using assms(3)
proof cases
  case (backend i m r1)
  then show ?thesis using assms(4)
    by (auto simp: payment_backend_def paid_invoice_def split: if_splits option.splits)
next
  case (online i b r2)
  then show ?thesis using assms(4) by (auto simp: set_online_def paid_invoice_def split: option.splits)
next
  case (funding now req r3)
  show ?thesis
  proof (cases r3)
    case (Inl e)
    then show ?thesis using funding settle_external_error assms(4) by blast
  next
    case (Inr x)
    from funding [unfolded Inr] show ?thesis
      by (rule settle_external_Inr) (rule marked_paid_keeps [OF _ assms(4)])
  qed
next
  case (payment now i m unit options r5)
  show ?thesis
  proof (cases r5)
    case (Inl e)
    then show ?thesis using payment pay_error assms(4) by blast
  next
    case (Inr x)
    from payment [unfolded Inr] show ?thesis
      by (rule pay_Inr) (rule marked_paid_keeps [OF _ assms(4)])
  qed
next
  case (invoice now i amount desc expiry r4)
  from create_invoice_cases [OF this] show ?thesis
  proof (elim disjE conjE exE, goal_cases)
    case 2
    have "nw_invoices s' = nw_invoices s" by (subst 2(4)) simp
    with assms(4) show ?thesis by (simp add: paid_invoice_def)
  next
    case (3 at)
    have "invoice_ok inner s h r"
      using assms(2,4) by (auto simp: network_ok_def paid_invoice_def intro: bm_all_get)
    then obtain serial where "serial < nw_next_invoice s" "h = sha256 (ni_lib inner)
        (derive32 (ni_lib inner) (ni_seed inner) ''preimage'' serial (ir_recipient_mint r))"
      by (auto simp: invoice_ok_def)
    then have "h \<noteq> sha256 (ni_lib inner) (derive32 (ni_lib inner) (ni_seed inner) ''preimage'' (nw_next_invoice s) i)"
      using assms(1) unfolding hashes_distinct_def by (metis order_less_irrefl)
    then have "bm_get (nw_invoices s') h = bm_get (nw_invoices s) h" by (subst 3(6)) simp
    with assms(4) show ?thesis by (simp add: paid_invoice_def)
  qed (use assms(4) in simp)
qed

lemma run_keeps_paid:
  assumes "(network_step inner)\<^sup>*\<^sup>* s t" "hashes_distinct inner" "network_ok inner s" "paid_invoice h r s"
  shows "paid_invoice h r t"
  using assms(1)
proof (induction rule: rtranclp_induct)
  case (step t u)
  have "network_ok inner t" using network.inv_run [OF step.hyps(1) assms(3)] .
  then show ?case using step_keeps_paid [OF assms(2) _ step.hyps(2) step.IH] by blast
qed (rule assms(4))

lemma pay_paid_fails:
  assumes "paid_invoice (bolt11_hash (ni_lib inner) bolt) r s"
  shows "\<exists>e. pay inner now payer mode unit (Bolt11Outgoing bolt melt fee) s = (Inl e, s)"
proof -
  have False if "pay inner now payer mode unit (Bolt11Outgoing bolt melt fee) s = (Inr resp, s')" for resp s'
    using that
  proof (rule pay_Inr, goal_cases)
    case (1 b amount max_fee total r' before after credited)
    have "b = bolt" using outgoing_invoice_Inr(1) [OF 1(1)] by simp
    then show False using 1(6) assms by (simp add: marked_paid_def paid_invoice_def)
  qed
  then show ?thesis
    by (cases "pay inner now payer mode unit (Bolt11Outgoing bolt melt fee) s")
      (metis old.sum.exhaust pay_error)
qed

lemma settle_paid_fails:
  assumes "bolt11_parse (ni_lib inner) req = Inr bolt" "paid_invoice (bolt11_hash (ni_lib inner) bolt) r s"
  shows "settle_external inner now req s = (Inl InvoiceAlreadyPaid, s)"
  using assms by (simp add: settle_external_def parse_invoice_def paid_invoice_def ensure_invoice_payable_def)

text \<open>C21. An invoice is paid at most once: after a payment was accepted, and after any further calls,
  every other payment of that invoice, from any mint with any options, and every external settlement
  of it is refused and changes nothing, while both sides keep reading the same receipt: the payer sees
  it paid with the amount it spent, the recipient sees it received.\<close>

theorem invoice_paid_once:
  assumes "hashes_distinct inner" "network_reachable inner s"
    and "pay inner now payer mode unit (Bolt11Outgoing bolt melt fee) s = (Inr resp, s')"
    and "(network_step inner)\<^sup>*\<^sup>* s' t"
  shows "(\<exists>e. pay inner now' payer' mode' unit' (Bolt11Outgoing bolt melt' fee') t = (Inl e, t))
    \<and> (bolt11_parse (ni_lib inner) req = Inr bolt \<longrightarrow>
        settle_external inner now' req t = (Inl InvoiceAlreadyPaid, t))
    \<and> outgoing_status inner payer (mp_payment_lookup_id resp) t = Inr resp
    \<and> (\<exists>r. bm_get (nw_invoices s) (bolt11_hash (ni_lib inner) bolt) = Some r
          \<and> incoming_status inner (ir_recipient_mint r) (mp_payment_lookup_id resp) t
              = [incoming_response (ni_lib inner) (bolt11_hash (ni_lib inner) bolt) r])"
  using assms(3)
proof (rule pay_Inr, goal_cases)
  case (1 b amount max_fee total r before after credited)
  have b: "b = bolt" using outgoing_invoice_Inr(1) [OF 1(1)] by simp
  have "network_ok inner s'" using pay_ok [OF reachable_network_ok [OF assms(2)] assms(3)] .
  from run_keeps_paid [OF assms(4,1) this marked_paid_paid [OF 1(6)]]
  have paid: "paid_invoice (bolt11_hash (ni_lib inner) bolt)
      (r\<lparr>ir_paid_by := Some payer, ir_fee_sat := ni_fee_sat inner\<rparr>) t"
    unfolding b .
  have "saturating_add (ir_amount_sat r) (ni_fee_sat inner) = total"
    using 1(5) u64_bound [of total] unfolding 1(8) by (simp add: word_unat_eq_iff unat_saturating_add)
  then have "outgoing_status inner payer (mp_payment_lookup_id resp) t = Inr resp"
    using paid by (simp add: outgoing_status_def paid_invoice_def 1(16) b)
  moreover have "incoming_status inner (ir_recipient_mint r) (mp_payment_lookup_id resp) t
      = [incoming_response (ni_lib inner) (bolt11_hash (ni_lib inner) bolt) r]"
    using paid by (simp add: incoming_status_def paid_invoice_def 1(16) b incoming_response_def)
  moreover have "bm_get (nw_invoices s) (bolt11_hash (ni_lib inner) bolt) = Some r"
    using 1(6) by (simp add: marked_paid_def b)
  ultimately show ?case using pay_paid_fails [OF paid] settle_paid_fails [OF _ paid] by blast
qed

section \<open>A payment moves its amount and its fee\<close>

definition reserve_of :: "NetworkState \<Rightarrow> string \<Rightarrow> nat" where
  "reserve_of s i = (case bm_get (nw_reserves s) i of None \<Rightarrow> 0 | Some v \<Rightarrow> unat v)"

text \<open>An accepted payment comes from a withdrawable mint in sats, respects the stated maximum fee
  and reports amount plus fee as spent; it takes exactly that from the payer's reserve, gives the
  amount to the recipient (both at once when a mint pays its own invoice), adds the fee to the sink,
  and changes no other reserve and no external funding.\<close>

theorem payment_moves_exact_value:
  assumes "pay inner now payer mode unit (Bolt11Outgoing bolt melt max_fee) s = (Inr resp, s')"
  shows "mode = Withdrawable \<and> unit = UnitSat
    \<and> (case max_fee of None \<Rightarrow> True | Some (m, u) \<Rightarrow> u = UnitSat \<and> ni_fee_sat inner \<le> m)
    \<and> (\<exists>r. bm_get (nw_invoices s) (bolt11_hash (ni_lib inner) bolt) = Some r
        \<and> ir_paid_by r = None \<and> now < ir_expires_at r
        \<and> unat (mp_total_spent resp) = unat (ir_amount_sat r) + unat (ni_fee_sat inner)
        \<and> (\<forall>i. reserve_of s' i + (if i = payer then unat (mp_total_spent resp) else 0)
             = reserve_of s i + (if i = ir_recipient_mint r then unat (ir_amount_sat r) else 0)))
    \<and> unat (nw_fee_sink_sat s') = unat (nw_fee_sink_sat s) + unat (ni_fee_sat inner)
    \<and> nw_external_funding_sat s' = nw_external_funding_sat s"
  using assms
proof (rule pay_Inr, goal_cases)
  case (1 b amount limit total r before after credited)
  have b: "b = bolt" using outgoing_invoice_Inr(1) [OF 1(1)] by simp
  have limit: "case max_fee of None \<Rightarrow> True | Some (m, u) \<Rightarrow> u = UnitSat \<and> ni_fee_sat inner \<le> m"
    using 1(1,4) by (auto simp: outgoing_invoice_def Let_def result_simps split: option.splits)
  have spent: "mp_total_spent resp = total" by (simp add: 1(16))
  have moved: "reserve_of s' i + (if i = payer then unat (mp_total_spent resp) else 0)
      = reserve_of s i + (if i = ir_recipient_mint r then unat (ir_amount_sat r) else 0)" for i
    unfolding spent using 1(8,11,12,15) by (auto simp: reserve_of_def split: if_splits)
  have found: "bm_get (nw_invoices s) (bolt11_hash (ni_lib inner) bolt) = Some r"
    using 1(6) by (simp add: marked_paid_def b)
  have sum: "unat (mp_total_spent resp) = unat (ir_amount_sat r) + unat (ni_fee_sat inner)"
    unfolding spent using 1(5,8) by simp
  show ?case
    by (intro conjI exI [of _ r] allI) (fact | use 1 in \<open>simp add: marked_paid_def\<close>)+
qed

section \<open>An example\<close>

definition ex_lib :: "(u8 list \<times> u64, unit) payment_lib" where
  "ex_lib = \<lparr>bolt11_parse = (\<lambda>request. Inl ''not an invoice''), bolt11_hash = fst,
     bolt11_amount_msat = (\<lambda>(h, m). Some m),
     bolt11_build = (\<lambda>description h secret msat issued expiry key. Inr (h, msat)),
     bolt11_to_string = (\<lambda>b. ''lnbc''), sha256 = (\<lambda>bytes. bytes),
     secret_key_from_slice = (\<lambda>bytes. Some ()), hex_encode = (\<lambda>bytes. ''00'')\<rparr>"

definition ex_hash :: "u64 \<Rightarrow> string \<Rightarrow> u8 list" where
  "ex_hash serial mint = sha256 ex_lib (derive32 ex_lib 7 ''preimage'' serial mint)"

definition ex_net :: "(u8 list \<times> u64, unit) NetworkInner" where
  "ex_net = \<lparr>ni_seed = 7, ni_fee_sat = 1,
     ni_lib = ex_lib\<lparr>bolt11_parse := (\<lambda>request. if request = ''lnA'' then Inr (ex_hash 0 ''a'', 50000)
                                               else Inl ''not an invoice'')\<rparr>\<rparr>"

definition ex_mints :: NetworkState where
  "ex_mints = snd (payment_backend ''b'' Withdrawable (snd (payment_backend ''a'' Withdrawable network_new)))"

definition ex_invoiced :: NetworkState where
  "ex_invoiced = snd (create_invoice ex_net 5 ''b'' 20 [] None
     (snd (create_invoice ex_net 5 ''a'' 50 [] None ex_mints)))"

definition ex_funded :: NetworkState where
  "ex_funded = snd (settle_external ex_net 6 ''lnA'' ex_invoiced)"

definition ex_options :: "(u8 list \<times> u64) OutgoingPaymentOptions" where
  "ex_options = Bolt11Outgoing (ex_hash 1 ''b'', 20000) None (Some (2, UnitSat))"

definition ex_response :: MakePaymentResponse where
  "ex_response = projr (fst (pay ex_net 7 ''a'' Withdrawable UnitSat ex_options ex_funded))"

definition ex_paid :: NetworkState where
  "ex_paid = snd (pay ex_net 7 ''a'' Withdrawable UnitSat ex_options ex_funded)"

lemma ex_payment_made: "pay ex_net 7 ''a'' Withdrawable UnitSat ex_options ex_funded = (Inr ex_response, ex_paid)"
proof -
  have "isl (fst (pay ex_net 7 ''a'' Withdrawable UnitSat ex_options ex_funded)) = False" by code_simp
  then have "fst (pay ex_net 7 ''a'' Withdrawable UnitSat ex_options ex_funded) = Inr ex_response"
    unfolding ex_response_def by (cases "fst (pay ex_net 7 ''a'' Withdrawable UnitSat ex_options ex_funded)") auto
  then show ?thesis unfolding ex_paid_def by (metis prod.collapse)
qed

lemma ex_network_reachable: "network_reachable ex_net ex_funded" "network_reachable ex_net ex_paid"
proof -
  have "network_step ex_net network_new (snd (payment_backend ''a'' Withdrawable network_new))"
    by (rule network_step.backend) (rule prod.collapse [symmetric])
  moreover have "network_step ex_net (snd (payment_backend ''a'' Withdrawable network_new)) ex_mints"
    unfolding ex_mints_def by (rule network_step.backend) (rule prod.collapse [symmetric])
  moreover have "network_step ex_net ex_mints (snd (create_invoice ex_net 5 ''a'' 50 [] None ex_mints))"
    by (rule network_step.invoice) (rule prod.collapse [symmetric])
  moreover have "network_step ex_net (snd (create_invoice ex_net 5 ''a'' 50 [] None ex_mints)) ex_invoiced"
    unfolding ex_invoiced_def by (rule network_step.invoice) (rule prod.collapse [symmetric])
  moreover have "network_step ex_net ex_invoiced ex_funded"
    unfolding ex_funded_def by (rule network_step.funding) (rule prod.collapse [symmetric])
  ultimately show f: "network_reachable ex_net ex_funded"
    unfolding network_reachable_def by (meson rtranclp.rtrancl_into_rtrancl rtranclp.rtrancl_refl)
  have "network_step ex_net ex_funded ex_paid" using ex_payment_made by (rule network_step.payment)
  with f show "network_reachable ex_net ex_paid"
    unfolding network_reachable_def by (rule rtranclp.rtrancl_into_rtrancl)
qed

lemma ex_hashes_distinct: "hashes_distinct ex_net"
  by (auto simp: hashes_distinct_def ex_net_def ex_lib_def derive32_def)
    (metis be_bytes_inverse length_be_bytes append_eq_append_conv)

theorem network_conserves_value_witness:
  "\<exists>acc. accounting ex_paid = Inr acc \<and> is_conserved acc \<and> mint_reserve acc ''b'' = Some 20"
proof -
  have "bm_get (nw_reserves ex_paid) ''b'' = Some 20" by code_simp
  then show ?thesis using network_conserves_value [OF ex_network_reachable(2), of "''b''"] by auto
qed

theorem payment_moves_exact_value_witness: "reserve_of ex_paid ''a'' + 21 = reserve_of ex_funded ''a''"
proof -
  define r where "r = the (bm_get (nw_invoices ex_funded) (bolt11_hash (ni_lib ex_net) (ex_hash 1 ''b'', 20000)))"
  have "bm_get (nw_invoices ex_funded) (bolt11_hash (ni_lib ex_net) (ex_hash 1 ''b'', 20000)) = Some r"
    "ir_recipient_mint r = ''b''" "mp_total_spent ex_response = 21"
    unfolding r_def by code_simp+
  then show ?thesis
    using payment_moves_exact_value [OF ex_payment_made [unfolded ex_options_def]] by (auto dest: spec [of _ "''a''"])
qed

theorem invoice_paid_once_witness:
  "outgoing_status ex_net ''a'' (mp_payment_lookup_id ex_response) ex_paid = Inr ex_response
   \<and> (\<exists>e. pay ex_net 8 ''b'' Withdrawable UnitSat ex_options ex_paid = (Inl e, ex_paid))"
  unfolding ex_options_def
  using invoice_paid_once [OF ex_hashes_distinct ex_network_reachable(1)
      ex_payment_made [unfolded ex_options_def] rtranclp.rtrancl_refl] by blast

end
