(* ===== verification/Cross_Mint.thy ===== *)
theory Cross_Mint
  imports Cdk_Wallet Rust_String
begin

text \<open>
  Moving balance between two mints (\<open>wallet/cross_mint/mod.rs\<close>, \<open>normalize_mint_url\<close> and
  \<open>ensure_sat_wallet\<close> of \<open>wallet.rs\<close>). A transfer is journalled in the source wallet's key-value store
  before each external effect, so that a call with the same id resumes it. The definitions follow the
  stages of \<open>transfer_between_wallets_with_start\<close>; the mutable local saga is passed from stage to
  stage. URL parsing, the JSON codec and BOLT11 parsing are code of other crates (\<open>transfer_lib\<close>).
  The operation mutex serialises the calls of one process, so a call is a function on the world.
\<close>

section \<open>Data\<close>

record CashuCrossMintTransferRequest =
  tq_transfer_id :: string
  tq_source_mint_url :: string
  tq_destination_mint_url :: string
  tq_amount_sat :: u64
  tq_max_fee_sat :: u64

record CashuCrossMintTransfer =
  ct_transfer_id :: string
  ct_source_mint_url :: string
  ct_destination_mint_url :: string
  ct_unit :: string
  ct_amount_sat :: u64
  ct_max_fee_sat :: u64
  ct_melt_fee_reserve_sat :: u64
  ct_wallet_fee_sat :: u64
  ct_fee_paid_sat :: u64
  ct_source_melt_quote_id :: string
  ct_destination_mint_quote_id :: string
  ct_destination_balance_before_sat :: u64
  ct_destination_balance_after_sat :: u64

record CashuCrossMintTransferSaga =
  sg_version :: "32 word"
  sg_request :: CashuCrossMintTransferRequest
  sg_destination_balance_before_sat :: u64
  sg_destination_mint_quote_id :: "string option"
  sg_destination_payment_request :: "string option"
  sg_source_melt_quote_id :: "string option"
  sg_melt_fee_reserve_sat :: "u64 option"
  sg_wallet_fee_sat :: "u64 option"
  sg_fee_paid_sat :: "u64 option"
  sg_result :: "CashuCrossMintTransfer option"

record 'u transfer_lib =
  saga_to_vec :: "CashuCrossMintTransferSaga \<Rightarrow> string + u8 list"
  saga_from_slice :: "u8 list \<Rightarrow> string + CashuCrossMintTransferSaga"
  invoice_from_str :: "string \<Rightarrow> string + u64 option"
  mint_url_from_str :: "string \<Rightarrow> string + string"
  url_parse :: "string \<Rightarrow> string + 'u"
  url_scheme :: "'u \<Rightarrow> string"
  url_query :: "'u \<Rightarrow> string option"
  url_fragment :: "'u \<Rightarrow> string option"
  url_path :: "'u \<Rightarrow> string"
  url_set_path :: "string \<Rightarrow> 'u \<Rightarrow> 'u"
  url_to_string :: "'u \<Rightarrow> string"

definition K_WALLET_NAMESPACE :: string where
  "K_WALLET_NAMESPACE = ''iris_wallet''"

definition K_CROSS_MINT_TRANSFER_NAMESPACE :: string where
  "K_CROSS_MINT_TRANSFER_NAMESPACE = ''cross_mint_transfer''"

definition K_CROSS_MINT_TRANSFER_VERSION :: "32 word" where
  "K_CROSS_MINT_TRANSFER_VERSION = 1"

section \<open>Requests\<close>

definition normalize_mint_url :: "'u transfer_lib \<Rightarrow> string \<Rightarrow> TransferError + string" where
  "normalize_mint_url lib raw =
     and_then (map_err (Cdk (''Invalid mint URL: '' @ raw)) (url_parse lib raw)) (\<lambda>url.
     if url_scheme lib url \<notin> {''http'', ''https''} then Inl (UnsupportedScheme (url_scheme lib url))
     else if url_query lib url \<noteq> None \<or> url_fragment lib url \<noteq> None
     then Inl (Bail ''Mint URL must not include query or fragment'')
     else
       let trimmed_path = trim_end_matches CHR ''/'' (url_path lib url);
           url = url_set_path lib (if trimmed_path = [] then [] else trimmed_path) url in
       Inr (trim_end_matches CHR ''/'' (url_to_string lib url)))"

definition normalize_cross_mint_transfer_request ::
    "'u transfer_lib \<Rightarrow> CashuCrossMintTransferRequest \<Rightarrow> TransferError + CashuCrossMintTransferRequest" where
  "normalize_cross_mint_transfer_request lib request =
     (let request = request\<lparr>tq_transfer_id := trim (tq_transfer_id request)\<rparr> in
      if tq_transfer_id request = [] \<or> length (tq_transfer_id request) > 128
         \<or> \<not> list_all (\<lambda>byte. is_ascii_alphanumeric byte \<or> byte = CHR ''-'' \<or> byte = CHR ''_'')
               (tq_transfer_id request)
      then Inl (Bail (''Cashu cross-mint transfer id must be 1-128 ASCII letters, digits, '-' or ''
                      @ [CHR 0x27, CHR ''_'', CHR 0x27]))
      else if tq_amount_sat request = 0
      then Inl (Bail ''Cashu cross-mint transfer amount must be greater than zero'')
      else
        and_then (ok_or (checked_mul (tq_amount_sat request) 1000)
                    (Missing ''Cashu cross-mint transfer amount is too large'')) (\<lambda>_.
        and_then (normalize_mint_url lib (tq_source_mint_url request)) (\<lambda>source.
        and_then (normalize_mint_url lib (tq_destination_mint_url request)) (\<lambda>destination.
        let request = request\<lparr>tq_source_mint_url := source, tq_destination_mint_url := destination\<rparr> in
        if source = destination
        then Inl (Bail ''Cashu cross-mint transfer requires two different mints'')
        else Inr request))))"

definition validate_exact_bolt11_amount ::
    "'u transfer_lib \<Rightarrow> string \<Rightarrow> u64 \<Rightarrow> TransferError + unit" where
  "validate_exact_bolt11_amount lib payment_request amount_sat =
     and_then (map_err (Cdk ''Destination mint returned an invalid BOLT11 invoice'')
                (invoice_from_str lib payment_request)) (\<lambda>invoice.
     and_then (ok_or (checked_mul amount_sat 1000)
                (Missing ''Cashu cross-mint transfer amount is too large'')) (\<lambda>expected_msat.
     and_then (ok_or invoice (Missing ''Destination mint returned an amountless BOLT11 invoice''))
       (\<lambda>invoice_msat.
     if invoice_msat \<noteq> expected_msat then Inl (InvoiceAmount invoice_msat expected_msat) else Inr ())))"

section \<open>The journal\<close>

definition load_cross_mint_transfer_saga ::
    "'u transfer_lib \<Rightarrow> 'w cdk_wallet \<Rightarrow> string \<Rightarrow> 'w
       \<Rightarrow> (TransferError + CashuCrossMintTransferSaga option) \<times> 'w" where
  "load_cross_mint_transfer_saga lib wallet transfer_id w =
     attempt_mut (with_context ''Failed to read Cashu cross-mint transfer saga''
       (cw_kv_read wallet K_WALLET_NAMESPACE K_CROSS_MINT_TRANSFER_NAMESPACE transfer_id w)) (\<lambda>stored w.
     case stored of
       None \<Rightarrow> (Inr None, w)
     | Some bytes \<Rightarrow>
         attempt (map_err (Cdk ''Failed to parse Cashu cross-mint transfer saga'') (saga_from_slice lib bytes))
           w (\<lambda>saga. (Inr (Some saga), w)))"

definition save_cross_mint_transfer_saga ::
    "'u transfer_lib \<Rightarrow> 'w cdk_wallet \<Rightarrow> CashuCrossMintTransferSaga \<Rightarrow> 'w \<Rightarrow> (TransferError + unit) \<times> 'w" where
  "save_cross_mint_transfer_saga lib wallet saga w =
     attempt (map_err (Cdk ''Failed to encode Cashu cross-mint transfer saga'') (saga_to_vec lib saga)) w
       (\<lambda>encoded.
     with_context ''Failed to write Cashu cross-mint transfer saga''
       (cw_kv_write wallet K_WALLET_NAMESPACE K_CROSS_MINT_TRANSFER_NAMESPACE
          (tq_transfer_id (sg_request saga)) encoded w))"

definition new_saga :: "CashuCrossMintTransferRequest \<Rightarrow> u64 \<Rightarrow> CashuCrossMintTransferSaga" where
  "new_saga request balance =
     \<lparr>sg_version = K_CROSS_MINT_TRANSFER_VERSION, sg_request = request,
      sg_destination_balance_before_sat = balance, sg_destination_mint_quote_id = None,
      sg_destination_payment_request = None, sg_source_melt_quote_id = None,
      sg_melt_fee_reserve_sat = None, sg_wallet_fee_sat = None, sg_fee_paid_sat = None, sg_result = None\<rparr>"

text \<open>The saga of the call, or the recorded result of a finished transfer (an early return).\<close>

definition open_saga ::
    "'u transfer_lib \<Rightarrow> 'w cdk_wallet \<Rightarrow> 'w cdk_wallet \<Rightarrow> CashuCrossMintTransferRequest \<Rightarrow> bool \<Rightarrow> 'w
       \<Rightarrow> (TransferError + (CashuCrossMintTransfer + CashuCrossMintTransferSaga)) \<times> 'w" where
  "open_saga lib source destination request allow_new w =
     attempt_mut (load_cross_mint_transfer_saga lib source (tq_transfer_id request) w) (\<lambda>stored w.
     case stored of
       Some saga \<Rightarrow>
         if sg_version saga \<noteq> K_CROSS_MINT_TRANSFER_VERSION \<or> sg_request saga \<noteq> request
         then (Inl (BoundToOtherRequest (tq_transfer_id request)), w)
         else (case sg_result saga of
                 Some result \<Rightarrow> (Inr (Inl result), w)
               | None \<Rightarrow> (Inr (Inr saga), w))
     | None \<Rightarrow>
         if \<not> allow_new then (Inl (NothingToResume (tq_transfer_id request)), w)
         else
           attempt_mut (with_context ''Failed to load destination mint balance before transfer''
             (cw_total_balance destination w)) (\<lambda>balance w.
           attempt_mut (save_cross_mint_transfer_saga lib source (new_saga request balance) w) (\<lambda>_ w.
           (Inr (Inr (new_saga request balance)), w))))"

section \<open>Quotes\<close>

definition quote_destination ::
    "'u transfer_lib \<Rightarrow> 'w cdk_wallet \<Rightarrow> 'w cdk_wallet \<Rightarrow> CashuCrossMintTransferRequest
       \<Rightarrow> CashuCrossMintTransferSaga \<Rightarrow> 'w \<Rightarrow> (TransferError + CashuCrossMintTransferSaga) \<times> 'w" where
  "quote_destination lib source destination request saga w =
     (if sg_destination_mint_quote_id saga \<noteq> None then (Inr saga, w)
      else
        attempt_mut (with_context ''Failed to create exact destination mint quote''
          (cw_mint_quote destination Bolt11Method (tq_amount_sat request) w)) (\<lambda>quote w.
        if mq_amount quote \<noteq> Some (tq_amount_sat request)
        then (Inl (Bail ''Destination mint returned an incorrect mint quote amount''), w)
        else
          attempt (validate_exact_bolt11_amount lib (mq_request quote) (tq_amount_sat request)) w (\<lambda>_.
          let saga = saga\<lparr>sg_destination_mint_quote_id := Some (mq_id quote),
                          sg_destination_payment_request := Some (mq_request quote)\<rparr> in
          attempt_mut (save_cross_mint_transfer_saga lib source saga w) (\<lambda>_ w. (Inr saga, w)))))"

definition quote_source ::
    "'u transfer_lib \<Rightarrow> 'w cdk_wallet \<Rightarrow> CashuCrossMintTransferRequest \<Rightarrow> string
       \<Rightarrow> CashuCrossMintTransferSaga \<Rightarrow> 'w \<Rightarrow> (TransferError + CashuCrossMintTransferSaga) \<times> 'w" where
  "quote_source lib source request payment_request saga w =
     (if sg_source_melt_quote_id saga \<noteq> None then (Inr saga, w)
      else
        attempt_mut (with_context ''Failed to preflight source mint melt quote''
          (cw_melt_quote source Bolt11Method payment_request w)) (\<lambda>quote w.
        if lq_amount quote \<noteq> tq_amount_sat request
        then (Inl (Bail ''Source mint returned an incorrect melt quote amount''), w)
        else if lq_fee_reserve quote > tq_max_fee_sat request
        then (Inl (FeeReserveAbove (lq_fee_reserve quote) (tq_max_fee_sat request)), w)
        else
          let saga = saga\<lparr>sg_source_melt_quote_id := Some (lq_id quote),
                          sg_melt_fee_reserve_sat := Some (lq_fee_reserve quote)\<rparr> in
          attempt_mut (save_cross_mint_transfer_saga lib source saga w) (\<lambda>_ w. (Inr saga, w))))"

definition load_source_quote ::
    "'w cdk_wallet \<Rightarrow> CashuCrossMintTransferRequest \<Rightarrow> string \<Rightarrow> string \<Rightarrow> CashuCrossMintTransferSaga \<Rightarrow> 'w
       \<Rightarrow> (TransferError + MeltQuote) \<times> 'w" where
  "load_source_quote source request payment_request source_quote_id saga w =
     attempt_mut (with_context ''Failed to load source mint melt quote''
       (cw_get_melt_quote source source_quote_id w)) (\<lambda>stored w.
     attempt (ok_or stored (Missing ''Stored source mint melt quote is missing'')) w (\<lambda>source_quote.
     if lq_request source_quote \<noteq> payment_request \<or> lq_amount source_quote \<noteq> tq_amount_sat request
     then (Inl (Bail ''Stored source mint melt quote does not match the cross-mint transfer''), w)
     else
       attempt (ok_or (sg_melt_fee_reserve_sat saga)
                  (Missing ''Cashu cross-mint saga has no melt fee reserve'')) w (\<lambda>reserve.
       if lq_fee_reserve source_quote \<noteq> reserve
       then (Inl (Bail ''Stored source mint melt quote does not match the cross-mint transfer''), w)
       else (Inr source_quote, w))))"

section \<open>The source payment\<close>

definition find_transaction ::
    "string \<Rightarrow> 'w cdk_wallet \<Rightarrow> string \<Rightarrow> 'w \<Rightarrow> (TransferError + WalletTransaction option) \<times> 'w" where
  "find_transaction message source source_quote_id w =
     attempt_mut (with_context message (cw_list_outgoing source w)) (\<lambda>transactions w.
     (Inr (find (\<lambda>transaction. wt_quote_id transaction = Some source_quote_id) transactions), w))"

text \<open>The branch of an unpaid melt quote: prepare, check the fees, journal, pay, journal.\<close>

definition start_payment ::
    "'u transfer_lib \<Rightarrow> 'w cdk_wallet \<Rightarrow> CashuCrossMintTransferRequest \<Rightarrow> bool \<Rightarrow> string \<Rightarrow> MeltQuote
       \<Rightarrow> CashuCrossMintTransferSaga \<Rightarrow> 'w \<Rightarrow> (TransferError + CashuCrossMintTransferSaga) \<times> 'w" where
  "start_payment lib source request allow_new source_quote_id source_quote saga w =
     (if \<not> allow_new then (Inl (PaymentNotStarted (tq_transfer_id request)), w)
      else
        attempt_mut (with_context ''Failed to prepare source mint payment''
          (cw_prepare_melt source source_quote_id w)) (\<lambda>prepared w.
        let wallet_fee_sat = pm_total_fee_with_swap prepared in
        attempt (ok_or (checked_add (lq_fee_reserve source_quote) wallet_fee_sat)
                   (Missing ''Cashu cross-mint fee overflow'')) w (\<lambda>preflight_fee_sat.
        if preflight_fee_sat > tq_max_fee_sat request
        then
          attempt_mut (with_context ''Failed to cancel over-limit source mint payment''
            (cw_cancel_melt source prepared w)) (\<lambda>_ w.
          (Inl (PreflightFeeAbove preflight_fee_sat (tq_max_fee_sat request)), w))
        else
          let saga = saga\<lparr>sg_wallet_fee_sat := Some wallet_fee_sat\<rparr> in
          attempt_mut (save_cross_mint_transfer_saga lib source saga w) (\<lambda>_ w.
          attempt_mut (with_context ''Failed to execute source mint payment''
            (cw_confirm_melt source prepared w)) (\<lambda>finalized w.
          if fm_state finalized \<noteq> MeltPaid then (Inl (FinishedIn (fm_state finalized)), w)
          else
            let saga = saga\<lparr>sg_fee_paid_sat := Some (fm_fee_paid finalized)\<rparr> in
            attempt_mut (save_cross_mint_transfer_saga lib source saga w) (\<lambda>_ w. (Inr saga, w)))))))"

text \<open>What a payment that the recovery finalised reports; it is journalled later.\<close>

definition recovered_fee ::
    "FinalizedMelt list \<Rightarrow> string \<Rightarrow> CashuCrossMintTransferSaga \<Rightarrow> TransferError + CashuCrossMintTransferSaga" where
  "recovered_fee recovered_melts source_quote_id saga =
     (case find (\<lambda>melt. fm_quote_id melt = source_quote_id) recovered_melts of
        None \<Rightarrow> Inr saga
      | Some finalized \<Rightarrow>
          if fm_state finalized \<noteq> MeltPaid then Inl (RecoveredIn (fm_state finalized))
          else Inr (saga\<lparr>sg_fee_paid_sat := Some (fm_fee_paid finalized)\<rparr>))"

definition pay_source ::
    "'u transfer_lib \<Rightarrow> 'w cdk_wallet \<Rightarrow> CashuCrossMintTransferRequest \<Rightarrow> bool \<Rightarrow> FinalizedMelt list \<Rightarrow> string
       \<Rightarrow> MeltQuote \<Rightarrow> CashuCrossMintTransferSaga \<Rightarrow> 'w
       \<Rightarrow> (TransferError + WalletTransaction option \<times> CashuCrossMintTransferSaga) \<times> 'w" where
  "pay_source lib source request allow_new recovered_melts source_quote_id source_quote saga w =
     attempt_mut (find_transaction ''Failed to load source mint transactions'' source source_quote_id w)
       (\<lambda>paid_transaction w.
     if paid_transaction \<noteq> None then (Inr (paid_transaction, saga), w)
     else
       attempt (recovered_fee recovered_melts source_quote_id saga) w (\<lambda>saga.
       attempt_mut
         (case lq_state source_quote of
            MeltUnpaid \<Rightarrow> start_payment lib source request allow_new source_quote_id source_quote saga w
          | MeltPaid \<Rightarrow> (Inr saga, w)
          | state \<Rightarrow> (Inl (NotRecoverable state), w)) (\<lambda>saga w.
       attempt_mut (find_transaction ''Failed to reload source mint transactions'' source source_quote_id w)
         (\<lambda>paid_transaction w.
       (Inr (paid_transaction, saga), w)))))"

section \<open>The destination\<close>

definition issue_destination ::
    "'w cdk_wallet \<Rightarrow> CashuCrossMintTransferRequest \<Rightarrow> string \<Rightarrow> string \<Rightarrow> 'w \<Rightarrow> (TransferError + unit) \<times> 'w" where
  "issue_destination destination request destination_quote_id payment_request w =
     attempt_mut (with_context ''Failed to refresh destination mint quote''
       (cw_check_mint_quote_status destination destination_quote_id w)) (\<lambda>destination_quote w.
     if mq_amount destination_quote \<noteq> Some (tq_amount_sat request)
     then (Inl (Bail ''Destination mint quote amount changed during transfer''), w)
     else
       attempt_mut
         (if mq_state destination_quote = MintPaid
          then with_context ''Failed to issue paid destination mint quote''
                 (cw_mint destination destination_quote_id w)
          else if mq_state destination_quote \<noteq> MintIssued
          then (Inl (DestinationIn (mq_state destination_quote)), w)
          else (Inr (), w)) (\<lambda>_ w.
       attempt_mut (with_context ''Failed to load issued destination mint quote''
         (cw_get_mint_quote destination destination_quote_id w)) (\<lambda>stored w.
       attempt (ok_or stored (Missing ''Issued destination mint quote is missing'')) w (\<lambda>issued_quote.
       if mq_id issued_quote \<noteq> destination_quote_id
          \<or> mq_mint_url issued_quote \<noteq> cw_mint_url destination
          \<or> mq_payment_method issued_quote \<noteq> Bolt11Method
          \<or> mq_unit issued_quote \<noteq> UnitSat
          \<or> mq_amount issued_quote \<noteq> Some (tq_amount_sat request)
          \<or> mq_request issued_quote \<noteq> payment_request
          \<or> mq_state issued_quote \<noteq> MintIssued
          \<or> mq_amount_issued issued_quote \<noteq> tq_amount_sat request
       then (Inl (Bail ''Issued destination mint quote does not match the cross-mint transfer''), w)
       else (Inr (), w)))))"

definition unwrap_or_default :: "u64 option \<Rightarrow> u64" where
  "unwrap_or_default x = (case x of None \<Rightarrow> 0 | Some v \<Rightarrow> v)"

definition transfer_result ::
    "CashuCrossMintTransferRequest \<Rightarrow> string \<Rightarrow> string \<Rightarrow> u64 \<Rightarrow> u64 \<Rightarrow> CashuCrossMintTransferSaga
       \<Rightarrow> CashuCrossMintTransfer" where
  "transfer_result request source_quote_id destination_quote_id fee_paid_sat balance_after saga =
     \<lparr>ct_transfer_id = tq_transfer_id request, ct_source_mint_url = tq_source_mint_url request,
      ct_destination_mint_url = tq_destination_mint_url request, ct_unit = ''sat'',
      ct_amount_sat = tq_amount_sat request, ct_max_fee_sat = tq_max_fee_sat request,
      ct_melt_fee_reserve_sat = unwrap_or_default (sg_melt_fee_reserve_sat saga),
      ct_wallet_fee_sat = unwrap_or_default (sg_wallet_fee_sat saga),
      ct_fee_paid_sat = fee_paid_sat, ct_source_melt_quote_id = source_quote_id,
      ct_destination_mint_quote_id = destination_quote_id,
      ct_destination_balance_before_sat = sg_destination_balance_before_sat saga,
      ct_destination_balance_after_sat = balance_after\<rparr>"

definition finish_transfer ::
    "'u transfer_lib \<Rightarrow> 'w cdk_wallet \<Rightarrow> 'w cdk_wallet \<Rightarrow> CashuCrossMintTransferRequest \<Rightarrow> string \<Rightarrow> string
       \<Rightarrow> string \<Rightarrow> WalletTransaction option \<Rightarrow> CashuCrossMintTransferSaga \<Rightarrow> 'w
       \<Rightarrow> (TransferError + CashuCrossMintTransfer) \<times> 'w" where
  "finish_transfer lib source destination request source_quote_id destination_quote_id payment_request
       paid_transaction saga w =
     attempt (ok_or paid_transaction
                (Missing ''Paid source mint transfer has no durable wallet transaction'')) w (\<lambda>paid_transaction.
     let fee_paid_sat = wt_fee paid_transaction;
         saga = saga\<lparr>sg_fee_paid_sat := Some fee_paid_sat\<rparr> in
     attempt_mut (save_cross_mint_transfer_saga lib source saga w) (\<lambda>_ w.
     attempt_mut (issue_destination destination request destination_quote_id payment_request w) (\<lambda>_ w.
     attempt_mut (with_context ''Failed to load destination mint balance after transfer''
       (cw_total_balance destination w)) (\<lambda>balance_after w.
     if fee_paid_sat > tq_max_fee_sat request
     then (Inl (ChargedAbove fee_paid_sat (tq_max_fee_sat request)), w)
     else
       let result = transfer_result request source_quote_id destination_quote_id fee_paid_sat balance_after saga;
           saga = saga\<lparr>sg_result := Some result\<rparr> in
       attempt_mut (save_cross_mint_transfer_saga lib source saga w) (\<lambda>_ w. (Inr result, w))))))"

section \<open>The transfer\<close>

definition run_saga ::
    "'u transfer_lib \<Rightarrow> 'w cdk_wallet \<Rightarrow> 'w cdk_wallet \<Rightarrow> CashuCrossMintTransferRequest \<Rightarrow> bool
       \<Rightarrow> FinalizedMelt list \<Rightarrow> CashuCrossMintTransferSaga \<Rightarrow> 'w
       \<Rightarrow> (TransferError + CashuCrossMintTransfer) \<times> 'w" where
  "run_saga lib source destination request allow_new recovered_melts saga w =
     attempt_mut (quote_destination lib source destination request saga w) (\<lambda>saga w.
     attempt (ok_or (sg_destination_mint_quote_id saga)
                (Missing ''Cashu cross-mint saga has no destination quote id'')) w (\<lambda>destination_quote_id.
     attempt (ok_or (sg_destination_payment_request saga)
                (Missing ''Cashu cross-mint saga has no destination invoice'')) w (\<lambda>payment_request.
     attempt (validate_exact_bolt11_amount lib payment_request (tq_amount_sat request)) w (\<lambda>_.
     attempt_mut (quote_source lib source request payment_request saga w) (\<lambda>saga w.
     attempt (ok_or (sg_source_melt_quote_id saga)
                (Missing ''Cashu cross-mint saga has no source quote id'')) w (\<lambda>source_quote_id.
     attempt_mut (load_source_quote source request payment_request source_quote_id saga w) (\<lambda>source_quote w.
     attempt_mut (pay_source lib source request allow_new recovered_melts source_quote_id source_quote saga w)
       (\<lambda>(paid_transaction, saga) w.
     finish_transfer lib source destination request source_quote_id destination_quote_id payment_request
       paid_transaction saga w))))))))"

definition transfer_between_wallets_with_start ::
    "'u transfer_lib \<Rightarrow> 'w cdk_wallet \<Rightarrow> 'w cdk_wallet \<Rightarrow> CashuCrossMintTransferRequest \<Rightarrow> bool \<Rightarrow> 'w
       \<Rightarrow> (TransferError + CashuCrossMintTransfer) \<times> 'w" where
  "transfer_between_wallets_with_start lib source destination request allow_new w =
     attempt_mut (with_context ''Failed to finalize pending source mint payments''
       (cw_finalize_pending_melts source w)) (\<lambda>recovered_melts w.
     attempt_mut (with_context ''Failed to recover source mint wallet state''
       (cw_recover_incomplete_sagas source w)) (\<lambda>_ w.
     attempt_mut (with_context ''Failed to recover destination mint wallet state''
       (cw_recover_incomplete_sagas destination w)) (\<lambda>_ w.
     attempt_mut (open_saga lib source destination request allow_new w) (\<lambda>opened w.
     case opened of
       Inl result \<Rightarrow> (Inr result, w)
     | Inr saga \<Rightarrow> run_saga lib source destination request allow_new recovered_melts saga w))))"

definition ensure_sat_wallet ::
    "'w wallet_repository \<Rightarrow> string \<Rightarrow> 'w \<Rightarrow> (TransferError + 'w cdk_wallet) \<times> 'w" where
  "ensure_sat_wallet repository mint_url w =
     (let (known, w) = repo_has_wallet repository mint_url UnitSat w in
      attempt_mut
        (if known
         then with_context ''Failed to load existing Cashu sat wallet'' (repo_get_wallet repository mint_url UnitSat w)
         else with_context ''Failed to create Cashu sat wallet'' (repo_create_wallet repository mint_url UnitSat w))
        (\<lambda>wallet w.
      attempt_mut (with_context ''Failed to persist Cashu mint metadata'' (cw_add_mint wallet mint_url w))
        (\<lambda>_ w. (Inr wallet, w))))"

definition transfer_between_mints_with_start ::
    "'u transfer_lib \<Rightarrow> 'w wallet_repository \<Rightarrow> CashuCrossMintTransferRequest \<Rightarrow> bool \<Rightarrow> 'w
       \<Rightarrow> (TransferError + CashuCrossMintTransfer) \<times> 'w" where
  "transfer_between_mints_with_start lib repository request allow_new w =
     attempt (normalize_cross_mint_transfer_request lib request) w (\<lambda>request.
     attempt (map_err (Cdk ''Failed to parse normalized source mint URL'')
                (mint_url_from_str lib (tq_source_mint_url request))) w (\<lambda>source_mint.
     attempt (map_err (Cdk ''Failed to parse normalized destination mint URL'')
                (mint_url_from_str lib (tq_destination_mint_url request))) w (\<lambda>destination_mint.
     attempt_mut (ensure_sat_wallet repository source_mint w) (\<lambda>source_wallet w.
     attempt_mut (ensure_sat_wallet repository destination_mint w) (\<lambda>destination_wallet w.
     transfer_between_wallets_with_start lib source_wallet destination_wallet request allow_new w)))))"

definition transfer_between_mints ::
    "'u transfer_lib \<Rightarrow> 'w wallet_repository \<Rightarrow> CashuCrossMintTransferRequest \<Rightarrow> 'w
       \<Rightarrow> (TransferError + CashuCrossMintTransfer) \<times> 'w" where
  "transfer_between_mints lib repository request w =
     transfer_between_mints_with_start lib repository request True w"

definition resume_transfer_between_mints ::
    "'u transfer_lib \<Rightarrow> 'w wallet_repository \<Rightarrow> CashuCrossMintTransferRequest \<Rightarrow> 'w
       \<Rightarrow> (TransferError + CashuCrossMintTransfer) \<times> 'w" where
  "resume_transfer_between_mints lib repository request w =
     transfer_between_mints_with_start lib repository request False w"

end
