(* ===== verification/Cross_Mint_Journal.thy ===== *)
theory Cross_Mint_Journal
  imports Cross_Mint
begin

text \<open>
  The journal of a cross-mint transfer. \<open>disk\<close> reads the transfer entries of the key-value store off the
  world; \<open>durable_journal\<close> is what is relied on of the wallet crate: reading returns the entry, a write
  replaces it (or, when it fails, leaves the old or the new entry), no other wallet operation touches
  transfer entries, and the JSON codec restores what it encoded. Each stage of a transfer is shown to
  move the stored saga only forward, also when it fails half-way.
\<close>

section \<open>What is relied on of the wallet\<close>

definition keeps_disk :: "('w \<Rightarrow> 'd) \<Rightarrow> ('w \<Rightarrow> 'r \<times> 'w) \<Rightarrow> bool" where
  "keeps_disk disk operation \<longleftrightarrow> (\<forall>w r w'. operation w = (r, w') \<longrightarrow> disk w' = disk w)"

type_synonym journal = "string \<Rightarrow> u8 list option"

definition wallet_keeps :: "('w \<Rightarrow> journal) \<Rightarrow> 'w cdk_wallet \<Rightarrow> bool" where
  "wallet_keeps disk wallet \<longleftrightarrow>
     keeps_disk disk (cw_finalize_pending_melts wallet) \<and> keeps_disk disk (cw_recover_incomplete_sagas wallet)
   \<and> keeps_disk disk (cw_total_balance wallet) \<and> (\<forall>m a. keeps_disk disk (cw_mint_quote wallet m a))
   \<and> (\<forall>q. keeps_disk disk (cw_check_mint_quote_status wallet q)) \<and> (\<forall>q. keeps_disk disk (cw_mint wallet q))
   \<and> (\<forall>q. keeps_disk disk (cw_get_mint_quote wallet q)) \<and> (\<forall>m q. keeps_disk disk (cw_melt_quote wallet m q))
   \<and> (\<forall>q. keeps_disk disk (cw_get_melt_quote wallet q)) \<and> keeps_disk disk (cw_list_outgoing wallet)
   \<and> (\<forall>q. keeps_disk disk (cw_prepare_melt wallet q)) \<and> (\<forall>p. keeps_disk disk (cw_cancel_melt wallet p))
   \<and> (\<forall>p. keeps_disk disk (cw_confirm_melt wallet p))"

definition durable_journal ::
    "('w \<Rightarrow> journal) \<Rightarrow> 'u transfer_lib \<Rightarrow> 'w cdk_wallet \<Rightarrow> 'w cdk_wallet \<Rightarrow> bool" where
  "durable_journal disk lib source destination \<longleftrightarrow>
     wallet_keeps disk source \<and> wallet_keeps disk destination
   \<and> (\<forall>key w r w'. cw_kv_read source K_WALLET_NAMESPACE K_CROSS_MINT_TRANSFER_NAMESPACE key w = (r, w') \<longrightarrow>
        disk w' = disk w \<and> (case r of Inl e \<Rightarrow> True | Inr v \<Rightarrow> v = disk w key))
   \<and> (\<forall>key bytes w r w'.
        cw_kv_write source K_WALLET_NAMESPACE K_CROSS_MINT_TRANSFER_NAMESPACE key bytes w = (r, w') \<longrightarrow>
        disk w' = (disk w)(key \<mapsto> bytes) \<or> disk w' = disk w \<and> isl r)
   \<and> (\<forall>saga bytes. saga_to_vec lib saga = Inr bytes \<longrightarrow> saga_from_slice lib bytes = Inr saga)"

text \<open>An operation that keeps the journal establishes what only depends on the journal.\<close>

lemma outcome_keeps:
  assumes "keeps_disk disk f" "E (disk w)" "\<And>x w'. disk w' = disk w \<Longrightarrow> P x w'"
  shows "outcome (f w) (\<lambda>w. E (disk w)) P"
proof (cases "f w")
  case (Pair r w')
  then have "disk w' = disk w" using assms(1) by (simp add: keeps_disk_def)
  then show ?thesis using Pair assms(2,3) by (cases r) auto
qed

lemma wallet_keepsD:
  assumes "wallet_keeps disk x"
  shows "keeps_disk disk (cw_finalize_pending_melts x)" "keeps_disk disk (cw_recover_incomplete_sagas x)"
    "keeps_disk disk (cw_total_balance x)" "keeps_disk disk (cw_mint_quote x m a)"
    "keeps_disk disk (cw_check_mint_quote_status x q)" "keeps_disk disk (cw_mint x q)"
    "keeps_disk disk (cw_get_mint_quote x q)" "keeps_disk disk (cw_melt_quote x m q)"
    "keeps_disk disk (cw_get_melt_quote x q)" "keeps_disk disk (cw_list_outgoing x)"
    "keeps_disk disk (cw_prepare_melt x q)" "keeps_disk disk (cw_cancel_melt x p)"
    "keeps_disk disk (cw_confirm_melt x p)"
  using assms by (simp_all add: wallet_keeps_def)

lemma durable_journalD:
  assumes "durable_journal disk lib source destination"
  shows "wallet_keeps disk source" "wallet_keeps disk destination"
    "cw_kv_read source K_WALLET_NAMESPACE K_CROSS_MINT_TRANSFER_NAMESPACE key w = (r, w') \<Longrightarrow>
       disk w' = disk w \<and> (case r of Inl e \<Rightarrow> True | Inr v \<Rightarrow> v = disk w key)"
    "cw_kv_write source K_WALLET_NAMESPACE K_CROSS_MINT_TRANSFER_NAMESPACE key bytes w = (s, w') \<Longrightarrow>
       disk w' = (disk w)(key \<mapsto> bytes) \<or> disk w' = disk w \<and> isl s"
    "saga_to_vec lib saga = Inr bytes \<Longrightarrow> saga_from_slice lib bytes = Inr saga"
  using assms by (simp_all add: durable_journal_def)

text \<open>The rules for the operations of the two wallets of a transfer.\<close>

lemmas source_keeps = outcome_keeps [OF wallet_keepsD(1) [OF durable_journalD(1)]]
  outcome_keeps [OF wallet_keepsD(2) [OF durable_journalD(1)]]
  outcome_keeps [OF wallet_keepsD(8) [OF durable_journalD(1)]]
  outcome_keeps [OF wallet_keepsD(9) [OF durable_journalD(1)]]
  outcome_keeps [OF wallet_keepsD(10) [OF durable_journalD(1)]]
  outcome_keeps [OF wallet_keepsD(11) [OF durable_journalD(1)]]
  outcome_keeps [OF wallet_keepsD(12) [OF durable_journalD(1)]]
  outcome_keeps [OF wallet_keepsD(13) [OF durable_journalD(1)]]

lemmas destination_keeps = outcome_keeps [OF wallet_keepsD(2) [OF durable_journalD(2)]]
  outcome_keeps [OF wallet_keepsD(3) [OF durable_journalD(2)]]
  outcome_keeps [OF wallet_keepsD(4) [OF durable_journalD(2)]]
  outcome_keeps [OF wallet_keepsD(5) [OF durable_journalD(2)]]
  outcome_keeps [OF wallet_keepsD(6) [OF durable_journalD(2)]]
  outcome_keeps [OF wallet_keepsD(7) [OF durable_journalD(2)]]

section \<open>Stored sagas\<close>

definition stored :: "'u transfer_lib \<Rightarrow> journal \<Rightarrow> string \<Rightarrow> CashuCrossMintTransferSaga option" where
  "stored lib d k = (case d k of
      None \<Rightarrow> None
    | Some bytes \<Rightarrow> (case saga_from_slice lib bytes of Inl e \<Rightarrow> None | Inr saga \<Rightarrow> Some saga))"

text \<open>A finished transfer did what was asked, for a fee that was allowed.\<close>

definition result_matches :: "CashuCrossMintTransferRequest \<Rightarrow> CashuCrossMintTransfer \<Rightarrow> bool" where
  "result_matches request result \<longleftrightarrow>
     ct_transfer_id result = tq_transfer_id request
   \<and> ct_source_mint_url result = tq_source_mint_url request
   \<and> ct_destination_mint_url result = tq_destination_mint_url request
   \<and> ct_unit result = ''sat'' \<and> ct_amount_sat result = tq_amount_sat request
   \<and> ct_max_fee_sat result = tq_max_fee_sat request
   \<and> ct_fee_paid_sat result \<le> tq_max_fee_sat request
   \<and> unat (ct_melt_fee_reserve_sat result) + unat (ct_wallet_fee_sat result) \<le> unat (tq_max_fee_sat request)"

definition saga_ok :: "CashuCrossMintTransferSaga \<Rightarrow> bool" where
  "saga_ok s \<longleftrightarrow>
     sg_version s = K_CROSS_MINT_TRANSFER_VERSION
   \<and> (sg_destination_mint_quote_id s = None \<longleftrightarrow> sg_destination_payment_request s = None)
   \<and> (sg_source_melt_quote_id s = None \<longleftrightarrow> sg_melt_fee_reserve_sat s = None)
   \<and> (case sg_melt_fee_reserve_sat s of
        None \<Rightarrow> sg_wallet_fee_sat s = None
      | Some reserve \<Rightarrow> unat reserve + unat (unwrap_or_default (sg_wallet_fee_sat s))
                          \<le> unat (tq_max_fee_sat (sg_request s)))
   \<and> (case sg_result s of
        None \<Rightarrow> True
      | Some result \<Rightarrow> result_matches (sg_request s) result
          \<and> sg_source_melt_quote_id s = Some (ct_source_melt_quote_id result)
          \<and> sg_destination_mint_quote_id s = Some (ct_destination_mint_quote_id result))"

definition option_le :: "'a option \<Rightarrow> 'a option \<Rightarrow> bool" where
  "option_le x y \<longleftrightarrow> x = None \<or> y = x"

definition saga_le :: "CashuCrossMintTransferSaga \<Rightarrow> CashuCrossMintTransferSaga \<Rightarrow> bool" where
  "saga_le s s' \<longleftrightarrow>
     sg_version s' = sg_version s \<and> sg_request s' = sg_request s
   \<and> sg_destination_balance_before_sat s' = sg_destination_balance_before_sat s
   \<and> option_le (sg_destination_mint_quote_id s) (sg_destination_mint_quote_id s')
   \<and> option_le (sg_destination_payment_request s) (sg_destination_payment_request s')
   \<and> option_le (sg_source_melt_quote_id s) (sg_source_melt_quote_id s')
   \<and> option_le (sg_melt_fee_reserve_sat s) (sg_melt_fee_reserve_sat s')
   \<and> option_le (sg_result s) (sg_result s')"

lemma option_le_refl [simp]: "option_le x x"
  by (simp add: option_le_def)

lemma option_le_trans: "option_le x y \<Longrightarrow> option_le y z \<Longrightarrow> option_le x z"
  by (auto simp: option_le_def)

lemma option_le_None [simp]: "option_le None y" "option_le (Some v) y \<longleftrightarrow> y = Some v"
  by (auto simp: option_le_def)

lemma saga_le_refl [simp]: "saga_le s s"
  by (simp add: saga_le_def)

lemma saga_le_trans: "saga_le s t \<Longrightarrow> saga_le t u \<Longrightarrow> saga_le s u"
  by (auto simp: saga_le_def intro: option_le_trans)

lemma saga_le_request: "saga_le s t \<Longrightarrow> sg_request t = sg_request s"
  by (simp add: saga_le_def)

section \<open>Progress of a stage\<close>

definition saga_id :: "CashuCrossMintTransferSaga \<Rightarrow> string" where
  "saga_id s = tq_transfer_id (sg_request s)"

text \<open>Only the transfer's own entry changes, and its saga only moves forward.\<close>

definition progress ::
    "'u transfer_lib \<Rightarrow> journal \<Rightarrow> CashuCrossMintTransferSaga \<Rightarrow> journal \<Rightarrow> CashuCrossMintTransferSaga \<Rightarrow> bool" where
  "progress lib d s d' s' \<longleftrightarrow>
     (\<forall>k. k \<noteq> saga_id s \<longrightarrow> d' k = d k) \<and> stored lib d' (saga_id s) = Some s'
   \<and> saga_le s s' \<and> saga_ok s'"

text \<open>The local saga \<open>t\<close> of a transfer that has not finished is the stored saga \<open>s\<close>, or ahead of it.\<close>

definition tracks ::
    "'u transfer_lib \<Rightarrow> journal \<Rightarrow> CashuCrossMintTransferSaga \<Rightarrow> CashuCrossMintTransferSaga \<Rightarrow> bool" where
  "tracks lib d s t \<longleftrightarrow> stored lib d (saga_id s) = Some s \<and> saga_ok s \<and> saga_le s t \<and> saga_ok t \<and> sg_result t = None"

lemma saga_le_id: "saga_le s t \<Longrightarrow> saga_id t = saga_id s"
  by (simp add: saga_id_def saga_le_request)

lemma progress_refl: "tracks lib d s t \<Longrightarrow> progress lib d s d s"
  by (simp add: tracks_def progress_def)

lemma progress_trans:
  "progress lib d s d' s' \<Longrightarrow> progress lib d' s' d'' s'' \<Longrightarrow> progress lib d s d'' s''"
  by (auto simp: progress_def saga_le_id intro: saga_le_trans)

lemma progress_tracks: "progress lib d s d' t \<Longrightarrow> sg_result t = None \<Longrightarrow> tracks lib d' t t"
  by (auto simp: progress_def tracks_def saga_le_id)

lemma tracks_local:
  "tracks lib d s t \<Longrightarrow> saga_le t u \<Longrightarrow> saga_ok u \<Longrightarrow> sg_result u = None \<Longrightarrow> tracks lib d s u"
  by (auto simp: tracks_def intro: saga_le_trans)

definition progressed ::
    "'u transfer_lib \<Rightarrow> journal \<Rightarrow> CashuCrossMintTransferSaga \<Rightarrow> journal \<Rightarrow> bool" where
  "progressed lib d s d' \<longleftrightarrow> (\<exists>s'. progress lib d s d' s')"

lemma progressedI: "progress lib d s d' s' \<Longrightarrow> progressed lib d s d'"
  by (auto simp: progressed_def)

lemma progressed_refl: "tracks lib d s t \<Longrightarrow> progressed lib d s d"
  by (blast intro: progressedI progress_refl)

lemma save_progress:
  assumes L: "durable_journal disk lib src dst" and d: "disk w = d"
    and T: "tracks lib d s u" and "saga_le u t" "saga_ok t"
  shows "outcome (save_cross_mint_transfer_saga lib src t w)
    (\<lambda>w'. progressed lib d s (disk w')) (\<lambda>_ w'. progress lib d s (disk w') t)"
proof (cases "saga_to_vec lib t")
  case (Inl e)
  then show ?thesis
    using progressed_refl [OF T] d by (auto simp: save_cross_mint_transfer_saga_def)
next
  case (Inr bytes)
  obtain r w' where kv: "cw_kv_write src K_WALLET_NAMESPACE K_CROSS_MINT_TRANSFER_NAMESPACE
      (tq_transfer_id (sg_request t)) bytes w = (r, w')" by fastforce
  have "saga_le s t" using T assms(4) by (auto simp: tracks_def intro: saga_le_trans)
  then have written: "disk w' = d(saga_id t \<mapsto> bytes) \<Longrightarrow> progress lib d s (disk w') t"
    using assms(5) durable_journalD(5) [OF L Inr] by (simp add: progress_def stored_def saga_le_id)
  have "disk w' = d(saga_id t \<mapsto> bytes) \<or> disk w' = d \<and> isl r"
    using durable_journalD(4) [OF L kv] unfolding d saga_id_def .
  then have "progress lib d s (disk w') t \<or> isl r \<and> progress lib d s (disk w') s"
    using written progress_refl [OF T] by metis
  then show ?thesis
    by (cases r) (auto simp: save_cross_mint_transfer_saga_def Inr kv intro: progressedI)
qed

lemma save_again:
  assumes "durable_journal disk lib src dst" "progress lib d s (disk w) t" "sg_result t = None"
    and "disk w' = disk w" "saga_le t u" "saga_ok u"
  shows "outcome (save_cross_mint_transfer_saga lib src u w')
    (\<lambda>w. progressed lib d s (disk w)) (\<lambda>_ w. progress lib d s (disk w) u)"
  by (rule outcome_mono [OF save_progress [OF assms(1,4) progress_tracks [OF assms(2,3)] assms(5,6)]])
    (use assms(2) in \<open>auto simp: progressed_def intro: progress_trans\<close>)

section \<open>The stages\<close>

lemma quote_destination_progress:
  assumes L: "durable_journal disk lib src dst" and T: "tracks lib (disk w) s s"
  shows "outcome (quote_destination lib src dst (sg_request s) s w)
    (\<lambda>w'. progressed lib (disk w) s (disk w'))
    (\<lambda>t w'. progress lib (disk w) s (disk w') t \<and> sg_result t = None)"
proof (cases "sg_destination_mint_quote_id s")
  case (Some q)
  then show ?thesis using progress_refl [OF T] T by (auto simp: quote_destination_def tracks_def)
next
  case None
  have better: "saga_le s t" "saga_ok t" "sg_result t = None"
    if "t = s\<lparr>sg_destination_mint_quote_id := Some q, sg_destination_payment_request := Some i\<rparr>" for t q i
    using T None that by (auto simp: tracks_def saga_le_def saga_ok_def split: option.splits)
  show ?thesis
    using T by (auto simp: quote_destination_def None outcome_simps Let_def progressed_refl [OF T] tracks_def
        split: sum.splits intro!: destination_keeps(3) [OF L] save_progress [OF L _ T] better)
qed

lemma quote_source_progress:
  assumes L: "durable_journal disk lib src dst" and T: "tracks lib (disk w) s s"
  shows "outcome (quote_source lib src (sg_request s) i s w)
    (\<lambda>w'. progressed lib (disk w) s (disk w'))
    (\<lambda>t w'. progress lib (disk w) s (disk w') t \<and> sg_result t = None
       \<and> sg_destination_mint_quote_id t = sg_destination_mint_quote_id s)"
proof (cases "sg_source_melt_quote_id s")
  case (Some q)
  then show ?thesis using progress_refl [OF T] T by (auto simp: quote_source_def tracks_def)
next
  case None
  have better: "saga_le s t" "saga_ok t" "sg_result t = None"
    if "\<not> tq_max_fee_sat (sg_request s) < reserve"
      "t = s\<lparr>sg_source_melt_quote_id := Some q, sg_melt_fee_reserve_sat := Some reserve\<rparr>" for t q reserve
    using T None that
    by (auto simp: tracks_def saga_le_def saga_ok_def unwrap_or_default_def word_less_nat_alt split: option.splits)
  show ?thesis
    using T by (auto simp: quote_source_def None outcome_simps Let_def progressed_refl [OF T] tracks_def
        split: sum.splits intro!: source_keeps(3) [OF L] save_progress [OF L _ T] better)
qed

lemma load_source_quote_keeps:
  assumes L: "durable_journal disk lib src dst" and E: "E (disk w)"
  shows "outcome (load_source_quote src request i q s w) (\<lambda>w'. E (disk w'))
    (\<lambda>quote w'. disk w' = disk w \<and> sg_melt_fee_reserve_sat s = Some (lq_fee_reserve quote))"
  by (auto simp: load_source_quote_def outcome_simps E ok_or_def split: sum.splits option.splits
      intro!: source_keeps(4) [OF L])

lemma find_transaction_keeps:
  assumes L: "durable_journal disk lib src dst" and E: "E (disk w)"
    and P: "\<And>x w'. disk w' = disk w \<Longrightarrow> P x w'"
  shows "outcome (find_transaction m src q w) (\<lambda>w'. E (disk w')) P"
  by (auto simp: find_transaction_def outcome_simps intro!: source_keeps(5) [OF L] E P)

text \<open>The quotes a saga has settled on.\<close>

definition same_quotes :: "CashuCrossMintTransferSaga \<Rightarrow> CashuCrossMintTransferSaga \<Rightarrow> bool" where
  "same_quotes s t \<longleftrightarrow>
     sg_destination_mint_quote_id t = sg_destination_mint_quote_id s
   \<and> sg_source_melt_quote_id t = sg_source_melt_quote_id s"

lemma fee_paid_better:
  "saga_le u (u\<lparr>sg_fee_paid_sat := f\<rparr>)" "saga_ok (u\<lparr>sg_fee_paid_sat := f\<rparr>) \<longleftrightarrow> saga_ok u"
  by (simp_all add: saga_le_def saga_ok_def split: option.splits)

lemma fee_within_limit:
  assumes "tracks lib d s t" "sg_melt_fee_reserve_sat t = Some reserve"
    and "checked_add reserve fee = Some both" "\<not> tq_max_fee_sat (sg_request s) < both"
  shows "saga_le t (t\<lparr>sg_wallet_fee_sat := Some fee\<rparr>)" "saga_ok (t\<lparr>sg_wallet_fee_sat := Some fee\<rparr>)"
proof -
  have "sg_request t = sg_request s" using assms(1) by (simp add: tracks_def saga_le_request)
  then show "saga_le t (t\<lparr>sg_wallet_fee_sat := Some fee\<rparr>)" "saga_ok (t\<lparr>sg_wallet_fee_sat := Some fee\<rparr>)"
    using assms by (auto simp: tracks_def saga_le_def saga_ok_def unwrap_or_default_def word_less_nat_alt
        checked_add_eq_Some split: option.splits)
qed

lemma start_payment_progress:
  assumes L: "durable_journal disk lib src dst" and T: "tracks lib (disk w) s t"
    and R: "sg_melt_fee_reserve_sat t = Some (lq_fee_reserve quote)"
  shows "outcome (start_payment lib src (sg_request s) allow_new q quote t w)
    (\<lambda>w'. progressed lib (disk w) s (disk w'))
    (\<lambda>u w'. progress lib (disk w) s (disk w') u \<and> sg_result u = None \<and> same_quotes t u)"
proof -
  note better = fee_within_limit [OF T R]
  have N: "sg_result t = None" using T by (simp add: tracks_def)
  have second: "outcome (save_cross_mint_transfer_saga lib src
        (t\<lparr>sg_wallet_fee_sat := Some fee, sg_fee_paid_sat := f\<rparr>) w2)
      (\<lambda>w'. progressed lib (disk w) s (disk w'))
      (\<lambda>_ w'. progress lib (disk w) s (disk w') (t\<lparr>sg_wallet_fee_sat := Some fee, sg_fee_paid_sat := f\<rparr>))"
    if "progress lib (disk w) s (disk w1) (t\<lparr>sg_wallet_fee_sat := Some fee\<rparr>)" "disk w2 = disk w1" for fee f w1 w2
    by (rule save_again [OF L that(1) _ that(2)])
      (use N that(1) in \<open>auto simp: progress_def intro: fee_paid_better(1) fee_paid_better(2) [THEN iffD2]\<close>)
  have pay: "outcome (cw_confirm_melt src p w1) (\<lambda>w'. progressed lib (disk w) s (disk w')) (\<lambda>_ w'. disk w' = disk w1)"
    if "progress lib (disk w) s (disk w1) u" for p u w1
    by (rule source_keeps(8) [OF L]) (use that in \<open>auto intro: progressedI\<close>)
  show ?thesis
    apply (auto simp: start_payment_def outcome_simps Let_def progressed_refl [OF T] ok_or_def N same_quotes_def
        split: sum.splits option.splits
        intro!: source_keeps(6,7) [OF L] outcome_mono [OF save_progress [OF L _ T better]])
    apply (rule outcome_mono [OF pay], assumption+)
    apply (auto simp: outcome_simps intro: second progressedI)
    done
qed

lemma fee_paid_local: "tracks lib d s t \<Longrightarrow> tracks lib d s (t\<lparr>sg_fee_paid_sat := f\<rparr>)"
  by (rule tracks_local) (auto simp: fee_paid_better tracks_def)

lemma recovered_fee_local:
  assumes "tracks lib d s t" "recovered_fee melts q t = Inr u"
  shows "tracks lib d s u" "same_quotes t u" "sg_melt_fee_reserve_sat u = sg_melt_fee_reserve_sat t"
proof -
  have u: "u = t \<or> (\<exists>f. u = t\<lparr>sg_fee_paid_sat := f\<rparr>)"
    using assms(2) by (auto simp: recovered_fee_def split: option.splits if_splits)
  then show "same_quotes t u" "sg_melt_fee_reserve_sat u = sg_melt_fee_reserve_sat t"
    by (auto simp: same_quotes_def)
  show "tracks lib d s u" using u assms(1) fee_paid_local by blast
qed

lemma pay_source_progress:
  assumes L: "durable_journal disk lib src dst" and T: "tracks lib (disk w) s s"
    and R: "sg_melt_fee_reserve_sat s = Some (lq_fee_reserve quote)"
  shows "outcome (pay_source lib src (sg_request s) allow_new melts q quote s w)
    (\<lambda>w'. progressed lib (disk w) s (disk w'))
    (\<lambda>(tx, u) w'. \<exists>v. progress lib (disk w) s (disk w') v \<and> tracks lib (disk w') v u \<and> same_quotes s u)"
proof -
  have start: "outcome (start_payment lib src (sg_request s) allow_new q quote t w1)
      (\<lambda>w'. progressed lib (disk w) s (disk w'))
      (\<lambda>u w'. \<exists>v. progress lib (disk w) s (disk w') v \<and> tracks lib (disk w') v u \<and> same_quotes s u)"
    if "recovered_fee melts q s = Inr t" "disk w1 = disk w" for t w1
    unfolding that(2) [symmetric]
    by (rule outcome_mono [OF start_payment_progress [OF L]])
      (use recovered_fee_local [OF T [folded that(2)] that(1)] R
        in \<open>auto simp: same_quotes_def intro: progress_tracks\<close>)
  have recorded: "\<exists>v. progress lib (disk w) s (disk w1) v \<and> tracks lib (disk w1) v t \<and> same_quotes s t"
    if "recovered_fee melts q s = Inr t" "disk w1 = disk w" for t w1
    using recovered_fee_local [OF T that(1)] progress_refl [OF T] that(2) by auto
  have reload: "outcome (find_transaction m src q w1) (\<lambda>w'. progressed lib (disk w) s (disk w'))
      (\<lambda>_ w'. \<exists>v. progress lib (disk w) s (disk w') v \<and> tracks lib (disk w') v u \<and> same_quotes s u)"
    if "\<exists>v. progress lib (disk w) s (disk w1) v \<and> tracks lib (disk w1) v u \<and> same_quotes s u" for m w1 u
    by (rule find_transaction_keeps [OF L]) (use that in \<open>auto intro: progressedI\<close>)
  have first: "outcome (find_transaction m src q w) (\<lambda>w'. progressed lib (disk w) s (disk w')) (\<lambda>_ w'. disk w' = disk w)"
    for m by (rule find_transaction_keeps [OF L]) (use progressed_refl [OF T] in simp_all)
  have here: "\<exists>v. progress lib (disk w) s (disk w) v \<and> tracks lib (disk w) v s \<and> same_quotes s s"
    using progress_refl [OF T] T by (auto simp: same_quotes_def)
  show ?thesis
    unfolding pay_source_def outcome_attempt_mut outcome_attempt outcome_if
    by (rule outcome_mono [OF first])
      (auto simp: outcome_simps progressed_refl [OF T] here split: sum.splits MeltQuoteState.splits
        intro!: outcome_mono [OF start] reload recorded)
qed

lemma issue_destination_keeps:
  assumes L: "durable_journal disk lib src dst" and E: "E (disk w)"
  shows "outcome (issue_destination dst request q i w) (\<lambda>w'. E (disk w')) (\<lambda>_ w'. disk w' = disk w)"
  by (auto simp: issue_destination_def outcome_simps E ok_or_def split: sum.splits option.splits
      intro!: destination_keeps [OF L])

lemma result_better:
  assumes "tracks lib d s t" "sg_request s = request" "\<not> tq_max_fee_sat request < fee"
    "sg_source_melt_quote_id t = Some q" "sg_destination_mint_quote_id t = Some dq"
  shows "saga_le t (t\<lparr>sg_fee_paid_sat := Some fee, sg_result := Some (transfer_result request q dq fee after t)\<rparr>)"
    "saga_ok (t\<lparr>sg_fee_paid_sat := Some fee, sg_result := Some (transfer_result request q dq fee after t)\<rparr>)"
proof -
  have "sg_request t = request" "saga_ok t" "sg_result t = None"
    using assms(1,2) by (auto simp: tracks_def saga_le_request)
  then show "saga_le t (t\<lparr>sg_fee_paid_sat := Some fee, sg_result := Some (transfer_result request q dq fee after t)\<rparr>)"
    "saga_ok (t\<lparr>sg_fee_paid_sat := Some fee, sg_result := Some (transfer_result request q dq fee after t)\<rparr>)"
    using assms(3-5)
    by (auto simp: saga_le_def saga_ok_def result_matches_def transfer_result_def unwrap_or_default_def
        split: option.splits)
qed

lemma finish_transfer_progress:
  assumes L: "durable_journal disk lib src dst" and T: "tracks lib (disk w) s t"
    and Q: "sg_source_melt_quote_id t = Some q" "sg_destination_mint_quote_id t = Some dq"
  shows "outcome (finish_transfer lib src dst (sg_request s) q dq i tx t w)
    (\<lambda>w'. progressed lib (disk w) s (disk w'))
    (\<lambda>result w'. \<exists>u. progress lib (disk w) s (disk w') u \<and> sg_result u = Some result)"
proof (cases tx)
  case None
  then show ?thesis by (simp add: finish_transfer_def progressed_refl [OF T])
next
  case (Some paid)
  let ?t = "t\<lparr>sg_fee_paid_sat := Some (wt_fee paid)\<rparr>"
  have N: "sg_result t = None" using T by (simp add: tracks_def)
  have first: "outcome (save_cross_mint_transfer_saga lib src ?t w)
      (\<lambda>w'. progressed lib (disk w) s (disk w')) (\<lambda>_ w'. progress lib (disk w) s (disk w') ?t)"
    by (rule save_progress [OF L refl T])
      (use T in \<open>auto simp: tracks_def intro: fee_paid_better(1) fee_paid_better(2) [THEN iffD2]\<close>)
  have issue: "outcome (issue_destination dst (sg_request s) dq i w1)
      (\<lambda>w'. progressed lib (disk w) s (disk w')) (\<lambda>_ w'. disk w' = disk w1)"
    if "progress lib (disk w) s (disk w1) ?t" for w1
    by (rule issue_destination_keeps [OF L]) (rule progressedI [OF that])
  have balance: "outcome (cw_total_balance dst w2)
      (\<lambda>w'. progressed lib (disk w) s (disk w')) (\<lambda>_ w'. disk w' = disk w1)"
    if "progress lib (disk w) s (disk w1) ?t" "disk w2 = disk w1" for w1 w2
    by (rule destination_keeps(2) [OF L]) (use that progressedI [OF that(1)] in simp_all)
  have second: "outcome (save_cross_mint_transfer_saga lib src (?t\<lparr>sg_result := Some result\<rparr>) w3)
      (\<lambda>w'. progressed lib (disk w) s (disk w'))
      (\<lambda>_ w'. progress lib (disk w) s (disk w') (?t\<lparr>sg_result := Some result\<rparr>))"
    if "progress lib (disk w) s (disk w1) ?t" "disk w3 = disk w1" "\<not> tq_max_fee_sat (sg_request s) < wt_fee paid"
      "result = transfer_result (sg_request s) q dq (wt_fee paid) after ?t" for w1 w3 after result
    by (rule save_again [OF L that(1) _ that(2)])
      (use result_better [OF fee_paid_local [OF T, of "Some (wt_fee paid)"] refl that(3), where q = q and dq = dq] N Q that(4) in auto)
  show ?thesis
    unfolding finish_transfer_def Some Let_def outcome_attempt_mut outcome_with_context ok_or_simps attempt_simps
    by (rule outcome_mono [OF first], assumption, rule outcome_mono [OF issue], assumption, assumption,
        rule outcome_mono [OF balance], assumption, assumption, assumption)
      (auto simp: outcome_simps intro: progressedI intro!: outcome_mono [OF second])
qed

section \<open>A whole transfer\<close>

text \<open>Every stored saga of this version is well formed and stored under its transfer id.\<close>

definition journal_ok :: "'u transfer_lib \<Rightarrow> journal \<Rightarrow> bool" where
  "journal_ok lib d \<longleftrightarrow> (\<forall>k s. stored lib d k = Some s \<longrightarrow> sg_version s = K_CROSS_MINT_TRANSFER_VERSION
      \<longrightarrow> saga_ok s \<and> saga_id s = k)"

text \<open>What a transfer, finished or not, does to the journal: nothing, or it starts or advances its saga.\<close>

definition transfer_effect ::
    "'u transfer_lib \<Rightarrow> CashuCrossMintTransferRequest \<Rightarrow> journal \<Rightarrow> journal \<Rightarrow> bool" where
  "transfer_effect lib request d d' \<longleftrightarrow>
     d' = d \<or> (\<exists>s'. (\<forall>k. k \<noteq> tq_transfer_id request \<longrightarrow> d' k = d k)
        \<and> stored lib d' (tq_transfer_id request) = Some s' \<and> saga_ok s' \<and> sg_request s' = request
        \<and> (d (tq_transfer_id request) = None
           \<or> (\<exists>s. stored lib d (tq_transfer_id request) = Some s \<and> saga_le s s' \<and> sg_result s = None)))"

lemma effect_progress:
  assumes "transfer_effect lib request d d1" "tracks lib d1 s s" "sg_request s = request" "progressed lib d1 s d2"
  shows "transfer_effect lib request d d2"
proof -
  obtain s' where p: "progress lib d1 s d2 s'" using assms(4) by (auto simp: progressed_def)
  have i: "saga_id s = tq_transfer_id request" using assms(3) by (simp add: saga_id_def)
  have s: "stored lib d1 (tq_transfer_id request) = Some s" "sg_result s = None"
    using assms(2) i by (auto simp: tracks_def)
  have s': "stored lib d2 (tq_transfer_id request) = Some s'" "saga_ok s'" "sg_request s' = request" "saga_le s s'"
    "\<And>k. k \<noteq> tq_transfer_id request \<Longrightarrow> d2 k = d1 k"
    using p i assms(3) by (auto simp: progress_def saga_le_request)
  show ?thesis
    using assms(1) unfolding transfer_effect_def
  proof (elim disjE exE conjE, goal_cases)
    case 1
    then show ?case using s s' by (auto intro!: exI [of _ s'])
  next
    case (2 s1)
    then show ?case using s s' by (auto intro!: exI [of _ s'])
  next
    case (3 s1 s0)
    then show ?case using s s' by (auto intro!: exI [of _ s'] exI [of _ s0] intro: saga_le_trans)
  qed
qed

lemma effect_refl [simp]: "transfer_effect lib request d d"
  by (simp add: transfer_effect_def)

lemma load_saga_outcome:
  assumes L: "durable_journal disk lib src dst"
  shows "outcome (load_cross_mint_transfer_saga lib src k w) (\<lambda>w'. disk w' = disk w)
    (\<lambda>found w'. disk w' = disk w
       \<and> (case found of None \<Rightarrow> disk w k = None | Some s \<Rightarrow> stored lib (disk w) k = Some s))"
proof -
  obtain r w' where kv: "cw_kv_read src K_WALLET_NAMESPACE K_CROSS_MINT_TRANSFER_NAMESPACE k w = (r, w')" by fastforce
  show ?thesis
    using durable_journalD(3) [OF L kv]
    by (auto simp: load_cross_mint_transfer_saga_def kv outcome_simps stored_def split: sum.splits option.splits)
qed

lemma new_saga_fields [simp]:
  "sg_request (new_saga request balance) = request" "sg_result (new_saga request balance) = None"
  "saga_ok (new_saga request balance)"
  by (simp_all add: new_saga_def saga_ok_def)

lemma save_new_saga:
  assumes L: "durable_journal disk lib src dst" and "disk w = d" "d (tq_transfer_id request) = None"
  shows "outcome (save_cross_mint_transfer_saga lib src (new_saga request balance) w)
    (\<lambda>w'. transfer_effect lib request d (disk w'))
    (\<lambda>_ w'. transfer_effect lib request d (disk w') \<and> tracks lib (disk w') (new_saga request balance) (new_saga request balance))"
proof (cases "saga_to_vec lib (new_saga request balance)")
  case (Inl e)
  then show ?thesis using assms(2) by (simp add: save_cross_mint_transfer_saga_def)
next
  case (Inr bytes)
  obtain r w' where kv: "cw_kv_write src K_WALLET_NAMESPACE K_CROSS_MINT_TRANSFER_NAMESPACE
      (tq_transfer_id request) bytes w = (r, w')" by fastforce
  have written: "transfer_effect lib request d (disk w')
      \<and> tracks lib (disk w') (new_saga request balance) (new_saga request balance)"
    if "disk w' = d(tq_transfer_id request \<mapsto> bytes)"
    using durable_journalD(5) [OF L Inr] assms(3) that
    by (simp add: transfer_effect_def tracks_def stored_def saga_id_def)
  have "disk w' = d(tq_transfer_id request \<mapsto> bytes) \<or> disk w' = d \<and> isl r"
    using durable_journalD(4) [OF L kv] unfolding assms(2) .
  then show ?thesis
    using written by (cases r) (auto simp: save_cross_mint_transfer_saga_def Inr kv)
qed

lemma open_saga_outcome:
  assumes L: "durable_journal disk lib src dst" and J: "journal_ok lib (disk w)"
  shows "outcome (open_saga lib src dst request allow_new w) (\<lambda>w'. transfer_effect lib request (disk w) (disk w'))
    (\<lambda>opened w'. case opened of
        Inl result \<Rightarrow> disk w' = disk w \<and> (\<exists>s. stored lib (disk w) (tq_transfer_id request) = Some s
                        \<and> sg_request s = request \<and> saga_ok s \<and> sg_result s = Some result)
      | Inr s \<Rightarrow> transfer_effect lib request (disk w) (disk w') \<and> tracks lib (disk w') s s \<and> sg_request s = request)"
proof -
  have balance: "outcome (cw_total_balance dst w1) (\<lambda>w'. transfer_effect lib request (disk w) (disk w'))
      (\<lambda>_ w'. disk w' = disk w)" if "disk w1 = disk w" for w1
    by (rule destination_keeps(2) [OF L]) (use that in simp_all)
  have found: "tracks lib (disk w) s s"
    if "stored lib (disk w) (tq_transfer_id request) = Some s" "sg_version s = K_CROSS_MINT_TRANSFER_VERSION"
      "sg_result s = None" for s
    using J that by (simp add: journal_ok_def tracks_def)
  have finished: "saga_ok s"
    if "stored lib (disk w) (tq_transfer_id request) = Some s" "sg_version s = K_CROSS_MINT_TRANSFER_VERSION" for s
    using J that by (simp add: journal_ok_def)
  show ?thesis
    unfolding open_saga_def outcome_attempt_mut
    by (rule outcome_mono [OF load_saga_outcome [OF L]])
      (auto simp: outcome_simps found finished split: option.splits sum.splits
        intro!: outcome_mono [OF balance] outcome_mono [OF save_new_saga [OF L]])
qed

text \<open>A stage that starts where an earlier one ended.\<close>

lemma later_stage:
  assumes "outcome p (\<lambda>w'. progressed lib d1 s1 (disk w')) P" "progress lib d s d1 s1"
    and "\<And>x w'. P x w' \<Longrightarrow> Q x w'"
  shows "outcome p (\<lambda>w'. progressed lib d s (disk w')) Q"
  by (rule outcome_mono [OF assms(1) _ assms(3)])
    (use assms(2) in \<open>auto simp: progressed_def intro: progress_trans\<close>)

lemma run_saga_progress:
  assumes L: "durable_journal disk lib src dst" and T: "tracks lib (disk w) s s"
  shows "outcome (run_saga lib src dst (sg_request s) allow_new melts s w)
    (\<lambda>w'. progressed lib (disk w) s (disk w'))
    (\<lambda>result w'. \<exists>u. progress lib (disk w) s (disk w') u \<and> sg_result u = Some result)"
proof -
  let ?E = "\<lambda>w'. progressed lib (disk w) s (disk w')"
  let ?P = "\<lambda>result w'. \<exists>u. progress lib (disk w) s (disk w') u \<and> sg_result u = Some result"
  have request: "sg_request t = sg_request s" if "progress lib (disk w) s d t" for d t
    using that by (simp add: progress_def saga_le_request)
  have finish: "outcome (finish_transfer lib src dst (sg_request s) q dq i tx u w1) ?E ?P"
    if p: "progress lib (disk w) s (disk w1) v" and "tracks lib (disk w1) v u" "same_quotes t u"
      "sg_source_melt_quote_id t = Some q" "sg_destination_mint_quote_id t = Some dq" for t u v q dq i tx w1
    unfolding request [OF p, symmetric]
    by (rule later_stage [OF finish_transfer_progress [OF L that(2)] p])
      (use that in \<open>auto simp: same_quotes_def intro: progress_trans\<close>)
  have pay: "outcome (attempt_mut (pay_source lib src (sg_request s) allow_new melts q quote t w2)
      (\<lambda>(tx, u) w'. finish_transfer lib src dst (sg_request s) q dq i tx u w')) ?E ?P"
    if p: "progress lib (disk w) s (disk w1) t" and "sg_result t = None" "disk w2 = disk w1"
      "sg_melt_fee_reserve_sat t = Some (lq_fee_reserve quote)"
      "sg_source_melt_quote_id t = Some q" "sg_destination_mint_quote_id t = Some dq" for t q dq i quote w1 w2
    unfolding outcome_attempt_mut
    by (rule later_stage [OF pay_source_progress [OF L, where s = t and quote = quote, unfolded request [OF p]]])
      (use that progress_tracks [OF p that(2)] in \<open>auto intro!: finish intro: progress_trans\<close>)
  have load: "outcome (attempt_mut (load_source_quote src (sg_request s) i q t w1) (\<lambda>quote w'.
        attempt_mut (pay_source lib src (sg_request s) allow_new melts q quote t w')
          (\<lambda>(tx, u) w'. finish_transfer lib src dst (sg_request s) q dq i tx u w'))) ?E ?P"
    if p: "progress lib (disk w) s (disk w1) t" and "sg_result t = None"
      "sg_source_melt_quote_id t = Some q" "sg_destination_mint_quote_id t = Some dq" for t q dq i w1
    unfolding outcome_attempt_mut [of "load_source_quote src (sg_request s) i q t w1"]
    by (rule outcome_mono [OF load_source_quote_keeps [OF L]], rule progressedI [OF p], assumption)
      (use that in \<open>auto intro!: pay [of w1]\<close>)
  have source: "outcome (quote_source lib src (sg_request s) i t w1) ?E
      (\<lambda>u w'. progress lib (disk w) s (disk w') u \<and> sg_result u = None
         \<and> sg_destination_mint_quote_id u = sg_destination_mint_quote_id t)"
    if p: "progress lib (disk w) s (disk w1) t" and "sg_result t = None" for t i w1
    by (rule later_stage [OF quote_source_progress [OF L progress_tracks [OF p that(2)], unfolded request [OF p]] p])
      (use p in \<open>auto intro: progress_trans\<close>)
  show ?thesis
    unfolding run_saga_def outcome_attempt_mut [of "quote_destination _ _ _ _ _ _"]
    by (rule outcome_mono [OF quote_destination_progress [OF L T]], assumption)
      (auto simp: outcome_attempt outcome_attempt_mut [of "quote_source _ _ _ _ _ _"] ok_or_def
        split: option.splits sum.splits intro: progressedI intro!: outcome_mono [OF source] load)
qed

lemma progress_stored:
  "progress lib d s d' u \<Longrightarrow> stored lib d' (tq_transfer_id (sg_request s)) = Some u \<and> sg_request u = sg_request s
     \<and> saga_ok u"
  by (simp add: progress_def saga_id_def saga_le_request)

lemma transfer_outcome:
  assumes L: "durable_journal disk lib src dst" and J: "journal_ok lib (disk w)"
  shows "outcome (transfer_between_wallets_with_start lib src dst request allow_new w)
    (\<lambda>w'. transfer_effect lib request (disk w) (disk w'))
    (\<lambda>result w'. transfer_effect lib request (disk w) (disk w')
       \<and> (\<exists>s. stored lib (disk w') (tq_transfer_id request) = Some s \<and> sg_request s = request
            \<and> saga_ok s \<and> sg_result s = Some result))"
proof -
  let ?P = "\<lambda>result w'. transfer_effect lib request (disk w) (disk w')
       \<and> (\<exists>s. stored lib (disk w') (tq_transfer_id request) = Some s \<and> sg_request s = request
            \<and> saga_ok s \<and> sg_result s = Some result)"
  have run: "outcome (run_saga lib src dst request allow_new melts s w1)
      (\<lambda>w'. transfer_effect lib request (disk w) (disk w')) ?P"
    if e: "transfer_effect lib request (disk w) (disk w1)" "tracks lib (disk w1) s s" "sg_request s = request"
    for s w1 melts
    unfolding that(3) [symmetric]
    by (rule outcome_mono [OF run_saga_progress [OF L that(2)]])
      (use effect_progress [OF e] e(3) in \<open>auto dest: progress_stored progressedI\<close>)
  have opened: "outcome (open_saga lib src dst request allow_new w1)
      (\<lambda>w'. transfer_effect lib request (disk w) (disk w')) (\<lambda>opened w'. case opened of
        Inl result \<Rightarrow> ?P result w'
      | Inr s \<Rightarrow> transfer_effect lib request (disk w) (disk w') \<and> tracks lib (disk w') s s \<and> sg_request s = request)"
    if "disk w1 = disk w" for w1
    unfolding that [symmetric]
    by (rule outcome_mono [OF open_saga_outcome [OF L]]) (use J that in \<open>auto split: sum.splits\<close>)
  show ?thesis
    unfolding transfer_between_wallets_with_start_def outcome_attempt_mut outcome_with_context
    by (intro source_keeps(1,2) [OF L] destination_keeps(1) [OF L] effect_refl)
      (auto split: sum.splits intro!: outcome_mono [OF opened] run)
qed

end
