(* ===== verification/Cross_Mint_Properties.thy ===== *)
theory Cross_Mint_Properties
  imports Cross_Mint_Journal
begin

text \<open>
  What cross-mint transfers promise over any history of calls, including calls that fail or crash at
  any point: the journal only moves forward, a finished transfer is replayed and never repeated, its
  result is what was asked for within the fee limit, and no payment is made before it is journalled.
\<close>

section \<open>Histories\<close>

text \<open>A call of a transfer with any wallets on this journal, and anything else that leaves the journal alone.\<close>

inductive journal_step :: "('w \<Rightarrow> journal) \<Rightarrow> 'u transfer_lib \<Rightarrow> 'w \<Rightarrow> 'w \<Rightarrow> bool"
  for disk :: "'w \<Rightarrow> journal" and lib :: "'u transfer_lib" where
  transfer: "durable_journal disk lib src dst \<Longrightarrow>
     transfer_between_wallets_with_start lib src dst request allow_new w = (r, w') \<Longrightarrow> journal_step disk lib w w'"
| elsewhere: "disk w' = disk w \<Longrightarrow> journal_step disk lib w w'"

definition journal_reachable :: "('w \<Rightarrow> journal) \<Rightarrow> 'u transfer_lib \<Rightarrow> 'w \<Rightarrow> bool" where
  "journal_reachable disk lib w \<longleftrightarrow> (\<exists>w0. disk w0 = Map.empty \<and> (journal_step disk lib)\<^sup>*\<^sup>* w0 w)"

lemma transfer_effectD:
  assumes "durable_journal disk lib src dst" "journal_ok lib (disk w)"
    and "transfer_between_wallets_with_start lib src dst request allow_new w = (r, w')"
  shows "transfer_effect lib request (disk w) (disk w')"
  using outcomeD [OF transfer_outcome [OF assms(1,2)]] assms(3) by (cases r) blast+

lemma stored_cong: "d' k = d k \<Longrightarrow> stored lib d' k = stored lib d k"
  by (simp add: stored_def)

lemma effect_journal_ok:
  assumes "transfer_effect lib request d d'" "journal_ok lib d"
  shows "journal_ok lib d'"
proof (cases "d' = d")
  case False
  then obtain s' where s': "\<And>k. k \<noteq> tq_transfer_id request \<Longrightarrow> stored lib d' k = stored lib d k"
    "stored lib d' (tq_transfer_id request) = Some s'" "saga_ok s'" "sg_request s' = request"
    using assms(1) by (auto simp: transfer_effect_def intro: stored_cong)
  show ?thesis
    unfolding journal_ok_def
  proof (intro allI impI)
    fix k s
    assume "stored lib d' k = Some s" "sg_version s = K_CROSS_MINT_TRANSFER_VERSION"
    then show "saga_ok s \<and> saga_id s = k"
      using s' assms(2) by (cases "k = tq_transfer_id request") (auto simp: journal_ok_def saga_id_def)
  qed
qed (simp add: assms(2))

interpretation transfers: invariant_system "\<lambda>w. disk w = Map.empty" "journal_step disk lib" "\<lambda>w. journal_ok lib (disk w)"
  for disk lib
proof
  show "journal_ok lib (disk w)" if "disk w = Map.empty" for w
    using that by (simp add: journal_ok_def stored_def)
  show "journal_ok lib (disk w')" if "journal_ok lib (disk w)" "journal_step disk lib w w'" for w w'
    using that(2,1) by cases (auto dest: transfer_effectD effect_journal_ok)
qed

lemma reachable_journal_ok: "journal_reachable disk lib w \<Longrightarrow> journal_ok lib (disk w)"
  by (auto simp: journal_reachable_def intro: transfers.inv_reachable)

lemma effect_forward:
  assumes "transfer_effect lib request d d'" "stored lib d k = Some s"
  shows "\<exists>s'. stored lib d' k = Some s' \<and> saga_le s s'"
  using assms unfolding transfer_effect_def
  by (cases "k = tq_transfer_id request") (auto simp: stored_def)

lemma run_forward:
  assumes "(journal_step disk lib)\<^sup>*\<^sup>* w t" "journal_ok lib (disk w)" "stored lib (disk w) k = Some s"
  shows "\<exists>s'. stored lib (disk t) k = Some s' \<and> saga_le s s'"
  using assms(1)
proof (induction rule: rtranclp_induct)
  case base
  show ?case using assms(3) saga_le_refl by blast
next
  case (step t u)
  then obtain s' where s': "stored lib (disk t) k = Some s'" "saga_le s s'" by blast
  have ok: "journal_ok lib (disk t)" using transfers.inv_run [OF step.hyps(1) assms(2)] .
  from step.hyps(2) have "\<exists>s''. stored lib (disk u) k = Some s'' \<and> saga_le s' s''"
    by cases (use s' ok in \<open>auto dest!: transfer_effectD intro: effect_forward\<close>)
  then show ?case using s'(2) saga_le_trans by blast
qed

text \<open>C22. The journal never loses or replaces what a transfer decided: over any further calls,
  finished, failed or crashed half-way, a stored transfer stays stored, keeps its request and the
  balance it started from, and keeps the mint quote, the invoice, the melt quote, the fee reserve and
  the result once they are chosen. Hence every retry pays the same invoice through the same quote.\<close>

theorem journal_never_rewritten:
  assumes "journal_reachable disk lib w" "(journal_step disk lib)\<^sup>*\<^sup>* w t" "stored lib (disk w) k = Some s"
  shows "\<exists>s'. stored lib (disk t) k = Some s'
    \<and> sg_request s' = sg_request s
    \<and> sg_destination_balance_before_sat s' = sg_destination_balance_before_sat s
    \<and> (\<forall>q. sg_destination_mint_quote_id s = Some q \<longrightarrow> sg_destination_mint_quote_id s' = Some q)
    \<and> (\<forall>i. sg_destination_payment_request s = Some i \<longrightarrow> sg_destination_payment_request s' = Some i)
    \<and> (\<forall>q. sg_source_melt_quote_id s = Some q \<longrightarrow> sg_source_melt_quote_id s' = Some q)
    \<and> (\<forall>f. sg_melt_fee_reserve_sat s = Some f \<longrightarrow> sg_melt_fee_reserve_sat s' = Some f)
    \<and> (\<forall>r. sg_result s = Some r \<longrightarrow> sg_result s' = Some r)"
  using run_forward [OF assms(2) reachable_journal_ok [OF assms(1)] assms(3)]
  by (auto simp: saga_le_def option_le_def)

text \<open>C23. A transfer that returns did exactly what was asked: the result names the request's id, mints,
  amount and maximum fee, the fee that was paid and the fees that were reserved before the payment are
  each within that maximum, and the result is in the journal, for any history of earlier calls.\<close>

theorem transfer_result_exact:
  assumes "durable_journal disk lib src dst" "journal_reachable disk lib w"
    and "transfer_between_wallets_with_start lib src dst request allow_new w = (Inr result, w')"
  shows "ct_transfer_id result = tq_transfer_id request
    \<and> ct_source_mint_url result = tq_source_mint_url request
    \<and> ct_destination_mint_url result = tq_destination_mint_url request
    \<and> ct_unit result = ''sat'' \<and> ct_amount_sat result = tq_amount_sat request
    \<and> ct_max_fee_sat result = tq_max_fee_sat request
    \<and> ct_fee_paid_sat result \<le> tq_max_fee_sat request
    \<and> unat (ct_melt_fee_reserve_sat result) + unat (ct_wallet_fee_sat result) \<le> unat (tq_max_fee_sat request)
    \<and> (\<exists>s. stored lib (disk w') (tq_transfer_id request) = Some s \<and> sg_request s = request
         \<and> sg_result s = Some result)"
  using outcomeD(2) [OF transfer_outcome [OF assms(1) reachable_journal_ok [OF assms(2)]] assms(3)]
  by (auto simp: saga_ok_def result_matches_def)

section \<open>A finished transfer is replayed\<close>

text \<open>The wallets of a transfer with other operations in place of those that move value.\<close>

definition other_payments where
  "other_payments wallet mq mt lq pm cm cn =
     wallet\<lparr>cw_mint_quote := mq, cw_mint := mt, cw_melt_quote := lq, cw_prepare_melt := pm,
            cw_cancel_melt := cm, cw_confirm_melt := cn\<rparr>"

lemma attempt_mut_cong:
  assumes "\<And>x w. p = (Inr x, w) \<Longrightarrow> k x w = k' x w"
  shows "attempt_mut p k = attempt_mut p k'"
  using assms by (auto simp: attempt_mut_def split: prod.splits sum.splits)

text \<open>The journal settles the call: the transfer is finished, or the id belongs to another request.\<close>

definition settled :: "'u transfer_lib \<Rightarrow> journal \<Rightarrow> CashuCrossMintTransferRequest \<Rightarrow> bool" where
  "settled lib d request \<longleftrightarrow> (\<exists>s. stored lib d (tq_transfer_id request) = Some s
     \<and> (sg_request s \<noteq> request \<or> sg_result s \<noteq> None))"

lemma open_settled:
  assumes L: "durable_journal disk lib src dst" and "settled lib (disk w) request"
  shows "outcome (open_saga lib src dst request allow_new w) (\<lambda>w'. disk w' = disk w)
    (\<lambda>opened w'. disk w' = disk w \<and> (\<exists>s result. stored lib (disk w) (tq_transfer_id request) = Some s
       \<and> sg_request s = request \<and> sg_result s = Some result \<and> opened = Inl result))"
  unfolding open_saga_def outcome_attempt_mut
  by (rule outcome_mono [OF load_saga_outcome [OF L]])
    (use assms(2) in \<open>auto simp: settled_def stored_def split: option.splits sum.splits\<close>)

lemma transfer_settled:
  assumes L: "durable_journal disk lib src dst" and S: "settled lib (disk w) request"
  shows "outcome (transfer_between_wallets_with_start lib src dst request allow_new w) (\<lambda>w'. disk w' = disk w)
    (\<lambda>result w'. disk w' = disk w \<and> (\<exists>s. stored lib (disk w) (tq_transfer_id request) = Some s
       \<and> sg_request s = request \<and> sg_result s = Some result))"
proof -
  have opened: "outcome (open_saga lib src dst request allow_new w1) (\<lambda>w'. disk w' = disk w)
    (\<lambda>opened w'. disk w' = disk w \<and> (\<exists>s result. stored lib (disk w) (tq_transfer_id request) = Some s
       \<and> sg_request s = request \<and> sg_result s = Some result \<and> opened = Inl result))"
    if "disk w1 = disk w" for w1
    using open_settled [OF L, of w1] S unfolding that .
  show ?thesis
    unfolding transfer_between_wallets_with_start_def outcome_attempt_mut outcome_with_context
    by (intro source_keeps(1,2) [OF L] destination_keeps(1) [OF L] refl)
      (auto intro!: outcome_mono [OF opened])
qed

lemma keeps_attempt:
  "with_context m p = (Inr x, w') \<Longrightarrow> outcome p (\<lambda>w. True) (\<lambda>_ w'. P w') \<Longrightarrow> P w'"
  by (simp add: result_simps)

text \<open>A call that only reads the journal moves nothing.\<close>

lemma no_saga_moves_nothing:
  assumes L: "durable_journal disk lib src dst"
    and opened: "\<And>w1 x w2. disk w1 = disk w \<Longrightarrow> open_saga lib src dst request allow_new w1 = (Inr x, w2)
      \<Longrightarrow> \<exists>result. x = Inl result"
  shows "transfer_between_wallets_with_start lib (other_payments src mq mt lq pm cm cn)
      (other_payments dst mq' mt' lq' pm' cm' cn') request allow_new w
    = transfer_between_wallets_with_start lib src dst request allow_new w"
proof -
  have same: "open_saga lib (other_payments src mq mt lq pm cm cn) (other_payments dst mq' mt' lq' pm' cm' cn')
      request allow_new w1 = open_saga lib src dst request allow_new w1" for w1
    by (simp add: open_saga_def load_cross_mint_transfer_saga_def save_cross_mint_transfer_saga_def other_payments_def
        cong: option.case_cong if_cong)
  have ops: "cw_finalize_pending_melts (other_payments src mq mt lq pm cm cn) = cw_finalize_pending_melts src"
    "cw_recover_incomplete_sagas (other_payments src mq mt lq pm cm cn) = cw_recover_incomplete_sagas src"
    "cw_recover_incomplete_sagas (other_payments dst mq' mt' lq' pm' cm' cn') = cw_recover_incomplete_sagas dst"
    by (simp_all add: other_payments_def)
  show ?thesis
    unfolding transfer_between_wallets_with_start_def ops same
  proof (intro attempt_mut_cong, goal_cases)
    case (1 melts w1 u1 w2 u2 w3 x w4)
    have "disk w1 = disk w" "disk w2 = disk w1" "disk w3 = disk w2"
      using 1(1-3) wallet_keepsD(1,2) [OF durable_journalD(1) [OF L]] wallet_keepsD(2) [OF durable_journalD(2) [OF L]]
      by (auto simp: result_simps keeps_disk_def)
    then show ?case using opened [OF _ 1(4)] by auto
  qed
qed

lemma settled_moves_nothing:
  assumes L: "durable_journal disk lib src dst" and S: "settled lib (disk w) request"
  shows "transfer_between_wallets_with_start lib (other_payments src mq mt lq pm cm cn)
      (other_payments dst mq' mt' lq' pm' cm' cn') request allow_new w
    = transfer_between_wallets_with_start lib src dst request allow_new w"
proof (rule no_saga_moves_nothing [OF L])
  fix w1 x w2 assume "disk w1 = disk w" "open_saga lib src dst request allow_new w1 = (Inr x, w2)"
  then show "\<exists>result. x = Inl result"
    using outcomeD(2) [OF open_settled [OF L, of w1 request allow_new], of x w2] S by auto
qed

text \<open>Without an entry a call that may not start a transfer fails.\<close>

lemma nothing_to_resume:
  assumes L: "durable_journal disk lib src dst" and "disk w (tq_transfer_id request) = None"
  shows "outcome (open_saga lib src dst request False w) (\<lambda>w'. disk w' = disk w) (\<lambda>_ _. False)"
  unfolding open_saga_def outcome_attempt_mut
  by (rule outcome_mono [OF load_saga_outcome [OF L]])
    (use assms(2) in \<open>auto simp: stored_def split: option.splits\<close>)

lemma resume_without_entry:
  assumes L: "durable_journal disk lib src dst" and N: "disk w (tq_transfer_id request) = None"
  shows "outcome (transfer_between_wallets_with_start lib src dst request False w) (\<lambda>w'. disk w' = disk w) (\<lambda>_ _. False)"
    "transfer_between_wallets_with_start lib (other_payments src mq mt lq pm cm cn)
      (other_payments dst mq' mt' lq' pm' cm' cn') request False w
    = transfer_between_wallets_with_start lib src dst request False w"
proof -
  have opened: "outcome (open_saga lib src dst request False w1) (\<lambda>w'. disk w' = disk w) (\<lambda>_ _. False)"
    if "disk w1 = disk w" for w1
    using nothing_to_resume [OF L, of w1] N unfolding that .
  show "outcome (transfer_between_wallets_with_start lib src dst request False w) (\<lambda>w'. disk w' = disk w) (\<lambda>_ _. False)"
    unfolding transfer_between_wallets_with_start_def outcome_attempt_mut outcome_with_context
    by (intro source_keeps(1,2) [OF L] destination_keeps(1) [OF L] refl)
      (auto intro!: outcome_mono [OF opened])
  show "transfer_between_wallets_with_start lib (other_payments src mq mt lq pm cm cn)
      (other_payments dst mq' mt' lq' pm' cm' cn') request False w
    = transfer_between_wallets_with_start lib src dst request False w"
    by (rule no_saga_moves_nothing [OF L]) (use outcomeD(2) [OF opened] in blast)
qed

text \<open>C24. A finished transfer is never carried out again: whatever happened since, calling it again
  either fails or returns the recorded result, another request under its id fails, both leave the
  journal as it is, and neither asks for a quote, prepares, makes or cancels a payment or issues
  tokens: with any other operations in their place the call does exactly the same.\<close>

theorem finished_transfer_replayed:
  assumes "durable_journal disk lib src dst" "journal_reachable disk lib w"
    and "transfer_between_wallets_with_start lib src dst request allow_new w = (Inr result, w')"
    and "(journal_step disk lib)\<^sup>*\<^sup>* w' t" and L: "durable_journal disk lib src' dst'"
    and "tq_transfer_id request' = tq_transfer_id request"
    and "transfer_between_wallets_with_start lib src' dst' request' allow_new' t = (r, t')"
  shows "disk t' = disk t \<and> (r = Inr result \<and> request' = request \<or> isl r)
    \<and> transfer_between_wallets_with_start lib (other_payments src' mq mt lq pm cm cn)
        (other_payments dst' mq' mt' lq' pm' cm' cn') request' allow_new' t = (r, t')"
proof -
  have "journal_ok lib (disk w')"
    using effect_journal_ok [OF transfer_effectD [OF assms(1) _ assms(3)]] reachable_journal_ok [OF assms(2)] by blast
  moreover obtain s where "stored lib (disk w') (tq_transfer_id request) = Some s" "sg_request s = request"
    "sg_result s = Some result"
    using outcomeD(2) [OF transfer_outcome [OF assms(1) reachable_journal_ok [OF assms(2)]] assms(3)] by blast
  ultimately obtain s' where s': "stored lib (disk t) (tq_transfer_id request) = Some s'" "sg_request s' = request"
    "sg_result s' = Some result"
    by (metis run_forward [OF assms(4)] saga_le_def option_le_def option.distinct(1))
  have S: "settled lib (disk t) request'" using s' assms(6) by (auto simp: settled_def)
  show ?thesis
    using outcomeD [OF transfer_settled [OF L S, of allow_new']] assms(6,7) s' settled_moves_nothing [OF L S]
    by (cases r) auto
qed

section \<open>Payments follow the journal\<close>

definition journalled_payment ::
    "'u transfer_lib \<Rightarrow> journal \<Rightarrow> CashuCrossMintTransferRequest \<Rightarrow> PreparedMelt \<Rightarrow> bool" where
  "journalled_payment lib d request prepared \<longleftrightarrow>
     (\<exists>s q reserve. stored lib d (tq_transfer_id request) = Some s \<and> sg_request s = request
        \<and> sg_source_melt_quote_id s = Some q \<and> sg_melt_fee_reserve_sat s = Some reserve
        \<and> sg_wallet_fee_sat s = Some (pm_total_fee_with_swap prepared)
        \<and> unat reserve + unat (pm_total_fee_with_swap prepared) \<le> unat (tq_max_fee_sat request))"

lemma confirm_irrelevant:
  "save_cross_mint_transfer_saga lib (src\<lparr>cw_confirm_melt := c\<rparr>) = save_cross_mint_transfer_saga lib src"
  "open_saga lib (src\<lparr>cw_confirm_melt := c\<rparr>) = open_saga lib src"
  "quote_destination lib (src\<lparr>cw_confirm_melt := c\<rparr>) = quote_destination lib src"
  "quote_source lib (src\<lparr>cw_confirm_melt := c\<rparr>) = quote_source lib src"
  "load_source_quote (src\<lparr>cw_confirm_melt := c\<rparr>) = load_source_quote src"
  "find_transaction m (src\<lparr>cw_confirm_melt := c\<rparr>) = find_transaction m src"
  "finish_transfer lib (src\<lparr>cw_confirm_melt := c\<rparr>) = finish_transfer lib src"
  by (intro ext, simp add: open_saga_def load_cross_mint_transfer_saga_def save_cross_mint_transfer_saga_def
      quote_destination_def quote_source_def load_source_quote_def find_transaction_def finish_transfer_def
      cong: option.case_cong if_cong)+

lemma start_payment_journalled:
  assumes L: "durable_journal disk lib src dst" and T: "tracks lib (disk w) s t"
    and R: "sg_melt_fee_reserve_sat t = Some (lq_fee_reserve quote)"
    and agree: "\<And>p w1. journalled_payment lib (disk w1) (sg_request s) p \<Longrightarrow> c p w1 = cw_confirm_melt src p w1"
  shows "start_payment lib (src\<lparr>cw_confirm_melt := c\<rparr>) (sg_request s) allow_new q quote t w
    = start_payment lib src (sg_request s) allow_new q quote t w"
proof -
  note better = fee_within_limit [OF T R]
  have journalled: "journalled_payment lib (disk w2) (sg_request s) p"
    if "cw_prepare_melt src q w = (Inr p, w1)" "\<not> tq_max_fee_sat (sg_request s) < both"
      "checked_add (lq_fee_reserve quote) (pm_total_fee_with_swap p) = Some both"
      "save_cross_mint_transfer_saga lib src (t\<lparr>sg_wallet_fee_sat := Some (pm_total_fee_with_swap p)\<rparr>) w1 = (Inr (), w2)"
    for p w1 w2 both
  proof -
    have d: "disk w1 = disk w"
      using that(1) wallet_keepsD(11) [OF durable_journalD(1) [OF L]] by (simp add: keeps_disk_def)
    show ?thesis
      using outcomeD(2) [OF save_progress [OF L d T better [OF that(3,2)]] that(4)] R that(2,3)
      by (auto dest!: progress_stored simp: journalled_payment_def saga_ok_def unwrap_or_default_def)
  qed
  show ?thesis
    unfolding start_payment_def confirm_irrelevant Let_def
    by (simp, intro impI attempt_mut_cong)
      (auto simp: result_simps attempt_def ok_or_def agree journalled split: sum.splits option.splits
        intro!: attempt_mut_cong)
qed

lemma pay_source_journalled:
  assumes L: "durable_journal disk lib src dst" and T: "tracks lib (disk w) s s"
    and R: "sg_melt_fee_reserve_sat s = Some (lq_fee_reserve quote)"
    and agree: "\<And>p w1. journalled_payment lib (disk w1) (sg_request s) p \<Longrightarrow> c p w1 = cw_confirm_melt src p w1"
  shows "pay_source lib (src\<lparr>cw_confirm_melt := c\<rparr>) (sg_request s) allow_new melts q quote s w
    = pay_source lib src (sg_request s) allow_new melts q quote s w"
proof -
  have "start_payment lib (src\<lparr>cw_confirm_melt := c\<rparr>) (sg_request s) allow_new q quote t w1
      = start_payment lib src (sg_request s) allow_new q quote t w1"
    if "find_transaction m src q w = (Inr x, w1)" "recovered_fee melts q s = Inr t" for m x t w1
  proof -
    have d: "disk w1 = disk w"
      using that(1) wallet_keepsD(10) [OF durable_journalD(1) [OF L]]
      by (auto simp: find_transaction_def result_simps keeps_disk_def)
    show ?thesis
      by (rule start_payment_journalled [OF L])
        (use recovered_fee_local [OF T that(2)] R agree d in auto)
  qed
  then show ?thesis
    unfolding pay_source_def confirm_irrelevant
    by (intro attempt_mut_cong) (auto simp: attempt_def split: sum.splits MeltQuoteState.splits)
qed

lemma run_saga_journalled:
  assumes L: "durable_journal disk lib src dst" and T: "tracks lib (disk w) s s"
    and agree: "\<And>p w1. journalled_payment lib (disk w1) (sg_request s) p \<Longrightarrow> c p w1 = cw_confirm_melt src p w1"
  shows "run_saga lib (src\<lparr>cw_confirm_melt := c\<rparr>) dst (sg_request s) allow_new melts s w
    = run_saga lib src dst (sg_request s) allow_new melts s w"
proof -
  have step: "pay_source lib (src\<lparr>cw_confirm_melt := c\<rparr>) (sg_request s) allow_new melts q quote u w3
      = pay_source lib src (sg_request s) allow_new melts q quote u w3"
    if "quote_destination lib src dst (sg_request s) s w = (Inr t, w1)"
      "quote_source lib src (sg_request s) i t w1 = (Inr u, w2)"
      "load_source_quote src (sg_request s) i q u w2 = (Inr quote, w3)" for t u i q quote w1 w2 w3
  proof -
    have t: "progress lib (disk w) s (disk w1) t" "sg_result t = None" "sg_request t = sg_request s"
      using outcomeD(2) [OF quote_destination_progress [OF L T] that(1)] by (auto dest: progress_stored)
    have u: "progress lib (disk w1) t (disk w2) u" "sg_result u = None" "sg_request u = sg_request s"
      using outcomeD(2) [OF quote_source_progress [OF L progress_tracks [OF t(1,2)]]] that(2) t(3)
      by (fastforce dest: progress_stored)+
    have q: "disk w3 = disk w2" "sg_melt_fee_reserve_sat u = Some (lq_fee_reserve quote)"
      using outcomeD(2) [OF load_source_quote_keeps [OF L, where E = "\<lambda>_. True"] that(3)] by auto
    show ?thesis
      using pay_source_journalled [OF L _ q(2), of w3] progress_tracks [OF u(1,2)] agree u(3) q(1) by auto
  qed
  show ?thesis
    unfolding run_saga_def confirm_irrelevant
    by (intro attempt_mut_cong)
      (auto simp: attempt_def ok_or_def step split: sum.splits option.splits intro!: attempt_mut_cong)
qed

lemma transfer_journalled:
  assumes L: "durable_journal disk lib src dst" and J: "journal_ok lib (disk w)"
    and agree: "\<And>p w1. journalled_payment lib (disk w1) request p \<Longrightarrow> c p w1 = cw_confirm_melt src p w1"
  shows "transfer_between_wallets_with_start lib (src\<lparr>cw_confirm_melt := c\<rparr>) dst request allow_new w
    = transfer_between_wallets_with_start lib src dst request allow_new w"
proof -
  have ops: "cw_finalize_pending_melts (src\<lparr>cw_confirm_melt := c\<rparr>) = cw_finalize_pending_melts src"
    "cw_recover_incomplete_sagas (src\<lparr>cw_confirm_melt := c\<rparr>) = cw_recover_incomplete_sagas src"
    by simp_all
  show ?thesis
    unfolding transfer_between_wallets_with_start_def ops confirm_irrelevant
  proof (intro attempt_mut_cong, goal_cases)
    case (1 melts w1 u1 w2 u2 w3 opened w4)
    have "disk w1 = disk w" "disk w2 = disk w1" "disk w3 = disk w2"
      using 1(1-3) wallet_keepsD(1,2) [OF durable_journalD(1) [OF L]] wallet_keepsD(2) [OF durable_journalD(2) [OF L]]
      by (auto simp: result_simps keeps_disk_def)
    then have "journal_ok lib (disk w3)" using J by simp
    from outcomeD(2) [OF open_saga_outcome [OF L this] 1(4)]
    show ?case using run_saga_journalled [OF L] agree by (auto split: sum.splits)
  qed
qed

lemma resume_pays_nothing:
  "transfer_between_wallets_with_start lib
      (src\<lparr>cw_prepare_melt := pm, cw_cancel_melt := cm, cw_confirm_melt := cn\<rparr>) dst request False w
   = transfer_between_wallets_with_start lib src dst request False w"
  by (simp add: transfer_between_wallets_with_start_def open_saga_def load_cross_mint_transfer_saga_def
      save_cross_mint_transfer_saga_def run_saga_def quote_destination_def quote_source_def load_source_quote_def
      pay_source_def find_transaction_def start_payment_def finish_transfer_def
      cong: option.case_cong if_cong sum.case_cong MeltQuoteState.case_cong)

lemma destination_payments:
  "transfer_between_wallets_with_start lib src
      (dst\<lparr>cw_prepare_melt := pm, cw_cancel_melt := cm, cw_confirm_melt := cn\<rparr>) request allow_new w
   = transfer_between_wallets_with_start lib src dst request allow_new w"
  by (simp add: transfer_between_wallets_with_start_def open_saga_def run_saga_def quote_destination_def
      finish_transfer_def issue_destination_def cong: option.case_cong if_cong sum.case_cong)

text \<open>C25. A payment is only made for a transfer that is already in the journal with this request, a melt
  quote and fees that keep within the maximum: a wallet that refuses or misbehaves on every other
  payment cannot be told apart. A call that may only resume starts no payment at all, whatever the
  state: it behaves the same with any operations for preparing, cancelling and making payments.\<close>

theorem payments_follow_journal:
  assumes "durable_journal disk lib src dst" "journal_reachable disk lib w"
    and "\<And>p w1. journalled_payment lib (disk w1) request p \<Longrightarrow> confirm p w1 = cw_confirm_melt src p w1"
  shows "transfer_between_wallets_with_start lib (src\<lparr>cw_confirm_melt := confirm\<rparr>) dst request allow_new w
      = transfer_between_wallets_with_start lib src dst request allow_new w
    \<and> transfer_between_wallets_with_start lib
        (src\<lparr>cw_prepare_melt := prepare, cw_cancel_melt := cancel, cw_confirm_melt := any\<rparr>) dst request False w
      = transfer_between_wallets_with_start lib src dst request False w"
  by (intro conjI transfer_journalled [OF assms(1) reachable_journal_ok [OF assms(2)] assms(3)] resume_pays_nothing)

section \<open>An example\<close>

text \<open>A world with a journal and two flags: whether the source mint was paid, whether the tokens were issued.\<close>

record ex_world =
  ew_journal :: "(string \<times> u8 list) list"
  ew_paid :: bool
  ew_issued :: bool

definition ex_disk :: "ex_world \<Rightarrow> journal" where
  "ex_disk w = map_of (ew_journal w)"

definition ex_mint_quote :: "string \<Rightarrow> MintQuoteState \<Rightarrow> MintQuote" where
  "ex_mint_quote url state =
     \<lparr>mq_id = ''mq'', mq_mint_url = url, mq_payment_method = Bolt11Method, mq_unit = UnitSat,
      mq_amount = Some 21, mq_request = ''lnbc'', mq_state = state, mq_amount_issued = 21, mq_expiry = 0\<rparr>"

definition ex_melt_quote :: "bool \<Rightarrow> MeltQuote" where
  "ex_melt_quote paid =
     \<lparr>lq_id = ''lq'', lq_amount = 21, lq_request = ''lnbc'', lq_fee_reserve = 2,
      lq_state = (if paid then MeltPaid else MeltUnpaid)\<rparr>"

definition ex_wallet :: "string \<Rightarrow> ex_world cdk_wallet" where
  "ex_wallet url =
     \<lparr>cw_mint_url = url,
      cw_finalize_pending_melts = (\<lambda>w. (Inr [], w)),
      cw_recover_incomplete_sagas = (\<lambda>w. (Inr \<lparr>rr_recovered = 0, rr_compensated = 0, rr_skipped = 0, rr_failed = 0\<rparr>, w)),
      cw_total_balance = (\<lambda>w. (Inr (if ew_issued w then 121 else 100), w)),
      cw_mint_quote = (\<lambda>m amount w. (Inr (ex_mint_quote url MintUnpaid), w)),
      cw_check_mint_quote_status = (\<lambda>q w. (Inr (ex_mint_quote url
         (if ew_issued w then MintIssued else if ew_paid w then MintPaid else MintUnpaid)), w)),
      cw_mint = (\<lambda>q w. (Inr (), w\<lparr>ew_issued := True\<rparr>)),
      cw_get_mint_quote = (\<lambda>q w. (Inr (Some (ex_mint_quote url (if ew_issued w then MintIssued else MintUnpaid))), w)),
      cw_melt_quote = (\<lambda>m i w. (Inr (ex_melt_quote (ew_paid w)), w)),
      cw_get_melt_quote = (\<lambda>q w. (Inr (Some (ex_melt_quote (ew_paid w))), w)),
      cw_list_outgoing = (\<lambda>w. (Inr (if ew_paid w then [\<lparr>wt_quote_id = Some ''lq'', wt_fee = 2\<rparr>] else []), w)),
      cw_prepare_melt = (\<lambda>q w. (Inr \<lparr>pm_operation_id = ''op'', pm_total_fee_with_swap = 1\<rparr>, w)),
      cw_cancel_melt = (\<lambda>p w. (Inr (), w)),
      cw_confirm_melt = (\<lambda>p w. (Inr \<lparr>fm_quote_id = ''lq'', fm_state = MeltPaid, fm_fee_paid = 2, fm_amount = 21, fm_payment_proof = Some ''00''\<rparr>, w\<lparr>ew_paid := True\<rparr>)),
      cw_kv_read = (\<lambda>a b k w. (Inr (map_of (ew_journal w) k), w)),
      cw_kv_write = (\<lambda>a b k v w. (Inr (), w\<lparr>ew_journal := (k, v) # ew_journal w\<rparr>)),
      cw_add_mint = (\<lambda>url w. (Inr (), w)),
      cw_unit = UnitSat,
      cw_mint_unissued_quotes = (\<lambda>w. (Inr 0, w)),
      cw_receive = (\<lambda>token w. (Inr 21, w)),
      cw_get_proofs_by_ys = (\<lambda>ys w. (Inr [], w)),
      cw_update_proofs = (\<lambda>proofs w. (Inr (), w)),
      cw_revoke_send = (\<lambda>operation w. (Inr 21, w)),
      cw_fetch_active_keyset = (\<lambda>w. (Inr ''k'', w)),
      cw_get_unspent_proofs = (\<lambda>w. (Inr [], w)),
      cw_swap = (\<lambda>proofs w. (Inr (), w)),
      cw_prepare_send = (\<lambda>amount w. (Inr \<lparr>ps_operation_id = ''op'', ps_send_fee = 0, ps_proofs = []\<rparr>, w)),
      cw_cancel_send = (\<lambda>p w. (Inr (), w)),
      cw_confirm_send = (\<lambda>p w. (Inr ''token'', w)),
      cw_get_mint_quotes = (\<lambda>w. (Inr [], w)),
      cw_get_saga = (\<lambda>operation w. (Inr None, w))\<rparr>"

definition ex_transfer_request :: CashuCrossMintTransferRequest where
  "ex_transfer_request = \<lparr>tq_transfer_id = ''t-1'', tq_source_mint_url = ''https://a'',
     tq_destination_mint_url = ''https://b'', tq_amount_sat = 21, tq_max_fee_sat = 3\<rparr>"

text \<open>The sagas of this transfer; the codec numbers them and encodes no other.\<close>

definition ex_sagas :: "CashuCrossMintTransferSaga list" where
  "ex_sagas =
     (let s0 = new_saga ex_transfer_request 100;
          s1 = s0\<lparr>sg_destination_mint_quote_id := Some ''mq'', sg_destination_payment_request := Some ''lnbc''\<rparr>;
          s2 = s1\<lparr>sg_source_melt_quote_id := Some ''lq'', sg_melt_fee_reserve_sat := Some 2\<rparr>;
          s3 = s2\<lparr>sg_wallet_fee_sat := Some 1\<rparr>;
          s4 = s3\<lparr>sg_fee_paid_sat := Some 2\<rparr>;
          s5 = s4\<lparr>sg_result := Some (transfer_result ex_transfer_request ''lq'' ''mq'' 2 121 s4)\<rparr>
      in [s0, s1, s2, s3, s4, s5])"

definition ex_index :: "CashuCrossMintTransferSaga \<Rightarrow> nat" where
  "ex_index s = length (takeWhile (\<lambda>t. t \<noteq> s) ex_sagas)"

definition ex_transfer_lib :: "unit transfer_lib" where
  "ex_transfer_lib =
     \<lparr>saga_to_vec = (\<lambda>s. if ex_index s < length ex_sagas then Inr (replicate (ex_index s) 0) else Inl ''unknown''),
      saga_from_slice = (\<lambda>b. if length b < length ex_sagas then Inr (ex_sagas ! length b) else Inl ''unknown''),
      invoice_from_str = (\<lambda>i. Inr (Some 21000)), mint_url_from_str = Inr,
      url_parse = (\<lambda>raw. Inr ()), url_scheme = (\<lambda>u. ''https''), url_query = (\<lambda>u. None), url_fragment = (\<lambda>u. None),
      url_path = (\<lambda>u. []), url_set_path = (\<lambda>p u. u), url_to_string = (\<lambda>u. ''https://a'')\<rparr>"

definition ex_start :: ex_world where
  "ex_start = \<lparr>ew_journal = [], ew_paid = False, ew_issued = False\<rparr>"

definition ex_transfer :: "ex_world \<Rightarrow> (TransferError + CashuCrossMintTransfer) \<times> ex_world" where
  "ex_transfer w = transfer_between_wallets_with_start ex_transfer_lib (ex_wallet ''https://a'')
     (ex_wallet ''https://b'') ex_transfer_request True w"

definition ex_result :: CashuCrossMintTransfer where
  "ex_result = transfer_result ex_transfer_request ''lq'' ''mq'' 2 121 (ex_sagas ! 4)"

lemma ex_transferred: "ex_transfer ex_start = (Inr ex_result, snd (ex_transfer ex_start))"
  "stored ex_transfer_lib (ex_disk (snd (ex_transfer ex_start))) ''t-1'' = Some (ex_sagas ! 5)"
  "sg_source_melt_quote_id (ex_sagas ! 5) = Some ''lq''"
  by code_simp+

lemma ex_wallet_keeps: "wallet_keeps ex_disk (ex_wallet url)"
  by (simp add: wallet_keeps_def keeps_disk_def ex_wallet_def ex_disk_def)

lemma ex_durable: "durable_journal ex_disk ex_transfer_lib (ex_wallet url) (ex_wallet url')"
proof -
  have "ex_sagas ! ex_index s = s" if "ex_index s < length ex_sagas" for s
    using nth_length_takeWhile [of "\<lambda>t. t \<noteq> s" ex_sagas] that by (simp add: ex_index_def)
  then show ?thesis
    unfolding durable_journal_def
    by (intro conjI ex_wallet_keeps) (auto simp: ex_wallet_def ex_disk_def ex_transfer_lib_def split: if_splits)
qed

lemma ex_step: "journal_step ex_disk ex_transfer_lib w (snd (ex_transfer w))"
  by (cases "ex_transfer w") (auto simp: ex_transfer_def intro: journal_step.transfer [OF ex_durable])

lemma ex_run: "(journal_step ex_disk ex_transfer_lib)\<^sup>*\<^sup>* w (snd (ex_transfer w))"
  using ex_step by (rule r_into_rtranclp)

lemma ex_journal_reachable: "journal_reachable ex_disk ex_transfer_lib ex_start"
  "journal_reachable ex_disk ex_transfer_lib (snd (ex_transfer ex_start))"
proof -
  have start: "ex_disk ex_start = Map.empty" by (simp add: ex_disk_def ex_start_def)
  then show "journal_reachable ex_disk ex_transfer_lib ex_start" unfolding journal_reachable_def by blast
  from ex_run [of ex_start]
  show "journal_reachable ex_disk ex_transfer_lib (snd (ex_transfer ex_start))"
    using start unfolding journal_reachable_def by blast
qed

theorem journal_never_rewritten_witness:
  "\<exists>s'. stored ex_transfer_lib (ex_disk (snd (ex_transfer (snd (ex_transfer ex_start))))) ''t-1'' = Some s'
     \<and> sg_source_melt_quote_id s' = Some ''lq''"
proof -
  from journal_never_rewritten [OF ex_journal_reachable(2) ex_run [of "snd (ex_transfer ex_start)"] ex_transferred(2)]
  show ?thesis using ex_transferred(3) by auto
qed

theorem transfer_result_exact_witness: "ct_fee_paid_sat ex_result \<le> 3 \<and> ct_amount_sat ex_result = 21"
  using transfer_result_exact [OF ex_durable ex_journal_reachable(1) ex_transferred(1) [unfolded ex_transfer_def]]
  by (simp add: ex_transfer_request_def)

theorem finished_transfer_replayed_witness:
  "fst (ex_transfer (snd (ex_transfer ex_start))) = Inr ex_result \<or> isl (fst (ex_transfer (snd (ex_transfer ex_start))))"
  using finished_transfer_replayed [OF ex_durable ex_journal_reachable(1) ex_transferred(1) [unfolded ex_transfer_def]
      rtranclp.rtrancl_refl ex_durable refl prod.collapse [symmetric]]
  unfolding ex_transfer_def by blast

theorem payments_follow_journal_witness:
  "transfer_between_wallets_with_start ex_transfer_lib
     ((ex_wallet ''https://a'')\<lparr>cw_confirm_melt := (\<lambda>p w. if journalled_payment ex_transfer_lib (ex_disk w) ex_transfer_request p
        then cw_confirm_melt (ex_wallet ''https://a'') p w else (Inl ''refused'', w))\<rparr>)
     (ex_wallet ''https://b'') ex_transfer_request True ex_start = (Inr ex_result, snd (ex_transfer ex_start))"
  using ex_transferred(1) unfolding ex_transfer_def
  by (subst payments_follow_journal [THEN conjunct1, OF ex_durable ex_journal_reachable(1)]) simp_all

end
