(* ===== verification/Cross_Mint_Evidence.thy ===== *)
theory Cross_Mint_Evidence
  imports Cross_Mint_Properties
begin

text \<open>
  What a finished transfer says about the world. \<open>facts\<close> are the events at the mints that have happened:
  a melt quote was made for an invoice, it was paid, tokens were issued for a mint quote. What is relied
  on of the wallet crate is that it lists a payment, and reports a quote or an issue, only when it
  happened, and that what happened stays so. Then the result of a transfer, returned or stored, is
  evidence that the source mint paid the very invoice for which the destination mint issued the tokens.
\<close>

section \<open>Facts\<close>

text \<open>\<open>Quoted mint quote invoice amount\<close>, \<open>Paid mint quote fee\<close>, \<open>Issued mint quote invoice amount\<close>.\<close>

datatype mint_fact = Quoted string string string u64 | Paid string string u64 | Issued string string string u64

definition moved :: "'u transfer_lib \<Rightarrow> mint_fact set \<Rightarrow> CashuCrossMintTransfer \<Rightarrow> bool" where
  "moved lib F r \<longleftrightarrow> (\<exists>source destination invoice.
     mint_url_from_str lib (ct_source_mint_url r) = Inr source
   \<and> mint_url_from_str lib (ct_destination_mint_url r) = Inr destination
   \<and> Quoted source (ct_source_melt_quote_id r) invoice (ct_amount_sat r) \<in> F
   \<and> Paid source (ct_source_melt_quote_id r) (ct_fee_paid_sat r) \<in> F
   \<and> Issued destination (ct_destination_mint_quote_id r) invoice (ct_amount_sat r) \<in> F)"

lemma moved_mono: "moved lib F r \<Longrightarrow> F \<subseteq> F' \<Longrightarrow> moved lib F' r"
  by (auto simp: moved_def)

section \<open>What is relied on of the wallet\<close>

definition quiet :: "('w \<Rightarrow> journal) \<Rightarrow> ('w \<Rightarrow> mint_fact set) \<Rightarrow> ('w \<Rightarrow> 'r \<times> 'w) \<Rightarrow> bool" where
  "quiet disk facts operation \<longleftrightarrow> (\<forall>w r w'. operation w = (r, w') \<longrightarrow> disk w' = disk w \<and> facts w \<subseteq> facts w')"

definition wallet_quiet :: "('w \<Rightarrow> journal) \<Rightarrow> ('w \<Rightarrow> mint_fact set) \<Rightarrow> 'w cdk_wallet \<Rightarrow> bool" where
  "wallet_quiet disk facts x \<longleftrightarrow>
     quiet disk facts (cw_finalize_pending_melts x) \<and> quiet disk facts (cw_recover_incomplete_sagas x)
   \<and> quiet disk facts (cw_total_balance x) \<and> (\<forall>m a. quiet disk facts (cw_mint_quote x m a))
   \<and> (\<forall>q. quiet disk facts (cw_check_mint_quote_status x q)) \<and> (\<forall>q. quiet disk facts (cw_mint x q))
   \<and> (\<forall>q. quiet disk facts (cw_get_mint_quote x q)) \<and> (\<forall>m i. quiet disk facts (cw_melt_quote x m i))
   \<and> (\<forall>q. quiet disk facts (cw_get_melt_quote x q)) \<and> quiet disk facts (cw_list_outgoing x)
   \<and> (\<forall>q. quiet disk facts (cw_prepare_melt x q)) \<and> (\<forall>p. quiet disk facts (cw_cancel_melt x p))
   \<and> (\<forall>p. quiet disk facts (cw_confirm_melt x p)) \<and> (\<forall>url. quiet disk facts (cw_add_mint x url))"

text \<open>The key-value store: reading returns the entry, a write replaces it or fails.\<close>

definition wallet_stores :: "('w \<Rightarrow> journal) \<Rightarrow> ('w \<Rightarrow> mint_fact set) \<Rightarrow> 'w cdk_wallet \<Rightarrow> bool" where
  "wallet_stores disk facts x \<longleftrightarrow>
     (\<forall>key w r w'. cw_kv_read x K_WALLET_NAMESPACE K_CROSS_MINT_TRANSFER_NAMESPACE key w = (r, w') \<longrightarrow>
        disk w' = disk w \<and> facts w \<subseteq> facts w' \<and> (isl r \<or> r = Inr (disk w key)))
   \<and> (\<forall>key bytes w r w'.
        cw_kv_write x K_WALLET_NAMESPACE K_CROSS_MINT_TRANSFER_NAMESPACE key bytes w = (r, w') \<longrightarrow>
        facts w \<subseteq> facts w' \<and> (disk w' = (disk w)(key \<mapsto> bytes) \<or> disk w' = disk w \<and> isl r))"

text \<open>What is reported has happened.\<close>

definition wallet_truthful :: "('w \<Rightarrow> mint_fact set) \<Rightarrow> 'w cdk_wallet \<Rightarrow> bool" where
  "wallet_truthful facts x \<longleftrightarrow>
     (\<forall>w ts w' t q. cw_list_outgoing x w = (Inr ts, w') \<longrightarrow> t \<in> set ts \<longrightarrow> wt_quote_id t = Some q
        \<longrightarrow> Paid (cw_mint_url x) q (wt_fee t) \<in> facts w')
   \<and> (\<forall>w q quote w'. cw_get_melt_quote x q w = (Inr (Some quote), w')
        \<longrightarrow> Quoted (cw_mint_url x) q (lq_request quote) (lq_amount quote) \<in> facts w')
   \<and> (\<forall>w q quote w'. cw_get_mint_quote x q w = (Inr (Some quote), w') \<longrightarrow> mq_state quote = MintIssued
        \<longrightarrow> Issued (cw_mint_url x) (mq_id quote) (mq_request quote) (mq_amount_issued quote) \<in> facts w')"

definition wallet_law :: "('w \<Rightarrow> journal) \<Rightarrow> ('w \<Rightarrow> mint_fact set) \<Rightarrow> 'w cdk_wallet \<Rightarrow> bool" where
  "wallet_law disk facts x \<longleftrightarrow> wallet_quiet disk facts x \<and> wallet_stores disk facts x \<and> wallet_truthful facts x"

definition saga_codec :: "'u transfer_lib \<Rightarrow> bool" where
  "saga_codec lib \<longleftrightarrow> (\<forall>saga bytes. saga_to_vec lib saga = Inr bytes \<longrightarrow> saga_from_slice lib bytes = Inr saga)"

text \<open>The repository gives wallets of the mints it is asked for, and leaves the journal alone.\<close>

definition repository_law :: "('w \<Rightarrow> journal) \<Rightarrow> ('w \<Rightarrow> mint_fact set) \<Rightarrow> 'w wallet_repository \<Rightarrow> bool" where
  "repository_law disk facts repo \<longleftrightarrow>
     (\<forall>url unit. quiet disk facts (repo_has_wallet repo url unit)
        \<and> quiet disk facts (repo_get_wallet repo url unit) \<and> quiet disk facts (repo_create_wallet repo url unit))
   \<and> (\<forall>url unit w x w'. repo_get_wallet repo url unit w = (Inr x, w') \<longrightarrow> wallet_law disk facts x \<and> cw_mint_url x = url)
   \<and> (\<forall>url unit w x w'. repo_create_wallet repo url unit w = (Inr x, w') \<longrightarrow> wallet_law disk facts x \<and> cw_mint_url x = url)"

text \<open>These wallets keep the journal in the sense of the earlier theories.\<close>

lemma law_durable:
  assumes "wallet_law disk facts src" "wallet_law disk facts dst" "saga_codec lib"
  shows "durable_journal disk lib src dst"
proof -
  have keeps: "keeps_disk disk f" if "quiet disk facts f" for f :: "'a \<Rightarrow> 'r \<times> 'a"
    using that by (simp add: quiet_def keeps_disk_def)
  have "wallet_keeps disk x" if "wallet_law disk facts x" for x
    using that unfolding wallet_law_def wallet_quiet_def wallet_keeps_def by (auto intro: keeps)
  moreover have "wallet_stores disk facts src" using assms(1) by (simp add: wallet_law_def)
  then have "disk w' = disk w \<and> (case r of Inl e \<Rightarrow> True | Inr v \<Rightarrow> v = disk w key)"
    if "cw_kv_read src K_WALLET_NAMESPACE K_CROSS_MINT_TRANSFER_NAMESPACE key w = (r, w')" for key w r w'
    using that by (cases r) (fastforce simp: wallet_stores_def)+
  moreover have "disk w' = (disk w)(key \<mapsto> bytes) \<or> disk w' = disk w \<and> isl r"
    if "cw_kv_write src K_WALLET_NAMESPACE K_CROSS_MINT_TRANSFER_NAMESPACE key bytes w = (r, w')" for key bytes w r w'
    using that \<open>wallet_stores disk facts src\<close> unfolding wallet_stores_def by blast
  ultimately show ?thesis
    using assms unfolding durable_journal_def saga_codec_def by blast
qed

section \<open>Worlds in which every recorded result has happened\<close>

definition results_moved :: "'u transfer_lib \<Rightarrow> journal \<Rightarrow> mint_fact set \<Rightarrow> bool" where
  "results_moved lib d F \<longleftrightarrow> (\<forall>k s r. stored lib d k = Some s \<longrightarrow> sg_result s = Some r \<longrightarrow> moved lib F r)"

text \<open>\<open>G\<close> collects the facts that a call has learnt so far.\<close>

definition recorded :: "'u transfer_lib \<Rightarrow> ('w \<Rightarrow> journal) \<Rightarrow> ('w \<Rightarrow> mint_fact set) \<Rightarrow> mint_fact set \<Rightarrow> 'w \<Rightarrow> bool" where
  "recorded lib disk facts G w \<longleftrightarrow> G \<subseteq> facts w \<and> results_moved lib (disk w) (facts w)"

lemma results_moved_mono: "results_moved lib d F \<Longrightarrow> F \<subseteq> F' \<Longrightarrow> results_moved lib d F'"
  unfolding results_moved_def by (blast intro: moved_mono)

lemma recorded_subset: "recorded lib disk facts G w \<Longrightarrow> G' \<subseteq> G \<Longrightarrow> recorded lib disk facts G' w"
  by (auto simp: recorded_def)

lemma recorded_step:
  "recorded lib disk facts G w \<Longrightarrow> disk w' = disk w \<Longrightarrow> facts w \<subseteq> facts w' \<Longrightarrow> recorded lib disk facts G w'"
  unfolding recorded_def using results_moved_mono [of lib "disk w" "facts w" "facts w'"] by auto

lemma outcome_quiet:
  assumes "quiet disk facts f" "recorded lib disk facts G w"
    and "\<And>x w'. f w = (Inr x, w') \<Longrightarrow> recorded lib disk facts G w' \<Longrightarrow> P x w'"
  shows "outcome (f w) (recorded lib disk facts G) P"
proof (cases "f w")
  case (Pair r w')
  then have "recorded lib disk facts G w'"
    using recorded_step [OF assms(2), of w'] assms(1) by (simp add: quiet_def)
  then show ?thesis using Pair assms(3) by (cases r) auto
qed

lemma wallet_lawD:
  assumes "wallet_law disk facts x"
  shows "quiet disk facts (cw_finalize_pending_melts x)" "quiet disk facts (cw_recover_incomplete_sagas x)"
    "quiet disk facts (cw_total_balance x)" "quiet disk facts (cw_mint_quote x m a)"
    "quiet disk facts (cw_check_mint_quote_status x q)" "quiet disk facts (cw_mint x q)"
    "quiet disk facts (cw_get_mint_quote x q)" "quiet disk facts (cw_melt_quote x m i)"
    "quiet disk facts (cw_get_melt_quote x q)" "quiet disk facts (cw_list_outgoing x)"
    "quiet disk facts (cw_prepare_melt x q)" "quiet disk facts (cw_cancel_melt x p)"
    "quiet disk facts (cw_confirm_melt x p)" "quiet disk facts (cw_add_mint x url)"
  using assms by (simp_all add: wallet_law_def wallet_quiet_def)

lemma wallet_reports:
  assumes "wallet_law disk facts x"
  shows "cw_list_outgoing x w = (Inr ts, w') \<Longrightarrow> t \<in> set ts \<Longrightarrow> wt_quote_id t = Some q
      \<Longrightarrow> Paid (cw_mint_url x) q (wt_fee t) \<in> facts w'"
    "cw_get_melt_quote x q w = (Inr (Some quote), w')
      \<Longrightarrow> Quoted (cw_mint_url x) q (lq_request quote) (lq_amount quote) \<in> facts w'"
    "cw_get_mint_quote x q w = (Inr (Some mint_quote), w') \<Longrightarrow> mq_state mint_quote = MintIssued
      \<Longrightarrow> Issued (cw_mint_url x) (mq_id mint_quote) (mq_request mint_quote) (mq_amount_issued mint_quote) \<in> facts w'"
  using assms unfolding wallet_law_def wallet_truthful_def by blast+

lemma learnt: "recorded lib disk facts G w \<Longrightarrow> f \<in> facts w \<Longrightarrow> recorded lib disk facts (insert f G) w"
  by (simp add: recorded_def)

section \<open>The stages\<close>

lemma save_recorded:
  assumes L: "wallet_law disk facts src" "saga_codec lib" and R: "recorded lib disk facts G w"
    and s: "\<And>r. sg_result s = Some r \<Longrightarrow> moved lib (facts w) r"
    and P: "\<And>w'. recorded lib disk facts G w' \<Longrightarrow> facts w \<subseteq> facts w' \<Longrightarrow> P () w'"
  shows "outcome (save_cross_mint_transfer_saga lib src s w) (recorded lib disk facts G) P"
proof (cases "saga_to_vec lib s")
  case (Inl e)
  then show ?thesis using R by (simp add: save_cross_mint_transfer_saga_def)
next
  case (Inr bytes)
  let ?k = "tq_transfer_id (sg_request s)"
  obtain r w' where kv: "cw_kv_write src K_WALLET_NAMESPACE K_CROSS_MINT_TRANSFER_NAMESPACE ?k bytes w = (r, w')" by fastforce
  then have w': "facts w \<subseteq> facts w'" "disk w' = (disk w)(?k \<mapsto> bytes) \<or> disk w' = disk w"
    using L(1) unfolding wallet_law_def wallet_stores_def by blast+
  have "saga_from_slice lib bytes = Inr s" using L(2) Inr unfolding saga_codec_def by blast
  then have new: "results_moved lib ((disk w)(?k \<mapsto> bytes)) (facts w)"
    using R s by (auto simp: recorded_def results_moved_def stored_def split: if_splits)
  have "results_moved lib (disk w') (facts w')"
    using w'(2) results_moved_mono [OF new w'(1)] R results_moved_mono [of lib "disk w" "facts w" "facts w'"] w'(1)
    by (auto simp: recorded_def)
  then have "recorded lib disk facts G w'" using R w'(1) by (auto simp: recorded_def)
  then show ?thesis using P [OF _ w'(1)] by (cases r) (auto simp: save_cross_mint_transfer_saga_def Inr kv)
qed

lemma quote_destination_recorded:
  assumes L: "wallet_law disk facts src" "wallet_law disk facts dst" "saga_codec lib"
    and R: "recorded lib disk facts G w" and N: "sg_result s = None"
  shows "outcome (quote_destination lib src dst request s w) (recorded lib disk facts G)
    (\<lambda>t w'. recorded lib disk facts G w' \<and> sg_result t = None)"
  by (auto simp: quote_destination_def outcome_simps Let_def R N split: sum.splits
      intro!: outcome_quiet [OF wallet_lawD(4) [OF L(2)]] save_recorded [OF L(1,3)])

lemma quote_source_recorded:
  assumes L: "wallet_law disk facts src" "saga_codec lib"
    and R: "recorded lib disk facts G w" and N: "sg_result s = None"
  shows "outcome (quote_source lib src request i s w) (recorded lib disk facts G)
    (\<lambda>t w'. recorded lib disk facts G w' \<and> sg_result t = None)"
  by (auto simp: quote_source_def outcome_simps Let_def R N split: sum.splits
      intro!: outcome_quiet [OF wallet_lawD(8) [OF L(1)]] save_recorded [OF L])

lemma load_source_quote_recorded:
  assumes L: "wallet_law disk facts src" and R: "recorded lib disk facts G w"
  shows "outcome (load_source_quote src request i q s w) (recorded lib disk facts G)
    (\<lambda>_. recorded lib disk facts (insert (Quoted (cw_mint_url src) q i (tq_amount_sat request)) G))"
  unfolding load_source_quote_def outcome_attempt_mut outcome_with_context
  by (rule outcome_quiet [OF wallet_lawD(9) [OF L] R])
    (auto simp: outcome_simps ok_or_def split: sum.splits option.splits intro!: learnt,
      metis wallet_reports(2) [OF L])

lemma find_transaction_recorded:
  assumes L: "wallet_law disk facts src" and R: "recorded lib disk facts G w"
  shows "outcome (find_transaction m src q w) (recorded lib disk facts G)
    (\<lambda>found w'. recorded lib disk facts G w'
       \<and> (\<forall>t. found = Some t \<longrightarrow> Paid (cw_mint_url src) q (wt_fee t) \<in> facts w'))"
  unfolding find_transaction_def outcome_attempt_mut outcome_with_context
  by (rule outcome_quiet [OF wallet_lawD(10) [OF L] R])
    (auto simp: find_Some_iff intro!: wallet_reports(1) [OF L])

lemma start_payment_recorded:
  assumes L: "wallet_law disk facts src" "saga_codec lib"
    and R: "recorded lib disk facts G w" and N: "sg_result s = None"
  shows "outcome (start_payment lib src request allow_new q quote s w) (recorded lib disk facts G)
    (\<lambda>t w'. recorded lib disk facts G w' \<and> sg_result t = None)"
  by (auto simp: start_payment_def outcome_simps Let_def R N split: sum.splits
      intro!: outcome_quiet [OF wallet_lawD(11) [OF L(1)]] outcome_quiet [OF wallet_lawD(12) [OF L(1)]]
        outcome_quiet [OF wallet_lawD(13) [OF L(1)]] save_recorded [OF L])

lemma recovered_fee_unfinished: "recovered_fee melts q s = Inr t \<Longrightarrow> sg_result t = sg_result s"
  by (auto simp: recovered_fee_def split: option.splits if_splits)

lemma pay_source_recorded:
  assumes L: "wallet_law disk facts src" "saga_codec lib"
    and R: "recorded lib disk facts G w" and N: "sg_result s = None"
  shows "outcome (pay_source lib src request allow_new melts q quote s w) (recorded lib disk facts G)
    (\<lambda>(found, t) w'. recorded lib disk facts G w' \<and> sg_result t = None
       \<and> (\<forall>paid. found = Some paid \<longrightarrow> Paid (cw_mint_url src) q (wt_fee paid) \<in> facts w'))"
  unfolding pay_source_def outcome_attempt_mut outcome_attempt outcome_if
  by (rule outcome_mono [OF find_transaction_recorded [OF L(1) R]])
    (auto simp: outcome_simps N split: sum.splits MeltQuoteState.splits dest!: recovered_fee_unfinished
      intro!: outcome_mono [OF start_payment_recorded [OF L]] outcome_mono [OF find_transaction_recorded [OF L(1)]])

lemma issue_destination_recorded:
  assumes L: "wallet_law disk facts dst" and R: "recorded lib disk facts G w"
  shows "outcome (issue_destination dst request q i w) (recorded lib disk facts G)
    (\<lambda>_. recorded lib disk facts (insert (Issued (cw_mint_url dst) q i (tq_amount_sat request)) G))"
  by (auto simp: issue_destination_def outcome_simps R ok_or_def split: sum.splits option.splits
      intro!: outcome_quiet [OF wallet_lawD(5) [OF L] R] outcome_quiet [OF wallet_lawD(6) [OF L]]
        outcome_quiet [OF wallet_lawD(7) [OF L]] learnt)
    (metis wallet_reports(3) [OF L])+

text \<open>The result is made of what was learnt: the quote, the payment and the issue.\<close>

lemma finish_transfer_recorded:
  assumes L: "wallet_law disk facts src" "wallet_law disk facts dst" "saga_codec lib"
    and R: "recorded lib disk facts G w" and N: "sg_result s = None"
    and urls: "mint_url_from_str lib (tq_source_mint_url request) = Inr (cw_mint_url src)"
      "mint_url_from_str lib (tq_destination_mint_url request) = Inr (cw_mint_url dst)"
    and known: "Quoted (cw_mint_url src) q i (tq_amount_sat request) \<in> facts w"
      "\<And>paid. tx = Some paid \<Longrightarrow> Paid (cw_mint_url src) q (wt_fee paid) \<in> facts w"
  shows "outcome (finish_transfer lib src dst request q dq i tx s w) (recorded lib disk facts G)
    (\<lambda>result w'. recorded lib disk facts G w' \<and> moved lib (facts w') result)"
proof (cases tx)
  case None
  then show ?thesis using R by (simp add: finish_transfer_def)
next
  case (Some paid)
  let ?s = "s\<lparr>sg_fee_paid_sat := Some (wt_fee paid)\<rparr>"
  let ?G = "{Quoted (cw_mint_url src) q i (tq_amount_sat request), Paid (cw_mint_url src) q (wt_fee paid)} \<union> G"
  let ?H = "insert (Issued (cw_mint_url dst) dq i (tq_amount_sat request)) ?G"
  have R': "recorded lib disk facts ?G w" using R known Some by (simp add: recorded_def)
  have forget: "recorded lib disk facts G v" if "recorded lib disk facts H v" "H = ?G \<or> H = ?H" for H v
    using that by (auto elim: recorded_subset)
  have first: "outcome (save_cross_mint_transfer_saga lib src ?s w) (recorded lib disk facts ?G)
      (\<lambda>_. recorded lib disk facts ?G)"
    by (rule save_recorded [OF L(1,3) R']) (simp_all add: N)
  have happened: "moved lib (facts v) (transfer_result request q dq (wt_fee paid) after ?s)"
    if "recorded lib disk facts ?H v" for v after
    using that urls by (auto simp: recorded_def moved_def transfer_result_def)
  have second: "outcome (save_cross_mint_transfer_saga lib src
        (?s\<lparr>sg_result := Some (transfer_result request q dq (wt_fee paid) after ?s)\<rparr>) v) (recorded lib disk facts ?H)
      (\<lambda>_ w'. recorded lib disk facts G w' \<and> moved lib (facts w') (transfer_result request q dq (wt_fee paid) after ?s))"
    if "recorded lib disk facts ?H v" for v after
    by (rule save_recorded [OF L(1,3) that]) (use happened [OF that] in \<open>auto intro: forget moved_mono\<close>)
  show ?thesis
    unfolding finish_transfer_def Some Let_def outcome_attempt_mut outcome_with_context ok_or_simps attempt_simps
    by (rule outcome_mono [OF first], rule forget, assumption, simp,
        rule outcome_mono [OF issue_destination_recorded [OF L(2)]], assumption, rule forget, assumption, simp,
        rule outcome_mono [OF outcome_quiet [OF wallet_lawD(3) [OF L(2)], where P = "\<lambda>_. recorded lib disk facts ?H"]],
        assumption, assumption, rule forget, assumption, simp)
      (auto simp: outcome_simps intro: forget intro!: outcome_mono [OF second])
qed

section \<open>A whole transfer\<close>

lemma run_saga_recorded:
  assumes L: "wallet_law disk facts src" "wallet_law disk facts dst" "saga_codec lib"
    and R: "recorded lib disk facts G w" and N: "sg_result s = None"
    and urls: "mint_url_from_str lib (tq_source_mint_url request) = Inr (cw_mint_url src)"
      "mint_url_from_str lib (tq_destination_mint_url request) = Inr (cw_mint_url dst)"
  shows "outcome (run_saga lib src dst request allow_new melts s w) (recorded lib disk facts G)
    (\<lambda>result w'. recorded lib disk facts G w' \<and> moved lib (facts w') result)"
proof -
  let ?E = "recorded lib disk facts G" and ?P = "\<lambda>result w'. recorded lib disk facts G w' \<and> moved lib (facts w') result"
  have paying: "outcome (attempt_mut (load_source_quote src request i q t w1) (\<lambda>quote w'.
        attempt_mut (pay_source lib src request allow_new melts q quote t w')
          (\<lambda>(tx, u) w'. finish_transfer lib src dst request q dq i tx u w'))) ?E ?P"
    if "recorded lib disk facts G w1" "sg_result t = None" for t q dq i w1
  proof -
    let ?G = "insert (Quoted (cw_mint_url src) q i (tq_amount_sat request)) G"
    have forget: "?E v" if "recorded lib disk facts ?G v" for v using that by (rule recorded_subset) blast
    have finish: "outcome (finish_transfer lib src dst request q dq i tx u v) ?E ?P"
      if "recorded lib disk facts ?G v" "sg_result u = None"
        "\<forall>paid. tx = Some paid \<longrightarrow> Paid (cw_mint_url src) q (wt_fee paid) \<in> facts v" for tx u v
      by (rule finish_transfer_recorded [OF L forget [OF that(1)] that(2) urls])
        (use that in \<open>auto simp: recorded_def\<close>)
    show ?thesis
      unfolding outcome_attempt_mut
      by (rule outcome_mono [OF load_source_quote_recorded [OF L(1) that(1)]], assumption,
          rule outcome_mono [OF pay_source_recorded [OF L(1,3) _ that(2)]], assumption, rule forget, assumption)
        (auto intro: finish)
  qed
  show ?thesis
    unfolding run_saga_def outcome_attempt_mut [of "quote_destination _ _ _ _ _ _"]
    by (rule outcome_mono [OF quote_destination_recorded [OF L R N]], assumption)
      (auto simp: outcome_attempt outcome_attempt_mut [of "quote_source _ _ _ _ _ _"] ok_or_def
        split: option.splits sum.splits intro!: outcome_mono [OF quote_source_recorded [OF L(1,3)]] paying)
qed

lemma open_saga_recorded:
  assumes L: "wallet_law disk facts src" "wallet_law disk facts dst" "saga_codec lib"
    and R: "recorded lib disk facts G w"
  shows "outcome (open_saga lib src dst request allow_new w) (recorded lib disk facts G)
    (\<lambda>opened w'. recorded lib disk facts G w' \<and> (case opened of
        Inl result \<Rightarrow> moved lib (facts w') result | Inr s \<Rightarrow> sg_result s = None))"
proof -
  obtain r w1 where kv: "cw_kv_read src K_WALLET_NAMESPACE K_CROSS_MINT_TRANSFER_NAMESPACE (tq_transfer_id request) w = (r, w1)"
    by fastforce
  then have w1: "disk w1 = disk w" "facts w \<subseteq> facts w1" "isl r \<or> r = Inr (disk w (tq_transfer_id request))"
    using L(1) unfolding wallet_law_def wallet_stores_def by blast+
  have R1: "recorded lib disk facts G w1" using recorded_step [OF R w1(1,2)] .
  have load: "outcome (load_cross_mint_transfer_saga lib src (tq_transfer_id request) w) (recorded lib disk facts G)
      (\<lambda>found w'. recorded lib disk facts G w'
         \<and> (\<forall>s result. found = Some s \<longrightarrow> sg_result s = Some result \<longrightarrow> moved lib (facts w') result))"
  proof -
    have "moved lib (facts w1) result"
      if "disk w1 (tq_transfer_id request) = Some bytes" "saga_from_slice lib bytes = Inr s" "sg_result s = Some result"
      for bytes s result
      using R1 that unfolding recorded_def results_moved_def stored_def
      by (auto dest!: spec [of _ "tq_transfer_id request"])
    then show ?thesis
      using w1(1,3) R1
      by (cases r) (auto simp: load_cross_mint_transfer_saga_def kv outcome_simps map_err_def split: sum.splits option.splits)
  qed
  show ?thesis
    unfolding open_saga_def outcome_attempt_mut [of "load_cross_mint_transfer_saga _ _ _ _"]
    by (rule outcome_mono [OF load])
      (auto simp: outcome_simps split: option.splits
        intro!: outcome_quiet [OF wallet_lawD(3) [OF L(2)]] save_recorded [OF L(1,3)])
qed

lemma transfer_recorded:
  assumes L: "wallet_law disk facts src" "wallet_law disk facts dst" "saga_codec lib"
    and R: "recorded lib disk facts G w"
    and urls: "mint_url_from_str lib (tq_source_mint_url request) = Inr (cw_mint_url src)"
      "mint_url_from_str lib (tq_destination_mint_url request) = Inr (cw_mint_url dst)"
  shows "outcome (transfer_between_wallets_with_start lib src dst request allow_new w) (recorded lib disk facts G)
    (\<lambda>result w'. recorded lib disk facts G w' \<and> moved lib (facts w') result)"
  unfolding transfer_between_wallets_with_start_def outcome_attempt_mut outcome_with_context
  by (rule outcome_quiet [OF wallet_lawD(1) [OF L(1)] R], rule outcome_quiet [OF wallet_lawD(2) [OF L(1)]], assumption,
      rule outcome_quiet [OF wallet_lawD(2) [OF L(2)]], assumption,
      rule outcome_mono [OF open_saga_recorded [OF L]], assumption, assumption)
    (auto split: sum.splits intro!: run_saga_recorded [OF L _ _ urls])

text \<open>Getting a wallet keeps whatever quiet operations keep.\<close>

lemma ensure_sat_wallet_keeps:
  assumes L: "repository_law disk facts repo" and I: "I w"
    and keep: "\<And>v v'. I v \<Longrightarrow> disk v' = disk v \<Longrightarrow> facts v \<subseteq> facts v' \<Longrightarrow> I v'"
  shows "outcome (ensure_sat_wallet repo url w) I (\<lambda>x w'. I w' \<and> wallet_law disk facts x \<and> cw_mint_url x = url)"
proof -
  have quiet: "outcome (f v) I P"
    if "quiet disk facts f" "I v" "\<And>x v'. f v = (Inr x, v') \<Longrightarrow> I v' \<Longrightarrow> P x v'"
    for f :: "'a \<Rightarrow> (string + 'r) \<times> 'a" and v P
  proof (cases "f v")
    case (Pair r v')
    then have "I v'" using keep [OF that(2), of v'] that(1) by (simp add: quiet_def)
    then show ?thesis using Pair that(3) by (cases r) auto
  qed
  obtain known w1 where has: "repo_has_wallet repo url UnitSat w = (known, w1)" by fastforce
  have q: "quiet disk facts (repo_has_wallet repo url UnitSat)" "quiet disk facts (repo_get_wallet repo url UnitSat)"
      "quiet disk facts (repo_create_wallet repo url UnitSat)"
    and got: "\<And>w x w'. repo_get_wallet repo url UnitSat w = (Inr x, w') \<Longrightarrow> wallet_law disk facts x \<and> cw_mint_url x = url"
      "\<And>w x w'. repo_create_wallet repo url UnitSat w = (Inr x, w') \<Longrightarrow> wallet_law disk facts x \<and> cw_mint_url x = url"
    using L unfolding repository_law_def by blast+
  have I1: "I w1" using keep [OF I] q(1) has unfolding quiet_def by blast
  have add: "outcome (attempt_mut (with_context m (cw_add_mint x url v)) (\<lambda>_ w. (Inr x, w))) I
      (\<lambda>x w'. I w' \<and> wallet_law disk facts x \<and> cw_mint_url x = url)"
    if "I v" "wallet_law disk facts x \<and> cw_mint_url x = url" for x v m
    unfolding outcome_attempt_mut outcome_with_context
    by (rule quiet [OF wallet_lawD(14)]) (use that in auto)
  show ?thesis
    unfolding ensure_sat_wallet_def has Let_def prod.case
    by (cases known)
      (auto simp: outcome_attempt_mut [of "with_context _ (repo_get_wallet _ _ _ _)"]
        outcome_attempt_mut [of "with_context _ (repo_create_wallet _ _ _ _)"] outcome_with_context
        intro!: quiet [OF q(2) I1] quiet [OF q(3) I1] add dest: got)
qed

lemma ensure_sat_wallet_recorded:
  assumes "repository_law disk facts repo" "recorded lib disk facts G w"
  shows "outcome (ensure_sat_wallet repo url w) (recorded lib disk facts G)
    (\<lambda>x w'. recorded lib disk facts G w' \<and> wallet_law disk facts x \<and> cw_mint_url x = url)"
  by (rule ensure_sat_wallet_keeps [where I = "recorded lib disk facts G", OF assms]) (rule recorded_step)

lemma transfer_between_mints_recorded:
  assumes L: "repository_law disk facts repo" "saga_codec lib" and R: "recorded lib disk facts G w"
  shows "outcome (transfer_between_mints_with_start lib repo request allow_new w) (recorded lib disk facts G)
    (\<lambda>result w'. recorded lib disk facts G w' \<and> moved lib (facts w') result)"
  unfolding transfer_between_mints_with_start_def outcome_attempt
    outcome_attempt_mut [of "ensure_sat_wallet _ _ _"]
  by (auto simp: R result_simps split: sum.splits
      intro!: outcome_mono [OF ensure_sat_wallet_recorded [OF L(1)]] transfer_recorded [OF _ _ L(2)])

section \<open>Histories\<close>

text \<open>Transfers through any repositories on this journal, and anything else that leaves the journal alone.\<close>

inductive mint_step :: "('w \<Rightarrow> journal) \<Rightarrow> ('w \<Rightarrow> mint_fact set) \<Rightarrow> 'u transfer_lib \<Rightarrow> 'w \<Rightarrow> 'w \<Rightarrow> bool"
  for disk :: "'w \<Rightarrow> journal" and facts :: "'w \<Rightarrow> mint_fact set" and lib :: "'u transfer_lib" where
  through_repository: "repository_law disk facts repo \<Longrightarrow>
     transfer_between_mints_with_start lib repo request allow_new w = (r, w') \<Longrightarrow> mint_step disk facts lib w w'"
| meanwhile: "disk w' = disk w \<Longrightarrow> facts w \<subseteq> facts w' \<Longrightarrow> mint_step disk facts lib w w'"

definition mint_reachable :: "('w \<Rightarrow> journal) \<Rightarrow> ('w \<Rightarrow> mint_fact set) \<Rightarrow> 'u transfer_lib \<Rightarrow> 'w \<Rightarrow> bool" where
  "mint_reachable disk facts lib w \<longleftrightarrow> (\<exists>w0. disk w0 = Map.empty \<and> (mint_step disk facts lib)\<^sup>*\<^sup>* w0 w)"

lemma step_recorded:
  assumes "mint_step disk facts lib w w'" "saga_codec lib" "recorded lib disk facts {} w"
  shows "recorded lib disk facts {} w'"
  using assms(1)
proof cases
  case (through_repository repo request allow_new r)
  show ?thesis
    using transfer_between_mints_recorded [OF through_repository(1) assms(2,3), of request allow_new] through_repository(2)
    by (cases r) auto
next
  case meanwhile
  then show ?thesis using recorded_step [OF assms(3)] by blast
qed

lemma reachable_recorded:
  assumes "mint_reachable disk facts lib w" "saga_codec lib"
  shows "recorded lib disk facts {} w"
proof -
  obtain w0 where "disk w0 = Map.empty" and run: "(mint_step disk facts lib)\<^sup>*\<^sup>* w0 w"
    using assms(1) by (auto simp: mint_reachable_def)
  then have "recorded lib disk facts {} w0" by (simp add: recorded_def results_moved_def stored_def)
  with run show ?thesis by (induction rule: rtranclp_induct) (auto intro: step_recorded [OF _ assms(2)])
qed

text \<open>What a call through a repository does: it fails early, or it is a transfer between two lawful wallets.\<close>

lemma ensure_sat_wallet_law:
  assumes "repository_law disk facts repo"
  shows "outcome (ensure_sat_wallet repo url w) (\<lambda>w'. disk w' = disk w)
    (\<lambda>x w'. disk w' = disk w \<and> wallet_law disk facts x \<and> cw_mint_url x = url)"
  by (rule ensure_sat_wallet_keeps [OF assms]) simp_all

lemma transfer_between_mints_steps:
  assumes "repository_law disk facts repo" "transfer_between_mints_with_start lib repo request allow_new w = (r, w')"
  obtains "isl r" "disk w' = disk w"
  | request' src dst w1 where "normalize_cross_mint_transfer_request lib request = Inr request'"
      "wallet_law disk facts src" "wallet_law disk facts dst" "disk w1 = disk w"
      "transfer_between_wallets_with_start lib src dst request' allow_new w1 = (r, w')"
proof -
  have "isl r \<and> disk w' = disk w \<or> (\<exists>request' src dst w1. normalize_cross_mint_transfer_request lib request = Inr request'
      \<and> wallet_law disk facts src \<and> wallet_law disk facts dst \<and> disk w1 = disk w
      \<and> transfer_between_wallets_with_start lib src dst request' allow_new w1 = (r, w'))"
  proof (cases "normalize_cross_mint_transfer_request lib request")
    case (Inr request')
    note n = Inr
    show ?thesis
    proof (cases "mint_url_from_str lib (tq_source_mint_url request')"; cases "mint_url_from_str lib (tq_destination_mint_url request')")
      fix source_mint destination_mint
      assume m: "mint_url_from_str lib (tq_source_mint_url request') = Inr source_mint"
        "mint_url_from_str lib (tq_destination_mint_url request') = Inr destination_mint"
      obtain r1 w1 where 1: "ensure_sat_wallet repo source_mint w = (r1, w1)" by fastforce
      obtain r2 w2 where 2: "ensure_sat_wallet repo destination_mint w1 = (r2, w2)" by fastforce
      note e1 = ensure_sat_wallet_law [OF assms(1), of source_mint w, unfolded 1]
      note e2 = ensure_sat_wallet_law [OF assms(1), of destination_mint w1, unfolded 2]
      show ?thesis
        using assms(2) n m 1 2 e1 e2 by (cases r1; cases r2) (auto simp: transfer_between_mints_with_start_def)
    qed (use assms(2) n in \<open>auto simp: transfer_between_mints_with_start_def\<close>)
  qed (use assms(2) in \<open>auto simp: transfer_between_mints_with_start_def\<close>)
  then show ?thesis using that by blast
qed

lemma mint_step_journal:
  assumes "mint_step disk facts lib w w'" "saga_codec lib"
  shows "(journal_step disk lib)\<^sup>*\<^sup>* w w'"
  using assms(1)
proof cases
  case (through_repository repo request allow_new r)
  from through_repository show ?thesis
  proof (cases rule: transfer_between_mints_steps)
    case 1
    then show ?thesis by (blast intro: journal_step.elsewhere)
  next
    case (2 request' src dst w1)
    have "journal_step disk lib w w1" using 2(4) by (rule journal_step.elsewhere)
    moreover have "journal_step disk lib w1 w'"
      using journal_step.transfer [OF law_durable [OF 2(2,3) assms(2)] 2(5)] .
    ultimately show ?thesis by simp
  qed
qed (blast intro: journal_step.elsewhere)

lemma mint_reachable_journal:
  assumes "mint_reachable disk facts lib w" "saga_codec lib"
  shows "journal_ok lib (disk w)"
proof -
  obtain w0 where w0: "disk w0 = Map.empty" and run: "(mint_step disk facts lib)\<^sup>*\<^sup>* w0 w"
    using assms(1) by (auto simp: mint_reachable_def)
  from run have "(journal_step disk lib)\<^sup>*\<^sup>* w0 w"
    by (induction rule: rtranclp_induct) (auto intro: rtranclp_trans mint_step_journal [OF _ assms(2)])
  then have "journal_reachable disk lib w" using w0 unfolding journal_reachable_def by blast
  then show ?thesis by (rule reachable_journal_ok)
qed

text \<open>A call that may only resume makes no new entry and leaves the entries of other transfers alone.\<close>

lemma resume_entries:
  assumes "repository_law disk facts repo" "saga_codec lib" "mint_reachable disk facts lib w"
    and "transfer_between_mints_with_start lib repo request False w = (r, w')"
    and k: "k \<noteq> trim (tq_transfer_id request) \<or> disk w k = None"
  shows "disk w' k = disk w k"
  using assms(1,4)
proof (cases rule: transfer_between_mints_steps)
  case (2 request' src dst w1)
  note L = law_durable [OF 2(2,3) assms(2)]
  have id: "tq_transfer_id request' = trim (tq_transfer_id request)"
    using 2(1) by (auto simp: normalize_cross_mint_transfer_request_def Let_def result_simps split: if_splits)
  show ?thesis
  proof (cases "disk w (tq_transfer_id request') = None")
    case True
    then show ?thesis
      using resume_without_entry(1) [OF L, of w1 request'] 2(4,5) by (cases r) auto
  next
    case False
    have "transfer_effect lib request' (disk w1) (disk w')"
      using transfer_outcome [OF L, of w1 request' False] mint_reachable_journal [OF assms(3,2)] 2(4,5) by (cases r) auto
    then show ?thesis using k id False 2(4) unfolding transfer_effect_def by auto
  qed
qed simp

text \<open>Whatever happened before, a transfer that returns has moved the money.\<close>

lemma returned_transfer_moved:
  assumes "repository_law disk facts repo" "saga_codec lib" "mint_reachable disk facts lib w"
    and "transfer_between_mints_with_start lib repo request allow_new w = (Inr result, w')"
  shows "moved lib (facts w') result"
  using outcomeD(2) [OF transfer_between_mints_recorded [OF assms(1,2) reachable_recorded [OF assms(3,2)]] assms(4)]
  by simp

end
