(* ===== verification/Cashu_Settlement.thy ===== *)
theory Cashu_Settlement
  imports Cross_Mint_Evidence Credit_Lifecycle
begin

text \<open>
  Paying out an authorized settlement of a credit account through a cross-mint transfer
  (\<open>credit_settlement.rs\<close>), and what the account and the transfer guarantee together. The wallet
  service that \<open>transfer_between_mints\<close> opens on the data directory is the repository argument.
\<close>

record CashuIssuerRoute =
  rt_issuer :: string
  rt_source_mint_url :: string

definition bind_cashu_settlement ::
    "'u transfer_lib \<Rightarrow> ExternalSettlementAuthorization \<Rightarrow> CashuIssuerRoute
       \<Rightarrow> TransferError + CashuCrossMintTransferRequest" where
  "bind_cashu_settlement lib authorization route =
     (if rt_issuer route \<noteq> xa_issuer authorization
      then Inl (Bail ''Cashu settlement route does not match the authorized issuer'')
      else if trim (xa_settlement_id authorization) \<noteq> xa_settlement_id authorization
           \<or> xa_settlement_id authorization = []
           \<or> trim (xa_issuer authorization) = []
           \<or> trim (xa_counterparty authorization) = []
      then Inl (Bail ''Cashu settlement authorization identity is not canonical'')
      else if xa_amount_sat authorization = 0
      then Inl (Bail ''Cashu settlement amount must be greater than zero'')
      else
        and_then (ok_or (checked_add (xa_amount_sat authorization) (xa_max_fee_sat authorization))
                    (Missing ''Cashu settlement reserve overflow'')) (\<lambda>reserved_sat.
        if xa_reserved_sat authorization \<noteq> reserved_sat
        then Inl (Bail ''Cashu settlement authorization has an invalid reserve'')
        else if xa_authorized_at_unix authorization \<ge> xa_expires_at_unix authorization
        then Inl (Bail ''Cashu settlement authorization has an invalid deadline'')
        else
          and_then (map_err (Within ''Cashu settlement source mint is invalid'')
                     (normalize_mint_url lib (rt_source_mint_url route))) (\<lambda>source_mint_url.
          and_then (map_err (Within ''Cashu settlement destination mint is invalid'')
                     (normalize_mint_url lib (xa_payout_destination authorization))) (\<lambda>destination_mint_url.
          if destination_mint_url \<noteq> xa_payout_destination authorization
          then Inl (Bail ''Cashu settlement destination mint must be canonical'')
          else
            Inr \<lparr>tq_transfer_id = xa_settlement_id authorization, tq_source_mint_url = source_mint_url,
                 tq_destination_mint_url = destination_mint_url, tq_amount_sat = xa_amount_sat authorization,
                 tq_max_fee_sat = xa_max_fee_sat authorization\<rparr>))))"

definition prepare_cashu_settlement ::
    "'u transfer_lib \<Rightarrow> ExternalSettlementAuthorization \<Rightarrow> CashuIssuerRoute \<Rightarrow> u64
       \<Rightarrow> TransferError + CashuCrossMintTransferRequest" where
  "prepare_cashu_settlement lib authorization route now_unix =
     and_then (bind_cashu_settlement lib authorization route) (\<lambda>request.
     if xa_expires_at_unix authorization \<le> now_unix
     then Inl (Bail ''Cashu settlement authorization has expired'')
     else Inr request)"

definition execute_cashu_settlement ::
    "'u transfer_lib \<Rightarrow> 'w wallet_repository \<Rightarrow> ExternalSettlementAuthorization \<Rightarrow> CashuIssuerRoute \<Rightarrow> u64 \<Rightarrow> 'w
       \<Rightarrow> (TransferError + CashuCrossMintTransfer) \<times> 'w" where
  "execute_cashu_settlement lib repository authorization route now_unix w =
     attempt (bind_cashu_settlement lib authorization route) w (\<lambda>request.
     attempt_mut
       (if xa_expires_at_unix authorization \<le> now_unix
        then resume_transfer_between_mints lib repository request w
        else transfer_between_mints lib repository request w) (\<lambda>transfer w.
     if ct_transfer_id transfer \<noteq> tq_transfer_id request
        \<or> ct_source_mint_url transfer \<noteq> tq_source_mint_url request
        \<or> ct_destination_mint_url transfer \<noteq> tq_destination_mint_url request
        \<or> ct_amount_sat transfer \<noteq> tq_amount_sat request
        \<or> ct_max_fee_sat transfer \<noteq> tq_max_fee_sat request
        \<or> ct_fee_paid_sat transfer > tq_max_fee_sat request
        \<or> ct_unit transfer \<noteq> ''sat''
     then (Inl (Bail ''CDK transfer result does not match the Cashu settlement authorization''), w)
     else (Inr transfer, w)))"

section \<open>Executing an authorization\<close>

lemma bind_Inr:
  assumes "bind_cashu_settlement lib z route = Inr request"
  shows "rt_issuer route = xa_issuer z" "tq_transfer_id request = xa_settlement_id z"
    "tq_destination_mint_url request = xa_payout_destination z" "tq_amount_sat request = xa_amount_sat z"
    "tq_max_fee_sat request = xa_max_fee_sat z" "xa_amount_sat z \<noteq> 0"
    "unat (xa_reserved_sat z) = unat (xa_amount_sat z) + unat (xa_max_fee_sat z)"
    "normalize_mint_url lib (rt_source_mint_url route) = Inr (tq_source_mint_url request)"
  using assms by (auto simp: bind_cashu_settlement_def result_simps checked_add_eq_Some split: if_splits)

lemma execute_Inr:
  assumes "execute_cashu_settlement lib repo z route now w = (Inr result, w')"
  obtains request allow_new where "bind_cashu_settlement lib z route = Inr request"
    "ct_transfer_id result = tq_transfer_id request" "ct_source_mint_url result = tq_source_mint_url request"
    "ct_destination_mint_url result = tq_destination_mint_url request"
    "ct_amount_sat result = tq_amount_sat request" "ct_fee_paid_sat result \<le> tq_max_fee_sat request"
    "transfer_between_mints_with_start lib repo request allow_new w = (Inr result, w')"
  using assms
  by (auto simp: execute_cashu_settlement_def transfer_between_mints_def resume_transfer_between_mints_def
      result_simps linorder_not_less linorder_not_le split: if_splits)

lemma pending_authorization:
  assumes "account_ok a" "z \<in> set (pending_external_settlement_authorizations a)"
  obtains r where "bm_get (ca_settlements a) (xa_settlement_id z) = Some r" "st_state r = Pending"
    "st_authorization r = z" "xr_max_fee_sat (st_request r) = xa_max_fee_sat z" "xa_amount_sat z \<noteq> 0"
    "unat (xa_reserved_sat z) = unat (xa_amount_sat z) + unat (xa_max_fee_sat z)"
    "xa_authorized_at_unix z < xa_expires_at_unix z"
proof -
  have "bm_wf (ca_settlements a)" using assms(1) by (simp add: account_ok_def shape_ok_def)
  from pending_authorization_iff [OF this] assms(2) obtain i r where
    r: "bm_get (ca_settlements a) i = Some r" "st_state r = Pending" "st_authorization r = z" by blast
  have ok: "settlement_ok (ca_counterparty a) (bm_keys (ca_issuers a)) i r"
    using assms(1) r(1) by (rule settlement_record)
  then have z: "z = authorization_of (st_request r) (xa_reserved_sat z) (xa_authorized_at_unix z)"
    unfolding settlement_ok_def Let_def r(3) by blast
  have "xa_settlement_id z = i" "xr_max_fee_sat (st_request r) = xa_max_fee_sat z"
    "xr_amount_sat (st_request r) = xa_amount_sat z"
    using ok by (subst z; simp add: authorization_of_def settlement_ok_def Let_def)+
  then show thesis using that r ok by (auto simp: settlement_ok_def Let_def)
qed


section \<open>Expired authorizations\<close>

text \<open>The same repository, with other operations in its wallets.\<close>

definition changing :: "('w cdk_wallet \<Rightarrow> 'w cdk_wallet) \<Rightarrow> 'w wallet_repository \<Rightarrow> 'w wallet_repository" where
  "changing change repo =
     repo\<lparr>repo_get_wallet := (\<lambda>url unit w. map_prod (map_sum id change) id (repo_get_wallet repo url unit w)),
          repo_create_wallet := (\<lambda>url unit w. map_prod (map_sum id change) id (repo_create_wallet repo url unit w))\<rparr>"

text \<open>Other ways to prepare, cancel and make payments; and other ways to ask for quotes and to issue, too.\<close>

definition with_payments where
  "with_payments pm cm cn =
     changing (\<lambda>wallet. wallet\<lparr>cw_prepare_melt := pm, cw_cancel_melt := cm, cw_confirm_melt := cn\<rparr>)"

definition with_effects where
  "with_effects mq mt lq pm cm cn = changing (\<lambda>wallet. other_payments wallet mq mt lq pm cm cn)"

lemma ensure_changing:
  assumes "\<And>wallet. cw_add_mint (change wallet) = cw_add_mint wallet"
  shows "ensure_sat_wallet (changing change repo) url w = map_prod (map_sum id change) id (ensure_sat_wallet repo url w)"
  by (auto simp: ensure_sat_wallet_def changing_def Let_def attempt_mut_def with_context_def map_err_def assms
      split: prod.splits sum.splits)

lemma ensure_with_payments:
  "ensure_sat_wallet (with_payments pm cm cn repo) url w
   = map_prod (map_sum id (\<lambda>wallet. wallet\<lparr>cw_prepare_melt := pm, cw_cancel_melt := cm, cw_confirm_melt := cn\<rparr>)) id
       (ensure_sat_wallet repo url w)"
  unfolding with_payments_def by (rule ensure_changing) simp

lemma ensure_with_effects:
  "ensure_sat_wallet (with_effects mq mt lq pm cm cn repo) url w
   = map_prod (map_sum id (\<lambda>wallet. other_payments wallet mq mt lq pm cm cn)) id (ensure_sat_wallet repo url w)"
  unfolding with_effects_def by (rule ensure_changing) (simp add: other_payments_def)

lemma resume_transfer_pays_nothing:
  "resume_transfer_between_mints lib (with_payments pm cm cn repo) request w
   = resume_transfer_between_mints lib repo request w"
  unfolding resume_transfer_between_mints_def transfer_between_mints_with_start_def ensure_with_payments
  by (simp add: attempt_def attempt_mut_def resume_pays_nothing destination_payments split: sum.splits prod.splits)

text \<open>Without an entry in the journal there is nothing to resume, and nothing is asked of any mint.\<close>

lemma nothing_journalled:
  assumes L: "repository_law disk facts repo" "saga_codec lib" and N: "disk w (trim (tq_transfer_id request)) = None"
  shows "isl (fst (resume_transfer_between_mints lib repo request w))"
    "resume_transfer_between_mints lib (with_effects mq mt lq pm cm cn repo) request w
     = resume_transfer_between_mints lib repo request w"
proof -
  have id: "tq_transfer_id request' = trim (tq_transfer_id request)"
    if "normalize_cross_mint_transfer_request lib request = Inr request'" for request'
    using that by (auto simp: normalize_cross_mint_transfer_request_def Let_def result_simps split: if_splits)
  obtain r w' where run: "transfer_between_mints_with_start lib repo request False w = (r, w')" by fastforce
  have "isl r"
    using L(1) run
  proof (cases rule: transfer_between_mints_steps)
    case (2 request' src dst w1)
    show ?thesis
      using resume_without_entry(1) [OF law_durable [OF 2(2,3) L(2)], of w1 request'] 2(4,5) id [OF 2(1)] N
      by (cases r) auto
  qed
  then show "isl (fst (resume_transfer_between_mints lib repo request w))"
    using run by (simp add: resume_transfer_between_mints_def)
  have same: "transfer_between_wallets_with_start lib (other_payments src mq mt lq pm cm cn)
      (other_payments dst mq mt lq pm cm cn) request' False w2
    = transfer_between_wallets_with_start lib src dst request' False w2"
    if "normalize_cross_mint_transfer_request lib request = Inr request'"
      "ensure_sat_wallet repo source w = (Inr src, w1)" "ensure_sat_wallet repo destination w1 = (Inr dst, w2)"
    for request' source destination src dst w1 w2
  proof -
    have s: "wallet_law disk facts src" "disk w1 = disk w"
      using outcomeD(2) [OF ensure_sat_wallet_law [OF L(1)] that(2)] by simp_all
    have d: "wallet_law disk facts dst" "disk w2 = disk w1"
      using outcomeD(2) [OF ensure_sat_wallet_law [OF L(1)] that(3)] by simp_all
    show ?thesis
      by (rule resume_without_entry(2) [OF law_durable [OF s(1) d(1) L(2)]]) (simp add: id [OF that(1)] s(2) d(2) N)
  qed
  show "resume_transfer_between_mints lib (with_effects mq mt lq pm cm cn repo) request w
     = resume_transfer_between_mints lib repo request w"
    unfolding resume_transfer_between_mints_def transfer_between_mints_with_start_def ensure_with_effects
    by (simp add: attempt_def attempt_mut_def same split: sum.splits prod.splits)
qed

lemma bind_id: "bind_cashu_settlement lib z route = Inr request \<Longrightarrow> trim (tq_transfer_id request) = xa_settlement_id z"
  by (auto simp: bind_cashu_settlement_def result_simps split: if_splits)

text \<open>C27. An expired authorization is refused when it is prepared, and executing it only ever resumes what
  was journalled before. It never starts a payment: it does exactly the same whatever the wallets do when
  asked to prepare, cancel or make one. It makes no new entry in the journal, after any history of
  transfers, and leaves the entries of other transfers alone; when nothing is journalled under the
  settlement's id it fails, and does exactly the same whatever the wallets do when asked for a quote, for
  a payment or to issue tokens.\<close>

theorem expired_settlement_never_pays:
  assumes "xa_expires_at_unix z \<le> now"
    and "repository_law disk facts repo" "saga_codec lib" "mint_reachable disk facts lib w"
    and "execute_cashu_settlement lib repo z route now w = (r, w')"
  shows "isl (prepare_cashu_settlement lib z route now)
    \<and> execute_cashu_settlement lib (with_payments pm cm cn repo) z route now w = (r, w')
    \<and> (\<forall>k. k \<noteq> xa_settlement_id z \<or> disk w k = None \<longrightarrow> disk w' k = disk w k)
    \<and> (disk w (xa_settlement_id z) \<noteq> None
       \<or> isl r \<and> execute_cashu_settlement lib (with_effects mq mt lq pm cm cn repo) z route now w = (r, w'))"
proof (cases "bind_cashu_settlement lib z route")
  case (Inl e)
  then show ?thesis using assms(5) by (auto simp: prepare_cashu_settlement_def execute_cashu_settlement_def)
next
  case (Inr request)
  note id = bind_id [OF Inr]
  obtain r1 w1 where run: "resume_transfer_between_mints lib repo request w = (r1, w1)" by fastforce
  then have r: "w' = w1" "isl r1 \<longrightarrow> isl r"
    using assms(1,5) Inr by (cases r1; auto simp: execute_cashu_settlement_def split: if_splits)+
  have "disk w1 k = disk w k" if "k \<noteq> xa_settlement_id z \<or> disk w k = None" for k
    using resume_entries [OF assms(2-4) run [unfolded resume_transfer_between_mints_def]] that by (simp add: id)
  moreover have "isl r1" "resume_transfer_between_mints lib (with_effects mq mt lq pm cm cn repo) request w = (r1, w1)"
    if "disk w (xa_settlement_id z) = None"
    using nothing_journalled [OF assms(2,3), of w request] that run by (simp_all add: id)
  ultimately show ?thesis
    using assms(1,5) Inr run r
    by (auto simp: prepare_cashu_settlement_def execute_cashu_settlement_def resume_transfer_pays_nothing)
qed

section \<open>An example\<close>

text \<open>The pending payout of the example account, and wallets that carry it out.\<close>

definition ex_authorization :: ExternalSettlementAuthorization where
  "ex_authorization = hd (pending_external_settlement_authorizations ex_pending)"

definition ex_route :: CashuIssuerRoute where
  "ex_route = \<lparr>rt_issuer = ''m2'', rt_source_mint_url = ''https://a/''\<rparr>"

definition ex_payout_request :: CashuCrossMintTransferRequest where
  "ex_payout_request = \<lparr>tq_transfer_id = ''x1'', tq_source_mint_url = ''https://a'', tq_destination_mint_url = ''lnbc1'',
     tq_amount_sat = 40, tq_max_fee_sat = 5\<rparr>"

definition ex_payouts :: "CashuCrossMintTransferSaga list" where
  "ex_payouts =
     (let s0 = new_saga ex_payout_request 100;
          s1 = s0\<lparr>sg_destination_mint_quote_id := Some ''mq'', sg_destination_payment_request := Some ''lnbc''\<rparr>;
          s2 = s1\<lparr>sg_source_melt_quote_id := Some ''lq'', sg_melt_fee_reserve_sat := Some 2\<rparr>;
          s3 = s2\<lparr>sg_wallet_fee_sat := Some 1\<rparr>;
          s4 = s3\<lparr>sg_fee_paid_sat := Some 2\<rparr>;
          s5 = s4\<lparr>sg_result := Some (transfer_result ex_payout_request ''lq'' ''mq'' 2 121 s4)\<rparr>
      in [s0, s1, s2, s3, s4, s5])"

definition ex_payout_index :: "CashuCrossMintTransferSaga \<Rightarrow> nat" where
  "ex_payout_index s = length (takeWhile (\<lambda>t. t \<noteq> s) ex_payouts)"

definition ex_payout_lib :: "string transfer_lib" where
  "ex_payout_lib =
     \<lparr>saga_to_vec = (\<lambda>s. if ex_payout_index s < length ex_payouts then Inr (replicate (ex_payout_index s) 0) else Inl ''unknown''),
      saga_from_slice = (\<lambda>b. if length b < length ex_payouts then Inr (ex_payouts ! length b) else Inl ''unknown''),
      invoice_from_str = (\<lambda>i. Inr (Some 40000)), mint_url_from_str = Inr,
      url_parse = Inr, url_scheme = (\<lambda>u. ''https''), url_query = (\<lambda>u. None), url_fragment = (\<lambda>u. None),
      url_path = (\<lambda>u. []), url_set_path = (\<lambda>p u. u), url_to_string = (\<lambda>u. u)\<rparr>"

definition ex_payout_quote :: "string \<Rightarrow> MintQuoteState \<Rightarrow> MintQuote" where
  "ex_payout_quote url state = (ex_mint_quote url state)\<lparr>mq_amount := Some 40, mq_amount_issued := 40\<rparr>"

definition ex_payout_melt :: "bool \<Rightarrow> MeltQuote" where
  "ex_payout_melt paid = (ex_melt_quote paid)\<lparr>lq_amount := 40\<rparr>"

definition ex_payout_wallet :: "string \<Rightarrow> ex_world cdk_wallet" where
  "ex_payout_wallet url = (ex_wallet url)\<lparr>
     cw_mint_quote := (\<lambda>m amount w. (Inr (ex_payout_quote url MintUnpaid), w)),
     cw_check_mint_quote_status := (\<lambda>q w. (Inr (ex_payout_quote url
        (if ew_issued w then MintIssued else if ew_paid w then MintPaid else MintUnpaid)), w)),
     cw_get_mint_quote := (\<lambda>q w. (Inr (Some (ex_payout_quote url (if ew_issued w then MintIssued else MintUnpaid))), w)),
     cw_melt_quote := (\<lambda>m i w. (Inr (ex_payout_melt (ew_paid w)), w)),
     cw_get_melt_quote := (\<lambda>q w. (Inr (Some (ex_payout_melt (ew_paid w))), w))\<rparr>"

definition ex_repository :: "ex_world wallet_repository" where
  "ex_repository =
     \<lparr>repo_has_wallet = (\<lambda>url unit w. (True, w)), repo_get_wallet = (\<lambda>url unit w. (Inr (ex_payout_wallet url), w)),
      repo_create_wallet = (\<lambda>url unit w. (Inl ''exists'', w)),
      repo_get_wallets = (\<lambda>w. ([], w)), repo_total_balance = (\<lambda>w. (Inr [], w)), repo_get_balances = (\<lambda>w. (Inr [], w))\<rparr>"

text \<open>What has happened in the example world.\<close>

definition ex_facts :: "ex_world \<Rightarrow> mint_fact set" where
  "ex_facts w = {Quoted m q ''lnbc'' 40 | m q. True} \<union> {Paid m ''lq'' 2 | m. ew_paid w}
     \<union> {Issued m ''mq'' ''lnbc'' 40 | m. ew_issued w}"

lemma ex_payout_wallet_law: "wallet_law ex_disk ex_facts (ex_payout_wallet url)"
proof -
  have "wallet_quiet ex_disk ex_facts (ex_payout_wallet url)"
    by (auto simp: wallet_quiet_def quiet_def ex_payout_wallet_def ex_wallet_def ex_disk_def ex_facts_def)
  moreover have "wallet_stores ex_disk ex_facts (ex_payout_wallet url)"
    by (auto simp: wallet_stores_def ex_payout_wallet_def ex_wallet_def ex_disk_def ex_facts_def)
  moreover have "wallet_truthful ex_facts (ex_payout_wallet url)"
    by (auto simp: wallet_truthful_def ex_payout_wallet_def ex_wallet_def ex_facts_def ex_payout_quote_def
        ex_payout_melt_def ex_mint_quote_def ex_melt_quote_def split: if_splits)
  ultimately show ?thesis by (simp add: wallet_law_def)
qed

lemma ex_repository_law: "repository_law ex_disk ex_facts ex_repository"
proof -
  have "cw_mint_url (ex_payout_wallet url) = url" for url by (simp add: ex_payout_wallet_def ex_wallet_def)
  then show ?thesis by (simp add: repository_law_def ex_repository_def quiet_def ex_payout_wallet_law)
qed

lemma ex_payout_codec: "saga_codec ex_payout_lib"
proof -
  have "ex_payouts ! ex_payout_index s = s" if "ex_payout_index s < length ex_payouts" for s
    using nth_length_takeWhile [of "\<lambda>t. t \<noteq> s" ex_payouts] that by (simp add: ex_payout_index_def)
  then show ?thesis by (auto simp: saga_codec_def ex_payout_lib_def split: if_splits)
qed

lemma ex_start_reachable: "mint_reachable ex_disk ex_facts ex_payout_lib ex_start"
proof -
  have "ex_disk ex_start = Map.empty" by (simp add: ex_disk_def ex_start_def)
  then show ?thesis unfolding mint_reachable_def by blast
qed

definition ex_execution :: "(TransferError + CashuCrossMintTransfer) \<times> ex_world" where
  "ex_execution = execute_cashu_settlement ex_payout_lib ex_repository ex_authorization ex_route 15 ex_start"

lemma ex_executed:
  "fst ex_execution = Inr (the (sg_result (ex_payouts ! 5)))"
  "pending_external_settlement_authorizations ex_pending = [ex_authorization]"
  "xa_settlement_id ex_authorization = ''x1''" "ct_fee_paid_sat (the (sg_result (ex_payouts ! 5))) = 2"
  "xa_expires_at_unix ex_authorization = 20" "ca_revision ex_pending = 8" "xa_amount_sat ex_authorization = 40"
  by code_simp+


theorem expired_settlement_never_pays_witness:
  "isl (fst (execute_cashu_settlement ex_payout_lib ex_repository ex_authorization ex_route 20 ex_start))
   \<and> ex_disk (snd (execute_cashu_settlement ex_payout_lib ex_repository ex_authorization ex_route 20 ex_start)) ''x1'' = None"
proof -
  have none: "ex_disk ex_start k = None" for k by (simp add: ex_disk_def ex_start_def)
  have "xa_expires_at_unix ex_authorization \<le> 20" by (simp add: ex_executed(5))
  from expired_settlement_never_pays [OF this ex_repository_law ex_payout_codec ex_start_reachable prod.collapse [symmetric],
      of ex_route]
  show ?thesis by (simp add: none)
qed

end
