(* ===== verification/File_System.thy ===== *)
theory File_System
  imports Rust_Prelude
begin

text \<open>
  The part of the operating system's file interface that the crate uses through \<open>std::fs\<close>, \<open>tempfile\<close>
  and \<open>fs2\<close>: files by path, with their kind, owner, permission bits and bytes. A path is the list of
  its components, with directories already resolved. Every call may also fail for reasons outside the
  model (no space, no permission, a device error): \<open>os_fault\<close> says with which error, by the name of the
  call and the path. One \<open>os\<close> is one pattern of failures of one operation: within the operation a call on
  a path fails always or never. A theorem about a history gives each operation its own \<open>os\<close>, so that a
  failure may pass between operations. Calls of one process run one after the other; what other processes
  do in between is an argument where the code has a loop against it.
\<close>

type_synonym path = "string list"

datatype io_error =
    NotFound | AlreadyExists | InvalidData | WouldBlock | LinkNotFollowed | IsADirectory | NotADirectory
  | OtherError string

datatype file_kind = RegularFile | Directory | SymbolicLink path | SpecialFile

record inode =
  in_kind :: file_kind
  in_owner :: "u32 \<times> u32"
  in_mode :: u32
  in_content :: string

type_synonym file_system = "path \<Rightarrow> inode option"

text \<open>\<open>os_create_mode\<close> are the bits of a new file, \<open>os_partial\<close> how much of a failing write arrives.\<close>

record os =
  os_fault :: "string \<Rightarrow> path \<Rightarrow> string option"
  os_owner :: "u32 \<times> u32"
  os_create_mode :: u32
  os_partial :: "path \<Rightarrow> nat"

text \<open>The files and the lock files on which some handle holds the exclusive lock.\<close>

record locked_files =
  lf_files :: file_system
  lf_held :: "path \<Rightarrow> bool"

definition syscall :: "os \<Rightarrow> string \<Rightarrow> path \<Rightarrow> io_error + unit" where
  "syscall os name path = (case os_fault os name path of None \<Rightarrow> Inr () | Some e \<Rightarrow> Inl (OtherError e))"

lemma syscall_eq [result_simps]:
  "syscall os name path = Inr u \<longleftrightarrow> os_fault os name path = None"
  "syscall os name path = Inl e \<longleftrightarrow> (\<exists>d. os_fault os name path = Some d \<and> e = OtherError d)"
  by (auto simp: syscall_def split: option.splits)

section \<open>Paths\<close>

text \<open>\<open>path.parent()\<close>, filtered to be non-empty, or the current directory.\<close>

definition parent_or_dot :: "path \<Rightarrow> path" where
  "parent_or_dot path = (if butlast path = [] then [''.''] else butlast path)"

definition join :: "path \<Rightarrow> string \<Rightarrow> path" where
  "join directory name = directory @ [name]"

text \<open>Appending to the text of a path extends its last component.\<close>

definition extend_path :: "path \<Rightarrow> string \<Rightarrow> path" where
  "extend_path path suffix = (if path = [] then [suffix] else butlast path @ [last path @ suffix])"

lemma parent_join: "directory \<noteq> [] \<Longrightarrow> parent_or_dot (join directory name) = directory"
  by (simp add: parent_or_dot_def join_def)

section \<open>Calls\<close>

definition new_inode :: "os \<Rightarrow> file_kind \<Rightarrow> u32 \<Rightarrow> string \<Rightarrow> inode" where
  "new_inode os kind mode content =
     \<lparr>in_kind = kind, in_owner = os_owner os, in_mode = mode, in_content = content\<rparr>"

text \<open>\<open>open\<close> without following a link in the last component; a directory cannot be opened for writing.\<close>

definition open_nofollow :: "os \<Rightarrow> bool \<Rightarrow> path \<Rightarrow> file_system \<Rightarrow> io_error + inode" where
  "open_nofollow os writable path fs =
     and_then (syscall os ''open'' path) (\<lambda>_.
     case fs path of
       None \<Rightarrow> Inl NotFound
     | Some i \<Rightarrow>
         (case in_kind i of
            SymbolicLink target \<Rightarrow> Inl LinkNotFollowed
          | Directory \<Rightarrow> if writable then Inl IsADirectory else Inr i
          | _ \<Rightarrow> Inr i))"

definition metadata :: "os \<Rightarrow> path \<Rightarrow> file_system \<Rightarrow> io_error + inode" where
  "metadata os path fs =
     and_then (syscall os ''stat'' path) (\<lambda>_. ok_or (fs path) NotFound)"

section \<open>UTF-8\<close>

definition continuation :: "nat \<Rightarrow> bool" where
  "continuation b \<longleftrightarrow> 0x80 \<le> b \<and> b \<le> 0xBF"

text \<open>The well-formed byte sequences of the Unicode standard, as \<open>read_to_string\<close> checks them.\<close>

fun utf8 :: "nat list \<Rightarrow> bool" where
  "utf8 [] \<longleftrightarrow> True"
| "utf8 (b # bs) \<longleftrightarrow>
     (if b \<le> 0x7F then utf8 bs
      else if 0xC2 \<le> b \<and> b \<le> 0xDF then
        (case bs of c # rest \<Rightarrow> continuation c \<and> utf8 rest | [] \<Rightarrow> False)
      else if 0xE0 \<le> b \<and> b \<le> 0xEF then
        (case bs of c # d # rest \<Rightarrow>
             continuation c \<and> continuation d \<and> (b = 0xE0 \<longrightarrow> 0xA0 \<le> c) \<and> (b = 0xED \<longrightarrow> c \<le> 0x9F) \<and> utf8 rest
         | _ \<Rightarrow> False)
      else if 0xF0 \<le> b \<and> b \<le> 0xF4 then
        (case bs of c # d # e # rest \<Rightarrow>
             continuation c \<and> continuation d \<and> continuation e \<and> (b = 0xF0 \<longrightarrow> 0x90 \<le> c) \<and> (b = 0xF4 \<longrightarrow> c \<le> 0x8F)
               \<and> utf8 rest
         | _ \<Rightarrow> False)
      else False)"

definition is_utf8 :: "string \<Rightarrow> bool" where
  "is_utf8 text \<longleftrightarrow> utf8 (map of_char text)"

text \<open>What a Rust \<open>String\<close> or \<open>&str\<close> holds can be read back; ASCII in particular.\<close>

lemma utf8_ascii: "list_all (\<lambda>b. b \<le> 0x7F) bs \<Longrightarrow> utf8 bs"
  by (induction bs) auto

section \<open>Calls that follow links\<close>

text \<open>A link is followed up to 40 times.\<close>

fun follow :: "nat \<Rightarrow> file_system \<Rightarrow> path \<Rightarrow> io_error + path" where
  "follow 0 fs path = Inl (OtherError ''too many links'')"
| "follow (Suc n) fs path =
     (case fs path of
        None \<Rightarrow> Inr path
      | Some i \<Rightarrow> (case in_kind i of SymbolicLink target \<Rightarrow> follow n fs target | _ \<Rightarrow> Inr path))"

definition stat_path :: "os \<Rightarrow> path \<Rightarrow> file_system \<Rightarrow> io_error + inode" where
  "stat_path os path fs =
     and_then (syscall os ''stat'' path) (\<lambda>_.
     and_then (follow 40 fs path) (\<lambda>p. ok_or (fs p) NotFound))"

text \<open>\<open>Path::exists\<close> is false whenever the file cannot be looked up.\<close>

definition path_exists :: "os \<Rightarrow> path \<Rightarrow> file_system \<Rightarrow> bool" where
  "path_exists os path fs \<longleftrightarrow> \<not> isl (stat_path os path fs)"

section \<open>Creating directories\<close>

definition fs_mkdir :: "os \<Rightarrow> path \<Rightarrow> file_system \<Rightarrow> (io_error + unit) \<times> file_system" where
  "fs_mkdir os path fs =
     attempt (syscall os ''mkdir'' path) fs (\<lambda>_.
     if fs path \<noteq> None then (Inl AlreadyExists, fs)
     else if butlast path \<noteq> [] \<and> fs (butlast path) = None then (Inl NotFound, fs)
     else if butlast path \<noteq> [] \<and> map_option in_kind (fs (butlast path)) \<noteq> Some Directory then (Inl NotADirectory, fs)
     else (Inr (), fs(path \<mapsto> new_inode os Directory 0x1ED [])))"

text \<open>\<open>Path::is_dir\<close> follows links, and is false whenever the path cannot be looked up.\<close>

definition is_dir :: "os \<Rightarrow> path \<Rightarrow> file_system \<Rightarrow> bool" where
  "is_dir os path fs \<longleftrightarrow> map_option in_kind (case stat_path os path fs of Inl e \<Rightarrow> None | Inr i \<Rightarrow> Some i) = Some Directory"

text \<open>A directory that exists already is accepted after looking it up.\<close>

definition accept_existing ::
    "os \<Rightarrow> path \<Rightarrow> (io_error + unit) \<times> file_system \<Rightarrow> (io_error + unit) \<times> file_system" where
  "accept_existing os path p =
     (case p of
        (Inr u, fs) \<Rightarrow> (Inr (), fs)
      | (Inl e, fs) \<Rightarrow> if e = AlreadyExists \<and> is_dir os path fs then (Inr (), fs) else (Inl e, fs))"

text \<open>\<open>create_dir_all\<close>, on the reversed path: the parents are created when \<open>mkdir\<close> misses them.\<close>

fun create_dirs :: "os \<Rightarrow> string list \<Rightarrow> file_system \<Rightarrow> (io_error + unit) \<times> file_system" where
  "create_dirs os [] fs = (Inr (), fs)"
| "create_dirs os (name # parents) fs =
     (let path = rev (name # parents);
          first = fs_mkdir os path fs in
      if fst first = Inl NotFound
      then attempt_mut (create_dirs os parents (snd first)) (\<lambda>_ fs. accept_existing os path (fs_mkdir os path fs))
      else accept_existing os path first)"

definition create_dir_all :: "os \<Rightarrow> path \<Rightarrow> file_system \<Rightarrow> (io_error + unit) \<times> file_system" where
  "create_dir_all os path fs = create_dirs os (rev path) fs"

section \<open>Files by path\<close>

definition fs_read_to_string :: "os \<Rightarrow> path \<Rightarrow> file_system \<Rightarrow> io_error + string" where
  "fs_read_to_string os path fs =
     and_then (syscall os ''open'' path) (\<lambda>_.
     and_then (follow 40 fs path) (\<lambda>p.
     and_then (ok_or (fs p) NotFound) (\<lambda>file.
     and_then (syscall os ''read'' path) (\<lambda>_.
     if in_kind file = Directory then Inl IsADirectory
     else if is_utf8 (in_content file) then Inr (in_content file) else Inl InvalidData))))"

text \<open>\<open>fs::write\<close> creates or truncates the file, then writes; a write that fails leaves a part.\<close>

definition fs_write :: "os \<Rightarrow> path \<Rightarrow> string \<Rightarrow> file_system \<Rightarrow> (io_error + unit) \<times> file_system" where
  "fs_write os path content fs =
     attempt (syscall os ''create'' path) fs (\<lambda>_.
     attempt (follow 40 fs path) fs (\<lambda>p.
     attempt (case fs p of
                None \<Rightarrow> if fs (parent_or_dot p) = None then Inl NotFound
                        else Inr (new_inode os RegularFile (os_create_mode os) [])
              | Some i \<Rightarrow> if in_kind i = Directory then Inl IsADirectory else Inr i) fs (\<lambda>file.
     case syscall os ''write'' path of
       Inl e \<Rightarrow> (Inl e, fs(p \<mapsto> file\<lparr>in_content := take (os_partial os path) content\<rparr>))
     | Inr u \<Rightarrow> (Inr (), fs(p \<mapsto> file\<lparr>in_content := content\<rparr>)))))"

definition fs_set_permissions :: "os \<Rightarrow> path \<Rightarrow> u32 \<Rightarrow> file_system \<Rightarrow> (io_error + unit) \<times> file_system" where
  "fs_set_permissions os path mode fs =
     attempt (syscall os ''chmod'' path) fs (\<lambda>_.
     attempt (follow 40 fs path) fs (\<lambda>p.
     attempt (ok_or (fs p) NotFound) fs (\<lambda>file. (Inr (), fs(p \<mapsto> file\<lparr>in_mode := mode\<rparr>)))))"

text \<open>\<open>OpenOptions::create(true).truncate(false)\<close>.\<close>

definition fs_open_or_create :: "os \<Rightarrow> path \<Rightarrow> file_system \<Rightarrow> (io_error + unit) \<times> file_system" where
  "fs_open_or_create os path fs =
     attempt (syscall os ''create'' path) fs (\<lambda>_.
     attempt (follow 40 fs path) fs (\<lambda>p.
     case fs p of
       None \<Rightarrow> if fs (parent_or_dot p) = None then (Inl NotFound, fs)
               else (Inr (), fs(p \<mapsto> new_inode os RegularFile (os_create_mode os) []))
     | Some i \<Rightarrow> if in_kind i = Directory then (Inl IsADirectory, fs) else (Inr (), fs)))"

text \<open>Renaming and removing act on a link itself.\<close>

definition fs_rename :: "os \<Rightarrow> path \<Rightarrow> path \<Rightarrow> file_system \<Rightarrow> (io_error + unit) \<times> file_system" where
  "fs_rename os source destination fs =
     attempt (syscall os ''rename'' source) fs (\<lambda>_.
     attempt (ok_or (fs source) NotFound) fs (\<lambda>file.
     if fs (parent_or_dot destination) = None then (Inl NotFound, fs)
     else if source = destination then (Inr (), fs)
     else (Inr (), fs(source := None, destination \<mapsto> file))))"

definition fs_remove_file :: "os \<Rightarrow> path \<Rightarrow> file_system \<Rightarrow> (io_error + unit) \<times> file_system" where
  "fs_remove_file os path fs =
     attempt (syscall os ''unlink'' path) fs (\<lambda>_.
     attempt (ok_or (fs path) NotFound) fs (\<lambda>file.
     if in_kind file = Directory then (Inl IsADirectory, fs) else (Inr (), fs(path := None))))"

text \<open>A directory that this process created has only the entries it put there (\<open>names\<close>).\<close>

definition fs_remove_dir :: "os \<Rightarrow> path \<Rightarrow> string list \<Rightarrow> file_system \<Rightarrow> (io_error + unit) \<times> file_system" where
  "fs_remove_dir os path names fs =
     attempt (syscall os ''rmdir'' path) fs (\<lambda>_.
     if list_all (\<lambda>name. fs (join path name) = None) names then (Inr (), fs(path := None))
     else (Inl (OtherError ''directory not empty''), fs))"

end
