(* ===== verification/Private_File.thy ===== *)
theory Private_File
  imports File_System
begin

text \<open>
  Private state files (\<open>private_file.rs\<close>, on Unix): opened without following links, only regular files,
  owned by the user and readable by the owner only, replaced as a whole. The temporary file of a write
  has a fresh name in the same directory and is removed when the call returns without renaming it, so
  it is a value here.
\<close>

section \<open>Opening\<close>

definition ensure_regular_nofollow :: "os \<Rightarrow> inode \<Rightarrow> path \<Rightarrow> io_error + unit" where
  "ensure_regular_nofollow os file path =
     and_then (syscall os ''fstat'' path) (\<lambda>_. if in_kind file \<noteq> RegularFile then Inl InvalidData else Inr ())"

definition open_regular_nofollow_with_access ::
    "os \<Rightarrow> path \<Rightarrow> bool \<Rightarrow> file_system \<Rightarrow> io_error + inode" where
  "open_regular_nofollow_with_access os path writable fs =
     and_then (open_nofollow os writable path fs) (\<lambda>file.
     and_then (ensure_regular_nofollow os file path) (\<lambda>_. Inr file))"

definition open_regular_nofollow :: "os \<Rightarrow> path \<Rightarrow> file_system \<Rightarrow> io_error + inode" where
  "open_regular_nofollow os path fs = open_regular_nofollow_with_access os path False fs"

definition open_regular_nofollow_writable :: "os \<Rightarrow> path \<Rightarrow> file_system \<Rightarrow> io_error + inode" where
  "open_regular_nofollow_writable os path fs = open_regular_nofollow_with_access os path True fs"

section \<open>Owner and permissions\<close>

definition user_owner :: "inode \<Rightarrow> (u32 \<times> u32) option" where
  "user_owner file = (if fst (in_owner file) \<noteq> 0 then Some (in_owner file) else None)"

definition non_root_owner :: "os \<Rightarrow> inode \<Rightarrow> path \<Rightarrow> io_error + (u32 \<times> u32) option" where
  "non_root_owner os file path =
     and_then (syscall os ''fstat'' path) (\<lambda>_. Inr (user_owner file))"

definition preferred_file_or_parent_owner ::
    "os \<Rightarrow> inode \<Rightarrow> path \<Rightarrow> path \<Rightarrow> file_system \<Rightarrow> io_error + (u32 \<times> u32) option" where
  "preferred_file_or_parent_owner os file path parent fs =
     and_then (non_root_owner os file path) (\<lambda>owner.
     if owner \<noteq> None then Inr owner
     else and_then (metadata os parent fs) (\<lambda>directory. Inr (user_owner directory)))"

definition preferred_open_file_owner ::
    "os \<Rightarrow> inode \<Rightarrow> path \<Rightarrow> path \<Rightarrow> path \<Rightarrow> file_system \<Rightarrow> io_error + (u32 \<times> u32) option" where
  "preferred_open_file_owner os file path owner_source parent fs =
     and_then (non_root_owner os file path) (\<lambda>owner.
     if owner \<noteq> None then Inr owner
     else
       and_then
         (case open_regular_nofollow os owner_source fs of
            Inr source \<Rightarrow> and_then (syscall os ''fstat'' owner_source) (\<lambda>_. Inr (user_owner source))
          | Inl e \<Rightarrow> if e = NotFound then Inr None else Inl e) (\<lambda>owner.
       if owner \<noteq> None then Inr owner
       else and_then (metadata os parent fs) (\<lambda>directory. Inr (user_owner directory))))"

definition preferred_non_root_owner ::
    "os \<Rightarrow> path \<Rightarrow> path \<Rightarrow> file_system \<Rightarrow> io_error + (u32 \<times> u32) option" where
  "preferred_non_root_owner os path parent fs =
     and_then
       (case open_regular_nofollow os path fs of
          Inr file \<Rightarrow> and_then (syscall os ''fstat'' path) (\<lambda>_. Inr (user_owner file))
        | Inl e \<Rightarrow> if e = NotFound then Inr None else Inl e) (\<lambda>existing.
     if existing \<noteq> None then Inr existing
     else and_then (metadata os parent fs) (\<lambda>directory. Inr (user_owner directory)))"

text \<open>The file with its new owner and mode; the result so far is kept when a later call fails.\<close>

definition secure_unix_file ::
    "os \<Rightarrow> path \<Rightarrow> inode \<Rightarrow> (u32 \<times> u32) option \<Rightarrow> (io_error + unit) \<times> inode" where
  "secure_unix_file os path file owner =
     attempt_mut
       (case owner of
          None \<Rightarrow> (Inr (), file)
        | Some o' \<Rightarrow>
            attempt (syscall os ''fstat'' path) file (\<lambda>_.
            if in_owner file \<noteq> o'
            then attempt (syscall os ''fchown'' path) file (\<lambda>_. (Inr (), file\<lparr>in_owner := o'\<rparr>))
            else (Inr (), file))) (\<lambda>_ file.
     attempt (syscall os ''fchmod'' path) file (\<lambda>_. (Inr (), file\<lparr>in_mode := 0x180\<rparr>)))"

section \<open>Reading\<close>

definition read_private_regular_to_string ::
    "os \<Rightarrow> path \<Rightarrow> file_system \<Rightarrow> (io_error + string) \<times> file_system" where
  "read_private_regular_to_string os path fs =
     attempt (open_regular_nofollow os path fs) fs (\<lambda>file.
     attempt (preferred_file_or_parent_owner os file path (parent_or_dot path) fs) fs (\<lambda>owner.
     let (secured, file) = secure_unix_file os path file owner;
         fs = fs(path \<mapsto> file) in
     attempt secured fs (\<lambda>_.
     attempt (syscall os ''read'' path) fs (\<lambda>_.
     if is_utf8 (in_content file) then (Inr (in_content file), fs) else (Inl InvalidData, fs)))))"

section \<open>Writing\<close>

definition persist_file :: "os \<Rightarrow> path \<Rightarrow> inode \<Rightarrow> file_system \<Rightarrow> (io_error + bool) \<times> file_system" where
  "persist_file os path temporary fs =
     attempt (syscall os ''rename'' path) fs (\<lambda>_. (Inr True, fs(path \<mapsto> temporary)))"

definition persist_noclobber :: "os \<Rightarrow> path \<Rightarrow> inode \<Rightarrow> file_system \<Rightarrow> (io_error + bool) \<times> file_system" where
  "persist_noclobber os path temporary fs =
     attempt (case syscall os ''link'' path of
                Inr u \<Rightarrow> if fs path \<noteq> None then Inl AlreadyExists else Inr ()
              | Inl e \<Rightarrow> Inl e) fs (\<lambda>_. (Inr True, fs(path \<mapsto> temporary)))"

definition persist_temporary ::
    "os \<Rightarrow> path \<Rightarrow> path \<Rightarrow> inode \<Rightarrow> bool \<Rightarrow> file_system \<Rightarrow> (io_error + bool) \<times> file_system" where
  "persist_temporary os path parent temporary replace fs =
     attempt_mut
       (if replace then persist_file os path temporary fs
        else case persist_noclobber os path temporary fs of
               (Inl e, fs) \<Rightarrow> if e = AlreadyExists then (Inr False, fs) else (Inl e, fs)
             | (Inr persisted, fs) \<Rightarrow> (Inr persisted, fs)) (\<lambda>persisted fs.
     if persisted
     then attempt (syscall os ''fsync'' parent) fs (\<lambda>_. (Inr persisted, fs))
     else (Inr persisted, fs))"

definition write_atomic_private_inner ::
    "os \<Rightarrow> path \<Rightarrow> string \<Rightarrow> bool \<Rightarrow> file_system \<Rightarrow> (io_error + bool) \<times> file_system" where
  "write_atomic_private_inner os path content replace fs =
     (let parent = parent_or_dot path in
      attempt_mut (create_dir_all os parent fs) (\<lambda>_ fs.
      attempt (preferred_non_root_owner os path parent fs) fs (\<lambda>owner.
      attempt (syscall os ''tempfile'' parent) fs (\<lambda>_.
      attempt (syscall os ''write'' parent) fs (\<lambda>_.
      let temporary = new_inode os RegularFile 0x180 content;
          (secured, temporary) = secure_unix_file os parent temporary owner in
      attempt secured fs (\<lambda>_.
      attempt (syscall os ''fsync'' path) fs (\<lambda>_.
      persist_temporary os path parent temporary replace fs)))))))"

definition write_atomic_private :: "os \<Rightarrow> path \<Rightarrow> string \<Rightarrow> file_system \<Rightarrow> (io_error + unit) \<times> file_system" where
  "write_atomic_private os path content fs =
     attempt_mut (write_atomic_private_inner os path content True fs) (\<lambda>_ fs. (Inr (), fs))"

definition create_atomic_private :: "os \<Rightarrow> path \<Rightarrow> string \<Rightarrow> file_system \<Rightarrow> (io_error + bool) \<times> file_system" where
  "create_atomic_private os path content fs = write_atomic_private_inner os path content False fs"

text \<open>The loop of the lock file, against what other processes do to the files before each round
  (\<open>others\<close>); \<open>None\<close> when it has not returned after \<open>fuel\<close> rounds.\<close>

fun open_private_lock_loop ::
    "os \<Rightarrow> path \<Rightarrow> path \<Rightarrow> (nat \<Rightarrow> file_system \<Rightarrow> file_system) \<Rightarrow> nat \<Rightarrow> nat \<Rightarrow> file_system
       \<Rightarrow> ((io_error + unit) \<times> file_system) option" where
  "open_private_lock_loop os path owner_source others i 0 fs = None"
| "open_private_lock_loop os path owner_source others i (Suc fuel) fs =
     (let fs = others i fs in
      case open_regular_nofollow_writable os path fs of
        Inr file \<Rightarrow>
          Some (attempt (preferred_open_file_owner os file path owner_source (parent_or_dot path) fs) fs (\<lambda>owner.
                let (secured, file) = secure_unix_file os path file owner;
                    fs = fs(path \<mapsto> file) in
                attempt secured fs (\<lambda>_. (Inr (), fs))))
      | Inl e \<Rightarrow>
          if e = NotFound
          then (case create_atomic_private os path [] fs of
                  (Inl e, fs) \<Rightarrow> Some (Inl e, fs)
                | (Inr created, fs) \<Rightarrow> open_private_lock_loop os path owner_source others (Suc i) fuel fs)
          else Some (Inl e, fs))"

definition open_private_lock_file ::
    "os \<Rightarrow> path \<Rightarrow> path \<Rightarrow> (nat \<Rightarrow> file_system \<Rightarrow> file_system) \<Rightarrow> nat \<Rightarrow> file_system
       \<Rightarrow> ((io_error + unit) \<times> file_system) option" where
  "open_private_lock_file os path owner_source others fuel fs =
     (case create_dir_all os (parent_or_dot path) fs of
        (Inl e, fs) \<Rightarrow> Some (Inl e, fs)
      | (Inr u, fs) \<Rightarrow> open_private_lock_loop os path owner_source others 0 fuel fs)"

end
