(* ===== verification/Private_File_Properties.thy ===== *)
theory Private_File_Properties
  imports Private_File
begin

text \<open>
  What private files promise: a write leaves the old file or the complete new one whatever fails,
  creates nothing else but missing directories, refuses links and anything that is not a regular file,
  and leaves a file only its owner can use; what was written is what is read.
\<close>

section \<open>Directories\<close>

text \<open>The files that were there are unchanged; what is new is a directory.\<close>

definition only_directories_added :: "file_system \<Rightarrow> file_system \<Rightarrow> bool" where
  "only_directories_added fs fs' \<longleftrightarrow>
     (\<forall>p. fs' p = fs p \<or> fs p = None \<and> (\<exists>i. fs' p = Some i \<and> in_kind i = Directory))"

lemma added_refl [simp]: "only_directories_added fs fs"
  by (simp add: only_directories_added_def)

lemma added_trans: "only_directories_added fs t \<Longrightarrow> only_directories_added t u \<Longrightarrow> only_directories_added fs u"
  unfolding only_directories_added_def by (metis (no_types, lifting) option.distinct(1))

lemma mkdir_effect:
  assumes "fs_mkdir os path fs = (r, fs')"
  shows "only_directories_added fs fs'" "p \<noteq> path \<Longrightarrow> fs' p = fs p" "r = Inr u \<Longrightarrow> fs' path \<noteq> None"
  using assms
  by (auto simp: fs_mkdir_def syscall_def only_directories_added_def new_inode_def split: option.splits if_splits)

lemma accept_existing_eq:
  "accept_existing os path (r, fs) = (r', fs') \<longleftrightarrow>
     fs' = fs \<and> (r' = r \<or> r = Inl AlreadyExists \<and> is_dir os path fs \<and> r' = Inr ())
     \<and> \<not> (r' = Inl AlreadyExists \<and> is_dir os path fs)"
  by (cases r) (auto simp: accept_existing_def)

lemma is_dir_present: "is_dir os path fs \<Longrightarrow> fs path \<noteq> None"
proof (rule ccontr)
  assume "is_dir os path fs" "\<not> fs path \<noteq> None"
  then show False by (cases "os_fault os ''stat'' path") (auto simp: is_dir_def stat_path_def syscall_def numeral_eq_Suc)
qed

lemma made_effect:
  assumes "accept_existing os path (fs_mkdir os path fs) = (r, fs')"
  shows "only_directories_added fs fs'" "p \<noteq> path \<Longrightarrow> fs' p = fs p" "r = Inr u \<Longrightarrow> fs' path \<noteq> None"
proof -
  obtain r1 fs1 where m: "fs_mkdir os path fs = (r1, fs1)" by fastforce
  note e = assms [unfolded m accept_existing_eq]
  show "only_directories_added fs fs'" "p \<noteq> path \<Longrightarrow> fs' p = fs p" using mkdir_effect(1,2) [OF m] e by simp_all
  show "r = Inr u \<Longrightarrow> fs' path \<noteq> None" using mkdir_effect(3) [OF m] e is_dir_present by (cases r1) auto
qed

lemma create_dirs_effect:
  assumes "create_dirs os names fs = (r, fs')"
  shows "only_directories_added fs fs' \<and> ((\<forall>n. p \<noteq> take n (rev names)) \<longrightarrow> fs' p = fs p)
    \<and> (names \<noteq> [] \<longrightarrow> r = Inr () \<longrightarrow> fs' (rev names) \<noteq> None)"
  using assms
proof (induction names arbitrary: fs r fs')
  case (Cons name parents)
  let ?path = "rev (name # parents)"
  obtain r1 fs1 where m: "fs_mkdir os ?path fs = (r1, fs1)" by fastforce
  have whole: "p \<noteq> ?path" and part: "\<forall>n. p \<noteq> take n (rev parents)" if "\<forall>n. p \<noteq> take n ?path"
    using that by (metis order_refl take_all) (use that in \<open>auto simp: take_append; metis append_Nil2 diff_is_0_eq length_rev linorder_linear take0 take_all\<close>)
  show ?case
  proof (cases "r1 = Inl NotFound")
    case False
    then have "accept_existing os ?path (fs_mkdir os ?path fs) = (r, fs')" using Cons.prems m by simp
    from made_effect [OF this] show ?thesis using whole by auto
  next
    case True
    obtain r2 fs2 where 2: "create_dirs os parents fs1 = (r2, fs2)" by fastforce
    note IH = Cons.IH [OF 2]
    show ?thesis
    proof (cases r2)
      case (Inl e)
      then have "r = r2" "fs' = fs2" using Cons.prems m True 2 by auto
      then show ?thesis using IH mkdir_effect(1,2) [OF m] whole part Inl by (auto intro: added_trans)
    next
      case (Inr u)
      then have "accept_existing os ?path (fs_mkdir os ?path fs2) = (r, fs')" using Cons.prems m True 2 by (simp add: Let_def)
      from made_effect [OF this] show ?thesis
        using IH mkdir_effect(1,2) [OF m] whole part by (auto intro: added_trans)
    qed
  qed
qed simp

lemma create_dir_all_effect:
  assumes "create_dir_all os path fs = (r, fs')"
  shows "only_directories_added fs fs'" "\<forall>n. p \<noteq> take n path \<Longrightarrow> fs' p = fs p"
  using create_dirs_effect [OF assms [unfolded create_dir_all_def]] by simp_all

lemma create_dir_all_creates:
  assumes "create_dir_all os path fs = (Inr (), fs')" "path \<noteq> []"
  shows "fs' path \<noteq> None"
  using create_dirs_effect [OF assms(1) [unfolded create_dir_all_def]] assms(2) by simp

text \<open>A directory that can be looked up is accepted as it is.\<close>

lemma create_dir_all_present:
  assumes "fs path = Some i" "in_kind i = Directory" "os_fault os ''mkdir'' path = None" "os_fault os ''stat'' path = None"
  shows "create_dir_all os path fs = (Inr (), fs)"
proof (cases "rev path")
  case (Cons name parents)
  then have "path = rev (name # parents)" by (metis rev_rev_ident)
  then show ?thesis
    using assms by (simp add: create_dir_all_def Cons fs_mkdir_def syscall_def accept_existing_def is_dir_def
        stat_path_def numeral_eq_Suc ok_or_def)
qed (simp add: create_dir_all_def)

text \<open>A path that names a file in its directory.\<close>

definition names_file :: "path \<Rightarrow> bool" where
  "names_file path \<longleftrightarrow> path \<noteq> [] \<and> path \<noteq> [''.'']"

lemma not_in_parent: "names_file path \<Longrightarrow> path \<noteq> take n (parent_or_dot path)"
proof
  assume p: "names_file path" and eq: "path = take n (parent_or_dot path)"
  have "length path \<le> length (parent_or_dot path)" by (subst eq) simp
  then show False
    using p eq by (cases n; cases path; auto simp: parent_or_dot_def names_file_def split: if_splits)
qed

lemma parent_created: "create_dir_all os (parent_or_dot path) fs = (r, fs') \<Longrightarrow> names_file path \<Longrightarrow> fs' path = fs path"
  by (rule create_dir_all_effect(2)) (auto simp: not_in_parent)

section \<open>Writing\<close>

text \<open>A complete private file.\<close>

definition private_file :: "string \<Rightarrow> inode option \<Rightarrow> bool" where
  "private_file content file \<longleftrightarrow>
     (\<exists>i. file = Some i \<and> in_kind i = RegularFile \<and> in_mode i = 0x180 \<and> in_content i = content)"

lemma secure_unix_file_keeps:
  assumes "secure_unix_file os path file owner = (r, file')"
  shows "in_kind file' = in_kind file" "in_content file' = in_content file" "r = Inr () \<Longrightarrow> in_mode file' = 0x180"
    "in_mode file' = in_mode file \<or> in_mode file' = 0x180"
  using assms
  by (auto simp: secure_unix_file_def attempt_def attempt_mut_def split: option.splits sum.splits if_splits prod.splits)

text \<open>The file at the path is missing or regular, as every write requires.\<close>

definition replaceable :: "inode option \<Rightarrow> bool" where
  "replaceable file \<longleftrightarrow> (case file of None \<Rightarrow> True | Some i \<Rightarrow> in_kind i = RegularFile)"

lemma preferred_owner_Inr:
  assumes "preferred_non_root_owner os path parent fs = Inr owner"
  shows "replaceable (fs path)"
  using assms
  by (auto simp: preferred_non_root_owner_def open_regular_nofollow_def open_regular_nofollow_with_access_def
      open_nofollow_def ensure_regular_nofollow_def replaceable_def and_then_def syscall_def
      split: option.splits sum.splits file_kind.splits if_splits)

text \<open>The path was left alone, or the whole new file is there.\<close>

definition left_alone :: "path \<Rightarrow> file_system \<Rightarrow> file_system \<Rightarrow> bool" where
  "left_alone path fs fs' \<longleftrightarrow> fs' path = fs path \<and> only_directories_added fs fs'"

definition written :: "path \<Rightarrow> string \<Rightarrow> file_system \<Rightarrow> file_system \<Rightarrow> bool" where
  "written path content fs fs' \<longleftrightarrow>
     left_alone path fs (fs'(path := fs path)) \<and> private_file content (fs' path) \<and> replaceable (fs path)"

lemma persist_outcome:
  fixes os :: os
  assumes "left_alone path fs fs1" "written path content fs (fs1(path \<mapsto> temporary))"
  shows "outcome (persist_temporary os path parent temporary replace fs1)
    (\<lambda>fs'. left_alone path fs fs' \<or> written path content fs fs' \<and> (replace \<or> fs path = None))
    (\<lambda>persisted fs'. if persisted then written path content fs fs' \<and> (replace \<or> fs path = None)
       else left_alone path fs fs' \<and> \<not> replace \<and> fs path \<noteq> None)"
proof -
  have "fs1 path = fs path" using assms(1) by (simp add: left_alone_def)
  then show ?thesis
    using assms
    by (cases replace; cases "syscall os ''rename'' path"; cases "syscall os ''link'' path"; cases "fs path")
      (auto simp: persist_temporary_def persist_file_def persist_noclobber_def outcome_simps syscall_eq
        split: sum.splits)
qed

lemma write_inner_outcome:
  assumes "names_file path"
  shows "outcome (write_atomic_private_inner os path content replace fs)
    (\<lambda>fs'. left_alone path fs fs' \<or> written path content fs fs' \<and> (replace \<or> fs path = None))
    (\<lambda>persisted fs'. if persisted then written path content fs fs' \<and> (replace \<or> fs path = None)
       else left_alone path fs fs' \<and> \<not> replace \<and> fs path \<noteq> None)"
proof -
  obtain r fs1 where d: "create_dir_all os (parent_or_dot path) fs = (r, fs1)" by fastforce
  have alone: "left_alone path fs fs1" and same: "fs1 path = fs path"
    using create_dir_all_effect(1) [OF d] parent_created [OF d assms] by (simp_all add: left_alone_def)
  have complete: "written path content fs (fs1(path \<mapsto> temporary))"
    if "preferred_non_root_owner os path (parent_or_dot path) fs1 = Inr owner"
      "secure_unix_file os (parent_or_dot path) (new_inode os RegularFile 0x180 content) owner = (Inr (), temporary)"
    for owner temporary
    using secure_unix_file_keeps [OF that(2)] preferred_owner_Inr [OF that(1)] alone same
    by (simp add: written_def private_file_def new_inode_def) (metis fun_upd_triv)
  show ?thesis
    unfolding write_atomic_private_inner_def d Let_def
    by (cases r)
      (auto simp: outcome_simps alone split: sum.splits prod.splits 
        intro!: outcome_mono [OF persist_outcome [OF alone complete]])
qed

lemma write_outcome:
  assumes "names_file path"
  shows "outcome (write_atomic_private os path content fs)
    (\<lambda>fs'. left_alone path fs fs' \<or> written path content fs fs') (\<lambda>_ fs'. written path content fs fs')"
  unfolding write_atomic_private_def outcome_attempt_mut
  by (rule outcome_mono [OF write_inner_outcome [OF assms]]) (auto split: if_splits)

lemma create_outcome:
  assumes "names_file path"
  shows "outcome (create_atomic_private os path content fs)
    (\<lambda>fs'. left_alone path fs fs' \<or> written path content fs fs' \<and> fs path = None)
    (\<lambda>created fs'. if created then written path content fs fs' \<and> fs path = None
       else left_alone path fs fs' \<and> fs path \<noteq> None)"
  unfolding create_atomic_private_def
  by (rule outcome_mono [OF write_inner_outcome [OF assms]]) (auto split: if_splits)

section \<open>Reading\<close>

text \<open>Reading may correct owner and mode of the file, and changes nothing else.\<close>

definition secured :: "path \<Rightarrow> file_system \<Rightarrow> file_system \<Rightarrow> bool" where
  "secured path fs fs' \<longleftrightarrow> fs' = fs \<or> (\<exists>i i'. fs path = Some i \<and> fs' = fs(path \<mapsto> i')
     \<and> in_kind i' = in_kind i \<and> in_content i' = in_content i)"

lemma open_regular_Inr:
  assumes "open_regular_nofollow_with_access os path writable fs = Inr file"
  shows "fs path = Some file" "in_kind file = RegularFile"
  using assms
  by (auto simp: open_regular_nofollow_with_access_def open_nofollow_def ensure_regular_nofollow_def result_simps
      split: option.splits file_kind.splits if_splits)

lemma open_regular_NotFound:
  "open_regular_nofollow_with_access os path writable fs = Inl NotFound \<longleftrightarrow>
     os_fault os ''open'' path = None \<and> fs path = None"
  by (auto simp: open_regular_nofollow_with_access_def open_nofollow_def ensure_regular_nofollow_def result_simps
      split: option.splits file_kind.splits if_splits)

lemma secured_content: "secured path fs fs' \<Longrightarrow> map_option in_content (fs' path) = map_option in_content (fs path)"
  by (auto simp: secured_def)

lemma read_outcome:
  "outcome (read_private_regular_to_string os path fs) (\<lambda>fs'. secured path fs fs')
     (\<lambda>content fs'. secured path fs fs' \<and> (\<exists>i. fs path = Some i \<and> in_kind i = RegularFile \<and> in_content i = content)
        \<and> private_file content (fs' path) \<and> is_utf8 content)"
proof (cases "open_regular_nofollow os path fs")
  case (Inl e)
  then show ?thesis by (simp add: read_private_regular_to_string_def secured_def)
next
  case (Inr i)
  note i = open_regular_Inr [OF Inr [unfolded open_regular_nofollow_def]]
  have s: "secured path fs (fs(path \<mapsto> j)) \<and> in_content j = in_content i \<and> in_kind j = RegularFile
      \<and> (r = Inr () \<longrightarrow> in_mode j = 0x180)"
    if "secure_unix_file os path i owner = (r, j)" for owner r j
    using i secure_unix_file_keeps [OF that] by (auto simp: secured_def)
  show ?thesis
    unfolding read_private_regular_to_string_def Inr
    by (auto simp: outcome_simps Let_def private_file_def secured_def [of path fs fs] i
        split: sum.splits prod.splits dest!: s)
qed

text \<open>A file and its directory, without failures of the system, can be read.\<close>

definition faultless :: "os \<Rightarrow> bool" where
  "faultless os \<longleftrightarrow> (\<forall>name path. os_fault os name path = None)"

lemma faultless_syscall: "faultless os \<Longrightarrow> syscall os name path = Inr ()"
  by (simp add: faultless_def syscall_def)

lemma secure_succeeds: "faultless os \<Longrightarrow> \<exists>j. secure_unix_file os path i owner = (Inr (), j)"
  by (cases owner) (simp_all add: secure_unix_file_def faultless_syscall if_distrib [of "\<lambda>p. attempt_mut p _"])

text \<open>A regular file with text, in its directory; and that a file is in a directory.\<close>

definition readable :: "path \<Rightarrow> string \<Rightarrow> file_system \<Rightarrow> bool" where
  "readable path content fs \<longleftrightarrow>
     (\<exists>i. fs path = Some i \<and> in_kind i = RegularFile \<and> in_content i = content)
     \<and> fs (parent_or_dot path) \<noteq> None \<and> is_utf8 content"

definition placed :: "path \<Rightarrow> file_system \<Rightarrow> bool" where
  "placed path fs \<longleftrightarrow> fs path = None \<or> fs (parent_or_dot path) \<noteq> None"

lemma read_succeeds:
  assumes "faultless os" "readable path content fs"
  shows "\<exists>fs'. read_private_regular_to_string os path fs = (Inr content, fs')"
proof -
  obtain i where i: "fs path = Some i" "in_kind i = RegularFile" "in_content i = content"
      "fs (parent_or_dot path) \<noteq> None"
    using assms(2) by (auto simp: readable_def)
  have "open_regular_nofollow os path fs = Inr i"
    using i by (simp add: open_regular_nofollow_def open_regular_nofollow_with_access_def open_nofollow_def
        ensure_regular_nofollow_def faultless_syscall [OF assms(1)])
  moreover obtain owner where "preferred_file_or_parent_owner os i path (parent_or_dot path) fs = Inr owner"
    using i(4) by (cases "user_owner i = None")
      (auto simp: preferred_file_or_parent_owner_def non_root_owner_def metadata_def faultless_syscall [OF assms(1)])
  moreover obtain j where "secure_unix_file os path i owner = (Inr (), j)"
    using secure_succeeds [OF assms(1)] by blast
  moreover from secure_unix_file_keeps(2) [OF this] have "in_content j = content" using i(3) by simp
  ultimately show ?thesis
    using assms(2) by (simp add: read_private_regular_to_string_def readable_def faultless_syscall [OF assms(1)])
qed

lemma read_missing:
  "faultless os \<Longrightarrow> fs path = None \<Longrightarrow> read_private_regular_to_string os path fs = (Inl NotFound, fs)"
  by (simp add: read_private_regular_to_string_def open_regular_nofollow_def open_regular_nofollow_with_access_def
      open_nofollow_def faultless_syscall)

lemma secure_not_NotFound: "fst (secure_unix_file os path i owner) \<noteq> Inl NotFound"
  by (cases owner; cases "os_fault os ''fstat'' path"; cases "os_fault os ''fchown'' path"; cases "os_fault os ''fchmod'' path")
    (auto simp: secure_unix_file_def syscall_def)

lemma read_NotFound:
  assumes "read_private_regular_to_string os path fs = (Inl NotFound, fs')" "placed path fs"
  shows "fs' = fs \<and> fs path = None"
proof (cases "open_regular_nofollow os path fs")
  case (Inl e)
  then show ?thesis
    using assms(1) open_regular_NotFound [of os path False fs]
    by (simp add: read_private_regular_to_string_def open_regular_nofollow_def)
next
  case (Inr i)
  then have "fs (parent_or_dot path) \<noteq> None"
    using assms(2) open_regular_Inr [of os path False fs i] by (simp add: placed_def open_regular_nofollow_def)
  then have p: "preferred_file_or_parent_owner os i path (parent_or_dot path) fs \<noteq> Inl NotFound"
    by (auto simp: preferred_file_or_parent_owner_def non_root_owner_def metadata_def result_simps)
  show ?thesis
  proof (cases "preferred_file_or_parent_owner os i path (parent_or_dot path) fs")
    case (Inr owner)
    obtain r j where s: "secure_unix_file os path i owner = (r, j)" by fastforce
    then show ?thesis
      using assms(1) \<open>open_regular_nofollow os path fs = Inr i\<close> Inr secure_not_NotFound [of os path i owner]
      by (cases r; cases "os_fault os ''read'' path")
        (auto simp: read_private_regular_to_string_def syscall_def Let_def split: if_splits)
  qed (use assms(1) Inr p in \<open>simp add: read_private_regular_to_string_def\<close>)
qed

text \<open>What was read once can be read again.\<close>

lemma read_then_readable:
  assumes "names_file path" "placed path fs"
    "read_private_regular_to_string os path fs = (Inr content, fs')"
  shows "readable path content fs'"
proof -
  have "path \<noteq> parent_or_dot path" using not_in_parent [OF assms(1), of "length (parent_or_dot path)"] by simp
  then show ?thesis
    using outcomeD(2) [OF read_outcome assms(3)] assms(2)
    by (auto simp: readable_def placed_def private_file_def secured_def)
qed

lemma left_alone_readable:
  "left_alone path fs fs' \<Longrightarrow> readable path content fs \<Longrightarrow> readable path content fs'"
  by (simp add: left_alone_def readable_def only_directories_added_def) (metis option.distinct(1))

lemma outcome_conj:
  "outcome p E P \<Longrightarrow> outcome p E' P' \<Longrightarrow> outcome p (\<lambda>w. E w \<and> E' w) (\<lambda>x w. P x w \<and> P' x w)"
  by (auto simp: outcome_def split: sum.splits)

lemma write_parent:
  assumes "names_file path"
  shows "outcome (write_atomic_private_inner os path content replace fs)
    (\<lambda>fs'. fs' path = fs path \<or> fs' (parent_or_dot path) \<noteq> None) (\<lambda>_ fs'. fs' (parent_or_dot path) \<noteq> None)"
proof -
  obtain r fs1 where d: "create_dir_all os (parent_or_dot path) fs = (r, fs1)" by fastforce
  have same: "fs1 path = fs path" using parent_created [OF d assms] .
  have parent: "fs1 (parent_or_dot path) \<noteq> None" if "r = Inr ()"
    using create_dir_all_creates [of os "parent_or_dot path" fs fs1] d that by (auto simp: parent_or_dot_def)
  show ?thesis
    using parent
    by (cases r; cases replace)
      (auto simp: write_atomic_private_inner_def d Let_def outcome_simps same persist_temporary_def
        persist_file_def persist_noclobber_def split: sum.splits prod.splits)
qed

lemma written_readable:
  "written path content fs fs' \<Longrightarrow> fs' (parent_or_dot path) \<noteq> None \<Longrightarrow> is_utf8 content \<Longrightarrow> readable path content fs'"
  by (auto simp: written_def private_file_def readable_def)

text \<open>A write leaves what could be read, or the new content can be read.\<close>

lemma write_readable:
  assumes "names_file path" "is_utf8 content"
  shows "outcome (write_atomic_private_inner os path content replace fs)
    (\<lambda>fs'. left_alone path fs fs' \<or> readable path content fs' \<and> (replace \<or> fs path = None))
    (\<lambda>persisted fs'. if persisted then readable path content fs' \<and> (replace \<or> fs path = None)
       else left_alone path fs fs' \<and> fs path \<noteq> None)"
proof (rule outcome_mono [OF outcome_conj [OF write_inner_outcome write_parent]])
  show "names_file path" "names_file path" by (fact assms)+
  fix fs' assume w: "(left_alone path fs fs' \<or> written path content fs fs' \<and> (replace \<or> fs path = None))
    \<and> (fs' path = fs path \<or> fs' (parent_or_dot path) \<noteq> None)"
  have "left_alone path fs fs'" if "written path content fs fs'" "fs' path = fs path"
    using that by (simp add: written_def fun_upd_idem)
  then show "left_alone path fs fs' \<or> readable path content fs' \<and> (replace \<or> fs path = None)"
    using w by (elim conjE disjE) (simp_all add: written_readable assms(2))
qed (auto intro: written_readable [OF _ _ assms(2)] split: if_splits)

text \<open>C28. Writing a private file is all or nothing and touches nothing else. Whichever step fails, the
  path holds its old file or the complete new one, every other existing path is unchanged and only
  missing directories appear; a link, a directory or a device at the path is refused and left alone.
  After success the file is regular, readable and writable by its owner only, and reading it returns
  what was written.\<close>

theorem private_write_atomic:
  assumes "names_file path" "write_atomic_private os path content fs = (r, fs')"
  shows "(fs' path = fs path \<or> private_file content (fs' path))
    \<and> (\<forall>p. p = path \<or> fs' p = fs p \<or> fs p = None \<and> (\<exists>i. fs' p = Some i \<and> in_kind i = Directory))
    \<and> (isl r \<or> private_file content (fs' path))
    \<and> (replaceable (fs path) \<or> isl r \<and> fs' path = fs path)
    \<and> (isl r \<or> \<not> is_utf8 content \<or> \<not> faultless os'
       \<or> (\<exists>fs''. read_private_regular_to_string os' path fs' = (Inr content, fs'')))"
proof -
  have o: "left_alone path fs fs' \<or> written path content fs fs'" "isl r \<or> written path content fs fs'"
    using outcomeD [OF write_outcome [OF assms(1), of os content fs]] assms(2) by (cases r; auto)+
  have r: "\<exists>fs''. read_private_regular_to_string os' path fs' = (Inr content, fs'')"
    if "\<not> isl r" "is_utf8 content" "faultless os'"
  proof -
    have "outcome (write_atomic_private os path content fs) (\<lambda>_. True) (\<lambda>_. readable path content)"
      unfolding write_atomic_private_def outcome_attempt_mut
      by (rule outcome_mono [OF outcome_conj [OF write_inner_outcome [OF assms(1)] write_readable [OF assms(1) that(2)]]])
        (auto split: if_splits)
    from outcomeD(2) [OF this] have "readable path content fs'" using assms(2) that(1) by (cases r) auto
    then show ?thesis by (rule read_succeeds [OF that(3)])
  qed
  have f: "\<forall>p. p = path \<or> fs' p = fs p \<or> fs p = None \<and> (\<exists>i. fs' p = Some i \<and> in_kind i = Directory)"
    using o(1) by (auto simp: written_def left_alone_def only_directories_added_def split: if_splits)
  show ?thesis using o r f by (auto simp: written_def left_alone_def)
qed

theorem private_write_atomic_witness:
  "\<exists>fs. write_atomic_private \<lparr>os_fault = (\<lambda>name path. None), os_owner = (1000, 1000), os_create_mode = 0x1A4, os_partial = (\<lambda>path. 0)\<rparr> [''data'', ''s.json''] ''{}'' Map.empty
      = (Inr (), fs) \<and> private_file ''{}'' (fs [''data'', ''s.json''])"
proof -
  let ?os = "\<lparr>os_fault = (\<lambda>name path. None), os_owner = (1000, 1000), os_create_mode = 0x1A4, os_partial = (\<lambda>path. 0)\<rparr>"
  define p where "p = write_atomic_private ?os [''data'', ''s.json''] ''{}'' Map.empty"
  have "isl (fst p) = False" unfolding p_def by code_simp
  moreover have "names_file [''data'', ''s.json'']" by code_simp
  moreover have "fst p = Inr ()" using \<open>isl (fst p) = False\<close> by (cases "fst p") auto
  ultimately show ?thesis
    using private_write_atomic [of "[''data'', ''s.json'']" ?os "''{}''" Map.empty "fst p" "snd p"]
    unfolding p_def [symmetric] by (auto simp: p_def prod_eq_iff)
qed

section \<open>The lock file\<close>

text \<open>Opening the lock file returns within two rounds when other processes do not remove it.\<close>

lemma open_lock_terminates:
  assumes "names_file path" "\<And>i fs. fs path \<noteq> None \<Longrightarrow> others i fs path \<noteq> None"
  shows "\<exists>result. open_private_lock_file os path owner_source others (Suc (Suc 0)) fs = Some result"
proof -
  have found: "\<exists>result. open_private_lock_loop os path owner_source others i (Suc n) fs = Some result"
    if "fs path \<noteq> None" for i n fs
    using open_regular_NotFound [of os path True "others i fs"] assms(2) [of fs i] that
    by (auto simp: Let_def open_regular_nofollow_writable_def split: sum.splits prod.splits)
  have "\<exists>result. open_private_lock_loop os path owner_source others 0 (Suc (Suc 0)) fs = Some result" for fs
  proof (cases "open_regular_nofollow_writable os path (others 0 fs)")
    case (Inl e)
    show ?thesis
    proof (cases "e = NotFound")
      case True
      obtain r fs1 where c: "create_atomic_private os path [] (others 0 fs) = (r, fs1)" by fastforce
      have "fs1 path \<noteq> None" if "r = Inr b" for b
        using outcomeD(2) [OF create_outcome [OF assms(1)]] c that
        by (fastforce simp: written_def private_file_def left_alone_def split: if_splits)
      then show ?thesis
        using Inl True c found [of fs1 "Suc 0" 0] by (cases r) (auto simp: Let_def)
    qed (use Inl in \<open>simp add: Let_def\<close>)
  qed (simp add: Let_def)
  then show ?thesis by (auto simp: open_private_lock_file_def split: sum.splits prod.splits)
qed

end
