(* ===== verification/Spilman_Client.thy ===== *)
theory Spilman_Client
  imports Private_File Streaming_Route
begin

text \<open>
  The buyer's side of Spilman channels (\<open>spilman_client.rs\<close>): the lock and the JSON file of the channel
  store, the sender key, the choice of a keyset and opening a channel from a token. The channel values
  (\<open>'f\<close> funding, \<open>'p\<close> payment state), the JSON codec, key derivation, randomness and the channel bridge
  are code of other crates and are parameters. The bridge works on the storage it is given, so its calls
  take and return the storage and the files. A message built with \<open>format!\<close> is a constructor with the
  values it prints. A loop has fuel: \<open>None\<close> is a call that has not returned after so many rounds.
\<close>

section \<open>Paths\<close>

definition spilman_client_store_path :: "path \<Rightarrow> path" where
  "spilman_client_store_path data_dir = join data_dir ''spilman-client.json''"

definition lock_path_for_store :: "path \<Rightarrow> path" where
  "lock_path_for_store store_path = extend_path store_path ''.lock''"

definition spilman_client_store_lock_path :: "path \<Rightarrow> path" where
  "spilman_client_store_lock_path data_dir = lock_path_for_store (spilman_client_store_path data_dir)"

definition spilman_sender_key_path :: "path \<Rightarrow> path" where
  "spilman_sender_key_path data_dir = join data_dir ''spilman-sender-key.json''"

datatype SpilmanError =
    LockForOtherStore path path | LockUnexpectedlyBusy | LockNotOpened path io_error | LockFailed path io_error
  | StoreNotDecoded string | UnsupportedStoreVersion u16 | StoreNotRead io_error
  | StoreNotEncoded string | StoreNotWritten io_error
  | KeyNotDecoded string | UnsupportedKeyVersion u16 | KeyMismatch | KeyNotRead io_error
  | KeyNotEncoded string | KeyNotWritten io_error
  | BridgeError string | UnitError RouteError

section \<open>The lock\<close>

record SharedSpilmanClientStoreLock =
  lk_store_path :: path

definition require_lock_for_data_dir ::
    "path \<Rightarrow> SharedSpilmanClientStoreLock \<Rightarrow> SpilmanError + SharedSpilmanClientStoreLock" where
  "require_lock_for_data_dir data_dir lock =
     (let expected = spilman_client_store_path data_dir in
      if lk_store_path lock \<noteq> expected then Inl (LockForOtherStore (lk_store_path lock) expected)
      else Inr lock)"

text \<open>A blocking request on a lock that is held does not return (\<open>None\<close>) until the holder drops it.\<close>

definition acquire_inner ::
    "os \<Rightarrow> (nat \<Rightarrow> file_system \<Rightarrow> file_system) \<Rightarrow> nat \<Rightarrow> path \<Rightarrow> bool \<Rightarrow> locked_files
       \<Rightarrow> ((SpilmanError + SharedSpilmanClientStoreLock option) \<times> locked_files) option" where
  "acquire_inner os others fuel store_path nonblocking s =
     (let lock_path = lock_path_for_store store_path in
      case open_private_lock_file os lock_path store_path others fuel (lf_files s) of
        None \<Rightarrow> None
      | Some (Inl e, fs) \<Rightarrow> Some (Inl (LockNotOpened lock_path e), s\<lparr>lf_files := fs\<rparr>)
      | Some (Inr u, fs) \<Rightarrow>
          (case syscall os ''flock'' lock_path of
             Inl e \<Rightarrow> Some (Inl (LockFailed store_path e), s\<lparr>lf_files := fs\<rparr>)
           | Inr v \<Rightarrow>
               if lf_held s lock_path
               then if nonblocking then Some (Inr None, s\<lparr>lf_files := fs\<rparr>) else None
               else Some (Inr (Some \<lparr>lk_store_path = store_path\<rparr>),
                          s\<lparr>lf_files := fs, lf_held := (lf_held s)(lock_path := True)\<rparr>)))"

definition acquire ::
    "os \<Rightarrow> (nat \<Rightarrow> file_system \<Rightarrow> file_system) \<Rightarrow> nat \<Rightarrow> path \<Rightarrow> locked_files
       \<Rightarrow> ((SpilmanError + SharedSpilmanClientStoreLock) \<times> locked_files) option" where
  "acquire os others fuel store_path s =
     (case acquire_inner os others fuel store_path False s of
        None \<Rightarrow> None
      | Some p \<Rightarrow> Some (attempt_mut p (\<lambda>lock s. (ok_or lock LockUnexpectedlyBusy, s))))"

definition try_acquire ::
    "os \<Rightarrow> (nat \<Rightarrow> file_system \<Rightarrow> file_system) \<Rightarrow> nat \<Rightarrow> path \<Rightarrow> locked_files
       \<Rightarrow> ((SpilmanError + SharedSpilmanClientStoreLock option) \<times> locked_files) option" where
  "try_acquire os others fuel store_path s = acquire_inner os others fuel store_path True s"

definition drop_lock :: "SharedSpilmanClientStoreLock \<Rightarrow> locked_files \<Rightarrow> locked_files" where
  "drop_lock lock s = s\<lparr>lf_held := (lf_held s)(lock_path_for_store (lk_store_path lock) := False)\<rparr>"

section \<open>The channel store\<close>

definition SPILMAN_CLIENT_STORE_VERSION :: u16 where
  "SPILMAN_CLIENT_STORE_VERSION = 1"

record ('f, 'p) SpilmanClientStoreFile =
  sf_version :: u16
  sf_funding :: "(string, 'f) btree_map"
  sf_payments :: "(string, 'p) btree_map"
  sf_closed :: "string btree_set"

record ('f, 'p) store_codec =
  store_to_string :: "('f, 'p) SpilmanClientStoreFile \<Rightarrow> string + string"
  store_from_str :: "string \<Rightarrow> string + ('f, 'p) SpilmanClientStoreFile"

definition store_file_new :: "('f, 'p) SpilmanClientStoreFile" where
  "store_file_new = \<lparr>sf_version = SPILMAN_CLIENT_STORE_VERSION, sf_funding = [], sf_payments = [], sf_closed = []\<rparr>"

text \<open>The error cell is shared with the handles that were returned, so it is part of the storage.\<close>

record ('f, 'p) FileSpilmanClientStorage =
  fs_path :: path
  fs_state :: "('f, 'p) SpilmanClientStoreFile"
  fs_last_error :: "SpilmanError option"
  fs_lock :: SharedSpilmanClientStoreLock

definition last_error :: "('f, 'p) FileSpilmanClientStorage \<Rightarrow> SpilmanError option" where
  "last_error storage = fs_last_error storage"

definition take_error ::
    "('f, 'p) FileSpilmanClientStorage \<Rightarrow> SpilmanError option \<times> ('f, 'p) FileSpilmanClientStorage" where
  "take_error storage = (fs_last_error storage, storage\<lparr>fs_last_error := None\<rparr>)"

definition ensure_ok :: "('f, 'p) FileSpilmanClientStorage \<Rightarrow> SpilmanError + unit" where
  "ensure_ok storage = (case last_error storage of Some e \<Rightarrow> Inl e | None \<Rightarrow> Inr ())"

definition load_with_lock ::
    "os \<Rightarrow> ('f, 'p) store_codec \<Rightarrow> SharedSpilmanClientStoreLock \<Rightarrow> file_system
       \<Rightarrow> (SpilmanError + ('f, 'p) FileSpilmanClientStorage) \<times> file_system" where
  "load_with_lock os codec lock fs =
     (let path = lk_store_path lock;
          (content, fs) = read_private_regular_to_string os path fs in
      attempt
        (case content of
           Inr content \<Rightarrow>
             if trim content = [] then Inr store_file_new
             else
               and_then (map_err StoreNotDecoded (store_from_str codec content)) (\<lambda>state.
               if sf_version state \<noteq> SPILMAN_CLIENT_STORE_VERSION
               then Inl (UnsupportedStoreVersion (sf_version state))
               else Inr state)
         | Inl e \<Rightarrow> if e = NotFound then Inr store_file_new else Inl (StoreNotRead e)) fs (\<lambda>state.
      (Inr \<lparr>fs_path = path, fs_state = state, fs_last_error = None, fs_lock = lock\<rparr>, fs)))"

definition load_store ::
    "os \<Rightarrow> (nat \<Rightarrow> file_system \<Rightarrow> file_system) \<Rightarrow> nat \<Rightarrow> ('f, 'p) store_codec \<Rightarrow> path \<Rightarrow> locked_files
       \<Rightarrow> ((SpilmanError + ('f, 'p) FileSpilmanClientStorage) \<times> locked_files) option" where
  "load_store os others fuel codec path s =
     (case acquire os others fuel path s of
        None \<Rightarrow> None
      | Some p \<Rightarrow> Some (attempt_mut p (\<lambda>lock s.
          let (storage, fs) = load_with_lock os codec lock (lf_files s) in
          (case storage of
             Inl e \<Rightarrow> (Inl e, drop_lock lock (s\<lparr>lf_files := fs\<rparr>))
           | Inr storage \<Rightarrow> (Inr storage, s\<lparr>lf_files := fs\<rparr>)))))"

definition write_snapshot ::
    "os \<Rightarrow> ('f, 'p) store_codec \<Rightarrow> ('f, 'p) FileSpilmanClientStorage \<Rightarrow> file_system
       \<Rightarrow> (SpilmanError + unit) \<times> file_system" where
  "write_snapshot os codec self fs =
     attempt (map_err StoreNotEncoded (store_to_string codec (fs_state self))) fs (\<lambda>content.
     let (result, fs) = write_atomic_private os (fs_path self) content fs in
     (map_err StoreNotWritten result, fs))"

definition persist ::
    "os \<Rightarrow> ('f, 'p) store_codec \<Rightarrow> ('f, 'p) FileSpilmanClientStorage \<Rightarrow> file_system
       \<Rightarrow> ('f, 'p) FileSpilmanClientStorage \<times> file_system" where
  "persist os codec self fs =
     (case write_snapshot os codec self fs of
        (Inr u, fs) \<Rightarrow> (self\<lparr>fs_last_error := None\<rparr>, fs)
      | (Inl e, fs) \<Rightarrow> (self\<lparr>fs_last_error := Some e\<rparr>, fs))"

definition save_funding ::
    "os \<Rightarrow> ('f, 'p) store_codec \<Rightarrow> string \<Rightarrow> 'f \<Rightarrow> ('f, 'p) FileSpilmanClientStorage \<Rightarrow> file_system
       \<Rightarrow> ('f, 'p) FileSpilmanClientStorage \<times> file_system" where
  "save_funding os codec channel_id funding self fs =
     persist os codec (self\<lparr>fs_state := (fs_state self)\<lparr>sf_funding :=
       bm_insert channel_id funding (sf_funding (fs_state self))\<rparr>\<rparr>) fs"

definition get_funding :: "string \<Rightarrow> ('f, 'p) FileSpilmanClientStorage \<Rightarrow> 'f option" where
  "get_funding channel_id self = bm_get (sf_funding (fs_state self)) channel_id"

definition get_payment_state :: "string \<Rightarrow> ('f, 'p) FileSpilmanClientStorage \<Rightarrow> 'p option" where
  "get_payment_state channel_id self = bm_get (sf_payments (fs_state self)) channel_id"

definition save_payment_state ::
    "os \<Rightarrow> ('f, 'p) store_codec \<Rightarrow> string \<Rightarrow> 'p \<Rightarrow> ('f, 'p) FileSpilmanClientStorage \<Rightarrow> file_system
       \<Rightarrow> ('f, 'p) FileSpilmanClientStorage \<times> file_system" where
  "save_payment_state os codec channel_id state self fs =
     persist os codec (self\<lparr>fs_state := (fs_state self)\<lparr>sf_payments :=
       bm_insert channel_id state (sf_payments (fs_state self))\<rparr>\<rparr>) fs"

datatype ClientChannelState = ClientOpen | ClientClosed

definition get_state :: "string \<Rightarrow> ('f, 'p) FileSpilmanClientStorage \<Rightarrow> ClientChannelState" where
  "get_state channel_id self =
     (if bm_get (sf_closed (fs_state self)) channel_id \<noteq> None then ClientClosed
      else if bm_get (sf_funding (fs_state self)) channel_id \<noteq> None then ClientOpen
      else ClientClosed)"

definition set_closed ::
    "os \<Rightarrow> ('f, 'p) store_codec \<Rightarrow> string \<Rightarrow> ('f, 'p) FileSpilmanClientStorage \<Rightarrow> file_system
       \<Rightarrow> ('f, 'p) FileSpilmanClientStorage \<times> file_system" where
  "set_closed os codec channel_id self fs =
     persist os codec (self\<lparr>fs_state := (fs_state self)\<lparr>sf_closed :=
       bm_insert channel_id () (sf_closed (fs_state self))\<rparr>\<rparr>) fs"

definition list_channel_ids :: "('f, 'p) FileSpilmanClientStorage \<Rightarrow> string list" where
  "list_channel_ids self = bm_keys (sf_funding (fs_state self))"

definition delete_channel ::
    "os \<Rightarrow> ('f, 'p) store_codec \<Rightarrow> string \<Rightarrow> ('f, 'p) FileSpilmanClientStorage \<Rightarrow> file_system
       \<Rightarrow> ('f, 'p) FileSpilmanClientStorage \<times> file_system" where
  "delete_channel os codec channel_id self fs =
     (let state = fs_state self in
      persist os codec (self\<lparr>fs_state := state\<lparr>sf_funding := bm_remove channel_id (sf_funding state),
         sf_payments := bm_remove channel_id (sf_payments state),
         sf_closed := bm_remove channel_id (sf_closed state)\<rparr>\<rparr>) fs)"

end
