(* ===== verification/Spilman_Open.thy ===== *)
theory Spilman_Open
  imports Spilman_Client
begin

text \<open>
  The sender key of a buyer, the choice of a keyset, and opening a channel from a token
  (\<open>spilman_client.rs\<close>). Two processes may create the key at the same time: \<open>others\<close> is what other
  processes do to the files between reading and creating in each round.
\<close>

section \<open>The sender key\<close>

definition SPILMAN_SENDER_KEY_VERSION :: u16 where
  "SPILMAN_SENDER_KEY_VERSION = 1"

record CashuSpilmanSenderKeyFile =
  sk_version :: u16
  sk_secret_hex :: string
  sk_public_key_hex :: string

record key_lib =
  key_to_string :: "CashuSpilmanSenderKeyFile \<Rightarrow> string + string"
  key_from_str :: "string \<Rightarrow> string + CashuSpilmanSenderKeyFile"
  add_key_from_hex :: "string \<Rightarrow> string + string"
  random_secret_hex :: "nat \<Rightarrow> string"

text \<open>\<open>start\<close> counts the random draws made before.\<close>

fun generate_cashu_spilman_sender_key :: "key_lib \<Rightarrow> nat \<Rightarrow> nat \<Rightarrow> CashuSpilmanSenderKeyFile option" where
  "generate_cashu_spilman_sender_key lib start 0 = None"
| "generate_cashu_spilman_sender_key lib start (Suc fuel) =
     (let secret_hex = random_secret_hex lib start in
      case add_key_from_hex lib secret_hex of
        Inr public_key_hex \<Rightarrow>
          Some \<lparr>sk_version = SPILMAN_SENDER_KEY_VERSION, sk_secret_hex = secret_hex,
                sk_public_key_hex = public_key_hex\<rparr>
      | Inl e \<Rightarrow> generate_cashu_spilman_sender_key lib (Suc start) fuel)"

definition decode_cashu_spilman_sender_key ::
    "key_lib \<Rightarrow> string \<Rightarrow> SpilmanError + CashuSpilmanSenderKeyFile" where
  "decode_cashu_spilman_sender_key lib content =
     and_then (map_err KeyNotDecoded (key_from_str lib content)) (\<lambda>key.
     if sk_version key \<noteq> SPILMAN_SENDER_KEY_VERSION then Inl (UnsupportedKeyVersion (sk_version key))
     else
       and_then (map_err BridgeError (add_key_from_hex lib (sk_secret_hex key))) (\<lambda>public_key_hex.
       if public_key_hex \<noteq> sk_public_key_hex key then Inl KeyMismatch else Inr key))"

definition write_cashu_spilman_sender_key ::
    "os \<Rightarrow> key_lib \<Rightarrow> path \<Rightarrow> CashuSpilmanSenderKeyFile \<Rightarrow> file_system \<Rightarrow> (SpilmanError + bool) \<times> file_system" where
  "write_cashu_spilman_sender_key os lib path key fs =
     attempt (map_err KeyNotEncoded (key_to_string lib key)) fs (\<lambda>content.
     let (result, fs) = create_atomic_private os path content fs in
     (map_err KeyNotWritten result, fs))"

fun sender_key_loop ::
    "os \<Rightarrow> key_lib \<Rightarrow> (nat \<Rightarrow> file_system \<Rightarrow> file_system) \<Rightarrow> nat \<Rightarrow> path \<Rightarrow> nat \<Rightarrow> nat \<Rightarrow> file_system
       \<Rightarrow> ((SpilmanError + CashuSpilmanSenderKeyFile) \<times> file_system) option" where
  "sender_key_loop os lib others draws path i 0 fs = None"
| "sender_key_loop os lib others draws path i (Suc fuel) fs =
     (case read_private_regular_to_string os path fs of
        (Inr content, fs) \<Rightarrow> Some (decode_cashu_spilman_sender_key lib content, fs)
      | (Inl e, fs) \<Rightarrow>
          if e = NotFound
          then (case generate_cashu_spilman_sender_key lib (i * draws) draws of
                  None \<Rightarrow> None
                | Some key \<Rightarrow>
                    (case write_cashu_spilman_sender_key os lib path key (others i fs) of
                       (Inl e, fs) \<Rightarrow> Some (Inl e, fs)
                     | (Inr created, fs) \<Rightarrow>
                         if created then Some (Inr key, fs)
                         else sender_key_loop os lib others draws path (Suc i) fuel fs))
          else Some (Inl (KeyNotRead e), fs))"

definition load_or_create_cashu_spilman_sender_key ::
    "os \<Rightarrow> key_lib \<Rightarrow> (nat \<Rightarrow> file_system \<Rightarrow> file_system) \<Rightarrow> nat \<Rightarrow> nat \<Rightarrow> path \<Rightarrow> file_system
       \<Rightarrow> ((SpilmanError + CashuSpilmanSenderKeyFile) \<times> file_system) option" where
  "load_or_create_cashu_spilman_sender_key os lib others draws fuel data_dir fs =
     sender_key_loop os lib others draws (spilman_sender_key_path data_dir) 0 fuel fs"

section \<open>Keysets\<close>

text \<open>An entry of the mint's keyset list, with the fields that are read where they have the right type.\<close>

record keyset_entry =
  ke_id :: "string option"
  ke_unit :: "string option"
  ke_active :: "bool option"
  ke_input_fee_ppk :: "u64 option"
  ke_final_expiry :: "u64 option"

definition entry_matches :: "string \<Rightarrow> string option \<Rightarrow> keyset_entry \<Rightarrow> bool" where
  "entry_matches unit keyset_id entry \<longleftrightarrow>
     map_option to_ascii_lowercase (ke_unit entry) = Some unit
     \<and> (case keyset_id of
          None \<Rightarrow> ke_active entry = Some True
        | Some expected \<Rightarrow> ke_id entry = Some expected)"

definition entry_fee :: "keyset_entry \<Rightarrow> u64" where
  "entry_fee entry = (case ke_input_fee_ppk entry of None \<Rightarrow> 0 | Some fee \<Rightarrow> fee)"

text \<open>\<open>min_by_key\<close> returns the first of the smallest elements.\<close>

fun min_by_key :: "('a \<Rightarrow> 'k::linorder) \<Rightarrow> 'a list \<Rightarrow> 'a option" where
  "min_by_key key [] = None"
| "min_by_key key (x # xs) =
     (case min_by_key key xs of None \<Rightarrow> Some x | Some y \<Rightarrow> Some (if key y < key x then y else x))"

definition select_spilman_keyset :: "keyset_entry list \<Rightarrow> string \<Rightarrow> string option \<Rightarrow> keyset_entry option" where
  "select_spilman_keyset keysets unit keyset_id =
     min_by_key entry_fee (filter (entry_matches unit keyset_id) keysets)"

section \<open>Opening a channel\<close>

definition normalize_spilman_receiver_pubkey_hex :: "string \<Rightarrow> string" where
  "normalize_spilman_receiver_pubkey_hex value =
     (let trimmed = trim value;
          hex = (if has_prefix ''0x'' trimmed then drop 2 trimmed else trimmed) in
      if length hex = 64 \<and> list_all is_ascii_hexdigit hex then ''02'' @ hex else trimmed)"

record StreamingRouteOpenCashuSpilmanChannelFromTokenRequest =
  oq_token :: string
  oq_receiver_pubkey_hex :: string
  oq_sender_secret_hex :: "string option"
  oq_expiry_unix :: u64
  oq_keyset_info_json :: string
  oq_max_amount_per_output :: u64
  oq_unit :: string
  oq_opening_paid_msat :: u64

record 'v StreamingRouteOpenCashuSpilmanChannelResult =
  or_channel_id :: string
  or_mint_url :: string
  or_sender_pubkey_hex :: string
  or_receiver_pubkey_hex :: string
  or_unit :: string
  or_capacity :: u64
  or_capacity_sat :: u64
  or_funding_token_amount :: u64
  or_expires_unix :: u64
  or_opening_paid_msat :: u64
  or_payment :: "'v CashuSpilmanPayment"

record opened_channel =
  oc_channel_id :: string
  oc_mint_url :: string
  oc_sender_pubkey_hex :: string
  oc_capacity :: u64
  oc_funding_token_amount :: u64

text \<open>The bridge over a storage: it returns what it made of the storage and the files.\<close>

type_synonym ('f, 'p) store_files = "('f, 'p) FileSpilmanClientStorage \<times> file_system"

record ('f, 'p, 'v) client_bridge =
  open_channel_from_token_async ::
    "string \<Rightarrow> string \<Rightarrow> string \<Rightarrow> u64 \<Rightarrow> string \<Rightarrow> u64 \<Rightarrow> ('f, 'p) store_files
       \<Rightarrow> (string + opened_channel) \<times> ('f, 'p) store_files"
  create_payment_with_funding ::
    "string \<Rightarrow> u64 \<Rightarrow> ('f, 'p) store_files \<Rightarrow> (string + 'v CashuSpilmanPayment) \<times> ('f, 'p) store_files"

definition sender_of_request ::
    "os \<Rightarrow> key_lib \<Rightarrow> (nat \<Rightarrow> file_system \<Rightarrow> file_system) \<Rightarrow> nat \<Rightarrow> nat \<Rightarrow> path \<Rightarrow> string option \<Rightarrow> file_system
       \<Rightarrow> ((SpilmanError + CashuSpilmanSenderKeyFile) \<times> file_system) option" where
  "sender_of_request os lib others draws fuel data_dir sender_secret_hex fs =
     (case sender_secret_hex of
        Some secret_hex \<Rightarrow>
          Some (attempt (map_err BridgeError (add_key_from_hex lib secret_hex)) fs (\<lambda>public_key_hex.
            (Inr \<lparr>sk_version = SPILMAN_SENDER_KEY_VERSION, sk_secret_hex = secret_hex,
                  sk_public_key_hex = public_key_hex\<rparr>, fs)))
      | None \<Rightarrow> load_or_create_cashu_spilman_sender_key os lib others draws fuel data_dir fs)"

text \<open>From the loaded storage on: the channel is opened, then the opening payment is made.\<close>

definition open_channel_with_sender ::
    "key_lib \<Rightarrow> ('f, 'p, 'v) client_bridge \<Rightarrow> StreamingRouteOpenCashuSpilmanChannelFromTokenRequest
       \<Rightarrow> CashuSpilmanSenderKeyFile \<Rightarrow> ('f, 'p) store_files
       \<Rightarrow> (SpilmanError + 'v StreamingRouteOpenCashuSpilmanChannelResult) \<times> ('f, 'p) store_files" where
  "open_channel_with_sender lib bridge request sender s =
     attempt (map_err BridgeError (add_key_from_hex lib (sk_secret_hex sender))) s (\<lambda>sender_pubkey_hex.
     let receiver_pubkey_hex = normalize_spilman_receiver_pubkey_hex (oq_receiver_pubkey_hex request);
         (opened, s) = open_channel_from_token_async bridge (oq_token request) receiver_pubkey_hex sender_pubkey_hex
           (oq_expiry_unix request) (oq_keyset_info_json request) (oq_max_amount_per_output request) s in
     attempt (map_err BridgeError opened) s (\<lambda>opened.
     attempt (map_err UnitError (parse_unit (oq_unit request))) s (\<lambda>unit.
     let (payment, s) = create_payment_with_funding bridge (oc_channel_id opened)
           (balance_from_msat unit (oq_opening_paid_msat request)) s in
     attempt (map_err BridgeError payment) s (\<lambda>payment.
     attempt (ensure_ok (fst s)) s (\<lambda>_.
     (Inr \<lparr>or_channel_id = oc_channel_id opened, or_mint_url = oc_mint_url opened,
           or_sender_pubkey_hex = oc_sender_pubkey_hex opened, or_receiver_pubkey_hex = receiver_pubkey_hex,
           or_unit = unit_as_str unit, or_capacity = oc_capacity opened,
           or_capacity_sat = capacity_to_sat unit (oc_capacity opened),
           or_funding_token_amount = oc_funding_token_amount opened, or_expires_unix = oq_expiry_unix request,
           or_opening_paid_msat = balance_to_msat unit (sp_balance payment), or_payment = payment\<rparr>, s))))))"

definition open_channel_from_token_with_lock ::
    "os \<Rightarrow> key_lib \<Rightarrow> ('f, 'p) store_codec \<Rightarrow> ('f, 'p, 'v) client_bridge \<Rightarrow> (nat \<Rightarrow> file_system \<Rightarrow> file_system)
       \<Rightarrow> nat \<Rightarrow> nat \<Rightarrow> path \<Rightarrow> StreamingRouteOpenCashuSpilmanChannelFromTokenRequest
       \<Rightarrow> SharedSpilmanClientStoreLock \<Rightarrow> file_system
       \<Rightarrow> ((SpilmanError + 'v StreamingRouteOpenCashuSpilmanChannelResult) \<times> file_system) option" where
  "open_channel_from_token_with_lock os lib codec bridge others draws fuel data_dir request lock fs =
     (case require_lock_for_data_dir data_dir lock of
        Inl e \<Rightarrow> Some (Inl e, fs)
      | Inr lock \<Rightarrow>
          (case load_with_lock os codec lock fs of
             (Inl e, fs) \<Rightarrow> Some (Inl e, fs)
           | (Inr storage, fs) \<Rightarrow>
               (case sender_of_request os lib others draws fuel data_dir (oq_sender_secret_hex request) fs of
                  None \<Rightarrow> None
                | Some (Inl e, fs) \<Rightarrow> Some (Inl e, fs)
                | Some (Inr sender, fs) \<Rightarrow>
                    (let (result, s) = open_channel_with_sender lib bridge request sender (storage, fs) in
                     Some (result, snd s)))))"

end
