(* ===== verification/Spilman_Client_Properties.thy ===== *)
theory Spilman_Client_Properties
  imports Private_File_Properties Spilman_Open
begin

text \<open>
  What the buyer's files promise. The channel store refines a book of channels: every call does to the
  book what it says, and the file always holds the book after some of the calls, after all of them when
  no error is reported. The sender key is created once, also against other processes. Both rest on the
  contract of a store that replaces its file as a whole.
\<close>

section \<open>Stores that write snapshots\<close>

text \<open>Each save has its own environment, here the failures of its system calls.\<close>

fun save_each :: "('x \<Rightarrow> 's \<Rightarrow> 'w \<Rightarrow> ('e + unit) \<times> 'w) \<Rightarrow> ('x \<times> 's) list \<Rightarrow> 'w \<Rightarrow> 'e option \<times> 'w" where
  "save_each save [] w = (None, w)"
| "save_each save ((x, s) # states) w =
     (case save x s w of
        (r, w) \<Rightarrow> if states = [] then (case r of Inl e \<Rightarrow> Some e | Inr u \<Rightarrow> None, w) else save_each save states w)"

locale snapshot_store =
  fixes holds :: "'s \<Rightarrow> 'w \<Rightarrow> bool" and save :: "'x \<Rightarrow> 's \<Rightarrow> 'w \<Rightarrow> ('e + unit) \<times> 'w" and good :: "'s \<Rightarrow> bool"
  assumes save_atomic: "holds s w \<Longrightarrow> good s' \<Longrightarrow> save x s' w = (r, w') \<Longrightarrow> holds s w' \<or> holds s' w'"
    and save_durable: "holds s w \<Longrightarrow> good s' \<Longrightarrow> save x s' w = (Inr (), w') \<Longrightarrow> holds s' w'"
begin

lemma saves_keep_one:
  "holds s w \<Longrightarrow> list_all good (map snd states) \<Longrightarrow> save_each save states w = (r, w')
     \<Longrightarrow> \<exists>n \<le> length states. holds ((s # map snd states) ! n) w'"
proof (induction states arbitrary: s w)
  case (Cons p states)
  obtain x s' where p: "p = (x, s')" by fastforce
  obtain r1 w1 where s: "save x s' w = (r1, w1)" by fastforce
  show ?case
  proof (cases "states = []")
    case True
    have "holds s w' \<or> holds s' w'" using save_atomic [OF Cons.prems(1) _ s] Cons.prems s True p by simp
    then show ?thesis using True p by (elim disjE) (rule exI [of _ 0], simp, rule exI [of _ 1], simp)
  next
    case False
    obtain s1 where s1: "holds s1 w1" "s1 = s \<or> s1 = s'"
      using save_atomic [OF Cons.prems(1) _ s] Cons.prems(2) p by auto
    then obtain n where n: "n \<le> length states" "holds ((s1 # map snd states) ! n) w'"
      using Cons.IH [OF s1(1)] Cons.prems s False p by auto
    show ?thesis
    proof (cases n)
      case 0
      then show ?thesis using n s1(2) p by (elim disjE) (rule exI [of _ 0], simp, rule exI [of _ 1], simp)
    next
      case (Suc m)
      then show ?thesis using n p by (intro exI [of _ "Suc n"]) simp
    qed
  qed
qed auto

lemma saves_durable:
  "holds s w \<Longrightarrow> list_all good (map snd states) \<Longrightarrow> states \<noteq> [] \<Longrightarrow> save_each save states w = (None, w')
     \<Longrightarrow> holds (last (map snd states)) w'"
proof (induction states arbitrary: s w)
  case (Cons p states)
  obtain x s' where p: "p = (x, s')" by fastforce
  obtain r1 w1 where s: "save x s' w = (r1, w1)" by fastforce
  show ?case
  proof (cases "states = []")
    case True
    then show ?thesis using save_durable [OF Cons.prems(1), of s' x] Cons.prems s p by (auto split: sum.splits)
  next
    case False
    then show ?thesis using save_atomic [OF Cons.prems(1) _ s] Cons.IH Cons.prems s p by auto
  qed
qed simp

end

section \<open>The file of the channel store\<close>

definition store_wf :: "('f, 'p) SpilmanClientStoreFile \<Rightarrow> bool" where
  "store_wf state \<longleftrightarrow> sf_version state = SPILMAN_CLIENT_STORE_VERSION
     \<and> bm_wf (sf_funding state) \<and> bm_wf (sf_payments state) \<and> bm_wf (sf_closed state)"

text \<open>What the code relies on in \<open>serde_json\<close>: maps and sets come back sorted, and the text of a value is
  not blank and is read back as that value.\<close>

definition store_codec_ok :: "('f, 'p) store_codec \<Rightarrow> bool" where
  "store_codec_ok codec \<longleftrightarrow>
     (\<forall>state content. store_wf state \<and> store_to_string codec state = Inr content
        \<longrightarrow> store_from_str codec content = Inr state \<and> is_utf8 content \<and> trim content \<noteq> [])
     \<and> (\<forall>content state. store_from_str codec content = Inr state
        \<longrightarrow> bm_wf (sf_funding state) \<and> bm_wf (sf_payments state) \<and> bm_wf (sf_closed state))"

lemma store_codec_okD:
  assumes "store_codec_ok codec"
  shows "store_wf state \<Longrightarrow> store_to_string codec state = Inr content
      \<Longrightarrow> store_from_str codec content = Inr state \<and> is_utf8 content \<and> trim content \<noteq> []"
    "store_from_str codec content = Inr state'
      \<Longrightarrow> bm_wf (sf_funding state') \<and> bm_wf (sf_payments state') \<and> bm_wf (sf_closed state')"
  using assms unfolding store_codec_ok_def by blast+

definition content_holds :: "('f, 'p) store_codec \<Rightarrow> string \<Rightarrow> ('f, 'p) SpilmanClientStoreFile \<Rightarrow> bool" where
  "content_holds codec content state \<longleftrightarrow>
     (if trim content = [] then state = store_file_new else store_from_str codec content = Inr state)"

definition client_holds ::
    "('f, 'p) store_codec \<Rightarrow> path \<Rightarrow> ('f, 'p) SpilmanClientStoreFile \<Rightarrow> file_system \<Rightarrow> bool" where
  "client_holds codec path state fs \<longleftrightarrow> store_codec_ok codec \<and> names_file path \<and> store_wf state
     \<and> (fs path = None \<and> state = store_file_new
        \<or> (\<exists>content. readable path content fs \<and> content_holds codec content state))"

definition client_save ::
    "os \<Rightarrow> ('f, 'p) store_codec \<Rightarrow> path \<Rightarrow> ('f, 'p) SpilmanClientStoreFile \<Rightarrow> file_system
       \<Rightarrow> (SpilmanError + unit) \<times> file_system" where
  "client_save os codec path state fs =
     write_snapshot os codec \<lparr>fs_path = path, fs_state = state, fs_last_error = None,
       fs_lock = \<lparr>lk_store_path = path\<rparr>\<rparr> fs"

lemma write_snapshot_save: "write_snapshot os codec self fs = client_save os codec (fs_path self) (fs_state self) fs"
  by (simp add: client_save_def write_snapshot_def)

lemma holds_left_alone: "client_holds codec path state fs \<Longrightarrow> left_alone path fs fs' \<Longrightarrow> client_holds codec path state fs'"
  using left_alone_readable [of path fs fs'] by (auto simp: client_holds_def left_alone_def)

lemma holds_after_write:
  assumes "client_holds codec path state fs" "store_wf state'" "store_to_string codec state' = Inr content"
    "readable path content fs'"
  shows "client_holds codec path state' fs'"
  using assms store_codec_okD(1) [OF _ assms(2,3)] by (auto simp: client_holds_def content_holds_def)

lemma client_save_outcome:
  assumes h: "client_holds codec path state fs" and wf: "store_wf state'"
  shows "outcome (client_save os codec path state' fs)
    (\<lambda>fs'. client_holds codec path state fs' \<or> client_holds codec path state' fs') (\<lambda>_. client_holds codec path state')"
proof (cases "store_to_string codec state'")
  case (Inl e)
  then show ?thesis using h by (simp add: client_save_def write_snapshot_def)
next
  case (Inr content)
  then have "is_utf8 content" "names_file path"
    using h store_codec_okD(1) [OF _ wf Inr] by (auto simp: client_holds_def)
  note w = write_readable [OF this(2,1), of os True fs]
  have "outcome (write_atomic_private os path content fs)
      (\<lambda>fs'. client_holds codec path state fs' \<or> client_holds codec path state' fs') (\<lambda>_. client_holds codec path state')"
    unfolding write_atomic_private_def outcome_attempt_mut
    using outcome_conj [OF w write_inner_outcome [OF \<open>names_file path\<close>, of os content True fs]]
    by (rule outcome_mono)
      (auto intro: holds_left_alone [OF h] holds_after_write [OF h wf Inr] split: if_splits)
  then show ?thesis
    by (cases "write_atomic_private os path content fs"; cases "fst (write_atomic_private os path content fs)")
      (simp_all add: client_save_def write_snapshot_def Inr)
qed

interpretation client_store: snapshot_store "client_holds codec path" "\<lambda>os. client_save os codec path" store_wf
  for codec :: "('f, 'p) store_codec" and path
proof
  fix s s' :: "('f, 'p) SpilmanClientStoreFile" and os w r w'
  assume "client_holds codec path s w" "store_wf s'"
  note o = client_save_outcome [OF this, of os]
  show "client_holds codec path s w' \<or> client_holds codec path s' w'" if "client_save os codec path s' w = (r, w')"
    using outcomeD [OF o] that by (cases r) auto
  show "client_holds codec path s' w'" if "client_save os codec path s' w = (Inr (), w')"
    using outcomeD(2) [OF o that] .
qed

section \<open>Loading\<close>

lemma store_wf_new: "store_wf store_file_new"
  by (simp add: store_wf_def store_file_new_def bm_wf_def)

lemma holds_loads:
  assumes "client_holds codec path state fs" "faultless os"
  shows "\<exists>fs'. load_with_lock os codec \<lparr>lk_store_path = path\<rparr> fs =
    (Inr \<lparr>fs_path = path, fs_state = state, fs_last_error = None, fs_lock = \<lparr>lk_store_path = path\<rparr>\<rparr>, fs')"
proof -
  from assms(1) consider (missing) "fs path = None" "state = store_file_new"
    | (stored) content where "readable path content fs" "store_wf state" "content_holds codec content state"
    by (auto simp: client_holds_def)
  then show ?thesis
  proof cases
    case missing
    then show ?thesis by (simp add: load_with_lock_def read_missing [OF assms(2)])
  next
    case stored
    obtain fs' where "read_private_regular_to_string os path fs = (Inr content, fs')"
      using read_succeeds [OF assms(2) stored(1)] by blast
    then show ?thesis using stored(2,3) by (auto simp: load_with_lock_def store_wf_def content_holds_def)
  qed
qed

lemma loaded_holds:
  assumes "load_with_lock os codec lock fs = (Inr storage, fs')" "store_codec_ok codec"
    "names_file (lk_store_path lock)" "placed (lk_store_path lock) fs"
  shows "client_holds codec (lk_store_path lock) (fs_state storage) fs'"
    "fs_path storage = lk_store_path lock" "fs_last_error storage = None"
proof -
  obtain r fs1 where r1: "read_private_regular_to_string os (lk_store_path lock) fs = (r, fs1)" by fastforce
  then have r: "read_private_regular_to_string os (lk_store_path lock) fs = (r, fs')"
    using assms(1) by (auto simp: load_with_lock_def result_simps)
  show "fs_path storage = lk_store_path lock" "fs_last_error storage = None"
    using assms(1) r by (auto simp: load_with_lock_def result_simps)
  show "client_holds codec (lk_store_path lock) (fs_state storage) fs'"
  proof (cases r)
    case (Inl e)
    then have "e = NotFound" "fs_state storage = store_file_new"
      using assms(1) r by (auto simp: load_with_lock_def result_simps split: if_splits)
    then show ?thesis
      using read_NotFound [OF _ assms(4), of os fs'] r Inl assms(2,3) by (simp add: client_holds_def store_wf_new)
  next
    case (Inr content)
    have "readable (lk_store_path lock) content fs'"
      using read_then_readable [OF assms(3,4)] r Inr by simp
    moreover have c: "content_holds codec content (fs_state storage)"
        "trim content = [] \<or> sf_version (fs_state storage) = SPILMAN_CLIENT_STORE_VERSION"
      using assms(1) r Inr by (auto simp: load_with_lock_def content_holds_def result_simps split: if_splits)
    moreover have "store_wf (fs_state storage)"
    proof (cases "trim content = []")
      case True
      then show ?thesis using c(1) by (simp add: content_holds_def store_wf_new)
    next
      case False
      then show ?thesis using c store_codec_okD(2) [OF assms(2)] by (simp add: content_holds_def store_wf_def)
    qed
    ultimately show ?thesis using assms(2,3) by (auto simp: client_holds_def)
  qed
qed

section \<open>The book of channels\<close>

record ('f, 'p) channel_book =
  cb_funding :: "string \<rightharpoonup> 'f"
  cb_payments :: "string \<rightharpoonup> 'p"
  cb_closed :: "string set"

datatype ('f, 'p) storage_call =
    SaveFunding string 'f | SavePaymentState string 'p | SetClosed string | DeleteChannel string

fun book_step :: "('f, 'p) channel_book \<Rightarrow> ('f, 'p) storage_call \<Rightarrow> ('f, 'p) channel_book" where
  "book_step b (SaveFunding k f) = b\<lparr>cb_funding := (cb_funding b)(k \<mapsto> f)\<rparr>"
| "book_step b (SavePaymentState k p) = b\<lparr>cb_payments := (cb_payments b)(k \<mapsto> p)\<rparr>"
| "book_step b (SetClosed k) = b\<lparr>cb_closed := insert k (cb_closed b)\<rparr>"
| "book_step b (DeleteChannel k) = \<lparr>cb_funding = (cb_funding b)(k := None), cb_payments = (cb_payments b)(k := None),
     cb_closed = cb_closed b - {k}\<rparr>"

fun storage_step :: "os \<Rightarrow> ('f, 'p) store_codec \<Rightarrow> ('f, 'p) store_files \<Rightarrow> ('f, 'p) storage_call \<Rightarrow> ('f, 'p) store_files" where
  "storage_step os codec (self, fs) (SaveFunding k f) = save_funding os codec k f self fs"
| "storage_step os codec (self, fs) (SavePaymentState k p) = save_payment_state os codec k p self fs"
| "storage_step os codec (self, fs) (SetClosed k) = set_closed os codec k self fs"
| "storage_step os codec (self, fs) (DeleteChannel k) = delete_channel os codec k self fs"

definition book :: "('f, 'p) SpilmanClientStoreFile \<Rightarrow> ('f, 'p) channel_book" where
  "book state = \<lparr>cb_funding = bm_get (sf_funding state), cb_payments = bm_get (sf_payments state),
     cb_closed = dom (bm_get (sf_closed state))\<rparr>"

text \<open>The state every call works on, apart from the file.\<close>

fun state_step :: "('f, 'p) SpilmanClientStoreFile \<Rightarrow> ('f, 'p) storage_call \<Rightarrow> ('f, 'p) SpilmanClientStoreFile" where
  "state_step state (SaveFunding k f) = state\<lparr>sf_funding := bm_insert k f (sf_funding state)\<rparr>"
| "state_step state (SavePaymentState k p) = state\<lparr>sf_payments := bm_insert k p (sf_payments state)\<rparr>"
| "state_step state (SetClosed k) = state\<lparr>sf_closed := bm_insert k () (sf_closed state)\<rparr>"
| "state_step state (DeleteChannel k) = state\<lparr>sf_funding := bm_remove k (sf_funding state),
     sf_payments := bm_remove k (sf_payments state), sf_closed := bm_remove k (sf_closed state)\<rparr>"

text \<open>A sequence of calls, each with its own failures.\<close>

definition storage_steps ::
    "('f, 'p) store_codec \<Rightarrow> ('f, 'p) store_files \<Rightarrow> (os \<times> ('f, 'p) storage_call) list \<Rightarrow> ('f, 'p) store_files" where
  "storage_steps codec s calls = foldl (\<lambda>s (os, call). storage_step os codec s call) s calls"

lemma storage_steps_simps [simp]:
  "storage_steps codec s [] = s"
  "storage_steps codec s ((os, call) # calls) = storage_steps codec (storage_step os codec s call) calls"
  by (simp_all add: storage_steps_def)

lemma storage_step_persist:
  "storage_step os codec (self, fs) c = persist os codec (self\<lparr>fs_state := state_step (fs_state self) c\<rparr>) fs"
  by (cases c) (simp_all add: save_funding_def save_payment_state_def set_closed_def delete_channel_def Let_def)

lemma state_step_wf: "store_wf state \<Longrightarrow> store_wf (state_step state c)"
  by (cases c) (simp_all add: store_wf_def bm_wf_bm_insert)

lemma book_state_step: "store_wf state \<Longrightarrow> book (state_step state c) = book_step (book state) c"
  by (cases c) (auto simp: book_def store_wf_def bm.get_insert)

section \<open>Sequences of calls\<close>

fun states_after :: "('f, 'p) SpilmanClientStoreFile \<Rightarrow> ('f, 'p) storage_call list \<Rightarrow> ('f, 'p) SpilmanClientStoreFile list" where
  "states_after state [] = []"
| "states_after state (c # calls) = state_step state c # states_after (state_step state c) calls"

lemma states_after_nth: "n \<le> length calls \<Longrightarrow> (state # states_after state calls) ! n = foldl state_step state (take n calls)"
proof (induction calls arbitrary: state n)
  case (Cons c calls)
  then show ?case by (cases n) auto
qed simp

lemma states_after_length [simp]: "length (states_after state calls) = length calls"
  by (induction calls arbitrary: state) auto

lemma states_after_Nil [simp]: "states_after state calls = [] \<longleftrightarrow> calls = []"
  by (cases calls) auto

lemma states_after_last: "calls \<noteq> [] \<Longrightarrow> last (states_after state calls) = foldl state_step state calls"
  by (induction calls arbitrary: state) auto

lemma states_after_wf: "store_wf state \<Longrightarrow> list_all store_wf (states_after state calls)"
  by (induction calls arbitrary: state) (auto simp: state_step_wf)

lemma foldl_state_wf: "store_wf state \<Longrightarrow> store_wf (foldl state_step state calls)"
  by (induction calls arbitrary: state) (auto simp: state_step_wf)

lemma book_states: "store_wf state \<Longrightarrow> book (foldl state_step state calls) = foldl book_step (book state) calls"
  by (induction calls arbitrary: state) (auto simp: state_step_wf book_state_step)

lemma persist_save:
  "persist os codec self fs =
     (case client_save os codec (fs_path self) (fs_state self) fs of
        (r, fs') \<Rightarrow> (self\<lparr>fs_last_error := (case r of Inl e \<Rightarrow> Some e | Inr u \<Rightarrow> None)\<rparr>, fs'))"
  by (auto simp: persist_def write_snapshot_save split: prod.splits sum.splits)

lemma run_storage:
  assumes "storage_steps codec (self, fs) calls = (self', fs')"
  shows "fs_path self' = fs_path self \<and> fs_lock self' = fs_lock self
    \<and> fs_state self' = foldl state_step (fs_state self) (map snd calls)
    \<and> (calls = [] \<and> self' = self \<and> fs' = fs \<or> calls \<noteq> []
       \<and> save_each (\<lambda>os. client_save os codec (fs_path self))
           (zip (map fst calls) (states_after (fs_state self) (map snd calls))) fs = (fs_last_error self', fs'))"
  using assms
proof (induction calls arbitrary: self fs)
  case (Cons call calls)
  obtain os c where call: "call = (os, c)" by fastforce
  obtain r fs1 where s: "client_save os codec (fs_path self) (state_step (fs_state self) c) fs = (r, fs1)" by fastforce
  define self1 where "self1 = self\<lparr>fs_state := state_step (fs_state self) c,
    fs_last_error := (case r of Inl e \<Rightarrow> Some e | Inr u \<Rightarrow> None)\<rparr>"
  have "storage_step os codec (self, fs) c = (self1, fs1)"
    by (simp add: storage_step_persist persist_save s self1_def)
  then show ?case
    using Cons.IH [of self1 fs1] Cons.prems s call by (cases calls) (auto simp: self1_def)
qed simp

text \<open>After any calls the file holds the state after some of them, or after all.\<close>

lemma run_holds:
  assumes h: "client_holds codec path (fs_state storage) fs" and p: "fs_path storage = path"
    and "storage_steps codec (storage, fs) calls = (storage', fs')"
  shows "\<exists>n \<le> length calls. client_holds codec path (foldl state_step (fs_state storage) (take n (map snd calls))) fs'
    \<and> (ensure_ok storage' = Inr () \<longrightarrow> n = length calls)"
proof (cases "calls = []")
  case True
  then show ?thesis using run_storage [OF assms(3)] h by simp
next
  case False
  let ?saves = "zip (map fst calls) (states_after (fs_state storage) (map snd calls))"
  have s: "save_each (\<lambda>os. client_save os codec path) ?saves fs = (fs_last_error storage', fs')"
    using run_storage [OF assms(3)] p False by simp
  have states: "map snd ?saves = states_after (fs_state storage) (map snd calls)" by simp
  have wfs: "list_all store_wf (map snd ?saves)"
    using h by (simp add: states_after_wf client_holds_def)
  show ?thesis
  proof (cases "fs_last_error storage'")
    case None
    then show ?thesis
      using client_store.saves_durable [OF h wfs] s False unfolding states
      by (auto simp: states_after_last zip_eq_Nil_iff intro!: exI [of _ "length calls"])
  next
    case (Some e)
    then have "ensure_ok storage' \<noteq> Inr ()" by (simp add: ensure_ok_def last_error_def)
    then show ?thesis using client_store.saves_keep_one [OF h wfs s] unfolding states by (auto simp: states_after_nth)
  qed
qed

text \<open>C29. The channel store of a buyer refines a book of channels. After any calls on a loaded store, its
  answers are those of the book after the same calls. Whatever fails on the way, in the load and in each
  call on its own, so that a failure may pass and come back, the file on disk can be loaded and holds the
  book after some number of the calls; it is the whole book when the store reports no error, also when an
  earlier write had failed.\<close>

theorem client_store_refines:
  assumes "store_codec_ok codec" "names_file (lk_store_path lock)" "placed (lk_store_path lock) fs0" "faultless os'"
    and "load_with_lock os codec lock fs0 = (Inr storage, fs)"
    and "storage_steps codec (storage, fs) calls = (storage', fs')"
    and b: "b = foldl book_step (book (fs_state storage)) (map snd calls)"
  shows "get_funding k storage' = cb_funding b k \<and> get_payment_state k storage' = cb_payments b k
    \<and> get_state k storage' = (if k \<notin> cb_closed b \<and> cb_funding b k \<noteq> None then ClientOpen else ClientClosed)
    \<and> set (list_channel_ids storage') = dom (cb_funding b)
    \<and> (\<exists>n stored fs''. n \<le> length calls \<and> load_with_lock os' codec lock fs' = (Inr stored, fs'')
         \<and> book (fs_state stored) = foldl book_step (book (fs_state storage)) (take n (map snd calls))
         \<and> (ensure_ok storage' = Inr () \<longrightarrow> n = length calls))"
proof -
  let ?path = "lk_store_path lock" and ?calls = "map snd calls"
  note l = loaded_holds [OF assms(5,1-3)]
  note r = run_storage [OF assms(6)]
  have wf: "store_wf (fs_state storage)" using l(1) by (simp add: client_holds_def)
  have b': "book (fs_state storage') = b" using r wf by (simp add: b book_states)
  have lock: "lock = \<lparr>lk_store_path = ?path\<rparr>" by simp
  obtain n where n: "n \<le> length calls" "ensure_ok storage' = Inr () \<longrightarrow> n = length calls"
      "client_holds codec ?path (foldl state_step (fs_state storage) (take n ?calls)) fs'"
    using run_holds [OF l(1,2) assms(6)] by blast
  obtain fs'' where "load_with_lock os' codec lock fs' = (Inr \<lparr>fs_path = ?path,
      fs_state = foldl state_step (fs_state storage) (take n ?calls), fs_last_error = None, fs_lock = lock\<rparr>, fs'')"
    using holds_loads [OF n(3) assms(4)] lock by auto
  then have "\<exists>n stored fs''. n \<le> length calls \<and> load_with_lock os' codec lock fs' = (Inr stored, fs'')
      \<and> book (fs_state stored) = foldl book_step (book (fs_state storage)) (take n ?calls)
      \<and> (ensure_ok storage' = Inr () \<longrightarrow> n = length calls)"
    using n(1,2) by (intro exI conjI) (auto simp: book_states [OF wf])
  moreover have "set (list_channel_ids storage') = dom (cb_funding b)"
    using r foldl_state_wf [OF wf, of ?calls] bm.keys_get [of "sf_funding (fs_state storage')"]
    by (simp add: b' [symmetric] book_def list_channel_ids_def store_wf_def)
  ultimately show ?thesis
    by (auto simp: b' [symmetric] book_def get_funding_def get_payment_state_def get_state_def dom_def)
qed

definition example_os :: os where
  "example_os = \<lparr>os_fault = (\<lambda>name path. None), os_owner = (1000, 1000), os_create_mode = 0x1A4, os_partial = (\<lambda>path. 0)\<rparr>"

text \<open>A codec for the two states of a channel that is funded and then closed.\<close>

definition funded_state :: "(nat, nat) SpilmanClientStoreFile" where
  "funded_state = store_file_new\<lparr>sf_funding := [(''c'', 7)]\<rparr>"

definition closed_state :: "(nat, nat) SpilmanClientStoreFile" where
  "closed_state = funded_state\<lparr>sf_closed := [(''c'', ())]\<rparr>"

definition example_codec :: "(nat, nat) store_codec" where
  "example_codec = \<lparr>
     store_to_string = (\<lambda>state. if state = funded_state then Inr ''funded''
       else if state = closed_state then Inr ''closed'' else Inl ''no text''),
     store_from_str = (\<lambda>content. if content = ''funded'' then Inr funded_state
       else if content = ''closed'' then Inr closed_state else Inl ''no value'')\<rparr>"

lemma example_faultless: "faultless example_os"
  by (simp add: faultless_def example_os_def)

lemma example_codec_ok: "store_codec_ok example_codec"
proof -
  have "is_utf8 ''funded'' \<and> is_utf8 ''closed'' \<and> trim ''funded'' \<noteq> [] \<and> trim ''closed'' \<noteq> []" by code_simp
  moreover have "store_wf funded_state \<and> store_wf closed_state" by code_simp
  ultimately show ?thesis
    by (auto simp: store_codec_ok_def example_codec_def store_wf_def split: if_splits)
qed

text \<open>A device that refuses to write, for one call.\<close>

definition full_os :: os where
  "full_os = example_os\<lparr>os_fault := (\<lambda>name path. if name = ''write'' then Some ''no space left'' else None)\<rparr>"

theorem client_store_refines_witness:
  "\<exists>storage fs storage' fs' stored fs''.
     load_with_lock example_os example_codec \<lparr>lk_store_path = [''d'', ''s.json'']\<rparr> Map.empty = (Inr storage, fs)
     \<and> isl (fst (client_save full_os example_codec [''d'', ''s.json''] funded_state fs))
     \<and> storage_steps example_codec (storage, fs) [(full_os, SaveFunding ''c'' 7), (example_os, SetClosed ''c'')] = (storage', fs')
     \<and> get_funding ''c'' storage' = Some 7 \<and> get_state ''c'' storage' = ClientClosed
     \<and> load_with_lock example_os example_codec \<lparr>lk_store_path = [''d'', ''s.json'']\<rparr> fs' = (Inr stored, fs'')
     \<and> book (fs_state stored) = \<lparr>cb_funding = [''c'' \<mapsto> 7], cb_payments = Map.empty, cb_closed = {''c''}\<rparr>"
proof -
  let ?lock = "\<lparr>lk_store_path = [''d'', ''s.json'']\<rparr>"
  define l where "l = load_with_lock example_os example_codec ?lock Map.empty"
  define storage where "storage = projr (fst l)"
  define calls where "calls = [(full_os, SaveFunding ''c'' (7::nat)), (example_os, SetClosed ''c'' :: (nat, nat) storage_call)]"
  define run where "run = storage_steps example_codec (storage, snd l) calls"
  have "isl (fst l) = False" unfolding l_def by code_simp
  then have l: "load_with_lock example_os example_codec ?lock Map.empty = (Inr storage, snd l)"
    by (cases "fst l") (auto simp: storage_def l_def [symmetric] prod_eq_iff)
  have "fs_state storage = store_file_new" unfolding storage_def l_def by code_simp
  then have b: "book (fs_state storage) = \<lparr>cb_funding = Map.empty, cb_payments = Map.empty, cb_closed = {}\<rparr>"
    by (simp add: book_def store_file_new_def)
  have failed: "isl (fst (client_save full_os example_codec [''d'', ''s.json''] funded_state (snd l)))"
    unfolding l_def by code_simp
  have ok: "ensure_ok (fst run) = Inr ()" unfolding run_def calls_def storage_def l_def by code_simp
  have r: "storage_steps example_codec (storage, snd l) calls = (fst run, snd run)"
    by (simp add: run_def)
  have p: "names_file (lk_store_path ?lock)" "placed (lk_store_path ?lock) Map.empty"
    by (simp_all add: names_file_def placed_def)
  note c = client_store_refines [OF example_codec_ok p example_faultless l r refl, of "''c''"]
  then obtain stored fs'' where
      s: "load_with_lock example_os example_codec ?lock (snd run) = (Inr stored, fs'')"
      "book (fs_state stored) = foldl book_step (book (fs_state storage)) (map snd calls)"
    using ok by fastforce
  have "get_funding ''c'' (fst run) = Some 7 \<and> get_state ''c'' (fst run) = ClientClosed"
    using c by (simp add: b calls_def)
  moreover have "book (fs_state stored) = \<lparr>cb_funding = [''c'' \<mapsto> 7], cb_payments = Map.empty, cb_closed = {''c''}\<rparr>"
    by (simp add: s(2) b calls_def)
  ultimately show ?thesis using l r s(1) failed unfolding calls_def by blast
qed

end
