(* ===== verification/Spilman_Open_Properties.thy ===== *)
theory Spilman_Open_Properties
  imports Spilman_Client_Properties
begin

text \<open>
  The sender key is created once and found by every later call, the loop that creates it ends, the
  cheapest keyset is chosen, and what is left behind when opening a channel fails.
\<close>

section \<open>The sender key\<close>

text \<open>What the code relies on in \<open>serde_json\<close>: the text of a key is read back as that key.\<close>

definition key_codec_ok :: "key_lib \<Rightarrow> bool" where
  "key_codec_ok lib \<longleftrightarrow>
     (\<forall>key content. key_to_string lib key = Inr content \<longrightarrow> key_from_str lib content = Inr key \<and> is_utf8 content)"

text \<open>Other processes do not remove the key or its directory.\<close>

definition keeps_key :: "path \<Rightarrow> (nat \<Rightarrow> file_system \<Rightarrow> file_system) \<Rightarrow> bool" where
  "keeps_key path others \<longleftrightarrow>
     (\<forall>i fs. (fs path \<noteq> None \<longrightarrow> others i fs path \<noteq> None) \<and> (placed path fs \<longrightarrow> placed path (others i fs)))"

definition key_stored :: "key_lib \<Rightarrow> path \<Rightarrow> CashuSpilmanSenderKeyFile \<Rightarrow> file_system \<Rightarrow> bool" where
  "key_stored lib path key fs \<longleftrightarrow>
     (\<exists>content. readable path content fs \<and> decode_cashu_spilman_sender_key lib content = Inr key)"

text \<open>The key that was found is kept, and it is the one that is returned.\<close>

definition key_kept ::
    "key_lib \<Rightarrow> path \<Rightarrow> file_system \<Rightarrow> SpilmanError + CashuSpilmanSenderKeyFile \<Rightarrow> file_system \<Rightarrow> bool" where
  "key_kept lib path found result fs' \<longleftrightarrow>
     map_option in_content (fs' path) = map_option in_content (found path)
     \<and> (\<forall>key i. result = Inr key \<longrightarrow> found path = Some i
          \<longrightarrow> decode_cashu_spilman_sender_key lib (in_content i) = Inr key)"

lemma key_path_names_file: "names_file (spilman_sender_key_path data_dir)"
  by (simp add: names_file_def spilman_sender_key_path_def join_def append_eq_Cons_conv)

lemma generated_key:
  "generate_cashu_spilman_sender_key lib start draws = Some key \<Longrightarrow>
     sk_version key = SPILMAN_SENDER_KEY_VERSION \<and> add_key_from_hex lib (sk_secret_hex key) = Inr (sk_public_key_hex key)"
  by (induction draws arbitrary: start) (auto simp: Let_def split: sum.splits)

lemma key_stored_loads:
  assumes "key_stored lib path key fs" "faultless os"
  shows "\<exists>fs'. sender_key_loop os lib others draws path i (Suc n) fs = Some (Inr key, fs')"
proof -
  obtain content where c: "readable path content fs" "decode_cashu_spilman_sender_key lib content = Inr key"
    using assms(1) by (auto simp: key_stored_def)
  then obtain fs' where "read_private_regular_to_string os path fs = (Inr content, fs')"
    using read_succeeds [OF assms(2)] by blast
  then show ?thesis using c(2) by simp
qed

lemma created_key_stored:
  assumes "key_codec_ok lib" "names_file path" "generate_cashu_spilman_sender_key lib start draws = Some key"
    "write_cashu_spilman_sender_key os lib path key fs = (Inr created, fs')"
  shows "if created then key_stored lib path key fs' else left_alone path fs fs' \<and> fs path \<noteq> None"
proof -
  obtain content where c: "key_to_string lib key = Inr content"
      "create_atomic_private os path content fs = (Inr created, fs')"
    using assms(4) by (cases "key_to_string lib key")
      (auto simp: write_cashu_spilman_sender_key_def result_simps split: prod.splits)
  have k: "key_from_str lib content = Inr key" "is_utf8 content"
    using assms(1) c(1) unfolding key_codec_ok_def by blast+
  have "decode_cashu_spilman_sender_key lib content = Inr key"
    using k(1) generated_key [OF assms(3)] by (simp add: decode_cashu_spilman_sender_key_def)
  then show ?thesis
    using outcomeD(2) [OF write_readable [OF assms(2) k(2)] c(2) [unfolded create_atomic_private_def]]
    by (auto simp: key_stored_def split: if_splits)
qed

text \<open>Whatever the creation reports, a file that is there is left alone.\<close>

lemma create_leaves_alone:
  assumes "names_file path" "fs path \<noteq> None" "write_cashu_spilman_sender_key os lib path key fs = (w, fs')"
  shows "left_alone path fs fs' \<and> w \<noteq> Inr True"
proof (cases "key_to_string lib key")
  case (Inl e)
  then show ?thesis using assms(3) by (auto simp: write_cashu_spilman_sender_key_def left_alone_def)
next
  case (Inr content)
  obtain r fs1 where c: "create_atomic_private os path content fs = (r, fs1)" by fastforce
  have "left_alone path fs fs1 \<and> r \<noteq> Inr True"
    using write_inner_outcome [OF assms(1), of os content False fs] assms(2) c
    by (cases r) (auto simp: create_atomic_private_def split: if_splits)
  then show ?thesis using assms(3) c Inr by (cases r) (auto simp: write_cashu_spilman_sender_key_def)
qed

lemma left_alone_placed: "left_alone path fs fs' \<Longrightarrow> placed path fs \<Longrightarrow> placed path fs'"
  unfolding left_alone_def placed_def only_directories_added_def by (metis option.distinct(1))

text \<open>A round that finds the file returns, and changes at most its owner and mode.\<close>

lemma found_key_returns:
  assumes "names_file path" "placed path fs" "fs path \<noteq> None"
  shows "\<exists>result fs'. sender_key_loop os lib others draws path i (Suc n) fs = Some (result, fs')
    \<and> key_kept lib path fs result fs' \<and> (\<forall>key. result = Inr key \<longrightarrow> key_stored lib path key fs')"
proof -
  obtain r fs' where r: "read_private_regular_to_string os path fs = (r, fs')" by fastforce
  show ?thesis
  proof (cases r)
    case (Inl e)
    then have "e \<noteq> NotFound" using read_NotFound [OF _ assms(2), of os fs'] assms(3) r by auto
    then have "sender_key_loop os lib others draws path i (Suc n) fs = Some (Inl (KeyNotRead e), fs')"
      using r Inl by simp
    moreover have "secured path fs fs'" using outcomeD(1) [OF read_outcome r [unfolded Inl]] .
    then have "key_kept lib path fs (Inl (KeyNotRead e)) fs'" by (simp add: key_kept_def secured_content)
    ultimately show ?thesis by blast
  next
    case (Inr content)
    have "readable path content fs'" "secured path fs fs'"
      using read_then_readable [OF assms(1,2) r [unfolded Inr]] outcomeD(2) [OF read_outcome r [unfolded Inr]] by simp_all
    moreover have "sender_key_loop os lib others draws path i (Suc n) fs = Some (decode_cashu_spilman_sender_key lib content, fs')"
      using r Inr by simp
    moreover obtain j where "fs path = Some j" "in_content j = content"
      using outcomeD(2) [OF read_outcome r [unfolded Inr]] by blast
    ultimately have "key_kept lib path fs (decode_cashu_spilman_sender_key lib content) fs'"
      by (simp add: key_kept_def secured_content)
    then show ?thesis
      using \<open>sender_key_loop os lib others draws path i (Suc n) fs = Some (decode_cashu_spilman_sender_key lib content, fs')\<close>
        \<open>readable path content fs'\<close> unfolding key_stored_def by blast
  qed
qed

text \<open>A file that another process creates meanwhile is kept, unless this process failed before it looked.\<close>

definition race_lost ::
    "key_lib \<Rightarrow> path \<Rightarrow> file_system \<Rightarrow> SpilmanError + CashuSpilmanSenderKeyFile \<Rightarrow> file_system \<Rightarrow> bool" where
  "race_lost lib path found result fs' \<longleftrightarrow>
     found path = None \<or> key_kept lib path found result fs' \<or> (\<exists>e. result = Inl (KeyNotRead e)) \<and> fs' path = None"

lemma created_key_returns:
  assumes "read_private_regular_to_string os path fs = (Inl NotFound, fs)"
    and "generate_cashu_spilman_sender_key lib (i * draws) draws = Some key"
    and "write_cashu_spilman_sender_key os lib path key (others i fs) = (w, fs2)"
  shows "sender_key_loop os lib others draws path i (Suc n) fs =
    (case w of
       Inl e \<Rightarrow> Some (Inl e, fs2)
     | Inr created \<Rightarrow> if created then Some (Inr key, fs2) else sender_key_loop os lib others draws path (Suc i) n fs2)"
  using assms by (cases w) simp_all

lemma missing_key_returns:
  assumes "key_codec_ok lib" "keeps_key path others" "\<And>start. generate_cashu_spilman_sender_key lib start draws \<noteq> None"
    "names_file path" "placed path fs" "fs path = None"
  shows "\<exists>result fs'. sender_key_loop os lib others draws path 0 (Suc (Suc n)) fs = Some (result, fs')
    \<and> race_lost lib path (others 0 fs) result fs' \<and> (\<forall>key. result = Inr key \<longrightarrow> key_stored lib path key fs')"
proof -
  obtain r fs1 where r: "read_private_regular_to_string os path fs = (r, fs1)" by fastforce
  show ?thesis
  proof (cases "r = Inl NotFound")
    case True
    then have r: "read_private_regular_to_string os path fs = (Inl NotFound, fs)"
      using read_NotFound [OF _ assms(5), of os fs1] r by simp
    obtain key where k: "generate_cashu_spilman_sender_key lib (0 * draws) draws = Some key" using assms(3) by blast
    obtain w fs2 where w: "write_cashu_spilman_sender_key os lib path key (others 0 fs) = (w, fs2)" by fastforce
    note loop = created_key_returns [where i = 0 and others = others, OF r k w, of "Suc n"]
    note alone = create_leaves_alone [OF assms(4) _ w]
    show ?thesis
    proof (cases "w = Inr False")
      case True
      have here: "left_alone path (others 0 fs) fs2" "others 0 fs path \<noteq> None"
        using created_key_stored [OF assms(1,4) k w [unfolded True]] by simp_all
      then have present: "fs2 path \<noteq> None" and same: "fs2 path = others 0 fs path" by (simp_all add: left_alone_def)
      have "placed path fs2"
        using left_alone_placed [OF here(1)] assms(2,5) by (simp add: keeps_key_def)
      from found_key_returns [OF assms(4) this present, of os lib others draws "Suc 0" n] obtain result fs'
        where f: "sender_key_loop os lib others draws path (Suc 0) (Suc n) fs2 = Some (result, fs')"
          "key_kept lib path fs2 result fs'" "\<forall>key. result = Inr key \<longrightarrow> key_stored lib path key fs'" by blast
      have "race_lost lib path (others 0 fs) result fs'" using f(2) by (simp add: race_lost_def key_kept_def same)
      then show ?thesis using loop f(1,3) True by simp
    next
      case False
      have "key_stored lib path key fs2" if "w = Inr True"
        using created_key_stored [OF assms(1,4) k w [unfolded that]] by simp
      moreover have "sender_key_loop os lib others draws path 0 (Suc (Suc n)) fs
          = Some (case w of Inl e \<Rightarrow> Inl e | Inr c \<Rightarrow> Inr key, fs2)"
        using loop False by (cases w) simp_all
      moreover have "race_lost lib path (others 0 fs) (case w of Inl e \<Rightarrow> Inl e | Inr c \<Rightarrow> Inr key) fs2"
        using alone False by (cases w) (auto simp: race_lost_def key_kept_def left_alone_def)
      ultimately show ?thesis using False by (cases w) auto
    qed
  next
    case False
    have "\<And>content. r \<noteq> Inr content" using outcomeD(2) [OF read_outcome [of os path fs]] r assms(6) by fastforce
    then obtain e where e: "r = Inl e" "e \<noteq> NotFound" using False by (cases r) auto
    then have "fs1 path = None"
      using outcomeD(1) [OF read_outcome [of os path fs], of e fs1] r assms(6) by (auto simp: secured_def)
    then show ?thesis using e r by (auto simp: race_lost_def)
  qed
qed


text \<open>A race: another process creates its key \<open>other_key\<close> before this one can create \<open>own_key\<close>.\<close>

definition own_key :: CashuSpilmanSenderKeyFile where
  "own_key = \<lparr>sk_version = 1, sk_secret_hex = ''01'', sk_public_key_hex = ''02ab''\<rparr>"

definition other_key :: CashuSpilmanSenderKeyFile where
  "other_key = \<lparr>sk_version = 1, sk_secret_hex = ''07'', sk_public_key_hex = ''03cd''\<rparr>"

definition example_keys :: key_lib where
  "example_keys = \<lparr>
     key_to_string = (\<lambda>key. if key = own_key then Inr ''own'' else if key = other_key then Inr ''other'' else Inl ''no text''),
     key_from_str = (\<lambda>content. if content = ''own'' then Inr own_key else if content = ''other'' then Inr other_key
       else Inl ''no value''),
     add_key_from_hex = (\<lambda>secret. if secret = ''01'' then Inr ''02ab'' else if secret = ''07'' then Inr ''03cd''
       else Inl ''invalid key''),
     random_secret_hex = (\<lambda>i. ''01'')\<rparr>"

definition racing :: "nat \<Rightarrow> file_system \<Rightarrow> file_system" where
  "racing i fs = fs([''data''] \<mapsto> new_inode example_os Directory 0x1ED [],
     [''data'', ''spilman-sender-key.json''] \<mapsto> new_inode example_os RegularFile 0x180 ''other'')"


section \<open>Choosing a keyset\<close>

text \<open>\<open>min_by_key\<close> returns the first element with the smallest key.\<close>

lemma min_by_key_Some:
  "min_by_key key xs = Some x \<Longrightarrow>
     \<exists>before after. xs = before @ x # after \<and> (\<forall>y \<in> set before. key x < key y) \<and> (\<forall>y \<in> set after. key x \<le> key y)"
proof (induction xs arbitrary: x)
  case (Cons a xs)
  show ?case
  proof (cases "min_by_key key xs")
    case None
    then have "xs = []" by (cases xs) (auto split: option.splits)
    then show ?thesis using Cons.prems by (intro exI [of _ "[]"]) auto
  next
    case (Some y)
    then obtain before after where y: "xs = before @ y # after" "\<forall>z \<in> set before. key y < key z" "\<forall>z \<in> set after. key y \<le> key z"
      using Cons.IH by blast
    show ?thesis
    proof (cases "key y < key a")
      case True
      then have "a # xs = (a # before) @ x # after" using Cons.prems Some y(1) by simp
      then show ?thesis using y(2,3) True Cons.prems Some by (intro exI [of _ "a # before"] exI [of _ after]) auto
    next
      case False
      then show ?thesis using Cons.prems Some y by (intro exI [of _ "[]"] exI [of _ xs]) fastforce
    qed
  qed
qed simp

lemma min_by_key_None: "min_by_key key xs = None \<longleftrightarrow> xs = []"
  by (cases xs) (auto split: option.splits)

text \<open>The selected keyset has the unit and is the requested or an active one, and no other such keyset is
  cheaper; none is selected only when there is none.\<close>

lemma selected_keyset_cheapest:
  assumes "select_spilman_keyset keysets unit keyset_id = Some e"
  shows "e \<in> set keysets \<and> entry_matches unit keyset_id e
    \<and> (\<forall>e' \<in> set keysets. entry_matches unit keyset_id e' \<longrightarrow> entry_fee e \<le> entry_fee e')"
proof -
  obtain before after where f: "filter (entry_matches unit keyset_id) keysets = before @ e # after"
      "\<forall>y \<in> set before. entry_fee e < entry_fee y" "\<forall>y \<in> set after. entry_fee e \<le> entry_fee y"
    using min_by_key_Some [OF assms [unfolded select_spilman_keyset_def]] by (elim exE conjE)
  have "y \<in> set (filter (entry_matches unit keyset_id) keysets) \<longleftrightarrow> y = e \<or> y \<in> set before \<or> y \<in> set after" for y
    unfolding f(1) by auto
  then have s: "y \<in> set keysets \<and> entry_matches unit keyset_id y \<longleftrightarrow> y = e \<or> y \<in> set before \<or> y \<in> set after" for y
    by simp
  show ?thesis
  proof (intro conjI ballI impI)
    fix e' assume "e' \<in> set keysets" "entry_matches unit keyset_id e'"
    then have "e' = e \<or> e' \<in> set before \<or> e' \<in> set after" using s [of e'] by simp
    then show "entry_fee e \<le> entry_fee e'" using f(2,3) by (elim disjE) (auto intro: less_imp_le)
  qed (use s [of e] in simp_all)
qed

section \<open>Opening a channel\<close>

text \<open>The unit of a request is looked at only after the channel was funded: for an unknown unit the call
  fails with the channel open, in the storage and on disk as the bridge left it, and without a payment.\<close>

lemma unit_checked_after_funding:
  assumes "add_key_from_hex lib (sk_secret_hex sender) = Inr public_key"
    and "open_channel_from_token_async bridge (oq_token request)
        (normalize_spilman_receiver_pubkey_hex (oq_receiver_pubkey_hex request)) public_key (oq_expiry_unix request)
        (oq_keyset_info_json request) (oq_max_amount_per_output request) s = (Inr opened, s')"
    and "parse_unit (oq_unit request) = Inl e"
  shows "open_channel_with_sender lib bridge request sender s = (Inl (UnitError e), s')"
  using assms by (simp add: open_channel_with_sender_def)

end
