(* ===== verification/Wallet_Seed.thy ===== *)
theory Wallet_Seed
  imports File_System
begin

text \<open>
  The files of a wallet (\<open>wallet/persistence.rs\<close>, the seed functions of \<open>wallet.rs\<close> and \<open>open\<close> of
  \<open>wallet/runtime.rs\<close>): the seed file, the writer lock, resolving and migrating the seed, moving an
  unreadable database away, and opening a wallet. The seed store is a trait, so its operations act on
  the files and on a store of any type \<open>'s\<close>; the file-backed store is one of them. JSON, hexadecimal
  and randomness are code of other crates (\<open>seed_lib\<close>), opening the SQLite database and building the
  repository are arguments. Dropping a lock handle releases the lock.
\<close>

section \<open>Paths\<close>

definition cashu_wallet_dir :: "path \<Rightarrow> path" where
  "cashu_wallet_dir data_dir = join data_dir ''cashu''"

definition cashu_wallet_db_path :: "path \<Rightarrow> path" where
  "cashu_wallet_db_path data_dir = join (cashu_wallet_dir data_dir) ''wallet.sqlite''"

definition cashu_wallet_seed_path :: "path \<Rightarrow> path" where
  "cashu_wallet_seed_path data_dir = join (cashu_wallet_dir data_dir) ''seed.json''"

definition legacy_cashu_wallet_state_path :: "path \<Rightarrow> path" where
  "legacy_cashu_wallet_state_path data_dir = join data_dir ''cashu-wallet.json''"

definition WAL_SIDECARS :: "string list" where
  "WAL_SIDECARS = [''-wal'', ''-shm'', ''-journal'']"

definition cashu_wallet_database_files :: "path \<Rightarrow> path list" where
  "cashu_wallet_database_files data_dir =
     (let database = cashu_wallet_db_path data_dir in
      database # map (\<lambda>suffix. extend_path database suffix) WAL_SIDECARS)"

definition cashu_wallet_database_exists :: "os \<Rightarrow> path \<Rightarrow> file_system \<Rightarrow> bool" where
  "cashu_wallet_database_exists os data_dir fs \<longleftrightarrow>
     list_ex (\<lambda>path. path_exists os path fs) (cashu_wallet_database_files data_dir)"

section \<open>The seed file\<close>

type_synonym seed = "u8 list"

definition CASHU_WALLET_SEED_VERSION :: u32 where
  "CASHU_WALLET_SEED_VERSION = 1"

record CashuWalletSeedFile =
  ws_version :: u32
  ws_seed_hex :: string

record seed_lib =
  seed_to_string :: "CashuWalletSeedFile \<Rightarrow> string + string"
  seed_from_str :: "string \<Rightarrow> string + CashuWalletSeedFile"
  hex_encode :: "u8 list \<Rightarrow> string"
  hex_decode :: "string \<Rightarrow> string + u8 list"
  random_seed :: seed

datatype SeedError =
    SeedIo string io_error | SeedText string string | SeedLength | SeedReplaced path | SeedMismatch path
  | SeedMissing path | SeedNotPreserved | SeedStore string | InContext string SeedError
  | WalletInUse path | LockOf path io_error | DatabaseText string string
  | PreserveFailed path io_error | RollbackFailed path io_error "(path \<times> io_error) list"

definition read_wallet_seed :: "os \<Rightarrow> seed_lib \<Rightarrow> path \<Rightarrow> file_system \<Rightarrow> SeedError + seed" where
  "read_wallet_seed os lib path fs =
     and_then (map_err (SeedIo ''Failed to read Cashu wallet seed'') (fs_read_to_string os path fs)) (\<lambda>content.
     and_then (map_err (SeedText ''Failed to parse Cashu wallet seed'') (seed_from_str lib content)) (\<lambda>seed_file.
     and_then (map_err (SeedText ''Invalid Cashu wallet seed'') (hex_decode lib (ws_seed_hex seed_file))) (\<lambda>seed_bytes.
     if length seed_bytes = 64 then Inr seed_bytes else Inl SeedLength)))"

definition write_wallet_seed ::
    "os \<Rightarrow> seed_lib \<Rightarrow> path \<Rightarrow> seed \<Rightarrow> file_system \<Rightarrow> (SeedError + unit) \<times> file_system" where
  "write_wallet_seed os lib path seed fs =
     attempt_mut
       (if butlast path = [] then (Inr (), fs)
        else let (r, fs) = create_dir_all os (butlast path) fs in
             (map_err (SeedIo ''Failed to create Cashu wallet directory'') r, fs)) (\<lambda>_ fs.
     let seed_file = \<lparr>ws_version = CASHU_WALLET_SEED_VERSION, ws_seed_hex = hex_encode lib seed\<rparr> in
     attempt (map_err (SeedText ''Failed to encode Cashu wallet seed'') (seed_to_string lib seed_file)) fs (\<lambda>content.
     let (r, fs) = fs_write os path content fs in
     attempt (map_err (SeedIo ''Failed to write Cashu wallet seed'') r) fs (\<lambda>_.
     let (r, fs) = fs_set_permissions os path 0x180 fs in
     (map_err (SeedIo ''Failed to secure Cashu wallet seed permissions'') r, fs))))"

definition load_or_create_wallet_seed ::
    "os \<Rightarrow> seed_lib \<Rightarrow> path \<Rightarrow> file_system \<Rightarrow> (SeedError + seed) \<times> file_system" where
  "load_or_create_wallet_seed os lib path fs =
     (if path_exists os path fs then (read_wallet_seed os lib path fs, fs)
      else
        let seed = random_seed lib in
        attempt_mut (write_wallet_seed os lib path seed fs) (\<lambda>_ fs. (Inr seed, fs)))"

section \<open>Seed stores\<close>

record 's CashuWalletSeedStore =
  load_seed :: "file_system \<times> 's \<Rightarrow> (SeedError + seed option) \<times> file_system \<times> 's"
  store_seed :: "seed \<Rightarrow> file_system \<times> 's \<Rightarrow> (SeedError + unit) \<times> file_system \<times> 's"

definition file_load_seed :: "os \<Rightarrow> seed_lib \<Rightarrow> path \<Rightarrow> file_system \<Rightarrow> SeedError + seed option" where
  "file_load_seed os lib path fs =
     (if \<not> path_exists os path fs then Inr None
      else and_then (read_wallet_seed os lib path fs) (\<lambda>seed. Inr (Some seed)))"

definition file_store_seed ::
    "os \<Rightarrow> seed_lib \<Rightarrow> path \<Rightarrow> seed \<Rightarrow> file_system \<Rightarrow> (SeedError + unit) \<times> file_system" where
  "file_store_seed os lib path seed fs =
     (if path_exists os path fs
      then attempt (read_wallet_seed os lib path fs) fs (\<lambda>existing.
             if existing \<noteq> seed then (Inl (SeedReplaced path), fs) else (Inr (), fs))
      else write_wallet_seed os lib path seed fs)"

definition FileCashuWalletSeedStore :: "os \<Rightarrow> seed_lib \<Rightarrow> path \<Rightarrow> 's CashuWalletSeedStore" where
  "FileCashuWalletSeedStore os lib path = \<lparr>
     load_seed = (\<lambda>(fs, s). (file_load_seed os lib path fs, fs, s)),
     store_seed = (\<lambda>seed (fs, s). let (r, fs) = file_store_seed os lib path seed fs in (r, fs, s))\<rparr>"

definition for_data_dir :: "os \<Rightarrow> seed_lib \<Rightarrow> path \<Rightarrow> 's CashuWalletSeedStore" where
  "for_data_dir os lib data_dir = FileCashuWalletSeedStore os lib (cashu_wallet_seed_path data_dir)"

section \<open>Resolving the seed\<close>

record ResolvedWalletSeed =
  rs_seed :: seed
  rs_remove_legacy_after_database_open :: bool

definition in_context :: "string \<Rightarrow> (SeedError + 'a) \<times> 'w \<Rightarrow> (SeedError + 'a) \<times> 'w" where
  "in_context message p = (map_err (InContext message) (fst p), snd p)"

text \<open>Storing a seed and reading it back.\<close>

definition store_and_verify ::
    "'s CashuWalletSeedStore \<Rightarrow> seed \<Rightarrow> bool \<Rightarrow> string \<Rightarrow> string \<Rightarrow> file_system \<times> 's
       \<Rightarrow> (SeedError + ResolvedWalletSeed) \<times> file_system \<times> 's" where
  "store_and_verify store seed remove on_store on_load w =
     attempt_mut (in_context on_store (store_seed store seed w)) (\<lambda>_ w.
     attempt_mut (in_context on_load (load_seed store w)) (\<lambda>verified w.
     if verified \<noteq> Some seed then (Inl SeedNotPreserved, w)
     else (Inr \<lparr>rs_seed = seed, rs_remove_legacy_after_database_open = remove\<rparr>, w)))"

definition resolve_wallet_seed ::
    "os \<Rightarrow> seed_lib \<Rightarrow> path \<Rightarrow> 's CashuWalletSeedStore \<Rightarrow> bool \<Rightarrow> file_system \<times> 's
       \<Rightarrow> (SeedError + ResolvedWalletSeed) \<times> file_system \<times> 's" where
  "resolve_wallet_seed os lib data_dir store migrate_legacy_seed w =
     attempt_mut (in_context ''failed to load the Cashu wallet seed from secure storage'' (load_seed store w)) (\<lambda>stored w.
     let legacy_path = cashu_wallet_seed_path data_dir in
     attempt (if migrate_legacy_seed \<and> path_exists os legacy_path (fst w)
              then and_then (map_err (InContext ''failed to read the legacy Cashu wallet seed'')
                     (read_wallet_seed os lib legacy_path (fst w))) (\<lambda>seed. Inr (Some seed))
              else Inr None) w (\<lambda>legacy.
     case (stored, legacy) of
       (Some stored, Some legacy) \<Rightarrow>
         if stored \<noteq> legacy then (Inl (SeedMismatch legacy_path), w)
         else (Inr \<lparr>rs_seed = stored, rs_remove_legacy_after_database_open = True\<rparr>, w)
     | (Some stored, None) \<Rightarrow> (Inr \<lparr>rs_seed = stored, rs_remove_legacy_after_database_open = False\<rparr>, w)
     | (None, Some legacy) \<Rightarrow>
         store_and_verify store legacy True ''failed to migrate the Cashu wallet seed into secure storage''
           ''failed to verify the migrated Cashu wallet seed'' w
     | (None, None) \<Rightarrow>
         if cashu_wallet_database_exists os data_dir (fst w) then (Inl (SeedMissing (cashu_wallet_db_path data_dir)), w)
         else store_and_verify store (random_seed lib) False ''failed to store a new Cashu wallet seed''
                ''failed to verify the new Cashu wallet seed'' w))"

definition finalize_legacy_seed_migration ::
    "os \<Rightarrow> path \<Rightarrow> ResolvedWalletSeed \<Rightarrow> file_system \<Rightarrow> (SeedError + unit) \<times> file_system" where
  "finalize_legacy_seed_migration os data_dir resolved fs =
     (if \<not> rs_remove_legacy_after_database_open resolved then (Inr (), fs)
      else
        case fs_remove_file os (cashu_wallet_seed_path data_dir) fs of
          (Inr u, fs) \<Rightarrow> (Inr (), fs)
        | (Inl e, fs) \<Rightarrow> if e = NotFound then (Inr (), fs)
                          else (Inl (SeedIo ''failed to remove migrated Cashu wallet seed'' e), fs))"

section \<open>The writer lock\<close>

definition wallet_lock_path :: "path \<Rightarrow> path" where
  "wallet_lock_path data_dir = join (cashu_wallet_dir data_dir) ''wallet.lock''"

definition acquire_wallet_writer_lock :: "os \<Rightarrow> path \<Rightarrow> locked_files \<Rightarrow> (SeedError + unit) \<times> locked_files" where
  "acquire_wallet_writer_lock os data_dir s =
     (let lock_path = wallet_lock_path data_dir;
          (r, fs) = fs_open_or_create os lock_path (lf_files s);
          s = s\<lparr>lf_files := fs\<rparr> in
      attempt (map_err (SeedIo ''failed to open Cashu wallet lock'') r) s (\<lambda>_.
      attempt (map_err (LockOf (cashu_wallet_dir data_dir)) (syscall os ''flock'' lock_path)) s (\<lambda>_.
      if lf_held s lock_path then (Inl (WalletInUse (cashu_wallet_dir data_dir)), s)
      else (Inr (), s\<lparr>lf_held := (lf_held s)(lock_path := True)\<rparr>))))"

definition release_wallet_writer_lock :: "path \<Rightarrow> locked_files \<Rightarrow> locked_files" where
  "release_wallet_writer_lock data_dir s = s\<lparr>lf_held := (lf_held s)(wallet_lock_path data_dir := False)\<rparr>"

section \<open>Moving a database away\<close>

text \<open>Renaming back, last move first; the failures are collected.\<close>

fun roll_back :: "os \<Rightarrow> (path \<times> path) list \<Rightarrow> file_system \<Rightarrow> (path \<times> io_error) list \<times> file_system" where
  "roll_back os [] fs = ([], fs)"
| "roll_back os ((source, destination) # moved) fs =
     (let (r, fs) = fs_rename os destination source fs;
          (errors, fs) = roll_back os moved fs in
      (case r of Inl e \<Rightarrow> (source, e) # errors | Inr u \<Rightarrow> errors, fs))"

text \<open>\<open>moved\<close> holds the last move first.\<close>

fun move_each ::
    "os \<Rightarrow> path \<Rightarrow> path list \<Rightarrow> (path \<times> path) list \<Rightarrow> file_system \<Rightarrow> (SeedError + unit) \<times> file_system" where
  "move_each os recovery_dir [] moved fs = (Inr (), fs)"
| "move_each os recovery_dir (source # existing) moved fs =
     (let destination = join recovery_dir (last source);
          (r, fs) = fs_rename os source destination fs in
      case r of
        Inr u \<Rightarrow> move_each os recovery_dir existing ((source, destination) # moved) fs
      | Inl move_error \<Rightarrow>
          (let (rollback_errors, fs) = roll_back os moved fs;
               (u, fs) = fs_remove_dir os recovery_dir (map (\<lambda>(s, d). last s) moved) fs in
           if rollback_errors = [] then (Inl (PreserveFailed source move_error), fs)
           else (Inl (RollbackFailed source move_error rollback_errors), fs)))"

definition move_database ::
    "os \<Rightarrow> string \<Rightarrow> path \<Rightarrow> file_system \<Rightarrow> (SeedError + path option) \<times> file_system" where
  "move_database os uuid data_dir fs =
     (let existing = filter (\<lambda>path. path_exists os path fs) (cashu_wallet_database_files data_dir) in
      if existing = [] then (Inr None, fs)
      else
        let recovery_dir = join (join (cashu_wallet_dir data_dir) ''recovery'') uuid;
            (r, fs) = create_dir_all os recovery_dir fs in
        attempt (map_err (SeedIo ''failed to create Cashu wallet recovery directory'') r) fs (\<lambda>_.
        attempt_mut (move_each os recovery_dir existing [] fs) (\<lambda>_ fs. (Inr (Some recovery_dir), fs))))"

definition preserve_cashu_wallet_database ::
    "os \<Rightarrow> string \<Rightarrow> path \<Rightarrow> locked_files \<Rightarrow> (SeedError + path option) \<times> locked_files" where
  "preserve_cashu_wallet_database os uuid data_dir s =
     (let (r, fs) = create_dir_all os (cashu_wallet_dir data_dir) (lf_files s);
          s = s\<lparr>lf_files := fs\<rparr> in
      attempt (map_err (SeedIo ''failed to create the Cashu wallet directory'') r) s (\<lambda>_.
      attempt_mut (acquire_wallet_writer_lock os data_dir s) (\<lambda>_ s.
      let (result, fs) = move_database os uuid data_dir (lf_files s) in
      (result, release_wallet_writer_lock data_dir (s\<lparr>lf_files := fs\<rparr>)))))"

section \<open>Opening a wallet\<close>

record 'r CashuWalletService =
  cs_data_dir :: path
  cs_repository :: 'r

text \<open>\<open>database\<close> and \<open>build\<close> are the SQLite database and the repository builder of CDK, which act on the
  files. The world is the files with their locks and the store.\<close>

definition finish_open ::
    "os \<Rightarrow> path \<Rightarrow> (path \<Rightarrow> file_system \<Rightarrow> (string + 'd) \<times> file_system)
       \<Rightarrow> ('d \<Rightarrow> seed \<Rightarrow> file_system \<Rightarrow> (string + 'r) \<times> file_system) \<Rightarrow> ResolvedWalletSeed \<Rightarrow> file_system
       \<Rightarrow> (SeedError + 'r CashuWalletService) \<times> file_system" where
  "finish_open os data_dir database build resolved fs =
     (let (localstore, fs) = database (cashu_wallet_db_path data_dir) fs in
      attempt (map_err (DatabaseText ''failed to open Cashu wallet database'') localstore) fs (\<lambda>localstore.
      let (repository, fs) = build localstore (rs_seed resolved) fs in
      attempt (map_err (DatabaseText ''failed to build Cashu wallet repository'') repository) fs (\<lambda>repository.
      attempt_mut (finalize_legacy_seed_migration os data_dir resolved fs) (\<lambda>_ fs.
      (Inr \<lparr>cs_data_dir = data_dir, cs_repository = repository\<rparr>, fs)))))"

definition open_wallet ::
    "os \<Rightarrow> seed_lib \<Rightarrow> (path \<Rightarrow> file_system \<Rightarrow> (string + 'd) \<times> file_system)
       \<Rightarrow> ('d \<Rightarrow> seed \<Rightarrow> file_system \<Rightarrow> (string + 'r) \<times> file_system)
       \<Rightarrow> path \<Rightarrow> 's CashuWalletSeedStore \<Rightarrow> bool \<Rightarrow> locked_files \<times> 's
       \<Rightarrow> (SeedError + 'r CashuWalletService) \<times> locked_files \<times> 's" where
  "open_wallet os lib database build data_dir seed_store migrate_legacy_seed w =
     (let (s, st) = w;
          (r, fs) = create_dir_all os (cashu_wallet_dir data_dir) (lf_files s);
          s = s\<lparr>lf_files := fs\<rparr> in
      attempt (map_err (SeedIo ''failed to create the Cashu wallet directory'') r) (s, st) (\<lambda>_.
      case acquire_wallet_writer_lock os data_dir s of
        (Inl e, s) \<Rightarrow> (Inl e, s, st)
      | (Inr u, s) \<Rightarrow>
          (case resolve_wallet_seed os lib data_dir seed_store migrate_legacy_seed (lf_files s, st) of
             (Inl e, fs, st) \<Rightarrow> (Inl e, release_wallet_writer_lock data_dir (s\<lparr>lf_files := fs\<rparr>), st)
           | (Inr resolved, fs, st) \<Rightarrow>
               (case finish_open os data_dir database build resolved fs of
                  (Inl e, fs) \<Rightarrow> (Inl e, release_wallet_writer_lock data_dir (s\<lparr>lf_files := fs\<rparr>), st)
                | (Inr service, fs) \<Rightarrow> (Inr service, s\<lparr>lf_files := fs\<rparr>, st)))))"

definition open_with_seed_store ::
    "os \<Rightarrow> seed_lib \<Rightarrow> (path \<Rightarrow> file_system \<Rightarrow> (string + 'd) \<times> file_system)
       \<Rightarrow> ('d \<Rightarrow> seed \<Rightarrow> file_system \<Rightarrow> (string + 'r) \<times> file_system)
       \<Rightarrow> path \<Rightarrow> 's CashuWalletSeedStore \<Rightarrow> locked_files \<times> 's
       \<Rightarrow> (SeedError + 'r CashuWalletService) \<times> locked_files \<times> 's" where
  "open_with_seed_store os lib database build data_dir seed_store w =
     open_wallet os lib database build data_dir seed_store True w"

definition open_file_backed ::
    "os \<Rightarrow> seed_lib \<Rightarrow> (path \<Rightarrow> file_system \<Rightarrow> (string + 'd) \<times> file_system)
       \<Rightarrow> ('d \<Rightarrow> seed \<Rightarrow> file_system \<Rightarrow> (string + 'r) \<times> file_system)
       \<Rightarrow> path \<Rightarrow> locked_files \<times> 's \<Rightarrow> (SeedError + 'r CashuWalletService) \<times> locked_files \<times> 's" where
  "open_file_backed os lib database build data_dir w =
     open_wallet os lib database build data_dir (for_data_dir os lib data_dir) False w"

end
