(* ===== verification/Wallet_Seed_Properties.thy ===== *)
theory Wallet_Seed_Properties
  imports Private_File_Properties Wallet_Seed
begin

text \<open>
  What the wallet's files promise: the seed of an existing wallet is never replaced or generated anew,
  a migrated seed is removed from its old place only when the store returns it, a wallet has one owner,
  and moving a database away moves all of its files or none.
\<close>

section \<open>The seed of an existing wallet\<close>

definition present :: "path \<Rightarrow> file_system \<Rightarrow> bool" where
  "present path fs \<longleftrightarrow> (\<exists>p. follow 40 fs path = Inr p \<and> fs p \<noteq> None)"

lemma path_exists_present:
  "path_exists os path fs \<longleftrightarrow> os_fault os ''stat'' path = None \<and> present path fs"
  by (cases "os_fault os ''stat'' path"; cases "follow 40 fs path")
    (auto simp: path_exists_def stat_path_def present_def syscall_def ok_or_def and_then_def split: option.splits)

lemma in_context_simps [simp]:
  "in_context m (Inl e, w) = (Inl (InContext m e), w)" "in_context m (Inr x, w) = (Inr x, w)"
  by (simp_all add: in_context_def)

lemma outcome_in_context [outcome_simps]: "outcome (in_context m p) E P \<longleftrightarrow> outcome p E P"
  by (cases p; cases "fst p") auto

lemma file_store_simps [simp]:
  "load_seed (for_data_dir os lib data_dir) (fs, s) = (file_load_seed os lib (cashu_wallet_seed_path data_dir) fs, fs, s)"
  "store_seed (for_data_dir os lib data_dir) seed (fs, s) =
     (let (r, fs) = file_store_seed os lib (cashu_wallet_seed_path data_dir) seed fs in (r, fs, s))"
  by (simp_all add: for_data_dir_def FileCashuWalletSeedStore_def)

lemma verified_seed:
  "store_and_verify (for_data_dir os lib data_dir) seed remove m n (fs, s) = (Inr x, fs', s') \<Longrightarrow>
     file_load_seed os lib (cashu_wallet_seed_path data_dir) fs' = Inr (Some seed) \<and> rs_seed x = seed
     \<and> rs_remove_legacy_after_database_open x = remove"
  by (cases "file_store_seed os lib (cashu_wallet_seed_path data_dir) seed fs";
      cases "fst (file_store_seed os lib (cashu_wallet_seed_path data_dir) seed fs)")
    (auto simp: store_and_verify_def in_context_def result_simps split: if_splits)

text \<open>C31. The seed of a file-backed wallet is kept. As long as looking up a file does not fail, a seed file
  that is there is never written to and its seed is the one used; when the wallet database or one of
  its sidecars is there and the seed is not, resolving the seed fails and writes nothing; a new seed is
  made only when none of these files is there. The seed that is returned is the one a later start
  reads.\<close>

theorem seed_of_wallet_kept:
  assumes "\<And>path. os_fault os ''stat'' path = None"
    and "resolve_wallet_seed os lib data_dir (for_data_dir os lib data_dir) False (fs, s) = (r, fs', s')"
  shows "(\<not> present (cashu_wallet_seed_path data_dir) fs
      \<or> fs' = fs \<and> (isl r \<or> read_wallet_seed os lib (cashu_wallet_seed_path data_dir) fs = Inr (rs_seed (projr r))))
    \<and> (present (cashu_wallet_seed_path data_dir) fs
       \<or> \<not> list_ex (\<lambda>path. present path fs) (cashu_wallet_database_files data_dir)
       \<or> fs' = fs \<and> r = Inl (SeedMissing (cashu_wallet_db_path data_dir)))
    \<and> (isl r \<or> file_load_seed os lib (cashu_wallet_seed_path data_dir) fs' = Inr (Some (rs_seed (projr r)))
         \<and> (present (cashu_wallet_seed_path data_dir) fs \<or> rs_seed (projr r) = random_seed lib))"
proof -
  let ?path = "cashu_wallet_seed_path data_dir"
  have e: "path_exists os path fs \<longleftrightarrow> present path fs" for path fs
    by (simp add: path_exists_present assms(1))
  have d: "cashu_wallet_database_exists os data_dir fs
      \<longleftrightarrow> list_ex (\<lambda>path. present path fs) (cashu_wallet_database_files data_dir)"
    by (simp add: cashu_wallet_database_exists_def e)
  show ?thesis
  proof (cases "present ?path fs")
    case True
    then show ?thesis
      using assms(2)
      by (cases "read_wallet_seed os lib ?path fs") (auto simp: resolve_wallet_seed_def file_load_seed_def e)
  next
    case False
    then have r: "resolve_wallet_seed os lib data_dir (for_data_dir os lib data_dir) False (fs, s) =
       (if cashu_wallet_database_exists os data_dir fs then (Inl (SeedMissing (cashu_wallet_db_path data_dir)), fs, s)
        else store_and_verify (for_data_dir os lib data_dir) (random_seed lib) False
          ''failed to store a new Cashu wallet seed'' ''failed to verify the new Cashu wallet seed'' (fs, s))"
      by (simp add: resolve_wallet_seed_def file_load_seed_def e)
    show ?thesis
    proof (cases "cashu_wallet_database_exists os data_dir fs")
      case True
      then show ?thesis using assms(2) False r by auto
    next
      case no_database: False
      then show ?thesis
        using assms(2) False r verified_seed [of os lib data_dir "random_seed lib" False _ _ fs s _ fs' s']
        by (cases r) (auto simp: d)
    qed
  qed
qed

definition old_seed :: seed where
  "old_seed = replicate 64 1"

definition new_seed :: seed where
  "new_seed = replicate 64 2"

definition example_seeds :: seed_lib where
  "example_seeds = \<lparr>
     seed_to_string = (\<lambda>f. Inr (ws_seed_hex f)), seed_from_str = (\<lambda>content. Inr \<lparr>ws_version = 1, ws_seed_hex = content\<rparr>),
     hex_encode = (\<lambda>bytes. if bytes = old_seed then ''old'' else ''new''),
     hex_decode = (\<lambda>text. if text = ''old'' then Inr old_seed else if text = ''new'' then Inr new_seed else Inl ''not hexadecimal''),
     random_seed = new_seed\<rparr>"

definition healthy_os :: os where
  "healthy_os = \<lparr>os_fault = (\<lambda>name path. None), os_owner = (1000, 1000), os_create_mode = 0x1A4, os_partial = (\<lambda>path. 0)\<rparr>"

text \<open>A wallet of one data directory: the seed and the database.\<close>

definition wallet_files :: file_system where
  "wallet_files = [[''d''] \<mapsto> new_inode healthy_os Directory 0x1ED [], [''d'', ''cashu''] \<mapsto> new_inode healthy_os Directory 0x1ED [],
     [''d'', ''cashu'', ''seed.json''] \<mapsto> new_inode healthy_os RegularFile 0x180 ''old'',
     [''d'', ''cashu'', ''wallet.sqlite''] \<mapsto> new_inode healthy_os RegularFile 0x1A4 ''db'']"

theorem seed_of_wallet_kept_witness:
  "\<exists>r. resolve_wallet_seed healthy_os example_seeds [''d''] (for_data_dir healthy_os example_seeds [''d'']) False (wallet_files, ())
     = (Inr r, wallet_files, ()) \<and> rs_seed r = old_seed"
proof -
  define w where "w = resolve_wallet_seed healthy_os example_seeds [''d''] (for_data_dir healthy_os example_seeds [''d'']) False (wallet_files, ())"
  have stat: "os_fault healthy_os ''stat'' path = None" for path by (simp add: healthy_os_def)
  have eq: "resolve_wallet_seed healthy_os example_seeds [''d''] (for_data_dir healthy_os example_seeds [''d'']) False (wallet_files, ())
      = (fst w, fst (snd w), snd (snd w))" by (simp add: w_def prod_eq_iff)
  have "isl (fst w) = False" unfolding w_def by code_simp
  then have r: "fst w = Inr (projr (fst w))" by (cases "fst w") auto
  have "path_exists healthy_os (cashu_wallet_seed_path [''d'']) wallet_files = True" by code_simp
  then have "present (cashu_wallet_seed_path [''d'']) wallet_files" by (simp add: path_exists_present)
  moreover have "read_wallet_seed healthy_os example_seeds (cashu_wallet_seed_path [''d'']) wallet_files = Inr old_seed" by code_simp
  ultimately have "fst (snd w) = wallet_files" "rs_seed (projr (fst w)) = old_seed"
    using seed_of_wallet_kept [OF stat eq] \<open>isl (fst w) = False\<close> by simp_all
  then show ?thesis
    unfolding w_def [symmetric] using r by (intro exI [of _ "projr (fst w)"]) (simp add: prod_eq_iff)
qed

text \<open>A system on which only looking up the wallet's own files fails: the seed and the database with its
  sidecars.\<close>

definition only_wallet_lookups_fail :: "os \<Rightarrow> path \<Rightarrow> bool" where
  "only_wallet_lookups_fail os data_dir \<longleftrightarrow>
     (\<forall>name path. os_fault os name path \<noteq> None \<longleftrightarrow>
        name = ''stat'' \<and> path \<in> insert (cashu_wallet_seed_path data_dir) (set (cashu_wallet_database_files data_dir)))"

lemma only_wallet_lookupsD:
  assumes "only_wallet_lookups_fail os data_dir"
  shows "name \<noteq> ''stat'' \<Longrightarrow> os_fault os name path = None"
    "os_fault os ''stat'' (cashu_wallet_dir data_dir) = None"
    "\<not> path_exists os (cashu_wallet_seed_path data_dir) fs" "\<not> cashu_wallet_database_exists os data_dir fs"
proof -
  note fault = assms [unfolded only_wallet_lookups_fail_def, rule_format]
  show "name \<noteq> ''stat'' \<Longrightarrow> os_fault os name path = None" using fault by blast
  have "cashu_wallet_dir data_dir \<notin> insert (cashu_wallet_seed_path data_dir) (set (cashu_wallet_database_files data_dir))"
    by (auto simp: cashu_wallet_seed_path_def cashu_wallet_database_files_def cashu_wallet_db_path_def
        cashu_wallet_dir_def join_def extend_path_def WAL_SIDECARS_def Let_def)
  then show "os_fault os ''stat'' (cashu_wallet_dir data_dir) = None" using fault by blast
  show "\<not> path_exists os (cashu_wallet_seed_path data_dir) fs" "\<not> cashu_wallet_database_exists os data_dir fs"
    using fault unfolding path_exists_present cashu_wallet_database_exists_def list_ex_iff by blast+
qed

text \<open>The code of a seed file, of \<open>serde_json\<close> and \<open>hex\<close>: a 64-byte seed that was written is read back.\<close>

definition seed_codec_ok :: "seed_lib \<Rightarrow> seed \<Rightarrow> bool" where
  "seed_codec_ok lib seed \<longleftrightarrow>
     length seed = 64 \<and> hex_decode lib (hex_encode lib seed) = Inr seed
   \<and> (\<exists>content. seed_to_string lib \<lparr>ws_version = CASHU_WALLET_SEED_VERSION, ws_seed_hex = hex_encode lib seed\<rparr> = Inr content
        \<and> is_utf8 content
        \<and> seed_from_str lib content = Inr \<lparr>ws_version = CASHU_WALLET_SEED_VERSION, ws_seed_hex = hex_encode lib seed\<rparr>)"

lemma seed_file_path:
  "butlast (cashu_wallet_seed_path data_dir) = cashu_wallet_dir data_dir" "cashu_wallet_dir data_dir \<noteq> []"
  by (simp_all add: cashu_wallet_seed_path_def cashu_wallet_dir_def join_def butlast_append)

text \<open>Writing the seed over a regular file replaces its content.\<close>

lemma seed_file_replaced:
  assumes "only_wallet_lookups_fail os data_dir" "seed_codec_ok lib seed"
    and d: "fs (cashu_wallet_dir data_dir) = Some d" "in_kind d = Directory"
    and i: "fs (cashu_wallet_seed_path data_dir) = Some i" "in_kind i = RegularFile"
  shows "\<exists>content. write_wallet_seed os lib (cashu_wallet_seed_path data_dir) seed fs
      = (Inr (), fs(cashu_wallet_seed_path data_dir \<mapsto> i\<lparr>in_content := content, in_mode := 0x180\<rparr>))
    \<and> (\<forall>os'. faultless os' \<longrightarrow> read_wallet_seed os' lib (cashu_wallet_seed_path data_dir)
          (fs(cashu_wallet_seed_path data_dir \<mapsto> i\<lparr>in_content := content, in_mode := 0x180\<rparr>)) = Inr seed)"
proof -
  let ?path = "cashu_wallet_seed_path data_dir"
  obtain content where c: "seed_to_string lib \<lparr>ws_version = CASHU_WALLET_SEED_VERSION, ws_seed_hex = hex_encode lib seed\<rparr> = Inr content"
      "is_utf8 content" "seed_from_str lib content = Inr \<lparr>ws_version = CASHU_WALLET_SEED_VERSION, ws_seed_hex = hex_encode lib seed\<rparr>"
      "hex_decode lib (hex_encode lib seed) = Inr seed" "length seed = 64"
    using assms(2) unfolding seed_codec_ok_def by blast
  note works = only_wallet_lookupsD(1,2) [OF assms(1)]
  have dir: "create_dir_all os (cashu_wallet_dir data_dir) fs = (Inr (), fs)"
    using d by (rule create_dir_all_present) (simp_all add: works)
  have own: "follow 40 (fs(?path \<mapsto> j)) ?path = Inr ?path" if "in_kind j = RegularFile" for j
    using that by (simp add: numeral_eq_Suc)
  have here: "follow 40 fs ?path = Inr ?path" using own [OF i(2)] i(1) by (simp add: fun_upd_idem)
  have "fs_write os ?path content fs = (Inr (), fs(?path \<mapsto> i\<lparr>in_content := content\<rparr>))"
    using i by (simp add: fs_write_def syscall_def works here)
  moreover have "fs_set_permissions os ?path 0x180 (fs(?path \<mapsto> i\<lparr>in_content := content\<rparr>))
      = (Inr (), fs(?path \<mapsto> i\<lparr>in_content := content, in_mode := 0x180\<rparr>))"
    using own [of "i\<lparr>in_content := content\<rparr>"] i(2) by (simp add: fs_set_permissions_def syscall_def works ok_or_def)
  ultimately have "write_wallet_seed os lib ?path seed fs
      = (Inr (), fs(?path \<mapsto> i\<lparr>in_content := content, in_mode := 0x180\<rparr>))"
    by (simp add: write_wallet_seed_def seed_file_path dir c(1))
  moreover have "read_wallet_seed os' lib ?path (fs(?path \<mapsto> i\<lparr>in_content := content, in_mode := 0x180\<rparr>)) = Inr seed"
    if "faultless os'" for os'
    using own [of "i\<lparr>in_content := content, in_mode := 0x180\<rparr>"] i(2) c
    by (simp add: read_wallet_seed_def fs_read_to_string_def faultless_syscall [OF that] ok_or_def)
  ultimately show ?thesis by blast
qed

text \<open>C32. When only the lookups of a wallet's own files fail, the code takes them for missing: starting a
  file-backed wallet overwrites the seed file that is there, whatever it holds and also when the database
  is there, with a new seed, before the call reports an error; the new seed is what a later start reads.
  No other file changes.\<close>

theorem failed_lookup_replaces_seed:
  assumes "only_wallet_lookups_fail os data_dir" "seed_codec_ok lib (random_seed lib)" "faultless os'"
    and "fs (cashu_wallet_dir data_dir) = Some d" "in_kind d = Directory"
    and "fs (cashu_wallet_seed_path data_dir) = Some i" "in_kind i = RegularFile"
  shows "\<exists>fs'. resolve_wallet_seed os lib data_dir (for_data_dir os lib data_dir) False (fs, s) = (Inl SeedNotPreserved, fs', s)
     \<and> read_wallet_seed os' lib (cashu_wallet_seed_path data_dir) fs' = Inr (random_seed lib)
     \<and> (\<forall>path. path \<noteq> cashu_wallet_seed_path data_dir \<longrightarrow> fs' path = fs path)"
proof -
  let ?path = "cashu_wallet_seed_path data_dir"
  note missing = only_wallet_lookupsD(3,4) [OF assms(1)]
  obtain content where w: "write_wallet_seed os lib ?path (random_seed lib) fs
      = (Inr (), fs(?path \<mapsto> i\<lparr>in_content := content, in_mode := 0x180\<rparr>))"
    "read_wallet_seed os' lib ?path (fs(?path \<mapsto> i\<lparr>in_content := content, in_mode := 0x180\<rparr>)) = Inr (random_seed lib)"
    using seed_file_replaced [OF assms(1,2,4-7)] assms(3) by blast
  have "resolve_wallet_seed os lib data_dir (for_data_dir os lib data_dir) False (fs, s)
      = (Inl SeedNotPreserved, fs(?path \<mapsto> i\<lparr>in_content := content, in_mode := 0x180\<rparr>), s)"
    by (simp add: resolve_wallet_seed_def file_load_seed_def missing store_and_verify_def file_store_seed_def w(1))
  then show ?thesis using w(2) by auto
qed

definition lookups_fail :: os where
  "lookups_fail = healthy_os\<lparr>os_fault := (\<lambda>name path.
     if name = ''stat'' \<and> path \<in> insert (cashu_wallet_seed_path [''d'']) (set (cashu_wallet_database_files [''d'']))
     then Some ''I/O error'' else None)\<rparr>"

theorem failed_lookup_replaces_seed_witness:
  "read_wallet_seed healthy_os example_seeds (cashu_wallet_seed_path [''d'']) wallet_files = Inr old_seed
   \<and> cashu_wallet_database_exists healthy_os [''d''] wallet_files
   \<and> (\<exists>fs'. resolve_wallet_seed lookups_fail example_seeds [''d''] (for_data_dir lookups_fail example_seeds [''d'']) False (wallet_files, ())
         = (Inl SeedNotPreserved, fs', ())
       \<and> read_wallet_seed healthy_os example_seeds (cashu_wallet_seed_path [''d'']) fs' = Inr new_seed)"
proof -
  have fail: "only_wallet_lookups_fail lookups_fail [''d'']" by (auto simp: only_wallet_lookups_fail_def lookups_fail_def healthy_os_def)
  have "is_utf8 ''new''" by code_simp
  then have codec: "seed_codec_ok example_seeds (random_seed example_seeds)"
    by (simp add: seed_codec_ok_def example_seeds_def new_seed_def old_seed_def CASHU_WALLET_SEED_VERSION_def)
  have healthy: "faultless healthy_os" by (simp add: faultless_def healthy_os_def)
  have dir: "wallet_files (cashu_wallet_dir [''d'']) = Some (new_inode healthy_os Directory 0x1ED [])"
    and own: "wallet_files (cashu_wallet_seed_path [''d'']) = Some (new_inode healthy_os RegularFile 0x180 ''old'')" by code_simp+
  have "read_wallet_seed healthy_os example_seeds (cashu_wallet_seed_path [''d'']) wallet_files = Inr old_seed"
    "cashu_wallet_database_exists healthy_os [''d''] wallet_files" by code_simp+
  moreover have "random_seed example_seeds = new_seed" by (simp add: example_seeds_def)
  moreover have "\<exists>fs'. resolve_wallet_seed lookups_fail example_seeds [''d''] (for_data_dir lookups_fail example_seeds [''d'']) False
        (wallet_files, ()) = (Inl SeedNotPreserved, fs', ())
      \<and> read_wallet_seed healthy_os example_seeds (cashu_wallet_seed_path [''d'']) fs' = Inr (random_seed example_seeds)
      \<and> (\<forall>path. path \<noteq> cashu_wallet_seed_path [''d''] \<longrightarrow> fs' path = wallet_files path)"
    by (rule failed_lookup_replaces_seed [OF fail codec healthy dir _ own]) (simp_all add: new_inode_def)
  ultimately show ?thesis by metis
qed

section \<open>Migrating a seed\<close>

text \<open>A platform store keeps to itself: it does not touch the files, and loading does not change it.\<close>

definition platform_store :: "'s CashuWalletSeedStore \<Rightarrow> bool" where
  "platform_store store \<longleftrightarrow>
     (\<forall>fs s. snd (load_seed store (fs, s)) = (fs, s)) \<and> (\<forall>fs fs' s. fst (load_seed store (fs, s)) = fst (load_seed store (fs', s)))
     \<and> (\<forall>seed fs s. fst (snd (store_seed store seed (fs, s))) = fs)"

lemma verified_in_store:
  assumes "platform_store store" "store_and_verify store seed remove m n (fs, s) = (r, fs', s')"
  shows "fs' = fs \<and> (isl r \<or> rs_seed (projr r) = seed \<and> rs_remove_legacy_after_database_open (projr r) = remove
    \<and> fst (load_seed store (fs'', s')) = Inr (Some seed))"
proof -
  obtain r1 s1 where 1: "store_seed store seed (fs, s) = (r1, fs, s1)"
    using assms(1) unfolding platform_store_def by (metis prod.collapse)
  obtain r2 where 2: "load_seed store (fs, s1) = (r2, fs, s1)" "fst (load_seed store (fs'', s1)) = r2"
    using assms(1) unfolding platform_store_def by (metis prod.collapse fst_conv)
  show ?thesis
    using assms(2) 1 2 by (cases r1; cases r2) (auto simp: store_and_verify_def split: if_splits)
qed

lemma resolved_in_store:
  assumes "platform_store store" "resolve_wallet_seed os lib data_dir store True (fs, s) = (r, fs', s')"
  shows "fs' = fs \<and> (isl r \<or> \<not> rs_remove_legacy_after_database_open (projr r)
    \<or> read_wallet_seed os lib (cashu_wallet_seed_path data_dir) fs = Inr (rs_seed (projr r))
       \<and> fst (load_seed store (fs'', s')) = Inr (Some (rs_seed (projr r))))"
proof -
  obtain l where l: "load_seed store (fs, s) = (l, fs, s)" "fst (load_seed store (fs'', s)) = l"
    using assms(1) unfolding platform_store_def by (metis prod.collapse fst_conv)
  note v = verified_in_store [OF assms(1), of _ _ _ _ fs s r fs' s' fs'']
  show ?thesis
    using assms(2) l v
    by (cases l; cases "path_exists os (cashu_wallet_seed_path data_dir) fs";
        cases "read_wallet_seed os lib (cashu_wallet_seed_path data_dir) fs")
      (fastforce simp: resolve_wallet_seed_def split: option.splits if_splits)+
qed

text \<open>Creating directories and the lock file leaves what is there.\<close>

lemma open_or_create_keeps: "fs q \<noteq> None \<Longrightarrow> snd (fs_open_or_create os p fs) q = fs q"
  by (cases "os_fault os ''create'' p"; cases "follow 40 fs p"; cases "fs (projr (follow 40 fs p))")
    (auto simp: fs_open_or_create_def syscall_def)

lemma create_dir_all_keeps: "fs q \<noteq> None \<Longrightarrow> snd (create_dir_all os p fs) q = fs q"
  using create_dir_all_effect(1) [of os p fs "fst (create_dir_all os p fs)" "snd (create_dir_all os p fs)"]
  unfolding only_directories_added_def by (metis prod.collapse)

lemma lock_keeps:
  "lf_files s q \<noteq> None \<Longrightarrow> lf_files (snd (acquire_wallet_writer_lock os data_dir s)) q = lf_files s q"
  using open_or_create_keeps [of "lf_files s" q os "wallet_lock_path data_dir"]
  by (cases "fs_open_or_create os (wallet_lock_path data_dir) (lf_files s)";
      cases "fst (fs_open_or_create os (wallet_lock_path data_dir) (lf_files s))";
      cases "os_fault os ''flock'' (wallet_lock_path data_dir)")
    (auto simp: acquire_wallet_writer_lock_def syscall_def Let_def)

lemma finalize_outcome:
  "outcome (finalize_legacy_seed_migration os data_dir resolved fs) (\<lambda>fs'. fs' = fs)
     (\<lambda>_ fs'. fs' = fs \<or> rs_remove_legacy_after_database_open resolved
        \<and> fs' = fs(cashu_wallet_seed_path data_dir := None))"
  by (cases "os_fault os ''unlink'' (cashu_wallet_seed_path data_dir)"; cases "fs (cashu_wallet_seed_path data_dir)")
    (auto simp: finalize_legacy_seed_migration_def fs_remove_file_def syscall_def)

text \<open>The database and the repository are built without touching the seed file.\<close>

definition leaves_alone :: "('a \<Rightarrow> file_system \<Rightarrow> 'b \<times> file_system) \<Rightarrow> path \<Rightarrow> bool" where
  "leaves_alone f path \<longleftrightarrow> (\<forall>x fs. snd (f x fs) path = fs path)"

lemma finish_open_outcome:
  assumes "leaves_alone database (cashu_wallet_seed_path data_dir)"
    "\<forall>d. leaves_alone (build d) (cashu_wallet_seed_path data_dir)"
  shows "outcome (finish_open os data_dir database build resolved fs)
    (\<lambda>fs'. fs' (cashu_wallet_seed_path data_dir) = fs (cashu_wallet_seed_path data_dir))
    (\<lambda>_ fs'. fs' (cashu_wallet_seed_path data_dir) = fs (cashu_wallet_seed_path data_dir)
       \<or> rs_remove_legacy_after_database_open resolved \<and> fs' (cashu_wallet_seed_path data_dir) = None)"
proof -
  obtain l fs1 where 1: "database (cashu_wallet_db_path data_dir) fs = (l, fs1)" by fastforce
  have k1: "fs1 (cashu_wallet_seed_path data_dir) = fs (cashu_wallet_seed_path data_dir)"
    using assms(1) 1 unfolding leaves_alone_def by (metis snd_conv)
  show ?thesis
  proof (cases l)
    case (Inr store)
    obtain b fs2 where 2: "build store (rs_seed resolved) fs1 = (b, fs2)" by fastforce
    have k2: "fs2 (cashu_wallet_seed_path data_dir) = fs (cashu_wallet_seed_path data_dir)"
      using assms(2) 2 k1 unfolding leaves_alone_def by (metis snd_conv)
    show ?thesis
      by (cases b) (auto simp: finish_open_def 1 2 Inr outcome_simps k2 intro!: outcome_mono [OF finalize_outcome])
  qed (simp add: finish_open_def 1 k1)
qed

lemma read_plain_file:
  assumes "fs path = Some i" "fs' path = Some i" "\<And>target. in_kind i \<noteq> SymbolicLink target"
  shows "read_wallet_seed os lib path fs' = read_wallet_seed os lib path fs"
proof -
  have "follow 40 fs path = Inr path" "follow 40 fs' path = Inr path"
    using assms by (cases "in_kind i"; simp add: numeral_eq_Suc)+
  then show ?thesis using assms(1,2) by (simp add: read_wallet_seed_def fs_read_to_string_def)
qed

text \<open>C33. A seed that is migrated from its file into a platform store is not lost. Whatever fails while a
  wallet is opened, the seed file is unchanged when the call fails; when the wallet was opened, the file
  is unchanged, or it is gone and the store returns exactly the seed that was in it.\<close>

theorem migrated_seed_not_lost:
  assumes "platform_store store"
    and "leaves_alone database (cashu_wallet_seed_path data_dir)"
    and "\<forall>d. leaves_alone (build d) (cashu_wallet_seed_path data_dir)"
    and i: "lf_files s (cashu_wallet_seed_path data_dir) = Some i" "\<And>target. in_kind i \<noteq> SymbolicLink target"
    and "open_with_seed_store os lib database build data_dir store (s, st) = (r, s', st')"
  shows "lf_files s' (cashu_wallet_seed_path data_dir) = Some i
    \<or> \<not> isl r \<and> lf_files s' (cashu_wallet_seed_path data_dir) = None
      \<and> (\<exists>seed. read_wallet_seed os lib (cashu_wallet_seed_path data_dir) (lf_files s) = Inr seed
           \<and> fst (load_seed store (fs, st')) = Inr (Some seed))"
proof -
  let ?path = "cashu_wallet_seed_path data_dir"
  obtain r1 fs1 where 1: "create_dir_all os (cashu_wallet_dir data_dir) (lf_files s) = (r1, fs1)" by fastforce
  have k1: "fs1 ?path = Some i" using create_dir_all_keeps [of "lf_files s" ?path os "cashu_wallet_dir data_dir"] 1 i by simp
  obtain r2 s2 where 2: "acquire_wallet_writer_lock os data_dir (s\<lparr>lf_files := fs1\<rparr>) = (r2, s2)" by fastforce
  have k2: "lf_files s2 ?path = Some i" using lock_keeps [of "s\<lparr>lf_files := fs1\<rparr>" ?path os data_dir] 2 k1 by simp
  obtain r3 fs3 st3 where 3: "resolve_wallet_seed os lib data_dir store True (lf_files s2, st) = (r3, fs3, st3)"
    by (metis prod.collapse)
  note k3 = resolved_in_store [OF assms(1) 3, of fs]
  have read: "read_wallet_seed os lib ?path (lf_files s2) = read_wallet_seed os lib ?path (lf_files s)"
    by (rule read_plain_file [where i = i]) (simp_all add: i k2)
  show ?thesis
  proof (cases "isl r1 \<or> isl r2 \<or> isl r3")
    case True
    then show ?thesis
      using assms(6) 1 2 3 k1 k2 k3
      by (cases r1; cases r2; cases r3) (auto simp: open_with_seed_store_def open_wallet_def release_wallet_writer_lock_def)
  next
    case False
    then obtain resolved where r3: "r3 = Inr resolved" "r1 = Inr ()" "r2 = Inr ()" by (cases r1; cases r2; cases r3) auto
    obtain r4 fs4 where 4: "finish_open os data_dir database build resolved fs3 = (r4, fs4)" by fastforce
    have o: "open_with_seed_store os lib database build data_dir store (s, st) =
        (r4, (case r4 of Inl e \<Rightarrow> release_wallet_writer_lock data_dir (s2\<lparr>lf_files := fs4\<rparr>) | Inr u \<Rightarrow> s2\<lparr>lf_files := fs4\<rparr>), st3)"
      using 1 2 3 4 r3 by (cases r4) (simp_all add: open_with_seed_store_def open_wallet_def)
    note f = finish_open_outcome [OF assms(2,3), where os = os and resolved = resolved and fs = fs3, unfolded 4]
    show ?thesis
      using f o assms(6) k2 k3 r3 read
      by (cases r4) (auto simp: release_wallet_writer_lock_def)
  qed
qed

definition example_store :: "seed option CashuWalletSeedStore" where
  "example_store = \<lparr>load_seed = (\<lambda>(fs, s). (Inr s, fs, s)), store_seed = (\<lambda>seed (fs, s). (Inr (), fs, Some seed))\<rparr>"

theorem migrated_seed_not_lost_witness:
  "\<exists>service s'. open_with_seed_store healthy_os example_seeds (\<lambda>p fs. (Inr (), fs)) (\<lambda>d seed fs. (Inr seed, fs)) [''d''] example_store
       (\<lparr>lf_files = wallet_files, lf_held = (\<lambda>p. False)\<rparr>, None) = (Inr service, s', Some old_seed)
     \<and> cs_repository service = old_seed \<and> lf_files s' (cashu_wallet_seed_path [''d'']) = None
     \<and> fst (load_seed example_store (lf_files s', Some old_seed)) = Inr (Some old_seed)"
proof -
  let ?s = "\<lparr>lf_files = wallet_files, lf_held = (\<lambda>p. False)\<rparr>" and ?path = "cashu_wallet_seed_path [''d'']"
  let ?db = "\<lambda>(p :: path) (fs :: file_system). (Inr () :: string + unit, fs)"
  let ?build = "\<lambda>(d :: unit) (seed :: seed) (fs :: file_system). (Inr seed :: string + seed, fs)"
  define w where "w = open_with_seed_store healthy_os example_seeds ?db ?build [''d''] example_store (?s, None)"
  have w: "open_with_seed_store healthy_os example_seeds ?db ?build [''d''] example_store (?s, None)
      = (fst w, fst (snd w), snd (snd w))" by (simp add: w_def)
  have store: "platform_store example_store" by (simp add: platform_store_def example_store_def)
  have alone: "leaves_alone ?db ?path" "\<forall>d. leaves_alone (?build d) ?path" by (simp_all add: leaves_alone_def)
  define i where "i = new_inode healthy_os RegularFile 0x180 ''old''"
  have "wallet_files ?path = Some (new_inode healthy_os RegularFile 0x180 ''old'')" by code_simp
  then have i: "lf_files ?s ?path = Some i" "\<And>target. in_kind i \<noteq> SymbolicLink target"
    by (simp_all add: i_def new_inode_def)
  have e: "isl (fst w) = False" "snd (snd w) = Some old_seed" "cs_repository (projr (fst w)) = old_seed"
      "lf_files (fst (snd w)) ?path = None"
    unfolding w_def by code_simp+
  have read: "read_wallet_seed healthy_os example_seeds ?path (lf_files ?s) = Inr old_seed" by code_simp
  have "fst (load_seed example_store (lf_files (fst (snd w)), snd (snd w))) = Inr (Some old_seed)"
    using migrated_seed_not_lost [OF store alone i w, of "lf_files (fst (snd w))"] e(4) read by auto
  moreover have "fst w = Inr (projr (fst w))" using e(1) by (cases "fst w") auto
  ultimately show ?thesis
    using e unfolding w_def [symmetric]
    by (intro exI [of _ "projr (fst w)"] exI [of _ "fst (snd w)"]) (simp add: prod_eq_iff)
qed

section \<open>One owner\<close>

text \<open>While one service is open, a second one for the same directory cannot be opened, and its attempt
  leaves the seed and the database as they are.\<close>

lemma lock_held_refused:
  assumes "lf_held s (wallet_lock_path data_dir)"
  shows "isl (fst (acquire_wallet_writer_lock os data_dir s))"
  using assms
  by (cases "fs_open_or_create os (wallet_lock_path data_dir) (lf_files s)";
      cases "fst (fs_open_or_create os (wallet_lock_path data_dir) (lf_files s))";
      cases "os_fault os ''flock'' (wallet_lock_path data_dir)")
    (auto simp: acquire_wallet_writer_lock_def syscall_def Let_def)

lemma acquired_lock_held:
  "acquire_wallet_writer_lock os data_dir s = (Inr u, s') \<Longrightarrow> lf_held s' (wallet_lock_path data_dir)"
  by (cases "fs_open_or_create os (wallet_lock_path data_dir) (lf_files s)";
      cases "fst (fs_open_or_create os (wallet_lock_path data_dir) (lf_files s))";
      cases "os_fault os ''flock'' (wallet_lock_path data_dir)")
    (auto simp: acquire_wallet_writer_lock_def syscall_def Let_def split: if_splits)

lemma opened_wallet_locked:
  assumes "open_wallet os lib database build data_dir store migrate (s, st) = (Inr service, s', st')"
  shows "lf_held s' (wallet_lock_path data_dir)"
proof -
  obtain r1 fs1 where 1: "create_dir_all os (cashu_wallet_dir data_dir) (lf_files s) = (r1, fs1)" by fastforce
  obtain r2 s2 where 2: "acquire_wallet_writer_lock os data_dir (s\<lparr>lf_files := fs1\<rparr>) = (r2, s2)" by fastforce
  obtain r3 fs3 st3 where 3: "resolve_wallet_seed os lib data_dir store migrate (lf_files s2, st) = (r3, fs3, st3)"
    by (metis prod.collapse)
  obtain r4 fs4 where 4: "finish_open os data_dir database build (projr r3) fs3 = (r4, fs4)" by fastforce
  show ?thesis
    using assms 1 2 3 4 acquired_lock_held [of os data_dir "s\<lparr>lf_files := fs1\<rparr>" _ s2]
    by (cases r1; cases r2; cases r3; cases r4) (auto simp: open_wallet_def)
qed

lemma second_open_refused:
  assumes "lf_held s (wallet_lock_path data_dir)"
    and "open_wallet os lib database build data_dir store migrate (s, st) = (r, s', st')"
  shows "isl r \<and> st' = st \<and> (lf_files s q = None \<or> lf_files s' q = lf_files s q)"
proof -
  obtain r1 fs1 where 1: "create_dir_all os (cashu_wallet_dir data_dir) (lf_files s) = (r1, fs1)" by fastforce
  obtain r2 s2 where 2: "acquire_wallet_writer_lock os data_dir (s\<lparr>lf_files := fs1\<rparr>) = (r2, s2)" by fastforce
  have "isl r2" using lock_held_refused [of "s\<lparr>lf_files := fs1\<rparr>" data_dir os] assms(1) 2 by simp
  moreover have "lf_files s q = None \<or> fs1 q = lf_files s q \<and> lf_files s2 q = lf_files s q"
    using create_dir_all_keeps [of "lf_files s" q os "cashu_wallet_dir data_dir"] 1
      lock_keeps [of "s\<lparr>lf_files := fs1\<rparr>" q os data_dir] 2 by auto
  ultimately show ?thesis using assms(2) 1 2 by (cases r1; cases r2) (auto simp: open_wallet_def)
qed

end
