(* ===== verification/Wallet_Preserve.thy ===== *)
theory Wallet_Preserve
  imports Wallet_Seed_Properties
begin

text \<open>
  Moving an unreadable wallet database into a recovery directory: all of its files are moved, or those
  that were moved are moved back; no file is ever lost, whichever renames fail.
\<close>

section \<open>Where a file is\<close>

text \<open>A move is a source and its destination; \<open>orig\<close> are the files before.\<close>

definition at_source :: "file_system \<Rightarrow> file_system \<Rightarrow> path \<times> path \<Rightarrow> bool" where
  "at_source orig fs m \<longleftrightarrow> fs (fst m) = orig (fst m) \<and> fs (snd m) = None"

definition at_destination :: "file_system \<Rightarrow> file_system \<Rightarrow> path \<times> path \<Rightarrow> bool" where
  "at_destination orig fs m \<longleftrightarrow> fs (fst m) = None \<and> fs (snd m) = orig (fst m)"

definition untouched :: "file_system \<Rightarrow> file_system \<Rightarrow> path set \<Rightarrow> bool" where
  "untouched orig fs except \<longleftrightarrow> (\<forall>p. p \<notin> except \<longrightarrow> fs p = orig p)"

definition ends :: "(path \<times> path) list \<Rightarrow> path list" where
  "ends moves = concat (map (\<lambda>(s, d). [s, d]) moves)"

lemma ends_simps [simp]: "ends [] = []" "ends (m # moves) = fst m # snd m # ends moves"
  "ends (moves @ moves') = ends moves @ ends moves'"
  by (auto simp: ends_def split: prod.splits)

lemma ends_mem: "m \<in> set moves \<Longrightarrow> fst m \<in> set (ends moves) \<and> snd m \<in> set (ends moves)"
  by (induction moves) auto

text \<open>Where a file is only depends on its two ends.\<close>

lemma at_cong:
  assumes "\<And>p. p \<in> set (ends moves) \<Longrightarrow> fs' p = fs p" "m \<in> set moves"
  shows "at_source orig fs' m = at_source orig fs m" "at_destination orig fs' m = at_destination orig fs m"
  using assms ends_mem [of m moves] by (auto simp: at_source_def at_destination_def)

lemma rename_effect:
  assumes "fs_rename os s d fs = (r, fs')" "s \<noteq> d"
  shows "isl r \<and> fs' = fs \<or> \<not> isl r \<and> fs' = fs(s := None, d := fs s)"
  using assms
  by (cases "os_fault os ''rename'' s"; cases "fs s")
    (auto simp: fs_rename_def syscall_def split: if_splits)

section \<open>Rolling back\<close>

lemma roll_back_effect:
  assumes "roll_back os moved fs = (errors, fs')" "distinct (ends moved)"
    "\<forall>m \<in> set moved. at_destination orig fs m"
  shows "(\<forall>m \<in> set moved. at_source orig fs' m \<or> errors \<noteq> [] \<and> at_destination orig fs' m)
    \<and> untouched fs fs' (set (ends moved))"
  using assms
proof (induction moved arbitrary: fs errors fs')
  case (Cons m moved)
  obtain s d where m: "m = (s, d)" by fastforce
  obtain r fs1 where 1: "fs_rename os d s fs = (r, fs1)" by fastforce
  obtain e2 fs2 where 2: "roll_back os moved fs1 = (e2, fs2)" by fastforce
  have fs': "fs' = fs2" and errors: "errors = (case r of Inl e \<Rightarrow> (s, e) # e2 | Inr u \<Rightarrow> e2)"
    using Cons.prems(1) 1 2 m by (auto simp: Let_def)
  have sd: "s \<noteq> d" "s \<notin> set (ends moved)" "d \<notin> set (ends moved)" using Cons.prems(2) m by auto
  note r = rename_effect [OF 1 sd(1) [symmetric]]
  have same: "fs1 p = fs p" if "p \<in> set (ends moved)" for p using r sd that by auto
  have rest: "\<forall>m \<in> set moved. at_destination orig fs1 m"
    using Cons.prems(3) at_cong(2) [of moved fs1 fs, OF same] by simp
  from Cons.IH [OF 2 _ rest] Cons.prems(2) m
  have IH: "\<forall>m \<in> set moved. at_source orig fs2 m \<or> e2 \<noteq> [] \<and> at_destination orig fs2 m"
      "untouched fs1 fs2 (set (ends moved))" by auto
  have here: "fs2 s = fs1 s" "fs2 d = fs1 d" using IH(2) sd by (auto simp: untouched_def)
  have "at_source orig fs' m \<or> errors \<noteq> [] \<and> at_destination orig fs' m"
    using r here sd Cons.prems(3) fs' errors m
    by (cases r) (auto simp: at_source_def at_destination_def)
  moreover have "\<forall>m \<in> set moved. at_source orig fs' m \<or> errors \<noteq> [] \<and> at_destination orig fs' m"
    using IH(1) fs' errors by (cases r) auto
  moreover have "untouched fs fs' (set (ends (m # moved)))"
    using IH(2) r fs' m by (auto simp: untouched_def)
  ultimately show ?case by simp
qed (simp add: untouched_def)

section \<open>Moving\<close>

definition moves_of :: "path \<Rightarrow> path list \<Rightarrow> (path \<times> path) list" where
  "moves_of recovery_dir existing = map (\<lambda>source. (source, join recovery_dir (last source))) existing"

lemma moves_of_simps [simp]:
  "moves_of dir [] = []" "moves_of dir (p # files) = (p, join dir (last p)) # moves_of dir files"
  by (simp_all add: moves_of_def)

text \<open>What a move of all files leaves, by its result.\<close>

definition moved_result :: "file_system \<Rightarrow> SeedError + unit \<Rightarrow> file_system \<Rightarrow> (path \<times> path) list \<Rightarrow> bool" where
  "moved_result orig r fs moves \<longleftrightarrow>
     (case r of
        Inr u \<Rightarrow> \<forall>m \<in> set moves. at_destination orig fs m
      | Inl (PreserveFailed p e) \<Rightarrow> \<forall>m \<in> set moves. at_source orig fs m
      | Inl (RollbackFailed p e errors) \<Rightarrow> \<forall>m \<in> set moves. at_source orig fs m \<or> at_destination orig fs m
      | Inl e \<Rightarrow> False)"

lemma remove_dir_effect: "p \<noteq> path \<Longrightarrow> snd (fs_remove_dir os path names fs) p = fs p"
  by (cases "os_fault os ''rmdir'' path") (auto simp: fs_remove_dir_def syscall_def)

lemma move_each_effect:
  assumes "move_each os dir existing moved fs = (r, fs')"
    "distinct (dir # ends (moved @ moves_of dir existing))"
    "\<forall>m \<in> set moved. at_destination orig fs m" "\<forall>m \<in> set (moves_of dir existing). at_source orig fs m"
  shows "moved_result orig r fs' (moved @ moves_of dir existing)
    \<and> untouched fs fs' (insert dir (set (ends (moved @ moves_of dir existing))))"
  using assms
proof (induction existing arbitrary: moved fs)
  case (Cons s existing)
  define d where "d = join dir (last s)"
  have mo: "moves_of dir (s # existing) = (s, d) # moves_of dir existing" by (simp add: moves_of_def d_def)
  have ne: "s \<noteq> d" using Cons.prems(2) mo by auto
  obtain r1 fs1 where 1: "fs_rename os s d fs = (r1, fs1)" by fastforce
  note e1 = rename_effect [OF 1 ne]
  show ?case
  proof (cases r1)
    case (Inr u)
    then have fs1: "fs1 = fs(s := None, d := fs s)" using e1 by simp
    have 2: "move_each os dir existing ((s, d) # moved) fs1 = (r, fs')"
      using Cons.prems(1) 1 Inr by (simp add: d_def [symmetric])
    have same: "fs1 p = fs p" if "p \<in> set (ends moved) \<or> p \<in> set (ends (moves_of dir existing))" for p
      using Cons.prems(2) mo fs1 that by auto
    have "\<forall>m \<in> set ((s, d) # moved). at_destination orig fs1 m"
      using Cons.prems(3,4) mo fs1 ne at_cong(2) [of moved fs1 fs] same by (auto simp: at_source_def at_destination_def)
    moreover have "\<forall>m \<in> set (moves_of dir existing). at_source orig fs1 m"
      using Cons.prems(4) mo at_cong(1) [of "moves_of dir existing" fs1 fs] same by auto
    ultimately have "moved_result orig r fs' (((s, d) # moved) @ moves_of dir existing)
        \<and> untouched fs1 fs' (insert dir (set (ends (((s, d) # moved) @ moves_of dir existing))))"
      using Cons.IH [OF 2] Cons.prems(2) mo by auto
    then show ?thesis
      using mo fs1 by (auto simp: moved_result_def untouched_def split: sum.splits SeedError.splits)
  next
    case (Inl e)
    then have fs1: "fs1 = fs" using e1 by simp
    obtain errors fs2 where 2: "roll_back os moved fs = (errors, fs2)" by fastforce
    have d2: "distinct (ends moved)" using Cons.prems(2) by simp
    note rb = roll_back_effect [OF 2 d2 Cons.prems(3)]
    define fs3 where "fs3 = snd (fs_remove_dir os dir (map (\<lambda>(s, d). last s) moved) fs2)"
    have fs3: "p \<noteq> dir \<Longrightarrow> fs3 p = fs2 p" for p unfolding fs3_def by (rule remove_dir_effect)
    have res: "fs' = fs3" "r = (if errors = [] then Inl (PreserveFailed s e) else Inl (RollbackFailed s e errors))"
      using Cons.prems(1) 1 Inl fs1 2 by (auto simp: d_def [symmetric] fs3_def Let_def split: prod.splits if_splits)
    have same: "fs3 p = fs2 p" if "p \<in> set (ends moved)" for p
      using that Cons.prems(2) by (intro fs3) auto
    have "\<forall>m \<in> set moved. at_source orig fs3 m \<or> errors \<noteq> [] \<and> at_destination orig fs3 m"
      using rb at_cong [of moved fs3 fs2, OF same] by simp
    moreover have "\<forall>m \<in> set (moves_of dir (s # existing)). at_source orig fs3 m"
    proof -
      have "fs3 p = fs p" if "p \<in> set (ends (moves_of dir (s # existing)))" for p
        using that rb fs3 [of p] Cons.prems(2) by (fastforce simp: untouched_def)
      then show ?thesis using Cons.prems(4) at_cong(1) [of "moves_of dir (s # existing)" fs3 fs] by auto
    qed
    ultimately show ?thesis
      using res rb fs3 by (auto simp: moved_result_def untouched_def)
  qed
qed (auto simp: moved_result_def untouched_def moves_of_def)

section \<open>The files of a database\<close>

definition recovery_path :: "path \<Rightarrow> string \<Rightarrow> path" where
  "recovery_path data_dir uuid = join (join (cashu_wallet_dir data_dir) ''recovery'') uuid"

lemma database_file:
  "p \<in> set (cashu_wallet_database_files data_dir) \<Longrightarrow> \<exists>name. p = data_dir @ [''cashu'', name] \<and> name \<noteq> ''wallet.lock''"
  by (auto simp: cashu_wallet_database_files_def cashu_wallet_db_path_def cashu_wallet_dir_def join_def
      extend_path_def WAL_SIDECARS_def Let_def butlast_append)

lemma database_files_distinct: "distinct (map last (cashu_wallet_database_files data_dir))"
  by (simp add: cashu_wallet_database_files_def cashu_wallet_db_path_def cashu_wallet_dir_def join_def
      extend_path_def WAL_SIDECARS_def Let_def)

lemma ends_set: "set (ends (moves_of dir files)) = set files \<union> (\<lambda>p. join dir (last p)) ` set files"
  by (induction files) auto

lemma distinct_moves:
  assumes "\<forall>p \<in> set files. length p < length dir" "distinct (map last files)"
  shows "distinct (dir # ends (moves_of dir files))"
  using assms
proof (induction files)
  case (Cons p files)
  have "p \<notin> set files" "join dir (last p) \<notin> set files" "dir \<notin> set (ends (moves_of dir (p # files)))"
    using Cons.prems by (force simp: join_def ends_set)+
  moreover have "length (join dir q) > length p" for q using Cons.prems by (simp add: join_def)
  then have "p \<noteq> join dir q" for q by (metis less_irrefl)
  moreover have "join dir (last p) \<notin> (\<lambda>p. join dir (last p)) ` set files"
    using Cons.prems by (force simp: join_def)
  ultimately show ?case
    using Cons by (auto simp: ends_set)
qed simp

lemma lock_effect:
  assumes "\<And>i target. lf_files s (wallet_lock_path data_dir) = Some i \<Longrightarrow> in_kind i \<noteq> SymbolicLink target"
    "q \<noteq> wallet_lock_path data_dir"
  shows "lf_files (snd (acquire_wallet_writer_lock os data_dir s)) q = lf_files s q"
proof -
  let ?lock = "wallet_lock_path data_dir"
  have "follow 40 (lf_files s) ?lock = Inr ?lock"
    using assms(1) by (cases "lf_files s ?lock"; cases "in_kind (the (lf_files s ?lock))")
      (auto simp: numeral_eq_Suc)
  then have "snd (fs_open_or_create os ?lock (lf_files s)) q = lf_files s q"
    using assms(2) by (cases "os_fault os ''create'' ?lock"; cases "lf_files s ?lock")
      (auto simp: fs_open_or_create_def syscall_def)
  then show ?thesis
    by (cases "fs_open_or_create os ?lock (lf_files s)"; cases "fst (fs_open_or_create os ?lock (lf_files s))";
        cases "os_fault os ''flock'' ?lock") (auto simp: acquire_wallet_writer_lock_def syscall_def Let_def)
qed

definition fresh_directory :: "path \<Rightarrow> file_system \<Rightarrow> bool" where
  "fresh_directory dir fs \<longleftrightarrow> (\<forall>rest. fs (dir @ rest) = None)"

text \<open>Where one file of the database is, by the result of the whole operation.\<close>

definition preserved :: "path \<Rightarrow> path \<Rightarrow> inode \<Rightarrow> SeedError + path option \<Rightarrow> file_system \<Rightarrow> bool" where
  "preserved dir p i r fs \<longleftrightarrow>
     (fs p = Some i \<or> fs (join dir (last p)) = Some i)
     \<and> (isl r \<or> r = Inr (Some dir) \<and> fs p = None \<and> fs (join dir (last p)) = Some i)
     \<and> (\<not> isl r \<or> (\<exists>source e errors. r = Inl (RollbackFailed source e errors)) \<or> fs p = Some i)"

lemma regular_exists:
  "fs p = Some i \<Longrightarrow> in_kind i = RegularFile \<Longrightarrow> os_fault os ''stat'' p = None \<Longrightarrow> path_exists os p fs"
  by (simp add: path_exists_present present_def numeral_eq_Suc)

lemma created_recovery:
  assumes "create_dir_all os dir fs = (r, fs')" "fresh_directory dir fs"
  shows "fs p = Some i \<Longrightarrow> fs' p = Some i" "fs' (join dir name) = None"
proof -
  show "fs' p = Some i" if "fs p = Some i"
    using create_dir_all_keeps [of fs p os dir] assms(1) that by simp
  have "length (take n dir) < length (join dir name)" for n by (simp add: join_def)
  then have "\<forall>n. join dir name \<noteq> take n dir" by (metis less_irrefl)
  then show "fs' (join dir name) = None"
    using create_dir_all_effect(2) [OF assms(1)] assms(2) by (simp add: fresh_directory_def join_def)
qed

lemma moved_preserved:
  assumes "moved_result orig r fs moves" "(p, join dir (last p)) \<in> set moves" "orig p = Some i"
  shows "preserved dir p i (case r of Inl e \<Rightarrow> Inl e | Inr u \<Rightarrow> Inr (Some dir)) fs"
proof (cases r)
  case (Inl e)
  then show ?thesis
    using assms by (cases e) (auto simp: moved_result_def preserved_def at_source_def at_destination_def)
next
  case (Inr u)
  then show ?thesis using assms by (auto simp: moved_result_def preserved_def at_destination_def)
qed

text \<open>The files that are found are moved; every other file stays.\<close>

abbreviation found_files :: "os \<Rightarrow> path \<Rightarrow> file_system \<Rightarrow> path list" where
  "found_files os data_dir fs \<equiv> filter (\<lambda>p. path_exists os p fs) (cashu_wallet_database_files data_dir)"

lemma found_files_moved:
  assumes "fresh_directory (recovery_path data_dir uuid) fs"
    and "create_dir_all os (recovery_path data_dir uuid) fs = (Inr u, fs1)"
    and "move_each os (recovery_path data_dir uuid) (found_files os data_dir fs) [] fs1 = (r, fs2)"
  shows "moved_result fs1 r fs2 (moves_of (recovery_path data_dir uuid) (found_files os data_dir fs))
    \<and> untouched fs1 fs2 (insert (recovery_path data_dir uuid)
        (set (ends (moves_of (recovery_path data_dir uuid) (found_files os data_dir fs)))))"
proof -
  let ?dir = "recovery_path data_dir uuid"
  have "\<forall>p \<in> set (found_files os data_dir fs). length p < length ?dir"
    using database_file [of _ data_dir] by (fastforce simp: recovery_path_def cashu_wallet_dir_def join_def)
  then have d: "distinct (?dir # ends ([] @ moves_of ?dir (found_files os data_dir fs)))"
    using distinct_moves [of "found_files os data_dir fs" ?dir] database_files_distinct [of data_dir]
    by (simp add: distinct_map_filter)
  have s: "\<forall>m \<in> set (moves_of ?dir (found_files os data_dir fs)). at_source fs1 fs1 m"
    using created_recovery(2) [OF assms(2,1)] by (auto simp: moves_of_def at_source_def)
  show ?thesis using move_each_effect [OF assms(3) d _ s] by simp
qed

lemma move_database_steps:
  assumes "move_database os uuid data_dir fs = (r, fs')"
  obtains "found_files os data_dir fs = []" "r = Inr None" "fs' = fs"
  | e where "create_dir_all os (recovery_path data_dir uuid) fs = (Inl e, fs')" "isl r"
      "\<nexists>source e errors. r = Inl (RollbackFailed source e errors)"
  | u fs1 r2 where "create_dir_all os (recovery_path data_dir uuid) fs = (Inr u, fs1)"
      "move_each os (recovery_path data_dir uuid) (found_files os data_dir fs) [] fs1 = (r2, fs')"
      "r = (case r2 of Inl e \<Rightarrow> Inl e | Inr u \<Rightarrow> Inr (Some (recovery_path data_dir uuid)))"
proof (cases "found_files os data_dir fs = []")
  case True
  then have "move_database os uuid data_dir fs = (Inr None, fs)"
    unfolding move_database_def Let_def by (simp only: if_True simp_thms)
  then show ?thesis using that(1) [OF True] assms by simp
next
  case False
  then have m: "move_database os uuid data_dir fs =
      (let (made, fs1) = create_dir_all os (recovery_path data_dir uuid) fs in
       attempt (map_err (SeedIo ''failed to create Cashu wallet recovery directory'') made) fs1 (\<lambda>_.
       attempt_mut (move_each os (recovery_path data_dir uuid) (found_files os data_dir fs) [] fs1)
         (\<lambda>_ fs. (Inr (Some (recovery_path data_dir uuid)), fs))))"
    unfolding move_database_def recovery_path_def Let_def by (simp only: if_False)
  obtain r1 fs1 where 1: "create_dir_all os (recovery_path data_dir uuid) fs = (r1, fs1)" by fastforce
  obtain r2 fs2 where 2: "move_each os (recovery_path data_dir uuid) (found_files os data_dir fs) [] fs1 = (r2, fs2)" by fastforce
  show ?thesis
  proof (cases r1)
    case (Inl e)
    then have "r = Inl (SeedIo ''failed to create Cashu wallet recovery directory'' e)" "fs' = fs1"
      using assms m 1 by simp_all
    then show ?thesis using that(2) [of e] 1 Inl by simp
  next
    case (Inr u)
    then have "r = (case r2 of Inl e \<Rightarrow> Inl e | Inr u \<Rightarrow> Inr (Some (recovery_path data_dir uuid)))" "fs' = fs2"
      using assms m 1 2 by (cases r2; simp)+
    then show ?thesis using that(3) [of u fs1 r2] 1 2 Inr by simp
  qed
qed

lemma move_database_preserved:
  assumes "move_database os uuid data_dir fs = (r, fs')" "fresh_directory (recovery_path data_dir uuid) fs"
    and "p \<in> set (found_files os data_dir fs)" "fs p = Some i"
  shows "preserved (recovery_path data_dir uuid) p i r fs'"
  using assms(1)
proof (cases rule: move_database_steps)
  case 1
  then show ?thesis using assms(3) by (metis empty_iff empty_set)
next
  case (2 e)
  then show ?thesis using created_recovery(1) [OF 2(1) assms(2,4)] by (simp add: preserved_def)
next
  case (3 u fs1 r2)
  have "(p, join (recovery_path data_dir uuid) (last p)) \<in> set (moves_of (recovery_path data_dir uuid) (found_files os data_dir fs))"
    using assms(3) by (auto simp: moves_of_def)
  then show ?thesis
    using moved_preserved [OF conjunct1 [OF found_files_moved [OF assms(2) 3(1,2)]]]
      created_recovery(1) [OF 3(1) assms(2,4)] 3(3) by simp
qed

lemma move_database_frame:
  assumes "move_database os uuid data_dir fs = (r, fs')" "fresh_directory (recovery_path data_dir uuid) fs"
    and "q \<notin> set (found_files os data_dir fs)" "fs q = Some j"
  shows "fs' q = Some j"
  using assms(1)
proof (cases rule: move_database_steps)
  case (2 e)
  then show ?thesis using created_recovery(1) [OF 2(1) assms(2,4)] by simp
next
  case (3 u fs1 r2)
  let ?dir = "recovery_path data_dir uuid"
  have "q \<notin> insert ?dir (set (ends (moves_of ?dir (found_files os data_dir fs))))"
    using assms(2-4) unfolding ends_set fresh_directory_def
    by (auto simp: join_def) (metis append_Nil2 option.distinct(1))+
  then show ?thesis
    using found_files_moved [OF assms(2) 3(1,2)] created_recovery(1) [OF 3(1) assms(2,4)] by (simp add: untouched_def)
qed (use assms(4) in simp)

text \<open>C34. Moving an unreadable database away loses nothing, whichever system calls fail. Each regular file
  of the database is afterwards where it was or in the recovery directory, with its content. On success
  all of them whose lookup succeeds are in the recovery directory, and one whose lookup fails is where it
  was; on an error that does not report a failed rollback all of them are where they were. No other file
  is changed. The recovery directory's name is new and the lock file is no symbolic link.\<close>

theorem preserve_all_or_nothing:
  assumes "preserve_cashu_wallet_database os uuid data_dir s = (r, s')"
    and fresh: "\<And>rest. lf_files s (recovery_path data_dir uuid @ rest) = None"
    and link: "\<And>i target. lf_files s (wallet_lock_path data_dir) = Some i \<Longrightarrow> in_kind i \<noteq> SymbolicLink target"
    and p: "p \<in> set (cashu_wallet_database_files data_dir)" "lf_files s p = Some i" "in_kind i = RegularFile"
    and q: "q \<notin> set (cashu_wallet_database_files data_dir)" "lf_files s q = Some j"
  shows "(lf_files s' p = Some i \<or> lf_files s' (join (recovery_path data_dir uuid) (last p)) = Some i)
    \<and> (isl r \<or> os_fault os ''stat'' p \<noteq> None
       \<or> r = Inr (Some (recovery_path data_dir uuid)) \<and> lf_files s' p = None
         \<and> lf_files s' (join (recovery_path data_dir uuid) (last p)) = Some i)
    \<and> (os_fault os ''stat'' p \<noteq> None \<longrightarrow> lf_files s' p = Some i)
    \<and> (\<not> isl r \<or> (\<exists>source e errors. r = Inl (RollbackFailed source e errors)) \<or> lf_files s' p = Some i)
    \<and> lf_files s' q = Some j"
proof -
  let ?dir = "recovery_path data_dir uuid"
  obtain r1 fs1 where 1: "create_dir_all os (cashu_wallet_dir data_dir) (lf_files s) = (r1, fs1)" by fastforce
  obtain r2 s2 where 2: "acquire_wallet_writer_lock os data_dir (s\<lparr>lf_files := fs1\<rparr>) = (r2, s2)" by fastforce
  have keep: "fs1 x = Some k \<and> lf_files s2 x = Some k" if "lf_files s x = Some k" for x k
    using create_dir_all_keeps [of "lf_files s" x os "cashu_wallet_dir data_dir"] 1
      lock_keeps [of "s\<lparr>lf_files := fs1\<rparr>" x os data_dir] 2 that by simp
  have new: "fresh_directory ?dir (lf_files s2)" unfolding fresh_directory_def
  proof
    fix rest
    have len: "length (?dir @ rest) > length (wallet_lock_path data_dir)" "length (?dir @ rest) > length (cashu_wallet_dir data_dir)"
      by (simp_all add: recovery_path_def wallet_lock_path_def cashu_wallet_dir_def join_def)
    then have "length (take n (cashu_wallet_dir data_dir)) < length (?dir @ rest)" for n by simp
    then have "\<forall>n. ?dir @ rest \<noteq> take n (cashu_wallet_dir data_dir)" by (metis less_irrefl)
    then have "fs1 (?dir @ rest) = None" using create_dir_all_effect(2) [OF 1] fresh by simp
    moreover have "in_kind k \<noteq> SymbolicLink target" if "fs1 (wallet_lock_path data_dir) = Some k" for k target
      using create_dir_all_effect(1) [OF 1] that link unfolding only_directories_added_def by (metis file_kind.distinct(7) option.inject)
    ultimately show "lf_files s2 (?dir @ rest) = None"
      using lock_effect [of "s\<lparr>lf_files := fs1\<rparr>" data_dir "?dir @ rest" os] len(1) 2 by fastforce
  qed
  obtain r3 fs3 where 3: "move_database os uuid data_dir (lf_files s2) = (r3, fs3)" by fastforce
  have k2: "lf_files s2 p = Some i" "lf_files s2 q = Some j" using keep p(2) q(2) by blast+
  have found: "p \<in> set (found_files os data_dir (lf_files s2)) \<longleftrightarrow> os_fault os ''stat'' p = None"
    using regular_exists [of "lf_files s2" p i os] k2(1) p(1,3) by (auto simp: path_exists_present)
  have kp: "os_fault os ''stat'' p = None \<Longrightarrow> preserved ?dir p i r3 fs3"
    using move_database_preserved [OF 3 new _ k2(1)] found by blast
  have kq: "fs3 q = Some j" "os_fault os ''stat'' p \<noteq> None \<Longrightarrow> fs3 p = Some i"
    using move_database_frame [OF 3 new _ k2(2)] move_database_frame [OF 3 new _ k2(1)] q(1) found by auto
  show ?thesis
    using assms(1) 1 2 3 kp kq keep [OF p(2)] keep [OF q(2)]
    by (cases r1; cases r2; cases "os_fault os ''stat'' p")
      (auto simp: preserve_cashu_wallet_database_def release_wallet_writer_lock_def preserved_def)
qed

theorem preserve_all_or_nothing_witness:
  "\<exists>s'. preserve_cashu_wallet_database healthy_os ''u'' [''d''] \<lparr>lf_files = wallet_files, lf_held = (\<lambda>p. False)\<rparr>
       = (Inr (Some (recovery_path [''d''] ''u'')), s')
     \<and> lf_files s' (cashu_wallet_db_path [''d'']) = None
     \<and> lf_files s' (join (recovery_path [''d''] ''u'') ''wallet.sqlite'') = Some (new_inode healthy_os RegularFile 0x1A4 ''db'')
     \<and> lf_files s' (cashu_wallet_seed_path [''d'']) = Some (new_inode healthy_os RegularFile 0x180 ''old'')"
proof -
  let ?s = "\<lparr>lf_files = wallet_files, lf_held = (\<lambda>p. False)\<rparr>"
  define w where "w = preserve_cashu_wallet_database healthy_os ''u'' [''d''] ?s"
  define i where "i = new_inode healthy_os RegularFile 0x1A4 ''db''"
  define j where "j = new_inode healthy_os RegularFile 0x180 ''old''"
  have w: "preserve_cashu_wallet_database healthy_os ''u'' [''d''] ?s = (fst w, snd w)" by (simp add: w_def)
  have fresh: "lf_files ?s (recovery_path [''d''] ''u'' @ rest) = None" for rest
    by (simp add: wallet_files_def recovery_path_def cashu_wallet_dir_def join_def)
  have "wallet_files (wallet_lock_path [''d'']) = None" by code_simp
  then have link: "in_kind k \<noteq> SymbolicLink target" if "lf_files ?s (wallet_lock_path [''d'']) = Some k" for k target
    using that by simp
  have p: "cashu_wallet_db_path [''d''] \<in> set (cashu_wallet_database_files [''d''])" by code_simp
  have "wallet_files (cashu_wallet_db_path [''d'']) = Some (new_inode healthy_os RegularFile 0x1A4 ''db'')" by code_simp
  then have pi: "lf_files ?s (cashu_wallet_db_path [''d'']) = Some i" "in_kind i = RegularFile"
    by (simp_all add: i_def new_inode_def)
  have ps: "os_fault healthy_os ''stat'' (cashu_wallet_db_path [''d'']) = None" by (simp add: healthy_os_def)
  have q: "cashu_wallet_seed_path [''d''] \<notin> set (cashu_wallet_database_files [''d''])" by code_simp
  have "wallet_files (cashu_wallet_seed_path [''d'']) = Some (new_inode healthy_os RegularFile 0x180 ''old'')" by code_simp
  then have qj: "lf_files ?s (cashu_wallet_seed_path [''d'']) = Some j" by (simp add: j_def)
  have "isl (fst w) = False" unfolding w_def by code_simp
  moreover have "last (cashu_wallet_db_path [''d'']) = ''wallet.sqlite''" by code_simp
  ultimately show ?thesis
    using preserve_all_or_nothing [OF w fresh link p pi q qj] ps unfolding w_def [symmetric] i_def [symmetric] j_def [symmetric]
    by (intro exI [of _ "snd w"]) (auto simp: prod_eq_iff)
qed

end
