(* ===== verification/Wallet_Activity.thy ===== *)
theory Wallet_Activity
  imports Cross_Mint
begin

text \<open>
  The activity log of a wallet (\<open>wallet.rs\<close>): a JSON list in the key-value store of the wallet's
  database, newest entry first, cut to 200 entries; appending, marking a reclaimed token, and bringing
  the statuses up to date when the log is shown. JSON, UUID and hexadecimal parsing are code of other
  crates (\<open>wallet_lib\<close>); time and randomness are the argument \<open>env\<close>. \<open>sort_by\<close> is the stable sort of
  the standard library. The operation mutex serialises the calls of one process.
\<close>

section \<open>Data\<close>

datatype CashuWalletActivityKind = TopUp | LightningPayment | TokenSend | TokenReceive | ChannelCollect

datatype CashuWalletActivityStatus = Pending | Complete | Reclaimed | Expired

record CashuWalletActivityEntry =
  av_id :: string
  av_kind :: CashuWalletActivityKind
  av_status :: CashuWalletActivityStatus
  av_mint_url :: string
  av_unit :: string
  av_amount_sat :: u64
  av_fee_sat :: "u64 option"
  av_created_at_unix :: u64
  av_expires_at_unix :: "u64 option"
  av_quote_id :: "string option"
  av_operation_id :: "string option"
  av_payment_request :: "string option"
  av_token :: "string option"

text \<open>A parsed token has a mint, or none or several, and a unit.\<close>

record token_parts =
  tk_mint_url :: "string + string"
  tk_unit :: "currency_unit option"

record 'u wallet_lib =
  wl_urls :: "'u transfer_lib"
  activity_to_vec :: "CashuWalletActivityEntry list \<Rightarrow> string + u8 list"
  activity_from_slice :: "u8 list \<Rightarrow> string + CashuWalletActivityEntry list"
  token_from_str :: "string \<Rightarrow> string + token_parts"
  proofs_from_str :: "string \<Rightarrow> string + cdk_proof list"
  proof_y :: "cdk_proof \<Rightarrow> string + string"
  uuid_parse :: "string \<Rightarrow> string + string"
  bytes_to_hex :: "u8 list \<Rightarrow> string"

record 'w local_store =
  ls_kv_read :: "string \<Rightarrow> string \<Rightarrow> string \<Rightarrow> ('w, u8 list option) io"
  ls_kv_write :: "string \<Rightarrow> string \<Rightarrow> string \<Rightarrow> u8 list \<Rightarrow> ('w, unit) io"

record activity_env =
  ae_id_unix :: u64
  ae_now_unix :: u64
  ae_suffix :: "u8 list"

definition K_WALLET_ACTIVITY_PRIMARY_NAMESPACE :: string where
  "K_WALLET_ACTIVITY_PRIMARY_NAMESPACE = ''iris_wallet''"

definition K_WALLET_ACTIVITY_SECONDARY_NAMESPACE :: string where
  "K_WALLET_ACTIVITY_SECONDARY_NAMESPACE = ''activity''"

definition K_WALLET_ACTIVITY_KEY :: string where
  "K_WALLET_ACTIVITY_KEY = ''entries''"

definition K_MAX_WALLET_ACTIVITY_ENTRIES :: nat where
  "K_MAX_WALLET_ACTIVITY_ENTRIES = 200"

text \<open>Decimal digits of a number, as \<open>Display\<close> prints it.\<close>

fun display_nat :: "nat \<Rightarrow> string" where
  "display_nat n =
     (if n < 10 then [char_of (48 + n)] else display_nat (n div 10) @ [char_of (48 + n mod 10)])"

declare display_nat.simps [simp del]

definition wallet_activity_id :: "'u wallet_lib \<Rightarrow> activity_env \<Rightarrow> string" where
  "wallet_activity_id lib env = display_nat (unat (ae_id_unix env)) @ ''-'' @ bytes_to_hex lib (ae_suffix env)"

section \<open>The log\<close>

fun insert_by :: "('a \<Rightarrow> 'a \<Rightarrow> bool) \<Rightarrow> 'a \<Rightarrow> 'a list \<Rightarrow> 'a list" where
  "insert_by le x [] = [x]"
| "insert_by le x (y # ys) = (if le x y then x # y # ys else y # insert_by le x ys)"

definition sort_by :: "('a \<Rightarrow> 'a \<Rightarrow> bool) \<Rightarrow> 'a list \<Rightarrow> 'a list" where
  "sort_by le xs = foldr (insert_by le) xs []"

definition newest_first :: "CashuWalletActivityEntry \<Rightarrow> CashuWalletActivityEntry \<Rightarrow> bool" where
  "newest_first left right \<longleftrightarrow>
     av_created_at_unix right < av_created_at_unix left
     \<or> av_created_at_unix right = av_created_at_unix left \<and> av_id right \<le> av_id left"

definition sort_wallet_activity_entries :: "CashuWalletActivityEntry list \<Rightarrow> CashuWalletActivityEntry list" where
  "sort_wallet_activity_entries entries =
     (let entries = sort_by newest_first entries in
      if length entries > K_MAX_WALLET_ACTIVITY_ENTRIES then take K_MAX_WALLET_ACTIVITY_ENTRIES entries else entries)"

definition load_wallet_activity_entries_from_store ::
    "'u wallet_lib \<Rightarrow> 'w local_store \<Rightarrow> 'w \<Rightarrow> (TransferError + CashuWalletActivityEntry list) \<times> 'w" where
  "load_wallet_activity_entries_from_store lib localstore w =
     attempt_mut (with_context ''Failed to read Cashu wallet activity''
       (ls_kv_read localstore K_WALLET_ACTIVITY_PRIMARY_NAMESPACE K_WALLET_ACTIVITY_SECONDARY_NAMESPACE
          K_WALLET_ACTIVITY_KEY w)) (\<lambda>stored w.
     attempt (case stored of
                None \<Rightarrow> Inr []
              | Some bytes \<Rightarrow>
                  if bytes \<noteq> []
                  then map_err (Cdk ''Failed to parse Cashu wallet activity'') (activity_from_slice lib bytes)
                  else Inr []) w (\<lambda>entries.
     (Inr (sort_wallet_activity_entries entries), w)))"

text \<open>The caller's list is sorted and cut in place, so it is returned.\<close>

definition save_wallet_activity_entries_to_store ::
    "'u wallet_lib \<Rightarrow> 'w local_store \<Rightarrow> CashuWalletActivityEntry list \<Rightarrow> 'w
       \<Rightarrow> (TransferError + CashuWalletActivityEntry list) \<times> 'w" where
  "save_wallet_activity_entries_to_store lib localstore entries w =
     (let entries = sort_wallet_activity_entries entries in
      attempt (map_err (Cdk ''Failed to encode Cashu wallet activity'') (activity_to_vec lib entries)) w (\<lambda>encoded.
      attempt_mut (with_context ''Failed to write Cashu wallet activity''
        (ls_kv_write localstore K_WALLET_ACTIVITY_PRIMARY_NAMESPACE K_WALLET_ACTIVITY_SECONDARY_NAMESPACE
           K_WALLET_ACTIVITY_KEY encoded w)) (\<lambda>_ w. (Inr entries, w))))"

definition append_wallet_activity_entry ::
    "'u wallet_lib \<Rightarrow> 'w local_store \<Rightarrow> CashuWalletActivityEntry \<Rightarrow> 'w \<Rightarrow> (TransferError + unit) \<times> 'w" where
  "append_wallet_activity_entry lib localstore entry w =
     attempt_mut (load_wallet_activity_entries_from_store lib localstore w) (\<lambda>entries w.
     attempt_mut (save_wallet_activity_entries_to_store lib localstore (entries @ [entry]) w) (\<lambda>_ w. (Inr (), w)))"

definition to_reclaim :: "string \<Rightarrow> CashuWalletActivityEntry \<Rightarrow> bool" where
  "to_reclaim operation_id entry \<longleftrightarrow>
     av_kind entry = TokenSend \<and> av_operation_id entry = Some operation_id \<and> av_status entry \<noteq> Reclaimed"

definition mark_wallet_activity_reclaimed ::
    "'u wallet_lib \<Rightarrow> 'w local_store \<Rightarrow> string \<Rightarrow> 'w \<Rightarrow> (TransferError + unit) \<times> 'w" where
  "mark_wallet_activity_reclaimed lib localstore operation_id w =
     attempt_mut (load_wallet_activity_entries_from_store lib localstore w) (\<lambda>entries w.
     if list_ex (to_reclaim operation_id) entries
     then attempt_mut (save_wallet_activity_entries_to_store lib localstore
            (map (\<lambda>entry. if to_reclaim operation_id entry then entry\<lparr>av_status := Reclaimed\<rparr> else entry) entries) w)
            (\<lambda>_ w. (Inr (), w))
     else (Inr (), w))"

section \<open>Bringing the statuses up to date\<close>

text \<open>The quotes and the wallets, by id and by mint; a later one replaces an earlier one.\<close>

record 'w activity_context =
  ax_quotes :: "string \<rightharpoonup> MintQuote"
  ax_wallets :: "string \<rightharpoonup> 'w cdk_wallet"

fun collect_wallets ::
    "'w cdk_wallet list \<Rightarrow> 'w activity_context \<Rightarrow> 'w \<Rightarrow> (TransferError + 'w activity_context) \<times> 'w" where
  "collect_wallets [] ax w = (Inr ax, w)"
| "collect_wallets (wallet # wallets) ax w =
     attempt_mut (with_context ''Failed to load Cashu mint quotes for activity'' (cw_get_mint_quotes wallet w))
       (\<lambda>quotes w.
     collect_wallets wallets
       (ax\<lparr>ax_quotes := foldl (\<lambda>m quote. m(mq_id quote \<mapsto> quote)) (ax_quotes ax) quotes,
           ax_wallets := (ax_wallets ax)(cw_mint_url wallet \<mapsto> wallet)\<rparr>) w)"

definition top_up_status :: "(string \<rightharpoonup> MintQuote) \<Rightarrow> u64 \<Rightarrow> CashuWalletActivityEntry \<Rightarrow> CashuWalletActivityStatus" where
  "top_up_status quotes now_unix entry =
     (case av_quote_id entry of
        None \<Rightarrow> av_status entry
      | Some quote_id \<Rightarrow>
          (case quotes quote_id of
             Some quote \<Rightarrow>
               if mq_state quote = MintIssued \<or> mq_state quote = MintPaid then Complete
               else if mq_state quote = MintUnpaid \<and> mq_expiry quote \<noteq> 0 \<and> mq_expiry quote < now_unix then Expired
               else Pending
           | None \<Rightarrow>
               (case av_expires_at_unix entry of
                  Some expiry \<Rightarrow> if expiry \<noteq> 0 \<and> expiry < now_unix then Expired else av_status entry
                | None \<Rightarrow> av_status entry)))"

definition update_entry ::
    "'u wallet_lib \<Rightarrow> 'w activity_context \<Rightarrow> u64 \<Rightarrow> CashuWalletActivityEntry \<Rightarrow> 'w
       \<Rightarrow> (TransferError + CashuWalletActivityEntry) \<times> 'w" where
  "update_entry lib ax now_unix entry w =
     (if av_kind entry = TopUp
      then (Inr (entry\<lparr>av_status := top_up_status (ax_quotes ax) now_unix entry\<rparr>), w)
      else if av_kind entry = TokenSend \<and> av_status entry = Pending
      then (case av_operation_id entry of
              None \<Rightarrow> (Inr entry, w)
            | Some operation_id \<Rightarrow>
                (case ax_wallets ax (av_mint_url entry) of
                   None \<Rightarrow> (Inr entry, w)
                 | Some wallet \<Rightarrow>
                     (case uuid_parse lib operation_id of
                        Inl e \<Rightarrow> (Inr entry, w)
                      | Inr operation_uuid \<Rightarrow>
                          attempt_mut (with_context ''Failed to load Cashu send saga for activity''
                            (cw_get_saga wallet operation_uuid w)) (\<lambda>saga w.
                          (Inr (if saga = None then entry\<lparr>av_status := Complete\<rparr> else entry), w)))))
      else (Inr entry, w))"

fun update_entries ::
    "'u wallet_lib \<Rightarrow> 'w activity_context \<Rightarrow> u64 \<Rightarrow> CashuWalletActivityEntry list \<Rightarrow> 'w
       \<Rightarrow> (TransferError + CashuWalletActivityEntry list) \<times> 'w" where
  "update_entries lib ax now_unix [] w = (Inr [], w)"
| "update_entries lib ax now_unix (entry # entries) w =
     attempt_mut (update_entry lib ax now_unix entry w) (\<lambda>entry w.
     attempt_mut (update_entries lib ax now_unix entries w) (\<lambda>entries w. (Inr (entry # entries), w)))"

text \<open>The log was changed exactly when an entry got another status.\<close>

definition load_wallet_activity ::
    "'u wallet_lib \<Rightarrow> 'w local_store \<Rightarrow> 'w wallet_repository \<Rightarrow> u64 \<Rightarrow> 'w
       \<Rightarrow> (TransferError + CashuWalletActivityEntry list) \<times> 'w" where
  "load_wallet_activity lib localstore repository now_unix w =
     attempt_mut (load_wallet_activity_entries_from_store lib localstore w) (\<lambda>entries w.
     if entries = [] then (Inr entries, w)
     else
       let (wallets, w) = repo_get_wallets repository w in
       attempt_mut (collect_wallets wallets \<lparr>ax_quotes = Map.empty, ax_wallets = Map.empty\<rparr> w) (\<lambda>ax w.
       attempt_mut (update_entries lib ax now_unix entries w) (\<lambda>updated w.
       if updated \<noteq> entries
       then save_wallet_activity_entries_to_store lib localstore updated w
       else (Inr updated, w))))"

end
