(* ===== verification/Wallet_Operations.thy ===== *)
theory Wallet_Operations
  imports Wallet_Activity
begin

text \<open>
  The operations of the wallet service (\<open>wallet.rs\<close>, \<open>wallet/send.rs\<close>, \<open>recover_startup_state\<close> of
  \<open>wallet/runtime.rs\<close> and the payment values of \<open>helper.rs\<close>): top-up, balance, Lightning payments,
  sending, receiving and reclaiming tokens, importing proofs, the overview and the recovery at start.
  The CDK wallet is a parameter (\<open>Cdk_Wallet\<close>). Every operation that moves money appends an entry to
  the activity log at its end. The counters of the recovery report are added as in a release build, without a
  check for overflow.
\<close>

section \<open>Values\<close>

record CashuSentPayment =
  sn_mint_url :: string
  sn_unit :: string
  sn_amount_sat :: u64
  sn_send_fee_sat :: u64
  sn_operation_id :: string
  sn_token :: string

record CashuReceivedPayment =
  rc_mint_url :: string
  rc_unit :: string
  rc_amount_sat :: u64

record CashuMintBalance =
  mb_mint_url :: string
  mb_unit :: string
  mb_balance_sat :: u64

record CashuLightningPayment =
  ln_mint_url :: string
  ln_unit :: string
  ln_amount_sat :: u64
  ln_fee_paid_sat :: u64
  ln_quote_id :: string
  ln_preimage :: string

record CashuWalletEntry =
  we_mint_url :: string
  we_unit :: string
  we_balance :: u64

record CashuUnitTotal =
  ut_unit :: string
  ut_balance :: u64

datatype wallet_warning =
    RecoverFailed string string string | RefreshFailed string string string | FinalizeFailed string string string

record CashuWalletOverview =
  ov_totals :: "CashuUnitTotal list"
  ov_entries :: "CashuWalletEntry list"
  ov_warnings :: "wallet_warning list"
  ov_legacy_state_detected :: bool

record CashuTopupQuote =
  tu_mint_url :: string
  tu_unit :: string
  tu_amount :: u64
  tu_quote_id :: string
  tu_payment_request :: string
  tu_expiry_unix :: u64

text \<open>An error of this crate under a context.\<close>

definition within :: "string \<Rightarrow> (TransferError + 'a) \<times> 'w \<Rightarrow> (TransferError + 'a) \<times> 'w" where
  "within message p = (map_err (Within message) (fst p), snd p)"

text \<open>An entry made at the time of the call.\<close>

definition activity_entry ::
    "'u wallet_lib \<Rightarrow> activity_env \<Rightarrow> CashuWalletActivityKind \<Rightarrow> CashuWalletActivityStatus \<Rightarrow> string \<Rightarrow> string \<Rightarrow> u64
       \<Rightarrow> CashuWalletActivityEntry" where
  "activity_entry lib env kind status mint_url unit amount_sat =
     \<lparr>av_id = wallet_activity_id lib env, av_kind = kind, av_status = status, av_mint_url = mint_url, av_unit = unit,
      av_amount_sat = amount_sat, av_fee_sat = None, av_created_at_unix = ae_now_unix env, av_expires_at_unix = None,
      av_quote_id = None, av_operation_id = None, av_payment_request = None, av_token = None\<rparr>"

text \<open>The wallet for a mint URL, as every operation finds it.\<close>

definition wallet_for ::
    "'u wallet_lib \<Rightarrow> 'w wallet_repository \<Rightarrow> string \<Rightarrow> 'w \<Rightarrow> (TransferError + string \<times> string \<times> 'w cdk_wallet) \<times> 'w" where
  "wallet_for lib repository mint_url w =
     attempt (normalize_mint_url (wl_urls lib) mint_url) w (\<lambda>normalized_mint.
     attempt (map_err (Cdk ''Failed to parse normalized mint URL'') (mint_url_from_str (wl_urls lib) normalized_mint)) w
       (\<lambda>mint_url.
     attempt_mut (ensure_sat_wallet repository mint_url w) (\<lambda>wallet w. (Inr (normalized_mint, mint_url, wallet), w))))"

section \<open>Overview, top-up and balance\<close>

fun refresh_wallets :: "'w cdk_wallet list \<Rightarrow> 'w \<Rightarrow> wallet_warning list \<times> 'w" where
  "refresh_wallets [] w = ([], w)"
| "refresh_wallets (wallet # wallets) w =
     (let unit = unit_to_string (cw_unit wallet);
          (warnings, w) =
            (case cw_recover_incomplete_sagas wallet w of
               (Inl e, w) \<Rightarrow> ([RecoverFailed (cw_mint_url wallet) unit e], w)
             | (Inr r, w) \<Rightarrow>
                 (case cw_mint_unissued_quotes wallet w of
                    (Inl e, w) \<Rightarrow> ([RefreshFailed (cw_mint_url wallet) unit e], w)
                  | (Inr amount, w) \<Rightarrow> ([], w)));
          (rest, w) = refresh_wallets wallets w in
      (warnings @ rest, w))"

definition load_wallet_overview ::
    "'w wallet_repository \<Rightarrow> ('w \<Rightarrow> bool) \<Rightarrow> bool \<Rightarrow> 'w \<Rightarrow> (TransferError + CashuWalletOverview) \<times> 'w" where
  "load_wallet_overview repository legacy_state_exists refresh_quotes w =
     (let (warnings, w) =
            (if refresh_quotes then let (wallets, w) = repo_get_wallets repository w in refresh_wallets wallets w
             else ([], w)) in
      attempt_mut (with_context ''Failed to load Cashu wallet totals'' (repo_total_balance repository w)) (\<lambda>totals w.
      attempt_mut (with_context ''Failed to load Cashu wallet balances'' (repo_get_balances repository w)) (\<lambda>balances w.
      (Inr \<lparr>ov_totals = map (\<lambda>(unit, amount). \<lparr>ut_unit = unit_to_string unit, ut_balance = amount\<rparr>) totals,
            ov_entries = map (\<lambda>((mint_url, unit), amount). \<lparr>we_mint_url = mint_url, we_unit = unit_to_string unit,
              we_balance = amount\<rparr>) balances,
            ov_warnings = warnings, ov_legacy_state_detected = legacy_state_exists w\<rparr>, w))))"

definition create_topup_quote ::
    "'u wallet_lib \<Rightarrow> activity_env \<Rightarrow> 'w local_store \<Rightarrow> 'w wallet_repository \<Rightarrow> string \<Rightarrow> u64 \<Rightarrow> 'w
       \<Rightarrow> (TransferError + CashuTopupQuote) \<times> 'w" where
  "create_topup_quote lib env localstore repository mint_url amount_sat w =
     (if amount_sat = 0 then (Inl (Bail ''Cashu topup amount must be greater than zero''), w)
      else
        attempt_mut (wallet_for lib repository mint_url w) (\<lambda>(normalized_mint, mint_url, wallet) w.
        attempt_mut (with_context ''Failed to recover Cashu wallet state before creating quote''
          (cw_recover_incomplete_sagas wallet w)) (\<lambda>_ w.
        attempt_mut (with_context ''Failed to refresh pending Cashu mint quotes before creating quote''
          (cw_mint_unissued_quotes wallet w)) (\<lambda>_ w.
        attempt_mut (with_context ''Failed to create Cashu mint quote''
          (cw_mint_quote wallet Bolt11Method amount_sat w)) (\<lambda>quote w.
        let topup_quote = \<lparr>tu_mint_url = normalized_mint, tu_unit = unit_to_string UnitSat, tu_amount = amount_sat,
              tu_quote_id = mq_id quote, tu_payment_request = mq_request quote, tu_expiry_unix = mq_expiry quote\<rparr> in
        attempt_mut (within ''Failed to record Cashu top-up activity''
          (append_wallet_activity_entry lib localstore
             ((activity_entry lib env TopUp Pending (tu_mint_url topup_quote) (tu_unit topup_quote) amount_sat)
                \<lparr>av_expires_at_unix := Some (tu_expiry_unix topup_quote), av_quote_id := Some (tu_quote_id topup_quote),
                 av_payment_request := Some (tu_payment_request topup_quote)\<rparr>) w)) (\<lambda>_ w.
        (Inr topup_quote, w)))))))"

definition load_mint_balance ::
    "'u wallet_lib \<Rightarrow> 'w wallet_repository \<Rightarrow> string \<Rightarrow> 'w \<Rightarrow> (TransferError + CashuMintBalance) \<times> 'w" where
  "load_mint_balance lib repository mint_url w =
     attempt_mut (wallet_for lib repository mint_url w) (\<lambda>(normalized_mint, mint_url, wallet) w.
     attempt_mut (with_context ''Failed to load Cashu wallet balances'' (repo_get_balances repository w)) (\<lambda>balances w.
     (Inr \<lparr>mb_mint_url = normalized_mint, mb_unit = unit_to_string UnitSat,
           mb_balance_sat = (case map_of balances (mint_url, UnitSat) of None \<Rightarrow> 0 | Some amount \<Rightarrow> amount)\<rparr>, w)))"

section \<open>Lightning payments\<close>

definition send_lightning_payment_with_wallet ::
    "'w cdk_wallet \<Rightarrow> string \<Rightarrow> 'w \<Rightarrow> (TransferError + CashuLightningPayment) \<times> 'w" where
  "send_lightning_payment_with_wallet wallet payment_request w =
     attempt_mut (with_context ''Failed to recover Cashu wallet state before sending Lightning payment''
       (cw_recover_incomplete_sagas wallet w)) (\<lambda>_ w.
     attempt_mut (with_context ''Failed to create Cashu Lightning melt quote''
       (cw_melt_quote wallet Bolt11Method payment_request w)) (\<lambda>quote w.
     attempt_mut (with_context ''Failed to prepare Cashu Lightning payment''
       (cw_prepare_melt wallet (lq_id quote) w)) (\<lambda>prepared w.
     attempt_mut (with_context ''Failed to execute Cashu Lightning payment''
       (cw_confirm_melt wallet prepared w)) (\<lambda>finalized w.
     if fm_state finalized \<noteq> MeltPaid then (Inl (LightningIn (fm_state finalized)), w)
     else
       attempt (ok_or (case fm_payment_proof finalized of
                         Some proof \<Rightarrow> if proof \<noteq> [] then Some proof else None
                       | None \<Rightarrow> None) (Missing ''Cashu Lightning payment completed without a preimage'')) w (\<lambda>preimage.
       (Inr \<lparr>ln_mint_url = cw_mint_url wallet, ln_unit = unit_to_string (cw_unit wallet),
             ln_amount_sat = fm_amount finalized, ln_fee_paid_sat = fm_fee_paid finalized,
             ln_quote_id = fm_quote_id finalized, ln_preimage = preimage\<rparr>, w))))))"

definition send_lightning_payment ::
    "'u wallet_lib \<Rightarrow> activity_env \<Rightarrow> 'w local_store \<Rightarrow> 'w wallet_repository \<Rightarrow> string \<Rightarrow> string \<Rightarrow> 'w
       \<Rightarrow> (TransferError + CashuLightningPayment) \<times> 'w" where
  "send_lightning_payment lib env localstore repository mint_url payment_request w =
     attempt_mut (wallet_for lib repository mint_url w) (\<lambda>(normalized_mint, mint_url, wallet) w.
     attempt_mut (send_lightning_payment_with_wallet wallet payment_request w) (\<lambda>payment w.
     let payment = payment\<lparr>ln_mint_url := normalized_mint\<rparr> in
     attempt_mut (within ''Failed to record Cashu Lightning payment activity''
       (append_wallet_activity_entry lib localstore
          ((activity_entry lib env LightningPayment Complete (ln_mint_url payment) (ln_unit payment) (ln_amount_sat payment))
             \<lparr>av_fee_sat := Some (ln_fee_paid_sat payment), av_quote_id := Some (ln_quote_id payment),
              av_payment_request := Some payment_request\<rparr>) w)) (\<lambda>_ w.
     (Inr payment, w))))"

section \<open>Receiving\<close>

definition receive_payment_token ::
    "'u wallet_lib \<Rightarrow> activity_env \<Rightarrow> 'w local_store \<Rightarrow> 'w wallet_repository \<Rightarrow> string \<Rightarrow> 'w
       \<Rightarrow> (TransferError + CashuReceivedPayment) \<times> 'w" where
  "receive_payment_token lib env localstore repository encoded_token w =
     attempt (map_err (Cdk ''Failed to parse Cashu token'') (token_from_str lib encoded_token)) w (\<lambda>token.
     attempt (map_err (Cdk ''Cashu token must contain exactly one mint'') (tk_mint_url token)) w (\<lambda>mint_url.
     let unit = (case tk_unit token of Some unit \<Rightarrow> unit | None \<Rightarrow> UnitSat) in
     if unit \<noteq> UnitSat then (Inl (UnsupportedTokenUnit unit), w)
     else
       attempt (normalize_mint_url (wl_urls lib) mint_url) w (\<lambda>normalized_mint.
       attempt_mut (ensure_sat_wallet repository mint_url w) (\<lambda>wallet w.
       attempt_mut (with_context ''Failed to recover Cashu wallet state before receiving payment''
         (cw_recover_incomplete_sagas wallet w)) (\<lambda>_ w.
       attempt_mut (with_context ''Failed to receive Cashu payment token'' (cw_receive wallet encoded_token w))
         (\<lambda>amount_received w.
       let payment = \<lparr>rc_mint_url = normalized_mint, rc_unit = unit_to_string UnitSat, rc_amount_sat = amount_received\<rparr> in
       attempt_mut (within ''Failed to record Cashu receive activity''
         (append_wallet_activity_entry lib localstore
            (activity_entry lib env TokenReceive Complete (rc_mint_url payment) (rc_unit payment) (rc_amount_sat payment)) w))
         (\<lambda>_ w. (Inr payment, w))))))))"

fun prepare_proofs :: "'u wallet_lib \<Rightarrow> string \<Rightarrow> cdk_proof list \<Rightarrow> TransferError + ProofInfo list" where
  "prepare_proofs lib mint_url [] = Inr []"
| "prepare_proofs lib mint_url (proof # proofs) =
     and_then (map_err (Cdk ''Failed to prepare Cashu proof import'') (proof_y lib proof)) (\<lambda>y.
     and_then (prepare_proofs lib mint_url proofs) (\<lambda>infos.
     Inr (\<lparr>pi_proof = proof, pi_y = y, pi_mint_url = mint_url, pi_unit = UnitSat\<rparr> # infos)))"

definition imported_amount :: "ProofInfo list \<Rightarrow> u64" where
  "imported_amount infos = foldl (\<lambda>amount info. saturating_add amount (pr_amount (pi_proof info))) 0 infos"

definition store_new_proofs ::
    "'u wallet_lib \<Rightarrow> activity_env \<Rightarrow> 'w local_store \<Rightarrow> 'w cdk_wallet \<Rightarrow> string \<Rightarrow> ProofInfo list \<Rightarrow> 'w
       \<Rightarrow> (TransferError + CashuReceivedPayment) \<times> 'w" where
  "store_new_proofs lib env localstore wallet normalized_mint infos w =
     (let imported_amount_sat = imported_amount infos;
          payment = \<lparr>rc_mint_url = normalized_mint, rc_unit = unit_to_string UnitSat, rc_amount_sat = imported_amount_sat\<rparr> in
      if infos \<noteq> []
      then
        attempt_mut (with_context ''Failed to import Cashu proofs into wallet'' (cw_update_proofs wallet infos w)) (\<lambda>_ w.
        attempt_mut (within ''Failed to record Cashu channel collection activity''
          (append_wallet_activity_entry lib localstore
             (activity_entry lib env ChannelCollect Complete normalized_mint (unit_to_string UnitSat) imported_amount_sat) w))
          (\<lambda>_ w. (Inr payment, w)))
      else (Inr payment, w))"

definition store_proofs ::
    "'u wallet_lib \<Rightarrow> activity_env \<Rightarrow> 'w local_store \<Rightarrow> 'w cdk_wallet \<Rightarrow> string \<Rightarrow> ProofInfo list \<Rightarrow> 'w
       \<Rightarrow> (TransferError + CashuReceivedPayment) \<times> 'w" where
  "store_proofs lib env localstore wallet normalized_mint infos w =
     attempt_mut (with_context ''Failed to check existing Cashu proofs''
       (cw_get_proofs_by_ys wallet (map pi_y infos) w)) (\<lambda>existing w.
     store_new_proofs lib env localstore wallet normalized_mint
       (filter (\<lambda>info. pi_y info \<notin> pi_y ` set existing) infos) w)"

definition import_payment_proofs ::
    "'u wallet_lib \<Rightarrow> activity_env \<Rightarrow> 'w local_store \<Rightarrow> 'w wallet_repository \<Rightarrow> string \<Rightarrow> string \<Rightarrow> string \<Rightarrow> 'w
       \<Rightarrow> (TransferError + CashuReceivedPayment) \<times> 'w" where
  "import_payment_proofs lib env localstore repository mint_url unit proofs_json w =
     (let unit = trim unit in
      if unit \<noteq> unit_to_string UnitSat then (Inl (UnsupportedProofUnit unit), w)
      else
        attempt (normalize_mint_url (wl_urls lib) mint_url) w (\<lambda>normalized_mint.
        attempt (map_err (Cdk ''Failed to parse normalized mint URL'') (mint_url_from_str (wl_urls lib) normalized_mint)) w
          (\<lambda>mint_url.
        attempt (map_err (Cdk ''Failed to parse Cashu payment proofs'') (proofs_from_str lib proofs_json)) w (\<lambda>proofs.
        attempt_mut (ensure_sat_wallet repository mint_url w) (\<lambda>wallet w.
        attempt_mut (with_context ''Failed to recover Cashu wallet state before importing proofs''
          (cw_recover_incomplete_sagas wallet w)) (\<lambda>_ w.
        attempt (prepare_proofs lib mint_url proofs) w (\<lambda>infos.
        store_proofs lib env localstore wallet normalized_mint infos w)))))))"

section \<open>Sending and reclaiming\<close>

definition proofs_require_keyset_consolidation :: "cdk_proof list \<Rightarrow> string \<Rightarrow> bool" where
  "proofs_require_keyset_consolidation proofs required_keyset_id \<longleftrightarrow>
     list_ex (\<lambda>proof. pr_keyset_id proof \<noteq> required_keyset_id) proofs"

definition consolidate ::
    "'w cdk_wallet \<Rightarrow> string option \<Rightarrow> 'w \<Rightarrow> (TransferError + unit) \<times> 'w" where
  "consolidate wallet required w =
     (case required of
        None \<Rightarrow> (Inr (), w)
      | Some required_keyset_id \<Rightarrow>
          attempt_mut (with_context ''Failed to load the active Cashu keyset'' (cw_fetch_active_keyset wallet w))
            (\<lambda>active_keyset_id w.
          if active_keyset_id \<noteq> required_keyset_id then (Inl (KeysetChanged required_keyset_id active_keyset_id), w)
          else
            attempt_mut (with_context ''Failed to load Cashu proofs before payment'' (cw_get_unspent_proofs wallet w))
              (\<lambda>available_proofs w.
            if proofs_require_keyset_consolidation available_proofs required_keyset_id
            then with_context ''Failed to consolidate Cashu proofs into the active keyset''
                   (cw_swap wallet available_proofs w)
            else (Inr (), w))))"

definition check_prepared ::
    "'w cdk_wallet \<Rightarrow> string option \<Rightarrow> PreparedSend \<Rightarrow> 'w \<Rightarrow> (TransferError + unit) \<times> 'w" where
  "check_prepared wallet required prepared w =
     (case required of
        None \<Rightarrow> (Inr (), w)
      | Some required_keyset_id \<Rightarrow>
          if proofs_require_keyset_consolidation (ps_proofs prepared) required_keyset_id
          then attempt_mut (with_context ''Failed to release mixed-keyset Cashu payment proofs''
                 (cw_cancel_send wallet prepared w)) (\<lambda>_ w. (Inl (MixedKeysets required_keyset_id), w))
          else (Inr (), w))"

definition send_payment_token_with_keyset ::
    "'u wallet_lib \<Rightarrow> activity_env \<Rightarrow> 'w local_store \<Rightarrow> 'w wallet_repository \<Rightarrow> string \<Rightarrow> u64 \<Rightarrow> string option \<Rightarrow> 'w
       \<Rightarrow> (TransferError + CashuSentPayment) \<times> 'w" where
  "send_payment_token_with_keyset lib env localstore repository mint_url amount_sat required_keyset_id w =
     (if amount_sat = 0 then (Inl (Bail ''Cashu payment amount must be greater than zero''), w)
      else
        attempt_mut (wallet_for lib repository mint_url w) (\<lambda>(normalized_mint, mint_url, wallet) w.
        attempt_mut (with_context ''Failed to recover Cashu wallet state before sending payment''
          (cw_recover_incomplete_sagas wallet w)) (\<lambda>_ w.
        attempt_mut (consolidate wallet required_keyset_id w) (\<lambda>_ w.
        attempt_mut (with_context ''Failed to prepare Cashu payment token'' (cw_prepare_send wallet amount_sat w))
          (\<lambda>prepared w.
        attempt_mut (check_prepared wallet required_keyset_id prepared w) (\<lambda>_ w.
        attempt_mut (with_context ''Failed to create Cashu payment token'' (cw_confirm_send wallet prepared w))
          (\<lambda>token w.
        let payment = \<lparr>sn_mint_url = normalized_mint, sn_unit = unit_to_string UnitSat, sn_amount_sat = amount_sat,
              sn_send_fee_sat = ps_send_fee prepared, sn_operation_id = ps_operation_id prepared, sn_token = token\<rparr> in
        attempt_mut (within ''Failed to record Cashu token activity''
          (append_wallet_activity_entry lib localstore
             ((activity_entry lib env TokenSend Pending (sn_mint_url payment) (sn_unit payment) (sn_amount_sat payment))
                \<lparr>av_fee_sat := Some (sn_send_fee_sat payment), av_operation_id := Some (sn_operation_id payment),
                 av_token := Some (sn_token payment)\<rparr>) w)) (\<lambda>_ w.
        (Inr payment, w)))))))))"

definition send_payment_token ::
    "'u wallet_lib \<Rightarrow> activity_env \<Rightarrow> 'w local_store \<Rightarrow> 'w wallet_repository \<Rightarrow> string \<Rightarrow> u64 \<Rightarrow> 'w
       \<Rightarrow> (TransferError + CashuSentPayment) \<times> 'w" where
  "send_payment_token lib env localstore repository mint_url amount_sat w =
     send_payment_token_with_keyset lib env localstore repository mint_url amount_sat None w"

definition send_payment_token_for_keyset ::
    "'u wallet_lib \<Rightarrow> activity_env \<Rightarrow> 'w local_store \<Rightarrow> 'w wallet_repository \<Rightarrow> string \<Rightarrow> u64 \<Rightarrow> string \<Rightarrow> 'w
       \<Rightarrow> (TransferError + CashuSentPayment) \<times> 'w" where
  "send_payment_token_for_keyset lib env localstore repository mint_url amount_sat keyset_id w =
     send_payment_token_with_keyset lib env localstore repository mint_url amount_sat (Some keyset_id) w"

definition revoke_pending_payment ::
    "'u wallet_lib \<Rightarrow> 'w local_store \<Rightarrow> 'w wallet_repository \<Rightarrow> string \<Rightarrow> string \<Rightarrow> 'w \<Rightarrow> (TransferError + u64) \<times> 'w" where
  "revoke_pending_payment lib localstore repository mint_url operation_id w =
     attempt_mut (wallet_for lib repository mint_url w) (\<lambda>(normalized_mint, mint_url, wallet) w.
     attempt_mut (with_context ''Failed to recover Cashu wallet state before revoking payment''
       (cw_recover_incomplete_sagas wallet w)) (\<lambda>_ w.
     attempt (map_err (Cdk ''Invalid Cashu send operation id'') (uuid_parse lib operation_id)) w (\<lambda>operation_uuid.
     attempt_mut (with_context ''Failed to revoke Cashu payment token'' (cw_revoke_send wallet operation_uuid w))
       (\<lambda>amount w.
     attempt_mut (within ''Failed to record reclaimed Cashu token''
       (mark_wallet_activity_reclaimed lib localstore operation_id w)) (\<lambda>_ w. (Inr amount, w))))))"

section \<open>Recovery at start\<close>

record CashuWalletStartupRecoveryReport =
  sr_wallets :: u64
  sr_finalized_melts :: u64
  sr_recovered_sagas :: u64
  sr_compensated_sagas :: u64
  sr_pending_sagas :: u64
  sr_failed_sagas :: u64
  sr_minted_amount :: u64
  sr_warnings :: "wallet_warning list"

definition recover_wallet ::
    "'w cdk_wallet \<Rightarrow> CashuWalletStartupRecoveryReport \<Rightarrow> 'w \<Rightarrow> CashuWalletStartupRecoveryReport \<times> 'w" where
  "recover_wallet wallet report w =
     (let mint = cw_mint_url wallet; unit = unit_to_string (cw_unit wallet);
          (melts, w) = cw_finalize_pending_melts wallet w;
          report = (case melts of
              Inr melts \<Rightarrow> report\<lparr>sr_finalized_melts := sr_finalized_melts report + of_nat (length melts)\<rparr>
            | Inl e \<Rightarrow> report\<lparr>sr_warnings := sr_warnings report @ [FinalizeFailed mint unit e]\<rparr>);
          (recovery, w) = cw_recover_incomplete_sagas wallet w;
          report = (case recovery of
              Inr recovery \<Rightarrow> report\<lparr>sr_recovered_sagas := sr_recovered_sagas report + rr_recovered recovery,
                sr_compensated_sagas := sr_compensated_sagas report + rr_compensated recovery,
                sr_pending_sagas := sr_pending_sagas report + rr_skipped recovery,
                sr_failed_sagas := sr_failed_sagas report + rr_failed recovery\<rparr>
            | Inl e \<Rightarrow> report\<lparr>sr_warnings := sr_warnings report @ [RecoverFailed mint unit e]\<rparr>);
          (minted, w) = cw_mint_unissued_quotes wallet w;
          report = (case minted of
              Inr amount \<Rightarrow> report\<lparr>sr_minted_amount := sr_minted_amount report + amount\<rparr>
            | Inl e \<Rightarrow> report\<lparr>sr_warnings := sr_warnings report @ [RefreshFailed mint unit e]\<rparr>) in
      (report, w))"

fun recover_wallets ::
    "'w cdk_wallet list \<Rightarrow> CashuWalletStartupRecoveryReport \<Rightarrow> 'w \<Rightarrow> CashuWalletStartupRecoveryReport \<times> 'w" where
  "recover_wallets [] report w = (report, w)"
| "recover_wallets (wallet # wallets) report w =
     (let (report, w) = recover_wallet wallet report w in recover_wallets wallets report w)"

definition recover_startup_state :: "'w wallet_repository \<Rightarrow> 'w \<Rightarrow> CashuWalletStartupRecoveryReport \<times> 'w" where
  "recover_startup_state repository w =
     (let (wallets, w) = repo_get_wallets repository w in
      recover_wallets wallets \<lparr>sr_wallets = of_nat (length wallets), sr_finalized_melts = 0, sr_recovered_sagas = 0,
        sr_compensated_sagas = 0, sr_pending_sagas = 0, sr_failed_sagas = 0, sr_minted_amount = 0, sr_warnings = []\<rparr> w)"

end
