(* ===== verification/Wallet_Activity_Properties.thy ===== *)
theory Wallet_Activity_Properties
  imports Wallet_Operations "HOL-Library.Multiset"
begin

text \<open>
  The activity log stays sorted, newest first, and bounded; adding an entry loses only the oldest ones,
  and only beyond 200. The stored list is what the next call reads.
\<close>

section \<open>Sorting\<close>

locale sorting_order =
  fixes le :: "'a \<Rightarrow> 'a \<Rightarrow> bool"
  assumes le_total: "le x y \<or> le y x" and le_trans: "le x y \<Longrightarrow> le y z \<Longrightarrow> le x z"
begin

lemma insert_by_mset: "mset (insert_by le x xs) = add_mset x (mset xs)"
  by (induction xs) auto

lemma insert_by_set: "set (insert_by le x xs) = insert x (set xs)"
  by (metis insert_by_mset set_mset_add_mset_insert set_mset_mset)

lemma insert_by_sorted: "sorted_wrt le xs \<Longrightarrow> sorted_wrt le (insert_by le x xs)"
proof (induction xs)
  case (Cons y ys)
  show ?case
  proof (cases "le x y")
    case True
    then show ?thesis using Cons.prems le_trans by auto
  next
    case False
    then have "le y x" using le_total by blast
    then show ?thesis using Cons False by (auto simp: insert_by_set)
  qed
qed simp

lemma sort_by_mset: "mset (sort_by le xs) = mset xs"
  by (induction xs) (auto simp: sort_by_def insert_by_mset)

lemma sort_by_sorted: "sorted_wrt le (sort_by le xs)"
  by (induction xs) (auto simp: sort_by_def insert_by_sorted)

text \<open>A sorted list is left as it is.\<close>

lemma sort_by_idem: "sorted_wrt le xs \<Longrightarrow> sort_by le xs = xs"
proof (induction xs)
  case (Cons x xs)
  then have "sort_by le (x # xs) = insert_by le x xs" by (simp add: sort_by_def)
  also have "\<dots> = x # xs" using Cons.prems by (cases xs) auto
  finally show ?case .
qed (simp add: sort_by_def)

end

lemma newest_first_total: "newest_first x y \<or> newest_first y x"
  by (auto simp: newest_first_def)

lemma newest_first_trans: "newest_first x y \<Longrightarrow> newest_first y z \<Longrightarrow> newest_first x z"
  by (auto simp: newest_first_def intro: less_trans order_trans)

interpretation newest: sorting_order newest_first
  by unfold_locales (fact newest_first_total, fact newest_first_trans)

lemma sort_entries: "sort_wallet_activity_entries entries = take 200 (sort_by newest_first entries)"
  by (simp add: sort_wallet_activity_entries_def K_MAX_WALLET_ACTIVITY_ENTRIES_def Let_def)

lemma sort_entries_sorted: "sorted_wrt newest_first (sort_wallet_activity_entries entries)"
  unfolding sort_entries by (rule sorted_wrt_take) (rule newest.sort_by_sorted)

lemma sort_entries_idem: "sort_wallet_activity_entries (sort_wallet_activity_entries entries) = sort_wallet_activity_entries entries"
  using newest.sort_by_idem [OF sort_entries_sorted [of entries]] by (simp add: sort_entries)

text \<open>What was cut off is older than everything that is left.\<close>

lemma cut_entries_older:
  assumes "x \<in> set (sort_wallet_activity_entries entries)" "y \<in># mset entries - mset (sort_wallet_activity_entries entries)"
  shows "newest_first x y"
proof -
  let ?s = "sort_by newest_first entries"
  have "mset entries - mset (take 200 ?s) = mset (drop 200 ?s)"
    by (metis newest.sort_by_mset append_take_drop_id mset_append add_diff_cancel_left')
  moreover have "sorted_wrt newest_first (take 200 ?s @ drop 200 ?s)"
    by (simp add: newest.sort_by_sorted)
  ultimately show ?thesis
    using assms unfolding sort_entries sorted_wrt_append by auto
qed

section \<open>The store\<close>

text \<open>The bytes of the log in the world, and what the code relies on: reading returns them, a write that
  succeeds stores its bytes, one that fails may have stored them or not.\<close>

definition log_store :: "'w local_store \<Rightarrow> ('w \<Rightarrow> u8 list option) \<Rightarrow> bool" where
  "log_store localstore bytes \<longleftrightarrow>
     (\<forall>w. outcome (ls_kv_read localstore K_WALLET_ACTIVITY_PRIMARY_NAMESPACE K_WALLET_ACTIVITY_SECONDARY_NAMESPACE
            K_WALLET_ACTIVITY_KEY w) (\<lambda>w'. bytes w' = bytes w) (\<lambda>stored w'. bytes w' = bytes w \<and> stored = bytes w))
     \<and> (\<forall>b w. outcome (ls_kv_write localstore K_WALLET_ACTIVITY_PRIMARY_NAMESPACE K_WALLET_ACTIVITY_SECONDARY_NAMESPACE
            K_WALLET_ACTIVITY_KEY b w) (\<lambda>w'. bytes w' = bytes w \<or> bytes w' = Some b) (\<lambda>_ w'. bytes w' = Some b))"

definition activity_codec_ok :: "'u wallet_lib \<Rightarrow> bool" where
  "activity_codec_ok lib \<longleftrightarrow>
     (\<forall>entries b. activity_to_vec lib entries = Inr b \<longrightarrow> b \<noteq> [] \<and> activity_from_slice lib b = Inr entries)"

text \<open>The log that the bytes hold.\<close>

definition holds_log :: "'u wallet_lib \<Rightarrow> u8 list option \<Rightarrow> CashuWalletActivityEntry list \<Rightarrow> bool" where
  "holds_log lib b entries \<longleftrightarrow>
     (\<exists>raw. entries = sort_wallet_activity_entries raw
        \<and> (case b of
             None \<Rightarrow> raw = []
           | Some b \<Rightarrow> if b = [] then raw = [] else activity_from_slice lib b = Inr raw))"

lemma load_log_outcome:
  assumes "log_store localstore bytes"
  shows "outcome (load_wallet_activity_entries_from_store lib localstore w) (\<lambda>w'. bytes w' = bytes w)
    (\<lambda>entries w'. bytes w' = bytes w \<and> holds_log lib (bytes w) entries)"
  unfolding load_wallet_activity_entries_from_store_def outcome_simps
  by (rule outcome_mono [OF assms [unfolded log_store_def, THEN conjunct1, THEN spec]])
    (auto simp: holds_log_def map_err_def outcome_simps split: option.splits sum.splits if_splits)

lemma holds_log_unique: "holds_log lib b entries \<Longrightarrow> holds_log lib b entries' \<Longrightarrow> entries' = entries"
  by (auto simp: holds_log_def split: option.splits if_splits)

lemma save_log_outcome:
  assumes "log_store localstore bytes" "activity_codec_ok lib"
  shows "outcome (save_wallet_activity_entries_to_store lib localstore entries w)
    (\<lambda>w'. bytes w' = bytes w \<or> holds_log lib (bytes w') (sort_wallet_activity_entries entries))
    (\<lambda>saved w'. saved = sort_wallet_activity_entries entries \<and> holds_log lib (bytes w') saved)"
proof (cases "activity_to_vec lib (sort_wallet_activity_entries entries)")
  case (Inr b)
  then have b: "b \<noteq> []" "activity_from_slice lib b = Inr (sort_wallet_activity_entries entries)"
    using assms(2) unfolding activity_codec_ok_def by blast+
  then have "holds_log lib (Some b) (sort_wallet_activity_entries entries)"
    by (auto simp: holds_log_def sort_entries_idem intro!: exI [of _ "sort_wallet_activity_entries entries"])
  then show ?thesis
    unfolding save_wallet_activity_entries_to_store_def Inr Let_def
    by (simp add: outcome_simps)
      (rule outcome_mono [OF assms(1) [unfolded log_store_def, THEN conjunct2, THEN spec, THEN spec]], auto)
qed (simp add: save_wallet_activity_entries_to_store_def)

lemma append_outcome:
  assumes "log_store localstore bytes" "activity_codec_ok lib" "holds_log lib (bytes w) entries"
  shows "outcome (append_wallet_activity_entry lib localstore entry w)
    (\<lambda>w'. bytes w' = bytes w \<or> holds_log lib (bytes w') (sort_wallet_activity_entries (entries @ [entry])))
    (\<lambda>_ w'. holds_log lib (bytes w') (sort_wallet_activity_entries (entries @ [entry])))"
  unfolding append_wallet_activity_entry_def outcome_simps
proof (rule outcome_mono [OF load_log_outcome [OF assms(1)]])
  fix loaded w1 assume l: "bytes w1 = bytes w \<and> holds_log lib (bytes w) loaded"
  then have "loaded = entries" using holds_log_unique [OF assms(3)] by blast
  then show "outcome (save_wallet_activity_entries_to_store lib localstore (loaded @ [entry]) w1)
     (\<lambda>w'. bytes w' = bytes w \<or> holds_log lib (bytes w') (sort_wallet_activity_entries (entries @ [entry])))
     (\<lambda>x w'. outcome (Inr (), w') (\<lambda>w'. bytes w' = bytes w \<or> holds_log lib (bytes w') (sort_wallet_activity_entries (entries @ [entry])))
       (\<lambda>_ w'. holds_log lib (bytes w') (sort_wallet_activity_entries (entries @ [entry]))))"
    using l by (intro outcome_mono [OF save_log_outcome [OF assms(1,2)]]) auto
qed simp

text \<open>C35. The activity log is bounded and loses only its oldest entries. After an entry was added, the log
  that the next call reads is the old one with the entry, sorted by time and then by id, newest first,
  and cut to 200: with fewer than 200 entries before nothing is lost, and what is cut off is never newer
  than what is kept. A call that fails leaves the old log or that new one.\<close>

theorem activity_log_keeps_newest:
  assumes "log_store localstore bytes" "activity_codec_ok lib" "holds_log lib (bytes w) entries"
    and "append_wallet_activity_entry lib localstore entry w = (r, w')"
    and new: "new = sort_wallet_activity_entries (entries @ [entry])"
  shows "(isl r \<and> holds_log lib (bytes w') entries \<or> holds_log lib (bytes w') new)
    \<and> sorted_wrt newest_first new \<and> length new \<le> 200
    \<and> (length entries \<ge> 200 \<or> mset new = add_mset entry (mset entries))
    \<and> (\<forall>x \<in> set new. \<forall>y. y \<in># add_mset entry (mset entries) - mset new \<longrightarrow> newest_first x y)"
proof -
  have "isl r \<and> holds_log lib (bytes w') entries \<or> holds_log lib (bytes w') new"
    using outcomeD [OF append_outcome [OF assms(1-3), of entry]] assms(3,4) by (cases r) (auto simp: new)
  moreover have "length (sort_by newest_first (entries @ [entry])) = Suc (length entries)"
    using newest.sort_by_mset [of "entries @ [entry]"] by (metis length_append_singleton size_mset)
  then have "length new \<le> 200" "length entries \<ge> 200 \<or> mset new = add_mset entry (mset entries)"
    using newest.sort_by_mset [of "entries @ [entry]"]
    by (simp add: new sort_entries, cases "length entries < 200") (simp_all add: new sort_entries)
  moreover have "\<forall>x \<in> set new. \<forall>y. y \<in># add_mset entry (mset entries) - mset new \<longrightarrow> newest_first x y"
    using cut_entries_older [of _ "entries @ [entry]"] by (auto simp: new)
  ultimately show ?thesis using sort_entries_sorted by (auto simp: new)
qed

text \<open>A log of one entry, in a world that is just the stored bytes.\<close>

definition example_entry :: CashuWalletActivityEntry where
  "example_entry = \<lparr>av_id = ''7-00'', av_kind = TokenSend, av_status = Pending, av_mint_url = ''https://m'', av_unit = ''sat'',
     av_amount_sat = 21, av_fee_sat = Some 0, av_created_at_unix = 7, av_expires_at_unix = None, av_quote_id = None,
     av_operation_id = Some ''ab'', av_payment_request = None, av_token = Some ''t''\<rparr>"

definition reclaimed_entry :: CashuWalletActivityEntry where
  "reclaimed_entry = example_entry\<lparr>av_status := Reclaimed\<rparr>"

definition example_local_store :: "u8 list option local_store" where
  "example_local_store = \<lparr>ls_kv_read = (\<lambda>a b k w. (Inr w, w)), ls_kv_write = (\<lambda>a b k v w. (Inr (), Some v))\<rparr>"

definition example_urls :: "string transfer_lib" where
  "example_urls =
     \<lparr>saga_to_vec = (\<lambda>s. Inl ''no text''), saga_from_slice = (\<lambda>b. Inl ''no value''), invoice_from_str = (\<lambda>i. Inr None),
      mint_url_from_str = Inr, url_parse = Inr, url_scheme = (\<lambda>u. ''https''), url_query = (\<lambda>u. None),
      url_fragment = (\<lambda>u. None), url_path = (\<lambda>u. []), url_set_path = (\<lambda>p u. u), url_to_string = (\<lambda>u. u)\<rparr>"

text \<open>UUIDs are read in upper and lower case; the proofs are two copies of one, or one.\<close>

definition example_proof :: cdk_proof where
  "example_proof = \<lparr>pr_amount = 8, pr_keyset_id = ''k'', pr_secret = ''s''\<rparr>"

definition example_wallet_lib :: "string wallet_lib" where
  "example_wallet_lib =
     \<lparr>wl_urls = example_urls,
      activity_to_vec = (\<lambda>es. if es = [example_entry] then Inr [1] else if es = [reclaimed_entry] then Inr [2] else Inr [3]),
      activity_from_slice = (\<lambda>b. if b = [1] then Inr [example_entry] else if b = [2] then Inr [reclaimed_entry] else Inl ''no value''),
      token_from_str = (\<lambda>t. Inl ''no token''),
      proofs_from_str = (\<lambda>t. if t = ''twice'' then Inr [example_proof, example_proof] else Inr [example_proof]),
      proof_y = (\<lambda>p. Inr (pr_secret p)),
      uuid_parse = (\<lambda>u. if u = ''ab'' \<or> u = ''AB'' then Inr ''ab'' else Inl ''no UUID''),
      bytes_to_hex = (\<lambda>b. ''00'')\<rparr>"

definition strict_wallet_lib :: "string wallet_lib" where
  "strict_wallet_lib = example_wallet_lib\<lparr>activity_to_vec := (\<lambda>es. if es = [example_entry] then Inr [1]
     else if es = [reclaimed_entry] then Inr [2] else Inl ''no text'')\<rparr>"

lemma strict_codec_ok: "activity_codec_ok strict_wallet_lib"
  by (auto simp: activity_codec_ok_def strict_wallet_lib_def example_wallet_lib_def split: if_splits)

lemma example_log_store: "log_store example_local_store (\<lambda>w. w)"
  by (simp add: log_store_def example_local_store_def)

theorem activity_log_keeps_newest_witness:
  "append_wallet_activity_entry strict_wallet_lib example_local_store example_entry None = (Inr (), Some [1])
     \<and> holds_log strict_wallet_lib (Some [1]) [example_entry]"
proof -
  have a: "append_wallet_activity_entry strict_wallet_lib example_local_store example_entry None = (Inr (), Some [1])" by code_simp
  have s: "sort_wallet_activity_entries [] = []" "[example_entry] = sort_wallet_activity_entries ([] @ [example_entry])"
    by code_simp+
  then have "holds_log strict_wallet_lib None []" by (simp add: holds_log_def)
  then show ?thesis
    using activity_log_keeps_newest [OF example_log_store strict_codec_ok _ a s(2)] a by simp
qed

end
