(* ===== verification/Wallet_Properties.thy ===== *)
theory Wallet_Properties
  imports Wallet_Activity_Properties Cross_Mint_Properties
begin

text \<open>
  What the operations of the wallet promise: a token that funds a channel has proofs of the required
  keyset only, imported proofs are counted and stored once, and where the log of the wallet differs
  from what it did.
\<close>

section \<open>Sending from one keyset\<close>

text \<open>The same repository, in which confirming a send with proofs of other keysets does \<open>c\<close>.\<close>

definition mixed_confirm ::
    "(PreparedSend \<Rightarrow> ('w, string) io) \<Rightarrow> string \<Rightarrow> 'w cdk_wallet \<Rightarrow> 'w cdk_wallet" where
  "mixed_confirm c keyset wallet = wallet\<lparr>cw_confirm_send :=
     (\<lambda>p. if proofs_require_keyset_consolidation (ps_proofs p) keyset then c p else cw_confirm_send wallet p)\<rparr>"

definition map_wallets :: "('w cdk_wallet \<Rightarrow> 'w cdk_wallet) \<Rightarrow> 'w wallet_repository \<Rightarrow> 'w wallet_repository" where
  "map_wallets f repository = repository\<lparr>
     repo_get_wallet := (\<lambda>url unit w. let (r, w) = repo_get_wallet repository url unit w in (map_sum id f r, w)),
     repo_create_wallet := (\<lambda>url unit w. let (r, w) = repo_create_wallet repository url unit w in (map_sum id f r, w))\<rparr>"

lemma ensure_map_wallets:
  assumes "\<And>wallet. cw_add_mint (f wallet) = cw_add_mint wallet"
  shows "ensure_sat_wallet (map_wallets f repository) url w =
    (let (r, w) = ensure_sat_wallet repository url w in (map_sum id f r, w))"
proof -
  obtain known w1 where 1: "repo_has_wallet repository url UnitSat w = (known, w1)" by fastforce
  obtain r2 w2 where 2: "repo_get_wallet repository url UnitSat w1 = (r2, w2)" by fastforce
  obtain r3 w3 where 3: "repo_create_wallet repository url UnitSat w1 = (r3, w3)" by fastforce
  show ?thesis
  proof (cases known)
    case True
    then show ?thesis
    proof (cases r2)
      case (Inr wallet)
      then show ?thesis
        using 1 2 True by (cases "cw_add_mint wallet url w2"; cases "fst (cw_add_mint wallet url w2)")
          (simp_all add: ensure_sat_wallet_def map_wallets_def assms)
    qed (use 1 2 in \<open>simp add: ensure_sat_wallet_def map_wallets_def\<close>)
  next
    case False
    then show ?thesis
    proof (cases r3)
      case (Inr wallet)
      then show ?thesis
        using 1 3 False by (cases "cw_add_mint wallet url w3"; cases "fst (cw_add_mint wallet url w3)")
          (simp_all add: ensure_sat_wallet_def map_wallets_def assms)
    qed (use 1 3 in \<open>simp add: ensure_sat_wallet_def map_wallets_def\<close>)
  qed
qed

lemma wallet_for_map_wallets:
  assumes "\<And>wallet. cw_add_mint (f wallet) = cw_add_mint wallet"
  shows "wallet_for lib (map_wallets f repository) url w =
    (let (r, w) = wallet_for lib repository url w in (map_sum id (\<lambda>(n, m, wallet). (n, m, f wallet)) r, w))"
proof (cases "normalize_mint_url (wl_urls lib) url")
  case (Inr n)
  show ?thesis
  proof (cases "mint_url_from_str (wl_urls lib) n")
    case (Inr m)
    then show ?thesis
      using \<open>normalize_mint_url (wl_urls lib) url = Inr n\<close>
      by (cases "ensure_sat_wallet repository m w"; cases "fst (ensure_sat_wallet repository m w)")
        (simp_all add: wallet_for_def ensure_map_wallets [OF assms])
  qed (use Inr in \<open>simp add: wallet_for_def\<close>)
qed (simp add: wallet_for_def)

lemma mixed_confirm_simps [simp]:
  "cw_add_mint (mixed_confirm c k wallet) = cw_add_mint wallet"
  "cw_recover_incomplete_sagas (mixed_confirm c k wallet) = cw_recover_incomplete_sagas wallet"
  "cw_prepare_send (mixed_confirm c k wallet) = cw_prepare_send wallet"
  "cw_fetch_active_keyset (mixed_confirm c k wallet) = cw_fetch_active_keyset wallet"
  "cw_get_unspent_proofs (mixed_confirm c k wallet) = cw_get_unspent_proofs wallet"
  "cw_swap (mixed_confirm c k wallet) = cw_swap wallet"
  "cw_cancel_send (mixed_confirm c k wallet) = cw_cancel_send wallet"
  by (simp_all add: mixed_confirm_def)

lemma mixed_confirm_stages [simp]:
  "consolidate (mixed_confirm c k wallet) r w = consolidate wallet r w"
  "check_prepared (mixed_confirm c k wallet) r p w = check_prepared wallet r p w"
  unfolding consolidate_def check_prepared_def mixed_confirm_simps by (rule refl)+

lemma checked_same_keyset:
  "check_prepared wallet (Some k) p w = (Inr u, w') \<Longrightarrow> cw_confirm_send (mixed_confirm c k wallet) p = cw_confirm_send wallet p"
  by (auto simp: check_prepared_def mixed_confirm_def result_simps split: if_splits)

text \<open>C39. A token that is to fund a channel is never made from proofs of another keyset than the channel's:
  the call does not depend on what confirming such a send would do, because it never confirms one.\<close>

theorem mixed_keysets_never_sent:
  "send_payment_token_for_keyset lib env localstore (map_wallets (mixed_confirm c keyset) repository) mint_url amount_sat keyset w
     = send_payment_token_for_keyset lib env localstore repository mint_url amount_sat keyset w"
proof (cases "wallet_for lib repository mint_url w")
  case (Pair r w1)
  show ?thesis
  proof (cases r)
    case (Inl e)
    then show ?thesis
      using Pair by (simp add: send_payment_token_for_keyset_def send_payment_token_with_keyset_def wallet_for_map_wallets)
  next
    case (Inr found)
    then obtain n m wallet where "r = Inr (n, m, wallet)" by (cases found) auto
    then show ?thesis
      using Pair
      by (simp add: send_payment_token_for_keyset_def send_payment_token_with_keyset_def wallet_for_map_wallets)
        (intro impI attempt_mut_cong, simp add: checked_same_keyset)
  qed
qed

section \<open>Importing proofs\<close>

text \<open>What the code relies on in the wallet's database: the proofs in it (\<open>known\<close>, by their \<open>Y\<close>) are found by
  \<open>Y\<close>, those that were stored are in it, and reading or writing the activity log removes none. Nothing is
  relied on of the recovery, which may remove the proofs of interrupted operations.\<close>

definition grows :: "('w \<Rightarrow> string set) \<Rightarrow> ('w, 'a) io \<Rightarrow> bool" where
  "grows known f \<longleftrightarrow> (\<forall>w. known w \<subseteq> known (snd (f w)))"

definition proof_wallet :: "('w \<Rightarrow> string set) \<Rightarrow> 'w cdk_wallet \<Rightarrow> bool" where
  "proof_wallet known wallet \<longleftrightarrow>
     (\<forall>ys w. outcome (cw_get_proofs_by_ys wallet ys w) (\<lambda>_. True)
          (\<lambda>found w'. known w' = known w \<and> pi_y ` set found = set ys \<inter> known w))
     \<and> (\<forall>infos w. outcome (cw_update_proofs wallet infos w) (\<lambda>_. True) (\<lambda>_ w'. known w' = known w \<union> pi_y ` set infos))"

definition proof_database :: "('w \<Rightarrow> string set) \<Rightarrow> 'w local_store \<Rightarrow> 'w wallet_repository \<Rightarrow> bool" where
  "proof_database known localstore repository \<longleftrightarrow>
     (\<forall>url w. outcome (ensure_sat_wallet repository url w) (\<lambda>_. True)
        (\<lambda>wallet w'. proof_wallet known wallet))
     \<and> (\<forall>a b k. grows known (ls_kv_read localstore a b k)) \<and> (\<forall>a b k v. grows known (ls_kv_write localstore a b k v))"

lemma grows_outcome: "grows known f \<Longrightarrow> outcome (f w) (\<lambda>w'. known w \<subseteq> known w') (\<lambda>_ w'. known w \<subseteq> known w')"
  by (auto simp: grows_def outcome_def split: sum.splits)

lemma append_grows:
  assumes "proof_database known localstore repository"
  shows "outcome (append_wallet_activity_entry lib localstore entry w) (\<lambda>_. True) (\<lambda>_ w'. known w \<subseteq> known w')"
proof -
  have r: "grows known (ls_kv_read localstore a b k)" and wr: "grows known (ls_kv_write localstore a b k v)" for a b k v
    using assms by (auto simp: proof_database_def)
  have save: "outcome (save_wallet_activity_entries_to_store lib localstore entries w1) (\<lambda>_. True) (\<lambda>_ w'. known w \<subseteq> known w')"
    if "known w \<subseteq> known w1" for entries w1
    using that
    by (cases "activity_to_vec lib (sort_wallet_activity_entries entries)")
      (auto simp: save_wallet_activity_entries_to_store_def Let_def outcome_simps intro!: outcome_mono [OF grows_outcome [OF wr]])
  show ?thesis
    unfolding append_wallet_activity_entry_def load_wallet_activity_entries_from_store_def outcome_simps
    by (rule outcome_mono [OF grows_outcome [OF r]])
      (auto simp: outcome_simps split: sum.splits intro!: outcome_mono [OF save])
qed

text \<open>The proofs that an import is about.\<close>

definition imported_infos :: "'u wallet_lib \<Rightarrow> string \<Rightarrow> string \<Rightarrow> TransferError + ProofInfo list" where
  "imported_infos lib mint_url proofs_json =
     and_then (normalize_mint_url (wl_urls lib) mint_url) (\<lambda>normalized_mint.
     and_then (map_err (Cdk ''Failed to parse normalized mint URL'') (mint_url_from_str (wl_urls lib) normalized_mint)) (\<lambda>mint_url.
     and_then (map_err (Cdk ''Failed to parse Cashu payment proofs'') (proofs_from_str lib proofs_json)) (\<lambda>proofs.
     prepare_proofs lib mint_url proofs)))"

lemma within_simps [simp]:
  "within m (Inl e, w) = (Inl (Within m e), w)" "within m (Inr x, w) = (Inr x, w)"
  by (simp_all add: within_def)

lemma outcome_within [outcome_simps]: "outcome (within m p) E P \<longleftrightarrow> outcome p E P"
  by (cases p; cases "fst p") auto

lemma store_new_outcome:
  assumes "proof_wallet known wallet" "proof_database known localstore repository"
  shows "outcome (store_new_proofs lib env localstore wallet n infos w) (\<lambda>_. True)
    (\<lambda>p w'. known w \<union> pi_y ` set infos \<subseteq> known w' \<and> rc_amount_sat p = imported_amount infos)"
proof -
  have up: "outcome (cw_update_proofs wallet infos w) (\<lambda>_. True) (\<lambda>_ w'. known w' = known w \<union> pi_y ` set infos)"
    using assms(1) unfolding proof_wallet_def by blast
  show ?thesis
    by (cases "infos = []")
      (auto simp: store_new_proofs_def Let_def outcome_simps
        intro!: outcome_mono [OF up] outcome_mono [OF append_grows [OF assms(2)]])
qed

lemma store_proofs_outcome:
  assumes "proof_wallet known wallet" "proof_database known localstore repository"
  shows "outcome (store_proofs lib env localstore wallet n infos w) (\<lambda>_. True)
    (\<lambda>p w'. known w \<union> pi_y ` set infos \<subseteq> known w'
       \<and> rc_amount_sat p = imported_amount (filter (\<lambda>info. pi_y info \<notin> known w) infos))"
  unfolding store_proofs_def outcome_simps
proof (rule outcome_mono)
  show "outcome (cw_get_proofs_by_ys wallet (map pi_y infos) w) (\<lambda>_. True)
      (\<lambda>found w'. known w' = known w \<and> pi_y ` set found = set (map pi_y infos) \<inter> known w)"
    using assms(1) unfolding proof_wallet_def by blast
next
  fix existing w1 assume e: "known w1 = known w \<and> pi_y ` set existing = set (map pi_y infos) \<inter> known w"
  let ?new = "filter (\<lambda>info. pi_y info \<notin> known w) infos"
  have new: "filter (\<lambda>info. pi_y info \<notin> pi_y ` set existing) infos = ?new"
    using e by (intro filter_cong) auto
  have "known w1 \<union> pi_y ` set ?new = known w \<union> pi_y ` set infos" using e by auto
  then show "outcome (store_new_proofs lib env localstore wallet n (filter (\<lambda>info. pi_y info \<notin> pi_y ` set existing) infos) w1) (\<lambda>_. True)
      (\<lambda>p w'. known w \<union> pi_y ` set infos \<subseteq> known w' \<and> rc_amount_sat p = imported_amount ?new)"
    unfolding new using store_new_outcome [OF assms, of lib env n ?new w1] by metis
qed simp

text \<open>The world in which an import looks its proofs up: the wallet is there and has recovered.\<close>

definition looked_up_in :: "'w wallet_repository \<Rightarrow> 'w \<Rightarrow> 'w \<Rightarrow> bool" where
  "looked_up_in repository w v \<longleftrightarrow> (\<exists>url wallet u report. ensure_sat_wallet repository url w = (Inr wallet, u)
     \<and> cw_recover_incomplete_sagas wallet u = (Inr report, v))"

lemma import_steps:
  assumes "import_payment_proofs lib env localstore repository mint_url unit proofs_json w = (Inr p, w')"
  obtains infos url n wallet u report v where "imported_infos lib mint_url proofs_json = Inr infos"
    "ensure_sat_wallet repository url w = (Inr wallet, u)" "cw_recover_incomplete_sagas wallet u = (Inr report, v)"
    "store_proofs lib env localstore wallet n infos v = (Inr p, w')"
  using assms by (auto simp: import_payment_proofs_def imported_infos_def Let_def result_simps split: if_splits)

lemma import_exact:
  assumes "proof_database known localstore repository"
    and "import_payment_proofs lib env localstore repository mint_url unit proofs_json w = (Inr p, w')"
  shows "\<exists>infos v. imported_infos lib mint_url proofs_json = Inr infos \<and> looked_up_in repository w v
    \<and> rc_amount_sat p = imported_amount (filter (\<lambda>info. pi_y info \<notin> known v) infos)
    \<and> known v \<union> pi_y ` set infos \<subseteq> known w'"
  using assms(2)
proof (rule import_steps)
  fix infos url n wallet u report v
  assume i: "imported_infos lib mint_url proofs_json = Inr infos" "ensure_sat_wallet repository url w = (Inr wallet, u)"
    "cw_recover_incomplete_sagas wallet u = (Inr report, v)" "store_proofs lib env localstore wallet n infos v = (Inr p, w')"
  have "outcome (ensure_sat_wallet repository url w) (\<lambda>_. True) (\<lambda>wallet w'. proof_wallet known wallet)"
    using assms(1) unfolding proof_database_def by blast
  then have "proof_wallet known wallet" using i(2) by simp
  moreover have "looked_up_in repository w v" using i(2,3) unfolding looked_up_in_def by blast
  ultimately show ?thesis
    using outcomeD(2) [OF store_proofs_outcome [OF _ assms(1)] i(4)] i(1) by blast
qed

text \<open>C40. An import stores the proofs it is given and reports exactly those that were not in the wallet when
  it looked them up, which it does after the wallet has recovered: it returns the sum of their amounts
  (saturating), every proof is in the wallet afterwards and none that was there is lost. So importing the
  same proofs again, at any later time, reports zero whenever they are still in the wallet at that lookup.
  What the recovery of the wallet removes or adds is left open.\<close>

theorem proofs_imported_once:
  assumes "proof_database known localstore repository"
    and "import_payment_proofs lib env localstore repository mint_url unit proofs_json w = (Inr p, w1)"
    and "import_payment_proofs lib env' localstore repository mint_url unit' proofs_json w2 = (Inr p', w3)"
  shows "\<exists>infos v v'. imported_infos lib mint_url proofs_json = Inr infos
    \<and> looked_up_in repository w v
    \<and> rc_amount_sat p = imported_amount (filter (\<lambda>info. pi_y info \<notin> known v) infos)
    \<and> known v \<union> pi_y ` set infos \<subseteq> known w1
    \<and> looked_up_in repository w2 v' \<and> known v' \<subseteq> known w3
    \<and> (pi_y ` set infos \<subseteq> known v' \<longrightarrow> rc_amount_sat p' = 0)"
proof -
  obtain infos v where 1: "imported_infos lib mint_url proofs_json = Inr infos" "looked_up_in repository w v"
      "rc_amount_sat p = imported_amount (filter (\<lambda>info. pi_y info \<notin> known v) infos)"
      "known v \<union> pi_y ` set infos \<subseteq> known w1"
    using import_exact [OF assms(1,2)] by blast
  obtain v' where 2: "looked_up_in repository w2 v'" "known v' \<subseteq> known w3"
      "rc_amount_sat p' = imported_amount (filter (\<lambda>info. pi_y info \<notin> known v') infos)"
    using import_exact [OF assms(1,3)] 1(1) by auto
  have "rc_amount_sat p' = 0" if "pi_y ` set infos \<subseteq> known v'"
  proof -
    have "filter (\<lambda>info. pi_y info \<notin> known v') infos = []" using that by (auto simp: filter_empty_conv)
    then show ?thesis using 2(3) by (simp add: imported_amount_def)
  qed
  then show ?thesis using 1 2(1,2) by blast
qed

text \<open>A wallet whose world keeps the stored proofs by their \<open>Y\<close>, and the log, in one journal.\<close>

definition journal_wallet :: "string \<Rightarrow> ex_world cdk_wallet" where
  "journal_wallet url = (ex_wallet url)\<lparr>
     cw_get_proofs_by_ys := (\<lambda>ys w. (Inr (map (\<lambda>y. \<lparr>pi_proof = example_proof, pi_y = y, pi_mint_url = url, pi_unit = UnitSat\<rparr>)
       (filter (\<lambda>y. y \<in> fst ` set (ew_journal w)) ys)), w)),
     cw_update_proofs := (\<lambda>infos w. (Inr (), w\<lparr>ew_journal := map (\<lambda>y. (y, [])) (remdups (map pi_y infos)) @ ew_journal w\<rparr>))\<rparr>"

definition journal_repository :: "ex_world wallet_repository" where
  "journal_repository =
     \<lparr>repo_has_wallet = (\<lambda>url unit w. (True, w)), repo_get_wallet = (\<lambda>url unit w. (Inr (journal_wallet url), w)),
      repo_create_wallet = (\<lambda>url unit w. (Inl ''exists'', w)), repo_get_wallets = (\<lambda>w. ([], w)),
      repo_total_balance = (\<lambda>w. (Inr [], w)), repo_get_balances = (\<lambda>w. (Inr [], w))\<rparr>"

definition journal_store :: "ex_world local_store" where
  "journal_store = \<lparr>ls_kv_read = (\<lambda>a b k w. (Inr (map_of (ew_journal w) k), w)),
     ls_kv_write = (\<lambda>a b k v w. (Inr (), w\<lparr>ew_journal := (k, v) # ew_journal w\<rparr>))\<rparr>"

definition example_env :: activity_env where
  "example_env = \<lparr>ae_id_unix = 9, ae_now_unix = 9, ae_suffix = [0, 0, 0, 0]\<rparr>"

definition empty_world :: ex_world where
  "empty_world = \<lparr>ew_journal = [], ew_paid = False, ew_issued = False\<rparr>"

lemma journal_database: "proof_database (\<lambda>w. fst ` set (ew_journal w)) journal_store journal_repository"
  by (force simp: proof_database_def proof_wallet_def grows_def journal_store_def journal_repository_def
      journal_wallet_def ensure_sat_wallet_def ex_wallet_def outcome_simps)

theorem proofs_imported_once_witness:
  "\<exists>p w p' w'. import_payment_proofs example_wallet_lib example_env journal_store journal_repository ''https://m'' ''sat'' ''once'' empty_world
       = (Inr p, w)
     \<and> import_payment_proofs example_wallet_lib example_env journal_store journal_repository ''https://m'' ''sat'' ''once'' w = (Inr p', w')
     \<and> rc_amount_sat p = 8 \<and> rc_amount_sat p' = 0"
proof -
  define i where "i = import_payment_proofs example_wallet_lib example_env journal_store journal_repository ''https://m'' ''sat'' ''once''"
  have 1: "isl (fst (i empty_world)) = False" "rc_amount_sat (projr (fst (i empty_world))) = 8"
      "isl (fst (i (snd (i empty_world)))) = False"
    unfolding i_def by code_simp+
  have 2: "i empty_world = (Inr (projr (fst (i empty_world))), snd (i empty_world))"
    using 1(1) by (cases "fst (i empty_world)") (auto simp: prod_eq_iff)
  have 3: "i (snd (i empty_world)) = (Inr (projr (fst (i (snd (i empty_world))))), snd (i (snd (i empty_world))))"
    using 1(3) by (cases "fst (i (snd (i empty_world)))") (auto simp: prod_eq_iff)
  have still: "v = w" if "looked_up_in journal_repository w v" for w v
    using that by (auto simp: looked_up_in_def ensure_sat_wallet_def journal_repository_def journal_wallet_def ex_wallet_def)
  have "rc_amount_sat (projr (fst (i (snd (i empty_world))))) = 0"
    using proofs_imported_once [OF journal_database 2 [unfolded i_def] 3 [unfolded i_def]] still
    unfolding i_def by blast
  then show ?thesis using 1(2) 2 3 unfolding i_def [symmetric] by blast
qed

text \<open>The reported amount counts the list that was given, not the proofs that were stored: a proof that
  appears twice in the input is stored once, under its \<open>Y\<close>, and its amount is reported and logged twice.\<close>

theorem repeated_proof_counted_twice:
  "\<exists>p w. import_payment_proofs example_wallet_lib example_env journal_store journal_repository ''https://m'' ''sat'' ''twice'' empty_world
       = (Inr p, w)
     \<and> rc_amount_sat p = 16 \<and> pr_amount example_proof = 8 \<and> filter (\<lambda>e. fst e = ''s'') (ew_journal w) = [(''s'', [])]"
proof -
  define i where "i = import_payment_proofs example_wallet_lib example_env journal_store journal_repository ''https://m'' ''sat'' ''twice'' empty_world"
  have 1: "isl (fst i) = False" "rc_amount_sat (projr (fst i)) = 16"
      "filter (\<lambda>e. fst e = ''s'') (ew_journal (snd i)) = [(''s'', [])]"
    unfolding i_def by code_simp+
  have "i = (Inr (projr (fst i)), snd i)" using 1(1) by (cases "fst i") (auto simp: prod_eq_iff)
  then show ?thesis using 1(2,3) unfolding i_def [symmetric] by (auto simp: example_proof_def)
qed

section \<open>Reclaiming\<close>

text \<open>Reclaiming a token compares the operation id of the log with the text of the call, not with the id
  it stands for: for an id spelled in upper case the token is taken back and the call succeeds, and the
  log still says that the token is pending; for the spelling of the log it says reclaimed.\<close>

theorem reclaimed_under_other_spelling:
  "map_prod id (\<lambda>w. map_of (ew_journal w) K_WALLET_ACTIVITY_KEY)
       (revoke_pending_payment example_wallet_lib journal_store journal_repository ''https://m'' ''AB''
          (empty_world\<lparr>ew_journal := [(K_WALLET_ACTIVITY_KEY, [1])]\<rparr>)) = (Inr 21, Some [1])
   \<and> map_prod id (\<lambda>w. map_of (ew_journal w) K_WALLET_ACTIVITY_KEY)
       (revoke_pending_payment example_wallet_lib journal_store journal_repository ''https://m'' ''ab''
          (empty_world\<lparr>ew_journal := [(K_WALLET_ACTIVITY_KEY, [1])]\<rparr>)) = (Inr 21, Some [2])
   \<and> activity_from_slice example_wallet_lib [1] = Inr [example_entry] \<and> av_status example_entry = Pending
   \<and> activity_from_slice example_wallet_lib [2] = Inr [reclaimed_entry] \<and> uuid_parse example_wallet_lib ''AB'' = Inr ''ab''"
  by (intro conjI) code_simp+

end
