(* ===== verification/Service_Protocol.thy ===== *)
theory Service_Protocol
  imports Rust_BTreeMap
begin

text \<open>
  The messages of paid services (\<open>protocol.rs\<close>): advertisements with indicative prices, quotes and lease
  tokens. Their JSON form is derived by \<open>serde\<close> and is not repeated.
\<close>

datatype ServiceKind =
    Forwarding | AddressObservation | Allocation | Entry | Rendezvous | CustomService string

datatype TransportKind =
    Udp | Tcp | Quic | Websocket | Tor | Ethernet | Bluetooth | Serial | Radio | OtherTransport string

datatype MeterUnit =
    FlatUnit | BytesIn | BytesOut | BytesTotal | SecondsUnit | SessionsUnit | AllocationsUnit | PacketsUnit
  | AirtimeMs | OtherMeter string

record MeterAmount =
  ma_unit :: MeterUnit
  ma_quantity :: u64

record PriceRate =
  pt_unit :: MeterUnit
  pt_quantity :: u64
  pt_price_sat :: u64

definition price_rate_new :: "MeterUnit \<Rightarrow> u64 \<Rightarrow> u64 \<Rightarrow> PriceRate" where
  "price_rate_new unit quantity price_sat =
     \<lparr>pt_unit = unit, pt_quantity = max quantity 1, pt_price_sat = price_sat\<rparr>"

record IndicativePricing =
  ip_rates :: "PriceRate list"
  ip_min_total_price_sat :: "u64 option"
  ip_quote_ttl_secs :: "u32 option"

record ServiceLimits =
  sl_max_per_lease :: "MeterAmount list"
  sl_max_concurrent_leases :: "u32 option"
  sl_max_idle_secs :: "u32 option"

record ServiceAdvertisement =
  ad_service_id :: string
  ad_kind :: ServiceKind
  ad_transports :: "TransportKind list"
  ad_features :: "string list"
  ad_indicative_pricing :: "IndicativePricing option"
  ad_limits :: "ServiceLimits option"
  ad_accepted_mints :: "string list"
  ad_quote_required :: bool
  ad_metadata :: "(string, string) btree_map"

definition should_request_quote :: "ServiceAdvertisement \<Rightarrow> bool" where
  "should_request_quote self \<longleftrightarrow> ad_quote_required self \<or> ad_indicative_pricing self \<noteq> None"

record QuoteRequest =
  qr_service_id :: string
  qr_requested :: "MeterAmount list"
  qr_preferred_mint :: "string option"
  qr_max_total_price_sat :: "u64 option"

record QuoteResponse =
  qp_service_id :: string
  qp_quote_id :: string
  qp_expires_unix :: u64
  qp_granted :: "MeterAmount list"
  qp_pricing :: "PriceRate list"
  qp_total_price_sat :: u64
  qp_mint_url :: "string option"
  qp_metadata :: "(string, string) btree_map"

record LeaseToken =
  lt_service_id :: string
  lt_quote_id :: string
  lt_lease_id :: string
  lt_issued_unix :: u64
  lt_expires_unix :: u64
  lt_granted :: "MeterAmount list"
  lt_amount_paid_sat :: u64
  lt_mint_url :: "string option"
  lt_metadata :: "(string, string) btree_map"

text \<open>A rate never has quantity zero, so that a price per unit can be divided by it.\<close>

lemma rate_quantity_positive: "0 < pt_quantity (price_rate_new unit quantity price_sat)"
  by (simp add: price_rate_new_def max_def word_le_nat_alt word_less_nat_alt)

end
