(* ===== verification/Helper_Client.thy ===== *)
theory Helper_Client
  imports File_System Wallet_Operations
begin

text \<open>
  The client of the helper process (\<open>helper.rs\<close>): where the executable is looked for, its arguments, and how
  its exit and output are read. Running a process is a parameter on the world \<open>'w\<close>; so are the environment
  and the JSON decoders. The text of an \<open>OsString\<close> is a string or a path. Names are those on Unix.
\<close>

definition CASHU_HELPER_ENV :: string where "CASHU_HELPER_ENV = ''CASHU_SERVICE_HELPER''"

definition CARGO_HELPER_ENV :: string where "CARGO_HELPER_ENV = ''CARGO_BIN_EXE_cashu-service-helper''"

definition LEGACY_CASHU_HELPER_ENV :: string where "LEGACY_CASHU_HELPER_ENV = ''HTREE_CASHU_HELPER''"

definition LEGACY_CARGO_HELPER_ENV :: string where "LEGACY_CARGO_HELPER_ENV = ''CARGO_BIN_EXE_htree-cashu''"

section \<open>The executable\<close>

definition helper_binary_name :: string where
  "helper_binary_name = ''cashu-service-helper''"

definition legacy_helper_binary_name :: string where
  "legacy_helper_binary_name = ''htree-cashu''"

text \<open>\<open>Path::parent\<close>: only the empty path has none.\<close>

definition parent_of :: "path \<Rightarrow> path option" where
  "parent_of path = (if path = [] then None else Some (butlast path))"

definition helpers_in :: "path option \<Rightarrow> path list" where
  "helpers_in directory =
     (case directory of
        None \<Rightarrow> []
      | Some d \<Rightarrow> [join d helper_binary_name, join d legacy_helper_binary_name])"

definition helper_candidates :: "path \<Rightarrow> path list" where
  "helper_candidates current_exe =
     helpers_in (parent_of current_exe) @ helpers_in (Option.bind (parent_of current_exe) parent_of)"

datatype HelperError =
    HelperNotFound | NoCurrentExe string | LaunchFailed path string | StdinNotWritten string | StdinNotClosed string
  | OutputNotRead string | HelperStatus "32 word" | HelperFailed string | OutputNotDecoded string | HelperKilled

definition helper_binary_path :: "os \<Rightarrow> (string \<rightharpoonup> path) \<Rightarrow> path \<Rightarrow> file_system \<Rightarrow> HelperError + path" where
  "helper_binary_path os env current_exe fs =
     (case env CASHU_HELPER_ENV of
        Some path \<Rightarrow> Inr path
      | None \<Rightarrow>
     (case env CARGO_HELPER_ENV of
        Some path \<Rightarrow> Inr path
      | None \<Rightarrow>
     (case env LEGACY_CASHU_HELPER_ENV of
        Some path \<Rightarrow> Inr path
      | None \<Rightarrow>
     (case env LEGACY_CARGO_HELPER_ENV of
        Some path \<Rightarrow> Inr path
      | None \<Rightarrow> ok_or (find (\<lambda>path. path_exists os path fs) (helper_candidates current_exe)) HelperNotFound))))"

record CashuHelperClient =
  he_helper_path :: path
  he_data_dir :: path

definition discover ::
    "os \<Rightarrow> (string \<rightharpoonup> path) \<Rightarrow> (string + path) \<Rightarrow> path \<Rightarrow> file_system \<Rightarrow> HelperError + CashuHelperClient" where
  "discover os env current_exe data_dir fs =
     and_then (map_err NoCurrentExe current_exe) (\<lambda>current_exe.
     and_then (helper_binary_path os env current_exe fs) (\<lambda>helper_path.
     Inr \<lparr>he_helper_path = helper_path, he_data_dir = data_dir\<rparr>))"

section \<open>Running it\<close>

datatype os_string = TextArg string | PathArg path

text \<open>An exit has a code unless a signal ended the process. The error output is already text.\<close>

record process_output =
  po_status :: "32 word option"
  po_stdout :: string
  po_stderr :: string

record ('c, 'w) processes =
  spawn_child :: "path \<Rightarrow> os_string list \<Rightarrow> bool \<Rightarrow> 'w \<Rightarrow> (string + 'c) \<times> 'w"
  write_stdin :: "'c \<Rightarrow> string \<Rightarrow> 'w \<Rightarrow> (string + unit) \<times> 'w"
  shutdown_stdin :: "'c \<Rightarrow> 'w \<Rightarrow> (string + unit) \<times> 'w"
  wait_with_output :: "'c \<Rightarrow> 'w \<Rightarrow> (string + process_output) \<times> 'w"
  command_status :: "path \<Rightarrow> os_string list \<Rightarrow> 'w \<Rightarrow> (string + 32 word option) \<times> 'w"

definition base_helper_args :: "path \<Rightarrow> os_string list" where
  "base_helper_args data_dir = [TextArg ''--data-dir'', PathArg data_dir]"

definition feed_stdin :: "('c, 'w) processes \<Rightarrow> 'c \<Rightarrow> string option \<Rightarrow> 'w \<Rightarrow> (HelperError + unit) \<times> 'w" where
  "feed_stdin processes child stdin w =
     (case stdin of
        None \<Rightarrow> (Inr (), w)
      | Some input \<Rightarrow>
          attempt_mut (apfst (map_err StdinNotWritten) (write_stdin processes child input w)) (\<lambda>_ w.
          apfst (map_err StdinNotClosed) (shutdown_stdin processes child w)))"

definition helper_answer :: "(string \<Rightarrow> string + 'a) \<Rightarrow> process_output \<Rightarrow> HelperError + 'a" where
  "helper_answer from_slice output =
     (if po_status output \<noteq> Some 0
      then
        let detail = trim (po_stderr output) in
        if detail = [] then Inl (HelperStatus (case po_status output of Some code \<Rightarrow> code | None \<Rightarrow> 0))
        else Inl (HelperFailed detail)
      else map_err OutputNotDecoded (from_slice (po_stdout output)))"

definition run_json ::
    "('c, 'w) processes \<Rightarrow> (string \<Rightarrow> string + 'a) \<Rightarrow> CashuHelperClient \<Rightarrow> os_string list \<Rightarrow> string option \<Rightarrow> 'w
       \<Rightarrow> (HelperError + 'a) \<times> 'w" where
  "run_json processes from_slice self extra_args stdin w =
     attempt_mut (apfst (map_err (LaunchFailed (he_helper_path self)))
       (spawn_child processes (he_helper_path self) (base_helper_args (he_data_dir self) @ extra_args) (stdin \<noteq> None) w))
       (\<lambda>child w.
     attempt_mut (feed_stdin processes child stdin w) (\<lambda>_ w.
     attempt_mut (apfst (map_err OutputNotRead) (wait_with_output processes child w)) (\<lambda>output w.
     (helper_answer from_slice output, w))))"

definition helper_send_payment ::
    "('c, 'w) processes \<Rightarrow> (string \<Rightarrow> string + CashuSentPayment) \<Rightarrow> CashuHelperClient \<Rightarrow> string \<Rightarrow> u64 \<Rightarrow> 'w
       \<Rightarrow> (HelperError + CashuSentPayment) \<times> 'w" where
  "helper_send_payment processes from_slice self mint_url amount_sat w =
     run_json processes from_slice self
       [TextArg ''internal'', TextArg ''send'', TextArg (display_nat (unat amount_sat)), TextArg ''--mint'', TextArg mint_url]
       None w"

definition helper_receive_payment ::
    "('c, 'w) processes \<Rightarrow> (string \<Rightarrow> string + CashuReceivedPayment) \<Rightarrow> CashuHelperClient \<Rightarrow> string \<Rightarrow> 'w
       \<Rightarrow> (HelperError + CashuReceivedPayment) \<times> 'w" where
  "helper_receive_payment processes from_slice self encoded_token w =
     run_json processes from_slice self [TextArg ''internal'', TextArg ''receive'', TextArg ''--token-stdin'']
       (Some encoded_token) w"

definition helper_revoke_payment ::
    "('c, 'w) processes \<Rightarrow> (string \<Rightarrow> string + 'j) \<Rightarrow> CashuHelperClient \<Rightarrow> string \<Rightarrow> string \<Rightarrow> 'w
       \<Rightarrow> (HelperError + unit) \<times> 'w" where
  "helper_revoke_payment processes from_slice self mint_url operation_id w =
     attempt_mut (run_json processes from_slice self
       [TextArg ''internal'', TextArg ''revoke'', TextArg ''--mint'', TextArg mint_url, TextArg ''--operation-id'',
        TextArg operation_id] None w) (\<lambda>_ w. (Inr (), w))"

definition helper_mint_balance ::
    "('c, 'w) processes \<Rightarrow> (string \<Rightarrow> string + CashuMintBalance) \<Rightarrow> CashuHelperClient \<Rightarrow> string \<Rightarrow> 'w
       \<Rightarrow> (HelperError + CashuMintBalance) \<times> 'w" where
  "helper_mint_balance processes from_slice self mint_url w =
     run_json processes from_slice self [TextArg ''internal'', TextArg ''balance'', TextArg ''--mint'', TextArg mint_url]
       None w"

definition run_helper_status ::
    "('c, 'w) processes \<Rightarrow> path \<Rightarrow> os_string list \<Rightarrow> 'w \<Rightarrow> (HelperError + unit) \<times> 'w" where
  "run_helper_status processes helper_path args w =
     attempt_mut (apfst (map_err (LaunchFailed helper_path)) (command_status processes helper_path args w)) (\<lambda>status w.
     case status of
       Some code \<Rightarrow> if code = 0 then (Inr (), w) else (Inl (HelperStatus code), w)
     | None \<Rightarrow> (Inl HelperKilled, w))"

end
