(* ===== verification/Rust_Json.thy ===== *)
theory Rust_Json
  imports Rust_BTreeMap
begin

text \<open>
  \<open>serde_json::Value\<close> with the accessors the crate uses: an accessor on a value of another kind, or a
  field that is not there, is \<open>None\<close>. Parsing and printing the text of a value are parameters where they
  are used.
\<close>

datatype json_number = PosInt u64 | NegInt u64 | Float string

datatype json =
    JsonNull | JsonBool bool | JsonNumber json_number | JsonString string
  | JsonArray "json list" | JsonObject "(string, json) btree_map"

fun json_get :: "string \<Rightarrow> json \<Rightarrow> json option" where
  "json_get key (JsonObject fields) = bm_get fields key"
| "json_get key _ = None"

fun as_str :: "json \<Rightarrow> string option" where
  "as_str (JsonString text) = Some text"
| "as_str _ = None"

fun as_array :: "json \<Rightarrow> json list option" where
  "as_array (JsonArray values) = Some values"
| "as_array _ = None"

fun as_bool :: "json \<Rightarrow> bool option" where
  "as_bool (JsonBool b) = Some b"
| "as_bool _ = None"

fun as_u64 :: "json \<Rightarrow> u64 option" where
  "as_u64 (JsonNumber (PosInt n)) = Some n"
| "as_u64 _ = None"

definition str_field :: "string \<Rightarrow> json \<Rightarrow> string option" where
  "str_field key value = Option.bind (json_get key value) as_str"

definition u64_field :: "string \<Rightarrow> json \<Rightarrow> u64 option" where
  "u64_field key value = Option.bind (json_get key value) as_u64"

end
