(* ===== verification/Spilman_Receiver.thy ===== *)
theory Spilman_Receiver
  imports File_System Streaming_Route Rust_Json
begin

text \<open>
  The seller's side of Spilman channels (\<open>spilman_receiver.rs\<close>): the receiver's key file, the normalised
  configuration and the host configuration made from it, loading a receiver, and closing a channel. The
  configurable host and the bridge are code of \<open>cdk_spilman\<close> and are parameters: \<open>'h\<close> is a host, \<open>'w\<close> its
  database and the mints. A host with memory storage touches nothing outside itself. \<open>SharedConfigurableHost\<close>
  passes every call on to the host and is not repeated. A message built with \<open>format!\<close> is a constructor with
  the values it prints; a loop has fuel (\<open>draws\<close>).
\<close>

section \<open>Configuration\<close>

definition SPILMAN_RECEIVER_KEY_VERSION :: u16 where
  "SPILMAN_RECEIVER_KEY_VERSION = 1"

definition spilman_receiver_key_path :: "path \<Rightarrow> path" where
  "spilman_receiver_key_path data_dir = join data_dir ''spilman-receiver-key.json''"

definition spilman_receiver_store_path :: "path \<Rightarrow> path" where
  "spilman_receiver_store_path data_dir = join data_dir ''spilman-receiver.sqlite''"

record CashuSpilmanReceiverKeyFile =
  rk_version :: u16
  rk_secret_hex :: string
  rk_public_key_hex :: string

record FileSpilmanPaymentReceiverConfig =
  fc_accepted_mints :: "string list"
  fc_units :: "string list"
  fc_min_capacity :: u64
  fc_max_amount_per_output :: u64
  fc_min_expiry_seconds :: u64

datatype ReceiverError =
    NoAcceptedMint | ReceiverUnit RouteError
  | ReceiverKeyNotDecoded string | UnsupportedReceiverKey u16 | ReceiverKeyMismatch | ReceiverKeyNotRead io_error
  | ReceiverDirNotCreated io_error | ReceiverKeyNotEncoded string | ReceiverKeyNotWritten io_error
  | ReceiverKeyNotSecured io_error | HostKeyMismatch | HostError string | NoChannelId

definition default_spilman_receiver_units :: "string list" where
  "default_spilman_receiver_units = [unit_as_str Sat]"

definition default_spilman_receiver_min_capacity :: u64 where
  "default_spilman_receiver_min_capacity = 1"

definition receiver_config_new :: "string list \<Rightarrow> FileSpilmanPaymentReceiverConfig" where
  "receiver_config_new accepted_mints =
     \<lparr>fc_accepted_mints = accepted_mints, fc_units = default_spilman_receiver_units,
      fc_min_capacity = default_spilman_receiver_min_capacity, fc_max_amount_per_output = 0,
      fc_min_expiry_seconds = 0\<rparr>"

definition receiver_normalize_mint_url :: "string \<Rightarrow> string" where
  "receiver_normalize_mint_url value = trim_end_matches (CHR ''/'') (trim value)"

text \<open>\<open>collect::<Result<Vec<_>, _>>\<close> stops at the first unit that is not known.\<close>

fun collect_units :: "string list \<Rightarrow> RouteError + string list" where
  "collect_units [] = Inr []"
| "collect_units (unit # units) =
     and_then (parse_unit unit) (\<lambda>unit. and_then (collect_units units) (\<lambda>rest. Inr (unit_as_str unit # rest)))"

definition receiver_config_normalized ::
    "FileSpilmanPaymentReceiverConfig \<Rightarrow> ReceiverError + FileSpilmanPaymentReceiverConfig" where
  "receiver_config_normalized self =
     (let accepted_mints = remdups_adj (sort
            (filter (\<lambda>mint. mint \<noteq> []) (map receiver_normalize_mint_url (fc_accepted_mints self)))) in
      if accepted_mints = [] then Inl NoAcceptedMint
      else
        and_then (map_err ReceiverUnit (collect_units (fc_units self))) (\<lambda>units.
        let units = remdups_adj (sort units);
            units = (if units = [] then default_spilman_receiver_units else units) in
        Inr \<lparr>fc_accepted_mints = accepted_mints, fc_units = units, fc_min_capacity = max (fc_min_capacity self) 1,
             fc_max_amount_per_output = fc_max_amount_per_output self,
             fc_min_expiry_seconds = fc_min_expiry_seconds self\<rparr>))"

section \<open>The host\<close>

datatype StorageConfig = StorageMemory | StorageSqlite path

record UnitPricingConfig =
  up_min_capacity :: u64
  up_max_amount_per_output :: "u64 option"

record ConfigurableHostConfig =
  hc_mints :: "string \<rightharpoonup> string list"
  hc_min_expiry_seconds :: u64
  hc_pricing_scale :: u64
  hc_storage :: StorageConfig
  hc_pricing :: "string \<rightharpoonup> UnitPricingConfig"

record ClosedDataView =
  cd_closed_amount :: u64
  cd_value_after_stage1 :: u64
  cd_receiver_sum :: u64
  cd_sender_sum :: u64
  cd_receiver_proofs_json :: string
  cd_sender_proofs_json :: string

record CloseSuccess =
  cl_channel_id :: string
  cl_total_value :: u64
  cl_receiver_sum :: u64
  cl_sender_sum :: u64
  cl_sender_proofs :: string
  cl_already_closed :: bool

record ('h, 'w) receiver_lib =
  receiver_key_to_string :: "CashuSpilmanReceiverKeyFile \<Rightarrow> string + string"
  receiver_key_from_str :: "string \<Rightarrow> string + CashuSpilmanReceiverKeyFile"
  receiver_random_hex :: "nat \<Rightarrow> string"
  host_in_memory :: "ConfigurableHostConfig \<Rightarrow> string \<Rightarrow> string + 'h"
  host_on_sqlite :: "ConfigurableHostConfig \<Rightarrow> string \<Rightarrow> 'w \<Rightarrow> (string + 'h) \<times> 'w"
  server_pubkey_hex :: "'h \<Rightarrow> string"
  initialize_keysets :: "'h \<Rightarrow> 'w \<Rightarrow> (string + unit) \<times> 'w"
  host_params_json :: "'h \<Rightarrow> string \<Rightarrow> 'w \<Rightarrow> string option"
  params_from_str :: "string \<Rightarrow> string + json"
  host_closed_data :: "'h \<Rightarrow> string \<Rightarrow> 'w \<Rightarrow> ClosedDataView option"
  execute_unilateral_close :: "'h \<Rightarrow> string \<Rightarrow> 'w \<Rightarrow> (string + CloseSuccess) \<times> 'w"

definition unit_pricing :: "FileSpilmanPaymentReceiverConfig \<Rightarrow> UnitPricingConfig" where
  "unit_pricing config =
     \<lparr>up_min_capacity = fc_min_capacity config,
      up_max_amount_per_output =
        (if fc_max_amount_per_output config > 0 then Some (fc_max_amount_per_output config) else None)\<rparr>"

definition spilman_host_config :: "path \<Rightarrow> FileSpilmanPaymentReceiverConfig \<Rightarrow> ConfigurableHostConfig" where
  "spilman_host_config data_dir config =
     \<lparr>hc_mints = foldl (\<lambda>mints mint. mints(mint \<mapsto> fc_units config)) Map.empty (fc_accepted_mints config),
      hc_min_expiry_seconds = fc_min_expiry_seconds config, hc_pricing_scale = 1,
      hc_storage = StorageSqlite (spilman_receiver_store_path data_dir),
      hc_pricing = foldl (\<lambda>pricing unit. pricing(unit \<mapsto> unit_pricing config)) Map.empty (fc_units config)\<rparr>"

definition receiver_public_key_hex :: "('h, 'w) receiver_lib \<Rightarrow> string \<Rightarrow> string + string" where
  "receiver_public_key_hex lib secret_hex =
     and_then (host_in_memory lib \<lparr>hc_mints = Map.empty, hc_min_expiry_seconds = 0, hc_pricing_scale = 1,
       hc_storage = StorageMemory, hc_pricing = Map.empty\<rparr> secret_hex) (\<lambda>host. Inr (server_pubkey_hex lib host))"

section \<open>The receiver's key\<close>

fun generate_cashu_spilman_receiver_key ::
    "('h, 'w) receiver_lib \<Rightarrow> nat \<Rightarrow> nat \<Rightarrow> CashuSpilmanReceiverKeyFile option" where
  "generate_cashu_spilman_receiver_key lib start 0 = None"
| "generate_cashu_spilman_receiver_key lib start (Suc draws) =
     (let secret_hex = receiver_random_hex lib start in
      case receiver_public_key_hex lib secret_hex of
        Inr public_key_hex \<Rightarrow>
          Some \<lparr>rk_version = SPILMAN_RECEIVER_KEY_VERSION, rk_secret_hex = secret_hex,
                rk_public_key_hex = public_key_hex\<rparr>
      | Inl e \<Rightarrow> generate_cashu_spilman_receiver_key lib (Suc start) draws)"

definition secure_owner_only :: "os \<Rightarrow> path \<Rightarrow> file_system \<Rightarrow> (io_error + unit) \<times> file_system" where
  "secure_owner_only os path fs = fs_set_permissions os path 0x180 fs"

text \<open>\<open>create_dir_all\<close> of an empty path does nothing.\<close>

definition write_cashu_spilman_receiver_key ::
    "os \<Rightarrow> ('h, 'w) receiver_lib \<Rightarrow> path \<Rightarrow> CashuSpilmanReceiverKeyFile \<Rightarrow> file_system
       \<Rightarrow> (ReceiverError + unit) \<times> file_system" where
  "write_cashu_spilman_receiver_key os lib path key fs =
     attempt_mut (apfst (map_err ReceiverDirNotCreated)
       (if butlast path = [] then (Inr (), fs) else create_dir_all os (butlast path) fs)) (\<lambda>_ fs.
     attempt (map_err ReceiverKeyNotEncoded (receiver_key_to_string lib key)) fs (\<lambda>content.
     attempt_mut (apfst (map_err ReceiverKeyNotWritten) (fs_write os path content fs)) (\<lambda>_ fs.
     apfst (map_err ReceiverKeyNotSecured) (secure_owner_only os path fs))))"

definition decode_cashu_spilman_receiver_key ::
    "('h, 'w) receiver_lib \<Rightarrow> string \<Rightarrow> ReceiverError + CashuSpilmanReceiverKeyFile" where
  "decode_cashu_spilman_receiver_key lib content =
     and_then (map_err ReceiverKeyNotDecoded (receiver_key_from_str lib content)) (\<lambda>key.
     if rk_version key \<noteq> SPILMAN_RECEIVER_KEY_VERSION then Inl (UnsupportedReceiverKey (rk_version key))
     else
       and_then (map_err HostError (receiver_public_key_hex lib (rk_secret_hex key))) (\<lambda>public_key_hex.
       if public_key_hex \<noteq> rk_public_key_hex key then Inl ReceiverKeyMismatch else Inr key))"

definition load_or_create_cashu_spilman_receiver_key ::
    "os \<Rightarrow> ('h, 'w) receiver_lib \<Rightarrow> nat \<Rightarrow> path \<Rightarrow> file_system
       \<Rightarrow> ((ReceiverError + CashuSpilmanReceiverKeyFile) \<times> file_system) option" where
  "load_or_create_cashu_spilman_receiver_key os lib draws data_dir fs =
     (let path = spilman_receiver_key_path data_dir in
      case fs_read_to_string os path fs of
        Inr content \<Rightarrow> Some (decode_cashu_spilman_receiver_key lib content, fs)
      | Inl e \<Rightarrow>
          if e = NotFound
          then map_option (\<lambda>key. attempt_mut (write_cashu_spilman_receiver_key os lib path key fs) (\<lambda>_ fs. (Inr key, fs)))
                 (generate_cashu_spilman_receiver_key lib 0 draws)
          else Some (Inl (ReceiverKeyNotRead e), fs))"

section \<open>Loading a receiver\<close>

record 'h FileSpilmanPaymentReceiver =
  fr_host :: 'h
  fr_receiver_pubkey_hex :: string

definition host_for_key ::
    "('h, 'w) receiver_lib \<Rightarrow> path \<Rightarrow> FileSpilmanPaymentReceiverConfig \<Rightarrow> CashuSpilmanReceiverKeyFile \<Rightarrow> 'w
       \<Rightarrow> (ReceiverError + 'h \<times> string) \<times> 'w" where
  "host_for_key lib data_dir config key w =
     attempt (receiver_config_normalized config) w (\<lambda>config.
     attempt_mut (apfst (map_err HostError)
       (host_on_sqlite lib (spilman_host_config data_dir config) (rk_secret_hex key) w)) (\<lambda>host w.
     let receiver_pubkey_hex = server_pubkey_hex lib host in
     if receiver_pubkey_hex \<noteq> rk_public_key_hex key then (Inl HostKeyMismatch, w)
     else (Inr (host, receiver_pubkey_hex), w)))"

definition file_spilman_receiver_host ::
    "os \<Rightarrow> ('h, 'w) receiver_lib \<Rightarrow> nat \<Rightarrow> path \<Rightarrow> FileSpilmanPaymentReceiverConfig \<Rightarrow> file_system \<times> 'w
       \<Rightarrow> ((ReceiverError + 'h \<times> string) \<times> file_system \<times> 'w) option" where
  "file_spilman_receiver_host os lib draws data_dir config s =
     (case load_or_create_cashu_spilman_receiver_key os lib draws data_dir (fst s) of
        None \<Rightarrow> None
      | Some (Inl e, fs) \<Rightarrow> Some (Inl e, fs, snd s)
      | Some (Inr key, fs) \<Rightarrow>
          (case host_for_key lib data_dir config key (snd s) of (r, w) \<Rightarrow> Some (r, fs, w)))"

definition load_receiver ::
    "os \<Rightarrow> ('h, 'w) receiver_lib \<Rightarrow> nat \<Rightarrow> path \<Rightarrow> FileSpilmanPaymentReceiverConfig \<Rightarrow> file_system \<times> 'w
       \<Rightarrow> ((ReceiverError + 'h FileSpilmanPaymentReceiver) \<times> file_system \<times> 'w) option" where
  "load_receiver os lib draws data_dir config s =
     map_option (\<lambda>p. attempt_mut p (\<lambda>(host, pubkey) s. (Inr \<lparr>fr_host = host, fr_receiver_pubkey_hex = pubkey\<rparr>, s)))
       (file_spilman_receiver_host os lib draws data_dir config s)"

definition load_with_keyset_refresh ::
    "os \<Rightarrow> ('h, 'w) receiver_lib \<Rightarrow> nat \<Rightarrow> path \<Rightarrow> FileSpilmanPaymentReceiverConfig \<Rightarrow> file_system \<times> 'w
       \<Rightarrow> ((ReceiverError + 'h FileSpilmanPaymentReceiver) \<times> file_system \<times> 'w) option" where
  "load_with_keyset_refresh os lib draws data_dir config s =
     map_option (\<lambda>p. attempt_mut p (\<lambda>(host, pubkey) s.
         case initialize_keysets lib host (snd s) of
           (Inl e, w) \<Rightarrow> (Inl (HostError e), fst s, w)
         | (Inr u, w) \<Rightarrow> (Inr \<lparr>fr_host = host, fr_receiver_pubkey_hex = pubkey\<rparr>, fst s, w)))
       (file_spilman_receiver_host os lib draws data_dir config s)"

section \<open>Closing a channel\<close>

record CashuSpilmanReceiverCloseResult =
  rx_channel_id :: string
  rx_mint_url :: string
  rx_unit :: string
  rx_closed_amount :: u64
  rx_total_value :: u64
  rx_receiver_sum :: u64
  rx_sender_sum :: u64
  rx_receiver_proofs_json :: string
  rx_sender_proofs_json :: string
  rx_already_closed :: bool

definition close_result_from_closed_data ::
    "string \<Rightarrow> string \<Rightarrow> string \<Rightarrow> ClosedDataView \<Rightarrow> bool \<Rightarrow> CashuSpilmanReceiverCloseResult" where
  "close_result_from_closed_data channel_id mint_url unit closed already_closed =
     \<lparr>rx_channel_id = channel_id, rx_mint_url = mint_url, rx_unit = unit,
      rx_closed_amount = cd_closed_amount closed, rx_total_value = cd_value_after_stage1 closed,
      rx_receiver_sum = cd_receiver_sum closed, rx_sender_sum = cd_sender_sum closed,
      rx_receiver_proofs_json = cd_receiver_proofs_json closed, rx_sender_proofs_json = cd_sender_proofs_json closed,
      rx_already_closed = already_closed\<rparr>"

definition receiver_channel_mint_unit :: "('h, 'w) receiver_lib \<Rightarrow> 'h \<Rightarrow> string \<Rightarrow> 'w \<Rightarrow> string \<times> string" where
  "receiver_channel_mint_unit lib host channel_id w =
     (case map_option (params_from_str lib) (host_params_json lib host channel_id w) of
        Some (Inr params) \<Rightarrow>
          (let mint = (case json_get ''mint'' params of Some v \<Rightarrow> Some v | None \<Rightarrow> json_get ''mint_url'' params) in
           (case Option.bind mint as_str of Some mint \<Rightarrow> receiver_normalize_mint_url mint | None \<Rightarrow> [],
            case str_field ''unit'' params of Some unit \<Rightarrow> unit | None \<Rightarrow> unit_as_str Sat))
      | _ \<Rightarrow> ([], unit_as_str Sat))"

definition close_cashu_spilman_channel ::
    "('h, 'w) receiver_lib \<Rightarrow> 'h FileSpilmanPaymentReceiver \<Rightarrow> string \<Rightarrow> 'w
       \<Rightarrow> (ReceiverError + CashuSpilmanReceiverCloseResult) \<times> 'w" where
  "close_cashu_spilman_channel lib self channel_id w =
     (let channel_id = trim channel_id in
      if channel_id = [] then (Inl NoChannelId, w)
      else
        let (mint_url, unit) = receiver_channel_mint_unit lib (fr_host self) channel_id w in
        case host_closed_data lib (fr_host self) channel_id w of
          Some closed \<Rightarrow> (Inr (close_result_from_closed_data channel_id mint_url unit closed True), w)
        | None \<Rightarrow>
            attempt_mut (apfst (map_err HostError) (execute_unilateral_close lib (fr_host self) channel_id w)) (\<lambda>closed w.
            case host_closed_data lib (fr_host self) channel_id w of
              Some closed_data \<Rightarrow>
                (Inr (close_result_from_closed_data channel_id mint_url unit closed_data (cl_already_closed closed)), w)
            | None \<Rightarrow>
                (Inr \<lparr>rx_channel_id = cl_channel_id closed, rx_mint_url = mint_url, rx_unit = unit,
                      rx_closed_amount = cl_receiver_sum closed, rx_total_value = cl_total_value closed,
                      rx_receiver_sum = cl_receiver_sum closed, rx_sender_sum = cl_sender_sum closed,
                      rx_receiver_proofs_json = [], rx_sender_proofs_json = cl_sender_proofs closed,
                      rx_already_closed = cl_already_closed closed\<rparr>, w)))"

end
