(* ===== verification/Spilman_Receiver_Properties.thy ===== *)
theory Spilman_Receiver_Properties
  imports Spilman_Receiver Private_File_Properties
begin

text \<open>
  The configuration a receiver hands to its host is well-formed, the receiver's key is found again, and
  what a failure while the key is written leaves behind.
\<close>

section \<open>The configuration\<close>

definition receiver_config_ok :: "FileSpilmanPaymentReceiverConfig \<Rightarrow> bool" where
  "receiver_config_ok config \<longleftrightarrow>
     fc_accepted_mints config \<noteq> [] \<and> sorted_wrt (<) (fc_accepted_mints config)
     \<and> list_all (\<lambda>mint. mint \<noteq> [] \<and> last mint \<noteq> CHR ''/'') (fc_accepted_mints config)
     \<and> fc_units config \<noteq> [] \<and> sorted_wrt (<) (fc_units config) \<and> set (fc_units config) \<subseteq> {''sat'', ''msat''}
     \<and> 1 \<le> fc_min_capacity config"

text \<open>The host accepts exactly the mints and units of the configuration, with its limits.\<close>

definition host_config_for :: "FileSpilmanPaymentReceiverConfig \<Rightarrow> ConfigurableHostConfig \<Rightarrow> bool" where
  "host_config_for config host \<longleftrightarrow>
     (\<forall>mint. hc_mints host mint = (if mint \<in> set (fc_accepted_mints config) then Some (fc_units config) else None))
     \<and> (\<forall>unit. hc_pricing host unit = (if unit \<in> set (fc_units config) then Some (unit_pricing config) else None))
     \<and> hc_min_expiry_seconds host = fc_min_expiry_seconds config"

lemma sorted_remdups_adj_strict: "sorted xs \<Longrightarrow> sorted_wrt (<) (remdups_adj xs)"
  by (induction xs rule: remdups_adj.induct) (auto simp: order.strict_iff_order)

lemma sort_Nil: "sort xs = [] \<longleftrightarrow> xs = []"
  by (metis set_empty set_sort)

lemma trim_end_matches_last: "trim_end_matches c s \<noteq> [] \<Longrightarrow> last (trim_end_matches c s) \<noteq> c"
  using hd_dropWhile [of "\<lambda>d. d = c" "rev s"] by (auto simp: trim_end_matches_def last_rev)

lemma collect_units_known: "collect_units units = Inr known \<Longrightarrow> set known \<subseteq> {''sat'', ''msat''}"
proof (induction units arbitrary: known)
  case (Cons unit units)
  obtain u rest where "collect_units units = Inr rest" "known = unit_as_str u # rest"
    using Cons.prems by (auto simp: result_simps)
  then show ?case using Cons.IH by (cases u) auto
qed simp

lemma collect_units_fails: "isl (collect_units units) \<longleftrightarrow> list_ex (\<lambda>unit. isl (parse_unit unit)) units"
  by (induction units) (auto simp: and_then_def split: sum.splits)

lemma insert_each: "foldl (\<lambda>m k. m(k \<mapsto> v)) m ks = (\<lambda>k. if k \<in> set ks then Some v else m k)"
  by (induction ks arbitrary: m) auto

lemma host_config_of: "host_config_for config (spilman_host_config data_dir config)"
  by (simp add: host_config_for_def spilman_host_config_def insert_each)

text \<open>The units a configuration asks for, all of them known.\<close>

definition units_of :: "string list \<Rightarrow> string set" where
  "units_of units =
     (if units = [] then {''sat''} else {unit_as_str u | unit u. unit \<in> set units \<and> parse_unit unit = Inr u})"

lemma collect_units_set:
  "collect_units units = Inr known \<Longrightarrow>
     set known = {unit_as_str u | unit u. unit \<in> set units \<and> parse_unit unit = Inr u} \<and> (known = [] \<longleftrightarrow> units = [])"
proof (induction units arbitrary: known)
  case (Cons unit units)
  then obtain u rest where "parse_unit unit = Inr u" "collect_units units = Inr rest" "known = unit_as_str u # rest"
    by (auto simp: result_simps)
  then show ?case using Cons.IH by auto
qed simp

text \<open>C37. Whatever configuration a seller gives, the one that reaches the channel host is well-formed: at
  least one mint and one unit, each list strictly sorted, no empty mint and none ending in a slash, only
  the units sat and msat, a minimum capacity of at least one, no output limit of zero, and the host knows
  exactly these mints and units. The mints are the given ones, normalised, and the units the given ones
  (sat when none is given); the limits are kept. A configuration is refused exactly when it names no mint
  or an unknown unit.\<close>

theorem receiver_config_normal:
  "case receiver_config_normalized config of
     Inr c \<Rightarrow> receiver_config_ok c \<and> host_config_for c (spilman_host_config data_dir c)
       \<and> set (fc_accepted_mints c) = receiver_normalize_mint_url ` set (fc_accepted_mints config) - {[]}
       \<and> up_max_amount_per_output (unit_pricing c) \<noteq> Some 0
       \<and> \<not> list_ex (\<lambda>unit. isl (parse_unit unit)) (fc_units config)
       \<and> set (fc_units c) = units_of (fc_units config)
       \<and> fc_min_capacity c = max (fc_min_capacity config) 1
       \<and> fc_max_amount_per_output c = fc_max_amount_per_output config
       \<and> fc_min_expiry_seconds c = fc_min_expiry_seconds config
   | Inl e \<Rightarrow> receiver_normalize_mint_url ` set (fc_accepted_mints config) \<subseteq> {[]}
       \<or> list_ex (\<lambda>unit. isl (parse_unit unit)) (fc_units config)"
proof (cases "receiver_config_normalized config")
  case (Inl e)
  then show ?thesis
    using collect_units_fails [of "fc_units config"]
    by (auto simp: receiver_config_normalized_def Let_def result_simps sort_Nil filter_empty_conv split: if_splits)
next
  case (Inr c)
  let ?mints = "filter (\<lambda>mint. mint \<noteq> []) (map receiver_normalize_mint_url (fc_accepted_mints config))"
  obtain units where u: "collect_units (fc_units config) = Inr units" and mints: "remdups_adj (sort ?mints) \<noteq> []"
    and c: "c = \<lparr>fc_accepted_mints = remdups_adj (sort ?mints),
      fc_units = (if remdups_adj (sort units) = [] then default_spilman_receiver_units else remdups_adj (sort units)),
      fc_min_capacity = max (fc_min_capacity config) 1, fc_max_amount_per_output = fc_max_amount_per_output config,
      fc_min_expiry_seconds = fc_min_expiry_seconds config\<rparr>"
    using Inr by (auto simp: receiver_config_normalized_def Let_def result_simps split: if_splits)
  have known: "set units \<subseteq> {''sat'', ''msat''}" by (rule collect_units_known [OF u])
  have slash: "last mint \<noteq> CHR ''/''" if "mint \<in> set ?mints" for mint
    using that trim_end_matches_last by (auto simp: receiver_normalize_mint_url_def)
  have "receiver_config_ok c"
    using mints known slash
    by (auto simp: receiver_config_ok_def c sorted_remdups_adj_strict default_spilman_receiver_units_def list_all_iff)
  moreover have "set (fc_accepted_mints c) = receiver_normalize_mint_url ` set (fc_accepted_mints config) - {[]}"
    by (auto simp: c)
  moreover have "up_max_amount_per_output (unit_pricing c) \<noteq> Some 0" by (auto simp: unit_pricing_def)
  moreover have "\<not> list_ex (\<lambda>unit. isl (parse_unit unit)) (fc_units config)"
    using collect_units_fails [of "fc_units config"] u by simp
  moreover have "set (fc_units c) = units_of (fc_units config)"
    using collect_units_set [OF u] by (auto simp: c units_of_def default_spilman_receiver_units_def sort_Nil)
  moreover have "fc_min_capacity c = max (fc_min_capacity config) 1"
    "fc_max_amount_per_output c = fc_max_amount_per_output config"
    "fc_min_expiry_seconds c = fc_min_expiry_seconds config" by (simp_all add: c)
  ultimately show ?thesis using Inr by (simp add: host_config_of)
qed

section \<open>The receiver's key\<close>

text \<open>What the code relies on in \<open>serde_json\<close>: the text of a key is read back as that key, and the empty
  text is no value.\<close>

definition receiver_codec_ok :: "('h, 'w) receiver_lib \<Rightarrow> bool" where
  "receiver_codec_ok lib \<longleftrightarrow>
     (\<forall>key content. receiver_key_to_string lib key = Inr content
        \<longrightarrow> receiver_key_from_str lib content = Inr key \<and> is_utf8 content)
     \<and> isl (receiver_key_from_str lib [])"

text \<open>Reading the path, through links, gives this text.\<close>

definition reads_as :: "path \<Rightarrow> string \<Rightarrow> file_system \<Rightarrow> bool" where
  "reads_as path content fs \<longleftrightarrow>
     (\<exists>q i. follow 40 fs path = Inr q \<and> fs q = Some i \<and> in_kind i \<noteq> Directory \<and> in_content i = content)"

lemma follow_end: "follow n fs path = Inr q \<Longrightarrow> fs q = Some i \<Longrightarrow> in_kind i \<noteq> SymbolicLink target"
  by (induction n fs path rule: follow.induct) (auto split: option.splits file_kind.splits)

lemma follow_update:
  assumes "follow n fs path = Inr q" "\<And>target. in_kind i \<noteq> SymbolicLink target"
  shows "follow n (fs(q \<mapsto> i)) path = Inr q"
  using assms
proof (induction n fs path rule: follow.induct)
  case (2 n fs path)
  show ?case
  proof (cases "path = q")
    case True
    then show ?thesis using 2(3) by (cases "in_kind i") auto
  next
    case False
    then obtain j target where "fs path = Some j" "in_kind j = SymbolicLink target" "follow n fs target = Inr q"
      using 2(2) by (auto split: option.splits file_kind.splits)
    then show ?thesis using 2 False by simp
  qed
qed simp

lemma write_reads_as:
  assumes "fs_write os path content fs = (r, fs')"
  shows "r = Inr () \<Longrightarrow> reads_as path content fs'"
    "r = Inl e \<Longrightarrow> fs' = fs \<or> reads_as path (take (os_partial os path) content) fs'"
proof -
  have stored: "reads_as path data (fs(q \<mapsto> i\<lparr>in_content := data\<rparr>))"
    if "follow 40 fs path = Inr q" "in_kind i \<noteq> Directory" "\<And>target. in_kind i \<noteq> SymbolicLink target" for q i data
    using follow_update [OF that(1), of "i\<lparr>in_content := data\<rparr>"] that(2,3) by (simp add: reads_as_def)
  have kind: "in_kind i \<noteq> Directory \<and> (\<forall>target. in_kind i \<noteq> SymbolicLink target)"
    if "follow 40 fs path = Inr q"
      "(case fs q of
          None \<Rightarrow> if fs (parent_or_dot q) = None then Inl NotFound else Inr (new_inode os RegularFile (os_create_mode os) [])
        | Some i \<Rightarrow> if in_kind i = Directory then Inl IsADirectory else Inr i) = Inr i" for q i
    using that follow_end [OF that(1)] by (auto simp: new_inode_def split: option.splits if_splits)
  show "r = Inr () \<Longrightarrow> reads_as path content fs'"
    using assms stored kind by (auto simp: fs_write_def result_simps split: sum.splits)
  show "r = Inl e \<Longrightarrow> fs' = fs \<or> reads_as path (take (os_partial os path) content) fs'"
    using assms stored kind by (auto simp: fs_write_def result_simps split: sum.splits)
qed

lemma chmod_reads_as:
  assumes "reads_as path content fs" "fs_set_permissions os path mode fs = (r, fs')"
  shows "reads_as path content fs'"
proof -
  obtain q i where q: "follow 40 fs path = Inr q" "fs q = Some i" "in_kind i \<noteq> Directory" "in_content i = content"
    using assms(1) by (auto simp: reads_as_def)
  have "reads_as path content (fs(q \<mapsto> i\<lparr>in_mode := mode\<rparr>))"
    using follow_update [OF q(1), of "i\<lparr>in_mode := mode\<rparr>"] follow_end [OF q(1,2)] q(3,4) by (simp add: reads_as_def)
  then show ?thesis
    using assms q(1,2) by (cases "syscall os ''chmod'' path") (auto simp: fs_set_permissions_def)
qed

lemma read_reads_as:
  "fs_read_to_string os path fs = Inr content \<Longrightarrow> reads_as path content fs \<and> is_utf8 content"
  by (auto simp: fs_read_to_string_def reads_as_def result_simps split: if_splits)

lemma reads_as_read:
  assumes "reads_as path content fs"
  shows "fs_read_to_string os path fs \<noteq> Inl NotFound"
    "fs_read_to_string os path fs = Inr data \<Longrightarrow> data = content"
    "faultless os \<Longrightarrow> is_utf8 content \<Longrightarrow> fs_read_to_string os path fs = Inr content"
  using assms by (auto simp: fs_read_to_string_def reads_as_def result_simps faultless_syscall split: if_splits)

lemma generated_receiver_key:
  "generate_cashu_spilman_receiver_key lib start draws = Some key \<Longrightarrow>
     rk_version key = SPILMAN_RECEIVER_KEY_VERSION
     \<and> receiver_public_key_hex lib (rk_secret_hex key) = Inr (rk_public_key_hex key)"
  by (induction draws arbitrary: start) (auto simp: Let_def split: sum.splits)

text \<open>A key that was returned is the one in the file: every later call that can read it returns it.\<close>

lemma receiver_key_reused:
  assumes "receiver_codec_ok lib" "faultless os'"
    and "load_or_create_cashu_spilman_receiver_key os lib draws data_dir fs = Some (Inr key, fs')"
  shows "load_or_create_cashu_spilman_receiver_key os' lib draws' data_dir fs' = Some (Inr key, fs')"
proof -
  let ?path = "spilman_receiver_key_path data_dir"
  have "\<exists>content. reads_as ?path content fs' \<and> is_utf8 content \<and> decode_cashu_spilman_receiver_key lib content = Inr key"
  proof (cases "fs_read_to_string os ?path fs")
    case (Inr content)
    then show ?thesis
      using assms(3) read_reads_as [OF Inr] by (auto simp: load_or_create_cashu_spilman_receiver_key_def)
  next
    case (Inl e)
    then obtain w where gen: "generate_cashu_spilman_receiver_key lib 0 draws = Some key"
        and w: "write_cashu_spilman_receiver_key os lib ?path key fs = (Inr w, fs')"
      using assms(3) by (auto simp: load_or_create_cashu_spilman_receiver_key_def result_simps split: if_splits)
    then obtain content fs1 fs2 where c: "receiver_key_to_string lib key = Inr content"
        "fs_write os ?path content fs1 = (Inr (), fs2)" "fs_set_permissions os ?path 0x180 fs2 = (Inr w, fs')"
      by (auto simp: write_cashu_spilman_receiver_key_def secure_owner_only_def result_simps on_error_eq)
    have "receiver_key_from_str lib content = Inr key" "is_utf8 content"
      using assms(1) c(1) unfolding receiver_codec_ok_def by blast+
    moreover have "reads_as ?path content fs'" using chmod_reads_as [OF write_reads_as(1) [OF c(2) refl] c(3)] .
    ultimately show ?thesis
      using generated_receiver_key [OF gen] by (auto simp: decode_cashu_spilman_receiver_key_def)
  qed
  then show ?thesis using reads_as_read(3) [OF _ assms(2)] by (auto simp: load_or_create_cashu_spilman_receiver_key_def)
qed

text \<open>A file that holds no key is never repaired: every later call fails and changes nothing.\<close>

lemma broken_key_stays:
  assumes "reads_as (spilman_receiver_key_path data_dir) content fs" "isl (decode_cashu_spilman_receiver_key lib content)"
  shows "\<exists>e. load_or_create_cashu_spilman_receiver_key os lib draws data_dir fs = Some (Inl e, fs)"
  using assms(2) reads_as_read(1,2) [OF assms(1)]
  by (cases "fs_read_to_string os (spilman_receiver_key_path data_dir) fs";
      cases "decode_cashu_spilman_receiver_key lib content")
    (auto simp: load_or_create_cashu_spilman_receiver_key_def)

text \<open>The key file is written in place: when the write fails before its first byte arrived, the seller has
  no key from then on.\<close>

lemma receiver_key_write_interrupted:
  assumes "receiver_codec_ok lib" "os_partial os (spilman_receiver_key_path data_dir) = 0"
    and "load_or_create_cashu_spilman_receiver_key os lib draws data_dir fs = Some (Inl (ReceiverKeyNotWritten err), fs')"
  shows "only_directories_added fs fs'
    \<or> (\<forall>os' draws'. \<exists>e. load_or_create_cashu_spilman_receiver_key os' lib draws' data_dir fs' = Some (Inl e, fs'))"
proof -
  let ?path = "spilman_receiver_key_path data_dir"
  have broken: "isl (decode_cashu_spilman_receiver_key lib [])"
    using assms(1) by (cases "receiver_key_from_str lib []")
      (auto simp: receiver_codec_ok_def decode_cashu_spilman_receiver_key_def)
  obtain key where w: "write_cashu_spilman_receiver_key os lib ?path key fs = (Inl (ReceiverKeyNotWritten err), fs')"
    using assms(3)
    by (auto simp: load_or_create_cashu_spilman_receiver_key_def decode_cashu_spilman_receiver_key_def Let_def result_simps
        split: sum.splits if_splits)
  obtain r fs1 where dir: "(if butlast ?path = [] then (Inr (), fs) else create_dir_all os (butlast ?path) fs) = (r, fs1)"
    by fastforce
  then have added: "only_directories_added fs fs1"
    using create_dir_all_effect(1) [of os "butlast ?path" fs] by (auto split: if_splits)
  obtain content where c: "fs_write os ?path content fs1 = (Inl err, fs')"
    using w unfolding write_cashu_spilman_receiver_key_def dir
    by (auto simp: secure_owner_only_def result_simps on_error_eq)
  have "fs' = fs1 \<or> reads_as ?path [] fs'" using write_reads_as(2) [OF c refl] assms(2) by simp
  then show ?thesis using added broken_key_stays broken by blast
qed

end
