(* ===== verification/Spilman_Bridge.thy ===== *)
theory Spilman_Bridge
  imports Spilman_Open
begin

text \<open>
  The bridges of \<open>cdk_spilman\<close> as signer and receiver of route payments (\<open>spilman.rs\<close>), and the signer that
  works on the buyer's channel store (\<open>FileSpilmanPaymentSigner\<close> of \<open>spilman_client.rs\<close>). A payment of that
  crate carries proofs of its own type \<open>'q\<close>; \<open>serde_json\<close> converts them to and from values \<open>'v\<close>.
\<close>

section \<open>Payments of the channel crate\<close>

record ('v, 'q) UpstreamPayment =
  um_channel_id :: string
  um_balance :: u64
  um_signature :: string
  um_params :: "'v option"
  um_funding_proofs :: "'q option"

record ('v, 'q) proof_codec =
  proofs_to_value :: "'q \<Rightarrow> 'v"
  proofs_from_value :: "'v \<Rightarrow> string + 'q"

definition payment_from_upstream ::
    "('v, 'q) proof_codec \<Rightarrow> ('v, 'q) UpstreamPayment \<Rightarrow> 'v CashuSpilmanPayment" where
  "payment_from_upstream codec payment =
     \<lparr>sp_channel_id = um_channel_id payment, sp_balance = um_balance payment, sp_signature = um_signature payment,
      sp_params = um_params payment, sp_funding_proofs = map_option (proofs_to_value codec) (um_funding_proofs payment)\<rparr>"

definition payment_try_into_upstream ::
    "('v, 'q) proof_codec \<Rightarrow> 'v CashuSpilmanPayment \<Rightarrow> string + ('v, 'q) UpstreamPayment" where
  "payment_try_into_upstream codec payment =
     and_then (case sp_funding_proofs payment of
                 None \<Rightarrow> Inr None
               | Some value \<Rightarrow> and_then (proofs_from_value codec value) (\<lambda>proofs. Inr (Some proofs))) (\<lambda>funding_proofs.
     Inr \<lparr>um_channel_id = sp_channel_id payment, um_balance = sp_balance payment, um_signature = sp_signature payment,
          um_params = sp_params payment, um_funding_proofs = funding_proofs\<rparr>)"

text \<open>A payment survives the way through its message form when the proofs do.\<close>

lemma upstream_round_trip:
  assumes "\<And>proofs. um_funding_proofs payment = Some proofs \<Longrightarrow> proofs_from_value codec (proofs_to_value codec proofs) = Inr proofs"
  shows "payment_try_into_upstream codec (payment_from_upstream codec payment) = Inr payment"
  using assms
  by (cases "um_funding_proofs payment") (simp_all add: payment_try_into_upstream_def payment_from_upstream_def)

section \<open>The seller's bridge as a receiver\<close>

record PaymentSuccess =
  px_channel_id :: string
  px_balance :: u64
  px_amount_due :: u64
  px_capacity :: u64

record ('v, 'q, 'c, 's) seller_bridge =
  validate_payment :: "string \<Rightarrow> u64 \<Rightarrow> string \<Rightarrow> 'v option \<Rightarrow> 'q option \<Rightarrow> 'c \<Rightarrow> 's \<Rightarrow> string + PaymentSuccess"
  process_payment ::
    "string \<Rightarrow> u64 \<Rightarrow> string \<Rightarrow> 'v option \<Rightarrow> 'q option \<Rightarrow> 'c \<Rightarrow> 's \<Rightarrow> (string + PaymentSuccess) \<times> 's"

definition validation_of :: "PaymentSuccess \<Rightarrow> CashuSpilmanPaymentReceiverValidation" where
  "validation_of success =
     \<lparr>rv_channel_id = px_channel_id success, rv_balance = px_balance success, rv_amount_due = px_amount_due success,
      rv_capacity = px_capacity success\<rparr>"

definition bridge_validate_payment ::
    "('v, 'q) proof_codec \<Rightarrow> ('v, 'q, 'c, 's) seller_bridge \<Rightarrow> 'v CashuSpilmanPayment \<Rightarrow> 'c \<Rightarrow> 's
       \<Rightarrow> string + CashuSpilmanPaymentReceiverValidation" where
  "bridge_validate_payment codec bridge payment context s =
     and_then (payment_try_into_upstream codec payment) (\<lambda>payment.
     and_then (validate_payment bridge (um_channel_id payment) (um_balance payment) (um_signature payment)
       (um_params payment) (um_funding_proofs payment) context s) (\<lambda>validated. Inr (validation_of validated)))"

definition bridge_process_payment ::
    "('v, 'q) proof_codec \<Rightarrow> ('v, 'q, 'c, 's) seller_bridge \<Rightarrow> 'v CashuSpilmanPayment \<Rightarrow> 'c \<Rightarrow> 's
       \<Rightarrow> (string + CashuSpilmanPaymentReceiverValidation) \<times> 's" where
  "bridge_process_payment codec bridge payment context s =
     attempt (payment_try_into_upstream codec payment) s (\<lambda>payment.
     attempt_mut (process_payment bridge (um_channel_id payment) (um_balance payment) (um_signature payment)
       (um_params payment) (um_funding_proofs payment) context s) (\<lambda>processed s. (Inr (validation_of processed), s)))"

definition bridge_receiver ::
    "('v, 'q) proof_codec \<Rightarrow> ('v, 'q, 'c, 's) seller_bridge \<Rightarrow> ('v, 'c, 's) CashuSpilmanPaymentReceiver" where
  "bridge_receiver codec bridge =
     \<lparr>validate_cashu_spilman_payment = bridge_validate_payment codec bridge,
      process_cashu_spilman_payment = bridge_process_payment codec bridge\<rparr>"

section \<open>The buyer's bridge as a signer\<close>

text \<open>The bridge works on the channel store and the files; its payments are already in message form.\<close>

record ('f, 'p, 'v) signing_bridge = "('f, 'p, 'v) client_bridge" +
  create_payment :: "string \<Rightarrow> u64 \<Rightarrow> ('f, 'p) store_files \<Rightarrow> (string + 'v CashuSpilmanPayment) \<times> ('f, 'p) store_files"
  create_cooperative_close_request ::
    "string \<Rightarrow> u64 \<Rightarrow> ('f, 'p) store_files \<Rightarrow> (string + 'v CashuSpilmanPayment) \<times> ('f, 'p) store_files"

definition bridge_sign_payment ::
    "('f, 'p, 'v) signing_bridge \<Rightarrow> string \<Rightarrow> u64 \<Rightarrow> bool \<Rightarrow> ('f, 'p) store_files
       \<Rightarrow> (string + 'v CashuSpilmanPayment) \<times> ('f, 'p) store_files" where
  "bridge_sign_payment bridge channel_id balance with_funding s =
     (if with_funding then create_payment_with_funding bridge channel_id balance s
      else create_payment bridge channel_id balance s)"

definition bridge_sign_close ::
    "('f, 'p, 'v) signing_bridge \<Rightarrow> string \<Rightarrow> u64 \<Rightarrow> ('f, 'p) store_files
       \<Rightarrow> (string + 'v CashuSpilmanPayment) \<times> ('f, 'p) store_files" where
  "bridge_sign_close bridge channel_id final_balance s = create_cooperative_close_request bridge channel_id final_balance s"

text \<open>A signed payment is handed out only when the store could be written.\<close>

definition ensure_stored ::
    "(string + 'a) \<times> ('f, 'p) store_files \<Rightarrow> (SpilmanError + 'a) \<times> ('f, 'p) store_files" where
  "ensure_stored p =
     attempt_mut (apfst (map_err BridgeError) p) (\<lambda>payment s.
     attempt (ensure_ok (fst s)) s (\<lambda>_. (Inr payment, s)))"

definition file_sign_payment ::
    "('f, 'p, 'v) signing_bridge \<Rightarrow> string \<Rightarrow> u64 \<Rightarrow> bool \<Rightarrow> ('f, 'p) store_files
       \<Rightarrow> (SpilmanError + 'v CashuSpilmanPayment) \<times> ('f, 'p) store_files" where
  "file_sign_payment bridge channel_id balance with_funding s =
     ensure_stored (bridge_sign_payment bridge channel_id balance with_funding s)"

definition file_sign_close ::
    "('f, 'p, 'v) signing_bridge \<Rightarrow> string \<Rightarrow> u64 \<Rightarrow> ('f, 'p) store_files
       \<Rightarrow> (SpilmanError + 'v CashuSpilmanPayment) \<times> ('f, 'p) store_files" where
  "file_sign_close bridge channel_id final_balance s = ensure_stored (bridge_sign_close bridge channel_id final_balance s)"

section \<open>Loading the signer\<close>

definition signer_load_with_lock ::
    "os \<Rightarrow> key_lib \<Rightarrow> ('f, 'p) store_codec \<Rightarrow> (nat \<Rightarrow> file_system \<Rightarrow> file_system) \<Rightarrow> nat \<Rightarrow> nat \<Rightarrow> path
       \<Rightarrow> SharedSpilmanClientStoreLock \<Rightarrow> file_system
       \<Rightarrow> ((SpilmanError + ('f, 'p) FileSpilmanClientStorage) \<times> file_system) option" where
  "signer_load_with_lock os lib codec others draws fuel data_dir lock fs =
     (case require_lock_for_data_dir data_dir lock of
        Inl e \<Rightarrow> Some (Inl e, fs)
      | Inr lock \<Rightarrow>
          (case load_with_lock os codec lock fs of
             (Inl e, fs) \<Rightarrow> Some (Inl e, fs)
           | (Inr storage, fs) \<Rightarrow>
               map_option (\<lambda>p. attempt_mut p (\<lambda>sender fs.
                   attempt (map_err BridgeError (add_key_from_hex lib (sk_secret_hex sender))) fs (\<lambda>public_key_hex.
                   if public_key_hex \<noteq> sk_public_key_hex sender then (Inl KeyMismatch, fs) else (Inr storage, fs))))
                 (load_or_create_cashu_spilman_sender_key os lib others draws fuel data_dir fs)))"

text \<open>With the lock that was taken; it is dropped when loading fails.\<close>

definition signer_load_locked ::
    "os \<Rightarrow> key_lib \<Rightarrow> ('f, 'p) store_codec \<Rightarrow> (nat \<Rightarrow> file_system \<Rightarrow> file_system) \<Rightarrow> nat \<Rightarrow> nat \<Rightarrow> path
       \<Rightarrow> SharedSpilmanClientStoreLock \<Rightarrow> locked_files
       \<Rightarrow> ((SpilmanError + ('f, 'p) FileSpilmanClientStorage) \<times> locked_files) option" where
  "signer_load_locked os lib codec others draws fuel data_dir lock s =
     map_option (\<lambda>(r, fs).
         case r of
           Inl e \<Rightarrow> (Inl e, drop_lock lock (s\<lparr>lf_files := fs\<rparr>))
         | Inr storage \<Rightarrow> (Inr storage, s\<lparr>lf_files := fs\<rparr>))
       (signer_load_with_lock os lib codec others draws fuel data_dir lock (lf_files s))"

definition signer_load ::
    "os \<Rightarrow> key_lib \<Rightarrow> ('f, 'p) store_codec \<Rightarrow> (nat \<Rightarrow> file_system \<Rightarrow> file_system) \<Rightarrow> nat \<Rightarrow> nat \<Rightarrow> path \<Rightarrow> locked_files
       \<Rightarrow> ((SpilmanError + ('f, 'p) FileSpilmanClientStorage) \<times> locked_files) option" where
  "signer_load os lib codec others draws fuel data_dir s =
     (case acquire os others fuel (spilman_client_store_path data_dir) s of
        None \<Rightarrow> None
      | Some (Inl e, s) \<Rightarrow> Some (Inl e, s)
      | Some (Inr lock, s) \<Rightarrow> signer_load_locked os lib codec others draws fuel data_dir lock s)"

definition signer_try_load ::
    "os \<Rightarrow> key_lib \<Rightarrow> ('f, 'p) store_codec \<Rightarrow> (nat \<Rightarrow> file_system \<Rightarrow> file_system) \<Rightarrow> nat \<Rightarrow> nat \<Rightarrow> path \<Rightarrow> locked_files
       \<Rightarrow> ((SpilmanError + ('f, 'p) FileSpilmanClientStorage option) \<times> locked_files) option" where
  "signer_try_load os lib codec others draws fuel data_dir s =
     (case try_acquire os others fuel (spilman_client_store_path data_dir) s of
        None \<Rightarrow> None
      | Some (Inl e, s) \<Rightarrow> Some (Inl e, s)
      | Some (Inr None, s) \<Rightarrow> Some (Inr None, s)
      | Some (Inr (Some lock), s) \<Rightarrow>
          map_option (\<lambda>p. attempt_mut p (\<lambda>storage s. (Inr (Some storage), s)))
            (signer_load_locked os lib codec others draws fuel data_dir lock s))"

definition try_load_store ::
    "os \<Rightarrow> (nat \<Rightarrow> file_system \<Rightarrow> file_system) \<Rightarrow> nat \<Rightarrow> ('f, 'p) store_codec \<Rightarrow> path \<Rightarrow> locked_files
       \<Rightarrow> ((SpilmanError + ('f, 'p) FileSpilmanClientStorage option) \<times> locked_files) option" where
  "try_load_store os others fuel codec path s =
     (case try_acquire os others fuel path s of
        None \<Rightarrow> None
      | Some p \<Rightarrow> Some (attempt_mut p (\<lambda>lock s.
          case lock of
            None \<Rightarrow> (Inr None, s)
          | Some lock \<Rightarrow>
              (case load_with_lock os codec lock (lf_files s) of
                 (Inl e, fs) \<Rightarrow> (Inl e, drop_lock lock (s\<lparr>lf_files := fs\<rparr>))
               | (Inr storage, fs) \<Rightarrow> (Inr (Some storage), s\<lparr>lf_files := fs\<rparr>)))))"

section \<open>Paying for a route\<close>

text \<open>The signer is called once, after the checks of the request.\<close>

definition signer_reached :: "StreamingRouteCashuPaymentRequest \<Rightarrow> bool" where
  "signer_reached request \<longleftrightarrow> trim (pr_channel_id request) \<noteq> [] \<and> \<not> isl (parse_unit (pr_unit request))
     \<and> \<not> isl (validate_streaming_route_cashu_payment_progress ''paid route payment''
          (pr_paid_msat request) (pr_previous_paid_msat request) (pr_capacity_sat request))"

definition request_balance :: "StreamingRouteCashuPaymentRequest \<Rightarrow> u64" where
  "request_balance request =
     (case parse_unit (pr_unit request) of Inr unit \<Rightarrow> balance_from_msat unit (pr_paid_msat request) | Inl e \<Rightarrow> 0)"

definition sign_request ::
    "('f, 'p, 'v) signing_bridge \<Rightarrow> StreamingRouteCashuPaymentRequest \<Rightarrow> ('f, 'p) store_files
       \<Rightarrow> (SpilmanError + 'v CashuSpilmanPayment) \<times> ('f, 'p) store_files" where
  "sign_request bridge request s =
     (if pr_kind request = CooperativeClose
      then file_sign_close bridge (trim (pr_channel_id request)) (request_balance request) s
      else file_sign_payment bridge (trim (pr_channel_id request)) (request_balance request)
             (include_funding (pr_kind request)) s)"

text \<open>The signer as the trait sees it when the store is \<open>s\<close>, with the text of its errors (\<open>display\<close>).\<close>

definition file_signer ::
    "(SpilmanError \<Rightarrow> string) \<Rightarrow> ('f, 'p, 'v) signing_bridge \<Rightarrow> ('f, 'p) store_files \<Rightarrow> 'v CashuSpilmanPaymentSigner" where
  "file_signer display bridge s =
     \<lparr>sign_cashu_spilman_payment = (\<lambda>channel_id balance with_funding.
        map_err display (fst (file_sign_payment bridge channel_id balance with_funding s))),
      sign_cashu_spilman_close = (\<lambda>channel_id final_balance.
        map_err display (fst (file_sign_close bridge channel_id final_balance s)))\<rparr>"

definition signer_create_payment ::
    "(SpilmanError \<Rightarrow> string) \<Rightarrow> ('f, 'p, 'v) signing_bridge \<Rightarrow> StreamingRouteCashuPaymentRequest \<Rightarrow> ('f, 'p) store_files
       \<Rightarrow> (RouteError + 'v StreamingRouteCashuPaymentResult) \<times> ('f, 'p) store_files" where
  "signer_create_payment display bridge request s =
     (let result = create_streaming_route_cashu_payment (file_signer display bridge s) request;
          s = (if signer_reached request then snd (sign_request bridge request s) else s) in
      attempt result s (\<lambda>result.
      attempt (map_err (\<lambda>e. External (display e)) (ensure_ok (fst s))) s (\<lambda>_. (Inr result, s))))"

text \<open>The signer of one payment holds the lock of the store until the payment is made.\<close>

definition create_payment_from_client_store ::
    "os \<Rightarrow> key_lib \<Rightarrow> ('f, 'p) store_codec \<Rightarrow> (SpilmanError \<Rightarrow> string) \<Rightarrow> ('f, 'p, 'v) signing_bridge
       \<Rightarrow> (nat \<Rightarrow> file_system \<Rightarrow> file_system) \<Rightarrow> nat \<Rightarrow> nat \<Rightarrow> path \<Rightarrow> StreamingRouteCashuPaymentRequest \<Rightarrow> locked_files
       \<Rightarrow> ((RouteError + 'v StreamingRouteCashuPaymentResult) \<times> locked_files) option" where
  "create_payment_from_client_store os lib codec display bridge others draws fuel data_dir request s =
     (case signer_load os lib codec others draws fuel data_dir s of
        None \<Rightarrow> None
      | Some (Inl e, s) \<Rightarrow> Some (Inl (External (display e)), s)
      | Some (Inr storage, s) \<Rightarrow>
          (case signer_create_payment display bridge request (storage, lf_files s) of
             (r, storage, fs) \<Rightarrow> Some (r, drop_lock (fs_lock storage) (s\<lparr>lf_files := fs\<rparr>))))"

end
