(* ===== verification/Spilman_Bridge_Properties.thy ===== *)
theory Spilman_Bridge_Properties
  imports Spilman_Bridge Spilman_Client_Properties
begin

text \<open>
  A payment leaves the buyer's signer only after the state of its channel was written: whoever restarts
  from the file knows every payment that was handed out.
\<close>

text \<open>What the code relies on in the bridge: it changes the store through the storage interface only,
  with any failures of its calls.\<close>

definition signs_through_store :: "('f, 'p) store_codec \<Rightarrow> ('f, 'p, 'v) signing_bridge \<Rightarrow> bool" where
  "signs_through_store codec bridge \<longleftrightarrow>
     (\<forall>channel_id balance s. \<forall>sign \<in> {create_payment bridge, create_payment_with_funding bridge,
        create_cooperative_close_request bridge}.
        \<exists>calls. snd (sign channel_id balance s) = storage_steps codec s calls)"

lemma ensure_stored_Inr:
  "ensure_stored p = (Inr payment, s) \<longleftrightarrow> p = (Inr payment, s) \<and> ensure_ok (fst s) = Inr ()"
  by (cases p; cases "fst p") (auto simp: ensure_stored_def result_simps)

lemma sign_request_calls:
  assumes "signs_through_store codec bridge"
  shows "\<exists>calls. snd (sign_request bridge request s) = storage_steps codec s calls"
proof -
  have kept: "snd (ensure_stored p) = snd p" for p :: "(string + 'v CashuSpilmanPayment) \<times> ('f, 'p) store_files"
    by (cases p; cases "fst p"; cases "ensure_ok (fst (snd p))") (auto simp: ensure_stored_def)
  show ?thesis
    using assms
    by (cases s) (simp add: sign_request_def file_sign_payment_def file_sign_close_def bridge_sign_payment_def
        bridge_sign_close_def kept signs_through_store_def)
qed

text \<open>C36. A payment is on disk before it is handed out: when the signer of a loaded store returns a payment
  for a route, loading the file again, as a restarted process would, gives a store with the same channels,
  payments and closed channels as the one that signed it.\<close>

theorem handed_out_payment_stored:
  assumes "store_codec_ok codec" "names_file (lk_store_path lock)" "placed (lk_store_path lock) fs0" "faultless os'"
    and "load_with_lock os codec lock fs0 = (Inr storage, fs)"
    and "signs_through_store codec bridge"
    and "signer_create_payment display bridge request (storage, fs) = (Inr result, storage', fs')"
  shows "\<exists>stored fs''. load_with_lock os' codec lock fs' = (Inr stored, fs'')
    \<and> fs_state stored = fs_state storage'"
proof -
  let ?path = "lk_store_path lock"
  note l = loaded_holds [OF assms(5,1-3)]
  have r: "(if signer_reached request then snd (sign_request bridge request (storage, fs)) else (storage, fs)) = (storage', fs')"
      "ensure_ok storage' = Inr ()"
    using assms(7) by (auto simp: signer_create_payment_def Let_def result_simps)
  obtain calls where calls: "storage_steps codec (storage, fs) calls = (storage', fs')"
    using r(1) sign_request_calls [OF assms(6), of request "(storage, fs)"] by (auto split: if_splits intro: that [of "[]"])
  obtain n where n: "n = length calls" "client_holds codec ?path (foldl state_step (fs_state storage) (take n (map snd calls))) fs'"
    using run_holds [OF l(1,2) calls] r(2) by blast
  then have "client_holds codec ?path (fs_state storage') fs'" using run_storage [OF calls] by simp
  from holds_loads [OF this assms(4)] show ?thesis by (cases lock) fastforce
qed

text \<open>A buyer signs its first payment on an empty store.\<close>

definition example_bridge :: "(nat, nat, nat) signing_bridge" where
  "example_bridge =
     (let sign = (\<lambda>channel_id balance s.
        (Inr \<lparr>sp_channel_id = channel_id, sp_balance = balance, sp_signature = ''s'', sp_params = Some 1,
              sp_funding_proofs = Some 1\<rparr>,
         storage_step example_os example_codec s (SaveFunding ''c'' 7))) in
      \<lparr>open_channel_from_token_async = (\<lambda>_ _ _ _ _ _ s. (Inl ''not used'', s)), create_payment_with_funding = sign,
       create_payment = sign, create_cooperative_close_request = sign\<rparr>)"

definition example_payment :: StreamingRouteCashuPaymentRequest where
  "example_payment = \<lparr>pr_kind = ChannelOpen, pr_channel_id = ''c'', pr_unit = ''sat'', pr_paid_msat = 1500,
     pr_previous_paid_msat = 0, pr_capacity_sat = 100\<rparr>"

theorem handed_out_payment_stored_witness:
  "\<exists>result storage' fs' stored fs''.
     signer_create_payment (\<lambda>e. []) example_bridge example_payment
       (\<lparr>fs_path = [''d'', ''s.json''], fs_state = store_file_new, fs_last_error = None,
         fs_lock = \<lparr>lk_store_path = [''d'', ''s.json'']\<rparr>\<rparr>, Map.empty) = (Inr result, storage', fs')
     \<and> ps_paid_msat result = 2000 \<and> load_with_lock example_os example_codec \<lparr>lk_store_path = [''d'', ''s.json'']\<rparr> fs' = (Inr stored, fs'')
     \<and> fs_state stored = funded_state"
proof -
  let ?lock = "\<lparr>lk_store_path = [''d'', ''s.json'']\<rparr>"
  define storage :: "(nat, nat) FileSpilmanClientStorage" where
    "storage = \<lparr>fs_path = [''d'', ''s.json''], fs_state = store_file_new, fs_last_error = None, fs_lock = ?lock\<rparr>"
  define run where "run = signer_create_payment (\<lambda>e. []) example_bridge example_payment (storage, Map.empty)"
  have "isl (fst run) = False" unfolding run_def storage_def by code_simp
  then have run: "signer_create_payment (\<lambda>e. []) example_bridge example_payment (storage, Map.empty)
      = (Inr (projr (fst run)), fst (snd run), snd (snd run))"
    by (cases "fst run") (auto simp: run_def [symmetric] prod_eq_iff)
  have paid: "ps_paid_msat (projr (fst run)) = 2000" unfolding run_def storage_def by code_simp
  have state: "fs_state (fst (snd run)) = funded_state" unfolding run_def storage_def by code_simp
  have load: "load_with_lock example_os example_codec ?lock Map.empty = (Inr storage, Map.empty)"
    by (simp add: load_with_lock_def read_missing [OF example_faultless] storage_def)
  have p: "names_file (lk_store_path ?lock)" "placed (lk_store_path ?lock) Map.empty"
    by (simp_all add: names_file_def placed_def)
  have "\<exists>calls. storage_step example_os example_codec s (SaveFunding ''c'' 7) = storage_steps example_codec s calls" for s
    by (rule exI [of _ "[(example_os, SaveFunding ''c'' 7)]"]) simp
  then have signs: "signs_through_store example_codec example_bridge"
    by (simp add: signs_through_store_def example_bridge_def Let_def)
  show ?thesis
    using handed_out_payment_stored [OF example_codec_ok p example_faultless load signs run] run paid state
    unfolding storage_def by fastforce
qed

end
