(* ===== verification/Spilman_Wallet.thy ===== *)
theory Spilman_Wallet
  imports Spilman_Open Wallet_Operations Rust_Json
begin

text \<open>
  The part of \<open>spilman_client.rs\<close> that talks to mints and to the wallet: fetching the information of a
  keyset, the swap request, and opening a channel with a token from the wallet. The HTTP client is a
  parameter: a request takes and returns the world \<open>'w\<close>. The arithmetic of channels is code of
  \<open>cdk_spilman\<close> (\<open>channel_lib\<close>).
\<close>

section \<open>Requests\<close>

record http_response =
  hr_status :: u16
  hr_body :: "string + string"

definition is_success :: "u16 \<Rightarrow> bool" where
  "is_success status \<longleftrightarrow> 200 \<le> status \<and> status < 300"

datatype http_error = RequestFailed string | BodyNotDecoded string

record 'w http =
  http_get_json :: "string \<Rightarrow> 'w \<Rightarrow> (http_error + json) \<times> 'w"
  http_post :: "string \<Rightarrow> string \<Rightarrow> 'w \<Rightarrow> (string + http_response) \<times> 'w"
  json_to_string :: "json \<Rightarrow> string"

datatype FetchError =
    KeysetsRequest http_error | KeysetsMissing | NoActiveKeyset string | NoSuchKeyset string string
  | KeysetWithoutId | KeysRequest http_error | KeysMissing
  | SwapNotSent string | SwapNotRead string | SwapRefused u16 string

definition call_mint_swap :: "'w http \<Rightarrow> string \<Rightarrow> string \<Rightarrow> 'w \<Rightarrow> (FetchError + string) \<times> 'w" where
  "call_mint_swap http mint_url swap_request_json w =
     attempt_mut (apfst (map_err SwapNotSent)
       (http_post http (trim_end_matches (CHR ''/'') mint_url @ ''/v1/swap'') swap_request_json w)) (\<lambda>response w.
     attempt (map_err SwapNotRead (hr_body response)) w (\<lambda>body.
     if \<not> is_success (hr_status response) then (Inl (SwapRefused (hr_status response) body), w) else (Inr body, w)))"

section \<open>Keysets\<close>

definition keyset_entry_of :: "json \<Rightarrow> keyset_entry" where
  "keyset_entry_of entry =
     \<lparr>ke_id = str_field ''id'' entry, ke_unit = str_field ''unit'' entry,
      ke_active = Option.bind (json_get ''active'' entry) as_bool, ke_input_fee_ppk = u64_field ''input_fee_ppk'' entry,
      ke_final_expiry = u64_field ''final_expiry'' entry\<rparr>"

definition first_keys :: "json \<Rightarrow> json option" where
  "first_keys response =
     (case Option.bind (json_get ''keysets'' response) as_array of
        Some (entry # entries) \<Rightarrow> json_get ''keys'' entry
      | _ \<Rightarrow> None)"

definition keyset_info :: "string \<Rightarrow> string \<Rightarrow> json \<Rightarrow> keyset_entry \<Rightarrow> json" where
  "keyset_info selected_id unit keys selected =
     (let info = bm_collect [(''keysetId'', JsonString selected_id), (''unit'', JsonString unit), (''keys'', keys),
            (''inputFeePpk'', JsonNumber (PosInt (entry_fee selected)))] in
      JsonObject (case ke_final_expiry selected of
                    None \<Rightarrow> info
                  | Some final_expiry \<Rightarrow> bm_insert ''finalExpiry'' (JsonNumber (PosInt final_expiry)) info))"

definition fetch_spilman_keyset_info_json ::
    "'w http \<Rightarrow> string \<Rightarrow> string \<Rightarrow> string option \<Rightarrow> 'w \<Rightarrow> (FetchError + string) \<times> 'w" where
  "fetch_spilman_keyset_info_json http mint_url unit keyset_id w =
     (let mint_url = trim_end_matches (CHR ''/'') mint_url in
      attempt_mut (apfst (map_err KeysetsRequest) (http_get_json http (mint_url @ ''/v1/keysets'') w)) (\<lambda>response w.
      attempt (ok_or (Option.bind (json_get ''keysets'' response) as_array) KeysetsMissing) w (\<lambda>keysets.
      let unit = to_ascii_lowercase (trim unit) in
      attempt (ok_or (select_spilman_keyset (map keyset_entry_of keysets) unit keyset_id)
        (case keyset_id of None \<Rightarrow> NoActiveKeyset unit | Some expected \<Rightarrow> NoSuchKeyset unit expected)) w (\<lambda>selected.
      attempt (ok_or (ke_id selected) KeysetWithoutId) w (\<lambda>selected_id.
      attempt_mut (apfst (map_err KeysRequest) (http_get_json http (mint_url @ ''/v1/keys/'' @ selected_id) w))
        (\<lambda>response w.
      attempt (ok_or (first_keys response) KeysMissing) w (\<lambda>keys.
      (Inr (json_to_string http (keyset_info selected_id unit keys selected)), w))))))))"

section \<open>Opening a channel from the wallet\<close>

record StreamingRouteOpenCashuSpilmanChannelFromWalletRequest =
  ow_mint_url :: string
  ow_receiver_pubkey_hex :: string
  ow_capacity_sat :: u64
  ow_expiry_unix :: u64
  ow_max_amount_per_output :: u64
  ow_unit :: string
  ow_opening_paid_msat :: u64
  ow_keyset_id :: "string option"
  ow_keyset_info_json :: "string option"

record 'v StreamingRouteOpenCashuSpilmanChannelFromWalletResult =
  wr_channel :: "'v StreamingRouteOpenCashuSpilmanChannelResult"
  wr_wallet_send :: CashuSentPayment

datatype OpenError =
    OpenClient SpilmanError | ZeroCapacity | OpenUnit RouteError | SatOnly | OpenFetch FetchError
  | OpenChannel string | OpenWallet TransferError

record channel_lib =
  compute_funding_token_amount :: "u64 \<Rightarrow> string \<Rightarrow> u64 \<Rightarrow> string + u64"
  info_keyset_id :: "string \<Rightarrow> string + string"

definition channel_unit ::
    "StreamingRouteOpenCashuSpilmanChannelFromWalletRequest \<Rightarrow> OpenError + StreamingRouteCashuUnit" where
  "channel_unit request =
     (if ow_capacity_sat request = 0 then Inl ZeroCapacity
      else
        and_then (map_err OpenUnit (parse_unit (ow_unit request))) (\<lambda>unit.
        if unit \<noteq> Sat then Inl SatOnly else Inr unit))"

text \<open>Up to the token that is to fund the channel, with the information of its keyset.\<close>

definition send_channel_funding ::
    "channel_lib \<Rightarrow> 'w http \<Rightarrow> 'u wallet_lib \<Rightarrow> activity_env \<Rightarrow> 'w local_store \<Rightarrow> 'w wallet_repository
       \<Rightarrow> StreamingRouteOpenCashuSpilmanChannelFromWalletRequest \<Rightarrow> StreamingRouteCashuUnit \<Rightarrow> 'w
       \<Rightarrow> (OpenError + string \<times> CashuSentPayment) \<times> 'w" where
  "send_channel_funding channel http lib env localstore repository request unit w =
     attempt_mut (case ow_keyset_info_json request of
         Some json \<Rightarrow> (Inr json, w)
       | None \<Rightarrow> apfst (map_err OpenFetch)
           (fetch_spilman_keyset_info_json http (ow_mint_url request) (unit_as_str unit) (ow_keyset_id request) w))
       (\<lambda>keyset_info_json w.
     attempt (map_err OpenChannel (compute_funding_token_amount channel (ow_capacity_sat request) keyset_info_json
       (ow_max_amount_per_output request))) w (\<lambda>funding_token_amount.
     attempt (map_err OpenChannel (info_keyset_id channel keyset_info_json)) w (\<lambda>funding_keyset_id.
     attempt_mut (apfst (map_err OpenWallet) (send_payment_token_for_keyset lib env localstore repository
       (ow_mint_url request) funding_token_amount funding_keyset_id w)) (\<lambda>wallet_send w.
     (Inr (keyset_info_json, wallet_send), w)))))"

definition token_request ::
    "StreamingRouteOpenCashuSpilmanChannelFromWalletRequest \<Rightarrow> StreamingRouteCashuUnit \<Rightarrow> string \<Rightarrow> CashuSentPayment
       \<Rightarrow> StreamingRouteOpenCashuSpilmanChannelFromTokenRequest" where
  "token_request request unit keyset_info_json wallet_send =
     \<lparr>oq_token = sn_token wallet_send, oq_receiver_pubkey_hex = ow_receiver_pubkey_hex request,
      oq_sender_secret_hex = None, oq_expiry_unix = ow_expiry_unix request, oq_keyset_info_json = keyset_info_json,
      oq_max_amount_per_output = ow_max_amount_per_output request, oq_unit = unit_as_str unit,
      oq_opening_paid_msat = ow_opening_paid_msat request\<rparr>"

definition open_channel_from_wallet_with_lock ::
    "os \<Rightarrow> key_lib \<Rightarrow> ('f, 'p) store_codec \<Rightarrow> ('f, 'p, 'v) client_bridge \<Rightarrow> (nat \<Rightarrow> file_system \<Rightarrow> file_system)
       \<Rightarrow> nat \<Rightarrow> nat \<Rightarrow> channel_lib \<Rightarrow> 'w http \<Rightarrow> 'u wallet_lib \<Rightarrow> activity_env \<Rightarrow> 'w local_store \<Rightarrow> 'w wallet_repository
       \<Rightarrow> path \<Rightarrow> StreamingRouteOpenCashuSpilmanChannelFromWalletRequest \<Rightarrow> SharedSpilmanClientStoreLock
       \<Rightarrow> file_system \<times> 'w
       \<Rightarrow> ((OpenError + 'v StreamingRouteOpenCashuSpilmanChannelFromWalletResult) \<times> file_system \<times> 'w) option" where
  "open_channel_from_wallet_with_lock os klib codec bridge others draws fuel channel http lib env localstore repository
       data_dir request lock s =
     (let (fs, w) = s in
      case require_lock_for_data_dir data_dir lock of
        Inl e \<Rightarrow> Some (Inl (OpenClient e), fs, w)
      | Inr lock \<Rightarrow>
          (case channel_unit request of
             Inl e \<Rightarrow> Some (Inl e, fs, w)
           | Inr unit \<Rightarrow>
               (case send_channel_funding channel http lib env localstore repository request unit w of
                  (Inl e, w) \<Rightarrow> Some (Inl e, fs, w)
                | (Inr (keyset_info_json, wallet_send), w) \<Rightarrow>
                    (case open_channel_from_token_with_lock os klib codec bridge others draws fuel data_dir
                        (token_request request unit keyset_info_json wallet_send) lock fs of
                       None \<Rightarrow> None
                     | Some (Inl e, fs) \<Rightarrow> Some (Inl (OpenClient e), fs, w)
                     | Some (Inr opened, fs) \<Rightarrow>
                         Some (Inr \<lparr>wr_channel = opened, wr_wallet_send = wallet_send\<rparr>, fs, w)))))"

text \<open>With a lock of its own, which is dropped at the end.\<close>

definition open_channel_from_wallet ::
    "os \<Rightarrow> key_lib \<Rightarrow> ('f, 'p) store_codec \<Rightarrow> ('f, 'p, 'v) client_bridge \<Rightarrow> (nat \<Rightarrow> file_system \<Rightarrow> file_system)
       \<Rightarrow> nat \<Rightarrow> nat \<Rightarrow> channel_lib \<Rightarrow> 'w http \<Rightarrow> 'u wallet_lib \<Rightarrow> activity_env \<Rightarrow> 'w local_store \<Rightarrow> 'w wallet_repository
       \<Rightarrow> path \<Rightarrow> StreamingRouteOpenCashuSpilmanChannelFromWalletRequest \<Rightarrow> locked_files \<times> 'w
       \<Rightarrow> ((OpenError + 'v StreamingRouteOpenCashuSpilmanChannelFromWalletResult) \<times> locked_files \<times> 'w) option" where
  "open_channel_from_wallet os klib codec bridge others draws fuel channel http lib env localstore repository data_dir
       request s =
     (let (files, w) = s in
      case acquire os others fuel (spilman_client_store_path data_dir) files of
        None \<Rightarrow> None
      | Some (Inl e, files) \<Rightarrow> Some (Inl (OpenClient e), files, w)
      | Some (Inr lock, files) \<Rightarrow>
          map_option (\<lambda>(r, fs, w). (r, drop_lock lock (files\<lparr>lf_files := fs\<rparr>), w))
            (open_channel_from_wallet_with_lock os klib codec bridge others draws fuel channel http lib env localstore
               repository data_dir request lock (lf_files files, w)))"

end
