(* ===== verification/Spilman_Refund.thy ===== *)
theory Spilman_Refund
  imports Spilman_Wallet
begin

text \<open>
  Recovering what is left of a settled channel (\<open>spilman_refund.rs\<close>). The proofs of the channel crate, its
  keys and its restore protocol are parameters (\<open>refund_lib\<close>): \<open>'k\<close> a keyset, \<open>'q\<close> channel parameters, \<open>'c\<close> an
  established channel, \<open>'s\<close> a secret key. \<open>open_service\<close> is \<open>open_file_backed\<close> on the files of the world (\<open>Wallet_Seed\<close>)
  and yields the handles of the wallet. The amounts are added as in a release build, without a check for
  overflow.
\<close>

section \<open>Requests to the mint\<close>

datatype RefundError =
    RefundWithoutChannel | RefundClient SpilmanError | ChannelNotFound string | RefundText string
  | ChannelSecretLength | SenderKeyMismatch | RefundFetch FetchError | WalletNotOpened TransferError
  | RefundImport TransferError | MintRefused string u16 string

definition post_json ::
    "'w http \<Rightarrow> (string \<Rightarrow> string + 'r) \<Rightarrow> string \<Rightarrow> string \<Rightarrow> string \<Rightarrow> 'w \<Rightarrow> (RefundError + 'r) \<times> 'w" where
  "post_json http from_str mint_url path request w =
     attempt_mut (apfst (map_err RefundText)
       (http_post http (trim_end_matches (CHR ''/'') mint_url @ path) request w)) (\<lambda>response w.
     attempt (map_err RefundText (hr_body response)) w (\<lambda>body.
     if \<not> is_success (hr_status response) then (Inl (MintRefused path (hr_status response) body), w)
     else (map_err RefundText (from_str body), w)))"

section \<open>Channels\<close>

record ClientChannelFunding =
  cf_params_json :: string
  cf_funding_proofs_json :: string
  cf_channel_secret_hex :: string
  cf_keyset_info_json :: string
  cf_sender_pubkey_hex :: string
  cf_capacity :: u64
  cf_funding_token_amount :: u64
  cf_mint_url :: string
  cf_created_at :: u64

datatype proof_state = ProofUnspent | ProofPending | ProofSpent

record ('k, 'q, 'c, 's, 'w) refund_lib =
  json_from_str :: "string \<Rightarrow> string + json"
  parse_keyset_info :: "string \<Rightarrow> string + 'k"
  hex_decode :: "string \<Rightarrow> string + u8 list"
  channel_parameters :: "string \<Rightarrow> 'k \<Rightarrow> u8 list \<Rightarrow> string + 'q"
  funding_proofs_from_str :: "string \<Rightarrow> string + cdk_proof list"
  established_channel :: "'q \<Rightarrow> cdk_proof list \<Rightarrow> string + 'c"
  secret_key_from_hex :: "string \<Rightarrow> string + 's"
  check_funding_token_state :: "string \<Rightarrow> 'c \<Rightarrow> 'w \<Rightarrow> (string + proof_state) \<times> 'w"
  restore_sender_proofs :: "string \<Rightarrow> 's \<Rightarrow> 'c \<Rightarrow> 'k \<Rightarrow> 'w \<Rightarrow> (string + cdk_proof list) \<times> 'w"
  proofs_to_string :: "cdk_proof list \<Rightarrow> string + string"

definition channel_of_funding ::
    "('k, 'q, 'c, 's, 'w) refund_lib \<Rightarrow> ClientChannelFunding \<Rightarrow> RefundError + 'c" where
  "channel_of_funding rlib funding =
     and_then (map_err RefundText (parse_keyset_info rlib (cf_keyset_info_json funding))) (\<lambda>original_keyset.
     and_then (map_err RefundText (hex_decode rlib (cf_channel_secret_hex funding))) (\<lambda>channel_secret.
     if length channel_secret \<noteq> 32 then Inl ChannelSecretLength
     else
       and_then (map_err RefundText
         (channel_parameters rlib (cf_params_json funding) original_keyset channel_secret)) (\<lambda>params.
       and_then (map_err RefundText (funding_proofs_from_str rlib (cf_funding_proofs_json funding))) (\<lambda>funding_proofs.
       map_err RefundText (established_channel rlib params funding_proofs)))))"

section \<open>Restoring\<close>

record StreamingRouteRestoreCashuSpilmanRefundResult =
  rf_channel_id :: string
  rf_mint_url :: string
  rf_unit :: string
  rf_complete :: bool
  rf_recovered_amount_sat :: u64
  rf_imported_amount_sat :: u64
  rf_proof_count :: u64

definition complete_result ::
    "string \<Rightarrow> string \<Rightarrow> string \<Rightarrow> u64 \<Rightarrow> u64 \<Rightarrow> u64 \<Rightarrow> StreamingRouteRestoreCashuSpilmanRefundResult" where
  "complete_result channel_id mint_url unit recovered_amount_sat imported_amount_sat proof_count =
     \<lparr>rf_channel_id = channel_id, rf_mint_url = mint_url, rf_unit = unit, rf_complete = True,
      rf_recovered_amount_sat = recovered_amount_sat, rf_imported_amount_sat = imported_amount_sat,
      rf_proof_count = proof_count\<rparr>"

definition import_refund ::
    "('k, 'q, 'c, 's, 'w) refund_lib \<Rightarrow> 'u wallet_lib \<Rightarrow> activity_env
       \<Rightarrow> ('w \<Rightarrow> (TransferError + 'w local_store \<times> 'w wallet_repository) \<times> 'w)
       \<Rightarrow> string \<Rightarrow> string \<Rightarrow> cdk_proof list \<Rightarrow> 'w \<Rightarrow> (RefundError + u64) \<times> 'w" where
  "import_refund rlib lib env open_service mint_url unit proofs w =
     (if proofs = [] then (Inr 0, w)
      else
        attempt (map_err RefundText (proofs_to_string rlib proofs)) w (\<lambda>proofs_json.
        attempt_mut (apfst (map_err WalletNotOpened) (open_service w)) (\<lambda>(localstore, repository) w.
        attempt_mut (apfst (map_err RefundImport)
          (import_payment_proofs lib env localstore repository mint_url unit proofs_json w)) (\<lambda>received w.
        (Inr (rc_amount_sat received), w)))))"

text \<open>At the mint and in the wallet: \<open>None\<close> when the funding is not spent yet, otherwise the result.\<close>

definition recover_refund ::
    "('k, 'q, 'c, 's, 'w) refund_lib \<Rightarrow> 'w http \<Rightarrow> 'u wallet_lib \<Rightarrow> activity_env
       \<Rightarrow> ('w \<Rightarrow> (TransferError + 'w local_store \<times> 'w wallet_repository) \<times> 'w)
       \<Rightarrow> string \<Rightarrow> ClientChannelFunding \<Rightarrow> string \<Rightarrow> 'c \<Rightarrow> 's \<Rightarrow> 'w
       \<Rightarrow> (RefundError + StreamingRouteRestoreCashuSpilmanRefundResult option) \<times> 'w" where
  "recover_refund rlib http lib env open_service channel_id funding unit channel sender_secret w =
     attempt_mut (apfst (map_err RefundFetch)
       (fetch_spilman_keyset_info_json http (cf_mint_url funding) unit None w)) (\<lambda>output_keyset_json w.
     attempt (map_err RefundText (parse_keyset_info rlib output_keyset_json)) w (\<lambda>output_keyset.
     attempt_mut (apfst (map_err RefundText)
       (check_funding_token_state rlib (trim_end_matches (CHR ''/'') (cf_mint_url funding)) channel w)) (\<lambda>state w.
     if state \<noteq> ProofSpent then (Inr None, w)
     else
       attempt_mut (apfst (map_err RefundText)
         (restore_sender_proofs rlib (trim_end_matches (CHR ''/'') (cf_mint_url funding)) sender_secret channel
            output_keyset w)) (\<lambda>proofs w.
       attempt_mut (import_refund rlib lib env open_service (cf_mint_url funding) unit proofs w) (\<lambda>imported_amount_sat w.
       (Inr (Some (complete_result channel_id (cf_mint_url funding) unit (sum_list (map pr_amount proofs))
          imported_amount_sat (of_nat (length proofs)))), w))))))"

text \<open>From the loaded store on, with the sender key: the channel is marked as closed once the import is done.\<close>

definition finish_refund ::
    "os \<Rightarrow> (ClientChannelFunding, 'p) store_codec \<Rightarrow> ('k, 'q, 'c, 's, 'w) refund_lib \<Rightarrow> 'w http \<Rightarrow> 'u wallet_lib
       \<Rightarrow> activity_env \<Rightarrow> ('w \<Rightarrow> (TransferError + 'w local_store \<times> 'w wallet_repository) \<times> 'w)
       \<Rightarrow> string \<Rightarrow> ClientChannelFunding \<Rightarrow> string \<Rightarrow> 'c \<Rightarrow> CashuSpilmanSenderKeyFile
       \<Rightarrow> (ClientChannelFunding, 'p) FileSpilmanClientStorage \<Rightarrow> file_system \<times> 'w
       \<Rightarrow> (RefundError + StreamingRouteRestoreCashuSpilmanRefundResult) \<times> file_system \<times> 'w" where
  "finish_refund os codec rlib http lib env open_service channel_id funding unit channel sender_key storage s =
     (let (fs, w) = s in
      if sk_public_key_hex sender_key \<noteq> cf_sender_pubkey_hex funding then (Inl SenderKeyMismatch, fs, w)
      else
        attempt (map_err RefundText (secret_key_from_hex rlib (sk_secret_hex sender_key))) (fs, w) (\<lambda>sender_secret.
        case recover_refund rlib http lib env open_service channel_id funding unit channel sender_secret w of
          (Inl e, w) \<Rightarrow> (Inl e, fs, w)
        | (Inr None, w) \<Rightarrow>
            (Inr \<lparr>rf_channel_id = channel_id, rf_mint_url = cf_mint_url funding, rf_unit = unit, rf_complete = False,
                  rf_recovered_amount_sat = 0, rf_imported_amount_sat = 0, rf_proof_count = 0\<rparr>, fs, w)
        | (Inr (Some result), w) \<Rightarrow>
            (case set_closed os codec channel_id storage fs of
               (storage, fs) \<Rightarrow> (map_err RefundClient (and_then (ensure_ok storage) (\<lambda>_. Inr result)), fs, w))))"

definition channel_unit_of ::
    "('k, 'q, 'c, 's, 'w) refund_lib \<Rightarrow> ClientChannelFunding \<Rightarrow> RefundError + string" where
  "channel_unit_of rlib funding =
     and_then (map_err RefundText (json_from_str rlib (cf_params_json funding))) (\<lambda>params.
     Inr (case str_field ''unit'' params of Some unit \<Rightarrow> unit | None \<Rightarrow> ''sat''))"

definition restore_refund_with_lock ::
    "os \<Rightarrow> key_lib \<Rightarrow> (ClientChannelFunding, 'p) store_codec \<Rightarrow> (nat \<Rightarrow> file_system \<Rightarrow> file_system) \<Rightarrow> nat \<Rightarrow> nat
       \<Rightarrow> ('k, 'q, 'c, 's, 'w) refund_lib \<Rightarrow> 'w http \<Rightarrow> 'u wallet_lib \<Rightarrow> activity_env
       \<Rightarrow> ('w \<Rightarrow> (TransferError + 'w local_store \<times> 'w wallet_repository) \<times> 'w)
       \<Rightarrow> path \<Rightarrow> string \<Rightarrow> SharedSpilmanClientStoreLock \<Rightarrow> file_system \<times> 'w
       \<Rightarrow> ((RefundError + StreamingRouteRestoreCashuSpilmanRefundResult) \<times> file_system \<times> 'w) option" where
  "restore_refund_with_lock os klib codec others draws fuel rlib http lib env open_service data_dir channel_id lock s =
     (let channel_id = trim channel_id; (fs, w) = s in
      if channel_id = [] then Some (Inl RefundWithoutChannel, fs, w)
      else
        case require_lock_for_data_dir data_dir lock of
          Inl e \<Rightarrow> Some (Inl (RefundClient e), fs, w)
        | Inr lock \<Rightarrow>
            (case load_with_lock os codec lock fs of
               (Inl e, fs) \<Rightarrow> Some (Inl (RefundClient e), fs, w)
             | (Inr storage, fs) \<Rightarrow>
                 (case get_funding channel_id storage of
                    None \<Rightarrow> Some (Inl (ChannelNotFound channel_id), fs, w)
                  | Some funding \<Rightarrow>
                      (case channel_unit_of rlib funding of
                         Inl e \<Rightarrow> Some (Inl e, fs, w)
                       | Inr unit \<Rightarrow>
                           if get_state channel_id storage = ClientClosed
                           then Some (Inr (complete_result channel_id (cf_mint_url funding) unit 0 0 0), fs, w)
                           else
                             (case channel_of_funding rlib funding of
                                Inl e \<Rightarrow> Some (Inl e, fs, w)
                              | Inr channel \<Rightarrow>
                                  (case load_or_create_cashu_spilman_sender_key os klib others draws fuel data_dir fs of
                                     None \<Rightarrow> None
                                   | Some (Inl e, fs) \<Rightarrow> Some (Inl (RefundClient e), fs, w)
                                   | Some (Inr sender_key, fs) \<Rightarrow>
                                       Some (finish_refund os codec rlib http lib env open_service channel_id funding unit
                                         channel sender_key storage (fs, w))))))))"

text \<open>With a lock of its own, which is dropped at the end.\<close>

definition restore_refund ::
    "os \<Rightarrow> key_lib \<Rightarrow> (ClientChannelFunding, 'p) store_codec \<Rightarrow> (nat \<Rightarrow> file_system \<Rightarrow> file_system) \<Rightarrow> nat \<Rightarrow> nat
       \<Rightarrow> ('k, 'q, 'c, 's, 'w) refund_lib \<Rightarrow> 'w http \<Rightarrow> 'u wallet_lib \<Rightarrow> activity_env
       \<Rightarrow> ('w \<Rightarrow> (TransferError + 'w local_store \<times> 'w wallet_repository) \<times> 'w)
       \<Rightarrow> path \<Rightarrow> string \<Rightarrow> locked_files \<times> 'w
       \<Rightarrow> ((RefundError + StreamingRouteRestoreCashuSpilmanRefundResult) \<times> locked_files \<times> 'w) option" where
  "restore_refund os klib codec others draws fuel rlib http lib env open_service data_dir channel_id s =
     (let (files, w) = s in
      case acquire os others fuel (spilman_client_store_path data_dir) files of
        None \<Rightarrow> None
      | Some (Inl e, files) \<Rightarrow> Some (Inl (RefundClient e), files, w)
      | Some (Inr lock, files) \<Rightarrow>
          map_option (\<lambda>(r, fs, w). (r, drop_lock lock (files\<lparr>lf_files := fs\<rparr>), w))
            (restore_refund_with_lock os klib codec others draws fuel rlib http lib env open_service data_dir channel_id
               lock (lf_files files, w)))"

end
