(* ===== verification/Spilman_Refund_Properties.thy ===== *)
theory Spilman_Refund_Properties
  imports Spilman_Refund Spilman_Open_Properties Wallet_Activity_Properties
begin

text \<open>
  A refund is recovered once: a channel is marked as closed only after its proofs were imported, and from
  then on recovering it again answers from the file.
\<close>

lemma store_path_names_file: "names_file (spilman_client_store_path data_dir)"
  by (simp add: names_file_def spilman_client_store_path_def join_def append_eq_Cons_conv)

text \<open>A snapshot that was written is on disk, whatever the file held before.\<close>

lemma saved_holds:
  assumes "store_codec_ok codec" "names_file path" "store_wf state" "client_save os codec path state fs = (Inr (), fs')"
  shows "client_holds codec path state fs'"
proof -
  obtain content where c: "store_to_string codec state = Inr content"
      "write_atomic_private os path content fs = (Inr (), fs')"
    using assms(4) by (cases "store_to_string codec state")
      (auto simp: client_save_def write_snapshot_def result_simps split: prod.splits)
  note s = store_codec_okD(1) [OF assms(1,3) c(1)]
  obtain persisted where "write_atomic_private_inner os path content True fs = (Inr persisted, fs')"
    using c(2) by (auto simp: write_atomic_private_def result_simps)
  then have "readable path content fs'"
    using outcomeD(2) [OF outcome_conj [OF write_readable [OF assms(2), of content os True fs]
      write_inner_outcome [OF assms(2), of os content True fs]]] s
    by (auto split: if_splits)
  then show ?thesis using assms(1-3) s by (auto simp: client_holds_def content_holds_def)
qed

text \<open>A channel that is closed in the file is answered from the file.\<close>

lemma closed_channel_restores:
  assumes "client_holds codec (lk_store_path lock) state fs" "faultless os"
    and "require_lock_for_data_dir data_dir lock = Inr lock" "trim channel_id \<noteq> []"
    and "bm_get (sf_funding state) (trim channel_id) = Some funding" "bm_get (sf_closed state) (trim channel_id) \<noteq> None"
    and "channel_unit_of rlib funding = Inr unit"
  shows "\<exists>fs'. restore_refund_with_lock os klib codec others draws fuel rlib http lib env open_service data_dir channel_id
      lock (fs, w) = Some (Inr (complete_result (trim channel_id) (cf_mint_url funding) unit 0 0 0), fs', w)"
proof -
  obtain fs' where "load_with_lock os codec lock fs =
      (Inr \<lparr>fs_path = lk_store_path lock, fs_state = state, fs_last_error = None, fs_lock = lock\<rparr>, fs')"
    using holds_loads [OF assms(1,2)] by (cases lock) auto
  then show ?thesis
    using assms(3-7) by (auto simp: restore_refund_with_lock_def Let_def get_funding_def get_state_def)
qed

lemma recovered_result:
  assumes "recover_refund rlib http lib env open_service channel_id funding unit channel secret w = (Inr (Some result), w')"
  shows "\<exists>a b c. result = complete_result channel_id (cf_mint_url funding) unit a b c"
  using assms by (auto simp: recover_refund_def Let_def result_simps on_error_eq split: if_splits)

text \<open>The files are written only after the proofs were recovered and imported.\<close>

lemma written_after_import:
  assumes "finish_refund os codec rlib http lib env open_service channel_id funding unit channel sender_key storage (fs, w)
      = (r, fs', w')"
  shows "fs' = fs \<or> (\<exists>secret result. recover_refund rlib http lib env open_service channel_id funding unit channel secret w
      = (Inr (Some result), w'))"
proof (cases "secret_key_from_hex rlib (sk_secret_hex sender_key)")
  case (Inl e)
  then show ?thesis using assms by (simp add: finish_refund_def split: if_splits)
next
  case (Inr secret)
  obtain answer w1 where "recover_refund rlib http lib env open_service channel_id funding unit channel secret w = (answer, w1)"
    by fastforce
  then show ?thesis
    using assms Inr by (auto simp: finish_refund_def split: if_splits sum.splits option.splits prod.splits)
qed

text \<open>A complete result is only returned for a channel that the file now holds as closed.\<close>

lemma finished_refund:
  assumes "finish_refund os codec rlib http lib env open_service channel_id funding unit channel sender_key storage (fs, w)
      = (Inr result, fs', w')" "rf_complete result"
    and "store_codec_ok codec" "names_file (fs_path storage)" "store_wf (fs_state storage)"
  shows "client_holds codec (fs_path storage) (state_step (fs_state storage) (SetClosed channel_id)) fs'
    \<and> (\<exists>a b c. result = complete_result channel_id (cf_mint_url funding) unit a b c)"
proof -
  obtain secret where secret: "secret_key_from_hex rlib (sk_secret_hex sender_key) = Inr secret"
      "sk_public_key_hex sender_key = cf_sender_pubkey_hex funding"
    using assms(1) by (auto simp: finish_refund_def result_simps split: if_splits)
  obtain answer w1 where answer:
      "recover_refund rlib http lib env open_service channel_id funding unit channel secret w = (answer, w1)" by fastforce
  obtain storage' fs1 where closed: "set_closed os codec channel_id storage fs = (storage', fs1)" by fastforce
  have "answer = Inr (Some result) \<and> fs1 = fs' \<and> ensure_ok storage' = Inr ()"
    using assms(1,2) secret answer closed
    by (auto simp: finish_refund_def result_simps split: sum.splits option.splits)
  then have r: "recover_refund rlib http lib env open_service channel_id funding unit channel secret w
        = (Inr (Some result), w1)"
      and closed: "set_closed os codec channel_id storage fs = (storage', fs')" "ensure_ok storage' = Inr ()"
    using answer closed by simp_all
  obtain u where "client_save os codec (fs_path storage) (state_step (fs_state storage) (SetClosed channel_id)) fs
      = (Inr u, fs')"
    using closed
    by (auto simp: set_closed_def persist_save ensure_ok_def last_error_def split: prod.splits sum.splits option.splits)
  then have "client_save os codec (fs_path storage) (state_step (fs_state storage) (SetClosed channel_id)) fs
      = (Inr (), fs')"
    by simp
  from saved_holds [OF assms(3,4) state_step_wf [OF assms(5)] this] recovered_result [OF r] show ?thesis by simp
qed

lemma required_lock: "require_lock_for_data_dir data_dir lock = Inr lock' \<Longrightarrow>
    lock' = lock \<and> lk_store_path lock = spilman_client_store_path data_dir"
  by (auto simp: require_lock_for_data_dir_def Let_def split: if_splits)

lemma channel_known:
  assumes "store_wf state" "bm_get (sf_funding state) channel_id = Some funding"
  shows "bm_get (sf_funding (state_step state (SetClosed channel_id))) channel_id = Some funding"
    "bm_get (sf_closed (state_step state (SetClosed channel_id))) channel_id \<noteq> None"
  using assms by (simp_all add: store_wf_def bm.get_insert)

text \<open>What a call that returns a complete result leaves in the file.\<close>

lemma complete_refund_stored:
  assumes codec: "store_codec_ok codec" and placed: "placed (lk_store_path lock) fs"
    and run: "restore_refund_with_lock os klib codec others draws fuel rlib http lib env open_service data_dir channel_id
        lock (fs, w) = Some (Inr result, fs', w')" "rf_complete result"
  shows "\<exists>state funding unit a b c. client_holds codec (lk_store_path lock) state fs'
    \<and> require_lock_for_data_dir data_dir lock = Inr lock \<and> trim channel_id \<noteq> []
    \<and> bm_get (sf_funding state) (trim channel_id) = Some funding \<and> bm_get (sf_closed state) (trim channel_id) \<noteq> None
    \<and> channel_unit_of rlib funding = Inr unit
    \<and> result = complete_result (trim channel_id) (cf_mint_url funding) unit a b c"
proof -
  have id: "trim channel_id \<noteq> []" and lock: "require_lock_for_data_dir data_dir lock = Inr lock"
    using run(1) required_lock [of data_dir lock]
    by (auto simp: restore_refund_with_lock_def Let_def split: if_splits sum.splits)
  then have path: "lk_store_path lock = spilman_client_store_path data_dir" using required_lock by blast
  obtain storage fs1 where load: "load_with_lock os codec lock fs = (Inr storage, fs1)"
    using run(1) id lock by (cases "load_with_lock os codec lock fs"; cases "fst (load_with_lock os codec lock fs)")
      (auto simp: restore_refund_with_lock_def Let_def)
  have names: "names_file (lk_store_path lock)" unfolding path by (rule store_path_names_file)
  note l = loaded_holds [OF load codec names placed]
  have wf: "store_wf (fs_state storage)" using l(1) by (simp add: client_holds_def)
  obtain funding unit where f: "bm_get (sf_funding (fs_state storage)) (trim channel_id) = Some funding"
      "channel_unit_of rlib funding = Inr unit"
    using run(1) id lock load
    by (auto simp: restore_refund_with_lock_def Let_def get_funding_def split: option.splits sum.splits if_splits)
  show ?thesis
  proof (cases "get_state (trim channel_id) storage = ClientClosed")
    case True
    then have "result = complete_result (trim channel_id) (cf_mint_url funding) unit 0 0 0 \<and> fs' = fs1"
      using run(1) id lock load f by (simp add: restore_refund_with_lock_def Let_def get_funding_def)
    moreover have "bm_get (sf_closed (fs_state storage)) (trim channel_id) \<noteq> None"
      using True f(1) by (simp add: get_state_def split: if_splits)
    ultimately show ?thesis using l(1) f lock id by blast
  next
    case False
    then obtain channel sender_key fs2 where
        "finish_refund os codec rlib http lib env open_service (trim channel_id) funding unit channel sender_key storage (fs2, w)
          = (Inr result, fs', w')"
      using run(1) id lock load f
      by (auto simp: restore_refund_with_lock_def Let_def get_funding_def split: sum.splits option.splits prod.splits)
    from finished_refund [OF this run(2) codec names [folded l(2)] wf]
    show ?thesis
      using channel_known [OF wf f(1)] f(2) lock id unfolding l(2)
      by (intro exI [of _ "state_step (fs_state storage) (SetClosed (trim channel_id))"] exI [of _ funding] exI [of _ unit])
        (simp del: state_step.simps)
  qed
qed

text \<open>C38. A refund is recovered once. When recovering the refund of a channel reports that it is complete,
  the channel is closed in the file of the buyer, and every later call, of any process, with any state of
  the mint and the wallet, reports the same channel as complete with nothing recovered or imported and
  touches neither the mint nor the wallet.\<close>

theorem refund_recovered_once:
  assumes "store_codec_ok codec" "placed (lk_store_path lock) fs" "faultless os'"
    and "restore_refund_with_lock os klib codec others draws fuel rlib http lib env open_service data_dir channel_id
        lock (fs, w) = Some (Inr result, fs', w')" "rf_complete result"
  shows "\<exists>fs''. restore_refund_with_lock os' klib' codec others' draws' fuel' rlib http' lib' env' open_service' data_dir
      channel_id lock (fs', later) = Some (Inr (result\<lparr>rf_recovered_amount_sat := 0, rf_imported_amount_sat := 0,
        rf_proof_count := 0\<rparr>), fs'', later)"
proof -
  obtain state funding unit a b c where "client_holds codec (lk_store_path lock) state fs'"
      "require_lock_for_data_dir data_dir lock = Inr lock" "trim channel_id \<noteq> []"
      "bm_get (sf_funding state) (trim channel_id) = Some funding" "bm_get (sf_closed state) (trim channel_id) \<noteq> None"
      "channel_unit_of rlib funding = Inr unit"
    and result: "result = complete_result (trim channel_id) (cf_mint_url funding) unit a b c"
    using complete_refund_stored [OF assms(1,2,4,5)] by blast
  from closed_channel_restores [OF this(1) assms(3) this(2-6)] show ?thesis by (simp add: result complete_result_def)
qed

text \<open>A channel whose funding is spent and of which nothing is left: its refund is complete with no proofs.\<close>

definition settled_funding :: ClientChannelFunding where
  "settled_funding = \<lparr>cf_params_json = ''{}'', cf_funding_proofs_json = ''[]'', cf_channel_secret_hex = ''00'',
     cf_keyset_info_json = ''k'', cf_sender_pubkey_hex = ''02ab'', cf_capacity = 100, cf_funding_token_amount = 100,
     cf_mint_url = ''https://m/'', cf_created_at = 1\<rparr>"

definition settled_state :: "(ClientChannelFunding, nat) SpilmanClientStoreFile" where
  "settled_state = store_file_new\<lparr>sf_funding := [(''c'', settled_funding)]\<rparr>"

definition refunded_state :: "(ClientChannelFunding, nat) SpilmanClientStoreFile" where
  "refunded_state = settled_state\<lparr>sf_closed := [(''c'', ())]\<rparr>"

definition refund_codec :: "(ClientChannelFunding, nat) store_codec" where
  "refund_codec = \<lparr>
     store_to_string = (\<lambda>state. if sf_closed state = [] then if state = settled_state then Inr ''settled'' else Inl ''no text''
       else if state = refunded_state then Inr ''refunded'' else Inl ''no text''),
     store_from_str = (\<lambda>content. if content = ''settled'' then Inr settled_state
       else if content = ''refunded'' then Inr refunded_state else Inl ''no value'')\<rparr>"

definition example_refunds :: "(unit, unit, unit, unit, nat) refund_lib" where
  "example_refunds = \<lparr>json_from_str = (\<lambda>s. Inr (JsonObject [])), parse_keyset_info = (\<lambda>s. Inr ()),
     hex_decode = (\<lambda>s. Inr (replicate 32 0)), channel_parameters = (\<lambda>_ _ _. Inr ()),
     funding_proofs_from_str = (\<lambda>s. Inr []), established_channel = (\<lambda>_ _. Inr ()), secret_key_from_hex = (\<lambda>s. Inr ()),
     check_funding_token_state = (\<lambda>_ _ w. (Inr ProofSpent, Suc w)), restore_sender_proofs = (\<lambda>_ _ _ _ w. (Inr [], Suc w)),
     proofs_to_string = (\<lambda>proofs. Inr ''[]'')\<rparr>"

definition example_http :: "nat http" where
  "example_http = \<lparr>http_get_json = (\<lambda>url w. (Inr (JsonObject [(''keysets'', JsonArray [JsonObject
       [(''active'', JsonBool True), (''id'', JsonString ''00a''), (''keys'', JsonObject []), (''unit'', JsonString ''sat'')]])]),
       Suc w)),
     http_post = (\<lambda>url body w. (Inl ''offline'', w)), json_to_string = (\<lambda>v. ''k'')\<rparr>"

definition settled_files :: file_system where
  "settled_files = [[''data''] \<mapsto> new_inode example_os Directory 0x1ED [],
     [''data'', ''spilman-client.json''] \<mapsto> new_inode example_os RegularFile 0x180 ''settled'',
     [''data'', ''spilman-sender-key.json''] \<mapsto> new_inode example_os RegularFile 0x180 ''own'']"

lemma refund_codec_ok: "store_codec_ok refund_codec"
proof -
  have "is_utf8 ''settled'' \<and> is_utf8 ''refunded'' \<and> trim ''settled'' \<noteq> [] \<and> trim ''refunded'' \<noteq> []" by code_simp
  moreover have "store_wf settled_state \<and> store_wf refunded_state" by code_simp
  ultimately show ?thesis
    by (auto simp: store_codec_ok_def refund_codec_def store_wf_def split: if_splits)
qed

definition refund_env :: activity_env where
  "refund_env = \<lparr>ae_id_unix = 1, ae_now_unix = 1, ae_suffix = []\<rparr>"

text \<open>The wallet is never opened, because there is nothing to import.\<close>

definition example_restore :: "file_system \<times> nat
    \<Rightarrow> ((RefundError + StreamingRouteRestoreCashuSpilmanRefundResult) \<times> file_system \<times> nat) option" where
  "example_restore = restore_refund_with_lock example_os example_keys refund_codec (\<lambda>i fs. fs) 1 1 example_refunds example_http
     example_wallet_lib refund_env (\<lambda>w. (Inl (Bail ''no wallet''), w)) [''data''] '' c ''
     \<lparr>lk_store_path = [''data'', ''spilman-client.json'']\<rparr>"

theorem refund_recovered_once_witness:
  "\<exists>fs' fs''. example_restore (settled_files, 0) = Some (Inr (complete_result ''c'' ''https://m/'' ''sat'' 0 0 0), fs', 4)
     \<and> example_restore (fs', 7) = Some (Inr (complete_result ''c'' ''https://m/'' ''sat'' 0 0 0), fs'', 7)"
proof -
  let ?lock = "\<lparr>lk_store_path = [''data'', ''spilman-client.json'']\<rparr>"
  let ?result = "complete_result ''c'' ''https://m/'' ''sat'' 0 0 0"
  define run where "run = example_restore (settled_files, 0)"
  have "map_option (\<lambda>(r, fs, w). (r, w)) run = Some (Inr ?result, 4)" unfolding run_def by code_simp
  then obtain fs' where run: "example_restore (settled_files, 0) = Some (Inr ?result, fs', 4)"
    by (auto simp: run_def)
  have placed: "placed (lk_store_path ?lock) settled_files"
    by (simp add: placed_def settled_files_def parent_or_dot_def)
  have "rf_complete ?result" by (simp add: complete_result_def)
  from refund_recovered_once [OF refund_codec_ok placed example_faultless run [unfolded example_restore_def] this, of
      example_keys "\<lambda>i fs. fs" 1 1 example_http example_wallet_lib refund_env "\<lambda>w. (Inl (Bail ''no wallet''), w)" 7]
  obtain fs'' where "example_restore (fs', 7) = Some (Inr ?result, fs'', 7)"
    unfolding example_restore_def by (auto simp: complete_result_def)
  then show ?thesis using run by blast
qed

end
